(* ===== verification/Maya_Prelude.thy ===== *)
theory Maya_Prelude
  imports Complex_Main
begin

text \<open>
  The vocabulary every component theory shares: Python exceptions as values, the
  computation type of methods that change state and may raise, the combinators that
  mirror \<open>raise\<close>, \<open>try/except\<close> and \<open>try/finally\<close>, a weakest-precondition calculus
  for them, and generic facts on lists, strings and association lists.
\<close>

section \<open>Exceptions\<close>

text \<open>
  The classes of exception the modelled code raises or tells apart in an \<open>except\<close>
  clause. \<open>OtherException\<close> is any other subclass of Python's \<open>Exception\<close>,
  \<open>OtherBaseException\<close> what derives from \<open>BaseException\<close> only
  (\<open>KeyboardInterrupt\<close>, \<open>SystemExit\<close>, \<open>GeneratorExit\<close>).
\<close>

datatype exc_class =
    GovernanceBoundaryError
  | ActionDeniedError
  | ConfigError
  | ConfigProfileError
  | CandidateSessionClientError
  | PyValueError
  | PyKeyError
  | PyTypeError
  | PyAttributeError
  | PyRecursionError
  | PyRuntimeError
  | PyOSError
  | PyImportError
  | LockException
  | SqliteError
  | BrokerProtocolError
  | BrokerOperationError
  | SecretReferenceError
  | SecretStoreError
  | InvalidSignature
  | OtherException
  | CancelledError
  | OtherBaseException

datatype pyexc = Exc (exc_class_of: exc_class) (exc_message: string)

text \<open>What \<open>except Exception\<close> catches: everything but the two base classes.\<close>

definition is_exception :: "pyexc \<Rightarrow> bool" where
  "is_exception e \<longleftrightarrow> exc_class_of e \<noteq> CancelledError \<and> exc_class_of e \<noteq> OtherBaseException"

definition is_boundary :: "pyexc \<Rightarrow> bool" where
  "is_boundary e \<longleftrightarrow> exc_class_of e = GovernanceBoundaryError"

abbreviation boundary :: "string \<Rightarrow> pyexc" where
  "boundary reason \<equiv> Exc GovernanceBoundaryError (''governance.'' @ reason)"

lemma is_boundary_simps [simp]:
  "is_boundary (Exc GovernanceBoundaryError m)"
  "is_boundary (Exc c m) \<longleftrightarrow> c = GovernanceBoundaryError"
  "is_exception (Exc c m) \<longleftrightarrow> c \<noteq> CancelledError \<and> c \<noteq> OtherBaseException"
  by (auto simp: is_boundary_def is_exception_def)

section \<open>Fallible functions\<close>

type_synonym 'a res = "pyexc + 'a"

definition bindR :: "'a res \<Rightarrow> ('a \<Rightarrow> 'b res) \<Rightarrow> 'b res" where
  "bindR r f = (case r of Inl e \<Rightarrow> Inl e | Inr a \<Rightarrow> f a)"

definition requireR :: "bool \<Rightarrow> pyexc \<Rightarrow> unit res" where
  "requireR c e = (if c then Inr () else Inl e)"

definition is_ok :: "'a res \<Rightarrow> bool" where
  "is_ok r = (case r of Inl _ \<Rightarrow> False | Inr _ \<Rightarrow> True)"

fun mapR :: "('a \<Rightarrow> 'b res) \<Rightarrow> 'a list \<Rightarrow> 'b list res" where
  "mapR f [] = Inr []"
| "mapR f (x # xs) = bindR (f x) (\<lambda>y. bindR (mapR f xs) (\<lambda>ys. Inr (y # ys)))"

fun all_okR :: "('a \<Rightarrow> unit res) \<Rightarrow> 'a list \<Rightarrow> unit res" where
  "all_okR f [] = Inr ()"
| "all_okR f (x # xs) = bindR (f x) (\<lambda>_. all_okR f xs)"

lemma bindR_simps [simp]:
  "bindR (Inl e) f = Inl e"
  "bindR (Inr a) f = f a"
  by (simp_all add: bindR_def)

lemma requireR_simps [simp]:
  "requireR True e = Inr ()"
  "requireR False e = Inl e"
  by (simp_all add: requireR_def)

lemma is_ok_simps [simp]:
  "is_ok (Inr a)"
  "\<not> is_ok (Inl e)"
  by (simp_all add: is_ok_def)

lemma bindR_Inr_iff:
  "bindR r f = Inr b \<longleftrightarrow> (\<exists>a. r = Inr a \<and> f a = Inr b)"
  by (cases r) auto

lemma bindR_Inl_iff:
  "bindR r f = Inl e \<longleftrightarrow> r = Inl e \<or> (\<exists>a. r = Inr a \<and> f a = Inl e)"
  by (cases r) auto

lemma requireR_iff:
  "requireR c e = Inr u \<longleftrightarrow> c"
  "requireR c e = Inl e' \<longleftrightarrow> \<not> c \<and> e' = e"
  by (auto simp: requireR_def)

lemma bindR_requireR_Inr_iff:
  "bindR (requireR c e) f = Inr b \<longleftrightarrow> c \<and> f () = Inr b"
  by (auto simp: requireR_def)

lemma bindR_unit_Inr_iff:
  "bindR (r :: unit res) f = Inr b \<longleftrightarrow> r = Inr () \<and> f () = Inr b"
  by (cases r) auto

lemmas res_iffs = bindR_Inr_iff bindR_Inl_iff requireR_iff bindR_requireR_Inr_iff

lemma all_okR_iff: "all_okR f xs = Inr u \<longleftrightarrow> (\<forall>x \<in> set xs. f x = Inr ())"
  by (induction xs) (auto simp: res_iffs)

lemma mapR_Inr_iff:
  "mapR f xs = Inr ys \<longleftrightarrow> list_all2 (\<lambda>x y. f x = Inr y) xs ys"
proof (induction xs arbitrary: ys)
  case Nil
  then show ?case by auto
next
  case (Cons x xs)
  then show ?case by (cases ys) (auto simp: res_iffs)
qed

lemma mapR_mem:
  "mapR f xs = Inr ys \<Longrightarrow> y \<in> set ys \<Longrightarrow> \<exists>x \<in> set xs. f x = Inr y"
  by (induction xs arbitrary: ys) (auto simp: res_iffs)

section \<open>Computations over a state\<close>

text \<open>
  A Python method that reads and writes state and may raise: the state changes made
  before the exception stay, as they do in Python.
\<close>

type_synonym ('s, 'a) py = "'s \<Rightarrow> 'a res \<times> 's"

definition ret :: "'a \<Rightarrow> ('s, 'a) py" where
  "ret a s = (Inr a, s)"

definition raise :: "pyexc \<Rightarrow> ('s, 'a) py" where
  "raise e s = (Inl e, s)"

definition bnd :: "('s, 'a) py \<Rightarrow> ('a \<Rightarrow> ('s, 'b) py) \<Rightarrow> ('s, 'b) py" where
  "bnd m f s = (case m s of (Inl e, t) \<Rightarrow> (Inl e, t) | (Inr a, t) \<Rightarrow> f a t)"

definition gets :: "('s \<Rightarrow> 'a) \<Rightarrow> ('s, 'a) py" where
  "gets f s = (Inr (f s), s)"

definition modify :: "('s \<Rightarrow> 's) \<Rightarrow> ('s, unit) py" where
  "modify f s = (Inr (), f s)"

definition require :: "bool \<Rightarrow> pyexc \<Rightarrow> ('s, unit) py" where
  "require c e = (if c then ret () else raise e)"

definition lift :: "'a res \<Rightarrow> ('s, 'a) py" where
  "lift r s = (r, s)"

text \<open>\<open>try: m except ... : handler\<close>; the handler re-raises what the clauses do not catch.\<close>

definition try_except :: "('s, 'a) py \<Rightarrow> (pyexc \<Rightarrow> ('s, 'a) py) \<Rightarrow> ('s, 'a) py" where
  "try_except m h s = (case m s of (Inl e, t) \<Rightarrow> h e t | (Inr a, t) \<Rightarrow> (Inr a, t))"

text \<open>\<open>try: m finally: f\<close>; an exception of the \<open>finally\<close> block replaces the outcome.\<close>

definition try_finally :: "('s, 'a) py \<Rightarrow> ('s, unit) py \<Rightarrow> ('s, 'a) py" where
  "try_finally m f s =
     (case m s of (r, t) \<Rightarrow> (case f t of (Inl e, u) \<Rightarrow> (Inl e, u) | (Inr _, u) \<Rightarrow> (r, u)))"

fun for_each :: "'a list \<Rightarrow> ('a \<Rightarrow> ('s, unit) py) \<Rightarrow> ('s, unit) py" where
  "for_each [] f = ret ()"
| "for_each (x # xs) f = bnd (f x) (\<lambda>_. for_each xs f)"

lemma bnd_assoc: "bnd (bnd m f) g = bnd m (\<lambda>a. bnd (f a) g)"
  by (rule ext) (simp add: bnd_def split: prod.splits sum.splits)

lemma bnd_ret [simp]: "bnd (ret a) f = f a"
  by (rule ext) (simp add: bnd_def ret_def)

text \<open>The runs of a sequence.\<close>

lemma bnd_return:
  assumes "bnd m f s = (Inr b, t)"
  obtains a u where "m s = (Inr a, u)" "f a u = (Inr b, t)"
  using assms by (auto simp: bnd_def split: prod.splits sum.splits)

lemma bnd_raised:
  assumes "bnd m f s = (Inl e, t)"
  obtains "m s = (Inl e, t)" | a u where "m s = (Inr a, u)" "f a u = (Inl e, t)"
  using assms by (auto simp: bnd_def split: prod.splits sum.splits)

section \<open>Weakest preconditions\<close>

named_theorems wp "weakest preconditions of the combinators and of the operations"

definition wlp :: "('s, 'a) py \<Rightarrow> ('a \<Rightarrow> 's \<Rightarrow> bool) \<Rightarrow> (pyexc \<Rightarrow> 's \<Rightarrow> bool) \<Rightarrow> 's \<Rightarrow> bool" where
  "wlp m Q E s = (case m s of (Inl e, t) \<Rightarrow> E e t | (Inr a, t) \<Rightarrow> Q a t)"

lemma wp_ret [wp]: "wlp (ret a) Q E = Q a"
  by (rule ext) (simp add: wlp_def ret_def)

lemma wp_raise [wp]: "wlp (raise e) Q E = E e"
  by (rule ext) (simp add: wlp_def raise_def)

lemma wp_gets [wp]: "wlp (gets f) Q E = (\<lambda>s. Q (f s) s)"
  by (rule ext) (simp add: wlp_def gets_def)

lemma wp_modify [wp]: "wlp (modify f) Q E = (\<lambda>s. Q () (f s))"
  by (rule ext) (simp add: wlp_def modify_def)

lemma wp_bnd [wp]: "wlp (bnd m f) Q E = wlp m (\<lambda>a. wlp (f a) Q E) E"
  by (rule ext) (simp add: wlp_def bnd_def split: prod.splits sum.splits)

lemma wp_require [wp]: "wlp (require c e) Q E = (if c then Q () else E e)"
  by (simp add: require_def wp_ret wp_raise)

lemma wp_lift [wp]: "wlp (lift r) Q E = (case r of Inl e \<Rightarrow> E e | Inr a \<Rightarrow> Q a)"
  by (rule ext) (simp add: wlp_def lift_def split: sum.splits)

lemma wp_try_except [wp]:
  "wlp (try_except m h) Q E = wlp m Q (\<lambda>e. wlp (h e) Q E)"
  by (rule ext) (simp add: wlp_def try_except_def split: prod.splits sum.splits)

lemma wp_try_finally [wp]:
  "wlp (try_finally m f) Q E =
     wlp m (\<lambda>a. wlp f (\<lambda>_. Q a) E) (\<lambda>e. wlp f (\<lambda>_. E e) E)"
  by (rule ext) (simp add: wlp_def try_finally_def split: prod.splits sum.splits)

lemma wp_if [wp]:
  "wlp (if c then m else n) Q E = (if c then wlp m Q E else wlp n Q E)"
  by simp

lemma wp_for_each [wp]:
  "wlp (for_each [] f) Q E = Q ()"
  "wlp (for_each (x # xs) f) Q E = wlp (f x) (\<lambda>_. wlp (for_each xs f) Q E) E"
  by (simp_all add: wp_ret wp_bnd)

lemma wlp_mono:
  assumes "wlp m Q E s"
    and "\<And>a t. Q a t \<Longrightarrow> Q' a t"
    and "\<And>e t. E e t \<Longrightarrow> E' e t"
  shows "wlp m Q' E' s"
  using assms by (auto simp: wlp_def split: prod.splits sum.splits)

lemma wlp_conj:
  "wlp m (\<lambda>a t. Q a t \<and> Q' a t) (\<lambda>e t. E e t \<and> E' e t) s \<longleftrightarrow> wlp m Q E s \<and> wlp m Q' E' s"
  by (auto simp: wlp_def split: prod.splits sum.splits)

lemma wlp_True [simp]: "wlp m (\<lambda>_ _. True) (\<lambda>_ _. True) = (\<lambda>_. True)"
  by (rule ext) (simp add: wlp_def split: prod.splits sum.splits)

lemma wlp_both:
  assumes "wlp m Q E s" and "wlp m Q' E' s"
    and "\<And>a t. Q a t \<Longrightarrow> Q' a t \<Longrightarrow> R a t" and "\<And>e t. E e t \<Longrightarrow> E' e t \<Longrightarrow> F e t"
  shows "wlp m R F s"
  using assms by (auto simp: wlp_def split: prod.splits sum.splits)

lemma wlp_run:
  "wlp m Q E s \<Longrightarrow> m s = (Inr a, t) \<Longrightarrow> Q a t"
  "wlp m Q E s \<Longrightarrow> m s = (Inl e, t) \<Longrightarrow> E e t"
  by (simp_all add: wlp_def)

lemma wlp_result: "wlp m (\<lambda>_. P) (\<lambda>_. P) s \<Longrightarrow> m s = (r, t) \<Longrightarrow> P t"
  by (cases r) (simp_all add: wlp_def)

lemma wlpI:
  assumes "\<And>a t. m s = (Inr a, t) \<Longrightarrow> Q a t" and "\<And>e t. m s = (Inl e, t) \<Longrightarrow> E e t"
  shows "wlp m Q E s"
  using assms by (auto simp: wlp_def split: prod.splits sum.splits)

text \<open>A state property every outcome of a computation keeps.\<close>

definition keeps :: "('s \<Rightarrow> bool) \<Rightarrow> ('s, 'a) py \<Rightarrow> bool" where
  "keeps I m \<longleftrightarrow> (\<forall>s. I s \<longrightarrow> wlp m (\<lambda>_. I) (\<lambda>_. I) s)"

named_theorems keeps_intro "how the combinators keep a state property"

lemma keepsI: "(\<And>s. I s \<Longrightarrow> wlp m (\<lambda>_. I) (\<lambda>_. I) s) \<Longrightarrow> keeps I m"
  by (simp add: keeps_def)

lemma keepsD: "keeps I m \<Longrightarrow> I s \<Longrightarrow> wlp m (\<lambda>_. I) (\<lambda>_. I) s"
  by (simp add: keeps_def)

lemma keeps_run: "keeps I m \<Longrightarrow> I s \<Longrightarrow> m s = (r, t) \<Longrightarrow> I t"
  by (cases r) (auto dest!: keepsD simp: wlp_def)

lemma keeps_ret [keeps_intro]: "keeps I (ret a)"
  by (simp add: keeps_def wp)

lemma keeps_raise [keeps_intro]: "keeps I (raise e)"
  by (simp add: keeps_def wp)

lemma keeps_gets [keeps_intro]: "keeps I (gets f)"
  by (simp add: keeps_def wp)

lemma keeps_require [keeps_intro]: "keeps I (require c e)"
  by (simp add: keeps_def wp)

lemma keeps_lift [keeps_intro]: "keeps I (lift r)"
  by (simp add: keeps_def wp split: sum.splits)

lemma keeps_bnd [keeps_intro]: "keeps I m \<Longrightarrow> (\<And>a. keeps I (f a)) \<Longrightarrow> keeps I (bnd m f)"
  unfolding keeps_def wp_bnd by (blast intro: wlp_mono)

lemma keeps_try_except [keeps_intro]:
  "keeps I m \<Longrightarrow> (\<And>e. keeps I (h e)) \<Longrightarrow> keeps I (try_except m h)"
  unfolding keeps_def wp_try_except by (blast intro: wlp_mono)

lemma keeps_try_finally [keeps_intro]:
  "keeps I m \<Longrightarrow> keeps I f \<Longrightarrow> keeps I (try_finally m f)"
  unfolding keeps_def wp_try_finally by (blast intro: wlp_mono)

lemma keeps_if [keeps_intro]: "keeps I m \<Longrightarrow> keeps I n \<Longrightarrow> keeps I (if c then m else n)"
  by simp

lemma keeps_for_each [keeps_intro]: "(\<And>x. keeps I (f x)) \<Longrightarrow> keeps I (for_each xs f)"
  by (induction xs) (auto intro: keeps_intro)

section \<open>Gates\<close>

text \<open>
  The contract of every gate of the boundary: a call with a body (a tool, a transport, a request
  handler, a function for a thread) either ends in an exception and a state that do not depend on
  the body, or was admitted, and then goes on with the body from the state it was admitted in.
\<close>

locale mediated_call =
  fixes run :: "'b \<Rightarrow> 's \<Rightarrow> 'a res \<times> 's"
    and admitted :: "'s \<Rightarrow> 'c \<Rightarrow> 's \<Rightarrow> bool"
    and proceed :: "'c \<Rightarrow> 'b \<Rightarrow> 's \<Rightarrow> 'a res \<times> 's"
  assumes mediated: "(\<exists>e v. \<forall>body. run body w = (Inl e, v))
    \<or> (\<exists>x v. admitted w x v \<and> (\<forall>body. run body w = proceed x body v))"
begin

lemma refused: "(\<And>x v. \<not> admitted w x v) \<Longrightarrow> \<exists>e v. \<forall>body. run body w = (Inl e, v)"
  using mediated [of w] by blast

lemma returned: "run body w = (Inr a, v) \<Longrightarrow> \<exists>x u. admitted w x u \<and> (\<forall>body. run body w = proceed x body u)"
  using mediated [of w] by (metis Inl_Inr_False prod.inject)

lemma depends: "run body w \<noteq> run body' w \<Longrightarrow> \<exists>x u. admitted w x u \<and> (\<forall>body. run body w = proceed x body u)"
  using mediated [of w] by metis

end

section \<open>Strings and association lists\<close>

definition starts_with :: "string \<Rightarrow> string \<Rightarrow> bool" where
  "starts_with s p \<longleftrightarrow> take (length p) s = p"

lemma starts_with_iff: "starts_with s p \<longleftrightarrow> (\<exists>rest. s = p @ rest)"
  by (auto simp: starts_with_def) (metis append_take_drop_id)

lemma starts_with_append [simp]: "starts_with (p @ s) p"
  by (simp add: starts_with_def)

text \<open>White space, as \<open>str.strip\<close> and \<open>\s\<close> see it (code points below 256).\<close>

definition is_space :: "char \<Rightarrow> bool" where
  "is_space c \<longleftrightarrow> of_char c \<in> {9::nat, 10, 11, 12, 13, 28, 29, 30, 31, 32, 133, 160}"

definition lstrip :: "string \<Rightarrow> string" where
  "lstrip s = dropWhile is_space s"

definition strip :: "string \<Rightarrow> string" where
  "strip s = rev (dropWhile is_space (rev (dropWhile is_space s)))"

definition is_digit :: "char \<Rightarrow> bool" where
  "is_digit c \<longleftrightarrow> 48 \<le> (of_char c :: nat) \<and> (of_char c :: nat) \<le> 57"

definition is_upper :: "char \<Rightarrow> bool" where
  "is_upper c \<longleftrightarrow> 65 \<le> (of_char c :: nat) \<and> (of_char c :: nat) \<le> 90"

definition is_lower :: "char \<Rightarrow> bool" where
  "is_lower c \<longleftrightarrow> 97 \<le> (of_char c :: nat) \<and> (of_char c :: nat) \<le> 122"

definition is_alnum :: "char \<Rightarrow> bool" where
  "is_alnum c \<longleftrightarrow> is_digit c \<or> is_upper c \<or> is_lower c"

definition lower_char :: "char \<Rightarrow> char" where
  "lower_char c = (if is_upper c then char_of ((of_char c :: nat) + 32) else c)"

definition upper_char :: "char \<Rightarrow> char" where
  "upper_char c = (if is_lower c then char_of ((of_char c :: nat) - 32) else c)"

definition lower :: "string \<Rightarrow> string" where
  "lower s = map lower_char s"

definition upper :: "string \<Rightarrow> string" where
  "upper s = map upper_char s"

text \<open>\<open>re.fullmatch(r"[cls]{lo,hi}", s)\<close>.\<close>

definition full_class :: "(char \<Rightarrow> bool) \<Rightarrow> nat \<Rightarrow> nat \<Rightarrow> string \<Rightarrow> bool" where
  "full_class cls lo hi s \<longleftrightarrow> lo \<le> length s \<and> length s \<le> hi \<and> list_all cls s"

text \<open>Writing a key of a dict kept as an association list: in place, or at the end.\<close>

fun assoc_put :: "'k \<Rightarrow> 'v \<Rightarrow> ('k \<times> 'v) list \<Rightarrow> ('k \<times> 'v) list" where
  "assoc_put k v [] = [(k, v)]"
| "assoc_put k v ((k', v') # xs) =
     (if k = k' then (k, v) # xs else (k', v') # assoc_put k v xs)"

lemma map_of_assoc_put [simp]: "map_of (assoc_put k v xs) = (map_of xs)(k \<mapsto> v)"
  by (induction k v xs rule: assoc_put.induct) auto

lemma keys_assoc_put: "fst ` set (assoc_put k v xs) = insert k (fst ` set xs)"
  by (induction k v xs rule: assoc_put.induct) auto

lemma distinct_assoc_put:
  "distinct (map fst xs) \<Longrightarrow> distinct (map fst (assoc_put k v xs))"
  by (induction k v xs rule: assoc_put.induct) (auto simp: keys_assoc_put)

text \<open>\<open>tuple(dict.fromkeys(xs))\<close>: the first occurrence of each element, in order.\<close>

fun dedup :: "'a list \<Rightarrow> 'a list" where
  "dedup [] = []"
| "dedup (x # xs) = x # filter (\<lambda>y. y \<noteq> x) (dedup xs)"

lemma set_dedup [simp]: "set (dedup xs) = set xs"
  by (induction xs) auto

lemma distinct_dedup [simp]: "distinct (dedup xs)"
  by (induction xs) auto

end
