(* ===== verification/Maya_Values.thy ===== *)
theory Maya_Values
  imports Maya_Prelude
begin

text \<open>
  The Python values that cross the program's boundaries (parsed JSON documents, tool
  arguments, request payloads) and the built-in functions the code applies to them:
  \<open>bool\<close>, \<open>str\<close>, \<open>int\<close>, \<open>dict.get\<close>. Strings are lists of
  characters; every character class the code tests is an ASCII one. A finite float is the
  rational it denotes, so comparisons are exact; \<open>Infinite True\<close> is plus infinity.
  \<open>VObj\<close> is any object that is not one of the JSON-compatible built-ins.
\<close>

datatype pyfloat = Finite rat | Infinite bool | NaN

datatype pyval =
    VNone
  | VBool bool
  | VInt int
  | VFloat pyfloat
  | VStr string
  | VList "pyval list"
  | VTuple "pyval list"
  | VDict "(pyval \<times> pyval) list"
  | VObj nat

type_synonym pydict = "(pyval \<times> pyval) list"

text \<open>\<open>d.get(key)\<close> and \<open>d[key]\<close> on a dict with string keys.\<close>

definition dget :: "pydict \<Rightarrow> string \<Rightarrow> pyval option" where
  "dget d k = map_of d (VStr k)"

definition dget_or :: "pydict \<Rightarrow> string \<Rightarrow> pyval \<Rightarrow> pyval" where
  "dget_or d k v = (case dget d k of None \<Rightarrow> v | Some x \<Rightarrow> x)"

definition ditem :: "pydict \<Rightarrow> string \<Rightarrow> pyval res" where
  "ditem d k = (case dget d k of None \<Rightarrow> Inl (Exc PyKeyError k) | Some x \<Rightarrow> Inr x)"

text \<open>\<open>bool(v)\<close>.\<close>

fun truthy :: "pyval \<Rightarrow> bool" where
  "truthy VNone = False"
| "truthy (VBool b) = b"
| "truthy (VInt i) = (i \<noteq> 0)"
| "truthy (VFloat (Finite q)) = (q \<noteq> 0)"
| "truthy (VFloat f) = True"
| "truthy (VStr s) = (s \<noteq> [])"
| "truthy (VList xs) = (xs \<noteq> [])"
| "truthy (VTuple xs) = (xs \<noteq> [])"
| "truthy (VDict d) = (d \<noteq> [])"
| "truthy (VObj n) = True"

text \<open>Decimal notation of integers.\<close>

fun show_nat :: "nat \<Rightarrow> string" where
  "show_nat n =
     (if n < 10 then [char_of (48 + n)] else show_nat (n div 10) @ [char_of (48 + n mod 10)])"

declare show_nat.simps [simp del]

definition show_int :: "int \<Rightarrow> string" where
  "show_int i = (if i < 0 then CHR ''-'' # show_nat (nat (- i)) else show_nat (nat i))"

fun read_digits :: "nat \<Rightarrow> string \<Rightarrow> nat option" where
  "read_digits acc [] = Some acc"
| "read_digits acc (c # cs) =
     (if is_digit c then read_digits (10 * acc + (of_char c - 48)) cs else None)"

text \<open>
  \<open>int(s)\<close> on a string: surrounding white space, an optional sign, decimal digits.
  Python also accepts single underscores between digits; they are dropped first.
\<close>

fun drop_underscores :: "bool \<Rightarrow> string \<Rightarrow> string option" where
  "drop_underscores prev_digit [] = (if prev_digit then Some [] else None)"
| "drop_underscores prev_digit (c # cs) =
     (if c = CHR ''_'' then (if prev_digit then drop_underscores False cs else None)
      else if is_digit c then map_option ((#) c) (drop_underscores True cs)
      else None)"

definition int_of_str :: "string \<Rightarrow> int res" where
  "int_of_str s =
     (let t = strip s;
          (neg, body) = (case t of
              [] \<Rightarrow> (False, [])
            | c # cs \<Rightarrow> (if c = CHR ''-'' then (True, cs)
                         else if c = CHR ''+'' then (False, cs) else (False, c # cs)))
      in case Option.bind (drop_underscores False body) (read_digits 0) of
           None \<Rightarrow> Inl (Exc PyValueError ''invalid literal for int()'')
         | Some n \<Rightarrow> Inr (if neg then - int n else int n))"

text \<open>\<open>int(v)\<close>: floats are truncated towards zero, infinities and NaN raise.\<close>

definition trunc_rat :: "rat \<Rightarrow> int" where
  "trunc_rat q = (if q < 0 then - \<lfloor>- q\<rfloor> else \<lfloor>q\<rfloor>)"

fun py_int :: "pyval \<Rightarrow> int res" where
  "py_int (VInt i) = Inr i"
| "py_int (VBool b) = Inr (if b then 1 else 0)"
| "py_int (VFloat (Finite q)) = Inr (trunc_rat q)"
| "py_int (VFloat NaN) = Inl (Exc PyValueError ''cannot convert float NaN to integer'')"
| "py_int (VFloat (Infinite s)) = Inl (Exc OtherException ''OverflowError'')"
| "py_int (VStr s) = int_of_str s"
| "py_int v = Inl (Exc PyTypeError ''int() argument'')"

text \<open>
  \<open>str(v)\<close>. The texts of floats and of containers are those of Python's \<open>repr\<close>,
  a parameter: the code never depends on their characters.
\<close>

fun py_str :: "(pyval \<Rightarrow> string) \<Rightarrow> pyval \<Rightarrow> string" where
  "py_str repr VNone = ''None''"
| "py_str repr (VBool b) = (if b then ''True'' else ''False'')"
| "py_str repr (VInt i) = show_int i"
| "py_str repr (VStr s) = s"
| "py_str repr v = repr v"

section \<open>Decimal round trip\<close>

lemma digit_char:
  fixes d :: nat
  assumes "d < 10"
  shows "is_digit (char_of (48 + d))" and "of_char (char_of (48 + d) :: char) = 48 + d"
  using assms by (simp_all add: is_digit_def)

lemma read_digits_append:
  "read_digits acc (xs @ ys) = Option.bind (read_digits acc xs) (\<lambda>a. read_digits a ys)"
  by (induction acc xs rule: read_digits.induct) auto

lemma read_show_nat: "read_digits 0 (show_nat n) = Some n"
proof (induction n rule: show_nat.induct)
  case (1 n)
  show ?case
  proof (cases "n < 10")
    case True
    then show ?thesis
      by (subst show_nat.simps) (simp add: digit_char del: of_char_of)
  next
    case False
    then have IH: "read_digits 0 (show_nat (n div 10)) = Some (n div 10)"
      using 1 by blast
    have d: "n mod 10 < 10" by simp
    have "show_nat n = show_nat (n div 10) @ [char_of (48 + n mod 10)]"
      using False by (subst show_nat.simps) simp
    then have "read_digits 0 (show_nat n) = Some (10 * (n div 10) + n mod 10)"
      using IH digit_char [OF d] by (simp add: read_digits_append del: of_char_of)
    then show ?thesis by simp
  qed
qed

lemma show_nat_digits: "list_all is_digit (show_nat n)"
proof (induction n rule: show_nat.induct)
  case (1 n)
  have "n mod 10 < 10" by simp
  then show ?case using 1
    by (subst show_nat.simps) (auto simp: digit_char simp del: of_char_of)
qed

lemma show_nat_nonempty: "show_nat n \<noteq> []"
  by (subst show_nat.simps) simp

lemma drop_underscores_digits:
  "list_all is_digit s \<Longrightarrow> s \<noteq> [] \<or> b \<Longrightarrow> drop_underscores b s = Some s"
proof (induction s arbitrary: b)
  case Nil
  then show ?case by simp
next
  case (Cons c s)
  have "c \<noteq> CHR ''_''" using Cons.prems by (auto simp: is_digit_def)
  then show ?case using Cons by simp
qed

lemma digit_not_space: "is_digit c \<Longrightarrow> \<not> is_space c"
  by (auto simp: is_digit_def is_space_def)

lemma strip_no_space:
  assumes "s \<noteq> []" and "\<not> is_space (hd s)" and "\<not> is_space (last s)"
  shows "strip s = s"
proof -
  have "dropWhile is_space s = s" using assms(1,2) by (cases s) auto
  moreover have "dropWhile is_space (rev s) = rev s"
    using assms(1,3) by (cases "rev s") (auto simp: last_rev [symmetric] dest: arg_cong [of _ _ rev])
  ultimately show ?thesis by (simp add: strip_def)
qed

lemma strip_show_int: "strip (show_int i) = show_int i"
proof (rule strip_no_space)
  have n: "\<not> is_space (hd (show_nat k))" "\<not> is_space (last (show_nat k))" for k
    using show_nat_digits [of k] show_nat_nonempty [of k]
    by (auto simp: list_all_iff intro!: digit_not_space)
  show "show_int i \<noteq> []" by (simp add: show_int_def show_nat_nonempty)
  show "\<not> is_space (hd (show_int i))" using n by (simp add: show_int_def is_space_def)
  show "\<not> is_space (last (show_int i))" using n show_nat_nonempty by (simp add: show_int_def)
qed

theorem int_of_show_int: "int_of_str (show_int i) = Inr i"
proof -
  have hd: "is_digit (hd (show_nat k))" for k
    using show_nat_digits [of k] show_nat_nonempty [of k] by (cases "show_nat k") auto
  have pos: "(case show_nat k of [] \<Rightarrow> (False, [])
      | c # cs \<Rightarrow> (if c = CHR ''-'' then (True, cs)
          else if c = CHR ''+'' then (False, cs) else (False, c # cs))) = (False, show_nat k)" for k
    using hd [of k] show_nat_nonempty [of k] by (cases "show_nat k") (auto simp: is_digit_def)
  show ?thesis
    unfolding int_of_str_def strip_show_int
    by (simp add: show_int_def pos drop_underscores_digits show_nat_digits show_nat_nonempty
        read_show_nat Let_def)
qed

lemma dget_simps [simp]:
  "dget [] k = None"
  "dget ((VStr k', v) # d) k = (if k' = k then Some v else dget d k)"
  by (simp_all add: dget_def)

end
