(* ===== verification/Maya_Policy.thy ===== *)
theory Maya_Policy
  imports Maya_Values
begin

text \<open>
  \<open>src/project_maya/governance.py\<close> and \<open>src/project_maya/audit.py\<close>: action
  requests, the file-backed allow-list gateway with its deny-by-default fallback, the
  policy-file loader, and audit records. The interface the Hermes boundary relies on (an
  authorization function whose answers carry no constraints or redactions) is the locale
  \<open>plain_gateway\<close>, interpreted on both gateways of the code.
\<close>

section \<open>Requests, decisions, results\<close>

datatype GovernanceDecision =
  ALLOW | DENY | REDACT | CONSTRAIN | REQUEST_CONFIRMATION | REQUIRE_APPROVER | DEFER

fun decision_value :: "GovernanceDecision \<Rightarrow> string" where
  "decision_value ALLOW = ''allow''"
| "decision_value DENY = ''deny''"
| "decision_value REDACT = ''redact''"
| "decision_value CONSTRAIN = ''constrain''"
| "decision_value REQUEST_CONFIRMATION = ''request_confirmation''"
| "decision_value REQUIRE_APPROVER = ''require_approver''"
| "decision_value DEFER = ''defer''"

text \<open>\<open>GovernanceDecision(s)\<close>, the enum lookup by value.\<close>

definition decision_of_value :: "string \<Rightarrow> GovernanceDecision res" where
  "decision_of_value s =
     (case find (\<lambda>d. decision_value d = s)
         [ALLOW, DENY, REDACT, CONSTRAIN, REQUEST_CONFIRMATION, REQUIRE_APPROVER, DEFER] of
        None \<Rightarrow> Inl (Exc PyValueError (s @ '' is not a valid GovernanceDecision''))
      | Some d \<Rightarrow> Inr d)"

record ActionRequest =
  req_actor_id :: string
  req_capability :: string
  req_target :: string
  req_operation :: string
  req_classification :: string
  req_idempotency_key :: "string option"
  req_metadata :: "(string \<times> string) list"

record AuthorizationResult =
  res_decision :: GovernanceDecision
  res_reason_code :: string
  res_audit_required :: bool
  res_constraints :: "string list"
  res_redactions :: "(string \<times> string) list"

definition allowed :: "AuthorizationResult \<Rightarrow> bool" where
  "allowed r \<longleftrightarrow> res_decision r = ALLOW"

text \<open>A result with the dataclass defaults.\<close>

definition result_of :: "GovernanceDecision \<Rightarrow> string \<Rightarrow> AuthorizationResult" where
  "result_of d reason =
     \<lparr>res_decision = d, res_reason_code = reason, res_audit_required = True,
      res_constraints = [], res_redactions = []\<rparr>"

section \<open>Gateways\<close>

definition deny_by_default :: "ActionRequest \<Rightarrow> AuthorizationResult" where
  "deny_by_default req = result_of DENY ''governance.default_deny''"

record PolicyRule =
  rule_capability :: string
  rule_target :: string
  rule_operation :: string
  rule_actor_id :: string
  rule_decision :: GovernanceDecision
  rule_reason_code :: string

definition matches_pattern :: "string \<Rightarrow> string \<Rightarrow> bool" where
  "matches_pattern pattern value \<longleftrightarrow> pattern = ''*'' \<or> pattern = value"

definition rule_matches :: "PolicyRule \<Rightarrow> ActionRequest \<Rightarrow> bool" where
  "rule_matches r req \<longleftrightarrow>
     matches_pattern (rule_capability r) (req_capability req)
     \<and> matches_pattern (rule_target r) (req_target req)
     \<and> matches_pattern (rule_operation r) (req_operation req)
     \<and> matches_pattern (rule_actor_id r) (req_actor_id req)"

fun policy_authorize :: "PolicyRule list \<Rightarrow> ActionRequest \<Rightarrow> AuthorizationResult" where
  "policy_authorize [] req = result_of DENY ''governance.no_matching_rule''"
| "policy_authorize (r # rs) req =
     (if rule_matches r req then result_of (rule_decision r) (rule_reason_code r)
      else policy_authorize rs req)"

definition require_authorized ::
  "(ActionRequest \<Rightarrow> AuthorizationResult) \<Rightarrow> ActionRequest \<Rightarrow> AuthorizationResult res" where
  "require_authorized authorize req =
     (let result = authorize req
      in if \<not> allowed result then Inl (Exc ActionDeniedError (res_reason_code result))
         else Inr result)"

section \<open>The policy file\<close>

text \<open>
  \<open>repr\<close> is Python's text of floats and containers (see \<open>py_str\<close>).
\<close>

definition rule_from_mapping :: "(pyval \<Rightarrow> string) \<Rightarrow> pyval \<Rightarrow> PolicyRule res" where
  "rule_from_mapping repr data =
     (case data of
        VDict d \<Rightarrow>
          (case dget d ''capability'' of
             Some (VStr capability) \<Rightarrow>
               if strip capability = [] then
                 Inl (Exc PyValueError ''policy rule capability is required'')
               else
                 bindR (decision_of_value (py_str repr (dget_or d ''decision'' (VStr ''allow'')))) (\<lambda>decision.
                 Inr \<lparr>rule_capability = capability,
                      rule_target = py_str repr (dget_or d ''target'' (VStr ''*'')),
                      rule_operation = py_str repr (dget_or d ''operation'' (VStr ''*'')),
                      rule_actor_id = py_str repr (dget_or d ''actor_id'' (VStr ''*'')),
                      rule_decision = decision,
                      rule_reason_code =
                        py_str repr (dget_or d ''reason_code'' (VStr ''governance.policy_rule''))\<rparr>)
           | _ \<Rightarrow> Inl (Exc PyValueError ''policy rule capability is required''))
      | _ \<Rightarrow> Inl (Exc PyValueError ''policy rule must be an object''))"

text \<open>The parsed file (\<open>json.loads\<close> has succeeded) to the rules of the gateway.\<close>

definition load_policy :: "(pyval \<Rightarrow> string) \<Rightarrow> pyval \<Rightarrow> PolicyRule list res" where
  "load_policy repr raw =
     (case raw of
        VDict d \<Rightarrow>
          (case dget_or d ''allow'' (VList []) of
             VList items \<Rightarrow> mapR (rule_from_mapping repr) items
           | _ \<Rightarrow> Inl (Exc PyValueError ''policy allow must be a list''))
      | _ \<Rightarrow> Inl (Exc PyValueError ''policy must be an object''))"

section \<open>Audit records\<close>

record AuditRecord =
  aud_event_type :: string
  aud_decision :: string
  aud_reason_code :: string
  aud_actor_id :: string
  aud_capability :: string
  aud_target :: string
  aud_operation :: string
  aud_classification :: string
  aud_idempotency_key :: "string option"
  aud_metadata :: "(string \<times> string) list"

definition audit_record ::
  "string \<Rightarrow> string \<Rightarrow> string \<Rightarrow> string \<Rightarrow> string \<Rightarrow> string \<Rightarrow> string \<Rightarrow> string \<Rightarrow> AuditRecord" where
  "audit_record event decision reason actor capability target operation classification =
     \<lparr>aud_event_type = event, aud_decision = decision, aud_reason_code = reason,
      aud_actor_id = actor, aud_capability = capability, aud_target = target,
      aud_operation = operation, aud_classification = classification,
      aud_idempotency_key = None, aud_metadata = []\<rparr>"

text \<open>
  \<open>AuditRecord.to_json\<close> up to the serializer: the object that is dumped, with the
  timestamp the record was given when it was built.
\<close>

definition opt_val :: "string option \<Rightarrow> pyval" where
  "opt_val x = (case x of None \<Rightarrow> VNone | Some s \<Rightarrow> VStr s)"

definition audit_to_mapping :: "string \<Rightarrow> AuditRecord \<Rightarrow> pydict" where
  "audit_to_mapping timestamp r =
     [(VStr ''schema_version'', VInt 1),
      (VStr ''timestamp'', VStr timestamp),
      (VStr ''event_type'', VStr (aud_event_type r)),
      (VStr ''decision'', VStr (aud_decision r)),
      (VStr ''reason_code'', VStr (aud_reason_code r)),
      (VStr ''actor_id'', VStr (aud_actor_id r)),
      (VStr ''capability'', VStr (aud_capability r)),
      (VStr ''target'', VStr (aud_target r)),
      (VStr ''operation'', VStr (aud_operation r)),
      (VStr ''data_classification'', VStr (aud_classification r)),
      (VStr ''idempotency_key'', opt_val (aud_idempotency_key r)),
      (VStr ''metadata'', VDict (map (\<lambda>(k, v). (VStr k, VStr v)) (aud_metadata r)))]"

text \<open>
  \<open>LocalJsonlAuditSink.write\<close>: one line appended to the file, which is kept as the
  list of its lines. \<open>dumps\<close> is \<open>json.dumps(..., sort_keys=True)\<close>.
\<close>

definition jsonl_write ::
  "(pydict \<Rightarrow> string) \<Rightarrow> string \<Rightarrow> AuditRecord \<Rightarrow> string list \<Rightarrow> string list" where
  "jsonl_write dumps timestamp r lines = lines @ [dumps (audit_to_mapping timestamp r)]"

section \<open>The interface of a gateway\<close>

text \<open>
  What the Hermes boundary relies on: answers without constraints or redactions, so that
  the decision alone says whether an action runs.
\<close>

locale plain_gateway =
  fixes authorize :: "ActionRequest \<Rightarrow> AuthorizationResult"
  assumes no_constraints: "res_constraints (authorize req) = []"
    and no_redactions: "res_redactions (authorize req) = []"
begin

lemma boundary_accepts_iff:
  "(\<not> (\<not> allowed (authorize req) \<or> res_constraints (authorize req) \<noteq> []
     \<or> res_redactions (authorize req) \<noteq> [])) \<longleftrightarrow> res_decision (authorize req) = ALLOW"
  by (simp add: no_constraints no_redactions allowed_def)

lemma require_authorized_iff:
  "is_ok (require_authorized authorize req) \<longleftrightarrow> res_decision (authorize req) = ALLOW"
  by (simp add: require_authorized_def Let_def allowed_def)

end

lemma policy_authorize_shape:
  "\<exists>d reason. policy_authorize rules req = result_of d reason"
  by (induction rules) auto

interpretation policy_gw: plain_gateway "policy_authorize rules" for rules
proof
  fix req
  obtain d reason where "policy_authorize rules req = result_of d reason"
    using policy_authorize_shape by blast
  then show "res_constraints (policy_authorize rules req) = []"
    and "res_redactions (policy_authorize rules req) = []"
    by (simp_all add: result_of_def)
qed

interpretation default_gw: plain_gateway deny_by_default
  by unfold_locales (simp_all add: deny_by_default_def result_of_def)

section \<open>First match, default deny\<close>

lemma allowed_result_of [simp]: "allowed (result_of d reason) \<longleftrightarrow> d = ALLOW"
  by (simp add: allowed_def result_of_def)

lemma policy_authorize_skip:
  "\<forall>r \<in> set pre. \<not> rule_matches r req \<Longrightarrow>
   policy_authorize (pre @ rest) req = policy_authorize rest req"
  by (induction pre) auto

lemma policy_authorize_found:
  "\<exists>r \<in> set rules. rule_matches r req \<Longrightarrow>
   policy_authorize (rules @ rest) req = policy_authorize rules req"
  by (induction rules) auto

lemma policy_allowed_split:
  "allowed (policy_authorize rules req) \<Longrightarrow>
   \<exists>pre r post. rules = pre @ r # post \<and> rule_matches r req \<and> rule_decision r = ALLOW
     \<and> (\<forall>q \<in> set pre. \<not> rule_matches q req)"
proof (induction rules)
  case Nil
  then show ?case by simp
next
  case (Cons r rules)
  show ?case
  proof (cases "rule_matches r req")
    case True
    with Cons.prems show ?thesis by (intro exI [of _ "[]"]) auto
  next
    case False
    with Cons obtain pre q post where "rules = pre @ q # post" "rule_matches q req"
      "rule_decision q = ALLOW" "\<forall>x \<in> set pre. \<not> rule_matches x req"
      by auto
    with False show ?thesis by (intro exI [of _ "r # pre"]) auto
  qed
qed

text \<open>
  C30. The file-backed gateway allows an action exactly when the first rule that matches its
  capability, target, operation and actor says ALLOW: earlier rules shadow later ones, and
  an action no rule matches is denied.
\<close>

theorem policy_first_match:
  "allowed (policy_authorize rules req) \<longleftrightarrow>
   (\<exists>pre r post. rules = pre @ r # post \<and> rule_matches r req \<and> rule_decision r = ALLOW
      \<and> \<not> list_ex (\<lambda>q. rule_matches q req) pre)"
  using policy_allowed_split policy_authorize_skip by (auto simp: policy_authorize_skip list_ex_iff)

lemma rule_from_mapping_capability:
  assumes "rule_from_mapping repr data = Inr r"
  shows "\<exists>d. data = VDict d \<and> dget d ''capability'' = Some (VStr (rule_capability r))
           \<and> strip (rule_capability r) \<noteq> []"
  using assms
  by (auto simp: rule_from_mapping_def res_iffs split: pyval.splits option.splits if_splits)

lemma load_policy_rules:
  assumes "load_policy repr raw = Inr rules"
  shows "\<exists>d items. raw = VDict d \<and> dget_or d ''allow'' (VList []) = VList items
           \<and> mapR (rule_from_mapping repr) items = Inr rules"
  using assms by (auto simp: load_policy_def split: pyval.splits)

text \<open>The capabilities the entries of a policy file name.\<close>

definition named_capabilities :: "pyval \<Rightarrow> string set" where
  "named_capabilities raw =
     {c. \<exists>d items e. raw = VDict d \<and> dget_or d ''allow'' (VList []) = VList items
          \<and> VDict e \<in> set items \<and> dget e ''capability'' = Some (VStr c)}"

text \<open>
  A policy file grants nothing it does not name: whatever the file holds, if it loads at
  all, a capability that no entry spells out (and that no entry covers with a star) is denied
  for every actor, target and operation; in particular a file without entries denies all.
\<close>

theorem unnamed_capability_denied:
  assumes "load_policy repr raw = Inr rules"
    and "req_capability req \<notin> named_capabilities raw" and "''*'' \<notin> named_capabilities raw"
  shows "policy_authorize rules req = result_of DENY ''governance.no_matching_rule''"
proof -
  obtain d items where di: "raw = VDict d" "dget_or d ''allow'' (VList []) = VList items"
    and all: "mapR (rule_from_mapping repr) items = Inr rules"
    using load_policy_rules [OF assms(1)] by blast
  have "\<not> rule_matches r req" if r: "r \<in> set rules" for r
  proof -
    obtain x where "x \<in> set items" and "rule_from_mapping repr x = Inr r"
      using mapR_mem [OF all r] by blast
    then have "rule_capability r \<in> named_capabilities raw"
      using rule_from_mapping_capability [of repr x r] di by (auto simp: named_capabilities_def)
    then show ?thesis
      using assms(2,3) by (auto simp: rule_matches_def matches_pattern_def)
  qed
  then show ?thesis using policy_authorize_skip [of rules req "[]"] by simp
qed

theorem unnamed_capability_denied_witness:
  "policy_authorize
     [\<lparr>rule_capability = ''memory.read'', rule_target = ''*'', rule_operation = ''*'',
       rule_actor_id = ''*'', rule_decision = ALLOW,
       rule_reason_code = ''governance.policy_rule''\<rparr>]
     \<lparr>req_actor_id = ''ana'', req_capability = ''file.write'', req_target = ''x'',
      req_operation = ''write'', req_classification = ''internal'',
      req_idempotency_key = None, req_metadata = []\<rparr>
   = result_of DENY ''governance.no_matching_rule''"
proof -
  let ?e = "VDict [(VStr ''capability'', VStr ''memory.read'')]"
  let ?raw = "VDict [(VStr ''allow'', VList [?e])]"
  have load: "load_policy (\<lambda>_. []) ?raw =
      Inr [\<lparr>rule_capability = ''memory.read'', rule_target = ''*'', rule_operation = ''*'',
        rule_actor_id = ''*'', rule_decision = ALLOW,
        rule_reason_code = ''governance.policy_rule''\<rparr>]"
    by (simp add: load_policy_def rule_from_mapping_def dget_or_def decision_of_value_def
        strip_def is_space_def)
  have "named_capabilities ?raw = {''memory.read''}"
    by (auto simp: named_capabilities_def dget_or_def)
  then show ?thesis by (intro unnamed_capability_denied [OF load]) simp_all
qed

text \<open>
  Policies compose: appending rules to a policy leaves the answer to every action the
  existing rules match as it was, and the appended rules decide exactly the others.
\<close>

theorem policy_append:
  "policy_authorize (rules @ rest) req =
     (if \<exists>r \<in> set rules. rule_matches r req then policy_authorize rules req
      else policy_authorize rest req)"
  using policy_authorize_found policy_authorize_skip by auto

end
