(* ===== verification/Maya_Leases.thy ===== *)
theory Maya_Leases
  imports Maya_Prelude
begin

text \<open>
  \<open>_SessionWriteLease\<close> of \<open>src/project_maya/hermes_plugins/governance.py\<close>: the
  revocable authority every session write of a request hangs on. Leases are mutable objects
  that several scopes share (a child lease points to its parent), so they live in an
  explicit store: a lease is an index, a new lease is appended, and its parent is an
  earlier one (\<open>wf_leases\<close>). Walking up the parents is recursion with fuel
  \<open>Suc r\<close>: parents of \<open>r\<close> are smaller than \<open>r\<close>, so the fuel never runs out
  (\<open>lease_is_active_eq\<close>, \<open>lease_root_eq\<close> give the code's own equations).
  \<open>now\<close> is the reading of \<open>monotonic()\<close> during the operation.
\<close>

section \<open>State and operations\<close>

record lease =
  le_active :: bool
  le_parent :: "nat option"
  le_deadline :: "rat option"
  le_termination :: "string option"

type_synonym lease_store = "lease list"

definition new_lease :: "nat option \<Rightarrow> rat option \<Rightarrow> (lease_store, nat) py" where
  "new_lease parent deadline h =
     (Inr (length h),
      h @ [\<lparr>le_active = True, le_parent = parent, le_deadline = deadline, le_termination = None\<rparr>])"

definition expired :: "rat \<Rightarrow> lease \<Rightarrow> bool" where
  "expired now l \<longleftrightarrow> (case le_deadline l of None \<Rightarrow> False | Some d \<Rightarrow> d \<le> now)"

definition termination_reasons :: "string list" where
  "termination_reasons = [''completed'', ''cancelled'', ''timeout'', ''failed'']"

text \<open>The body of \<open>revoke\<close> once the reason is accepted.\<close>

definition revoked :: "rat \<Rightarrow> string \<Rightarrow> lease \<Rightarrow> lease" where
  "revoked now reason l =
     (let reason' = (if reason = ''completed'' \<and> expired now l then ''timeout'' else reason)
      in l\<lparr>le_active := False,
           le_termination :=
             (case le_termination l of None \<Rightarrow> Some reason' | Some t \<Rightarrow> Some t)\<rparr>)"

definition lease_revoke :: "rat \<Rightarrow> nat \<Rightarrow> string \<Rightarrow> (lease_store, unit) py" where
  "lease_revoke now r reason =
     bnd (require (reason \<in> set termination_reasons) (boundary ''request_termination_invalid'')) (\<lambda>_.
     modify (\<lambda>h. h[r := revoked now reason (h ! r)]))"

fun root_fuel :: "nat \<Rightarrow> lease_store \<Rightarrow> nat \<Rightarrow> nat" where
  "root_fuel 0 h r = r"
| "root_fuel (Suc n) h r =
     (case le_parent (h ! r) of None \<Rightarrow> r | Some p \<Rightarrow> root_fuel n h p)"

definition lease_root :: "lease_store \<Rightarrow> nat \<Rightarrow> nat" where
  "lease_root h r = root_fuel (Suc r) h r"

definition lease_revoke_request :: "rat \<Rightarrow> nat \<Rightarrow> string \<Rightarrow> (lease_store, unit) py" where
  "lease_revoke_request now r reason =
     bnd (gets (\<lambda>h. lease_root h r)) (\<lambda>root.
     bnd (lease_revoke now root reason) (\<lambda>_.
     lease_revoke now r reason))"

text \<open>
  The property \<open>is_active\<close>: it revokes an expired lease before it answers, and asks the
  parent only when the lease itself is active.
\<close>

definition expire :: "rat \<Rightarrow> nat \<Rightarrow> lease_store \<Rightarrow> lease_store" where
  "expire now r h = (if expired now (h ! r) then h[r := revoked now ''timeout'' (h ! r)] else h)"

fun active_fuel :: "nat \<Rightarrow> rat \<Rightarrow> nat \<Rightarrow> lease_store \<Rightarrow> bool \<times> lease_store" where
  "active_fuel 0 now r h = (False, h)"
| "active_fuel (Suc n) now r h =
     (let h1 = expire now r h
      in if le_active (h1 ! r)
         then (case le_parent (h1 ! r) of None \<Rightarrow> (True, h1) | Some p \<Rightarrow> active_fuel n now p h1)
         else (False, h1))"

definition lease_is_active :: "rat \<Rightarrow> nat \<Rightarrow> lease_store \<Rightarrow> bool \<times> lease_store" where
  "lease_is_active now r h = active_fuel (Suc r) now r h"

text \<open>The assignment \<open>lease.active = False\<close> that ends a child scope.\<close>

definition deactivate :: "nat \<Rightarrow> lease_store \<Rightarrow> lease_store" where
  "deactivate r h = h[r := (h ! r)\<lparr>le_active := False\<rparr>]"

section \<open>Well-formed stores, and how a store may evolve\<close>

definition wf_leases :: "lease_store \<Rightarrow> bool" where
  "wf_leases h \<longleftrightarrow> (\<forall>r < length h. \<forall>p. le_parent (h ! r) = Some p \<longrightarrow> p < r)"

text \<open>
  \<open>later h h'\<close>: the store \<open>h'\<close> can follow \<open>h\<close>. Parents and deadlines are fixed,
  an inactive lease stays inactive, a recorded termination stays as it is.
\<close>

definition lease_later :: "lease \<Rightarrow> lease \<Rightarrow> bool" where
  "lease_later l l' \<longleftrightarrow>
     le_parent l' = le_parent l \<and> le_deadline l' = le_deadline l
     \<and> (le_active l' \<longrightarrow> le_active l)
     \<and> (\<forall>t. le_termination l = Some t \<longrightarrow> le_termination l' = Some t)"

definition later :: "lease_store \<Rightarrow> lease_store \<Rightarrow> bool" where
  "later h h' \<longleftrightarrow> length h \<le> length h' \<and> (\<forall>r < length h. lease_later (h ! r) (h' ! r))"

lemma lease_later_refl [simp, intro]: "lease_later l l"
  by (simp add: lease_later_def)

lemma lease_later_trans: "lease_later a b \<Longrightarrow> lease_later b c \<Longrightarrow> lease_later a c"
  by (simp add: lease_later_def)

lemma lease_later_revoked [simp, intro]: "lease_later l (revoked now reason l)"
  by (simp add: lease_later_def revoked_def Let_def)

lemma lease_later_deactivated [simp, intro]: "lease_later l (l\<lparr>le_active := False\<rparr>)"
  by (simp add: lease_later_def)

lemma later_refl [simp, intro]: "later h h"
  by (simp add: later_def)

lemma later_trans: "later a b \<Longrightarrow> later b c \<Longrightarrow> later a c"
  by (auto simp: later_def intro: lease_later_trans order.trans less_le_trans)

lemma later_update [intro]: "lease_later (h ! r) l \<Longrightarrow> later h (h[r := l])"
  by (simp add: later_def) (metis nth_list_update_eq nth_list_update_neq lease_later_refl)

lemma later_append [intro]: "later h (h @ xs)"
  by (simp add: later_def nth_append)

lemma wf_leases_later:
  "wf_leases h \<Longrightarrow> later h h' \<Longrightarrow> length h' = length h \<Longrightarrow> wf_leases h'"
  by (simp add: wf_leases_def later_def lease_later_def)

lemma length_expire [simp]: "length (expire now r h) = length h"
  by (simp add: expire_def)

lemma later_expire [intro]: "later h (expire now r h)"
  by (auto simp: expire_def)

lemma later_active_fuel: "later h (snd (active_fuel n now r h))"
  by (induction n arbitrary: r h)
    (auto simp: Let_def split: option.splits intro: later_trans [OF later_expire])

lemma length_active_fuel [simp]: "length (snd (active_fuel n now r h)) = length h"
  by (induction n arbitrary: r h) (auto simp: Let_def split: option.splits)

lemma later_is_active [intro]: "later h (snd (lease_is_active now r h))"
  by (simp add: lease_is_active_def later_active_fuel del: active_fuel.simps)

lemma length_is_active [simp]: "length (snd (lease_is_active now r h)) = length h"
  by (simp add: lease_is_active_def del: active_fuel.simps)

lemma later_deactivate [intro]: "later h (deactivate r h)"
  by (auto simp: deactivate_def)

lemma length_deactivate [simp]: "length (deactivate r h) = length h"
  by (simp add: deactivate_def)

lemma wp_lease_revoke [wp]:
  "wlp (lease_revoke now r reason) Q E h =
     (if reason \<in> set termination_reasons then Q () (h[r := revoked now reason (h ! r)])
      else E (boundary ''request_termination_invalid'') h)"
  by (simp add: lease_revoke_def wp)

section \<open>The code's recursion equations\<close>

lemma parent_expire [simp]:
  "le_parent (expire now r h ! q) = le_parent (h ! q)"
  "le_deadline (expire now r h ! q) = le_deadline (h ! q)"
  by (cases "r < length h"; cases "q = r";
      simp add: expire_def revoked_def Let_def nth_list_update list_update_beyond)+

lemma wf_leases_expire [simp]: "wf_leases (expire now r h) = wf_leases h"
  by (simp add: wf_leases_def)

lemma root_fuel_enough:
  "wf_leases h \<Longrightarrow> r < length h \<Longrightarrow> r < n \<Longrightarrow> r < m \<Longrightarrow> root_fuel n h r = root_fuel m h r"
proof (induction n arbitrary: r m)
  case 0
  then show ?case by simp
next
  case (Suc n)
  then obtain k where m: "m = Suc k" by (cases m) auto
  have "p < r" if "le_parent (h ! r) = Some p" for p
    using Suc.prems that by (auto simp: wf_leases_def)
  then show ?case
    using Suc.prems Suc.IH [of _ k] by (force simp: m split: option.splits)
qed

lemma lease_root_eq:
  assumes "wf_leases h" and "r < length h"
  shows "lease_root h r = (case le_parent (h ! r) of None \<Rightarrow> r | Some p \<Rightarrow> lease_root h p)"
proof (cases "le_parent (h ! r)")
  case None
  then show ?thesis by (simp add: lease_root_def)
next
  case (Some p)
  then have "p < r" using assms by (auto simp: wf_leases_def)
  then show ?thesis
    using Some assms root_fuel_enough [of h p r "Suc p"]
    by (simp add: lease_root_def del: root_fuel.simps(2)) simp
qed

lemma active_fuel_enough:
  "wf_leases h \<Longrightarrow> r < length h \<Longrightarrow> r < n \<Longrightarrow> r < m \<Longrightarrow>
   active_fuel n now r h = active_fuel m now r h"
proof (induction n arbitrary: r m h)
  case 0
  then show ?case by simp
next
  case (Suc n)
  then obtain k where m: "m = Suc k" by (cases m) auto
  have "p < r" if "le_parent (h ! r) = Some p" for p
    using Suc.prems that by (auto simp: wf_leases_def)
  then show ?case
    using Suc.prems Suc.IH [of "expire now r h" _ k]
    by (force simp: m Let_def split: option.splits)
qed

lemma lease_is_active_eq:
  assumes "wf_leases h" and "r < length h"
  shows "lease_is_active now r h =
    (let h1 = expire now r h
     in if le_active (h1 ! r)
        then (case le_parent (h1 ! r) of None \<Rightarrow> (True, h1) | Some p \<Rightarrow> lease_is_active now p h1)
        else (False, h1))"
proof -
  have "active_fuel r now p (expire now r h) = active_fuel (Suc p) now p (expire now r h)"
    if "le_parent (h ! r) = Some p" for p
  proof -
    have "p < r" using assms that by (auto simp: wf_leases_def)
    then show ?thesis using assms by (intro active_fuel_enough) auto
  qed
  then show ?thesis
    by (auto simp: lease_is_active_def Let_def simp del: active_fuel.simps(2)
        split: option.splits) (auto simp: Let_def)
qed

section \<open>What an active lease means\<close>

text \<open>\<open>q\<close> is \<open>r\<close> itself or one of the leases above it.\<close>

inductive lease_above :: "lease_store \<Rightarrow> nat \<Rightarrow> nat \<Rightarrow> bool" where
  above_refl: "lease_above h r r"
| above_step: "le_parent (h ! r) = Some p \<Longrightarrow> lease_above h p q \<Longrightarrow> lease_above h r q"

inductive_cases above_cases: "lease_above h r q"

lemma above_unfold:
  "lease_above h r q \<longleftrightarrow> q = r \<or> (\<exists>p. le_parent (h ! r) = Some p \<and> lease_above h p q)"
  by (auto intro: lease_above.intros elim: above_cases)

lemma above_bound: "lease_above h r q \<Longrightarrow> wf_leases h \<Longrightarrow> r < length h \<Longrightarrow> q \<le> r \<and> q < length h"
proof (induction rule: lease_above.induct)
  case (above_refl h r)
  then show ?case by simp
next
  case (above_step h r p q)
  then have "p < r" by (auto simp: wf_leases_def)
  with above_step show ?case by force
qed

lemma above_trans: "lease_above h r q \<Longrightarrow> lease_above h q s \<Longrightarrow> lease_above h r s"
  by (induction rule: lease_above.induct) (auto intro: above_step)

lemma above_later:
  "lease_above h r q \<Longrightarrow> wf_leases h \<Longrightarrow> r < length h \<Longrightarrow> later h h' \<Longrightarrow> lease_above h' r q"
proof (induction rule: lease_above.induct)
  case (above_refl h r)
  then show ?case by (auto intro: lease_above.intros)
next
  case (above_step h r p q)
  then have p: "p < r" by (auto simp: wf_leases_def)
  then have "lease_above h' p q" using above_step by force
  moreover have "le_parent (h' ! r) = Some p"
    using above_step by (simp add: later_def lease_later_def)
  ultimately show ?case by (rule lease_above.above_step [rotated])
qed

lemma above_root:
  assumes "wf_leases h" and "r < length h"
  shows "lease_above h r (lease_root h r) \<and> le_parent (h ! lease_root h r) = None"
  using assms(2)
proof (induction r rule: less_induct)
  case (less r)
  show ?case
  proof (cases "le_parent (h ! r)")
    case None
    then show ?thesis using lease_root_eq [OF assms(1) less.prems] by (auto intro: above_refl)
  next
    case (Some p)
    then have "p < r" using less.prems assms by (auto simp: wf_leases_def)
    with less Some show ?thesis
      using lease_root_eq [OF assms(1) less.prems] by (auto intro: above_step)
  qed
qed

lemma expire_keeps_live:
  "le_active (expire now r h ! q) \<and> \<not> expired now (expire now r h ! q) \<longleftrightarrow>
   le_active (h ! q) \<and> \<not> expired now (h ! q)"
  by (cases "r < length h"; cases "q = r")
    (auto simp: expire_def revoked_def Let_def expired_def list_update_beyond split: option.splits)

lemma expire_self:
  "r < length h \<Longrightarrow>
   le_active (expire now r h ! r) \<longleftrightarrow> le_active (h ! r) \<and> \<not> expired now (h ! r)"
  by (auto simp: expire_def revoked_def Let_def)

lemma above_expire [simp]: "lease_above (expire now r h) a b = lease_above h a b"
proof
  show "lease_above (expire now r h) a b \<Longrightarrow> lease_above h a b"
    by (induction "expire now r h" a b rule: lease_above.induct) (auto intro: lease_above.intros)
  show "lease_above h a b \<Longrightarrow> lease_above (expire now r h) a b"
    by (induction rule: lease_above.induct) (auto intro: lease_above.intros)
qed

lemma is_active_iff:
  "wf_leases h \<Longrightarrow> r < length h \<Longrightarrow>
   fst (lease_is_active now r h) \<longleftrightarrow>
     (\<forall>q. lease_above h r q \<longrightarrow> le_active (h ! q) \<and> \<not> expired now (h ! q))"
proof (induction r arbitrary: h rule: less_induct)
  case (less r)
  let ?h = "expire now r h"
  have eq: "fst (lease_is_active now r h) =
     (le_active (?h ! r) \<and> (case le_parent (h ! r) of None \<Rightarrow> True
        | Some p \<Rightarrow> fst (lease_is_active now p ?h)))"
    using less.prems by (subst lease_is_active_eq) (auto simp: Let_def split: option.splits)
  have ch: "le_active (?h ! r) \<longleftrightarrow> le_active (h ! r) \<and> \<not> expired now (h ! r)"
    using less.prems by (simp add: expire_self)
  show ?case
  proof (cases "le_parent (h ! r)")
    case None
    then have "lease_above h r q \<longleftrightarrow> q = r" for q by (subst above_unfold) simp
    then show ?thesis using eq ch None by simp
  next
    case (Some p)
    then have "p < r" using less.prems by (auto simp: wf_leases_def)
    then have IH: "fst (lease_is_active now p ?h) \<longleftrightarrow>
        (\<forall>q. lease_above h p q \<longrightarrow> le_active (h ! q) \<and> \<not> expired now (h ! q))"
      using less.IH [of p ?h] less.prems expire_keeps_live by simp
    have "lease_above h r q \<longleftrightarrow> q = r \<or> lease_above h p q" for q
      using Some by (subst above_unfold) simp
    then show ?thesis using eq ch Some IH by auto
  qed
qed

section \<open>Every evolution of a store\<close>

text \<open>
  One step of a store: a lease is created below an existing one (or as a root), revoked,
  revoked with its whole request, asked, or ended by its scope. The steps of all the
  components are compositions of these.
\<close>

inductive lease_step :: "lease_store \<Rightarrow> lease_store \<Rightarrow> bool" where
  step_new: "(case parent of None \<Rightarrow> True | Some p \<Rightarrow> p < length h) \<Longrightarrow>
     lease_step h (snd (new_lease parent deadline h))"
| step_revoke: "r < length h \<Longrightarrow> lease_step h (snd (lease_revoke now r reason h))"
| step_revoke_request: "r < length h \<Longrightarrow> lease_step h (snd (lease_revoke_request now r reason h))"
| step_query: "r < length h \<Longrightarrow> lease_step h (snd (lease_is_active now r h))"
| step_end: "r < length h \<Longrightarrow> lease_step h (deactivate r h)"

inductive lease_steps :: "lease_store \<Rightarrow> lease_store \<Rightarrow> bool" where
  steps_refl: "lease_steps h h"
| steps_step: "lease_steps h h' \<Longrightarrow> lease_step h' h'' \<Longrightarrow> lease_steps h h''"

lemma snd_lease_revoke:
  "snd (lease_revoke now r reason h) =
     (if reason \<in> set termination_reasons then h[r := revoked now reason (h ! r)] else h)"
  by (simp add: lease_revoke_def bnd_def require_def ret_def raise_def modify_def)

lemma snd_lease_revoke_request:
  "snd (lease_revoke_request now r reason h) =
     snd (lease_revoke now r reason (snd (lease_revoke now (lease_root h r) reason h)))"
  by (simp add: lease_revoke_request_def lease_revoke_def bnd_def require_def ret_def raise_def
      modify_def gets_def)

lemma later_revoke: "later h (snd (lease_revoke now r reason h))"
  by (auto simp: snd_lease_revoke)

lemma length_revoke [simp]: "length (snd (lease_revoke now r reason h)) = length h"
  by (simp add: snd_lease_revoke)

lemma later_revoke_request: "later h (snd (lease_revoke_request now r reason h))"
  unfolding snd_lease_revoke_request by (rule later_trans [OF later_revoke later_revoke])

lemma lease_step_later: "lease_step h h' \<Longrightarrow> later h h'"
  by (induction rule: lease_step.induct)
    (auto simp: new_lease_def later_revoke later_revoke_request)

lemma lease_step_wf: "lease_step h h' \<Longrightarrow> wf_leases h \<Longrightarrow> wf_leases h'"
proof (induction rule: lease_step.induct)
  case (step_new parent h deadline)
  then show ?case
    by (auto simp: new_lease_def wf_leases_def nth_append less_Suc_eq split: option.splits)
next
  case (step_revoke r h now reason)
  then show ?case by (rule_tac wf_leases_later [OF _ later_revoke]) simp_all
next
  case (step_revoke_request r h now reason)
  then show ?case
    by (rule_tac wf_leases_later [OF _ later_revoke_request])
      (simp_all add: snd_lease_revoke_request Let_def)
next
  case (step_query r h now)
  then show ?case by (rule_tac wf_leases_later [OF _ later_is_active]) simp_all
next
  case (step_end r h)
  then show ?case by (rule_tac wf_leases_later [OF _ later_deactivate]) simp_all
qed

lemma lease_steps_later: "lease_steps h h' \<Longrightarrow> later h h'"
  by (induction rule: lease_steps.induct) (auto intro: later_trans lease_step_later)

lemma lease_steps_wf: "lease_steps h h' \<Longrightarrow> wf_leases h \<Longrightarrow> wf_leases h'"
  by (induction rule: lease_steps.induct) (auto intro: lease_step_wf)

lemma dead_above_inactive:
  assumes "wf_leases h" "q < length h" "\<not> le_active (h ! q)"
    and "wf_leases h'" "later h h'" "r < length h'" "lease_above h' r q"
  shows "\<not> fst (lease_is_active now r h')"
proof -
  have "\<not> le_active (h' ! q)" using assms by (auto simp: later_def lease_later_def)
  then show ?thesis using assms is_active_iff by blast
qed

lemma revoke_request_kills_root:
  assumes "wf_leases h" "r < length h" "lease_revoke_request now r reason h = (Inr (), h1)"
  shows "lease_root h r < length h1 \<and> \<not> le_active (h1 ! lease_root h r)"
proof -
  have root: "lease_root h r < length h" using above_root above_bound assms by blast
  have ok: "reason \<in> set termination_reasons"
    using assms(3) by (auto simp: lease_revoke_request_def lease_revoke_def bnd_def require_def
        ret_def raise_def modify_def gets_def split: if_splits)
  have "h1 = snd (lease_revoke_request now r reason h)" using assms(3) by simp
  then show ?thesis
    using root ok by (auto simp: snd_lease_revoke_request snd_lease_revoke Let_def revoked_def
        nth_list_update)
qed

text \<open>
  Revoking a request is final and reaches the whole tree: after \<open>revoke_request\<close>
  on any lease of a request, whatever leases are created, revoked, queried or ended
  afterwards, no lease under the same root (sibling, descendant, or created later) is ever
  active again, at any time.
\<close>

theorem revoke_request_final:
  assumes "wf_leases h" and "r < length h"
    and "lease_revoke_request now r reason h = (Inr (), h1)"
    and "lease_steps h1 h2" and "c < length h2" and "lease_above h2 c (lease_root h r)"
  shows "\<not> fst (lease_is_active now' c h2)"
proof -
  have h1: "h1 = snd (lease_revoke_request now r reason h)" using assms(3) by simp
  then have "lease_step h h1" using assms(2) by (simp add: step_revoke_request)
  then have wf1: "wf_leases h1" using assms(1) by (rule lease_step_wf)
  show ?thesis
    using revoke_request_kills_root [OF assms(1-3)] wf1 assms(4-6)
    by (intro dead_above_inactive [of h1 "lease_root h r" h2])
      (auto intro: lease_steps_later lease_steps_wf)
qed

text \<open>Two sibling leases under one root, the first of which revokes the request.\<close>

definition demo_leases :: lease_store where
  "demo_leases =
     [\<lparr>le_active = True, le_parent = None, le_deadline = Some 10, le_termination = None\<rparr>,
      \<lparr>le_active = True, le_parent = Some 0, le_deadline = None, le_termination = None\<rparr>,
      \<lparr>le_active = True, le_parent = Some 0, le_deadline = None, le_termination = None\<rparr>]"

lemma demo_leases_wf: "wf_leases demo_leases" "length demo_leases = 3"
  by (auto simp: wf_leases_def demo_leases_def nth_Cons split: nat.splits)

lemma demo_leases_root: "lease_root demo_leases (Suc 0) = 0"
  by (simp add: lease_root_def demo_leases_def numeral_2_eq_2)

theorem revoke_request_final_witness:
  "fst (lease_is_active 5 2 demo_leases) \<and>
   \<not> fst (lease_is_active 5 2 (snd (lease_revoke_request 5 1 ''cancelled'' demo_leases)))"
proof -
  let ?h1 = "snd (lease_revoke_request 5 1 ''cancelled'' demo_leases)"
  have run: "lease_revoke_request 5 1 ''cancelled'' demo_leases = (Inr (), ?h1)"
    by (simp add: lease_revoke_request_def lease_revoke_def bnd_def require_def ret_def
        modify_def gets_def termination_reasons_def)
  have "le_parent (?h1 ! 2) = Some 0" "length ?h1 = 3"
    using later_revoke_request [of demo_leases 5 1 "''cancelled''"]
    by (simp_all add: snd_lease_revoke_request Let_def later_def lease_later_def demo_leases_def)
  then have "lease_above ?h1 2 (lease_root demo_leases 1)"
    by (auto simp: demo_leases_root intro: lease_above.intros)
  then have "\<not> fst (lease_is_active 5 2 ?h1)"
    using \<open>length ?h1 = 3\<close>
    by (intro revoke_request_final [OF _ _ run steps_refl]) (simp_all add: demo_leases_wf)
  moreover have "fst (lease_is_active 5 2 demo_leases)"
    by (simp add: lease_is_active_def demo_leases_def numeral_2_eq_2 expire_def expired_def Let_def)
  ultimately show ?thesis by simp
qed

text \<open>
  A lease answers \<open>is_active\<close> positively exactly when it and every lease above it
  are unrevoked and before their deadlines: the recursive property with its side effects
  computes the conjunction over the chain, and leaves a store that can only have lost
  authority.
\<close>

theorem is_active_conjunction:
  assumes "wf_leases h" and "r < length h"
  shows "(fst (lease_is_active now r h) \<longleftrightarrow>
            (\<forall>q. lease_above h r q \<longrightarrow> le_active (h ! q) \<and> \<not> expired now (h ! q)))
         \<and> later h (snd (lease_is_active now r h))"
  using is_active_iff [OF assms] later_is_active by blast

theorem is_active_conjunction_witness:
  "(fst (lease_is_active 12 1 demo_leases) \<longleftrightarrow>
      (\<forall>q. lease_above demo_leases 1 q \<longrightarrow>
         le_active (demo_leases ! q) \<and> \<not> expired 12 (demo_leases ! q)))
   \<and> later demo_leases (snd (lease_is_active 12 1 demo_leases))
   \<and> \<not> fst (lease_is_active 12 1 demo_leases)"
proof -
  have "\<not> fst (lease_is_active 12 1 demo_leases)"
    by (simp add: lease_is_active_def demo_leases_def numeral_2_eq_2 expire_def expired_def
        Let_def revoked_def)
  then show ?thesis
    using is_active_conjunction [of demo_leases 1 12] by (simp add: demo_leases_wf)
qed

text \<open>
  The first recorded reason of termination is the one that is kept, whatever happens
  to the store afterwards.
\<close>

theorem termination_write_once:
  assumes "lease_steps h h'" and "r < length h" and "le_termination (h ! r) = Some t"
  shows "le_termination (h' ! r) = Some t"
  using lease_steps_later [OF assms(1)] assms(2,3) by (simp add: later_def lease_later_def)

theorem termination_write_once_witness:
  "le_termination (snd (lease_revoke 3 0 ''failed''
     (snd (lease_revoke 12 0 ''completed'' demo_leases))) ! 0) = Some ''timeout''"
proof -
  let ?h = "snd (lease_revoke 12 0 ''completed'' demo_leases)"
  have t: "le_termination (?h ! 0) = Some ''timeout''" and l: "0 < length ?h"
    by (simp_all add: snd_lease_revoke demo_leases_def termination_reasons_def revoked_def
        expired_def Let_def)
  have "lease_steps ?h (snd (lease_revoke 3 0 ''failed'' ?h))"
    using l by (intro steps_step [OF steps_refl] step_revoke)
  then show ?thesis using l t by (rule termination_write_once)
qed

end
