(* ===== verification/Maya_Config_Types.thy ===== *)
theory Maya_Config_Types
  imports Maya_Values "HOL-Library.Char_ord" "HOL-Library.List_Lexorder"
begin

text \<open>
  The typed configuration of \<open>src/project_maya/config.py\<close>: enums, dataclasses and
  paths. Strings are ordered as Python orders them, by code point
  (\<open>Char_ord\<close>, \<open>List_Lexorder\<close>).
\<close>

section \<open>Enumerations\<close>

datatype Edition = STANDARD | ENTERPRISE

datatype BrokerMode = RUNTIME | SETUP_ONLY | BROKER_DISABLED

datatype CredentialMode = BROKER | CUSTOMER_OWNED | LOCAL_ONLY | CRED_DISABLED

datatype ComponentProfile = CORE | METABASE | DOCUMENTS | MESSAGING | BROWSER | LOCAL_MODELS

fun edition_value :: "Edition \<Rightarrow> string" where
  "edition_value STANDARD = ''standard''"
| "edition_value ENTERPRISE = ''enterprise''"

fun broker_mode_value :: "BrokerMode \<Rightarrow> string" where
  "broker_mode_value RUNTIME = ''runtime''"
| "broker_mode_value SETUP_ONLY = ''setup_only''"
| "broker_mode_value BROKER_DISABLED = ''disabled''"

fun credential_mode_value :: "CredentialMode \<Rightarrow> string" where
  "credential_mode_value BROKER = ''broker''"
| "credential_mode_value CUSTOMER_OWNED = ''customer_owned''"
| "credential_mode_value LOCAL_ONLY = ''local_only''"
| "credential_mode_value CRED_DISABLED = ''disabled''"

fun profile_value :: "ComponentProfile \<Rightarrow> string" where
  "profile_value CORE = ''maya-core''"
| "profile_value METABASE = ''maya-metabase''"
| "profile_value DOCUMENTS = ''maya-documents''"
| "profile_value MESSAGING = ''maya-messaging''"
| "profile_value BROWSER = ''maya-browser''"
| "profile_value LOCAL_MODELS = ''maya-local-models''"

text \<open>\<open>Enum(value)\<close>: the member with that value, or \<open>ValueError\<close>.\<close>

definition enum_of :: "('e \<Rightarrow> string) \<Rightarrow> 'e list \<Rightarrow> pyval \<Rightarrow> 'e res" where
  "enum_of value_of members v =
     (case find (\<lambda>m. VStr (value_of m) = v) members of
        None \<Rightarrow> Inl (Exc PyValueError ''not a valid enum value'')
      | Some m \<Rightarrow> Inr m)"

abbreviation "edition_of \<equiv> enum_of edition_value [STANDARD, ENTERPRISE]"
abbreviation "broker_mode_of \<equiv> enum_of broker_mode_value [RUNTIME, SETUP_ONLY, BROKER_DISABLED]"
abbreviation "credential_mode_of \<equiv>
  enum_of credential_mode_value [BROKER, CUSTOMER_OWNED, LOCAL_ONLY, CRED_DISABLED]"
abbreviation "profile_of \<equiv>
  enum_of profile_value [CORE, METABASE, DOCUMENTS, MESSAGING, BROWSER, LOCAL_MODELS]"

lemma enum_round_trips [simp]:
  "edition_of (VStr (edition_value e)) = Inr e"
  "broker_mode_of (VStr (broker_mode_value b)) = Inr b"
  "credential_mode_of (VStr (credential_mode_value c)) = Inr c"
  "profile_of (VStr (profile_value p)) = Inr p"
  by (cases e; simp add: enum_of_def; fail) (cases b; simp add: enum_of_def; fail |
      cases c; simp add: enum_of_def; fail | cases p; simp add: enum_of_def; fail)+

section \<open>Paths\<close>

text \<open>
  \<open>pathlib.PurePosixPath\<close>: a root (empty, one slash, or exactly two) and the parts
  between slashes, empty ones and dots dropped.
\<close>

datatype path = Path (path_root: string) (path_parts: "string list")

fun split_on :: "char \<Rightarrow> string \<Rightarrow> string list" where
  "split_on sep [] = [[]]"
| "split_on sep (c # cs) =
     (if c = sep then [] # split_on sep cs
      else (case split_on sep cs of [] \<Rightarrow> [[c]] | w # ws \<Rightarrow> (c # w) # ws))"

fun join_with :: "string \<Rightarrow> string list \<Rightarrow> string" where
  "join_with sep [] = []"
| "join_with sep [w] = w"
| "join_with sep (w # ws) = w @ sep @ join_with sep ws"

definition parse_path :: "string \<Rightarrow> path" where
  "parse_path s =
     (let slashes = length (takeWhile (\<lambda>c. c = CHR ''/'') s)
      in Path (if slashes = 0 then [] else if slashes = 2 then ''//'' else ''/'')
           (filter (\<lambda>w. w \<noteq> [] \<and> w \<noteq> ''.'') (split_on (CHR ''/'') s)))"

definition path_str :: "path \<Rightarrow> string" where
  "path_str p =
     (if path_root p = [] \<and> path_parts p = [] then ''.''
      else path_root p @ join_with ''/'' (path_parts p))"

definition is_absolute :: "path \<Rightarrow> bool" where
  "is_absolute p \<longleftrightarrow> path_root p \<noteq> []"

text \<open>The paths \<open>Path(s)\<close> can be.\<close>

definition wf_path :: "path \<Rightarrow> bool" where
  "wf_path p \<longleftrightarrow> path_root p \<in> {[], ''/'', ''//''}
     \<and> (\<forall>w \<in> set (path_parts p). w \<noteq> [] \<and> w \<noteq> ''.'' \<and> CHR ''/'' \<notin> set w)"

lemma split_on_nonempty [simp]: "split_on c s \<noteq> []"
  by (induction s) (auto split: list.splits)

lemma split_on_no_sep: "w \<in> set (split_on c s) \<Longrightarrow> c \<notin> set w"
proof (induction s arbitrary: w)
  case Nil
  then show ?case by simp
next
  case (Cons a s)
  then show ?case by (cases "split_on c s") (auto split: if_splits)
qed

lemma split_on_single: "c \<notin> set w \<Longrightarrow> split_on c w = [w]"
  by (induction w) auto

lemma split_on_append: "c \<notin> set w \<Longrightarrow> split_on c (w @ c # s) = w # split_on c s"
  by (induction w) (auto split: list.splits)

lemma split_on_join:
  "ws \<noteq> [] \<Longrightarrow> \<forall>w \<in> set ws. c \<notin> set w \<Longrightarrow> split_on c (join_with [c] ws) = ws"
proof (induction "[c]" ws rule: join_with.induct)
  case 1
  then show ?case by simp
next
  case (2 w)
  then show ?case by (simp add: split_on_single)
next
  case (3 w v ws)
  then show ?case using split_on_append [of c w] by simp
qed

lemma wf_parse_path: "wf_path (parse_path s)"
  by (auto simp: wf_path_def parse_path_def Let_def dest: split_on_no_sep)

lemma takeWhile_join:
  assumes "\<forall>w \<in> set ws. w \<noteq> [] \<and> c \<notin> set w"
  shows "takeWhile (\<lambda>d. d = c) (join_with [c] ws) = []"
  using assms by (cases "([c], ws)" rule: join_with.cases) (auto simp: neq_Nil_conv)

theorem parse_path_str:
  assumes "wf_path p"
  shows "parse_path (path_str p) = p"
proof (cases "path_parts p = []")
  case True
  then show ?thesis using assms
    by (cases p) (auto simp: parse_path_def path_str_def wf_path_def Let_def)
next
  case False
  let ?j = "join_with ''/'' (path_parts p)"
  have parts: "\<forall>w \<in> set (path_parts p). w \<noteq> [] \<and> w \<noteq> ''.'' \<and> CHR ''/'' \<notin> set w"
    using assms by (simp add: wf_path_def)
  have sp: "split_on (CHR ''/'') ?j = path_parts p"
    using split_on_join [OF False] parts by simp
  have tw: "takeWhile (\<lambda>d. d = CHR ''/'') ?j = []"
    using takeWhile_join [of "path_parts p" "CHR ''/''"] parts by simp
  have flt: "filter (\<lambda>w. w \<noteq> [] \<and> w \<noteq> ''.'') (path_parts p) = path_parts p"
    using parts by (simp add: filter_id_conv)
  have "path_root p \<in> {[], ''/'', ''//''}" using assms by (simp add: wf_path_def)
  then show ?thesis
    using False sp tw flt
    by (cases p) (auto simp: parse_path_def path_str_def Let_def)
qed

section \<open>Configuration records\<close>

record ProductConfig =
  edition :: Edition
  instance_id :: string

record DeploymentConfig =
  deployment_class :: string
  network_policy :: string
  data_dir :: path

record RuntimeConfig =
  hermes_compatibility :: string
  enabled_profiles :: "ComponentProfile list"
  hermes_factory :: string
  hermes_runtime_version :: "string option"

record BrokerConfig =
  broker_mode :: BrokerMode
  broker_endpoint :: "string option"

record ModelConfig =
  llm_mode :: string
  llm_provider :: string
  llm_model :: string
  llm_credential_ref :: "string option"
  llm_endpoint :: "string option"
  llm_timeout_seconds :: int

record IntegrationConfig =
  int_enabled :: bool
  int_credential_mode :: CredentialMode
  int_credential_ref :: "string option"

record MemoryConfig =
  hermes_provider :: string
  mem_retriever :: string
  mem_registry :: string
  governance_enabled :: bool

record GovernanceConfig =
  policy_file :: path
  audit_enabled :: bool
  default_action :: string
  minimum_memory_trust :: pyfloat

record MetabaseApplicationDatabaseConfig =
  appdb_engine :: string
  appdb_credential_ref :: string

record MetabaseAnalyticsSourceConfig =
  source_name :: string
  source_engine :: string
  source_credential_ref :: string

record MetabaseConfig =
  metabase_enabled :: bool
  metabase_deployment :: string
  metabase_endpoint :: "string option"
  application_database :: "MetabaseApplicationDatabaseConfig option"
  analytics_sources :: "MetabaseAnalyticsSourceConfig list"

record LocalAPIConfig =
  api_bind :: string
  api_port :: "int option"
  api_remote_access :: bool

record MayaConfig =
  schema_version :: int
  product :: ProductConfig
  deployment :: DeploymentConfig
  runtime :: RuntimeConfig
  broker :: BrokerConfig
  llm :: ModelConfig
  integrations :: "(string \<times> IntegrationConfig) list"
  memory :: MemoryConfig
  governance :: GovernanceConfig
  metabase :: MetabaseConfig
  local_api :: LocalAPIConfig

end
