(* ===== verification/Maya_Connectors.thy ===== *)
theory Maya_Connectors
  imports Maya_Config_Types
begin

text \<open>
  \<open>src/project_maya/connectors.py\<close>: the credential contract of each supported
  connector, the manifest built from an integration, and the redacted validation report.
\<close>

section \<open>Contracts and manifests\<close>

record ConnectorCapability =
  cap_name :: string
  cap_scopes :: "string list"
  cap_can_read :: bool
  cap_can_write :: bool

record ConnectorManifest =
  man_name :: string
  man_credential_mode :: CredentialMode
  man_credential_ref :: "string option"
  man_capabilities :: "ConnectorCapability list"
  man_allowlists :: "(string \<times> string list) list"
  man_revocation_supported :: bool

abbreviation config_error :: "string \<Rightarrow> pyexc" where
  "config_error m \<equiv> Exc ConfigError m"

abbreviation is_secret_ref :: "string \<Rightarrow> bool" where
  "is_secret_ref s \<equiv> starts_with s ''secret://''"

definition manifest_validate :: "ConnectorManifest \<Rightarrow> unit res" where
  "manifest_validate m =
     (if strip (man_name m) = [] then Inl (config_error ''connector name is required'')
      else if man_name m = ''telegram'' \<and> man_credential_mode m = BROKER then
        Inl (config_error ''telegram cannot use broker credentials'')
      else if man_credential_mode m = CRED_DISABLED \<and> man_credential_ref m \<notin> {None, Some []} then
        Inl (config_error ''disabled connectors must not declare credential_ref'')
      else if man_credential_ref m \<notin> {None, Some []}
              \<and> \<not> is_secret_ref (the (man_credential_ref m)) then
        Inl (config_error ''connector credential_ref must be a secret:// reference'')
      else if man_capabilities m = [] then
        Inl (config_error ''connector must declare at least one capability'')
      else if list_ex (\<lambda>c. strip (cap_name c) = []) (man_capabilities m) then
        Inl (config_error ''connector capability name is required'')
      else Inr ())"

record ConnectorCredentialContract =
  con_name :: string
  con_supported_modes :: "CredentialMode list"
  con_required_modes :: "CredentialMode list"
  con_capabilities :: "ConnectorCapability list"
  con_allowlist_keys :: "string list"
  con_broker_allowed_when_disabled :: bool

definition validate_integration ::
  "ConnectorCredentialContract \<Rightarrow> IntegrationConfig \<Rightarrow> BrokerMode \<Rightarrow> unit res" where
  "validate_integration c i bm =
     (let name = con_name c; mode = int_credential_mode i
      in if name = ''telegram'' \<and> mode = BROKER then
           Inl (config_error ''telegram must use a customer-owned credential'')
         else if mode \<notin> set (con_supported_modes c) then
           Inl (config_error (name @ ''.credential_mode must be one of: ''
             @ join_with '', '' (map credential_mode_value (con_supported_modes c))))
         else if int_enabled i \<and> mode = CRED_DISABLED then
           Inl (config_error (name @ '' is enabled with disabled credentials''))
         else if mode = BROKER \<and> bm = BROKER_DISABLED \<and> \<not> con_broker_allowed_when_disabled c then
           Inl (config_error (name @ ''.credential_mode=broker requires broker mode''))
         else if mode = CRED_DISABLED then
           (if int_credential_ref i \<noteq> None then
              Inl (config_error (name @ ''.credential_ref must be absent when disabled''))
            else Inr ())
         else if mode \<in> set (con_required_modes c) then
           (case int_credential_ref i of
              None \<Rightarrow> Inl (config_error (name @ ''.credential_ref is required for ''
                @ credential_mode_value mode))
            | Some r \<Rightarrow>
                if \<not> is_secret_ref r then
                  Inl (config_error (name @ ''.credential_ref must be a secret:// reference''))
                else Inr ())
         else
           (case int_credential_ref i of
              None \<Rightarrow> Inr ()
            | Some r \<Rightarrow>
                if \<not> is_secret_ref r then
                  Inl (config_error (name @ ''.credential_ref must be a secret:// reference''))
                else Inr ()))"

definition manifest_for ::
  "ConnectorCredentialContract \<Rightarrow> IntegrationConfig \<Rightarrow> ConnectorManifest" where
  "manifest_for c i =
     \<lparr>man_name = con_name c,
      man_credential_mode = int_credential_mode i,
      man_credential_ref = int_credential_ref i,
      man_capabilities = con_capabilities c,
      man_allowlists = map (\<lambda>k. (k, [])) (con_allowlist_keys c),
      man_revocation_supported = int_credential_mode i \<in> {BROKER, CUSTOMER_OWNED}\<rparr>"

definition GOOGLE_CONNECTOR_CONTRACT :: ConnectorCredentialContract where
  "GOOGLE_CONNECTOR_CONTRACT =
     \<lparr>con_name = ''google'',
      con_supported_modes = [BROKER, CUSTOMER_OWNED, CRED_DISABLED],
      con_required_modes = [BROKER, CUSTOMER_OWNED],
      con_capabilities =
        [\<lparr>cap_name = ''drive.read'',
          cap_scopes = [''https://www.googleapis.com/auth/drive.readonly''],
          cap_can_read = True, cap_can_write = False\<rparr>,
         \<lparr>cap_name = ''calendar.read'',
          cap_scopes = [''https://www.googleapis.com/auth/calendar.readonly''],
          cap_can_read = True, cap_can_write = False\<rparr>],
      con_allowlist_keys = [''users'', ''resources''],
      con_broker_allowed_when_disabled = False\<rparr>"

definition SLACK_CONNECTOR_CONTRACT :: ConnectorCredentialContract where
  "SLACK_CONNECTOR_CONTRACT =
     \<lparr>con_name = ''slack'',
      con_supported_modes = [BROKER, CUSTOMER_OWNED, CRED_DISABLED],
      con_required_modes = [BROKER, CUSTOMER_OWNED],
      con_capabilities =
        [\<lparr>cap_name = ''message.read'', cap_scopes = [''channels:history''],
          cap_can_read = True, cap_can_write = False\<rparr>,
         \<lparr>cap_name = ''message.send'', cap_scopes = [''chat:write''],
          cap_can_read = False, cap_can_write = True\<rparr>],
      con_allowlist_keys = [''workspaces'', ''channels'', ''users''],
      con_broker_allowed_when_disabled = False\<rparr>"

definition TELEGRAM_CONNECTOR_CONTRACT :: ConnectorCredentialContract where
  "TELEGRAM_CONNECTOR_CONTRACT =
     \<lparr>con_name = ''telegram'',
      con_supported_modes = [CUSTOMER_OWNED, CRED_DISABLED],
      con_required_modes = [CUSTOMER_OWNED],
      con_capabilities =
        [\<lparr>cap_name = ''message.receive'', cap_scopes = [],
          cap_can_read = True, cap_can_write = False\<rparr>,
         \<lparr>cap_name = ''message.send'', cap_scopes = [],
          cap_can_read = False, cap_can_write = True\<rparr>],
      con_allowlist_keys = [''chats'', ''users''],
      con_broker_allowed_when_disabled = False\<rparr>"

definition SUPPORTED_CONNECTOR_CONTRACTS :: "(string \<times> ConnectorCredentialContract) list" where
  "SUPPORTED_CONNECTOR_CONTRACTS =
     map (\<lambda>c. (con_name c, c))
       [GOOGLE_CONNECTOR_CONTRACT, SLACK_CONNECTOR_CONTRACT, TELEGRAM_CONNECTOR_CONTRACT]"

definition get_connector_contract :: "string \<Rightarrow> ConnectorCredentialContract res" where
  "get_connector_contract name =
     (case map_of SUPPORTED_CONNECTOR_CONTRACTS name of
        None \<Rightarrow> Inl (config_error (''unsupported connector: '' @ name))
      | Some c \<Rightarrow> Inr c)"

definition build_connector_manifest ::
  "string \<Rightarrow> IntegrationConfig \<Rightarrow> BrokerMode \<Rightarrow> ConnectorManifest res" where
  "build_connector_manifest name i bm =
     bindR (get_connector_contract name) (\<lambda>c.
     bindR (validate_integration c i bm) (\<lambda>_.
     let m = manifest_for c i
     in bindR (manifest_validate m) (\<lambda>_. Inr m)))"

section \<open>The redacted validation report\<close>

datatype ConnectorValidationStatus = CV_VALID | CV_INVALID

datatype ConnectorHealthState = CH_CONFIGURED | CH_DISABLED | CH_UNAVAILABLE | CH_INVALID

fun health_value :: "ConnectorHealthState \<Rightarrow> string" where
  "health_value CH_CONFIGURED = ''configured''"
| "health_value CH_DISABLED = ''disabled''"
| "health_value CH_UNAVAILABLE = ''unavailable''"
| "health_value CH_INVALID = ''invalid''"

record ConnectorValidation =
  cv_name :: string
  cv_status :: ConnectorValidationStatus
  cv_enabled :: bool
  cv_credential_mode :: CredentialMode
  cv_credential_ref_state :: string
  cv_capabilities :: "string list"
  cv_scopes :: "string list"
  cv_allowlist_state :: "(string \<times> string) list"
  cv_health :: ConnectorHealthState
  cv_network_used :: bool
  cv_message :: string

definition credential_ref_state :: "string option \<Rightarrow> string" where
  "credential_ref_state v =
     (case v of None \<Rightarrow> ''not_configured''
      | Some r \<Rightarrow> if is_secret_ref r then ''configured'' else ''invalid'')"

definition manifest_scopes :: "ConnectorManifest \<Rightarrow> string list" where
  "manifest_scopes m = dedup (concat (map cap_scopes (man_capabilities m)))"

definition validate_connector ::
  "string \<Rightarrow> IntegrationConfig \<Rightarrow> BrokerMode \<Rightarrow> ConnectorValidation" where
  "validate_connector name i bm =
     (case build_connector_manifest name i bm of
        Inl e \<Rightarrow>
          \<lparr>cv_name = name, cv_status = CV_INVALID, cv_enabled = int_enabled i,
           cv_credential_mode = int_credential_mode i,
           cv_credential_ref_state = credential_ref_state (int_credential_ref i),
           cv_capabilities = [], cv_scopes = [], cv_allowlist_state = [],
           cv_health = CH_INVALID, cv_network_used = False, cv_message = exc_message e\<rparr>
      | Inr m \<Rightarrow>
          (let health = (if man_credential_mode m = CRED_DISABLED then CH_DISABLED else CH_UNAVAILABLE)
           in \<lparr>cv_name = name, cv_status = CV_VALID, cv_enabled = int_enabled i,
               cv_credential_mode = int_credential_mode i,
               cv_credential_ref_state = credential_ref_state (int_credential_ref i),
               cv_capabilities = map cap_name (man_capabilities m),
               cv_scopes = manifest_scopes m,
               cv_allowlist_state =
                 map (\<lambda>(k, vs). (k, if vs \<noteq> [] then ''configured'' else ''not_configured''))
                   (sort_key fst (man_allowlists m)),
               cv_health = health, cv_network_used = False,
               cv_message = (if health = CH_DISABLED then ''connector disabled''
                             else ''live provider validation unavailable'')\<rparr>))"

definition validate_configured_connectors ::
  "(string \<times> IntegrationConfig) list \<Rightarrow> BrokerMode \<Rightarrow> ConnectorValidation list" where
  "validate_configured_connectors is bm =
     map (\<lambda>(name, i). validate_connector name i bm) (sort_key fst is)"

definition comma_or_none :: "string list \<Rightarrow> string" where
  "comma_or_none xs = (if xs = [] then ''none'' else join_with '','' xs)"

definition redacted_summary :: "ConnectorValidation \<Rightarrow> string" where
  "redacted_summary v =
     cv_name v @ '':'' @ (if cv_enabled v then ''enabled'' else ''disabled'') @ '',''
     @ ''credential_mode='' @ credential_mode_value (cv_credential_mode v) @ '',''
     @ ''credential_ref='' @ cv_credential_ref_state v @ '',''
     @ ''capabilities='' @ comma_or_none (cv_capabilities v) @ '',''
     @ ''scopes='' @ comma_or_none (cv_scopes v) @ '',''
     @ ''allowlists='' @ comma_or_none
         (map (\<lambda>(k, x). k @ '':'' @ x) (sort_key fst (cv_allowlist_state v))) @ '',''
     @ ''health='' @ health_value (cv_health v) @ '',''
     @ ''network_used='' @ (if cv_network_used v then ''true'' else ''false'') @ '',''
     @ ''message='' @ cv_message v"

section \<open>Which integrations are accepted\<close>

lemmas connector_contracts =
  GOOGLE_CONNECTOR_CONTRACT_def SLACK_CONNECTOR_CONTRACT_def TELEGRAM_CONNECTOR_CONTRACT_def

lemma get_connector_contract_cases:
  "get_connector_contract name =
     (if name = ''google'' then Inr GOOGLE_CONNECTOR_CONTRACT
      else if name = ''slack'' then Inr SLACK_CONNECTOR_CONTRACT
      else if name = ''telegram'' then Inr TELEGRAM_CONNECTOR_CONTRACT
      else Inl (config_error (''unsupported connector: '' @ name)))"
  by (auto simp: get_connector_contract_def SUPPORTED_CONNECTOR_CONTRACTS_def connector_contracts)

definition well_credentialed :: "IntegrationConfig \<Rightarrow> bool" where
  "well_credentialed i \<longleftrightarrow> (\<exists>r. int_credential_ref i = Some r \<and> is_secret_ref r)"

lemma secret_ref_nonempty: "is_secret_ref r \<Longrightarrow> r \<noteq> []"
  by (auto simp: starts_with_def)

lemma validate_integration_iff:
  assumes "c \<in> {GOOGLE_CONNECTOR_CONTRACT, SLACK_CONNECTOR_CONTRACT, TELEGRAM_CONNECTOR_CONTRACT}"
  shows "validate_integration c i bm = Inr () \<longleftrightarrow>
    (case int_credential_mode i of
       CRED_DISABLED \<Rightarrow> \<not> int_enabled i \<and> int_credential_ref i = None
     | CUSTOMER_OWNED \<Rightarrow> well_credentialed i
     | BROKER \<Rightarrow> con_name c \<noteq> ''telegram'' \<and> bm \<noteq> BROKER_DISABLED \<and> well_credentialed i
     | LOCAL_ONLY \<Rightarrow> False)"
  using assms
  by (auto simp: validate_integration_def Let_def connector_contracts well_credentialed_def
      split: CredentialMode.splits option.splits)

lemma contract_shape:
  assumes "c \<in> {GOOGLE_CONNECTOR_CONTRACT, SLACK_CONNECTOR_CONTRACT, TELEGRAM_CONNECTOR_CONTRACT}"
  shows "strip (con_name c) \<noteq> []" and "con_capabilities c \<noteq> []"
    and "\<not> list_ex (\<lambda>k. strip (cap_name k) = []) (con_capabilities c)"
  using assms by (auto simp: connector_contracts strip_def is_space_def)

lemma manifest_of_contract_valid:
  assumes c: "c \<in> {GOOGLE_CONNECTOR_CONTRACT, SLACK_CONNECTOR_CONTRACT, TELEGRAM_CONNECTOR_CONTRACT}"
    and "validate_integration c i bm = Inr ()"
  shows "manifest_validate (manifest_for c i) = Inr ()"
proof -
  have "case int_credential_mode i of
       CRED_DISABLED \<Rightarrow> \<not> int_enabled i \<and> int_credential_ref i = None
     | CUSTOMER_OWNED \<Rightarrow> well_credentialed i
     | BROKER \<Rightarrow> con_name c \<noteq> ''telegram'' \<and> bm \<noteq> BROKER_DISABLED \<and> well_credentialed i
     | LOCAL_ONLY \<Rightarrow> False"
    using assms(2) validate_integration_iff [OF c] by simp
  then show ?thesis
    using contract_shape [OF c]
    by (cases "int_credential_mode i")
      (auto simp: manifest_validate_def manifest_for_def well_credentialed_def)
qed

lemma build_manifest_iff:
  "is_ok (build_connector_manifest name i bm) \<longleftrightarrow>
     name \<in> {''google'', ''slack'', ''telegram''} \<and>
     (case int_credential_mode i of
        CRED_DISABLED \<Rightarrow> \<not> int_enabled i \<and> int_credential_ref i = None
      | CUSTOMER_OWNED \<Rightarrow> well_credentialed i
      | BROKER \<Rightarrow> name \<noteq> ''telegram'' \<and> bm \<noteq> BROKER_DISABLED \<and> well_credentialed i
      | LOCAL_ONLY \<Rightarrow> False)"
proof -
  have build: "is_ok (build_connector_manifest name i bm) \<longleftrightarrow> validate_integration c i bm = Inr ()"
    if "get_connector_contract name = Inr c"
      and c: "c \<in> {GOOGLE_CONNECTOR_CONTRACT, SLACK_CONNECTOR_CONTRACT, TELEGRAM_CONNECTOR_CONTRACT}"
    for c
    using that manifest_of_contract_valid [OF c, of i bm]
    by (cases "validate_integration c i bm") (auto simp: build_connector_manifest_def Let_def)
  have names: "con_name GOOGLE_CONNECTOR_CONTRACT = ''google''"
    "con_name SLACK_CONNECTOR_CONTRACT = ''slack''"
    "con_name TELEGRAM_CONNECTOR_CONTRACT = ''telegram''"
    by (simp_all add: connector_contracts)
  consider "name = ''google''" | "name = ''slack''" | "name = ''telegram''"
    | "name \<notin> {''google'', ''slack'', ''telegram''}" by blast
  then show ?thesis
  proof cases
    case 1
    then show ?thesis
      using build [of GOOGLE_CONNECTOR_CONTRACT]
        validate_integration_iff [of GOOGLE_CONNECTOR_CONTRACT i bm]
      by (cases "int_credential_mode i") (simp_all add: get_connector_contract_cases names)
  next
    case 2
    then show ?thesis
      using build [of SLACK_CONNECTOR_CONTRACT]
        validate_integration_iff [of SLACK_CONNECTOR_CONTRACT i bm]
      by (cases "int_credential_mode i") (simp_all add: get_connector_contract_cases names)
  next
    case 3
    then show ?thesis
      using build [of TELEGRAM_CONNECTOR_CONTRACT]
        validate_integration_iff [of TELEGRAM_CONNECTOR_CONTRACT i bm]
      by (cases "int_credential_mode i") (simp_all add: get_connector_contract_cases names)
  next
    case 4
    then show ?thesis by (simp add: build_connector_manifest_def get_connector_contract_cases)
  qed
qed

text \<open>
  The connectors' admission rule, complete: a connector configuration yields a manifest
  exactly when the connector is supported and its credential mode is met: disabled means
  switched off and without a reference, customer-owned and broker need a
  \<open>secret://\<close> reference, broker also a broker that is not disabled and a connector
  other than Telegram; local-only is never accepted.
\<close>

theorem connector_admission:
  "is_ok (build_connector_manifest name i bm) \<longleftrightarrow>
     name \<in> {''google'', ''slack'', ''telegram''} \<and>
     (case int_credential_mode i of
        CRED_DISABLED \<Rightarrow> \<not> int_enabled i \<and> int_credential_ref i = None
      | CUSTOMER_OWNED \<Rightarrow> well_credentialed i
      | BROKER \<Rightarrow> name \<noteq> ''telegram'' \<and> bm \<noteq> BROKER_DISABLED \<and> well_credentialed i
      | LOCAL_ONLY \<Rightarrow> False)"
  by (rule build_manifest_iff)

end
