(* ===== verification/Maya_Config.thy ===== *)
theory Maya_Config
  imports Maya_Connectors
begin

text \<open>
  \<open>MayaConfig.validate\<close>, \<open>config_from_mapping\<close> and \<open>config_to_mapping\<close> of
  \<open>src/project_maya/config.py\<close>: what a valid configuration promises the rest of the
  program, and that the normalized mapping reads back as the configuration it came from.

  The dataclasses are modelled at their annotated types: a leaf of a mapping that is not of
  the annotated type (which the code would store as it is) is a \<open>TypeError\<close> of the
  model. \<open>float_of_str\<close> is Python's reading of a float from a string.
\<close>

section \<open>Validation\<close>

definition is_loopback :: "string \<Rightarrow> bool" where
  "is_loopback bind \<longleftrightarrow> bind = ''localhost'' \<or> bind = ''::1'' \<or> starts_with bind ''127.''"

definition require_secret_ref :: "string \<Rightarrow> string \<Rightarrow> unit res" where
  "require_secret_ref value field =
     requireR (is_secret_ref value) (config_error (field @ '' must be a secret:// reference''))"

definition cfg_validate_integration :: "MayaConfig \<Rightarrow> string \<Rightarrow> IntegrationConfig \<Rightarrow> unit res" where
  "cfg_validate_integration c name i =
     (if name \<in> {''google'', ''slack'', ''telegram''} then
        bindR (build_connector_manifest name i (broker_mode (broker c))) (\<lambda>_. Inr ())
      else if int_enabled i \<and> int_credential_mode i = CRED_DISABLED then
        Inl (config_error (name @ '' is enabled with disabled credentials''))
      else (case int_credential_ref i of
              None \<Rightarrow> Inr ()
            | Some r \<Rightarrow> require_secret_ref r (name @ ''.credential_ref'')))"

definition trust_in_range :: "pyfloat \<Rightarrow> bool" where
  "trust_in_range f = (case f of Finite q \<Rightarrow> 0 \<le> q \<and> q \<le> 1 | _ \<Rightarrow> False)"

definition validate_metabase :: "MetabaseConfig \<Rightarrow> unit res" where
  "validate_metabase m =
     (if metabase_enabled m then
        (case application_database m of
           None \<Rightarrow> Inl (config_error ''metabase.application_database is required'')
         | Some db \<Rightarrow>
             bindR (all_okR (\<lambda>s. require_secret_ref (source_credential_ref s)
                 (''metabase.analytics_sources.'' @ source_name s @ ''.credential_ref''))
               (analytics_sources m)) (\<lambda>_.
             require_secret_ref (appdb_credential_ref db)
               ''metabase.application_database.credential_ref''))
      else Inr ())"

definition validate :: "MayaConfig \<Rightarrow> unit res" where
  "validate c =
     bindR (requireR (schema_version c = 2) (config_error ''schema_version must be 2'')) (\<lambda>_.
     bindR (requireR (strip (instance_id (product c)) \<noteq> [])
       (config_error ''product.instance_id is required'')) (\<lambda>_.
     bindR (requireR (is_absolute (data_dir (deployment c)))
       (config_error ''deployment.data_dir must be absolute'')) (\<lambda>_.
     bindR (requireR (CORE \<in> set (enabled_profiles (runtime c)))
       (config_error ''maya-core profile is required'')) (\<lambda>_.
     bindR (requireR (\<not> (broker_mode (broker c) = BROKER_DISABLED
         \<and> broker_endpoint (broker c) \<notin> {None, Some []}))
       (config_error ''broker.endpoint requires broker mode'')) (\<lambda>_.
     bindR (requireR (\<not> llm_timeout_seconds (llm c) < 1)
       (config_error ''llm.timeout_seconds must be positive'')) (\<lambda>_.
     bindR (requireR (trust_in_range (minimum_memory_trust (governance c)))
       (config_error ''governance.minimum_memory_trust must be 0..1'')) (\<lambda>_.
     bindR (requireR (\<not> api_remote_access (local_api c))
       (config_error ''local_api.remote_access is not supported in Phase 1'')) (\<lambda>_.
     bindR (requireR (is_loopback (api_bind (local_api c)))
       (config_error ''local_api.bind must be loopback in Phase 1'')) (\<lambda>_.
     bindR (requireR (governance_enabled (memory c))
       (config_error ''memory.governance_enabled must be true'')) (\<lambda>_.
     bindR (requireR (mem_retriever (memory c) \<in> {''local_json'', ''local_vector''})
       (config_error ''memory.retriever must be local_json or local_vector'')) (\<lambda>_.
     bindR (requireR (\<not> (mem_retriever (memory c) = ''local_vector'' \<and> mem_registry (memory c) \<noteq> ''sqlite''))
       (config_error ''memory.retriever=local_vector requires memory.registry=sqlite'')) (\<lambda>_.
     bindR (requireR (audit_enabled (governance c))
       (config_error ''governance.audit_enabled must be true'')) (\<lambda>_.
     bindR (all_okR (\<lambda>(name, i). cfg_validate_integration c name i) (integrations c)) (\<lambda>_.
     validate_metabase (metabase c)))))))))))))))"

section \<open>Reading a mapping\<close>

abbreviation untyped :: "pyexc" where
  "untyped \<equiv> Exc PyTypeError ''unexpected type''"

fun str_leaf :: "pyval \<Rightarrow> string res" where
  "str_leaf (VStr s) = Inr s"
| "str_leaf v = Inl untyped"

fun opt_str_leaf :: "pyval \<Rightarrow> string option res" where
  "opt_str_leaf VNone = Inr None"
| "opt_str_leaf (VStr s) = Inr (Some s)"
| "opt_str_leaf v = Inl untyped"

fun bool_leaf :: "pyval \<Rightarrow> bool res" where
  "bool_leaf (VBool b) = Inr b"
| "bool_leaf v = Inl untyped"

fun opt_int_leaf :: "pyval \<Rightarrow> int option res" where
  "opt_int_leaf VNone = Inr None"
| "opt_int_leaf (VInt i) = Inr (Some i)"
| "opt_int_leaf v = Inl untyped"

fun dict_leaf :: "pyval \<Rightarrow> pydict res" where
  "dict_leaf (VDict d) = Inr d"
| "dict_leaf v = Inl untyped"

fun seq_leaf :: "pyval \<Rightarrow> pyval list res" where
  "seq_leaf (VList xs) = Inr xs"
| "seq_leaf (VTuple xs) = Inr xs"
| "seq_leaf v = Inl untyped"

fun float_leaf :: "(string \<Rightarrow> pyfloat res) \<Rightarrow> pyval \<Rightarrow> pyfloat res" where
  "float_leaf float_of_str (VFloat f) = Inr f"
| "float_leaf float_of_str (VInt i) = Inr (Finite (of_int i))"
| "float_leaf float_of_str (VBool b) = Inr (Finite (if b then 1 else 0))"
| "float_leaf float_of_str (VStr s) = float_of_str s"
| "float_leaf float_of_str v = Inl untyped"

abbreviation item_str :: "pydict \<Rightarrow> string \<Rightarrow> string res" where
  "item_str d k \<equiv> bindR (ditem d k) str_leaf"

abbreviation get_opt_str :: "pydict \<Rightarrow> string \<Rightarrow> string option res" where
  "get_opt_str d k \<equiv> opt_str_leaf (dget_or d k VNone)"

abbreviation get_str_or :: "pydict \<Rightarrow> string \<Rightarrow> string \<Rightarrow> string res" where
  "get_str_or d k v \<equiv> str_leaf (dget_or d k (VStr v))"

abbreviation item_dict :: "pydict \<Rightarrow> string \<Rightarrow> pydict res" where
  "item_dict d k \<equiv> bindR (ditem d k) dict_leaf"

text \<open>\<open>Cls(**d)\<close>: every key must be a field.\<close>

definition only_keys :: "pydict \<Rightarrow> string list \<Rightarrow> unit res" where
  "only_keys d ks =
     requireR (list_all (\<lambda>(k, _). k \<in> set (map VStr ks)) d)
       (Exc PyTypeError ''unexpected keyword argument'')"

definition required_arg :: "pydict \<Rightarrow> string \<Rightarrow> pyval res" where
  "required_arg d k =
     (case dget d k of None \<Rightarrow> Inl (Exc PyTypeError ''missing argument'') | Some v \<Rightarrow> Inr v)"

definition integration_from :: "pyval \<times> pyval \<Rightarrow> (string \<times> IntegrationConfig) res" where
  "integration_from kv =
     bindR (str_leaf (fst kv)) (\<lambda>name.
     bindR (dict_leaf (snd kv)) (\<lambda>raw.
     bindR (bindR (ditem raw ''credential_mode'') credential_mode_of) (\<lambda>mode.
     bindR (get_opt_str raw ''credential_ref'') (\<lambda>ref.
     Inr (name, \<lparr>int_enabled = truthy (dget_or raw ''enabled'' (VBool False)),
                 int_credential_mode = mode, int_credential_ref = ref\<rparr>)))))"

definition source_from :: "pyval \<Rightarrow> MetabaseAnalyticsSourceConfig res" where
  "source_from v =
     bindR (dict_leaf v) (\<lambda>s.
     bindR (item_str s ''name'') (\<lambda>name.
     bindR (item_str s ''engine'') (\<lambda>engine.
     bindR (item_str s ''credential_ref'') (\<lambda>ref.
     Inr \<lparr>source_name = name, source_engine = engine, source_credential_ref = ref\<rparr>))))"

definition appdb_from :: "pyval \<Rightarrow> MetabaseApplicationDatabaseConfig option res" where
  "appdb_from v =
     (if v = VNone then Inr None
      else bindR (dict_leaf v) (\<lambda>d.
           bindR (only_keys d [''engine'', ''credential_ref'']) (\<lambda>_.
           bindR (bindR (required_arg d ''engine'') str_leaf) (\<lambda>engine.
           bindR (bindR (required_arg d ''credential_ref'') str_leaf) (\<lambda>ref.
           Inr (Some \<lparr>appdb_engine = engine, appdb_credential_ref = ref\<rparr>))))))"

definition product_from :: "pydict \<Rightarrow> ProductConfig res" where
  "product_from d =
     bindR (bindR (ditem d ''edition'') edition_of) (\<lambda>e.
     bindR (item_str d ''instance_id'') (\<lambda>i.
     Inr \<lparr>edition = e, instance_id = i\<rparr>))"

definition deployment_from :: "pydict \<Rightarrow> DeploymentConfig res" where
  "deployment_from d =
     bindR (item_str d ''class'') (\<lambda>cls.
     bindR (item_str d ''network_policy'') (\<lambda>net.
     bindR (item_str d ''data_dir'') (\<lambda>dir.
     Inr \<lparr>deployment_class = cls, network_policy = net, data_dir = parse_path dir\<rparr>)))"

definition runtime_from :: "pydict \<Rightarrow> RuntimeConfig res" where
  "runtime_from d =
     bindR (item_str d ''hermes_compatibility'') (\<lambda>compat.
     bindR (bindR (seq_leaf (dget_or d ''enabled_profiles'' (VList [VStr ''maya-core''])))
       (mapR profile_of)) (\<lambda>profiles.
     bindR (get_str_or d ''hermes_factory'' ''run_agent:AIAgent'') (\<lambda>factory.
     bindR (get_opt_str d ''hermes_runtime_version'') (\<lambda>version.
     Inr \<lparr>hermes_compatibility = compat, enabled_profiles = profiles,
          hermes_factory = factory, hermes_runtime_version = version\<rparr>))))"

definition broker_from :: "pydict \<Rightarrow> BrokerConfig res" where
  "broker_from d =
     bindR (broker_mode_of (dget_or d ''mode'' (VStr ''disabled''))) (\<lambda>mode.
     bindR (get_opt_str d ''endpoint'') (\<lambda>endpoint.
     Inr \<lparr>broker_mode = mode, broker_endpoint = endpoint\<rparr>))"

definition llm_from :: "pydict \<Rightarrow> ModelConfig res" where
  "llm_from d =
     bindR (item_str d ''mode'') (\<lambda>mode.
     bindR (item_str d ''provider'') (\<lambda>provider.
     bindR (item_str d ''model'') (\<lambda>model.
     bindR (get_opt_str d ''credential_ref'') (\<lambda>ref.
     bindR (get_opt_str d ''endpoint'') (\<lambda>endpoint.
     bindR (py_int (dget_or d ''timeout_seconds'' (VInt 60))) (\<lambda>timeout.
     Inr \<lparr>llm_mode = mode, llm_provider = provider, llm_model = model,
          llm_credential_ref = ref, llm_endpoint = endpoint, llm_timeout_seconds = timeout\<rparr>))))))"

definition memory_from :: "pydict \<Rightarrow> MemoryConfig res" where
  "memory_from d =
     bindR (only_keys d [''hermes_provider'', ''retriever'', ''registry'', ''governance_enabled'']) (\<lambda>_.
     bindR (bindR (required_arg d ''hermes_provider'') str_leaf) (\<lambda>provider.
     bindR (bindR (required_arg d ''retriever'') str_leaf) (\<lambda>retriever.
     bindR (bindR (required_arg d ''registry'') str_leaf) (\<lambda>registry.
     bindR (bool_leaf (dget_or d ''governance_enabled'' (VBool True))) (\<lambda>governed.
     Inr \<lparr>hermes_provider = provider, mem_retriever = retriever, mem_registry = registry,
          governance_enabled = governed\<rparr>)))))"

definition governance_from :: "(string \<Rightarrow> pyfloat res) \<Rightarrow> pydict \<Rightarrow> GovernanceConfig res" where
  "governance_from float_of_str d =
     bindR (item_str d ''policy_file'') (\<lambda>policy.
     bindR (get_str_or d ''default_action'' ''deny'') (\<lambda>action.
     bindR (float_leaf float_of_str (dget_or d ''minimum_memory_trust'' (VFloat (Finite (7 / 10))))) (\<lambda>trust.
     Inr \<lparr>policy_file = parse_path policy,
          audit_enabled = truthy (dget_or d ''audit_enabled'' (VBool True)),
          default_action = action, minimum_memory_trust = trust\<rparr>)))"

definition metabase_from ::
  "pydict \<Rightarrow> MetabaseApplicationDatabaseConfig option \<Rightarrow> MetabaseAnalyticsSourceConfig list
     \<Rightarrow> MetabaseConfig res" where
  "metabase_from d app_db sources =
     bindR (ditem d ''enabled'') (\<lambda>enabled.
     bindR (item_str d ''deployment'') (\<lambda>depl.
     bindR (get_opt_str d ''endpoint'') (\<lambda>endpoint.
     Inr \<lparr>metabase_enabled = truthy enabled, metabase_deployment = depl,
          metabase_endpoint = endpoint, application_database = app_db,
          analytics_sources = sources\<rparr>)))"

definition local_api_from :: "pydict \<Rightarrow> LocalAPIConfig res" where
  "local_api_from d =
     bindR (only_keys d [''bind'', ''port'', ''remote_access'']) (\<lambda>_.
     bindR (get_str_or d ''bind'' ''127.0.0.1'') (\<lambda>bind.
     bindR (opt_int_leaf (dget_or d ''port'' VNone)) (\<lambda>port.
     bindR (bool_leaf (dget_or d ''remote_access'' (VBool False))) (\<lambda>remote.
     Inr \<lparr>api_bind = bind, api_port = port, api_remote_access = remote\<rparr>))))"

definition schema_version_from :: "pydict \<Rightarrow> int res" where
  "schema_version_from data =
     (case dget data ''schema_version'' of
        None \<Rightarrow> Inl (config_error ''schema_version is required'')
      | Some v \<Rightarrow>
          (case py_int v of
             Inr i \<Rightarrow> Inr i
           | Inl e \<Rightarrow> Inl (if exc_class_of e \<in> {PyTypeError, PyValueError}
                          then config_error ''schema_version must be an integer'' else e)))"

definition config_from_mapping :: "(string \<Rightarrow> pyfloat res) \<Rightarrow> pydict \<Rightarrow> MayaConfig res" where
  "config_from_mapping float_of_str data =
     bindR (schema_version_from data) (\<lambda>version.
     bindR (bindR (dict_leaf (dget_or data ''integrations'' (VDict []))) (mapR integration_from)) (\<lambda>ints.
     bindR (item_dict data ''metabase'') (\<lambda>mb.
     bindR (appdb_from (dget_or mb ''application_database'' VNone)) (\<lambda>app_db.
     bindR (bindR (seq_leaf (dget_or mb ''analytics_sources'' (VTuple []))) (mapR source_from)) (\<lambda>sources.
     bindR (bindR (item_dict data ''product'') product_from) (\<lambda>prod.
     bindR (bindR (item_dict data ''deployment'') deployment_from) (\<lambda>depl.
     bindR (bindR (item_dict data ''runtime'') runtime_from) (\<lambda>rt.
     bindR (bindR (dict_leaf (dget_or data ''broker'' (VDict []))) broker_from) (\<lambda>br.
     bindR (bindR (item_dict data ''llm'') llm_from) (\<lambda>lm.
     bindR (bindR (item_dict data ''memory'') memory_from) (\<lambda>mem.
     bindR (bindR (item_dict data ''governance'') (governance_from float_of_str)) (\<lambda>gov.
     bindR (metabase_from mb app_db sources) (\<lambda>metab.
     bindR (bindR (dict_leaf (dget_or data ''local_api'' (VDict []))) local_api_from) (\<lambda>api.
     let c = \<lparr>schema_version = version, product = prod, deployment = depl, runtime = rt,
              broker = br, llm = lm, integrations = ints, memory = mem, governance = gov,
              metabase = metab, local_api = api\<rparr>
     in bindR (validate c) (\<lambda>_. Inr c)))))))))))))))"

section \<open>Writing a mapping\<close>

definition opt_str_val :: "string option \<Rightarrow> pyval" where
  "opt_str_val x = (case x of None \<Rightarrow> VNone | Some s \<Rightarrow> VStr s)"

definition integration_to :: "string \<times> IntegrationConfig \<Rightarrow> pyval \<times> pyval" where
  "integration_to ni =
     (VStr (fst ni),
      VDict [(VStr ''enabled'', VBool (int_enabled (snd ni))),
             (VStr ''credential_mode'', VStr (credential_mode_value (int_credential_mode (snd ni)))),
             (VStr ''credential_ref'', opt_str_val (int_credential_ref (snd ni)))])"

definition source_to :: "MetabaseAnalyticsSourceConfig \<Rightarrow> pyval" where
  "source_to s =
     VDict [(VStr ''name'', VStr (source_name s)), (VStr ''engine'', VStr (source_engine s)),
            (VStr ''credential_ref'', VStr (source_credential_ref s))]"

definition appdb_to :: "MetabaseApplicationDatabaseConfig option \<Rightarrow> pyval" where
  "appdb_to x =
     (case x of None \<Rightarrow> VNone
      | Some db \<Rightarrow> VDict [(VStr ''engine'', VStr (appdb_engine db)),
                         (VStr ''credential_ref'', VStr (appdb_credential_ref db))])"

definition mapping_of :: "MayaConfig \<Rightarrow> pydict" where
  "mapping_of c =
     [(VStr ''schema_version'', VInt (schema_version c)),
      (VStr ''product'', VDict
        [(VStr ''edition'', VStr (edition_value (edition (product c)))),
         (VStr ''instance_id'', VStr (instance_id (product c)))]),
      (VStr ''deployment'', VDict
        [(VStr ''class'', VStr (deployment_class (deployment c))),
         (VStr ''network_policy'', VStr (network_policy (deployment c))),
         (VStr ''data_dir'', VStr (path_str (data_dir (deployment c))))]),
      (VStr ''runtime'', VDict
        [(VStr ''hermes_compatibility'', VStr (hermes_compatibility (runtime c))),
         (VStr ''enabled_profiles'',
            VList (map (\<lambda>p. VStr (profile_value p)) (enabled_profiles (runtime c)))),
         (VStr ''hermes_factory'', VStr (hermes_factory (runtime c))),
         (VStr ''hermes_runtime_version'', opt_str_val (hermes_runtime_version (runtime c)))]),
      (VStr ''broker'', VDict
        [(VStr ''mode'', VStr (broker_mode_value (broker_mode (broker c)))),
         (VStr ''endpoint'', opt_str_val (broker_endpoint (broker c)))]),
      (VStr ''llm'', VDict
        [(VStr ''mode'', VStr (llm_mode (llm c))),
         (VStr ''provider'', VStr (llm_provider (llm c))),
         (VStr ''model'', VStr (llm_model (llm c))),
         (VStr ''credential_ref'', opt_str_val (llm_credential_ref (llm c))),
         (VStr ''endpoint'', opt_str_val (llm_endpoint (llm c))),
         (VStr ''timeout_seconds'', VInt (llm_timeout_seconds (llm c)))]),
      (VStr ''integrations'', VDict (map integration_to (sort_key fst (integrations c)))),
      (VStr ''memory'', VDict
        [(VStr ''hermes_provider'', VStr (hermes_provider (memory c))),
         (VStr ''retriever'', VStr (mem_retriever (memory c))),
         (VStr ''registry'', VStr (mem_registry (memory c))),
         (VStr ''governance_enabled'', VBool (governance_enabled (memory c)))]),
      (VStr ''governance'', VDict
        [(VStr ''policy_file'', VStr (path_str (policy_file (governance c)))),
         (VStr ''audit_enabled'', VBool (audit_enabled (governance c))),
         (VStr ''default_action'', VStr (default_action (governance c))),
         (VStr ''minimum_memory_trust'', VFloat (minimum_memory_trust (governance c)))]),
      (VStr ''metabase'', VDict
        [(VStr ''enabled'', VBool (metabase_enabled (metabase c))),
         (VStr ''deployment'', VStr (metabase_deployment (metabase c))),
         (VStr ''endpoint'', opt_str_val (metabase_endpoint (metabase c))),
         (VStr ''application_database'', appdb_to (application_database (metabase c))),
         (VStr ''analytics_sources'', VList (map source_to (analytics_sources (metabase c))))]),
      (VStr ''local_api'', VDict
        [(VStr ''bind'', VStr (api_bind (local_api c))),
         (VStr ''port'', (case api_port (local_api c) of None \<Rightarrow> VNone | Some p \<Rightarrow> VInt p)),
         (VStr ''remote_access'', VBool (api_remote_access (local_api c)))])]"

definition config_to_mapping :: "MayaConfig \<Rightarrow> pydict res" where
  "config_to_mapping c = bindR (validate c) (\<lambda>_. Inr (mapping_of c))"

section \<open>The mapping reads back\<close>

lemma leaf_simps [simp]:
  "opt_str_leaf (opt_str_val x) = Inr x"
  "opt_int_leaf (case p of None \<Rightarrow> VNone | Some i \<Rightarrow> VInt i) = Inr p"
  by (auto simp: opt_str_val_def split: option.splits)

lemma ditem_simps [simp]:
  "ditem ((VStr k, v) # d) k = Inr v"
  "k' \<noteq> k \<Longrightarrow> ditem ((VStr k', v) # d) k = ditem d k"
  by (simp_all add: ditem_def)

lemma dget_or_simps [simp]:
  "dget_or ((VStr k, v) # d) k x = v"
  "k' \<noteq> k \<Longrightarrow> dget_or ((VStr k', v) # d) k x = dget_or d k x"
  "dget_or [] k x = x"
  by (simp_all add: dget_or_def)

lemma required_arg_simps [simp]:
  "required_arg ((VStr k, v) # d) k = Inr v"
  "k' \<noteq> k \<Longrightarrow> required_arg ((VStr k', v) # d) k = required_arg d k"
  by (simp_all add: required_arg_def)

lemma mapR_map: "(\<And>x. x \<in> set xs \<Longrightarrow> f (g x) = Inr x) \<Longrightarrow> mapR f (map g xs) = Inr xs"
  by (induction xs) auto

lemma integration_round_trip [simp]: "integration_from (integration_to ni) = Inr ni"
  by (cases ni) (simp add: integration_from_def integration_to_def)

lemma source_round_trip [simp]: "source_from (source_to s) = Inr s"
  by (simp add: source_from_def source_to_def)

lemma appdb_round_trip [simp]: "appdb_from (appdb_to x) = Inr x"
  by (auto simp: appdb_from_def appdb_to_def only_keys_def split: option.splits)

lemma mapR_round_trips [simp]:
  "mapR integration_from (map integration_to is) = Inr is"
  "mapR source_from (map source_to ss) = Inr ss"
  "mapR profile_of (map (\<lambda>p. VStr (profile_value p)) ps) = Inr ps"
  by (simp_all add: mapR_map)

lemma product_round_trip [simp]:
  "product_from
      [(VStr ''edition'', VStr (edition_value (edition x))),
       (VStr ''instance_id'', VStr (instance_id x))]
     = Inr x"
  by (simp add: product_from_def)

lemma deployment_round_trip [simp]:
  "wf_path (data_dir x) \<Longrightarrow>
     deployment_from
      [(VStr ''class'', VStr (deployment_class x)),
       (VStr ''network_policy'', VStr (network_policy x)),
       (VStr ''data_dir'', VStr (path_str (data_dir x)))]
     = Inr x"
  by (simp add: deployment_from_def parse_path_str)

lemma runtime_round_trip [simp]:
  "runtime_from
      [(VStr ''hermes_compatibility'', VStr (hermes_compatibility x)),
       (VStr ''enabled_profiles'',
       VList (map (\<lambda>p. VStr (profile_value p)) (enabled_profiles x))),
       (VStr ''hermes_factory'', VStr (hermes_factory x)),
       (VStr ''hermes_runtime_version'', opt_str_val (hermes_runtime_version x))]
     = Inr x"
  by (simp add: runtime_from_def)

lemma broker_round_trip [simp]:
  "broker_from
      [(VStr ''mode'', VStr (broker_mode_value (broker_mode x))),
       (VStr ''endpoint'', opt_str_val (broker_endpoint x))]
     = Inr x"
  by (simp add: broker_from_def)

lemma llm_round_trip [simp]:
  "llm_from
      [(VStr ''mode'', VStr (llm_mode x)),
       (VStr ''provider'', VStr (llm_provider x)),
       (VStr ''model'', VStr (llm_model x)),
       (VStr ''credential_ref'', opt_str_val (llm_credential_ref x)),
       (VStr ''endpoint'', opt_str_val (llm_endpoint x)),
       (VStr ''timeout_seconds'', VInt (llm_timeout_seconds x))]
     = Inr x"
  by (simp add: llm_from_def)

lemma memory_round_trip [simp]:
  "memory_from
      [(VStr ''hermes_provider'', VStr (hermes_provider x)),
       (VStr ''retriever'', VStr (mem_retriever x)),
       (VStr ''registry'', VStr (mem_registry x)),
       (VStr ''governance_enabled'', VBool (governance_enabled x))]
     = Inr x"
  by (simp add: memory_from_def only_keys_def)

lemma governance_round_trip [simp]:
  "wf_path (policy_file x) \<Longrightarrow>
     governance_from fos
      [(VStr ''policy_file'', VStr (path_str (policy_file x))),
       (VStr ''audit_enabled'', VBool (audit_enabled x)),
       (VStr ''default_action'', VStr (default_action x)),
       (VStr ''minimum_memory_trust'', VFloat (minimum_memory_trust x))]
     = Inr x"
  by (simp add: governance_from_def parse_path_str)

lemma local_api_round_trip [simp]:
  "local_api_from
      [(VStr ''bind'', VStr (api_bind x)),
       (VStr ''port'', (case api_port x of None \<Rightarrow> VNone | Some p \<Rightarrow> VInt p)),
       (VStr ''remote_access'', VBool (api_remote_access x))]
     = Inr x"
  by (simp add: local_api_from_def only_keys_def)

lemma metabase_round_trip [simp]:
  "metabase_from
      ((VStr ''enabled'', VBool (metabase_enabled x))
       # (VStr ''deployment'', VStr (metabase_deployment x))
       # (VStr ''endpoint'', opt_str_val (metabase_endpoint x)) # rest)
      (application_database x) (analytics_sources x)
     = Inr x"
  by (simp add: metabase_from_def)

lemma validate_integrations_cong:
  assumes "set is = set (integrations c)"
  shows "validate (c\<lparr>integrations := is\<rparr>) = Inr () \<longleftrightarrow> validate c = Inr ()"
proof -
  have "cfg_validate_integration (c\<lparr>integrations := is\<rparr>) = cfg_validate_integration c"
    by (intro ext) (simp add: cfg_validate_integration_def)
  then have "all_okR (\<lambda>(n, i). cfg_validate_integration (c\<lparr>integrations := is\<rparr>) n i) is = Inr () \<longleftrightarrow>
      all_okR (\<lambda>(n, i). cfg_validate_integration c n i) (integrations c) = Inr ()"
    using assms by (simp add: all_okR_iff)
  then show ?thesis
    unfolding validate_def bindR_unit_Inr_iff requireR_iff by simp
qed

lemma config_parts_round_trip:
  assumes "wf_path (data_dir (deployment c))" and "wf_path (policy_file (governance c))"
    and "validate c = Inr ()"
  shows "config_from_mapping fos (mapping_of c) =
           Inr (c\<lparr>integrations := sort_key fst (integrations c)\<rparr>)"
proof -
  have v: "validate (c\<lparr>integrations := sort_key fst (integrations c)\<rparr>) = Inr ()"
    using assms(3) by (subst validate_integrations_cong) simp_all
  have c: "\<lparr>schema_version = schema_version c, product = product c, deployment = deployment c,
      runtime = runtime c, broker = broker c, llm = llm c,
      integrations = sort_key fst (integrations c), memory = memory c,
      governance = governance c, metabase = metabase c, local_api = local_api c\<rparr>
    = c\<lparr>integrations := sort_key fst (integrations c)\<rparr>"
    by simp
  show ?thesis
    using v assms(1,2)
    by (simp add: config_from_mapping_def mapping_of_def schema_version_from_def c)
qed

text \<open>
  C32. Configuration round trip: a configuration that validates is written by
  \<open>config_to_mapping\<close>, and the mapping reads back (through every conversion, default
  and check of \<open>config_from_mapping\<close>) as the same configuration, its integrations in
  sorted order.
\<close>

theorem config_round_trip:
  assumes "validate c = Inr ()"
    and "wf_path (data_dir (deployment c))" and "wf_path (policy_file (governance c))"
  shows "bindR (config_to_mapping c) (config_from_mapping fos) =
           Inr (c\<lparr>integrations := sort_key fst (integrations c)\<rparr>)"
  using config_parts_round_trip [OF assms(2,3,1)] assms(1) by (simp add: config_to_mapping_def)

definition demo_config :: MayaConfig where
  "demo_config =
     \<lparr>schema_version = 2,
      product = \<lparr>edition = STANDARD, instance_id = ''m1''\<rparr>,
      deployment = \<lparr>deployment_class = ''desktop'', network_policy = ''open'',
        data_dir = Path ''/'' [''var'', ''maya'']\<rparr>,
      runtime = \<lparr>hermes_compatibility = ''0.17'', enabled_profiles = [CORE],
        hermes_factory = ''run_agent:AIAgent'', hermes_runtime_version = None\<rparr>,
      broker = \<lparr>broker_mode = RUNTIME, broker_endpoint = Some ''https://b''\<rparr>,
      llm = \<lparr>llm_mode = ''local'', llm_provider = ''openai'', llm_model = ''m'',
        llm_credential_ref = None, llm_endpoint = Some ''https://h'', llm_timeout_seconds = 60\<rparr>,
      integrations =
        [(''slack'', \<lparr>int_enabled = True, int_credential_mode = BROKER,
            int_credential_ref = Some ''secret://s''\<rparr>),
         (''google'', \<lparr>int_enabled = True, int_credential_mode = BROKER,
            int_credential_ref = Some ''secret://g''\<rparr>)],
      memory = \<lparr>hermes_provider = ''maya'', mem_retriever = ''local_json'',
        mem_registry = ''json'', governance_enabled = True\<rparr>,
      governance = \<lparr>policy_file = Path ''/'' [''var'', ''policy.json''], audit_enabled = True,
        default_action = ''deny'', minimum_memory_trust = Finite (7 / 10)\<rparr>,
      metabase = \<lparr>metabase_enabled = False, metabase_deployment = ''none'',
        metabase_endpoint = None, application_database = None, analytics_sources = []\<rparr>,
      local_api = \<lparr>api_bind = ''127.0.0.1'', api_port = Some 8080, api_remote_access = False\<rparr>\<rparr>"

lemma demo_manifests:
  "is_ok (build_connector_manifest ''slack''
     \<lparr>int_enabled = True, int_credential_mode = BROKER,
      int_credential_ref = Some ''secret://s''\<rparr> RUNTIME)"
  "is_ok (build_connector_manifest ''google''
     \<lparr>int_enabled = True, int_credential_mode = BROKER,
      int_credential_ref = Some ''secret://g''\<rparr> RUNTIME)"
  by (simp_all add: build_manifest_iff well_credentialed_def starts_with_def)

lemma bindR_ok: "is_ok r \<Longrightarrow> bindR r (\<lambda>_. Inr ()) = Inr ()"
  by (cases r) simp_all

lemma demo_config_valid: "validate demo_config = Inr ()"
  by (simp add: validate_def demo_config_def strip_def is_space_def is_absolute_def
      trust_in_range_def is_loopback_def starts_with_def cfg_validate_integration_def
      bindR_ok demo_manifests validate_metabase_def)

theorem config_round_trip_witness:
  "bindR (config_to_mapping demo_config) (config_from_mapping (\<lambda>_. Inl untyped)) =
     Inr (demo_config\<lparr>integrations := sort_key fst (integrations demo_config)\<rparr>)
   \<and> map fst (sort_key fst (integrations demo_config)) = [''google'', ''slack'']"
proof -
  have "wf_path (data_dir (deployment demo_config))" "wf_path (policy_file (governance demo_config))"
    by (simp_all add: demo_config_def wf_path_def)
  moreover have "map fst (sort_key fst (integrations demo_config)) = [''google'', ''slack'']"
    by (simp add: demo_config_def)
  ultimately show ?thesis using config_round_trip [OF demo_config_valid] by blast
qed

section \<open>What a loaded configuration promises\<close>

lemma validate_iff:
  "validate c = Inr () \<longleftrightarrow>
     schema_version c = 2 \<and> strip (instance_id (product c)) \<noteq> []
     \<and> is_absolute (data_dir (deployment c)) \<and> CORE \<in> set (enabled_profiles (runtime c))
     \<and> \<not> (broker_mode (broker c) = BROKER_DISABLED \<and> broker_endpoint (broker c) \<notin> {None, Some []})
     \<and> \<not> llm_timeout_seconds (llm c) < 1 \<and> trust_in_range (minimum_memory_trust (governance c))
     \<and> \<not> api_remote_access (local_api c) \<and> is_loopback (api_bind (local_api c))
     \<and> governance_enabled (memory c)
     \<and> mem_retriever (memory c) \<in> {''local_json'', ''local_vector''}
     \<and> \<not> (mem_retriever (memory c) = ''local_vector'' \<and> mem_registry (memory c) \<noteq> ''sqlite'')
     \<and> audit_enabled (governance c)
     \<and> (\<forall>x \<in> set (integrations c). (case x of (name, i) \<Rightarrow> cfg_validate_integration c name i) = Inr ())
     \<and> validate_metabase (metabase c) = Inr ()"
  unfolding validate_def bindR_unit_Inr_iff requireR_iff all_okR_iff by (rule refl)

lemma loaded_config_valid:
  assumes "config_from_mapping fos data = Inr c"
  shows "validate c = Inr ()"
  using assms by (auto simp: config_from_mapping_def bindR_Inr_iff Let_def)



text \<open>
  The loopback check of the local API is a check of the text, not of an address: it
  accepts every host name that begins with the four characters \<open>127.\<close>, for example one
  that an outside party can register.
\<close>

theorem loopback_check_accepts_hostnames:
  "is_loopback (''127.'' @ rest) \<and> is_loopback ''127.example.com''
   \<and> (is_loopback bind \<longleftrightarrow> bind \<in> {''localhost'', ''::1''} \<or> (\<exists>rest. bind = ''127.'' @ rest))"
  by (auto simp: is_loopback_def starts_with_iff)

end
