(* ===== verification/Maya_World.thy ===== *)
theory Maya_World
  imports Maya_Config_Types Maya_Policy Maya_Leases
begin

text \<open>
  The ambient state of \<open>src/project_maya/hermes_plugins/governance.py\<close> (the two
  context variables, the leases, the calling thread and task, the clock, the audit log)
  and its context managers: \<open>bind_request_identity\<close>, \<open>bind_session_write\<close> and
  \<open>_bind_session_handoff\<close>. The body of a \<open>with\<close> block is a computation
  argument; it may do anything, raise, or be cancelled.
\<close>

section \<open>State\<close>

record RequestIdentity =
  id_actor :: string
  id_classification :: string

record SessionWriteContext =
  sw_identity :: RequestIdentity
  sw_request_id :: string
  sw_session_id :: string
  sw_database :: path
  sw_operations :: "string list"
  sw_thread :: nat
  sw_task :: "nat option"
  sw_lease :: nat

record world =
  w_clock :: rat
  w_thread :: nat
  w_task :: "nat option"
  w_leases :: lease_store
  w_identity :: "RequestIdentity option"
  w_session :: "SessionWriteContext option"
  w_audit :: "AuditRecord list"

definition on_leases :: "(lease_store, 'a) py \<Rightarrow> ('z world_scheme, 'a) py" where
  "on_leases m w = (case m (w_leases w) of (r, h) \<Rightarrow> (r, w\<lparr>w_leases := h\<rparr>))"

text \<open>\<open>lease.is_active\<close>, \<open>lease.revoke(reason)\<close>, \<open>lease.revoke_request(reason)\<close>.\<close>

definition active :: "nat \<Rightarrow> ('z world_scheme, bool) py" where
  "active r w =
     (case lease_is_active (w_clock w) r (w_leases w) of (b, h) \<Rightarrow> (Inr b, w\<lparr>w_leases := h\<rparr>))"

definition revoke :: "nat \<Rightarrow> string \<Rightarrow> ('z world_scheme, unit) py" where
  "revoke r reason w = on_leases (lease_revoke (w_clock w) r reason) w"

definition revoke_request :: "nat \<Rightarrow> string \<Rightarrow> ('z world_scheme, unit) py" where
  "revoke_request r reason w = on_leases (lease_revoke_request (w_clock w) r reason) w"

definition end_lease :: "nat \<Rightarrow> ('z world_scheme, unit) py" where
  "end_lease r = modify (\<lambda>w. w\<lparr>w_leases := deactivate r (w_leases w)\<rparr>)"

text \<open>\<open>audit.write(record)\<close>: the sink's own failure, or one more record in the log.\<close>

definition sink_write ::
  "(AuditRecord list \<Rightarrow> AuditRecord \<Rightarrow> pyexc option) \<Rightarrow> AuditRecord \<Rightarrow> ('z world_scheme, unit) py" where
  "sink_write sink r w =
     (case sink (w_audit w) r of
        None \<Rightarrow> (Inr (), w\<lparr>w_audit := w_audit w @ [r]\<rparr>)
      | Some e \<Rightarrow> (Inl e, w))"

section \<open>Identity scopes\<close>

definition identifier_char :: "char \<Rightarrow> bool" where
  "identifier_char c \<longleftrightarrow> is_alnum c \<or> c \<in> set ''_.:@-''"

abbreviation is_identifier :: "string \<Rightarrow> bool" where
  "is_identifier s \<equiv> full_class identifier_char 1 128 s"

definition classifications :: "string list" where
  "classifications = [''public'', ''internal'', ''confidential'', ''restricted'']"

definition with_identity :: "RequestIdentity \<Rightarrow> ('z world_scheme, 'a) py \<Rightarrow> ('z world_scheme, 'a) py" where
  "with_identity i body =
     bnd (gets w_identity) (\<lambda>previous.
     bnd (modify (\<lambda>w. w\<lparr>w_identity := Some i\<rparr>)) (\<lambda>_.
     try_finally body (modify (\<lambda>w. w\<lparr>w_identity := previous\<rparr>))))"

definition bind_request_identity ::
  "string \<Rightarrow> string \<Rightarrow> ('z world_scheme, 'a) py \<Rightarrow> ('z world_scheme, 'a) py" where
  "bind_request_identity actor classification body =
     bnd (require (is_identifier actor) (boundary ''identity_invalid'')) (\<lambda>_.
     bnd (require (classification \<in> set classifications) (boundary ''classification_invalid'')) (\<lambda>_.
     with_identity \<lparr>id_actor = actor, id_classification = classification\<rparr> body))"

section \<open>Session-write scopes\<close>

definition SESSION_OPERATIONS :: "string list" where
  "SESSION_OPERATIONS = [''create'', ''append'', ''rewrite'', ''compact'', ''delete'', ''metadata'']"

text \<open>
  The time limit as a number of seconds: \<open>None\<close> when the value is not an acceptable
  limit (a bool, not a number, not finite, or outside \<open>0 < t \<le> 3600\<close>).
\<close>

definition timeout_value :: "pyval \<Rightarrow> rat option" where
  "timeout_value v =
     (let limit = (\<lambda>q. if 0 < q \<and> q \<le> 3600 then Some q else None)
      in case v of VInt i \<Rightarrow> limit (of_int i) | VFloat (Finite q) \<Rightarrow> limit q | _ \<Rightarrow> None)"

definition session_binding_ok :: "string \<Rightarrow> string \<Rightarrow> string list \<Rightarrow> pyval \<Rightarrow> bool" where
  "session_binding_ok request_id session_id operations timeout \<longleftrightarrow>
     is_identifier request_id \<and> is_identifier session_id
     \<and> operations \<noteq> [] \<and> set operations \<subseteq> set SESSION_OPERATIONS
     \<and> (timeout \<noteq> VNone \<longrightarrow> timeout_value timeout \<noteq> None)"

definition with_session :: "SessionWriteContext \<Rightarrow> ('z world_scheme, 'a) py \<Rightarrow> ('z world_scheme, unit) py
    \<Rightarrow> ('z world_scheme, 'a) py" where
  "with_session ctx body fin =
     bnd (gets w_session) (\<lambda>previous.
     bnd (modify (\<lambda>w. w\<lparr>w_session := Some ctx\<rparr>)) (\<lambda>_.
     try_finally body
       (bnd fin (\<lambda>_. modify (\<lambda>w. w\<lparr>w_session := previous\<rparr>)))))"

definition bind_session_write ::
  "(path \<Rightarrow> path) \<Rightarrow> string \<Rightarrow> string \<Rightarrow> path \<Rightarrow> string list \<Rightarrow> pyval
     \<Rightarrow> (SessionWriteContext \<Rightarrow> ('z world_scheme, 'a) py) \<Rightarrow> ('z world_scheme, 'a) py" where
  "bind_session_write resolve request_id session_id database operations timeout body =
     bnd (gets id) (\<lambda>w.
     case w_identity w of
       None \<Rightarrow> raise (boundary ''identity_missing'')
     | Some identity \<Rightarrow>
         bnd (require (is_identifier request_id \<and> is_identifier session_id)
           (boundary ''session_context_invalid'')) (\<lambda>_.
         bnd (require (operations \<noteq> [] \<and> set operations \<subseteq> set SESSION_OPERATIONS)
           (boundary ''session_context_invalid'')) (\<lambda>_.
         bnd (require (timeout = VNone \<or> timeout_value timeout \<noteq> None)
           (boundary ''request_timeout_invalid'')) (\<lambda>_.
         bnd (on_leases (new_lease None
           (if timeout = VNone then None
            else map_option (\<lambda>t. w_clock w + t) (timeout_value timeout)))) (\<lambda>lease.
         let context = \<lparr>sw_identity = identity, sw_request_id = request_id,
               sw_session_id = session_id, sw_database = resolve database,
               sw_operations = operations, sw_thread = w_thread w, sw_task = w_task w,
               sw_lease = lease\<rparr>
         in with_session context
              (try_except (body context)
                (\<lambda>e. bnd (revoke lease
                        (if exc_class_of e = CancelledError then ''cancelled'' else ''failed''))
                      (\<lambda>_. raise e)))
              (revoke lease ''completed''))))))"

text \<open>
  \<open>_bind_session_handoff\<close>: the receiver runs under a child lease, with the limits of
  the source scope and its own thread and task.
\<close>

definition bind_session_handoff ::
  "SessionWriteContext \<Rightarrow> nat \<Rightarrow> ('z world_scheme, 'a) py \<Rightarrow> ('z world_scheme, 'a) py" where
  "bind_session_handoff source parent body =
     bnd (active (sw_lease source)) (\<lambda>a.
     bnd (if a then active parent else ret False) (\<lambda>b.
     bnd (require b (boundary ''session_handoff_expired'')) (\<lambda>_.
     bnd (on_leases (new_lease (Some parent) None)) (\<lambda>lease.
     bind_request_identity (id_actor (sw_identity source)) (id_classification (sw_identity source))
       (bnd (gets id) (\<lambda>w.
        with_session (source\<lparr>sw_thread := w_thread w, sw_task := w_task w, sw_lease := lease\<rparr>)
          body (end_lease lease)))))))"

section \<open>Weakest preconditions\<close>

lemma wp_active [wp]:
  "wlp (active r) Q E =
     (\<lambda>w. Q (fst (lease_is_active (w_clock w) r (w_leases w)))
       (w\<lparr>w_leases := snd (lease_is_active (w_clock w) r (w_leases w))\<rparr>))"
  by (rule ext) (simp add: wlp_def active_def split: prod.splits)

lemma wp_on_leases [wp]:
  "wlp (on_leases m) Q E =
     (\<lambda>w. wlp m (\<lambda>a h. Q a (w\<lparr>w_leases := h\<rparr>)) (\<lambda>e h. E e (w\<lparr>w_leases := h\<rparr>)) (w_leases w))"
  by (rule ext) (simp add: wlp_def on_leases_def split: prod.splits sum.splits)

lemma wp_new_lease [wp]:
  "wlp (new_lease parent deadline) Q E =
     (\<lambda>h. Q (length h) (h @ [\<lparr>le_active = True, le_parent = parent, le_deadline = deadline,
                         le_termination = None\<rparr>]))"
  by (rule ext) (simp add: wlp_def new_lease_def)

lemma wp_revoke [wp]:
  "wlp (revoke r reason) Q E =
     (\<lambda>w. if reason \<in> set termination_reasons
      then Q () (w\<lparr>w_leases := (w_leases w)[r := revoked (w_clock w) reason (w_leases w ! r)]\<rparr>)
      else E (boundary ''request_termination_invalid'') w)"
proof (rule ext)
  fix w :: "'a world_scheme"
  have "wlp (revoke r reason) Q E w = wlp (on_leases (lease_revoke (w_clock w) r reason)) Q E w"
    by (simp add: wlp_def revoke_def)
  then show "wlp (revoke r reason) Q E w =
     (if reason \<in> set termination_reasons
      then Q () (w\<lparr>w_leases := (w_leases w)[r := revoked (w_clock w) reason (w_leases w ! r)]\<rparr>)
      else E (boundary ''request_termination_invalid'') w)"
    by (simp add: wp_on_leases wp_lease_revoke)
qed

lemma wp_sink_write [wp]:
  "wlp (sink_write sink r) Q E =
     (\<lambda>w. case sink (w_audit w) r of
        None \<Rightarrow> Q () (w\<lparr>w_audit := w_audit w @ [r]\<rparr>) | Some e \<Rightarrow> E e w)"
  by (rule ext) (simp add: wlp_def sink_write_def split: option.splits)

lemma wp_end_lease [wp]:
  "wlp (end_lease r) Q E = (\<lambda>w. Q () (w\<lparr>w_leases := deactivate r (w_leases w)\<rparr>))"
  by (simp add: end_lease_def wp)

lemma wp_with_identity [wp]:
  "wlp (with_identity i body) Q E =
     (\<lambda>w. wlp body (\<lambda>a v. Q a (v\<lparr>w_identity := w_identity w\<rparr>)) (\<lambda>e v. E e (v\<lparr>w_identity := w_identity w\<rparr>))
       (w\<lparr>w_identity := Some i\<rparr>))"
  by (simp add: with_identity_def wp)

lemma wp_with_session [wp]:
  "wlp (with_session ctx body fin) Q E =
     (\<lambda>w. wlp body
       (\<lambda>a. wlp fin (\<lambda>_ v. Q a (v\<lparr>w_session := w_session w\<rparr>)) E)
       (\<lambda>e. wlp fin (\<lambda>_ v. E e (v\<lparr>w_session := w_session w\<rparr>)) E)
       (w\<lparr>w_session := Some ctx\<rparr>))"
  by (simp add: with_session_def wp)

lemma wp_bind_request_identity [wp]:
  "wlp (bind_request_identity actor cls body) Q E =
     (\<lambda>w. if \<not> is_identifier actor then E (boundary ''identity_invalid'') w
      else if cls \<notin> set classifications then E (boundary ''classification_invalid'') w
      else wlp body (\<lambda>a v. Q a (v\<lparr>w_identity := w_identity w\<rparr>))
             (\<lambda>e v. E e (v\<lparr>w_identity := w_identity w\<rparr>))
             (w\<lparr>w_identity := Some \<lparr>id_actor = actor, id_classification = cls\<rparr>\<rparr>))"
  by (rule ext) (simp add: bind_request_identity_def wp)

section \<open>Scopes close\<close>

text \<open>
  A computation that treats the leases as every method of the code does: it may create,
  revoke, query and end leases, never reactivate one.
\<close>

definition lease_safe :: "('z world_scheme, 'a) py \<Rightarrow> bool" where
  "lease_safe m \<longleftrightarrow> (\<forall>w. wlp m (\<lambda>_ v. later (w_leases w) (w_leases v))
                           (\<lambda>_ v. later (w_leases w) (w_leases v)) w)"

lemma lease_safeD:
  "lease_safe m \<Longrightarrow> wlp m (\<lambda>_ v. later (w_leases w) (w_leases v))
                           (\<lambda>_ v. later (w_leases w) (w_leases v)) w"
  by (simp add: lease_safe_def)

lemma lease_safe_trans:
  assumes "lease_safe m" and "later h (w_leases w)"
  shows "wlp m (\<lambda>_ v. later h (w_leases v)) (\<lambda>_ v. later h (w_leases v)) w"
  using lease_safeD [OF assms(1), of w] assms(2) by (blast intro: wlp_mono later_trans)

lemma revoked_inactive [simp]: "\<not> le_active (revoked now reason l)"
  by (simp add: revoked_def Let_def)

lemma reasons [simp]:
  "''completed'' \<in> set termination_reasons" "''cancelled'' \<in> set termination_reasons"
  "''timeout'' \<in> set termination_reasons" "''failed'' \<in> set termination_reasons"
  by (simp_all add: termination_reasons_def)

lemma later_length: "later h h' \<Longrightarrow> r < length h \<Longrightarrow> r < length h'"
  by (auto simp: later_def)

lemma termination_revoked:
  "le_termination (revoked now reason l) =
     Some (case le_termination l of Some t \<Rightarrow> t
           | None \<Rightarrow> if reason = ''completed'' \<and> expired now l then ''timeout'' else reason)"
  by (simp add: revoked_def Let_def split: option.splits)

lemma session_scope_closed:
  fixes body :: "SessionWriteContext \<Rightarrow> ('z world_scheme, 'a) py"
  assumes ok: "session_binding_ok request_id session_id operations timeout"
    and identity: "w_identity w = Some i"
    and body: "\<And>ctx. lease_safe (body ctx)"
  defines "shut \<equiv> \<lambda>v. w_session v = w_session w
            \<and> length (w_leases w) < length (w_leases v)
            \<and> \<not> le_active (w_leases v ! length (w_leases w))
            \<and> le_termination (w_leases v ! length (w_leases w)) \<noteq> None"
  shows "wlp (bind_session_write resolve request_id session_id database operations timeout body)
           (\<lambda>_. shut) (\<lambda>_. shut) w"
proof -
  let ?r = "length (w_leases w)"
  let ?l = "\<lparr>le_active = True, le_parent = None,
      le_deadline = (if timeout = VNone then None
         else map_option (\<lambda>t. w_clock w + t) (timeout_value timeout)), le_termination = None\<rparr>"
  let ?ctx = "\<lparr>sw_identity = i, sw_request_id = request_id, sw_session_id = session_id,
      sw_database = resolve database, sw_operations = operations, sw_thread = w_thread w,
      sw_task = w_task w, sw_lease = ?r\<rparr>"
  let ?w = "w\<lparr>w_leases := w_leases w @ [?l], w_session := Some ?ctx\<rparr>"
  have "later (w_leases w @ [?l]) (w_leases v) \<Longrightarrow> ?r < length (w_leases v)" for v :: "'z world_scheme"
    using later_length [of "w_leases w @ [?l]" "w_leases v" ?r] by simp
  then have "wlp (body ?ctx)
      (\<lambda>_ v. ?r < length (w_leases v)) (\<lambda>_ v. ?r < length (w_leases v)) ?w"
    using lease_safeD [OF body, of ?ctx ?w] by (auto elim!: wlp_mono)
  then show ?thesis
    using ok identity
    by (simp add: bind_session_write_def session_binding_ok_def wp Let_def shut_def)
      (auto elim!: wlp_mono simp: termination_revoked)
qed

text \<open>
  C29. A session-write scope always closes. Whatever the body of the scope does, however it
  ends (normally, with an exception, cancelled) and whatever it did to the leases, when the
  context manager returns the ambient session is the one from before and the lease of the
  scope is inactive with a recorded reason.
\<close>

theorem session_scope_closes:
  fixes body :: "SessionWriteContext \<Rightarrow> ('z world_scheme, 'a) py"
  assumes "session_binding_ok request_id session_id operations timeout"
    and "w_identity w = Some i"
    and "\<And>ctx. lease_safe (body ctx)"
    and "bind_session_write resolve request_id session_id database operations timeout body w = (r, v)"
  shows "w_session v = w_session w
         \<and> \<not> le_active (w_leases v ! length (w_leases w))
         \<and> le_termination (w_leases v ! length (w_leases w)) \<noteq> None"
  using wlp_result [OF session_scope_closed [where body = body, OF assms(1-3)] assms(4)] by blast

definition demo_world :: world where
  "demo_world =
     \<lparr>w_clock = 100, w_thread = 1, w_task = Some 7, w_leases = [],
      w_identity = Some \<lparr>id_actor = ''ana'', id_classification = ''internal''\<rparr>,
      w_session = None, w_audit = []\<rparr>"

text \<open>A body that ends as a cancelled task does.\<close>

definition cancelled_body :: "SessionWriteContext \<Rightarrow> (world, unit) py" where
  "cancelled_body ctx = raise (Exc CancelledError [])"

lemma demo_binding_ok: "session_binding_ok ''r-1'' ''s-1'' [''append''] (VInt 120)"
  by (simp add: session_binding_ok_def full_class_def identifier_char_def is_alnum_def
      is_digit_def is_upper_def is_lower_def SESSION_OPERATIONS_def timeout_value_def)

theorem session_scope_closes_witness:
  "\<exists>v. bind_session_write id ''r-1'' ''s-1'' (Path ''/'' [''db'']) [''append''] (VInt 120)
         cancelled_body demo_world = (Inl (Exc CancelledError []), v)
       \<and> w_session v = None \<and> \<not> le_active (w_leases v ! 0)
       \<and> le_termination (w_leases v ! 0) = Some ''cancelled''"
proof -
  let ?m = "bind_session_write id ''r-1'' ''s-1'' (Path ''/'' [''db'']) [''append''] (VInt 120)
         cancelled_body"
  obtain r v where run: "?m demo_world = (r, v)" by fastforce
  have safe: "lease_safe (cancelled_body ctx)" for ctx
    by (simp add: lease_safe_def cancelled_body_def wp)
  have "wlp ?m (\<lambda>_ _. False) (\<lambda>e v. e = Exc CancelledError []
      \<and> le_termination (w_leases v ! 0) = Some ''cancelled'') demo_world"
    using demo_binding_ok
    by (simp add: bind_session_write_def session_binding_ok_def wp Let_def demo_world_def
        cancelled_body_def termination_revoked)
  then have "r = Inl (Exc CancelledError [])" "le_termination (w_leases v ! 0) = Some ''cancelled''"
    using run by (auto simp: wlp_def split: sum.splits)
  moreover have "w_session v = w_session demo_world
      \<and> \<not> le_active (w_leases v ! length (w_leases demo_world))
      \<and> le_termination (w_leases v ! length (w_leases demo_world)) \<noteq> None"
    by (rule session_scope_closes [OF demo_binding_ok _ safe run]) (simp add: demo_world_def)
  ultimately show ?thesis using run by (auto simp: demo_world_def)
qed

end
