(* ===== verification/Maya_Payload.thy ===== *)
theory Maya_Payload
  imports Maya_Values
begin

text \<open>
  The payload scanner of \<open>src/project_maya/hermes_plugins/governance.py\<close>
  (\<open>_SECRET\<close>, \<open>_SECRET_FIELDS\<close>, \<open>_checked_payload\<close>) and the part of
  \<open>urllib.parse.urlsplit\<close> the model route check reads. Strings hold code points below
  256. \<open>json.loads\<close> and \<open>json.dumps\<close> are arguments: nothing proved here depends
  on how they decode or encode.
\<close>

section \<open>The secret patterns\<close>

text \<open>\<open>\w\<close> on code points below 256, and the word boundary before a word character.\<close>

definition is_word :: "char \<Rightarrow> bool" where
  "is_word c \<longleftrightarrow> is_alnum c \<or> c = CHR ''_''
     \<or> (let n = (of_char c :: nat)
        in n \<in> {170, 178, 179, 181, 185, 186, 188, 189, 190}
           \<or> 192 \<le> n \<and> n \<noteq> 215 \<and> n \<noteq> 247)"

definition at_boundary :: "char option \<Rightarrow> bool" where
  "at_boundary prev = (case prev of None \<Rightarrow> True | Some c \<Rightarrow> \<not> is_word c)"

text \<open>\<open>re.search\<close>: the matcher is tried at every position, with the character before it.\<close>

fun search_from :: "(char option \<Rightarrow> string \<Rightarrow> bool) \<Rightarrow> char option \<Rightarrow> string \<Rightarrow> bool" where
  "search_from m prev [] = m prev []"
| "search_from m prev (c # cs) = (m prev (c # cs) \<or> search_from m (Some c) cs)"

definition run_of :: "(char \<Rightarrow> bool) \<Rightarrow> nat \<Rightarrow> string \<Rightarrow> bool" where
  "run_of cls n s \<longleftrightarrow> n \<le> length s \<and> list_all cls (take n s)"

definition token_char :: "char \<Rightarrow> bool" where
  "token_char c \<longleftrightarrow> is_alnum c \<or> c = CHR ''_'' \<or> c = CHR ''-''"

definition bearer_char :: "char \<Rightarrow> bool" where
  "bearer_char c \<longleftrightarrow> is_alnum c \<or> c \<in> set ''._~+/-''"

definition api_key_at :: "string \<Rightarrow> bool" where
  "api_key_at s \<longleftrightarrow> starts_with (lower s) ''sk-''
     \<and> (let t = drop 3 s
        in starts_with (lower t) ''proj-'' \<and> run_of token_char 16 (drop 5 t)
           \<or> run_of token_char 16 t)"

definition bot_token_at :: "char option \<Rightarrow> string \<Rightarrow> bool" where
  "bot_token_at prev s \<longleftrightarrow> at_boundary prev
     \<and> (let d = takeWhile is_digit s; t = dropWhile is_digit s
        in 6 \<le> length d \<and> length d \<le> 12
           \<and> (case t of [] \<Rightarrow> False | c # cs \<Rightarrow> c = CHR '':'' \<and> run_of token_char 20 cs))"

definition private_key_at :: "string \<Rightarrow> bool" where
  "private_key_at s \<longleftrightarrow>
     list_ex (\<lambda>kind. starts_with (lower s) (''-----begin '' @ kind @ ''private key-----''))
       [''rsa '', ''ec '', ''openssh '', '''']"

definition bearer_at :: "char option \<Rightarrow> string \<Rightarrow> bool" where
  "bearer_at prev s \<longleftrightarrow> at_boundary prev \<and> starts_with (lower s) ''bearer''
     \<and> takeWhile is_space (drop 6 s) \<noteq> []
     \<and> run_of bearer_char 16 (dropWhile is_space (drop 6 s))"

definition secret_at :: "char option \<Rightarrow> string \<Rightarrow> bool" where
  "secret_at prev s \<longleftrightarrow>
     api_key_at s \<or> bot_token_at prev s \<or> private_key_at s \<or> bearer_at prev s"

definition secret_search :: "string \<Rightarrow> bool" where
  "secret_search s = search_from secret_at None s"

definition SECRET_FIELDS :: "string list" where
  "SECRET_FIELDS = [''api_key'', ''access_token'', ''refresh_token'', ''password'', ''authorization'']"

section \<open>The payload check\<close>

definition embedded_json :: "string \<Rightarrow> bool" where
  "embedded_json s \<longleftrightarrow>
     (case lstrip s of [] \<Rightarrow> False | c # _ \<Rightarrow> c = CHR ''{'' \<or> c = CHR ''['')"

abbreviation "sensitive \<equiv> boundary ''sensitive_payload''"

text \<open>
  \<open>check\<close>: one unit of \<open>depth\<close> per nested call, the frames Python's recursion
  limit leaves; beyond it \<open>RecursionError\<close> is raised.
\<close>

fun check_value :: "(string \<Rightarrow> pyval res) \<Rightarrow> nat \<Rightarrow> pyval \<Rightarrow> unit res" where
  "check_value loads 0 v = Inl (Exc PyRecursionError ''maximum recursion depth exceeded'')"
| "check_value loads (Suc depth) v =
     (case v of
        VDict d \<Rightarrow> all_okR (\<lambda>(key, item).
          case key of
            VStr k \<Rightarrow> if lower k \<in> set SECRET_FIELDS then Inl sensitive
                      else check_value loads depth item
          | _ \<Rightarrow> Inl sensitive) d
      | VList xs \<Rightarrow> all_okR (check_value loads depth) xs
      | VTuple xs \<Rightarrow> all_okR (check_value loads depth) xs
      | VStr s \<Rightarrow>
          if secret_search s then Inl sensitive
          else if embedded_json s then
            (case loads s of
               Inr decoded \<Rightarrow> check_value loads depth decoded
             | Inl e \<Rightarrow> if exc_class_of e = PyValueError then Inr () else Inl e)
          else Inr ()
      | VObj _ \<Rightarrow> Inl (boundary ''payload_unsupported'')
      | _ \<Rightarrow> Inr ())"

definition MAX_PAYLOAD_BYTES :: nat where
  "MAX_PAYLOAD_BYTES = 1048576"

text \<open>
  \<open>json.dumps\<close> escapes what is not ASCII, so the encoded text has one byte per
  character.
\<close>

definition checked_payload ::
  "(string \<Rightarrow> pyval res) \<Rightarrow> (pyval \<Rightarrow> string res) \<Rightarrow> nat \<Rightarrow> pyval \<Rightarrow> string res" where
  "checked_payload loads dumps depth payload =
     (case bindR (check_value loads depth payload) (\<lambda>_.
           bindR (dumps payload) (\<lambda>encoded.
           bindR (requireR (length encoded \<le> MAX_PAYLOAD_BYTES) (boundary ''payload_too_large''))
             (\<lambda>_. Inr encoded))) of
        Inr encoded \<Rightarrow> Inr encoded
      | Inl e \<Rightarrow> if is_boundary e \<or> \<not> is_exception e then Inl e
                 else Inl (boundary ''payload_invalid''))"

section \<open>What an accepted payload cannot hold\<close>

text \<open>
  A value exposes a secret when a secret pattern occurs in one of its strings, or a key is
  not a string or names a credential, at any depth, inside decoded JSON strings too.
\<close>

inductive exposes :: "(string \<Rightarrow> pyval res) \<Rightarrow> pyval \<Rightarrow> bool" for loads where
  pattern: "secret_search s \<Longrightarrow> exposes loads (VStr s)"
| embedded: "embedded_json s \<Longrightarrow> loads s = Inr v \<Longrightarrow> exposes loads v \<Longrightarrow> exposes loads (VStr s)"
| field: "(VStr k, v) \<in> set d \<Longrightarrow> lower k \<in> set SECRET_FIELDS \<Longrightarrow> exposes loads (VDict d)"
| odd_key: "(k, v) \<in> set d \<Longrightarrow> \<forall>s. k \<noteq> VStr s \<Longrightarrow> exposes loads (VDict d)"
| item: "(k, v) \<in> set d \<Longrightarrow> exposes loads v \<Longrightarrow> exposes loads (VDict d)"
| member: "v \<in> set xs \<Longrightarrow> exposes loads v \<Longrightarrow> exposes loads (VList xs)"
| tuple_member: "v \<in> set xs \<Longrightarrow> exposes loads v \<Longrightarrow> exposes loads (VTuple xs)"

inductive_cases exposes_strE: "exposes loads (VStr s)"
inductive_cases exposes_dictE: "exposes loads (VDict d)"

lemma check_value_dict_iff:
  "check_value loads (Suc depth) (VDict d) = Inr () \<longleftrightarrow>
   (\<forall>key v. (key, v) \<in> set d \<longrightarrow>
      (\<exists>k. key = VStr k \<and> lower k \<notin> set SECRET_FIELDS) \<and> check_value loads depth v = Inr ())"
  by (fastforce simp: all_okR_iff split: pyval.splits if_splits)

lemma check_value_str_iff:
  "check_value loads (Suc depth) (VStr s) = Inr () \<longleftrightarrow>
   \<not> secret_search s
   \<and> (embedded_json s \<longrightarrow> (case loads s of Inr v \<Rightarrow> check_value loads depth v = Inr ()
        | Inl e \<Rightarrow> exc_class_of e = PyValueError))"
  by (auto split: sum.splits)

lemma check_value_list_iff:
  "check_value loads (Suc depth) (VList xs) = Inr () \<longleftrightarrow> (\<forall>x \<in> set xs. check_value loads depth x = Inr ())"
  "check_value loads (Suc depth) (VTuple xs) = Inr () \<longleftrightarrow> (\<forall>x \<in> set xs. check_value loads depth x = Inr ())"
  by (auto simp: all_okR_iff)

lemmas check_value_iffs = check_value_dict_iff check_value_str_iff check_value_list_iff

lemma exposes_not_checked:
  "exposes loads v \<Longrightarrow> check_value loads depth v \<noteq> Inr ()"
proof (induction arbitrary: depth rule: exposes.induct)
  case (odd_key k v d)
  then show ?case by (cases depth) (auto simp: check_value_iffs simp del: check_value.simps(2))
qed (case_tac [!] depth, auto simp: check_value_iffs simp del: check_value.simps(2))

lemma checked_payload_iff:
  "checked_payload loads dumps depth v = Inr encoded \<longleftrightarrow>
   check_value loads depth v = Inr () \<and> dumps v = Inr encoded \<and> length encoded \<le> MAX_PAYLOAD_BYTES"
  by (auto simp: checked_payload_def res_iffs split: sum.splits if_splits)

lemma checked_payload_clean:
  "checked_payload loads dumps depth v = Inr encoded \<Longrightarrow> \<not> exposes loads v"
  using exposes_not_checked by (auto simp: checked_payload_iff)

text \<open>The check raises boundary errors only, unless the interpreter itself is being stopped.\<close>

lemma checked_payload_error:
  "checked_payload loads dumps depth v = Inl e \<Longrightarrow> is_boundary e \<or> \<not> is_exception e"
  by (auto simp: checked_payload_def split: sum.splits if_splits)


text \<open>A credential hidden in a JSON text inside a list inside a request.\<close>

definition demo_hidden :: string where
  "demo_hidden = '' {'' @ [CHR 0x22] @ ''Password'' @ [CHR 0x22] @ '': 1}''"

definition demo_loads :: "string \<Rightarrow> pyval res" where
  "demo_loads s =
     (if s = demo_hidden then Inr (VDict [(VStr ''Password'', VInt 1)])
      else Inl (Exc PyValueError ''no JSON document''))"

definition demo_payload :: pyval where
  "demo_payload = VDict [(VStr ''messages'', VList [VStr ''hello'', VStr demo_hidden])]"

lemma demo_payload_exposes: "exposes demo_loads demo_payload"
proof -
  have "lower ''Password'' \<in> set SECRET_FIELDS"
    by code_simp
  then have "exposes demo_loads (VDict [(VStr ''Password'', VInt 1)])"
    by (intro exposes.field) auto
  moreover have "embedded_json demo_hidden"
    by (simp add: embedded_json_def demo_hidden_def lstrip_def is_space_def)
  ultimately have "exposes demo_loads (VStr demo_hidden)"
    by (intro exposes.embedded [of demo_hidden]) (simp_all add: demo_loads_def)
  then have "exposes demo_loads (VList [VStr ''hello'', VStr demo_hidden])"
    by (intro exposes.member) auto
  then show ?thesis unfolding demo_payload_def by (intro exposes.item) auto
qed


section \<open>URLs\<close>

record split_url =
  url_scheme :: string
  url_netloc :: string
  url_path :: string
  url_query :: string
  url_fragment :: string

text \<open>\<open>s.partition(c)\<close> as the part before the separator and, if there is one, the part after.\<close>

definition cut_at :: "char \<Rightarrow> string \<Rightarrow> string \<times> string option" where
  "cut_at c s =
     (takeWhile (\<lambda>d. d \<noteq> c) s,
      case dropWhile (\<lambda>d. d \<noteq> c) s of [] \<Rightarrow> None | _ # rest \<Rightarrow> Some rest)"

definition scheme_char :: "char \<Rightarrow> bool" where
  "scheme_char c \<longleftrightarrow> is_alnum c \<or> c \<in> set ''+-.''"

definition split_scheme :: "string \<Rightarrow> string \<times> string" where
  "split_scheme url =
     (case cut_at (CHR '':'') url of
        (pre, Some rest) \<Rightarrow>
          (if pre \<noteq> [] \<and> (is_upper (hd pre) \<or> is_lower (hd pre)) \<and> list_all scheme_char pre
           then (lower pre, rest) else ([], url))
      | _ \<Rightarrow> ([], url))"

text \<open>
  \<open>urlsplit(url)\<close>. \<open>bracket_ok\<close> is the check of a bracketed host by the
  \<open>ipaddress\<close> module.
\<close>

definition urlsplit :: "(string \<Rightarrow> bool) \<Rightarrow> string \<Rightarrow> split_url res" where
  "urlsplit bracket_ok raw =
     (let url = filter (\<lambda>c. c \<notin> {CHR 0x09, CHR 0x0A, CHR 0x0D})
                  (dropWhile (\<lambda>c. (of_char c :: nat) \<le> 32) raw);
          (scheme, rest) = split_scheme url;
          (netloc, rest) =
            (if starts_with rest ''//''
             then (takeWhile (\<lambda>c. c \<notin> set ''/?#'') (drop 2 rest),
                   dropWhile (\<lambda>c. c \<notin> set ''/?#'') (drop 2 rest))
             else ([], rest));
          opening = CHR ''['' \<in> set netloc; closing = CHR '']'' \<in> set netloc
      in if opening \<noteq> closing \<or> opening \<and> \<not> bracket_ok netloc
         then Inl (Exc PyValueError ''Invalid IPv6 URL'')
         else
           let (rest, fragment) = cut_at (CHR ''#'') rest;
               (rest, query) = cut_at (CHR ''?'') rest
           in Inr \<lparr>url_scheme = scheme, url_netloc = netloc, url_path = rest,
                    url_query = (case query of None \<Rightarrow> [] | Some q \<Rightarrow> q),
                    url_fragment = (case fragment of None \<Rightarrow> [] | Some f \<Rightarrow> f)\<rparr>)"

text \<open>\<open>netloc.rpartition('@')\<close>.\<close>

definition userinfo :: "string \<Rightarrow> string option" where
  "userinfo netloc =
     (if CHR ''@'' \<in> set netloc
      then Some (rev (tl (dropWhile (\<lambda>c. c \<noteq> CHR ''@'') (rev netloc)))) else None)"

definition hostinfo :: "string \<Rightarrow> string" where
  "hostinfo netloc = rev (takeWhile (\<lambda>c. c \<noteq> CHR ''@'') (rev netloc))"

definition url_username :: "split_url \<Rightarrow> string option" where
  "url_username u = map_option (\<lambda>i. fst (cut_at (CHR '':'') i)) (userinfo (url_netloc u))"

definition url_password :: "split_url \<Rightarrow> string option" where
  "url_password u = Option.bind (userinfo (url_netloc u)) (\<lambda>i. snd (cut_at (CHR '':'') i))"

definition url_hostname :: "split_url \<Rightarrow> string option" where
  "url_hostname u =
     (let info = hostinfo (url_netloc u);
          host = (case cut_at (CHR ''['') info of
                    (_, Some bracketed) \<Rightarrow> fst (cut_at (CHR '']'') bracketed)
                  | _ \<Rightarrow> fst (cut_at (CHR '':'') info));
          (name, zone) = cut_at (CHR ''%'') host
      in if host = [] then None
         else Some (lower name @ (case zone of None \<Rightarrow> [] | Some z \<Rightarrow> CHR ''%'' # z)))"

end
