(* ===== verification/Maya_Boundary.thy ===== *)
theory Maya_Boundary
  imports Maya_Payload Maya_Config Maya_World
begin

text \<open>
  \<open>MayaGovernancePlugin\<close> of \<open>src/project_maya/hermes_plugins/governance.py\<close>:
  the callbacks through which every model call, tool call, tool result, model output and
  session write passes. What the plugin is given (its configuration, the authorization
  gateway, the audit sink) and the library services it calls form a record; the callback of
  the Hermes runtime is a computation argument.
\<close>

section \<open>The plugin\<close>

text \<open>
  \<open>h_gateway\<close>: the result object, or the exception of the call (an object without the
  fields of a result raises \<open>AttributeError\<close> before anything else happens).
  \<open>h_sink\<close>: what writing a record raises after the records written so far, if anything.
\<close>

record host =
  h_config :: MayaConfig
  h_gateway :: "ActionRequest \<Rightarrow> AuthorizationResult res"
  h_sink :: "AuditRecord list \<Rightarrow> AuditRecord \<Rightarrow> pyexc option"
  h_digest :: "string \<Rightarrow> string"
  h_loads :: "string \<Rightarrow> pyval res"
  h_dumps :: "pyval \<Rightarrow> string res"
  h_depth :: nat
  h_resolve :: "path \<Rightarrow> path res"
  h_bracket_ok :: "string \<Rightarrow> bool"

definition audit_write :: "host \<Rightarrow> AuditRecord \<Rightarrow> ('z world_scheme, unit) py" where
  "audit_write h r = sink_write (h_sink h) r"

definition payload_ok :: "host \<Rightarrow> pyval \<Rightarrow> string res" where
  "payload_ok h v = checked_payload (h_loads h) (h_dumps h) (h_depth h) v"

definition target_ref :: "host \<Rightarrow> string \<Rightarrow> string" where
  "target_ref h s = ''sha256:'' @ h_digest h s"

definition action_request :: "RequestIdentity \<Rightarrow> string \<Rightarrow> string \<Rightarrow> string \<Rightarrow> ActionRequest" where
  "action_request i capability target operation =
     \<lparr>req_actor_id = id_actor i, req_capability = capability, req_target = target,
      req_operation = operation, req_classification = id_classification i,
      req_idempotency_key = None, req_metadata = []\<rparr>"

text \<open>\<open>_actor\<close>: the identity of the request, checked against an open session scope.\<close>

definition actor :: "('z world_scheme, RequestIdentity) py" where
  "actor =
     bnd (gets w_identity) (\<lambda>i.
     case i of
       None \<Rightarrow> raise (boundary ''identity_missing'')
     | Some identity \<Rightarrow>
         bnd (gets w_session) (\<lambda>b.
         case b of
           None \<Rightarrow> ret identity
         | Some bound \<Rightarrow>
             bnd (active (sw_lease bound)) (\<lambda>live.
             bnd (gets id) (\<lambda>w.
             bnd (require (live \<and> identity = sw_identity bound \<and> sw_thread bound = w_thread w
                           \<and> sw_task bound = w_task w)
               (boundary ''session_context_missing'')) (\<lambda>_.
             ret identity)))))"

definition accepts :: "AuthorizationResult \<Rightarrow> bool" where
  "accepts r \<longleftrightarrow> allowed r \<and> res_constraints r = [] \<and> res_redactions r = []"

definition authorization_record :: "host \<Rightarrow> ActionRequest \<Rightarrow> AuthorizationResult \<Rightarrow> AuditRecord" where
  "authorization_record h action r =
     audit_record ''authorization.hermes_boundary'' (decision_value (res_decision r))
       (if allowed r then ''governance.allowed'' else ''governance.denied'')
       (req_actor_id action) (req_capability action) (target_ref h (req_target action))
       (req_operation action) (req_classification action)"

text \<open>\<open>except GovernanceBoundaryError: raise\<close>, \<open>except Exception: raise other\<close>.\<close>

definition boundary_or :: "pyexc \<Rightarrow> ('s, 'a) py \<Rightarrow> ('s, 'a) py" where
  "boundary_or other m =
     try_except m (\<lambda>e. if is_boundary e then raise e else if is_exception e then raise other else raise e)"

definition authorize :: "host \<Rightarrow> ActionRequest \<Rightarrow> ('z world_scheme, unit) py" where
  "authorize h action =
     boundary_or (boundary ''authorization_unavailable'')
       (bnd (lift (h_gateway h action)) (\<lambda>r.
        bnd (audit_write h (authorization_record h action r)) (\<lambda>_.
        require (accepts r) (boundary ''action_denied''))))"

definition block_record :: "RequestIdentity option \<Rightarrow> string \<Rightarrow> AuditRecord" where
  "block_record i capability =
     audit_record ''denial.hermes_boundary'' ''deny'' ''governance.boundary_blocked''
       (case i of Some x \<Rightarrow> id_actor x | None \<Rightarrow> ''unresolved'')
       capability ''withheld'' ''execute''
       (case i of Some x \<Rightarrow> id_classification x | None \<Rightarrow> ''restricted'')"

definition audit_block :: "host \<Rightarrow> string \<Rightarrow> ('z world_scheme, unit) py" where
  "audit_block h capability =
     bnd (gets w_identity) (\<lambda>i.
     try_except (audit_write h (block_record i capability))
       (\<lambda>e. if is_exception e then raise (boundary ''audit_unavailable'') else raise e))"

section \<open>Errors that leave a callback\<close>

definition PUBLIC_REASONS :: "string list" where
  "PUBLIC_REASONS =
     [''identity_missing'', ''sensitive_payload'', ''payload_unsupported'', ''payload_too_large'',
      ''payload_invalid'', ''managed_gateway_unavailable'', ''model_route_mismatch'',
      ''model_route_invalid'', ''action_denied'', ''authorization_unavailable'',
      ''audit_unavailable'', ''model_execution_failed'', ''tool_execution_failed'',
      ''tool_unmapped'', ''file_target_invalid'', ''file_target_outside_root'',
      ''model_output_failed'']"

definition public_error :: "pyexc \<Rightarrow> pyexc" where
  "public_error e =
     (let m = exc_message e;
          reason = (if starts_with m ''governance.'' then drop 11 m else m)
      in boundary (if reason \<in> set PUBLIC_REASONS then reason else ''authorization_unavailable''))"

text \<open>The two \<open>except\<close> clauses the callbacks end with.\<close>

definition guarded :: "host \<Rightarrow> string \<Rightarrow> string \<Rightarrow> ('z world_scheme, 'a) py \<Rightarrow> ('z world_scheme, 'a) py" where
  "guarded h capability failure m =
     try_except m (\<lambda>e.
       if is_boundary e then bnd (audit_block h capability) (\<lambda>_. raise (public_error e))
       else if is_exception e then bnd (audit_block h capability) (\<lambda>_. raise (boundary failure))
       else raise e)"

section \<open>Model calls\<close>

definition openai_endpoint :: string where
  "openai_endpoint = ''https://api.openai.com/v1''"

definition expected_endpoint :: "ModelConfig \<Rightarrow> string option" where
  "expected_endpoint c =
     (case llm_endpoint c of
        None \<Rightarrow> if llm_mode c = ''customer_owned'' \<and> llm_provider c = ''openai''
                then Some openai_endpoint else None
      | Some e \<Rightarrow> Some e)"

text \<open>Truth value of an optional text: \<open>None\<close> and the empty text are false.\<close>

definition given :: "string option \<Rightarrow> bool" where
  "given s \<longleftrightarrow> s \<noteq> None \<and> s \<noteq> Some []"

definition model_route :: "host \<Rightarrow> pydict \<Rightarrow> pydict \<Rightarrow> unit res" where
  "model_route h request context =
     (let c = llm (h_config h); expected = expected_endpoint c;
          provider = dget_or context ''provider'' VNone;
          endpoint = dget_or context ''base_url'' VNone
      in bindR (requireR (llm_mode c \<noteq> ''maya_managed'') (boundary ''managed_gateway_unavailable'')) (\<lambda>_.
         bindR (requireR (given expected \<and> provider = VStr (llm_provider c)
                          \<and> endpoint = VStr (the expected)) (boundary ''model_route_mismatch'')) (\<lambda>_.
         bindR (urlsplit (h_bracket_ok h) (the expected)) (\<lambda>parsed.
         bindR (requireR (\<not> (given (url_username parsed) \<or> given (url_password parsed)
                          \<or> url_query parsed \<noteq> [] \<or> url_fragment parsed \<noteq> []))
           (boundary ''model_route_invalid'')) (\<lambda>_.
         bindR (requireR (url_scheme parsed = ''https''
                 \<or> llm_mode c = ''local'' \<and> url_scheme parsed = ''http''
                   \<and> url_hostname parsed \<in> {Some ''127.0.0.1'', Some ''localhost'', Some ''::1''})
           (boundary ''model_route_invalid'')) (\<lambda>_.
         requireR (dget_or request ''model'' VNone = VStr (llm_model c))
           (boundary ''model_route_mismatch'')))))))"

definition model_gate :: "host \<Rightarrow> pydict \<Rightarrow> pydict \<Rightarrow> ('z world_scheme, unit) py" where
  "model_gate h request context =
     bnd actor (\<lambda>identity.
     bnd (lift (payload_ok h (VDict request))) (\<lambda>_.
     bnd (lift (model_route h request context)) (\<lambda>_.
     authorize h (action_request identity ''model.egress''
       (''model:'' @ llm_provider (llm (h_config h))) ''infer''))))"

text \<open>The transport's own failures pass; only a boundary error raised below is public.\<close>

definition model_execution ::
  "host \<Rightarrow> pydict \<Rightarrow> pydict \<Rightarrow> (pydict \<Rightarrow> ('z world_scheme, 'a) py) \<Rightarrow> ('z world_scheme, 'a) py" where
  "model_execution h request context next_call =
     bnd (guarded h ''model.egress'' ''model_execution_failed'' (model_gate h request context)) (\<lambda>_.
     try_except (next_call request)
       (\<lambda>e. if is_boundary e then bnd (audit_block h ''model.egress'') (\<lambda>_. raise (public_error e))
            else raise e))"

section \<open>Model output\<close>

definition validation_record :: "host \<Rightarrow> string \<Rightarrow> ActionRequest \<Rightarrow> AuditRecord" where
  "validation_record h event action =
     audit_record event ''allow'' ''governance.result_validated'' (req_actor_id action)
       (req_capability action) (target_ref h (req_target action)) (req_operation action)
       (req_classification action)"

definition output_route_ok :: "ModelConfig \<Rightarrow> pydict \<Rightarrow> bool" where
  "output_route_ok c context \<longleftrightarrow>
     llm_mode c \<noteq> ''maya_managed'' \<and> given (expected_endpoint c)
     \<and> dget_or context ''provider'' VNone = VStr (llm_provider c)
     \<and> dget_or context ''model'' VNone = VStr (llm_model c)
     \<and> dget_or context ''base_url'' VNone = VStr (the (expected_endpoint c))"

definition model_output :: "host \<Rightarrow> pyval \<Rightarrow> pydict \<Rightarrow> ('z world_scheme, pyval) py" where
  "model_output h result context =
     guarded h ''model.output'' ''model_output_failed''
       (bnd actor (\<lambda>identity.
        bnd (lift (payload_ok h result)) (\<lambda>_.
        bnd (require (output_route_ok (llm (h_config h)) context) (boundary ''model_route_mismatch'')) (\<lambda>_.
        let action = action_request identity ''model.output''
              (''model:'' @ llm_provider (llm (h_config h))) ''disclose''
        in bnd (authorize h action) (\<lambda>_.
           bnd (audit_write h (validation_record h ''validation.hermes_model_output'' action)) (\<lambda>_.
           ret result))))))"

section \<open>Tool calls\<close>

text \<open>\<open>root in resolved.parents\<close>.\<close>

definition strictly_inside :: "path \<Rightarrow> path \<Rightarrow> bool" where
  "strictly_inside base p \<longleftrightarrow>
     path_root base = path_root p \<and> length (path_parts base) < length (path_parts p)
     \<and> take (length (path_parts base)) (path_parts p) = path_parts base"

definition join_path :: "path \<Rightarrow> path \<Rightarrow> path" where
  "join_path a b = (if is_absolute b then b else Path (path_root a) (path_parts a @ path_parts b))"

definition documents_dir :: "host \<Rightarrow> path" where
  "documents_dir h = join_path (data_dir (deployment (h_config h))) (parse_path ''documents'')"

definition document_path :: "host \<Rightarrow> pyval \<Rightarrow> string res" where
  "document_path h v =
     (case v of
        VStr s \<Rightarrow>
          if s = [] then Inl (boundary ''file_target_invalid'')
          else
            bindR (h_resolve h (documents_dir h)) (\<lambda>base.
            bindR (h_resolve h (if is_absolute (parse_path s) then parse_path s
                                else join_path base (parse_path s))) (\<lambda>resolved.
            bindR (requireR (strictly_inside base resolved) (boundary ''file_target_outside_root''))
              (\<lambda>_. Inr (path_str resolved))))
      | _ \<Rightarrow> Inl (boundary ''file_target_invalid''))"

definition tool_action :: "host \<Rightarrow> string \<Rightarrow> pydict \<Rightarrow> RequestIdentity \<Rightarrow> ActionRequest res" where
  "tool_action h name args i =
     (if name = ''maya_business_memory_search'' then
        Inr (action_request i ''memory.read'' ''*'' ''search'')
      else if name = ''maya_business_memory_ingest'' then
        bindR (document_path h (dget_or args ''path'' VNone)) (\<lambda>target.
        Inr (action_request i ''memory.ingest'' target ''read_and_ingest''))
      else if name = ''maya_business_memory_rebuild_embeddings'' then
        Inr (action_request i ''memory.write'' ''*'' ''rebuild_embeddings'')
      else if name = ''read_file'' \<or> name = ''write_file'' then
        bindR (document_path h (dget_or args ''path'' VNone)) (\<lambda>target.
        Inr (action_request i (if name = ''read_file'' then ''file.read'' else ''file.write'')
               target (if name = ''read_file'' then ''read'' else ''write'')))
      else Inl (boundary ''tool_unmapped''))"

definition checked_result :: "host \<Rightarrow> ActionRequest \<Rightarrow> pyval \<Rightarrow> ('z world_scheme, pyval) py" where
  "checked_result h action result =
     bnd (lift (payload_ok h result)) (\<lambda>_.
     bnd (audit_write h (validation_record h ''validation.hermes_tool_result'' action)) (\<lambda>_.
     ret result))"

definition path_tools :: "string list" where
  "path_tools = [''read_file'', ''write_file'', ''maya_business_memory_ingest'']"

definition effective_args :: "string \<Rightarrow> pydict \<Rightarrow> ActionRequest \<Rightarrow> pydict" where
  "effective_args name args action =
     (if name \<in> set path_tools
      then assoc_put (VStr ''path'') (VStr (path_str (parse_path (req_target action)))) args
      else args)"

definition tool_gate :: "host \<Rightarrow> string \<Rightarrow> pydict \<Rightarrow> ('z world_scheme, ActionRequest) py" where
  "tool_gate h name args =
     bnd actor (\<lambda>identity.
     bnd (lift (payload_ok h (VDict args))) (\<lambda>_.
     lift (tool_action h name args identity)))"

definition tool_result :: "host \<Rightarrow> string \<Rightarrow> pydict \<Rightarrow> pyval \<Rightarrow> ('z world_scheme, pyval) py" where
  "tool_result h name args result =
     guarded h ''tool.result'' ''tool_execution_failed''
       (bnd (tool_gate h name args) (\<lambda>action. checked_result h action result))"

definition tool_execution ::
  "host \<Rightarrow> string \<Rightarrow> pydict \<Rightarrow> (pydict \<Rightarrow> ('z world_scheme, pyval) py) \<Rightarrow> ('z world_scheme, pyval) py" where
  "tool_execution h name args next_call =
     guarded h ''tool.execute'' ''tool_execution_failed''
       (bnd (tool_gate h name args) (\<lambda>action.
        bnd (authorize h action) (\<lambda>_.
        bnd (next_call (effective_args name args action)) (\<lambda>result.
        checked_result h action result))))"

section \<open>Session writes\<close>

definition SESSION_WRITE_CONTRACT :: string where
  "SESSION_WRITE_CONTRACT = ''project-maya.hermes-session-write.v1''"

text \<open>
  \<open>Path(v)\<close> on a context value (a text, or \<open>TypeError\<close>), and membership in a
  frozenset of texts (unhashable values raise).
\<close>

definition path_of_value :: "pyval \<Rightarrow> path res" where
  "path_of_value v = (case v of VStr s \<Rightarrow> Inr (parse_path s)
                      | _ \<Rightarrow> Inl (Exc PyTypeError ''expected str or PathLike''))"

definition member_value :: "pyval \<Rightarrow> string list \<Rightarrow> bool res" where
  "member_value v xs =
     (case v of VStr s \<Rightarrow> Inr (s \<in> set xs)
      | VList _ \<Rightarrow> Inl (Exc PyTypeError ''unhashable'')
      | VDict _ \<Rightarrow> Inl (Exc PyTypeError ''unhashable'')
      | _ \<Rightarrow> Inr False)"

text \<open>\<open>a or b or ...\<close>: later operands are evaluated only while the earlier are false.\<close>

definition session_context_ok :: "host \<Rightarrow> SessionWriteContext \<Rightarrow> pydict \<Rightarrow> unit res" where
  "session_context_ok h bound context =
     bindR (requireR (dget_or context ''contract'' VNone = VStr SESSION_WRITE_CONTRACT
             \<and> dget_or context ''session_id'' VNone = VStr (sw_session_id bound)
             \<and> dget_or context ''purpose'' VNone = VStr ''hermes_conversation'')
       (boundary ''session_context_mismatch'')) (\<lambda>_.
     bindR (path_of_value (dget_or context ''database'' (VStr []))) (\<lambda>p.
     bindR (h_resolve h p) (\<lambda>database.
     bindR (requireR (database = sw_database bound) (boundary ''session_context_mismatch'')) (\<lambda>_.
     bindR (member_value (dget_or context ''operation'' VNone) (sw_operations bound)) (\<lambda>b.
     requireR b (boundary ''session_context_mismatch''))))))"

text \<open>The operation after the checks above: a text, one of the scope's operations.\<close>

definition context_operation :: "pydict \<Rightarrow> string" where
  "context_operation context =
     (case dget_or context ''operation'' VNone of VStr s \<Rightarrow> s | _ \<Rightarrow> [])"

definition session_record :: "host \<Rightarrow> RequestIdentity \<Rightarrow> SessionWriteContext \<Rightarrow> string \<Rightarrow> AuditRecord" where
  "session_record h i bound operation =
     audit_record ''validation.hermes_session_write'' ''allow'' ''governance.session_write_authorized''
       (id_actor i) ''session.write''
       (target_ref h (sw_session_id bound @ '':'' @ sw_request_id bound)) operation (id_classification i)"

definition session_gate :: "host \<Rightarrow> pyval \<Rightarrow> pydict \<Rightarrow> ('z world_scheme, pyval) py" where
  "session_gate h result context =
     bnd actor (\<lambda>identity.
     bnd (gets w_session) (\<lambda>b.
     case b of
       None \<Rightarrow> raise (boundary ''session_context_missing'')
     | Some bound \<Rightarrow>
         bnd (active (sw_lease bound)) (\<lambda>live.
         bnd (gets id) (\<lambda>w.
         bnd (require (live \<and> identity = sw_identity bound \<and> sw_thread bound = w_thread w
                       \<and> sw_task bound = w_task w) (boundary ''session_context_missing'')) (\<lambda>_.
         bnd (lift (session_context_ok h bound context)) (\<lambda>_.
         bnd (lift (payload_ok h result)) (\<lambda>_.
         bnd (authorize h (action_request identity ''session.write''
                (''session:'' @ sw_session_id bound) (context_operation context))) (\<lambda>_.
         bnd (audit_write h (session_record h identity bound (context_operation context))) (\<lambda>_.
         ret result)))))))))"

definition session_write :: "host \<Rightarrow> pyval \<Rightarrow> pydict \<Rightarrow> ('z world_scheme, pyval) py" where
  "session_write h result context =
     try_except (session_gate h result context) (\<lambda>e.
       if is_boundary e then
         bnd (audit_block h ''session.write'') (\<lambda>_. raise (boundary ''action_denied''))
       else if is_exception e then
         bnd (audit_block h ''session.write'') (\<lambda>_. raise (boundary ''authorization_unavailable''))
       else raise e)"

end
