(* ===== verification/Maya_Mediation.thy ===== *)
theory Maya_Mediation
  imports Maya_Boundary
begin

text \<open>
  What the callbacks of the governance boundary guarantee: complete mediation of tool and
  model calls, confinement of file tools, session writes inside a live scope only, and the
  errors that may leave a callback.
\<close>

section \<open>Weakest preconditions of the boundary\<close>

lemma wp_audit_write [wp]:
  "wlp (audit_write h r) Q E =
     (\<lambda>w. case h_sink h (w_audit w) r of
        None \<Rightarrow> Q () (w\<lparr>w_audit := w_audit w @ [r]\<rparr>) | Some e \<Rightarrow> E e w)"
  by (simp add: audit_write_def wp)

lemma wp_boundary_or [wp]:
  "wlp (boundary_or other m) Q E =
     wlp m Q (\<lambda>e. if is_boundary e \<or> \<not> is_exception e then E e else E other)"
  unfolding boundary_or_def wp_try_except
  by (rule arg_cong [where f = "wlp m Q"], rule ext) (simp add: wp)

lemma wp_authorize [wp]:
  "wlp (authorize h action) Q E =
     (\<lambda>w. case h_gateway h action of
        Inl e \<Rightarrow> (if is_boundary e \<or> \<not> is_exception e then E e w
                   else E (boundary ''authorization_unavailable'') w)
      | Inr r \<Rightarrow>
          (case h_sink h (w_audit w) (authorization_record h action r) of
             Some e \<Rightarrow> (if is_boundary e \<or> \<not> is_exception e then E e w
                         else E (boundary ''authorization_unavailable'') w)
           | None \<Rightarrow>
               (if accepts r then Q () (w\<lparr>w_audit := w_audit w @ [authorization_record h action r]\<rparr>)
                else E (boundary ''action_denied'')
                  (w\<lparr>w_audit := w_audit w @ [authorization_record h action r]\<rparr>))))"
  by (rule ext) (auto simp: authorize_def wp split: sum.splits option.splits)

text \<open>The identity a callback acts for, and that an open session scope is its own and live.\<close>

definition acting :: "'z world_scheme \<Rightarrow> RequestIdentity \<Rightarrow> bool" where
  "acting w i \<longleftrightarrow> w_identity w = Some i
     \<and> (\<forall>bound. w_session w = Some bound \<longrightarrow>
          fst (lease_is_active (w_clock w) (sw_lease bound) (w_leases w))
          \<and> i = sw_identity bound \<and> sw_thread bound = w_thread w \<and> sw_task bound = w_task w)"

text \<open>The same ambient state, up to leases the clock has ended.\<close>

definition same_scope :: "'z world_scheme \<Rightarrow> 'z world_scheme \<Rightarrow> bool" where
  "same_scope w v \<longleftrightarrow> w_clock v = w_clock w \<and> w_thread v = w_thread w \<and> w_task v = w_task w
     \<and> w_identity v = w_identity w \<and> w_session v = w_session w
     \<and> later (w_leases w) (w_leases v)"

lemma same_scope_refl [simp, intro]: "same_scope w w"
  by (simp add: same_scope_def)

lemma wlp_actor:
  "wlp actor (\<lambda>i v. acting w i \<and> same_scope w v \<and> w_audit v = w_audit w)
             (\<lambda>e v. same_scope w v \<and> w_audit v = w_audit w) w"
  by (auto simp: actor_def wp acting_def same_scope_def split: option.splits)

lemma same_scope_audit [simp]: "same_scope w (v\<lparr>w_audit := a\<rparr>) = same_scope w v"
  by (simp add: same_scope_def)

section \<open>Handlers\<close>

definition handle :: "host \<Rightarrow> string \<Rightarrow> string \<Rightarrow> pyexc \<Rightarrow> ('z world_scheme, 'a) py" where
  "handle h capability failure e =
     (if is_boundary e then bnd (audit_block h capability) (\<lambda>_. raise (public_error e))
      else if is_exception e then bnd (audit_block h capability) (\<lambda>_. raise (boundary failure))
      else raise e)"

lemma guarded_handle: "guarded h capability failure m = try_except m (handle h capability failure)"
  unfolding guarded_def
  by (rule arg_cong [where f = "try_except m"], rule ext) (simp add: handle_def)

lemma handle_raises: "\<exists>e'. fst (handle h capability failure e w) = Inl e'"
  by (auto simp: handle_def audit_block_def bnd_def raise_def try_except_def gets_def
      split: prod.splits sum.splits)

lemma guarded_bnd:
  "guarded h c f (bnd m k) w =
     (case m w of (Inl e, v) \<Rightarrow> handle h c f e v | (Inr a, v) \<Rightarrow> guarded h c f (k a) v)"
  by (simp add: guarded_handle try_except_def bnd_def split: prod.splits sum.splits)

lemma handle_blocks: "\<exists>e' v. handle h c f e w = (Inl e', v)"
  by (metis handle_raises prod.collapse)

text \<open>The reasons that may leave a callback.\<close>

definition public :: "pyexc \<Rightarrow> bool" where
  "public e \<longleftrightarrow> \<not> is_exception e \<or> (\<exists>reason \<in> set PUBLIC_REASONS. e = boundary reason)"

lemma public_boundary [simp]:
  "public (boundary reason) \<longleftrightarrow> reason \<in> set PUBLIC_REASONS"
  by (simp add: public_def)

lemma public_error_public [simp]: "public (public_error e)"
  by (simp add: public_def public_error_def Let_def) (simp add: PUBLIC_REASONS_def)

lemma PUBLIC_REASONS_mem [simp]:
  "''action_denied'' \<in> set PUBLIC_REASONS" "''authorization_unavailable'' \<in> set PUBLIC_REASONS"
  "''audit_unavailable'' \<in> set PUBLIC_REASONS" "''tool_execution_failed'' \<in> set PUBLIC_REASONS"
  "''model_output_failed'' \<in> set PUBLIC_REASONS" "''model_execution_failed'' \<in> set PUBLIC_REASONS"
  by (simp_all add: PUBLIC_REASONS_def)

lemma public_failures [simp]:
  "public (boundary ''action_denied'')" "public (boundary ''authorization_unavailable'')"
  by (simp_all add: public_def PUBLIC_REASONS_def)

lemma public_run: "wlp m (\<lambda>_ _. True) (\<lambda>e _. public e) w \<Longrightarrow> (Inl e, v) = m w \<Longrightarrow> public e"
  by (simp add: wlp_def split: prod.splits)

lemma wlp_audit_block: "wlp (audit_block h c) (\<lambda>_ _. True) (\<lambda>e _. public e) w"
  by (auto simp: audit_block_def wp public_def split: option.splits)

lemma wlp_handle:
  assumes "failure \<in> set PUBLIC_REASONS"
  shows "wlp (handle h c failure e) (\<lambda>_ _. True) (\<lambda>e _. public e) w"
  using assms wlp_audit_block [of h c w]
  by (auto simp: handle_def wp public_def elim!: wlp_mono) (auto simp: public_error_def Let_def)

lemma wlp_guarded:
  assumes "failure \<in> set PUBLIC_REASONS"
  shows "wlp (guarded h c failure m) (\<lambda>_ _. True) (\<lambda>e _. public e) w"
  unfolding guarded_handle wp_try_except
  by (rule wlpI) (use wlp_handle [OF assms] in auto)

section \<open>Complete mediation of tool calls\<close>

text \<open>
  Everything the boundary checks before it calls the tool, and the state it leaves: the
  caller is identified, the arguments hold no secret, the tool maps to an action, the
  gateway accepts that action outright, and exactly the record of this decision was added
  to the audit log.
\<close>

definition tool_admitted ::
  "host \<Rightarrow> string \<Rightarrow> pydict \<Rightarrow> 'z world_scheme \<Rightarrow> ActionRequest \<Rightarrow> 'z world_scheme \<Rightarrow> bool" where
  "tool_admitted h name args w action u \<longleftrightarrow>
     (\<exists>i r. acting w i \<and> \<not> exposes (h_loads h) (VDict args)
        \<and> tool_action h name args i = Inr action
        \<and> h_gateway h action = Inr r \<and> accepts r
        \<and> same_scope w u \<and> w_audit u = w_audit w @ [authorization_record h action r])"

lemma payload_ok_clean: "payload_ok h v = Inr encoded \<Longrightarrow> \<not> exposes (h_loads h) v"
  by (simp add: payload_ok_def checked_payload_clean)

lemma wlp_tool_gate:
  "wlp (tool_gate h name args)
     (\<lambda>action v. \<exists>i. acting w i \<and> \<not> exposes (h_loads h) (VDict args)
        \<and> tool_action h name args i = Inr action \<and> same_scope w v \<and> w_audit v = w_audit w)
     (\<lambda>_ _. True) w"
  unfolding tool_gate_def wp_bnd wp_lift
  by (rule wlp_mono [OF wlp_actor]) (auto simp: wp payload_ok_clean split: sum.splits)

lemma tool_gate_authorized:
  "wlp (bnd (tool_gate h name args) (\<lambda>action. bnd (authorize h action) (\<lambda>_. ret action)))
     (\<lambda>action. tool_admitted h name args w action) (\<lambda>_ _. True) w"
  unfolding wp_bnd
  by (rule wlp_mono [OF wlp_tool_gate])
    (auto simp: wp tool_admitted_def split: sum.splits option.splits)

lemma tool_execution_split:
  "tool_execution h name args next_call =
     guarded h ''tool.execute'' ''tool_execution_failed''
       (bnd (bnd (tool_gate h name args) (\<lambda>action. bnd (authorize h action) (\<lambda>_. ret action)))
          (\<lambda>action. bnd (next_call (effective_args name args action)) (checked_result h action)))"
  by (simp add: tool_execution_def bnd_assoc)

lemma tool_call_split:
  "(\<exists>e v. \<forall>next_call. tool_execution h name args next_call w = (Inl e, v))
   \<or> (\<exists>action u. tool_admitted h name args w action u
        \<and> (\<forall>next_call. tool_execution h name args next_call w =
             guarded h ''tool.execute'' ''tool_execution_failed''
               (bnd (next_call (effective_args name args action)) (checked_result h action)) u))"
proof -
  let ?gate = "bnd (tool_gate h name args) (\<lambda>action. bnd (authorize h action) (\<lambda>_. ret action))"
  show ?thesis
  proof (cases "?gate w")
    case (Pair r u)
    show ?thesis
    proof (cases r)
      case (Inl e)
      then have "\<forall>k. tool_execution h name args k w
          = handle h ''tool.execute'' ''tool_execution_failed'' e u"
        unfolding tool_execution_split guarded_bnd using Pair by simp
      then show ?thesis using handle_blocks by metis
    next
      case (Inr action)
      have "tool_admitted h name args w action u"
        using tool_gate_authorized [of h name args w] Pair Inr by (auto dest: wlp_run)
      moreover have "\<forall>k. tool_execution h name args k w = guarded h ''tool.execute''
          ''tool_execution_failed'' (bnd (k (effective_args name args action)) (checked_result h action)) u"
        unfolding tool_execution_split guarded_bnd using Pair Inr by simp
      ultimately show ?thesis by blast
    qed
  qed
qed

interpretation tool_gate: mediated_call "tool_execution h name args" "tool_admitted h name args"
  "\<lambda>action next_call. guarded h ''tool.execute'' ''tool_execution_failed''
     (bnd (next_call (effective_args name args action)) (checked_result h action))" for h name args
  by unfold_locales (rule tool_call_split)

lemma unidentified_tool_call_refused:
  "w_identity w = None \<Longrightarrow> \<exists>e v. \<forall>next_call. tool_execution h name args next_call w = (Inl e, v)"
  by (rule tool_gate.refused) (simp add: tool_admitted_def acting_def)

text \<open>
  C3. Tool calls are completely mediated. For every tool, argument dict and state, either the
  call is blocked with an exception and a final state that do not depend on the tool at all
  (it never ran), or the boundary admitted exactly one action: the caller is identified, the
  arguments hold no secret, the gateway accepted the action without conditions, that decision
  is already the last record of the audit log, and the tool then runs once, from that state,
  on the effective arguments, its result passing the same check on the way out.
\<close>

theorem tool_call_mediated:
  "(\<exists>e v. \<forall>next_call. tool_execution h name args next_call w = (Inl e, v))
   \<or> (\<exists>action u. tool_admitted h name args w action u
        \<and> (\<forall>next_call. tool_execution h name args next_call w =
             guarded h ''tool.execute'' ''tool_execution_failed''
               (bnd (next_call (effective_args name args action)) (checked_result h action)) u))"
  by (rule tool_call_split)

section \<open>File tools stay inside the documents directory\<close>

lemma document_path_inside:
  assumes "document_path h v = Inr s"
  shows "\<exists>base p. h_resolve h (documents_dir h) = Inr base \<and> strictly_inside base p
           \<and> s = path_str p \<and> (\<exists>q. h_resolve h q = Inr p)"
  using assms by (auto simp: document_path_def res_iffs split: pyval.splits if_splits)

lemma path_tool_target:
  assumes "tool_action h name args i = Inr action" and "name \<in> set path_tools"
  shows "document_path h (dget_or args ''path'' VNone) = Inr (req_target action)"
  using assms
  by (auto simp: tool_action_def path_tools_def action_request_def res_iffs)

text \<open>
  C20. A file tool cannot leave the documents directory: whatever path the model asks for
  (absolute, relative, with dots or links), the path argument the tool is run with parses to a
  location strictly inside the resolved documents directory of the installation, provided
  resolving a path gives an absolute path in normal form.
\<close>

theorem file_tool_confined:
  assumes "tool_action h name args i = Inr action" and "name \<in> set path_tools"
    and "\<And>q p. h_resolve h q = Inr p \<Longrightarrow> wf_path p"
  shows "\<exists>base s. h_resolve h (documents_dir h) = Inr base
           \<and> dget (effective_args name args action) ''path'' = Some (VStr s)
           \<and> strictly_inside base (parse_path s)"
proof -
  obtain base p q where "h_resolve h (documents_dir h) = Inr base" "strictly_inside base p"
    "req_target action = path_str p" "h_resolve h q = Inr p"
    using document_path_inside [OF path_tool_target [OF assms(1,2)]] by blast
  moreover from this have "parse_path (req_target action) = p"
    using assms(3) by (simp add: parse_path_str)
  ultimately show ?thesis
    using assms(2,3)
    by (simp add: effective_args_def dget_def parse_path_str)
qed

section \<open>Errors that leave a callback\<close>

lemma wlp_session_write: "wlp (session_write h result context) (\<lambda>_ _. True) (\<lambda>e _. public e) w"
  unfolding session_write_def wp_try_except
proof (rule wlpI)
  fix e v
  show "wlp (if is_boundary e then bnd (audit_block h ''session.write'')
               (\<lambda>_. raise (boundary ''action_denied''))
             else if is_exception e then bnd (audit_block h ''session.write'')
               (\<lambda>_. raise (boundary ''authorization_unavailable'')) else raise e)
         (\<lambda>_ _. True) (\<lambda>e _. public e) v"
    using wlp_audit_block [of h "''session.write''" v]
    by (auto simp: wp elim!: wlp_mono) (simp_all add: public_def)
qed simp

lemma wlp_callbacks:
  "wlp (tool_execution h name args next_call) (\<lambda>_ _. True) (\<lambda>e _. public e) w"
  "wlp (tool_result h name args result) (\<lambda>_ _. True) (\<lambda>e _. public e) w"
  "wlp (model_output h result context) (\<lambda>_ _. True) (\<lambda>e _. public e) w"
  by (simp_all add: tool_execution_def tool_result_def model_output_def wlp_guarded
      del: public_boundary)

lemmas callbacks_public = public_run [OF wlp_callbacks(1)] public_run [OF wlp_callbacks(2)]
  public_run [OF wlp_callbacks(3)] public_run [OF wlp_session_write]


section \<open>Session writes\<close>

lemma session_context_ok_iff:
  "session_context_ok h bound context = Inr u \<longleftrightarrow>
   dget_or context ''contract'' VNone = VStr SESSION_WRITE_CONTRACT
   \<and> dget_or context ''session_id'' VNone = VStr (sw_session_id bound)
   \<and> dget_or context ''purpose'' VNone = VStr ''hermes_conversation''
   \<and> (\<exists>p. dget_or context ''database'' (VStr []) = VStr p
        \<and> h_resolve h (parse_path p) = Inr (sw_database bound))
   \<and> (\<exists>operation. dget_or context ''operation'' VNone = VStr operation
        \<and> operation \<in> set (sw_operations bound))"
  by (auto simp: session_context_ok_def res_iffs path_of_value_def member_value_def
      split: pyval.splits)

text \<open>What the two records of an authorized session write say, and when it is authorized.\<close>

definition write_authorized ::
  "host \<Rightarrow> pyval \<Rightarrow> pydict \<Rightarrow> 'z world_scheme \<Rightarrow> AuditRecord list \<Rightarrow> bool" where
  "write_authorized h result context w records \<longleftrightarrow>
     (\<exists>i bound operation r.
        acting w i \<and> w_session w = Some bound
        \<and> dget_or context ''operation'' VNone = VStr operation
        \<and> operation \<in> set (sw_operations bound)
        \<and> session_context_ok h bound context = Inr ()
        \<and> \<not> exposes (h_loads h) result
        \<and> (let action = action_request i ''session.write'' (''session:'' @ sw_session_id bound) operation
           in h_gateway h action = Inr r \<and> accepts r
              \<and> records = [authorization_record h action r, session_record h i bound operation]))"

lemma session_gate_authorized:
  "wlp (session_gate h result context)
     (\<lambda>x v. x = result \<and> (\<exists>records. write_authorized h result context w records
                \<and> w_audit v = w_audit w @ records) \<and> same_scope w v)
     (\<lambda>_ _. True) w"
proof -
  have step: "wlp (case w_session v of
           None \<Rightarrow> raise (boundary ''session_context_missing'')
         | Some bound \<Rightarrow>
             bnd (active (sw_lease bound)) (\<lambda>live.
             bnd (gets id) (\<lambda>w'.
             bnd (require (live \<and> i = sw_identity bound \<and> sw_thread bound = w_thread w'
                           \<and> sw_task bound = w_task w') (boundary ''session_context_missing'')) (\<lambda>_.
             bnd (lift (session_context_ok h bound context)) (\<lambda>_.
             bnd (lift (payload_ok h result)) (\<lambda>_.
             bnd (authorize h (action_request i ''session.write''
                    (''session:'' @ sw_session_id bound) (context_operation context))) (\<lambda>_.
             bnd (audit_write h (session_record h i bound (context_operation context))) (\<lambda>_.
             ret result))))))))
        (\<lambda>x v. x = result \<and> (\<exists>records. write_authorized h result context w records
                \<and> w_audit v = w_audit w @ records) \<and> same_scope w v) (\<lambda>_ _. True) v"
    if "acting w i" and v: "same_scope w v" "w_audit v = w_audit w" for i v
  proof (cases "w_session v")
    case None
    then show ?thesis by (simp add: wp)
  next
    case (Some bound)
    then have "w_session w = Some bound" using v by (simp add: same_scope_def)
    moreover have "same_scope w (v\<lparr>w_leases := snd (lease_is_active t r (w_leases v))\<rparr>)" for t r
      using v by (auto simp: same_scope_def intro: later_trans)
    ultimately show ?thesis
      using Some that v
      by (auto simp: wp write_authorized_def Let_def session_context_ok_iff context_operation_def
          payload_ok_clean split: sum.splits option.splits)
  qed
  show ?thesis
    unfolding session_gate_def wp_bnd wp_gets
    by (rule wlp_mono [OF wlp_actor]) (use step in auto)
qed

lemma session_write_success:
  assumes "session_write h result context w = (Inr x, v)"
  shows "x = result \<and> (\<exists>records. write_authorized h result context w records
           \<and> w_audit v = w_audit w @ records) \<and> same_scope w v"
proof (cases "session_gate h result context w")
  case (Pair r t)
  have noret: "fst ((if is_boundary e then bnd (audit_block h ''session.write'')
               (\<lambda>_. raise (boundary ''action_denied''))
             else if is_exception e then bnd (audit_block h ''session.write'')
               (\<lambda>_. raise (boundary ''authorization_unavailable'')) else raise e) t) \<noteq> Inr x" for e
    by (auto simp: bnd_def raise_def split: prod.splits sum.splits)
  show ?thesis
  proof (cases r)
    case (Inl e)
    then show ?thesis using assms Pair noret [of e]
      by (simp add: session_write_def try_except_def)
  next
    case (Inr y)
    then have "session_gate h result context w = (Inr x, v)"
      using assms Pair by (simp add: session_write_def try_except_def)
    from wlp_run(1) [OF session_gate_authorized this] show ?thesis .
  qed
qed

text \<open>
  C18. A session write is released only inside its own live scope. If the callback returns
  (always the value it was given, unchanged), then a session scope is open, its lease and every
  lease above it are live, the caller, thread and task are the ones that opened it, the contract,
  session, database and operation named by Hermes are those of the scope, the value holds no
  secret, the gateway accepted exactly this write, and exactly two records, the decision and
  the release, were added to the audit log.
\<close>

theorem session_write_in_scope:
  assumes "session_write h result context w = (Inr x, v)"
  shows "x = result
         \<and> (\<exists>records. write_authorized h result context w records \<and> w_audit v = w_audit w @ records)
         \<and> same_scope w v"
  by (rule session_write_success [OF assms])

section \<open>Model calls\<close>

text \<open>
  A destination a prompt may be sent to: the configured provider and model at the configured
  endpoint, over TLS or to the machine itself in local mode, without credentials in the URL.
\<close>

definition safe_route :: "host \<Rightarrow> pydict \<Rightarrow> pydict \<Rightarrow> bool" where
  "safe_route h request context \<longleftrightarrow>
     (\<exists>endpoint u. let c = llm (h_config h) in
        llm_mode c \<noteq> ''maya_managed''
        \<and> expected_endpoint c = Some endpoint \<and> endpoint \<noteq> []
        \<and> dget_or context ''provider'' VNone = VStr (llm_provider c)
        \<and> dget_or context ''base_url'' VNone = VStr endpoint
        \<and> dget_or request ''model'' VNone = VStr (llm_model c)
        \<and> urlsplit (h_bracket_ok h) endpoint = Inr u
        \<and> \<not> given (url_username u) \<and> \<not> given (url_password u)
        \<and> url_query u = [] \<and> url_fragment u = []
        \<and> (url_scheme u = ''https''
           \<or> llm_mode c = ''local'' \<and> url_scheme u = ''http''
             \<and> url_hostname u \<in> {Some ''127.0.0.1'', Some ''localhost'', Some ''::1''}))"

lemma model_route_safe: "model_route h request context = Inr u \<Longrightarrow> safe_route h request context"
  by (auto simp: model_route_def safe_route_def given_def Let_def res_iffs)

definition model_admitted ::
  "host \<Rightarrow> pydict \<Rightarrow> pydict \<Rightarrow> 'z world_scheme \<Rightarrow> 'z world_scheme \<Rightarrow> bool" where
  "model_admitted h request context w u \<longleftrightarrow>
     (\<exists>i r. acting w i \<and> \<not> exposes (h_loads h) (VDict request) \<and> safe_route h request context
        \<and> (let action = action_request i ''model.egress''
                 (''model:'' @ llm_provider (llm (h_config h))) ''infer''
           in h_gateway h action = Inr r \<and> accepts r
              \<and> same_scope w u \<and> w_audit u = w_audit w @ [authorization_record h action r]))"

lemma wlp_model_gate:
  "wlp (model_gate h request context) (\<lambda>_ v. model_admitted h request context w v) (\<lambda>_ _. True) w"
  unfolding model_gate_def wp_bnd wp_lift
  by (rule wlp_mono [OF wlp_actor])
    (auto simp: wp model_admitted_def Let_def payload_ok_clean model_route_safe
      split: sum.splits option.splits)

text \<open>
  C4. No prompt leaves for an unapproved destination. For every request and state, either the
  transport is never called (the outcome does not depend on it), or the request holds no
  secret, goes to the configured provider, model and endpoint over TLS (or to the loopback
  interface in local mode) with no credentials in the URL, the gateway accepted the egress and
  that decision is recorded, and the transport is called with exactly this request.
\<close>

theorem model_egress_mediated:
  "(\<exists>e v. \<forall>next_call :: pydict \<Rightarrow> ('z world_scheme, 'a) py.
       model_execution h request context next_call w = (Inl e, v))
   \<or> (\<exists>u. model_admitted h request context w u
        \<and> (\<forall>next_call :: pydict \<Rightarrow> ('z world_scheme, 'a) py.
             model_execution h request context next_call w =
             try_except (next_call request)
               (\<lambda>e. if is_boundary e then bnd (audit_block h ''model.egress'') (\<lambda>_. raise (public_error e))
                    else raise e) u))"
proof (cases "model_gate h request context w")
  case (Pair r u)
  show ?thesis
  proof (cases r)
    case (Inl e)
    obtain e' v where "(handle h ''model.egress'' ''model_execution_failed'' e u :: unit res \<times> _) = (Inl e', v)"
      using handle_blocks [of h "''model.egress''" "''model_execution_failed''" e u, where 'b = unit] by auto
    then have "model_execution h request context next_call w = (Inl e', v)"
      for next_call :: "pydict \<Rightarrow> ('z world_scheme, 'a) py"
      using Pair Inl by (simp add: model_execution_def guarded_handle try_except_def bnd_def)
    then show ?thesis by blast
  next
    case (Inr a)
    then have "model_admitted h request context w u"
      using wlp_model_gate [of h request "context" w] Pair by (auto dest: wlp_run)
    moreover have "model_execution h request context next_call w =
        try_except (next_call request)
          (\<lambda>e. if is_boundary e then bnd (audit_block h ''model.egress'') (\<lambda>_. raise (public_error e))
               else raise e) u" for next_call :: "pydict \<Rightarrow> ('z world_scheme, 'a) py"
      using Pair Inr by (simp add: model_execution_def guarded_handle try_except_def bnd_def)
    ultimately show ?thesis by blast
  qed
qed

section \<open>The claims at concrete inputs\<close>


text \<open>A host whose paths have no links, and whose policy allows four capabilities.\<close>

definition demo_resolve :: "path \<Rightarrow> path res" where
  "demo_resolve p =
     (if wf_path p
      then Inr (Path (path_root p)
                  (fold (\<lambda>w acc. if w = ''..'' then butlast acc else acc @ [w]) (path_parts p) []))
      else Inl (Exc PyOSError ''no such file''))"

definition allow_rule :: "string \<Rightarrow> PolicyRule" where
  "allow_rule capability =
     \<lparr>rule_capability = capability, rule_target = ''*'', rule_operation = ''*'',
      rule_actor_id = ''*'', rule_decision = ALLOW, rule_reason_code = ''ok''\<rparr>"

definition demo_gate :: "ActionRequest \<Rightarrow> AuthorizationResult" where
  "demo_gate a = policy_authorize (map allow_rule [''file.read'', ''session.write'']) a"

definition demo_host :: host where
  "demo_host =
     \<lparr>h_config = demo_config,
      h_gateway = (\<lambda>a. Inr (demo_gate a)),
      h_sink = (\<lambda>_ _. None), h_digest = (\<lambda>s. s),
      h_loads = (\<lambda>_. Inl (Exc PyValueError ''no JSON'')), h_dumps = (\<lambda>_. Inr ''{}''),
      h_depth = Suc (Suc 0), h_resolve = demo_resolve, h_bracket_ok = (\<lambda>_. True)\<rparr>"

lemma demo_host_simps [simp]:
  "h_config demo_host = demo_config" "h_sink demo_host = (\<lambda>_ _. None)"
  "h_gateway demo_host a = Inr (demo_gate a)"
  "h_digest demo_host s = s" "h_loads demo_host = (\<lambda>_. Inl (Exc PyValueError ''no JSON''))"
  "h_dumps demo_host v = Inr ''{}''" "h_depth demo_host = Suc (Suc 0)" "h_resolve demo_host = demo_resolve"
  by (simp_all add: demo_host_def)

lemma butlast_fold_subset:
  "set (fold (\<lambda>w acc. if w = ''..'' then butlast acc else acc @ [w]) ws acc) \<subseteq> set acc \<union> set ws"
proof (induction ws arbitrary: acc)
  case Nil
  then show ?case by simp
next
  case (Cons w ws)
  show ?case
    using Cons.IH [of "if w = ''..'' then butlast acc else acc @ [w]"]
    by (auto dest: in_set_butlastD split: if_splits)
qed

lemma wf_demo_resolve: "demo_resolve q = Inr p \<Longrightarrow> wf_path p"
  using butlast_fold_subset [of "path_parts q" "[]"]
  by (fastforce simp: demo_resolve_def wf_path_def split: if_splits)

definition demo_identity :: RequestIdentity where
  "demo_identity = \<lparr>id_actor = ''ana'', id_classification = ''internal''\<rparr>"

definition demo_read :: ActionRequest where
  "demo_read = action_request demo_identity ''file.read'' ''/var/maya/documents/q3.txt'' ''read''"

lemma demo_tool_action:
  "tool_action demo_host ''read_file'' [(VStr ''path'', VStr ''notes/../q3.txt'')] demo_identity = Inr demo_read"
  by (simp add: tool_action_def document_path_def dget_or_def dget_def
      documents_dir_def join_path_def parse_path_def is_absolute_def Let_def demo_config_def
      demo_resolve_def wf_path_def strictly_inside_def path_str_def demo_read_def)

theorem file_tool_confined_witness:
  "\<exists>base s. h_resolve demo_host (documents_dir demo_host) = Inr base
     \<and> dget (effective_args ''read_file'' [(VStr ''path'', VStr ''notes/../q3.txt'')] demo_read) ''path''
         = Some (VStr s)
     \<and> strictly_inside base (parse_path s)"
proof (rule file_tool_confined [OF demo_tool_action])
  show "''read_file'' \<in> set path_tools" by (simp add: path_tools_def)
  show "wf_path p" if "h_resolve demo_host q = Inr p" for q p
    using that by (simp add: wf_demo_resolve)
qed

lemma demo_payload_ok:
  "payload_ok demo_host (VDict []) = Inr ''{}''" "payload_ok demo_host (VStr ''hi'') = Inr ''{}''"
proof -
  have "\<not> secret_search ''hi''" "\<not> embedded_json ''hi''" by code_simp+
  then show "payload_ok demo_host (VDict []) = Inr ''{}''" "payload_ok demo_host (VStr ''hi'') = Inr ''{}''"
    by (simp_all add: payload_ok_def checked_payload_iff MAX_PAYLOAD_BYTES_def)
qed

text \<open>A world with a session scope of ana open, and the context Hermes passes with a write.\<close>

definition demo_scope :: SessionWriteContext where
  "demo_scope =
     \<lparr>sw_identity = demo_identity, sw_request_id = ''r-1'', sw_session_id = ''s-1'',
      sw_database = Path ''/'' [''db''], sw_operations = [''append''], sw_thread = 1,
      sw_task = Some 7, sw_lease = 0\<rparr>"

definition demo_open :: world where
  "demo_open = demo_world\<lparr>w_session := Some demo_scope,
     w_leases := [\<lparr>le_active = True, le_parent = None, le_deadline = Some 220, le_termination = None\<rparr>]\<rparr>"

definition demo_context :: pydict where
  "demo_context =
     [(VStr ''contract'', VStr SESSION_WRITE_CONTRACT), (VStr ''session_id'', VStr ''s-1''),
      (VStr ''purpose'', VStr ''hermes_conversation''), (VStr ''database'', VStr ''/db''),
      (VStr ''operation'', VStr ''append'')]"

lemma demo_session_gate:
  "fst (session_gate demo_host (VStr ''hi'') demo_context demo_open) = Inr (VStr ''hi'')"
proof -
  have live: "lease_is_active 100 0
      [\<lparr>le_active = True, le_parent = None, le_deadline = Some 220, le_termination = None\<rparr>] =
      (True, [\<lparr>le_active = True, le_parent = None, le_deadline = Some 220, le_termination = None\<rparr>])"
    by (simp add: lease_is_active_def expire_def expired_def Let_def)
  have scope: "session_context_ok demo_host demo_scope demo_context = Inr ()"
    by (auto simp: session_context_ok_iff demo_context_def demo_scope_def dget_or_def dget_def
        demo_resolve_def parse_path_def wf_path_def Let_def)
  have accepted: "accepts (demo_gate (action_request demo_identity ''session.write'' t operation))"
    for t operation
    by (simp add: demo_gate_def allow_rule_def rule_matches_def matches_pattern_def action_request_def
        accepts_def allowed_def result_of_def)
  show ?thesis
    using live scope accepted
    by (simp add: session_gate_def actor_def demo_open_def demo_world_def bnd_def gets_def
        ret_def active_def require_def lift_def demo_payload_ok authorize_def boundary_or_def
        try_except_def audit_write_def sink_write_def demo_scope_def demo_identity_def)
qed

theorem session_write_in_scope_witness:
  "\<exists>v. session_write demo_host (VStr ''hi'') demo_context demo_open = (Inr (VStr ''hi''), v)
     \<and> (\<exists>records. write_authorized demo_host (VStr ''hi'') demo_context demo_open records
          \<and> w_audit v = w_audit demo_open @ records)"
proof -
  obtain v where "session_write demo_host (VStr ''hi'') demo_context demo_open = (Inr (VStr ''hi''), v)"
    using demo_session_gate
    by (cases "session_gate demo_host (VStr ''hi'') demo_context demo_open")
      (simp add: session_write_def try_except_def)
  then show ?thesis using session_write_in_scope by blast
qed

end
