(* ===== verification/Maya_Json.thy ===== *)
theory Maya_Json
  imports Maya_Config_Types "HOL-Library.Multiset"
begin

text \<open>
  The compact JSON text of objects with known keys, as \<open>json.dumps(..., sort_keys=True,
  separators=(",", ":"))\<close> writes it: the form the program hashes and signs. The text
  determines the values: two objects of one shape with equal text are equal.
\<close>

section \<open>Text\<close>

definition hex_digit :: "nat \<Rightarrow> char" where
  "hex_digit n = (if n < 10 then char_of (48 + n) else char_of (87 + n))"

definition json_char :: "char \<Rightarrow> string" where
  "json_char c =
     (let n = (of_char c :: nat)
      in if n = 34 then [char_of (92 :: nat), c]
         else if n = 92 then [c, c]
         else if n = 10 then [char_of (92 :: nat), CHR ''n'']
         else if n = 13 then [char_of (92 :: nat), CHR ''r'']
         else if n = 9 then [char_of (92 :: nat), CHR ''t'']
         else if n = 12 then [char_of (92 :: nat), CHR ''f'']
         else if n = 8 then [char_of (92 :: nat), CHR ''b'']
         else if 32 \<le> n \<and> n \<le> 126 then [c]
         else [char_of (92 :: nat), CHR ''u'', CHR ''0'', CHR ''0'', hex_digit (n div 16), hex_digit (n mod 16)])"

definition json_str :: "string \<Rightarrow> string" where
  "json_str s = [char_of (34 :: nat)] @ concat (map json_char s) @ [char_of (34 :: nat)]"

definition json_field :: "string \<Rightarrow> string \<Rightarrow> string" where
  "json_field k text = json_str k @ '':'' @ text"

text \<open>\<open>json.dumps(fields, sort_keys=True, separators=(",", ":"))\<close>, the keys in order already.\<close>

definition json_object :: "(string \<times> string) list \<Rightarrow> string" where
  "json_object entries = ''{'' @ join_with '','' (map (\<lambda>(k, t). json_field k t) entries) @ ''}''"

section \<open>Strings are uniquely decodable\<close>

definition hex_val :: "char \<Rightarrow> nat" where
  "hex_val c = (if is_digit c then of_char c - 48 else of_char c - 87)"

text \<open>The first character of an escaped text, and the rest.\<close>

fun json_take :: "string \<Rightarrow> (char \<times> string) option" where
  "json_take [] = None"
| "json_take (c # s) =
     (if (of_char c :: nat) \<noteq> 92 then Some (c, s)
      else (case s of
          [] \<Rightarrow> None
        | e # t \<Rightarrow>
            if e = CHR ''u'' then
              (case t of _ # _ # x # y # r \<Rightarrow> Some (char_of (16 * hex_val x + hex_val y), r) | _ \<Rightarrow> None)
            else if e = CHR ''n'' then Some (char_of (10 :: nat), t)
            else if e = CHR ''r'' then Some (char_of (13 :: nat), t)
            else if e = CHR ''t'' then Some (char_of (9 :: nat), t)
            else if e = CHR ''f'' then Some (char_of (12 :: nat), t)
            else if e = CHR ''b'' then Some (char_of (8 :: nat), t)
            else Some (e, t)))"

lemma hex_val_digit: "n < 16 \<Longrightarrow> hex_val (hex_digit n) = n"
  by (auto simp: hex_val_def hex_digit_def is_digit_def)

lemma hex_digit_code: "(of_char c :: nat) div 16 < 16"
proof -
  have "(of_char c :: nat) < 256" by (rule nat_of_char_less_256)
  then show ?thesis by linarith
qed

lemma hex_pair [simp]:
  "char_of (16 * hex_val (hex_digit ((of_char c :: nat) div 16))
            + hex_val (hex_digit ((of_char c :: nat) mod 16))) = c"
  using hex_digit_code [of c] by (simp add: hex_val_digit)

lemma json_char_special:
  "json_char (char_of (34 :: nat)) = [char_of (92 :: nat), char_of (34 :: nat)]"
  "json_char (char_of (92 :: nat)) = [char_of (92 :: nat), char_of (92 :: nat)]"
  "json_char (char_of (10 :: nat)) = [char_of (92 :: nat), CHR ''n'']"
  "json_char (char_of (13 :: nat)) = [char_of (92 :: nat), CHR ''r'']"
  "json_char (char_of (9 :: nat)) = [char_of (92 :: nat), CHR ''t'']"
  "json_char (char_of (12 :: nat)) = [char_of (92 :: nat), CHR ''f'']"
  "json_char (char_of (8 :: nat)) = [char_of (92 :: nat), CHR ''b'']"
  by (simp_all add: json_char_def)

lemma json_char_plain:
  "(of_char c :: nat) \<notin> {34, 92, 10, 13, 9, 12, 8} \<Longrightarrow> 32 \<le> (of_char c :: nat) \<Longrightarrow> (of_char c :: nat) \<le> 126
     \<Longrightarrow> json_char c = [c]"
  "(of_char c :: nat) \<notin> {34, 92, 10, 13, 9, 12, 8} \<Longrightarrow> \<not> (32 \<le> (of_char c :: nat) \<and> (of_char c :: nat) \<le> 126)
     \<Longrightarrow> json_char c = [char_of (92 :: nat), CHR ''u'', CHR ''0'', CHR ''0'',
                       hex_digit (of_char c div 16), hex_digit (of_char c mod 16)]"
  by (simp_all add: json_char_def Let_def)

lemma char_by_code: "(of_char c :: nat) = n \<Longrightarrow> c = char_of n"
  by (metis char_of_char)

lemma json_take_char [simp]: "json_take (json_char c @ s) = Some (c, s)"
proof (cases "(of_char c :: nat) \<in> {34, 92, 10, 13, 9, 12, 8}")
  case True
  then have "c \<in> {char_of (34 :: nat), char_of (92 :: nat), char_of (10 :: nat), char_of (13 :: nat),
                    char_of (9 :: nat), char_of (12 :: nat), char_of (8 :: nat)}"
    using char_by_code by fast
  then show ?thesis
    by (elim insertE emptyE; hypsubst; simp only: json_char_special; simp add: char_of_def bit_0)
next
  case False
  then show ?thesis
    by (cases "32 \<le> (of_char c :: nat) \<and> (of_char c :: nat) \<le> 126") (simp_all add: json_char_plain)
qed

text \<open>A string literal ends at its first unescaped quote.\<close>

lemma json_char_no_quote: "json_char c @ s \<noteq> CHR 0x22 # t"
proof
  assume eq: "json_char c @ s = CHR 0x22 # t"
  have "json_take (CHR 0x22 # t) = Some (c, s)" by (rule json_take_char [of c s, unfolded eq])
  then have c: "c = CHR 0x22" by simp
  have "json_char (char_of (34 :: nat)) @ s = CHR 0x22 # t" using eq c by (simp add: char_of_def bit_0)
  then show False by (simp only: json_char_special) (simp add: char_of_def bit_0)
qed

lemma json_body_inj:
  "concat (map json_char s) @ CHR 0x22 # u = concat (map json_char t) @ CHR 0x22 # v \<Longrightarrow> s = t \<and> u = v"
proof (induction s arbitrary: t)
  case Nil
  then show ?case by (cases t) (auto simp: json_char_no_quote [THEN not_sym])
next
  case (Cons c s)
  show ?case
  proof (cases t)
    case Nil
    then show ?thesis using Cons.prems by (auto simp: json_char_no_quote)
  next
    case (Cons d t')
    have "json_take (json_char c @ concat (map json_char s) @ CHR 0x22 # u)
        = json_take (json_char d @ concat (map json_char t') @ CHR 0x22 # v)"
      using Cons.prems Cons by simp
    then have "c = d" "concat (map json_char s) @ CHR 0x22 # u = concat (map json_char t') @ CHR 0x22 # v"
      by (simp_all only: json_take_char) simp_all
    then show ?thesis using Cons.IH Cons by blast
  qed
qed

lemma json_str_inj: "json_str s @ u = json_str t @ v \<longleftrightarrow> s = t \<and> u = v"
  using json_body_inj [of s u t v] by (auto simp: json_str_def char_of_def bit_0)

lemma json_str_eq [simp]: "json_str s = json_str t \<longleftrightarrow> s = t"
  using json_str_inj [of s "[]" t "[]"] by simp

section \<open>Objects of one shape\<close>

definition json_strings :: "(string \<times> string) list \<Rightarrow> string" where
  "json_strings entries = json_object (map (\<lambda>(k, v). (k, json_str v)) entries)"

lemma json_join_inj:
  "map fst xs = map fst ys
     \<Longrightarrow> join_with '','' (map (\<lambda>(k, v). json_field k (json_str v)) xs) @ ''}''
         = join_with '','' (map (\<lambda>(k, v). json_field k (json_str v)) ys) @ ''}''
     \<Longrightarrow> xs = ys"
proof (induction xs arbitrary: ys)
  case Nil
  then show ?case by simp
next
  case (Cons x xs)
  obtain k v where x: "x = (k, v)" by force
  obtain w zs where ys: "ys = (k, w) # zs" and keys: "map fst xs = map fst zs"
    using Cons.prems(1) x by (cases ys) auto
  show ?case
  proof (cases xs)
    case Nil
    then show ?thesis using Cons.prems(2) x ys keys by (simp add: json_field_def json_str_inj)
  next
    case more: (Cons x' xs')
    obtain y' ys' where zs: "zs = y' # ys'" using keys more by (cases zs) auto
    have "v = w \<and> join_with '','' (map (\<lambda>(k, v). json_field k (json_str v)) xs) @ ''}''
         = join_with '','' (map (\<lambda>(k, v). json_field k (json_str v)) zs) @ ''}''"
      using Cons.prems(2) x ys more zs by (simp add: json_field_def json_str_inj)
    then show ?thesis using Cons.IH keys x ys by blast
  qed
qed

lemma json_strings_inj:
  assumes "json_strings xs = json_strings ys" and "map fst xs = map fst ys"
  shows "xs = ys"
  using assms json_join_inj [of xs ys]
  by (simp add: json_strings_def json_object_def comp_def case_prod_beta')

section \<open>Any value\<close>

text \<open>
  \<open>json.dumps(v, sort_keys=True, separators=(sep, colon))\<close>. The text of a float is a
  parameter; dicts have string keys, as every caller's do.
\<close>

fun json_dumps :: "(pyfloat \<Rightarrow> string) \<Rightarrow> string \<Rightarrow> string \<Rightarrow> pyval \<Rightarrow> string res"
  and json_items :: "(pyfloat \<Rightarrow> string) \<Rightarrow> string \<Rightarrow> string \<Rightarrow> pyval list \<Rightarrow> string list res"
  and json_members :: "(pyfloat \<Rightarrow> string) \<Rightarrow> string \<Rightarrow> string \<Rightarrow> pydict \<Rightarrow> (string \<times> string) list res"
  where
  "json_dumps fl sep colon VNone = Inr ''null''"
| "json_dumps fl sep colon (VBool b) = Inr (if b then ''true'' else ''false'')"
| "json_dumps fl sep colon (VInt i) = Inr (show_int i)"
| "json_dumps fl sep colon (VFloat x) = Inr (fl x)"
| "json_dumps fl sep colon (VStr s) = Inr (json_str s)"
| "json_dumps fl sep colon (VList xs) =
     bindR (json_items fl sep colon xs) (\<lambda>ts. Inr (''['' @ join_with sep ts @ '']''))"
| "json_dumps fl sep colon (VTuple xs) =
     bindR (json_items fl sep colon xs) (\<lambda>ts. Inr (''['' @ join_with sep ts @ '']''))"
| "json_dumps fl sep colon (VDict d) =
     bindR (json_members fl sep colon d) (\<lambda>ms.
     Inr (''{'' @ join_with sep (map (\<lambda>(k, t). json_str k @ colon @ t) (sort_key fst ms)) @ ''}''))"
| "json_dumps fl sep colon (VObj n) = Inl (Exc PyTypeError ''Object is not JSON serializable'')"
| "json_items fl sep colon [] = Inr []"
| "json_items fl sep colon (x # xs) =
     bindR (json_dumps fl sep colon x) (\<lambda>t. bindR (json_items fl sep colon xs) (\<lambda>ts. Inr (t # ts)))"
| "json_members fl sep colon [] = Inr []"
| "json_members fl sep colon ((k, v) # d) =
     (case k of
        VStr key \<Rightarrow>
          bindR (json_dumps fl sep colon v) (\<lambda>t.
          bindR (json_members fl sep colon d) (\<lambda>ms. Inr ((key, t) # ms)))
      | _ \<Rightarrow> Inl (Exc PyTypeError ''keys must be str''))"

section \<open>Flat documents and their text\<close>

text \<open>
  A reader of the texts of dicts whose values are strings and non-negative integers, written
  with the default separators and sorted keys.
\<close>

fun read_json_str :: "nat \<Rightarrow> string \<Rightarrow> (string \<times> string) option" where
  "read_json_str 0 s = None"
| "read_json_str (Suc fuel) s =
     (if take 1 s = [CHR 0x22] then Some ([], drop 1 s)
      else (case json_take s of
          None \<Rightarrow> None
        | Some (c, r) \<Rightarrow> map_option (\<lambda>(w, q). (c # w, q)) (read_json_str fuel r)))"

definition read_flat_value :: "string \<Rightarrow> (pyval \<times> string) option" where
  "read_flat_value s =
     (if take 1 s = [CHR 0x22]
      then map_option (\<lambda>(w, q). (VStr w, q)) (read_json_str (length s) (drop 1 s))
      else map_option (\<lambda>n. (VInt (int n), dropWhile is_digit s)) (read_digits 0 (takeWhile is_digit s)))"

fun read_members :: "nat \<Rightarrow> string \<Rightarrow> pydict option" where
  "read_members 0 s = None"
| "read_members (Suc fuel) s =
     (case read_json_str (length s) (drop 1 s) of
        None \<Rightarrow> None
      | Some (k, r) \<Rightarrow>
          (case read_flat_value (drop 2 r) of
             None \<Rightarrow> None
           | Some (v, q) \<Rightarrow>
               if q = ''}'' then Some [(VStr k, v)]
               else map_option (\<lambda>d. (VStr k, v) # d) (read_members fuel (drop 2 q))))"

definition read_flat :: "string \<Rightarrow> pydict option" where
  "read_flat s = read_members (length s) (drop 1 s)"

text \<open>
  \<open>json.loads\<close>: exact on the texts \<open>json.dumps(d, sort_keys=True)\<close> writes for such
  dicts (the text determines the dict), a parameter on any other text.
\<close>

definition json_loads :: "(string \<Rightarrow> pyval res) \<Rightarrow> string \<Rightarrow> pyval res" where
  "json_loads other s =
     (case read_flat s of
        Some d \<Rightarrow> if distinct (map fst d) \<and> json_dumps (\<lambda>_. []) '', '' '': '' (VDict d) = Inr s then Inr (VDict d) else other s
      | None \<Rightarrow> other s)"

fun flat_entry :: "pyval \<times> pyval \<Rightarrow> bool" where
  "flat_entry (VStr k, VStr v) = True"
| "flat_entry (VStr k, VInt i) = (0 \<le> i)"
| "flat_entry e = False"

fun entry_text :: "pyval \<times> pyval \<Rightarrow> string" where
  "entry_text (VStr k, VStr v) = json_str k @ '': '' @ json_str v"
| "entry_text (VStr k, VInt i) = json_str k @ '': '' @ show_int i"
| "entry_text e = []"

fun entry_key :: "pyval \<times> pyval \<Rightarrow> string" where
  "entry_key (VStr k, v) = k"
| "entry_key e = []"

lemma json_char_nonempty: "json_char c \<noteq> []"
  using json_take_char [of c "[]"] by (cases "json_char c") auto

lemma take_json_char: "take 1 (json_char c @ s) \<noteq> [CHR 0x22]"
  using json_char_no_quote [of c s] json_char_nonempty [of c] by (cases "json_char c") auto

lemma read_json_body:
  "length w < fuel \<Longrightarrow> read_json_str fuel (concat (map json_char w) @ CHR 0x22 # q) = Some (w, q)"
proof (induction w arbitrary: fuel)
  case Nil
  then show ?case by (cases fuel) simp_all
next
  case (Cons c w)
  then obtain m where m: "fuel = Suc m" "length w < m" by (cases fuel) auto
  have "read_json_str (Suc m) (json_char c @ concat (map json_char w) @ CHR 0x22 # q) = Some (c # w, q)"
    using Cons.IH [OF m(2)] by (simp only: read_json_str.simps take_json_char if_False json_take_char) simp
  then show ?case using m by simp
qed

lemma length_json_body: "length w \<le> length (concat (map json_char w))"
proof (induction w)
  case (Cons c w)
  then show ?case using json_char_nonempty [of c] by (cases "json_char c") auto
qed simp

lemma read_json_literal:
  "read_json_str (length (json_str w @ q)) (drop 1 (json_str w @ q)) = Some (w, q)"
proof -
  have lit: "json_str w @ q = CHR 0x22 # concat (map json_char w) @ CHR 0x22 # q"
    by (simp add: json_str_def char_of_def bit_0)
  have "read_json_str (length (json_str w @ q)) (concat (map json_char w) @ CHR 0x22 # q) = Some (w, q)"
    by (rule read_json_body) (use length_json_body [of w] in \<open>simp add: lit\<close>)
  then show ?thesis by (simp add: lit del: read_json_str.simps)
qed

lemma take_json_str: "take 1 (json_str w @ q) = [CHR 0x22]"
  by (simp add: json_str_def char_of_def bit_0)

lemma show_nat_take:
  assumes "q = [] \<or> \<not> is_digit (hd q)"
  shows "takeWhile is_digit (show_nat n @ q) = show_nat n" and "dropWhile is_digit (show_nat n @ q) = q"
  using assms show_nat_digits [of n] by (cases q; auto simp: list_all_iff)+

lemma read_flat_entry:
  assumes "flat_entry e" and "q = [] \<or> \<not> is_digit (hd q)"
  obtains r where "read_json_str (length (entry_text e @ q)) (drop 1 (entry_text e @ q)) = Some (entry_key e, r)"
    and "read_flat_value (drop 2 r) = Some (snd e, q)"
    and "fst e = VStr (entry_key e)"
proof (cases e rule: flat_entry.cases)
  case (1 k v)
  have "read_flat_value (json_str v @ q) = Some (VStr v, q)"
    unfolding read_flat_value_def take_json_str read_json_literal by simp
  then show ?thesis using that [of "'': '' @ json_str v @ q"] read_json_literal [of k "'': '' @ json_str v @ q"] 1
    by simp
next
  case (2 k i)
  have i: "show_int i = show_nat (nat i)" "0 \<le> i" using assms(1) 2 by (simp_all add: show_int_def)
  have "take 1 (show_nat (nat i) @ q) \<noteq> [CHR 0x22]"
    using show_nat_digits [of "nat i"] show_nat_nonempty [of "nat i"]
    by (cases "show_nat (nat i)") (auto simp: is_digit_def)
  then have "read_flat_value (show_nat (nat i) @ q) = Some (VInt i, q)"
    using i(2) by (simp add: read_flat_value_def show_nat_take [OF assms(2)] read_show_nat)
  then show ?thesis
    using that [of "'': '' @ show_int i @ q"] read_json_literal [of k "'': '' @ show_int i @ q"] 2 i by simp
qed (use assms(1) in auto)

lemma read_members_join:
  "es \<noteq> [] \<Longrightarrow> list_all flat_entry es \<Longrightarrow> length es \<le> fuel
     \<Longrightarrow> read_members fuel (join_with '', '' (map entry_text es) @ ''}'') = Some es"
proof (induction es arbitrary: fuel)
  case Nil
  then show ?case by simp
next
  case (Cons e es)
  then obtain m where m: "fuel = Suc m" "length es \<le> m" by (cases fuel) auto
  show ?case
  proof (cases es)
    case Nil
    obtain r where "read_json_str (length (entry_text e @ ''}'')) (drop 1 (entry_text e @ ''}'')) = Some (entry_key e, r)"
      "read_flat_value (drop 2 r) = Some (snd e, ''}'')" "fst e = VStr (entry_key e)"
      using read_flat_entry [of e "''}''"] Cons.prems by (auto simp: is_digit_def)
    then show ?thesis using Nil m by (cases e) simp
  next
    case more: (Cons e' es')
    let ?q = "'', '' @ join_with '', '' (map entry_text es) @ ''}''"
    obtain r where "read_json_str (length (entry_text e @ ?q)) (drop 1 (entry_text e @ ?q)) = Some (entry_key e, r)"
      "read_flat_value (drop 2 r) = Some (snd e, ?q)" "fst e = VStr (entry_key e)"
      using read_flat_entry [of e ?q] Cons.prems by (auto simp: is_digit_def)
    moreover have "read_members m (join_with '', '' (map entry_text es) @ ''}'') = Some es"
      using Cons.IH [of m] Cons.prems m more by simp
    ultimately show ?thesis using more m by (cases e) simp
  qed
qed

definition value_text :: "pyval \<Rightarrow> string" where
  "value_text v = (case v of VStr s \<Rightarrow> json_str s | VInt i \<Rightarrow> show_int i | _ \<Rightarrow> [])"

lemma json_members_flat:
  "list_all flat_entry d
     \<Longrightarrow> json_members fl sep colon d = Inr (map (\<lambda>e. (entry_key e, value_text (snd e))) d)"
proof (induction d)
  case (Cons e d)
  then show ?case by (cases e rule: flat_entry.cases) (simp_all add: value_text_def)
qed simp

lemma insort_key_map: "insort_key f (g x) (map g xs) = map g (insort_key (\<lambda>y. f (g y)) x xs)"
  by (induction xs) simp_all

lemma sort_key_map: "sort_key f (map g xs) = map g (sort_key (\<lambda>y. f (g y)) xs)"
  by (induction xs) (simp_all add: insort_key_map sort_key_def)

lemma entry_text_split:
  "flat_entry e \<Longrightarrow> json_str (entry_key e) @ '': '' @ value_text (snd e) = entry_text e"
  by (cases e rule: flat_entry.cases) (simp_all add: value_text_def)

lemma json_dumps_flat:
  assumes "list_all flat_entry d"
  shows "json_dumps fl '', '' '': '' (VDict d)
     = Inr (''{'' @ join_with '', '' (map entry_text (sort_key entry_key d)) @ ''}'')"
proof -
  have "map (\<lambda>e. json_str (entry_key e) @ '': '' @ value_text (snd e)) (sort_key entry_key d)
      = map entry_text (sort_key entry_key d)"
    using assms by (intro map_cong refl entry_text_split) (auto simp: list_all_iff)
  then have "join_with '', '' (map (\<lambda>e. json_str (entry_key e) @ '': '' @ value_text (snd e)) (sort_key entry_key d))
      = join_with '', '' (map entry_text (sort_key entry_key d))" by (rule arg_cong)
  then show ?thesis using assms
    by (simp only: json_dumps.simps json_members_flat bindR_simps sort_key_map map_map comp_def fst_conv prod.case)
qed

lemma length_join: "length ws \<le> Suc (length (join_with '', '' ws))"
  by (induction "'', ''" ws rule: join_with.induct) auto

theorem json_loads_dumps:
  assumes "list_all flat_entry d" and "distinct (map fst d)" and "d \<noteq> []"
    and "json_dumps fl '', '' '': '' (VDict d) = Inr s"
  shows "json_loads other s = Inr (VDict (sort_key entry_key d))"
proof -
  let ?d = "sort_key entry_key d"
  have s: "s = ''{'' @ join_with '', '' (map entry_text ?d) @ ''}''"
    using assms(4) json_dumps_flat [OF assms(1), of fl] by simp
  have flat: "list_all flat_entry ?d" using assms(1) by (simp add: list_all_iff)
  have "length ?d \<le> length s" using length_join [of "map entry_text ?d"] s by simp
  moreover have "?d \<noteq> []" using assms(3) by (metis length_0_conv length_sort)
  ultimately have "read_members (length s) (join_with '', '' (map entry_text ?d) @ ''}'') = Some ?d"
    using flat by (intro read_members_join)
  moreover have "drop 1 s = join_with '', '' (map entry_text ?d) @ ''}''" by (simp add: s)
  ultimately have "read_flat s = Some ?d" by (simp only: read_flat_def)
  moreover have "json_dumps (\<lambda>_. []) '', '' '': '' (VDict ?d) = Inr s"
  proof -
    have "sort_key entry_key ?d = ?d" by (rule sort_key_id_if_sorted) simp
    then show ?thesis using json_dumps_flat [OF flat, of "\<lambda>_. []"] s by simp
  qed
  moreover have "distinct (map fst ?d)"
    using assms(2) by (metis mset_eq_imp_distinct_iff mset_map mset_sort)
  ultimately show ?thesis by (simp add: json_loads_def)
qed

lemma dget_sorted:
  assumes "distinct (map fst d)"
  shows "dget (sort_key entry_key d) k = dget d k"
proof -
  have "distinct (map fst (sort_key entry_key d))"
    using assms by (metis mset_eq_imp_distinct_iff mset_map mset_sort)
  then have "map_of (sort_key entry_key d) = map_of d"
    using assms by (intro map_of_inject_set [THEN iffD2]) simp_all
  then show ?thesis by (simp add: dget_def)
qed

end
