(* ===== verification/Maya_Transitions.thy ===== *)
theory Maya_Transitions
  imports Maya_Boundary Maya_Json
begin

text \<open>
  \<open>src/project_maya/hermes_plugins/session_transitions.py\<close>: the authority to create
  one session. The environment (the clock, other threads asking for a revocation, task
  cancellation, failing input and output) acts between any two steps: a step counter in
  the state indexes what it does.
\<close>

section \<open>The environment\<close>

text \<open>
  What happens at step \<open>n\<close>: how long it takes, which authority another thread revokes,
  whether the running task is being cancelled, whether the operation fails and whether a
  commit that fails is durable all the same.
\<close>

record env =
  e_delay :: "nat \<Rightarrow> rat"
  e_revoke :: "nat \<Rightarrow> nat option"
  e_cancel :: "nat \<Rightarrow> bool"
  e_fault :: "nat \<Rightarrow> pyexc option"
  e_durable :: "nat \<Rightarrow> bool"
  e_uuid :: "nat \<Rightarrow> string"

section \<open>Descriptor, authority and binding\<close>

record CreateSessionDescriptor =
  d_contract :: string
  d_instance_id :: string
  d_database :: string
  d_principal :: string
  d_classification :: string
  d_binding_version :: int
  d_route_slot :: string
  d_expected_route_version :: int
  d_target_session :: string
  d_request_id :: string
  d_correlation_id :: string
  d_operation :: string

text \<open>
  The fields of \<open>CandidateCreateSessionAuthority\<close>; \<open>ca_depth\<close> is the depth
  of its re-entrant lock, \<open>ca_waiting\<close> that another thread waits in \<open>revoke\<close>.
\<close>

record create_authority =
  ca_descriptor :: CreateSessionDescriptor
  ca_deadline :: rat
  ca_thread :: nat
  ca_task :: "nat option"
  ca_active :: bool
  ca_consumed :: bool
  ca_attempted :: bool
  ca_depth :: nat
  ca_waiting :: bool

record tworld = world +
  tw_step :: nat
  tw_cancelling :: bool
  tw_auths :: "nat \<Rightarrow> create_authority"
  tw_next :: nat
  tw_locked :: bool

text \<open>\<open>b_gateway\<close>: \<open>None\<close> stands for an object that is no \<open>AuthorizationResult\<close>.\<close>

record create_binding =
  b_owner :: RequestIdentity
  b_instance_id :: string
  b_database :: path
  b_route_slot :: string
  b_binding_version :: int
  b_gateway :: "ActionRequest \<Rightarrow> AuthorizationResult option res"
  b_sink :: "AuditRecord list \<Rightarrow> AuditRecord \<Rightarrow> pyexc option"
  b_timeout :: rat
  b_digest :: "string \<Rightarrow> string"

definition TRANSITION_CONTRACT :: string where
  "TRANSITION_CONTRACT = ''project-maya.session-transition.v1''"

text \<open>
  \<open>_CLASSIFICATIONS\<close> is the same set as in the boundary; \<open>_identifier\<close> the same
  expression. \<open>_hash\<close> prefixes the digest.
\<close>

definition hash_ref :: "create_binding \<Rightarrow> string \<Rightarrow> string" where
  "hash_ref b s = ''sha256:'' @ b_digest b s"

definition descriptor_json :: "CreateSessionDescriptor \<Rightarrow> string" where
  "descriptor_json d = json_object
     [(''binding_version'', show_int (d_binding_version d)),
      (''classification'', json_str (d_classification d)),
      (''contract'', json_str (d_contract d)),
      (''correlation_id'', json_str (d_correlation_id d)),
      (''database'', json_str (d_database d)),
      (''expected_route_version'', show_int (d_expected_route_version d)),
      (''instance_id'', json_str (d_instance_id d)),
      (''operation'', json_str (d_operation d)),
      (''principal'', json_str (d_principal d)),
      (''request_id'', json_str (d_request_id d)),
      (''route_slot'', json_str (d_route_slot d)),
      (''target_session'', json_str (d_target_session d))]"

definition descriptor_digest :: "create_binding \<Rightarrow> CreateSessionDescriptor \<Rightarrow> string" where
  "descriptor_digest b d = hash_ref b (descriptor_json d)"

section \<open>The binding\<close>

text \<open>
  \<open>CandidateCreateSessionBinding.__init__\<close> on typed arguments. \<open>existing\<close> is
  \<open>Path.resolve(strict=True)\<close> followed by the file and link tests: the resolved
  path of a regular file that is not a link, or nothing.
\<close>

definition create_binding_init ::
  "(path \<Rightarrow> path option) \<Rightarrow> RequestIdentity \<Rightarrow> string \<Rightarrow> path \<Rightarrow> string \<Rightarrow> int
     \<Rightarrow> (ActionRequest \<Rightarrow> AuthorizationResult option res)
     \<Rightarrow> (AuditRecord list \<Rightarrow> AuditRecord \<Rightarrow> pyexc option) \<Rightarrow> (string \<Rightarrow> string)
     \<Rightarrow> string \<Rightarrow> pyval \<Rightarrow> create_binding res" where
  "create_binding_init existing owner inst db route_slot version gateway sink digest
       acknowledgement timeout =
     bindR (requireR (acknowledgement = ''session-write-source-candidate-only''
              \<and> is_identifier (id_actor owner) \<and> id_classification owner \<in> set classifications
              \<and> is_identifier inst \<and> is_identifier route_slot \<and> 1 \<le> version
              \<and> timeout_value timeout \<noteq> None)
       (boundary ''transition_binding_invalid'')) (\<lambda>_.
     case existing db of
       None \<Rightarrow> Inl (boundary ''transition_binding_invalid'')
     | Some resolved \<Rightarrow>
         Inr \<lparr>b_owner = owner, b_instance_id = inst, b_database = resolved,
              b_route_slot = route_slot, b_binding_version = version, b_gateway = gateway,
              b_sink = sink, b_timeout = the (timeout_value timeout), b_digest = digest\<rparr>)"

section \<open>Steps\<close>

text \<open>\<open>authority.revoke()\<close> by another thread: it waits while the lock is held.\<close>

definition ask_revoke :: "create_authority \<Rightarrow> create_authority" where
  "ask_revoke a = (if ca_depth a = 0 then a\<lparr>ca_active := False\<rparr> else a\<lparr>ca_waiting := True\<rparr>)"

definition ticked :: "env \<Rightarrow> 'z tworld_scheme \<Rightarrow> 'z tworld_scheme" where
  "ticked env w =
     (let n = tw_step w
      in w\<lparr>w_clock := w_clock w + max 0 (e_delay env n),
           tw_step := Suc n,
           tw_cancelling := tw_cancelling w \<or> e_cancel env n,
           tw_auths := (case e_revoke env n of
              None \<Rightarrow> tw_auths w
            | Some a \<Rightarrow> (tw_auths w)(a := ask_revoke (tw_auths w a)))\<rparr>)"

definition tick :: "env \<Rightarrow> ('z tworld_scheme, unit) py" where
  "tick env = modify (ticked env)"

text \<open>One operation on a file, a lock or the database: time passes and it may fail.\<close>

definition io :: "env \<Rightarrow> ('z tworld_scheme, unit) py" where
  "io env =
     bnd (gets tw_step) (\<lambda>n.
     bnd (tick env) (\<lambda>_.
     case e_fault env n of None \<Rightarrow> ret () | Some e \<Rightarrow> raise e))"

definition on_auth :: "nat \<Rightarrow> (create_authority \<Rightarrow> create_authority) \<Rightarrow> ('z tworld_scheme, unit) py" where
  "on_auth a f = modify (\<lambda>w. w\<lparr>tw_auths := (tw_auths w)(a := f (tw_auths w a))\<rparr>)"

definition enter_lock :: "create_authority \<Rightarrow> create_authority" where
  "enter_lock x = x\<lparr>ca_depth := Suc (ca_depth x)\<rparr>"

definition leave_lock :: "create_authority \<Rightarrow> create_authority" where
  "leave_lock x =
     (let y = x\<lparr>ca_depth := ca_depth x - 1\<rparr>
      in if ca_depth y = 0 \<and> ca_waiting y then y\<lparr>ca_active := False, ca_waiting := False\<rparr> else y)"

text \<open>\<open>with self._lock: m\<close>.\<close>

definition with_auth_lock :: "nat \<Rightarrow> ('z tworld_scheme, 'a) py \<Rightarrow> ('z tworld_scheme, 'a) py" where
  "with_auth_lock a m = bnd (on_auth a enter_lock) (\<lambda>_. try_finally m (on_auth a leave_lock))"

section \<open>The authority\<close>

definition auth_revoke :: "nat \<Rightarrow> ('z tworld_scheme, unit) py" where
  "auth_revoke a = with_auth_lock a (on_auth a (\<lambda>x. x\<lparr>ca_active := False\<rparr>))"

text \<open>
  The condition of \<open>_check\<close>. The descriptor is compared by value: it is immutable and
  its identifiers are drawn once for the authority.
\<close>

definition descriptor_ok :: "create_binding \<Rightarrow> RequestIdentity \<Rightarrow> CreateSessionDescriptor \<Rightarrow> bool" where
  "descriptor_ok b identity d \<longleftrightarrow>
     identity = b_owner b
     \<and> d_contract d = TRANSITION_CONTRACT \<and> d_operation d = ''create''
     \<and> d_expected_route_version d = 0
     \<and> is_identifier (d_target_session d) \<and> is_identifier (d_request_id d)
     \<and> is_identifier (d_correlation_id d)
     \<and> d_principal d = id_actor identity \<and> d_classification d = id_classification identity
     \<and> d_instance_id d = b_instance_id b \<and> d_database d = path_str (b_database b)
     \<and> d_route_slot d = b_route_slot b \<and> d_binding_version d = b_binding_version b"

definition auth_live :: "nat \<Rightarrow> CreateSessionDescriptor \<Rightarrow> 'z tworld_scheme \<Rightarrow> bool" where
  "auth_live a d w \<longleftrightarrow>
     (let x = tw_auths w a
      in ca_active x \<and> w_clock w < ca_deadline x \<and> ca_thread x = w_thread w
         \<and> ca_task x = w_task w \<and> \<not> (ca_task x \<noteq> None \<and> tw_cancelling w)
         \<and> ca_descriptor x = d)"

definition auth_check ::
  "create_binding \<Rightarrow> nat \<Rightarrow> RequestIdentity \<Rightarrow> CreateSessionDescriptor \<Rightarrow> ('z tworld_scheme, unit) py" where
  "auth_check b a identity d =
     bnd (gets (auth_live a d)) (\<lambda>live.
     require (live \<and> descriptor_ok b identity d) (boundary ''transition_context_invalid''))"

definition transition_action ::
  "create_binding \<Rightarrow> RequestIdentity \<Rightarrow> CreateSessionDescriptor \<Rightarrow> string \<times> string \<times> string \<Rightarrow> ActionRequest" where
  "transition_action b identity d grant =
     (case grant of (capability, operation, target) \<Rightarrow>
        \<lparr>req_actor_id = id_actor identity, req_capability = capability, req_target = target,
         req_operation = operation, req_classification = id_classification identity,
         req_idempotency_key = Some (d_correlation_id d),
         req_metadata = [(''contract'', TRANSITION_CONTRACT),
                         (''descriptor_digest'', descriptor_digest b d)]\<rparr>)"

text \<open>\<open>_audit\<close> of the binding.\<close>

definition preflight_record ::
  "create_binding \<Rightarrow> CreateSessionDescriptor \<Rightarrow> string \<Rightarrow> string \<Rightarrow> string \<Rightarrow> AuditRecord" where
  "preflight_record b d capability operation decision =
     \<lparr>aud_event_type = ''authorization.session_transition_preflight'', aud_decision = decision,
      aud_reason_code = ''governance.transition_preflight_'' @ decision,
      aud_actor_id = id_actor (b_owner b), aud_capability = capability,
      aud_target = hash_ref b (d_route_slot d), aud_operation = operation,
      aud_classification = id_classification (b_owner b),
      aud_idempotency_key = Some (hash_ref b (d_correlation_id d)),
      aud_metadata = [(''contract'', TRANSITION_CONTRACT),
                      (''descriptor_digest'', descriptor_digest b d),
                      (''qualification'', ''source_preflight_only'')]\<rparr>"

text \<open>\<open>except Exception: raise other\<close>.\<close>

definition exception_as :: "pyexc \<Rightarrow> ('s, 'a) py \<Rightarrow> ('s, 'a) py" where
  "exception_as other m = try_except m (\<lambda>e. if is_exception e then raise other else raise e)"

definition binding_audit :: "env \<Rightarrow> create_binding \<Rightarrow> AuditRecord \<Rightarrow> ('z tworld_scheme, unit) py" where
  "binding_audit env b r =
     exception_as (boundary ''audit_unavailable'')
       (bnd (tick env) (\<lambda>_. sink_write (b_sink b) r))"

definition transition_grants :: "CreateSessionDescriptor \<Rightarrow> (string \<times> string \<times> string) list" where
  "transition_grants d =
     [(''session.read'', ''route_state'', d_route_slot d),
      (''session.transition'', ''create'', d_route_slot d),
      (''session.write'', ''create'', d_target_session d)]"

text \<open>One round of the loop of \<open>authorize\<close>.\<close>

definition authorize_grant ::
  "env \<Rightarrow> create_binding \<Rightarrow> nat \<Rightarrow> RequestIdentity \<Rightarrow> CreateSessionDescriptor
     \<Rightarrow> string \<times> string \<times> string \<Rightarrow> ('z tworld_scheme, unit) py" where
  "authorize_grant env b a identity d grant =
     bnd (exception_as (boundary ''authorization_unavailable'')
            (bnd (tick env) (\<lambda>_.
             bnd (lift (b_gateway b (transition_action b identity d grant))) (\<lambda>r.
             ret (case r of None \<Rightarrow> False | Some x \<Rightarrow> accepts x))))) (\<lambda>granted.
     bnd (auth_check b a identity d) (\<lambda>_.
     bnd (binding_audit env b (preflight_record b d (fst grant) (fst (snd grant))
            (if granted then ''allow'' else ''deny''))) (\<lambda>_.
     require granted (boundary ''transition_denied''))))"

definition auth_authorize ::
  "env \<Rightarrow> create_binding \<Rightarrow> nat \<Rightarrow> RequestIdentity \<Rightarrow> CreateSessionDescriptor \<Rightarrow> ('z tworld_scheme, unit) py" where
  "auth_authorize env b a identity d =
     with_auth_lock a
       (bnd (auth_check b a identity d) (\<lambda>_.
        bnd (gets (\<lambda>w. ca_consumed (tw_auths w a))) (\<lambda>consumed.
        bnd (require (\<not> consumed) (boundary ''transition_consumed'')) (\<lambda>_.
        bnd (for_each (transition_grants d) (authorize_grant env b a identity d)) (\<lambda>_.
        auth_check b a identity d)))))"

definition begin_attempt ::
  "create_binding \<Rightarrow> nat \<Rightarrow> RequestIdentity \<Rightarrow> CreateSessionDescriptor \<Rightarrow> ('z tworld_scheme, unit) py" where
  "begin_attempt b a identity d =
     with_auth_lock a
       (bnd (auth_check b a identity d) (\<lambda>_.
        bnd (gets (\<lambda>w. ca_attempted (tw_auths w a))) (\<lambda>attempted.
        bnd (require (\<not> attempted) (boundary ''transition_consumed'')) (\<lambda>_.
        on_auth a (\<lambda>x. x\<lparr>ca_attempted := True\<rparr>)))))"

definition commit_guard ::
  "env \<Rightarrow> create_binding \<Rightarrow> nat \<Rightarrow> RequestIdentity \<Rightarrow> CreateSessionDescriptor
     \<Rightarrow> ('z tworld_scheme, 'a) py \<Rightarrow> ('z tworld_scheme, 'a) py" where
  "commit_guard env b a identity d body =
     with_auth_lock a
       (bnd (auth_authorize env b a identity d) (\<lambda>_.
        bnd (on_auth a (\<lambda>x. x\<lparr>ca_consumed := True\<rparr>)) (\<lambda>_.
        try_except body (\<lambda>e. bnd (on_auth a (\<lambda>x. x\<lparr>ca_active := False\<rparr>)) (\<lambda>_. raise e)))))"

definition publication_guard ::
  "create_binding \<Rightarrow> nat \<Rightarrow> RequestIdentity \<Rightarrow> CreateSessionDescriptor
     \<Rightarrow> ('z tworld_scheme, 'a) py \<Rightarrow> ('z tworld_scheme, 'a) py" where
  "publication_guard b a identity d body =
     with_auth_lock a
       (bnd (auth_check b a identity d) (\<lambda>_.
        bnd (gets (\<lambda>w. ca_consumed (tw_auths w a))) (\<lambda>consumed.
        bnd (require consumed (boundary ''transition_context_invalid'')) (\<lambda>_.
        body))))"

section \<open>The scope of an authority\<close>

definition new_descriptor :: "env \<Rightarrow> create_binding \<Rightarrow> nat \<Rightarrow> CreateSessionDescriptor" where
  "new_descriptor env b n =
     \<lparr>d_contract = TRANSITION_CONTRACT, d_instance_id = b_instance_id b,
      d_database = path_str (b_database b), d_principal = id_actor (b_owner b),
      d_classification = id_classification (b_owner b),
      d_binding_version = b_binding_version b, d_route_slot = b_route_slot b,
      d_expected_route_version = 0, d_target_session = e_uuid env (3 * n),
      d_request_id = e_uuid env (3 * n + 1), d_correlation_id = e_uuid env (3 * n + 2),
      d_operation = ''create''\<rparr>"

text \<open>\<open>CandidateCreateSessionAuthority(...)\<close>: the next free reference.\<close>

definition new_authority :: "create_binding \<Rightarrow> CreateSessionDescriptor \<Rightarrow> ('z tworld_scheme, nat) py" where
  "new_authority b d w =
     (Inr (tw_next w),
      w\<lparr>tw_auths := (tw_auths w)(tw_next w :=
          \<lparr>ca_descriptor = d, ca_deadline = w_clock w + b_timeout b, ca_thread = w_thread w,
           ca_task = w_task w, ca_active = True, ca_consumed = False, ca_attempted = False,
           ca_depth = 0, ca_waiting = False\<rparr>),
        tw_next := Suc (tw_next w)\<rparr>)"

definition authenticated_create ::
  "env \<Rightarrow> create_binding \<Rightarrow> RequestIdentity \<Rightarrow> (nat \<Rightarrow> ('z tworld_scheme, 'a) py) \<Rightarrow> ('z tworld_scheme, 'a) py" where
  "authenticated_create env b identity body =
     bnd (require (identity = b_owner b) (boundary ''session_owner_mismatch'')) (\<lambda>_.
     bnd (gets tw_locked) (\<lambda>locked.
     bnd (require (\<not> locked) (boundary ''transition_busy'')) (\<lambda>_.
     bnd (modify (\<lambda>w. w\<lparr>tw_locked := True\<rparr>)) (\<lambda>_.
     try_finally
       (bnd (gets tw_next) (\<lambda>n.
        bnd (new_authority b (new_descriptor env b n)) (\<lambda>a.
        try_finally
          (bnd (auth_authorize env b a identity (new_descriptor env b n)) (\<lambda>_. body a))
          (auth_revoke a))))
       (modify (\<lambda>w. w\<lparr>tw_locked := False\<rparr>))))))"

section \<open>Progress\<close>

text \<open>
  What every step does to an authority: it may become inactive, consumed or attempted, never
  the reverse, and its terms are fixed.
\<close>

definition auth_later :: "create_authority \<Rightarrow> create_authority \<Rightarrow> bool" where
  "auth_later x y \<longleftrightarrow>
     ca_descriptor y = ca_descriptor x \<and> ca_deadline y = ca_deadline x
     \<and> ca_thread y = ca_thread x \<and> ca_task y = ca_task x \<and> ca_depth y = ca_depth x
     \<and> (ca_active y \<longrightarrow> ca_active x) \<and> (ca_consumed x \<longrightarrow> ca_consumed y)
     \<and> (ca_attempted x \<longrightarrow> ca_attempted y)"

lemma auth_later_refl [simp, intro]: "auth_later x x"
  by (simp add: auth_later_def)

lemma auth_later_trans: "auth_later x y \<Longrightarrow> auth_later y z \<Longrightarrow> auth_later x z"
  by (auto simp: auth_later_def)

lemma auth_later_ask [simp, intro]: "auth_later x (ask_revoke x)"
  by (simp add: auth_later_def ask_revoke_def)

text \<open>
  What every operation of an authority does to the state: the ambient scope and everything
  beyond the authorities (the durable state of a store in particular) stays, time passes, the
  audit log only grows.
\<close>

definition grows :: "'z tworld_scheme \<Rightarrow> 'z tworld_scheme \<Rightarrow> bool" where
  "grows w v \<longleftrightarrow>
     tworld.more v = tworld.more w \<and> w_thread v = w_thread w \<and> w_task v = w_task w
     \<and> w_leases v = w_leases w \<and> w_identity v = w_identity w \<and> w_session v = w_session w
     \<and> tw_next v = tw_next w \<and> tw_locked v = tw_locked w \<and> w_clock w \<le> w_clock v
     \<and> (tw_cancelling w \<longrightarrow> tw_cancelling v) \<and> (\<exists>rs. w_audit v = w_audit w @ rs)
     \<and> (\<forall>x. auth_later (tw_auths w x) (tw_auths v x))"

lemma grows_refl [simp, intro]: "grows w w"
  by (simp add: grows_def)

lemma grows_trans: "grows u v \<Longrightarrow> grows v w \<Longrightarrow> grows u w"
  by (auto simp: grows_def intro: auth_later_trans)

lemma grows_ticked [simp, intro]: "grows w (ticked env w)"
  by (simp add: grows_def ticked_def Let_def split: option.splits)

lemma grows_audit [simp, intro]: "grows w (w\<lparr>w_audit := w_audit w @ rs\<rparr>)"
  by (simp add: grows_def)

lemma ticked_simps [simp]:
  "w_audit (ticked env w) = w_audit w" "w_thread (ticked env w) = w_thread w"
  "w_task (ticked env w) = w_task w" "tw_next (ticked env w) = tw_next w"
  "tw_locked (ticked env w) = tw_locked w" "tworld.more (ticked env w) = tworld.more w"
  by (simp_all add: ticked_def Let_def split: option.splits)

text \<open>While the lock of an authority is held, nobody revokes it.\<close>

lemma ticked_locked_active:
  "0 < ca_depth (tw_auths w a) \<Longrightarrow> ca_active (tw_auths (ticked env w) a) = ca_active (tw_auths w a)"
  by (auto simp: ticked_def Let_def ask_revoke_def split: option.splits)

lemma ticked_consumed [simp]:
  "ca_consumed (tw_auths (ticked env w) a) = ca_consumed (tw_auths w a)"
  "ca_depth (tw_auths (ticked env w) a) = ca_depth (tw_auths w a)"
  by (auto simp: ticked_def Let_def ask_revoke_def split: option.splits)

definition growing :: "('z tworld_scheme, 'a) py \<Rightarrow> bool" where
  "growing m \<longleftrightarrow> (\<forall>w. wlp m (\<lambda>_. grows w) (\<lambda>_. grows w) w)"

named_theorems growing_intro "computations that only make progress"

lemma growingD: "growing m \<Longrightarrow> wlp m (\<lambda>_. grows w) (\<lambda>_. grows w) w"
  by (simp add: growing_def)

lemma growing_from: "growing m \<Longrightarrow> grows u w \<Longrightarrow> wlp m (\<lambda>_. grows u) (\<lambda>_. grows u) w"
  by (rule wlp_mono [OF growingD]) (auto intro: grows_trans)

lemma growing_basic [growing_intro]:
  "growing (ret a)" "growing (raise e)" "growing (gets f)" "growing (require c e)" "growing (lift r)"
  "growing (tick env)"
  by (auto simp: growing_def wp tick_def split: sum.splits)

lemma growing_bnd [growing_intro]:
  "growing m \<Longrightarrow> (\<And>a. growing (f a)) \<Longrightarrow> growing (bnd m f)"
  unfolding growing_def wp_bnd by (blast intro: wlp_mono growing_from [unfolded growing_def])

lemma growing_try_except [growing_intro]:
  "growing m \<Longrightarrow> (\<And>e. growing (h e)) \<Longrightarrow> growing (try_except m h)"
  unfolding growing_def wp_try_except by (blast intro: wlp_mono growing_from [unfolded growing_def])

lemma growing_try_finally [growing_intro]:
  "growing m \<Longrightarrow> growing f \<Longrightarrow> growing (try_finally m f)"
  unfolding growing_def wp_try_finally by (blast intro: wlp_mono growing_from [unfolded growing_def])

lemma growing_if [growing_intro]: "growing m \<Longrightarrow> growing n \<Longrightarrow> growing (if c then m else n)"
  by simp

lemma growing_for_each [growing_intro]: "(\<And>x. growing (f x)) \<Longrightarrow> growing (for_each xs f)"
  by (induction xs) (auto intro: growing_intro)

lemma growing_sink_write [growing_intro]: "growing (sink_write sink r)"
  by (simp add: growing_def wp split: option.splits)

lemma growing_exception_as [growing_intro]: "growing m \<Longrightarrow> growing (exception_as e m)"
  by (simp add: exception_as_def growing_intro)

lemma growing_io [growing_intro]: "growing (io env)"
  unfolding io_def by (intro growing_intro) (auto split: option.splits intro: growing_intro)

lemma growing_on_auth [growing_intro]:
  "(\<And>x. auth_later x (f x)) \<Longrightarrow> growing (on_auth a f)"
  by (simp add: growing_def on_auth_def wp grows_def)

lemma wp_on_auth [wp]:
  "wlp (on_auth a f) Q E = (\<lambda>w. Q () (w\<lparr>tw_auths := (tw_auths w)(a := f (tw_auths w a))\<rparr>))"
  by (simp add: on_auth_def wp)

lemma wp_with_auth_lock [wp]:
  "wlp (with_auth_lock a m) Q E =
     (\<lambda>w. wlp m
        (\<lambda>r v. Q r (v\<lparr>tw_auths := (tw_auths v)(a := leave_lock (tw_auths v a))\<rparr>))
        (\<lambda>e v. E e (v\<lparr>tw_auths := (tw_auths v)(a := leave_lock (tw_auths v a))\<rparr>))
        (w\<lparr>tw_auths := (tw_auths w)(a := enter_lock (tw_auths w a))\<rparr>))"
  by (simp add: with_auth_lock_def wp)

lemma leave_enter: "auth_later (enter_lock x) y \<Longrightarrow> auth_later x (leave_lock y)"
  by (auto simp: auth_later_def enter_lock_def leave_lock_def Let_def)

lemma grows_locked:
  assumes "grows (w\<lparr>tw_auths := (tw_auths w)(a := enter_lock (tw_auths w a))\<rparr>) v"
  shows "grows w (v\<lparr>tw_auths := (tw_auths v)(a := leave_lock (tw_auths v a))\<rparr>)"
  using assms by (auto simp: grows_def leave_enter split: if_splits)

lemma growing_with_auth_lock [growing_intro]: "growing m \<Longrightarrow> growing (with_auth_lock a m)"
  unfolding growing_def wp_with_auth_lock by (blast intro: wlp_mono grows_locked)

lemma growing_auth_check [growing_intro]: "growing (auth_check b a identity d)"
  by (simp add: auth_check_def growing_intro)

lemma growing_authorize [growing_intro]: "growing (auth_authorize env b a identity d)"
  unfolding auth_authorize_def authorize_grant_def binding_audit_def
  by (intro growing_intro)

lemma growing_begin_attempt [growing_intro]: "growing (begin_attempt b a identity d)"
  unfolding begin_attempt_def by (intro growing_intro) (simp add: auth_later_def)

lemma growing_revoke [growing_intro]: "growing (auth_revoke a)"
  unfolding auth_revoke_def by (intro growing_intro) (simp add: auth_later_def)

lemma growing_guards [growing_intro]:
  "growing m \<Longrightarrow> growing (commit_guard env b a identity d m)"
  "growing m \<Longrightarrow> growing (publication_guard b a identity d m)"
  unfolding commit_guard_def publication_guard_def
  by (intro growing_intro; simp add: auth_later_def)+

section \<open>What an authorization means\<close>

definition gateway_grants ::
  "create_binding \<Rightarrow> RequestIdentity \<Rightarrow> CreateSessionDescriptor \<Rightarrow> bool" where
  "gateway_grants b identity d \<longleftrightarrow>
     (\<forall>g \<in> set (transition_grants d). \<exists>r.
        b_gateway b (transition_action b identity d g) = Inr (Some r) \<and> accepts r)"

definition allow_records :: "create_binding \<Rightarrow> CreateSessionDescriptor \<Rightarrow> AuditRecord list" where
  "allow_records b d =
     map (\<lambda>(capability, operation, target). preflight_record b d capability operation ''allow'')
       (transition_grants d)"

lemma wp_exception_as [wp]:
  "wlp (exception_as other m) Q E = wlp m Q (\<lambda>e. if is_exception e then E other else E e)"
  unfolding exception_as_def wp_try_except
  by (rule arg_cong [where f = "wlp m Q"], rule ext) (simp add: wp)

lemma wp_tick [wp]: "wlp (tick env) Q E = (\<lambda>w. Q () (ticked env w))"
  by (simp add: tick_def wp)

lemma wp_auth_check [wp]:
  "wlp (auth_check b a identity d) Q E =
     (\<lambda>w. if auth_live a d w \<and> descriptor_ok b identity d then Q () w
          else E (boundary ''transition_context_invalid'') w)"
  by (rule ext) (simp add: auth_check_def wp)

lemma grant_allowed:
  "wlp (authorize_grant env b a identity d g)
     (\<lambda>_ v. (\<exists>r. b_gateway b (transition_action b identity d g) = Inr (Some r) \<and> accepts r)
        \<and> w_audit v = w_audit w @ [preflight_record b d (fst g) (fst (snd g)) ''allow''])
     (\<lambda>_ _. True) w"
  by (auto simp: authorize_grant_def binding_audit_def wp split: sum.splits option.splits)

lemma grants_allowed:
  "wlp (for_each gs (authorize_grant env b a identity d))
     (\<lambda>_ v. (\<forall>g \<in> set gs. \<exists>r. b_gateway b (transition_action b identity d g) = Inr (Some r) \<and> accepts r)
        \<and> w_audit v = w_audit w @
            map (\<lambda>(capability, operation, target). preflight_record b d capability operation ''allow'') gs)
     (\<lambda>_ _. True) w"
proof (induction gs arbitrary: w)
  case Nil
  then show ?case by (simp add: wp)
next
  case (Cons g gs)
  show ?case
    unfolding wp_for_each(2)
    by (rule wlp_mono [OF grant_allowed], rule wlp_mono [OF Cons.IH]) (auto split: prod.splits)
qed

lemma auth_live_leave:
  "auth_live a d v \<Longrightarrow> 0 < ca_depth (tw_auths v a) - 1 \<Longrightarrow>
   auth_live a d (v\<lparr>tw_auths := (tw_auths v)(a := leave_lock (tw_auths v a))\<rparr>)"
  by (auto simp: auth_live_def leave_lock_def Let_def)

lemma growing_depth:
  assumes "growing m"
  shows "wlp m (\<lambda>_ v. ca_depth (tw_auths v a) = ca_depth (tw_auths w a)) (\<lambda>_ _. True) w"
  by (rule wlp_mono [OF growingD [OF assms]]) (auto simp: grows_def auth_later_def)

lemma authorize_granted:
  "wlp (auth_authorize env b a identity d)
     (\<lambda>_ v. grows w v \<and> auth_live a d w \<and> \<not> ca_consumed (tw_auths w a) \<and> descriptor_ok b identity d
        \<and> gateway_grants b identity d \<and> w_audit v = w_audit w @ allow_records b d
        \<and> (0 < ca_depth (tw_auths w a) \<longrightarrow> auth_live a d v))
     (\<lambda>_. grows w) w"
proof -
  let ?u = "w\<lparr>tw_auths := (tw_auths w)(a := enter_lock (tw_auths w a))\<rparr>"
  let ?loop = "for_each (transition_grants d) (authorize_grant env b a identity d)"
  have loop: "growing ?loop"
    unfolding authorize_grant_def binding_audit_def by (intro growing_intro)
  have "wlp ?loop
     (\<lambda>_ v. ca_depth (tw_auths v a) = ca_depth (tw_auths ?u a) \<and> gateway_grants b identity d
        \<and> w_audit v = w_audit w @ allow_records b d) (\<lambda>_ _. True) ?u"
    by (rule wlp_mono [OF wlp_conj [THEN iffD2, OF conjI [OF growing_depth [OF loop, where a = a] grants_allowed]]])
      (auto simp: gateway_grants_def allow_records_def)
  then have "wlp (auth_authorize env b a identity d)
     (\<lambda>_ v. auth_live a d w \<and> \<not> ca_consumed (tw_auths w a) \<and> descriptor_ok b identity d
        \<and> gateway_grants b identity d \<and> w_audit v = w_audit w @ allow_records b d
        \<and> (0 < ca_depth (tw_auths w a) \<longrightarrow> auth_live a d v)) (\<lambda>_ _. True) w"
    unfolding auth_authorize_def
    by (auto simp: wp auth_live_def enter_lock_def elim!: wlp_mono)
      (auto simp: leave_lock_def Let_def)
  then show ?thesis by (rule wlp_both [OF growingD [OF growing_authorize]]) auto
qed

section \<open>The commit guard\<close>

text \<open>What the guard establishes before it runs its body.\<close>

definition guard_entered ::
  "create_binding \<Rightarrow> nat \<Rightarrow> RequestIdentity \<Rightarrow> CreateSessionDescriptor
     \<Rightarrow> 'z tworld_scheme \<Rightarrow> 'z tworld_scheme \<Rightarrow> bool" where
  "guard_entered b a identity d w u \<longleftrightarrow>
     \<not> ca_consumed (tw_auths w a) \<and> auth_live a d w \<and> descriptor_ok b identity d
     \<and> gateway_grants b identity d \<and> w_audit u = w_audit w @ allow_records b d
     \<and> ca_consumed (tw_auths u a) \<and> auth_live a d u \<and> 0 < ca_depth (tw_auths u a)
     \<and> tworld.more u = tworld.more w"

definition guard_body :: "nat \<Rightarrow> ('z tworld_scheme, 'a) py \<Rightarrow> ('z tworld_scheme, 'a) py" where
  "guard_body a body =
     try_finally (try_except body (\<lambda>e. bnd (on_auth a (\<lambda>x. x\<lparr>ca_active := False\<rparr>)) (\<lambda>_. raise e)))
       (on_auth a leave_lock)"

definition guard_entry ::
  "env \<Rightarrow> create_binding \<Rightarrow> nat \<Rightarrow> RequestIdentity \<Rightarrow> CreateSessionDescriptor \<Rightarrow> ('z tworld_scheme, unit) py" where
  "guard_entry env b a identity d =
     bnd (on_auth a enter_lock) (\<lambda>_.
     try_except
       (bnd (auth_authorize env b a identity d) (\<lambda>_. on_auth a (\<lambda>x. x\<lparr>ca_consumed := True\<rparr>)))
       (\<lambda>e. bnd (on_auth a leave_lock) (\<lambda>_. raise e)))"

lemma commit_guard_split:
  "commit_guard env b a identity d body = bnd (guard_entry env b a identity d) (\<lambda>_. guard_body a body)"
  by (rule ext)
    (simp add: commit_guard_def guard_entry_def guard_body_def with_auth_lock_def bnd_def
      try_finally_def try_except_def on_auth_def modify_def raise_def split: prod.splits sum.splits)

lemma guard_entry_entered:
  "wlp (guard_entry env b a identity d) (\<lambda>_. guard_entered b a identity d w) (\<lambda>_ _. True) w"
proof -
  let ?u = "w\<lparr>tw_auths := (tw_auths w)(a := enter_lock (tw_auths w a))\<rparr>"
  show ?thesis
    unfolding guard_entry_def wp_bnd wp_try_except wp_on_auth
    by (rule wlp_mono [OF authorize_granted [of env b a identity d ?u]])
      (auto simp: guard_entered_def enter_lock_def auth_live_def grows_def auth_later_def wp)
qed

text \<open>
  C5. One authority commits at most once, and only while it is authorized. For every state,
  either the commit guard raises without running its body, or: the authority was never consumed
  before and is now, it is live (not revoked, before its deadline, on its own thread and
  uncancelled task) at the very state in which the body starts, its descriptor names the
  binding's owner, database, route and versions, the gateway granted all three permissions
  outright and the three decisions are the last records of the audit log; and its lock is held.
\<close>

theorem commit_guard_single_use:
  "(\<exists>e v. \<forall>body :: ('z tworld_scheme, 'a) py. commit_guard env b a identity d body w = (Inl e, v))
   \<or> (\<exists>u. guard_entered b a identity d w u
        \<and> (\<forall>body :: ('z tworld_scheme, 'a) py.
             commit_guard env b a identity d body w = guard_body a body u))"
proof (cases "guard_entry env b a identity d w")
  case (Pair r u)
  show ?thesis
  proof (cases r)
    case (Inl e)
    then show ?thesis using Pair by (simp add: commit_guard_split bnd_def)
  next
    case (Inr x)
    then have "guard_entered b a identity d w u"
      using guard_entry_entered [of env b a identity d w] Pair by (auto dest: wlp_run)
    then show ?thesis using Pair Inr by (auto simp: commit_guard_split bnd_def)
  qed
qed


section \<open>Scopes of an authority close\<close>

lemma wp_new_authority [wp]:
  "wlp (new_authority b d) Q E = (\<lambda>w. Q (tw_next w) (snd (new_authority b d w)))"
  by (rule ext) (simp add: wlp_def new_authority_def)

lemma leave_inactive [simp]: "\<not> ca_active x \<Longrightarrow> \<not> ca_active (leave_lock x)"
  by (simp add: leave_lock_def Let_def)

lemma enter_fields [simp]: "ca_active (enter_lock x) = ca_active x"
  by (simp add: enter_lock_def)

text \<open>
  An authority dies with its scope. When the context manager that created it returns,
  whatever its body did (raise, keep a reference to the authority, revoke it), the authority
  is inactive, so no later use of it can pass a check, and the binding is free again.
\<close>

theorem create_scope_closes:
  assumes "authenticated_create env b identity body w = (r, v)"
    and "identity = b_owner b" and "\<not> tw_locked w"
  shows "\<not> ca_active (tw_auths v (tw_next w)) \<and> \<not> tw_locked v \<and> \<not> auth_live (tw_next w) d v"
proof -
  have "wlp (authenticated_create env b identity body)
      (\<lambda>_ v. \<not> ca_active (tw_auths v (tw_next w)) \<and> \<not> tw_locked v)
      (\<lambda>_ v. \<not> ca_active (tw_auths v (tw_next w)) \<and> \<not> tw_locked v) w"
    using assms(2,3)
    by (simp add: authenticated_create_def auth_revoke_def wp)
  from wlp_result [OF this assms(1)] show ?thesis by (auto simp: auth_live_def Let_def)
qed

section \<open>The claims at concrete inputs\<close>

definition demo_binding :: create_binding where
  "demo_binding =
     \<lparr>b_owner = \<lparr>id_actor = ''ana'', id_classification = ''internal''\<rparr>, b_instance_id = ''m1'',
      b_database = Path ''/'' [''db''], b_route_slot = ''telegram:1'', b_binding_version = 1,
      b_gateway = (\<lambda>_. Inr (Some (result_of ALLOW ''ok''))), b_sink = (\<lambda>_ _. None),
      b_timeout = 120, b_digest = (\<lambda>s. s)\<rparr>"

text \<open>Another thread revokes the first authority at the sixth step.\<close>

definition demo_env :: env where
  "demo_env =
     \<lparr>e_delay = (\<lambda>_. 0), e_revoke = (\<lambda>n. if n = 6 then Some 0 else None), e_cancel = (\<lambda>_. False),
      e_fault = (\<lambda>_. None), e_durable = (\<lambda>_. False), e_uuid = (\<lambda>n. replicate (Suc n) (CHR ''a''))\<rparr>"

definition demo_descriptor :: CreateSessionDescriptor where
  "demo_descriptor = new_descriptor demo_env demo_binding 0"

definition demo_authority :: create_authority where
  "demo_authority =
     \<lparr>ca_descriptor = demo_descriptor, ca_deadline = 220, ca_thread = 1, ca_task = Some 7,
      ca_active = True, ca_consumed = False, ca_attempted = False, ca_depth = 0, ca_waiting = False\<rparr>"

definition demo_tworld :: tworld where
  "demo_tworld =
     \<lparr>w_clock = 100, w_thread = 1, w_task = Some 7, w_leases = [], w_identity = None,
      w_session = None, w_audit = [], tw_step = 0, tw_cancelling = False,
      tw_auths = (\<lambda>_. demo_authority), tw_next = 1, tw_locked = False\<rparr>"

lemma demo_descriptor_ok: "descriptor_ok demo_binding (b_owner demo_binding) demo_descriptor"
  by (simp add: descriptor_ok_def demo_descriptor_def new_descriptor_def demo_binding_def
      demo_env_def full_class_def identifier_char_def is_alnum_def is_lower_def)

lemma demo_live: "auth_live 0 demo_descriptor demo_tworld"
  by (simp add: auth_live_def demo_tworld_def demo_authority_def)

text \<open>The state inside the guard: the authority consumed, its lock held, three steps later.\<close>

definition demo_guarded :: tworld where
  "demo_guarded = demo_tworld\<lparr>tw_step := 6,
     w_audit := allow_records demo_binding demo_descriptor,
     tw_auths := (tw_auths demo_tworld)(0 := demo_authority\<lparr>ca_consumed := True, ca_depth := 1\<rparr>)\<rparr>"

lemma demo_guard_entered:
  "guard_entered demo_binding 0 (b_owner demo_binding) demo_descriptor demo_tworld demo_guarded"
proof -
  have "gateway_grants demo_binding (b_owner demo_binding) demo_descriptor"
    by (simp add: gateway_grants_def demo_binding_def accepts_def) (simp add: result_of_def)
  then show ?thesis
    using demo_descriptor_ok demo_live
    by (simp add: guard_entered_def demo_guarded_def auth_live_def Let_def)
      (simp add: demo_tworld_def demo_authority_def)
qed


theorem create_scope_closes_witness:
  "\<exists>r v. authenticated_create demo_env demo_binding (b_owner demo_binding)
           (\<lambda>a. ret a) demo_tworld = (r, v)
         \<and> \<not> ca_active (tw_auths v 1) \<and> \<not> tw_locked v \<and> \<not> auth_live 1 demo_descriptor v"
proof -
  obtain r v where run: "authenticated_create demo_env demo_binding (b_owner demo_binding)
      (\<lambda>a. ret a) demo_tworld = (r, v)" by fastforce
  have start: "\<not> tw_locked demo_tworld" "tw_next demo_tworld = 1"
    by (simp_all add: demo_tworld_def)
  show ?thesis
    using create_scope_closes [OF run refl start(1), of demo_descriptor] run
    unfolding start(2) by blast
qed

end
