(* ===== verification/Maya_Database.thy ===== *)
theory Maya_Database
  imports Maya_Transitions "HOL-Library.Multiset"
begin

text \<open>
  The tables of the session store that the create coordinator of
  \<open>src/project_maya/hermes_plugins/session_creation.py\<close> reads and writes, with the
  keys and references of their schema, its statements as functions on them, and the
  projection of the routes (\<open>projection_bytes\<close>, \<open>_state_in_transaction\<close> without
  its input and output).
\<close>

section \<open>Tables\<close>

record session_row =
  s_id :: string
  s_source :: string
  s_user_id :: string
  s_started_at :: rat

record owner_row =
  o_session_id :: string
  o_instance_id :: string
  o_database_id :: string
  o_principal :: string
  o_classification :: string
  o_binding_version :: int
  o_lifecycle_status :: string
  o_parent :: "string option"

record route_row =
  r_slot :: string
  r_principal :: string
  r_session_id :: string
  r_version :: int
  r_correlation :: string

record transition_row =
  t_correlation :: string
  t_digest :: string
  t_principal :: string
  t_binding_version :: int
  t_operation :: string
  t_target :: string
  t_expected_version :: int
  t_result_version :: int
  t_state :: string
  t_generation :: int
  t_hash :: string
  t_decision_ref :: string

record projection_row =
  p_singleton :: int
  p_schema_version :: int
  p_instance_id :: string
  p_database_id :: string
  p_generation :: int
  p_hash :: string
  p_index_path :: string

record database =
  db_sessions :: "session_row list"
  db_owners :: "owner_row list"
  db_routes :: "route_row list"
  db_transitions :: "transition_row list"
  db_projections :: "projection_row list"

section \<open>Statements\<close>

definition integrity_error :: pyexc where
  "integrity_error = Exc SqliteError ''constraint failed''"

definition session_ids :: "database \<Rightarrow> string list" where
  "session_ids db = map s_id (db_sessions db)"

definition insert_session :: "session_row \<Rightarrow> database \<Rightarrow> database res" where
  "insert_session row db =
     bindR (requireR (s_id row \<notin> set (session_ids db)) integrity_error) (\<lambda>_.
     Inr (db\<lparr>db_sessions := db_sessions db @ [row]\<rparr>))"

definition insert_owner :: "owner_row \<Rightarrow> database \<Rightarrow> database res" where
  "insert_owner row db =
     bindR (requireR (o_session_id row \<notin> set (map o_session_id (db_owners db))
              \<and> o_session_id row \<in> set (session_ids db)
              \<and> (case o_parent row of None \<Rightarrow> True | Some p \<Rightarrow> p \<in> set (session_ids db)))
       integrity_error) (\<lambda>_.
     Inr (db\<lparr>db_owners := db_owners db @ [row]\<rparr>))"

definition insert_route :: "route_row \<Rightarrow> database \<Rightarrow> database res" where
  "insert_route row db =
     bindR (requireR (r_slot row \<notin> set (map r_slot (db_routes db))
              \<and> (r_session_id row, r_principal row)
                  \<in> set (map (\<lambda>x. (o_session_id x, o_principal x)) (db_owners db)))
       integrity_error) (\<lambda>_.
     Inr (db\<lparr>db_routes := db_routes db @ [row]\<rparr>))"

definition insert_transition :: "transition_row \<Rightarrow> database \<Rightarrow> database res" where
  "insert_transition row db =
     bindR (requireR (t_correlation row \<notin> set (map t_correlation (db_transitions db))
              \<and> t_target row \<in> set (session_ids db))
       integrity_error) (\<lambda>_.
     Inr (db\<lparr>db_transitions := db_transitions db @ [row]\<rparr>))"

text \<open>The updates return the number of rows they changed (\<open>rowcount\<close>).\<close>

definition update_projection :: "int \<Rightarrow> string \<Rightarrow> int \<Rightarrow> database \<Rightarrow> nat \<times> database" where
  "update_projection new_generation new_hash old_generation db =
     (let hit = (\<lambda>p. p_singleton p = 1 \<and> p_generation p = old_generation)
      in (length (filter hit (db_projections db)),
          db\<lparr>db_projections :=
            map (\<lambda>p. if hit p then p\<lparr>p_generation := new_generation, p_hash := new_hash\<rparr> else p)
              (db_projections db)\<rparr>))"

definition update_transition :: "string \<Rightarrow> string \<Rightarrow> string \<Rightarrow> database \<Rightarrow> nat \<times> database" where
  "update_transition correlation old_state new_state db =
     (let hit = (\<lambda>t. t_correlation t = correlation \<and> t_state t = old_state)
      in (length (filter hit (db_transitions db)),
          db\<lparr>db_transitions :=
            map (\<lambda>t. if hit t then t\<lparr>t_state := new_state\<rparr> else t) (db_transitions db)\<rparr>))"

text \<open>\<open>PRAGMA foreign_key_check\<close> finds nothing.\<close>

definition foreign_keys_ok :: "database \<Rightarrow> bool" where
  "foreign_keys_ok db \<longleftrightarrow>
     list_all (\<lambda>x. o_session_id x \<in> set (session_ids db)
        \<and> (case o_parent x of None \<Rightarrow> True | Some p \<Rightarrow> p \<in> set (session_ids db))) (db_owners db)
     \<and> list_all (\<lambda>r. (r_session_id r, r_principal r)
            \<in> set (map (\<lambda>x. (o_session_id x, o_principal x)) (db_owners db))) (db_routes db)
     \<and> list_all (\<lambda>t. t_target t \<in> set (session_ids db)) (db_transitions db)"

text \<open>Some transition is not published.\<close>

definition unfinished :: "database \<Rightarrow> bool" where
  "unfinished db \<longleftrightarrow> list_ex (\<lambda>t. t_state t \<noteq> ''published'') (db_transitions db)"

section \<open>Routes and their projection\<close>

type_synonym routes = "(string \<times> string \<times> int) list"

definition CREATE_CONTRACT :: string where
  "CREATE_CONTRACT = ''project-maya.native-session-create.v1''"

definition route_json :: "string \<times> int \<Rightarrow> string" where
  "route_json r = json_object [(''session_id'', json_str (fst r)), (''version'', show_int (snd r))]"

definition projection_bytes :: "string \<Rightarrow> string \<Rightarrow> int \<Rightarrow> routes \<Rightarrow> string" where
  "projection_bytes inst database_id generation routes =
     json_object
       [(''contract'', json_str CREATE_CONTRACT),
        (''database'', json_str database_id),
        (''generation'', show_int generation),
        (''instance_id'', json_str inst),
        (''routes'', json_object (map (\<lambda>(slot, r). (slot, route_json r)) (sort_key fst routes)))]
     @ [char_of (10 :: nat)]"

text \<open>
  The join of routes with active owners, in the order of their slots. A slot is the primary
  key of its table and a session that of its, so the join has one row per slot.
\<close>

definition active_route :: "database \<Rightarrow> route_row \<Rightarrow> bool" where
  "active_route db r \<longleftrightarrow>
     list_ex (\<lambda>x. o_session_id x = r_session_id r \<and> o_principal x = r_principal r
                \<and> o_lifecycle_status x = ''active'') (db_owners db)"

definition active_routes :: "database \<Rightarrow> routes" where
  "active_routes db =
     sort_key fst (map (\<lambda>r. (r_slot r, r_session_id r, r_version r))
       (filter (active_route db) (db_routes db)))"

section \<open>The coordinator\<close>

datatype file_kind = Missing | Directory | Regular | Link

text \<open>
  What \<open>CandidateNativeSessionCreate\<close> is bound to, and what it finds outside the
  database: the kind of each path at each step, resolved paths, wall-clock time, the
  version of the lock library, whether the middleware of the runtime validates, and the
  setting of \<open>PRAGMA foreign_keys\<close>.
\<close>

record coordinator =
  c_binding :: create_binding
  c_directory :: path
  c_db_path :: path
  c_files :: "nat \<Rightarrow> path \<Rightarrow> file_kind"
  c_resolve :: "nat \<Rightarrow> path \<Rightarrow> path res"
  c_wall :: "nat \<Rightarrow> rat"
  c_lock_qualified :: bool
  c_middleware :: bool
  c_foreign_keys :: bool

abbreviation child :: "path \<Rightarrow> string \<Rightarrow> path" where
  "child p name \<equiv> Path (path_root p) (path_parts p @ [name])"

definition c_index :: "coordinator \<Rightarrow> path" where
  "c_index co = child (c_directory co) ''sessions.json''"

definition c_lockfile :: "coordinator \<Rightarrow> path" where
  "c_lockfile co = child (c_directory co) ''maya-session-projection.lock''"

abbreviation store_invalid :: pyexc where
  "store_invalid \<equiv> boundary ''transition_store_invalid''"

text \<open>The checks of \<open>_state_in_transaction\<close> on the tables, in the order of the code.\<close>

definition projection_of :: "database \<Rightarrow> projection_row option" where
  "projection_of db = find (\<lambda>p. p_singleton p = 1 \<and> p_schema_version p = 1) (db_projections db)"

definition projection_bound :: "coordinator \<Rightarrow> projection_row \<Rightarrow> bool" where
  "projection_bound co p \<longleftrightarrow>
     p_instance_id p = b_instance_id (c_binding co)
     \<and> p_database_id p = path_str (b_database (c_binding co))
     \<and> p_index_path p = path_str (c_index co)"

definition orphan_session :: "database \<Rightarrow> bool" where
  "orphan_session db \<longleftrightarrow>
     list_ex (\<lambda>s. s_id s \<notin> set (map o_session_id (db_owners db))) (db_sessions db)"

definition foreign_owner :: "coordinator \<Rightarrow> database \<Rightarrow> bool" where
  "foreign_owner co db \<longleftrightarrow>
     (let b = c_binding co
      in list_ex (\<lambda>x. o_principal x \<noteq> id_actor (b_owner b) \<or> o_instance_id x \<noteq> b_instance_id b
           \<or> o_database_id x \<noteq> path_str (b_database b) \<or> o_binding_version x \<noteq> b_binding_version b
           \<or> o_classification x \<noteq> id_classification (b_owner b)) (db_owners db))"

definition state_bytes :: "projection_row \<Rightarrow> routes \<Rightarrow> string" where
  "state_bytes p routes = projection_bytes (p_instance_id p) (p_database_id p) (p_generation p) routes"

text \<open>
  What \<open>_state_in_transaction\<close> returns on a database, when nothing fails: generation,
  routes and the bytes the index file should hold.
\<close>

definition store_state :: "coordinator \<Rightarrow> database \<Rightarrow> (int \<times> routes \<times> string) option" where
  "store_state co db =
     (case projection_of db of
        None \<Rightarrow> None
      | Some p \<Rightarrow>
          (let routes = active_routes db; raw = state_bytes p routes
           in if projection_bound co p \<and> length (db_projections db) = 1 \<and> foreign_keys_ok db
                 \<and> \<not> orphan_session db \<and> \<not> foreign_owner co db
                 \<and> length routes = length (db_routes db)
                 \<and> b_digest (c_binding co) raw = p_hash p
              then Some (p_generation p, routes, raw) else None))"

section \<open>The rows of a new session\<close>

definition new_session :: "create_binding \<Rightarrow> CreateSessionDescriptor \<Rightarrow> rat \<Rightarrow> session_row" where
  "new_session b d started =
     \<lparr>s_id = d_target_session d, s_source = ''maya-governed-candidate'',
      s_user_id = id_actor (b_owner b), s_started_at = started\<rparr>"

definition new_owner :: "CreateSessionDescriptor \<Rightarrow> owner_row" where
  "new_owner d =
     \<lparr>o_session_id = d_target_session d, o_instance_id = d_instance_id d,
      o_database_id = d_database d, o_principal = d_principal d,
      o_classification = d_classification d, o_binding_version = d_binding_version d,
      o_lifecycle_status = ''active'', o_parent = None\<rparr>"

definition new_route :: "CreateSessionDescriptor \<Rightarrow> route_row" where
  "new_route d =
     \<lparr>r_slot = d_route_slot d, r_principal = d_principal d, r_session_id = d_target_session d,
      r_version = 1, r_correlation = d_correlation_id d\<rparr>"

definition new_transition ::
  "create_binding \<Rightarrow> CreateSessionDescriptor \<Rightarrow> int \<Rightarrow> string \<Rightarrow> transition_row" where
  "new_transition b d generation raw =
     \<lparr>t_correlation = d_correlation_id d, t_digest = descriptor_digest b d,
      t_principal = d_principal d, t_binding_version = d_binding_version d,
      t_operation = ''create'', t_target = d_target_session d, t_expected_version = 0,
      t_result_version = 1, t_state = ''committed_pending_projection'',
      t_generation = generation, t_hash = b_digest b raw,
      t_decision_ref = hash_ref b (d_correlation_id d)\<rparr>"

section \<open>The new rows pass the checks of the next reader\<close>

text \<open>The database with the rows of a create, the generation moved on.\<close>

definition created_db ::
  "create_binding \<Rightarrow> CreateSessionDescriptor \<Rightarrow> rat \<Rightarrow> int \<Rightarrow> string \<Rightarrow> database \<Rightarrow> database" where
  "created_db b d started generation raw db =
     \<lparr>db_sessions = db_sessions db @ [new_session b d started],
      db_owners = db_owners db @ [new_owner d],
      db_routes = db_routes db @ [new_route d],
      db_transitions = db_transitions db @ [new_transition b d (generation + 1) raw],
      db_projections =
        map (\<lambda>p. if p_singleton p = 1 \<and> p_generation p = generation
                 then p\<lparr>p_generation := generation + 1, p_hash := b_digest b raw\<rparr> else p)
          (db_projections db)\<rparr>"

lemma assoc_put_new: "k \<notin> fst ` set xs \<Longrightarrow> assoc_put k v xs = xs @ [(k, v)]"
  by (induction k v xs rule: assoc_put.induct) auto

lemma sort_key_filter: "filter (\<lambda>x. k = f x) (sort_key f xs) = filter (\<lambda>x. k = f x) xs"
proof -
  have "(\<lambda>x. k = f x) = (\<lambda>x. f x = k)" by auto
  then show ?thesis using sort_key_stable [of f k xs] by simp
qed

lemma sort_key_sorted_prefix:
  "sort_key f (sort_key f xs @ ys) = sort_key f (xs @ ys)"
  by (rule properties_for_sort_key) (auto simp: sort_key_filter)

lemma projection_bytes_sorted [simp]:
  "projection_bytes i db g (sort_key fst routes) = projection_bytes i db g routes"
  using sort_key_sorted_prefix [of fst routes "[]"] by (simp add: projection_bytes_def)

lemma length_filter_all: "length (filter P xs) = length xs \<longleftrightarrow> list_all P xs"
proof (induction xs)
  case (Cons x xs)
  then show ?case
    using length_filter_le [of P xs] by (cases "P x") (auto simp del: length_filter_le)
qed simp

lemma length_active_routes:
  "length (active_routes db) = length (db_routes db) \<longleftrightarrow> list_all (active_route db) (db_routes db)"
  by (simp add: active_routes_def length_filter_all)

lemma active_routes_all:
  "list_all (active_route db) (db_routes db) \<Longrightarrow>
   active_routes db = sort_key fst (map (\<lambda>r. (r_slot r, r_session_id r, r_version r)) (db_routes db))"
  by (simp add: active_routes_def list_all_iff filter_id_conv [THEN iffD2])

lemma active_route_mono:
  "active_route db r \<Longrightarrow> set (db_owners db) \<subseteq> set (db_owners db') \<Longrightarrow> active_route db' r"
  by (auto simp: active_route_def list_ex_iff)

lemma list_ex_append_iff [simp]: "list_ex P (xs @ ys) \<longleftrightarrow> list_ex P xs \<or> list_ex P ys"
  by (induction xs) auto

text \<open>
  A create leaves tables that its own verification, and that of every later create or reader,
  accepts: the next state has the new route and exactly the bytes that are published.
\<close>

lemma created_state:
  assumes state: "store_state co db = Some (generation, routes, old_raw)"
    and b: "b = c_binding co" and ok: "descriptor_ok b (b_owner b) d"
    and slot: "d_route_slot d \<notin> fst ` set routes"
    and raw: "raw = projection_bytes (b_instance_id b) (path_str (b_database b)) (generation + 1)
                      (assoc_put (d_route_slot d) (d_target_session d, 1) routes)"
  shows "store_state co (created_db b d started generation raw db) =
           Some (generation + 1, active_routes (created_db b d started generation raw db), raw)"
proof -
  let ?new = "created_db b d started generation raw db"
  obtain p where p: "projection_of db = Some p" "projection_bound co p" "length (db_projections db) = 1"
    "foreign_keys_ok db" "\<not> orphan_session db" "\<not> foreign_owner co db" "p_generation p = generation"
    "routes = active_routes db" "length routes = length (db_routes db)"
    using state by (auto simp: store_state_def Let_def split: option.splits if_splits)
  have rows: "db_projections db = [p]" "p_singleton p = 1" "p_schema_version p = 1"
    using p(1,3) by (auto simp: projection_of_def length_Suc_conv split: if_splits)
  let ?p = "p\<lparr>p_generation := generation + 1, p_hash := b_digest b raw\<rparr>"
  have np: "db_projections ?new = [?p]" "projection_of ?new = Some ?p"
    using rows p(7) by (simp_all add: created_db_def projection_of_def)
  have all: "list_all (active_route db) (db_routes db)"
    using p(8,9) by (simp add: length_active_routes)
  have all': "list_all (active_route ?new) (db_routes ?new)"
  proof -
    have "active_route ?new r" if "r \<in> set (db_routes db)" for r
      using all that by (auto simp: list_all_iff created_db_def intro: active_route_mono)
    moreover have "active_route ?new (new_route d)"
      by (simp add: active_route_def created_db_def new_route_def new_owner_def)
    ultimately show ?thesis by (auto simp: created_db_def list_all_iff)
  qed
  have fk: "foreign_keys_ok ?new"
    using p(4) by (auto simp: foreign_keys_ok_def created_db_def session_ids_def list_all_iff
        new_session_def new_owner_def new_route_def new_transition_def split: option.splits)
  have orphan: "\<not> orphan_session ?new"
    using p(5) by (auto simp: orphan_session_def created_db_def list_ex_iff new_session_def new_owner_def)
  have foreign: "\<not> foreign_owner co ?new"
    using p(6) ok b by (simp add: foreign_owner_def created_db_def Let_def new_owner_def descriptor_ok_def)
  let ?rows = "map (\<lambda>r. (r_slot r, r_session_id r, r_version r)) (db_routes db)"
  have "assoc_put (d_route_slot d) (d_target_session d, 1) routes =
      sort_key fst ?rows @ [(d_route_slot d, d_target_session d, 1)]"
    using slot active_routes_all [OF all] by (simp add: assoc_put_new p(8))
  then have "raw = projection_bytes (b_instance_id b) (path_str (b_database b)) (generation + 1)
      (sort_key fst ?rows @ [(d_route_slot d, d_target_session d, 1)])"
    using raw by simp
  also have "\<dots> = projection_bytes (b_instance_id b) (path_str (b_database b)) (generation + 1)
      (sort_key fst (sort_key fst ?rows @ [(d_route_slot d, d_target_session d, 1)]))"
    by simp
  also have "sort_key fst (sort_key fst ?rows @ [(d_route_slot d, d_target_session d, 1)]) = active_routes ?new"
    using active_routes_all [OF all']
    by (simp add: sort_key_sorted_prefix) (simp add: created_db_def new_route_def)
  finally have bytes: "state_bytes ?p (active_routes ?new) = raw"
    using p(2) b by (simp add: state_bytes_def projection_bound_def)
  show ?thesis
    using np fk orphan foreign bytes all' p(2) b
    by (simp add: store_state_def projection_bound_def length_active_routes)
qed

end
