(* ===== verification/Maya_Creation.thy ===== *)
theory Maya_Creation
  imports Maya_Database
begin

text \<open>
  \<open>CandidateNativeSessionCreate\<close> of
  \<open>src/project_maya/hermes_plugins/session_creation.py\<close>: one session is created in a
  database transaction, the routes are projected into an index file, and the transition is
  marked published only when both agree. Any operation may fail at any step, a commit may
  fail after it became durable, and an exception of any class may strike.
\<close>

section \<open>State\<close>

text \<open>
  The durable database, the working copy of an open transaction, the index file, and the
  two local flags of \<open>create\<close>.
\<close>

record cstate =
  cs_db :: database
  cs_tx :: "database option"
  cs_index :: "string option"
  cs_committed :: bool
  cs_attempted :: bool

record store = tworld +
  cs :: cstate

definition current :: "cstate \<Rightarrow> database" where
  "current s = (case cs_tx s of None \<Rightarrow> cs_db s | Some d \<Rightarrow> d)"

definition on_cs :: "(cstate \<Rightarrow> cstate) \<Rightarrow> ('z store_scheme, unit) py" where
  "on_cs f = modify (\<lambda>w. w\<lparr>cs := f (cs w)\<rparr>)"

section \<open>Database operations\<close>

definition query :: "env \<Rightarrow> (database \<Rightarrow> 'a) \<Rightarrow> ('z store_scheme, 'a) py" where
  "query env f = bnd (io env) (\<lambda>_. gets (\<lambda>w. f (current (cs w))))"

definition execute :: "env \<Rightarrow> (database \<Rightarrow> database res) \<Rightarrow> ('z store_scheme, unit) py" where
  "execute env f =
     bnd (query env f) (\<lambda>r.
     bnd (lift r) (\<lambda>d.
     on_cs (\<lambda>s. s\<lparr>cs_tx := Some d\<rparr>)))"

definition execute_count :: "env \<Rightarrow> (database \<Rightarrow> nat \<times> database) \<Rightarrow> ('z store_scheme, nat) py" where
  "execute_count env f =
     bnd (query env f) (\<lambda>r.
     bnd (on_cs (\<lambda>s. s\<lparr>cs_tx := Some (snd r)\<rparr>)) (\<lambda>_.
     ret (fst r)))"

text \<open>\<open>BEGIN IMMEDIATE\<close>.\<close>

definition begin_tx :: "env \<Rightarrow> ('z store_scheme, unit) py" where
  "begin_tx env =
     bnd (io env) (\<lambda>_.
     bnd (gets (\<lambda>w. cs_tx (cs w))) (\<lambda>t.
     bnd (require (t = None) (Exc SqliteError ''cannot start a transaction within a transaction'')) (\<lambda>_.
     on_cs (\<lambda>s. s\<lparr>cs_tx := Some (cs_db s)\<rparr>))))"

definition make_durable :: "cstate \<Rightarrow> cstate" where
  "make_durable s = s\<lparr>cs_db := current s, cs_tx := None\<rparr>"

definition commit_tx :: "env \<Rightarrow> ('z store_scheme, unit) py" where
  "commit_tx env =
     bnd (gets tw_step) (\<lambda>n.
     try_except (bnd (io env) (\<lambda>_. on_cs make_durable))
       (\<lambda>e. bnd (if e_durable env n then on_cs make_durable else ret ()) (\<lambda>_. raise e)))"

definition rollback_tx :: "env \<Rightarrow> ('z store_scheme, unit) py" where
  "rollback_tx env = bnd (io env) (\<lambda>_. on_cs (\<lambda>s. s\<lparr>cs_tx := None\<rparr>))"

text \<open>\<open>except BaseException: conn.rollback(); raise\<close>.\<close>

definition or_rollback :: "env \<Rightarrow> ('z store_scheme, 'a) py \<Rightarrow> ('z store_scheme, 'a) py" where
  "or_rollback env m = try_except m (\<lambda>e. bnd (rollback_tx env) (\<lambda>_. raise e))"

section \<open>Paths and the projection lock\<close>

text \<open>\<open>_safe_path\<close> on the files of one moment: no link on the way.\<close>

definition path_unsafe :: pyexc where
  "path_unsafe = boundary ''transition_path_unsafe''"

definition safe_path :: "(path \<Rightarrow> file_kind) \<Rightarrow> path \<Rightarrow> path res" where
  "safe_path fs p =
     bindR (requireR (take 2 (path_str p) \<noteq> [char_of (92 :: nat), char_of (92 :: nat)]
              \<and> (\<forall>n \<in> set [0 ..< Suc (length (path_parts p))].
                   fs (Path (path_root p) (take n (path_parts p))) \<noteq> Link)) path_unsafe) (\<lambda>_.
     Inr p)"

definition paths_valid :: "coordinator \<Rightarrow> nat \<Rightarrow> unit res" where
  "paths_valid co n =
     (let fs = c_files co n
      in bindR (safe_path fs (c_directory co)) (\<lambda>d.
         bindR (requireR (fs d = Directory) store_invalid) (\<lambda>_.
         bindR (safe_path fs (c_db_path co)) (\<lambda>p.
         bindR (c_resolve co n p) (\<lambda>q.
         bindR (requireR (q = b_database (c_binding co)) store_invalid) (\<lambda>_.
         bindR (safe_path fs (c_index co)) (\<lambda>i.
         bindR (requireR (fs i = Regular) store_invalid) (\<lambda>_.
         bindR (safe_path fs (c_lockfile co)) (\<lambda>l.
         requireR (fs l = Regular) store_invalid)))))))))"

definition validate_paths :: "env \<Rightarrow> coordinator \<Rightarrow> ('z store_scheme, unit) py" where
  "validate_paths env co =
     bnd (gets tw_step) (\<lambda>n.
     bnd (tick env) (\<lambda>_.
     lift (paths_valid co n)))"

definition exclusive :: "env \<Rightarrow> coordinator \<Rightarrow> ('z store_scheme, 'a) py \<Rightarrow> ('z store_scheme, 'a) py" where
  "exclusive env co body =
     try_except
       (bnd (io env) (\<lambda>_.
        bnd (require (c_lock_qualified co) (boundary ''transition_lock_unqualified'')) (\<lambda>_.
        bnd (validate_paths env co) (\<lambda>_.
        bnd (io env) (\<lambda>_.
        try_finally (bnd (validate_paths env co) (\<lambda>_. body)) (io env))))))
       (\<lambda>e. if is_boundary e then raise e
            else if exc_class_of e = PyImportError then raise (boundary ''transition_lock_unavailable'')
            else if exc_class_of e = LockException then raise (boundary ''transition_busy'')
            else raise e)"

section \<open>The state of the store\<close>

definition state_in_transaction :: "env \<Rightarrow> coordinator \<Rightarrow> ('z store_scheme, int \<times> routes \<times> string) py" where
  "state_in_transaction env co =
     bnd (query env projection_of) (\<lambda>row.
     case row of
       None \<Rightarrow> raise store_invalid
     | Some p \<Rightarrow>
         bnd (require (projection_bound co p) store_invalid) (\<lambda>_.
         bnd (query env (\<lambda>db. length (db_projections db))) (\<lambda>count.
         bnd (require (count = 1) store_invalid) (\<lambda>_.
         bnd (query env foreign_keys_ok) (\<lambda>fk.
         bnd (require fk store_invalid) (\<lambda>_.
         bnd (query env orphan_session) (\<lambda>orphan.
         bnd (require (\<not> orphan) (boundary ''transition_owner_unknown'')) (\<lambda>_.
         bnd (query env (foreign_owner co)) (\<lambda>foreign.
         bnd (require (\<not> foreign) (boundary ''transition_owner_mismatch'')) (\<lambda>_.
         bnd (query env active_routes) (\<lambda>routes.
         bnd (query env (\<lambda>db. length (db_routes db))) (\<lambda>total.
         bnd (require (length routes = total) store_invalid) (\<lambda>_.
         let raw = state_bytes p routes
         in bnd (require (b_digest (c_binding co) raw = p_hash p)
                   (boundary ''transition_projection_invalid'')) (\<lambda>_.
            ret (p_generation p, routes, raw)))))))))))))))"

definition store_state_check :: "env \<Rightarrow> coordinator \<Rightarrow> ('z store_scheme, int \<times> routes \<times> string) py" where
  "store_state_check env co =
     bnd (gets (\<lambda>w. cs_tx (cs w))) (\<lambda>t.
     bnd (require (t = None) store_invalid) (\<lambda>_.
     bnd (query env (\<lambda>_. c_foreign_keys co)) (\<lambda>fk.
     bnd (require fk store_invalid) (\<lambda>_.
     state_in_transaction env co))))"

section \<open>Publishing the index\<close>

text \<open>\<open>index.read_bytes()\<close>.\<close>

definition read_index :: "env \<Rightarrow> ('z store_scheme, string) py" where
  "read_index env =
     bnd (io env) (\<lambda>_.
     bnd (gets (\<lambda>w. cs_index (cs w))) (\<lambda>i.
     case i of None \<Rightarrow> raise (Exc PyOSError ''no such file'') | Some raw \<Rightarrow> ret raw))"

text \<open>
  \<open>_publish\<close>: the bytes go to a new file (created, written, synced), which replaces the
  index; until the replacement has happened, leaving removes that file.
\<close>

definition publish :: "env \<Rightarrow> coordinator \<Rightarrow> string \<Rightarrow> ('z store_scheme, unit) py" where
  "publish env co raw =
     bnd (validate_paths env co) (\<lambda>_.
     bnd (io env) (\<lambda>_.
     bnd (try_except
            (bnd (io env) (\<lambda>_.
             bnd (io env) (\<lambda>_.
             bnd (validate_paths env co) (\<lambda>_.
             io env))))
            (\<lambda>e. bnd (io env) (\<lambda>_. raise e))) (\<lambda>_.
     bnd (on_cs (\<lambda>s. s\<lparr>cs_index := Some raw\<rparr>)) (\<lambda>_.
     bnd (read_index env) (\<lambda>found.
     require (found = raw) (boundary ''transition_projection_invalid''))))))"

section \<open>The create operation\<close>

definition insert_rows ::
  "env \<Rightarrow> coordinator \<Rightarrow> CreateSessionDescriptor \<Rightarrow> int \<Rightarrow> string \<Rightarrow> ('z store_scheme, unit) py" where
  "insert_rows env co d generation raw =
     (let b = c_binding co
      in bnd (gets tw_step) (\<lambda>n.
         bnd (execute env (insert_session (new_session b d (c_wall co n)))) (\<lambda>_.
         bnd (execute env (insert_owner (new_owner d))) (\<lambda>_.
         bnd (execute env (insert_route (new_route d))) (\<lambda>_.
         bnd (execute env (insert_transition (new_transition b d (generation + 1) raw))) (\<lambda>_.
         bnd (execute_count env (update_projection (generation + 1) (b_digest b raw) generation)) (\<lambda>changed.
         require (changed = 1) (boundary ''transition_stale''))))))))"

definition prepare ::
  "env \<Rightarrow> coordinator \<Rightarrow> CreateSessionDescriptor \<Rightarrow> int \<Rightarrow> string \<Rightarrow> ('z store_scheme, string) py" where
  "prepare env co d generation old_raw =
     bnd (state_in_transaction env co) (\<lambda>(found, routes, raw).
     bnd (require (found = generation \<and> raw = old_raw \<and> d_route_slot d \<notin> fst ` set routes)
       (boundary ''transition_stale'')) (\<lambda>_.
     bnd (query env (\<lambda>db. list_ex (\<lambda>t. t_correlation t = d_correlation_id d) (db_transitions db))) (\<lambda>seen.
     bnd (require (\<not> seen) (boundary ''transition_replay'')) (\<lambda>_.
     let b = c_binding co;
         new_raw = projection_bytes (b_instance_id b) (path_str (b_database b)) (generation + 1)
                     (assoc_put (d_route_slot d) (d_target_session d, 1) routes)
     in bnd (insert_rows env co d generation new_raw) (\<lambda>_.
        ret new_raw)))))"

definition commit_rows ::
  "env \<Rightarrow> coordinator \<Rightarrow> nat \<Rightarrow> CreateSessionDescriptor \<Rightarrow> int \<Rightarrow> string \<Rightarrow> ('z store_scheme, string) py" where
  "commit_rows env co a d generation old_raw =
     bnd (begin_tx env) (\<lambda>_.
     or_rollback env
       (bnd (prepare env co d generation old_raw) (\<lambda>raw.
        bnd (commit_guard env (c_binding co) a (b_owner (c_binding co)) d
               (bnd (on_cs (\<lambda>s. s\<lparr>cs_attempted := True\<rparr>)) (\<lambda>_. commit_tx env))) (\<lambda>_.
        bnd (on_cs (\<lambda>s. s\<lparr>cs_committed := True\<rparr>)) (\<lambda>_.
        ret raw)))))"

text \<open>The durable tables and the index file say the same, in an open transaction.\<close>

definition projection_agrees :: "env \<Rightarrow> coordinator \<Rightarrow> int \<Rightarrow> string \<Rightarrow> ('z store_scheme, unit) py" where
  "projection_agrees env co generation raw =
     bnd (state_in_transaction env co) (\<lambda>(found, _, found_raw).
     bnd (require (found = generation + 1 \<and> found_raw = raw) (boundary ''transition_projection_invalid'')) (\<lambda>_.
     bnd (read_index env) (\<lambda>bytes.
     require (bytes = raw) (boundary ''transition_projection_invalid''))))"

definition verify_projection ::
  "env \<Rightarrow> coordinator \<Rightarrow> nat \<Rightarrow> CreateSessionDescriptor \<Rightarrow> int \<Rightarrow> string \<Rightarrow> ('z store_scheme, unit) py" where
  "verify_projection env co a d generation raw =
     bnd (begin_tx env) (\<lambda>_.
     or_rollback env
       (bnd (projection_agrees env co generation raw) (\<lambda>_.
        bnd (auth_check (c_binding co) a (b_owner (c_binding co)) d) (\<lambda>_.
        bnd (execute_count env (update_transition (d_correlation_id d)
               ''committed_pending_projection'' ''projection_verified'')) (\<lambda>_.
        commit_tx env)))))"

definition outcome_record :: "create_binding \<Rightarrow> CreateSessionDescriptor \<Rightarrow> AuditRecord" where
  "outcome_record b d =
     \<lparr>aud_event_type = ''outcome.session_transition'', aud_decision = ''allow'',
      aud_reason_code = ''governance.transition_published'', aud_actor_id = id_actor (b_owner b),
      aud_capability = ''session.transition'', aud_target = hash_ref b (d_route_slot d),
      aud_operation = ''create'', aud_classification = id_classification (b_owner b),
      aud_idempotency_key = Some (hash_ref b (d_correlation_id d)),
      aud_metadata = [(''contract'', CREATE_CONTRACT), (''qualification'', ''source_candidate_only'')]\<rparr>"

definition finish_transition ::
  "env \<Rightarrow> coordinator \<Rightarrow> CreateSessionDescriptor \<Rightarrow> int \<Rightarrow> string \<Rightarrow> ('z store_scheme, unit) py" where
  "finish_transition env co d generation raw =
     bnd (begin_tx env) (\<lambda>_.
     or_rollback env
       (bnd (projection_agrees env co generation raw) (\<lambda>_.
        bnd (execute_count env (update_transition (d_correlation_id d)
               ''projection_verified'' ''published'')) (\<lambda>changed.
        bnd (require (changed = 1) (boundary ''transition_recovery_required'')) (\<lambda>_.
        commit_tx env)))))"

record receipt =
  rc_session_id :: string
  rc_correlation_id :: string
  rc_state :: string
  rc_qualification :: string
  rc_dispatch_allowed :: bool

definition receipt_of :: "CreateSessionDescriptor \<Rightarrow> receipt" where
  "receipt_of d =
     \<lparr>rc_session_id = d_target_session d, rc_correlation_id = d_correlation_id d,
      rc_state = ''published'', rc_qualification = ''source_candidate_only'',
      rc_dispatch_allowed = False\<rparr>"

text \<open>The steps of \<open>create\<close> after its commit, and those under the locks.\<close>

definition publish_created ::
  "env \<Rightarrow> coordinator \<Rightarrow> nat \<Rightarrow> CreateSessionDescriptor \<Rightarrow> int \<Rightarrow> string \<Rightarrow> ('z store_scheme, receipt) py" where
  "publish_created env co a d generation raw =
     (let b = c_binding co; owner = b_owner b
      in bnd (publication_guard b a owner d (publish env co raw)) (\<lambda>_.
         bnd (verify_projection env co a d generation raw) (\<lambda>_.
         bnd (exception_as (boundary ''transition_audit_pending'')
                (bnd (tick env) (\<lambda>_. sink_write (b_sink b) (outcome_record b d)))) (\<lambda>_.
         bnd (publication_guard b a owner d (finish_transition env co d generation raw)) (\<lambda>_.
         ret (receipt_of d))))))"

definition locked_create ::
  "env \<Rightarrow> coordinator \<Rightarrow> nat \<Rightarrow> CreateSessionDescriptor \<Rightarrow> ('z store_scheme, receipt) py" where
  "locked_create env co a d =
     bnd (auth_authorize env (c_binding co) a (b_owner (c_binding co)) d) (\<lambda>_.
     bnd (store_state_check env co) (\<lambda>(generation, _, old_raw).
     bnd (read_index env) (\<lambda>bytes.
     bnd (if bytes \<noteq> old_raw then ret True else query env unfinished) (\<lambda>recovery.
     bnd (require (\<not> recovery) (boundary ''transition_recovery_required'')) (\<lambda>_.
     bnd (commit_rows env co a d generation old_raw) (\<lambda>raw.
     publish_created env co a d generation raw))))))"

text \<open>
  \<open>create('z store_scheme, authority)\<close>; \<open>c_middleware\<close> stands for the checks that the store,
  its database and this coordinator belong together and the runtime middleware validates.
\<close>

definition create :: "env \<Rightarrow> coordinator \<Rightarrow> nat \<Rightarrow> ('z store_scheme, receipt) py" where
  "create env co a =
     bnd (require (c_middleware co) (boundary ''transition_context_invalid'')) (\<lambda>_.
     bnd (gets (\<lambda>w. ca_descriptor (tw_auths w a))) (\<lambda>d.
     bnd (on_cs (\<lambda>s. s\<lparr>cs_committed := False, cs_attempted := False\<rparr>)) (\<lambda>_.
     try_except
       (bnd (begin_attempt (c_binding co) a (b_owner (c_binding co)) d) (\<lambda>_.
        exclusive env co (locked_create env co a d)))
       (\<lambda>e. if is_boundary e then raise e
            else if is_exception e then
              bnd (gets (\<lambda>w. cs_committed (cs w) \<or> cs_attempted (cs w))) (\<lambda>late.
              raise (boundary (if late then ''transition_recovery_required'' else ''transition_store_failed'')))
            else raise e))))"

end
