(* ===== verification/Maya_Publication.thy ===== *)
theory Maya_Publication
  imports Maya_Creation
begin

text \<open>
  What a create may leave behind: nothing, or all of its rows, with the index file and the
  recorded state of the transition telling how far the publication went.
\<close>

section \<open>Runs seen from the store\<close>

text \<open>
  The outcomes of a computation as predicates of the store alone, for every clock, every
  authority and every environment.
\<close>

definition rn ::
  "('z store_scheme, 'a) py \<Rightarrow> ('a \<Rightarrow> cstate \<Rightarrow> bool) \<Rightarrow> (pyexc \<Rightarrow> cstate \<Rightarrow> bool) \<Rightarrow> cstate \<Rightarrow> bool" where
  "rn m Q E s \<longleftrightarrow> (\<forall>w. cs w = s \<longrightarrow> wlp m (\<lambda>a v. Q a (cs v)) (\<lambda>e v. E e (cs v)) w)"

text \<open>
  Errors of the operating system and of the database are not Maya's own boundary errors.
\<close>

definition foreign_errors :: "env \<Rightarrow> coordinator \<Rightarrow> bool" where
  "foreign_errors env co \<longleftrightarrow>
     (\<forall>n e. e_fault env n = Some e \<longrightarrow> \<not> is_boundary e)
     \<and> (\<forall>n p e. c_resolve co n p = Inl e \<longrightarrow> \<not> is_boundary e)"

abbreviation store_failed :: pyexc where
  "store_failed \<equiv> boundary ''transition_store_failed''"

lemma foreign_fault:
  assumes "foreign_errors env co" and "e_fault env n = Some e"
  shows "e \<noteq> store_failed"
proof -
  have "\<not> is_boundary e" using assms unfolding foreign_errors_def by blast
  then show ?thesis by auto
qed

lemma foreign_resolve: "foreign_errors env co \<Longrightarrow> c_resolve co n p \<noteq> Inl store_failed"
proof
  assume "foreign_errors env co" and "c_resolve co n p = Inl store_failed"
  then have "\<not> is_boundary store_failed" unfolding foreign_errors_def by blast
  then show False by simp
qed

lemma same_more: "tworld.more v = tworld.more w \<Longrightarrow> cs v = cs w"
  for v w :: "'z store_scheme"
  by (cases v, cases w) simp

lemma cs_ticked [simp]: "cs (ticked env w) = cs w"
  for w :: "'z store_scheme"
  by (rule same_more) simp

named_theorems rn_intro "how the outcomes of a computation follow from those of its parts"

lemma rn_mono:
  "rn m Q E s \<Longrightarrow> (\<And>a t. Q a t \<Longrightarrow> Q' a t) \<Longrightarrow> (\<And>e t. E e t \<Longrightarrow> E' e t) \<Longrightarrow> rn m Q' E' s"
  unfolding rn_def by (blast intro: wlp_mono)

lemma rn_ret [rn_intro]: "Q a s \<Longrightarrow> rn (ret a) Q E s"
  by (simp add: rn_def wp)

lemma rn_raise [rn_intro]: "E e s \<Longrightarrow> rn (raise e) Q E s"
  by (simp add: rn_def wp)

lemma rn_require [rn_intro]: "(c \<Longrightarrow> Q () s) \<Longrightarrow> (\<not> c \<Longrightarrow> E e s) \<Longrightarrow> rn (require c e) Q E s"
  by (simp add: rn_def wp)

lemma rn_lift [rn_intro]:
  "(\<And>a. r = Inr a \<Longrightarrow> Q a s) \<Longrightarrow> (\<And>e. r = Inl e \<Longrightarrow> E e s) \<Longrightarrow> rn (lift r) Q E s"
  by (auto simp: rn_def wp split: sum.splits)

lemma rn_bnd [rn_intro]: "rn m (\<lambda>a. rn (f a) Q E) E s \<Longrightarrow> rn (bnd m f) Q E s"
  unfolding rn_def wp_bnd by (blast intro: wlp_mono)

lemma rn_try_except [rn_intro]: "rn m Q (\<lambda>e. rn (h e) Q E) s \<Longrightarrow> rn (try_except m h) Q E s"
  unfolding rn_def wp_try_except by (blast intro: wlp_mono)

lemma rn_try_finally:
  "rn m (\<lambda>a. rn f (\<lambda>_. Q a) E) (\<lambda>e. rn f (\<lambda>_. E e) E) s \<Longrightarrow> rn (try_finally m f) Q E s"
  unfolding rn_def wp_try_finally by (blast intro: wlp_mono)

lemma rn_gets [rn_intro]: "(\<And>x. Q x s) \<Longrightarrow> rn (gets f) Q E s"
  by (simp add: rn_def wp)

lemma rn_gets_cs: "Q (f s) s \<Longrightarrow> rn (gets (\<lambda>w. f (cs w))) Q E s"
  by (simp add: rn_def wp)

lemma rn_on_cs [rn_intro]: "Q () (f s) \<Longrightarrow> rn (on_cs f) Q E s"
  by (simp add: rn_def on_cs_def wp)

lemma rn_growing:
  fixes m :: "('z store_scheme, 'a) py"
  assumes "growing m" and "\<And>a. Q a s" and "\<And>e. E e s"
  shows "rn m Q E s"
  unfolding rn_def
proof (intro allI impI)
  fix w :: "'z store_scheme"
  assume w: "cs w = s"
  have "cs v = s" if "grows w v" for v
    using that w same_more [of v w] by (simp add: grows_def)
  then show "wlp m (\<lambda>a v. Q a (cs v)) (\<lambda>e v. E e (cs v)) w"
    by (intro wlp_mono [OF growingD [OF assms(1)]]) (use assms in auto)
qed

lemma rn_on_auth [rn_intro]: "Q () s \<Longrightarrow> rn (on_auth a f) Q E s"
  by (simp add: rn_def wp)

lemma rn_tick [rn_intro]: "Q () s \<Longrightarrow> rn (tick env) Q E s"
  by (simp add: rn_def wp)

lemma rn_auth_check [rn_intro]:
  "(descriptor_ok b identity d \<Longrightarrow> Q () s) \<Longrightarrow> E (boundary ''transition_context_invalid'') s \<Longrightarrow>
   rn (auth_check b a identity d) Q E s"
  by (simp add: rn_def wp)

lemma rn_if [rn_intro]:
  "(c \<Longrightarrow> rn m Q E s) \<Longrightarrow> (\<not> c \<Longrightarrow> rn n Q E s) \<Longrightarrow> rn (if c then m else n) Q E s"
  by simp

lemma rn_io [rn_intro]:
  assumes "foreign_errors env co" and "Q () s" and "\<And>e. e \<noteq> store_failed \<Longrightarrow> E e s"
  shows "rn (io env) Q E s"
proof -
  have "e_fault env n = Some e \<Longrightarrow> E e s" for n e
    by (intro assms(3) foreign_fault [OF assms(1)])
  then show ?thesis using assms(2) by (auto simp: rn_def io_def wp split: option.splits)
qed

lemma rn_query [rn_intro]:
  assumes "foreign_errors env co" and "Q (f (current s)) s" and "\<And>e. e \<noteq> store_failed \<Longrightarrow> E e s"
  shows "rn (query env f) Q E s"
  unfolding query_def
  by (intro rn_bnd rn_io [OF assms(1)] assms(3) rn_gets_cs [where f = "\<lambda>s. f (current s)"] assms(2))

lemma rn_execute [rn_intro]:
  assumes "foreign_errors env co"
    and "\<And>d. f (current s) = Inr d \<Longrightarrow> Q () (s\<lparr>cs_tx := Some d\<rparr>)"
    and "\<And>e. f (current s) = Inl e \<Longrightarrow> E e s" and "\<And>e. e \<noteq> store_failed \<Longrightarrow> E e s"
  shows "rn (execute env f) Q E s"
  unfolding execute_def by (intro rn_bnd rn_query [OF assms(1)] rn_lift rn_on_cs assms(2-4))

lemma rn_execute_count [rn_intro]:
  assumes "foreign_errors env co"
    and "Q (fst (f (current s))) (s\<lparr>cs_tx := Some (snd (f (current s)))\<rparr>)"
    and "\<And>e. e \<noteq> store_failed \<Longrightarrow> E e s"
  shows "rn (execute_count env f) Q E s"
  unfolding execute_count_def
  by (intro rn_bnd rn_query [OF assms(1)] rn_ret rn_on_cs assms(2-3))

lemma rn_begin [rn_intro]:
  assumes "foreign_errors env co"
    and "cs_tx s = None \<Longrightarrow> Q () (s\<lparr>cs_tx := Some (cs_db s)\<rparr>)" and "\<And>e. e \<noteq> store_failed \<Longrightarrow> E e s"
  shows "rn (begin_tx env) Q E s"
  unfolding begin_tx_def
  by (intro rn_bnd rn_io [OF assms(1)] rn_gets_cs rn_require rn_on_cs assms(2-3)) auto

lemma rn_commit [rn_intro]:
  assumes "foreign_errors env co" and "Q () (make_durable s)"
    and "\<And>e. e \<noteq> store_failed \<Longrightarrow> E e s" and "\<And>e. e \<noteq> store_failed \<Longrightarrow> E e (make_durable s)"
  shows "rn (commit_tx env) Q E s"
  unfolding commit_tx_def
  by (intro rn_bnd rn_gets rn_try_except rn_io [OF assms(1)] rn_on_cs rn_if rn_ret rn_raise assms(2-4))

lemma rn_or_rollback [rn_intro]:
  assumes "foreign_errors env co"
    and "rn m Q (\<lambda>e t. E e (t\<lparr>cs_tx := None\<rparr>) \<and> (\<forall>e'. e' \<noteq> store_failed \<longrightarrow> E e' t)) s"
  shows "rn (or_rollback env m) Q E s"
  unfolding or_rollback_def rollback_tx_def
  by (intro rn_try_except rn_mono [OF assms(2)] rn_bnd rn_io [OF assms(1)] rn_on_cs rn_raise) auto

lemma rn_with_auth_lock [rn_intro]: "rn m Q E s \<Longrightarrow> rn (with_auth_lock a m) Q E s"
  unfolding with_auth_lock_def
  by (intro rn_bnd rn_on_auth rn_try_finally) (auto elim!: rn_mono intro: rn_on_auth)

lemma rn_publication_guard [rn_intro]:
  assumes "rn m Q E s" and "E (boundary ''transition_context_invalid'') s"
  shows "rn (publication_guard b a identity d m) Q E s"
  unfolding publication_guard_def
  by (intro rn_with_auth_lock rn_bnd rn_auth_check rn_gets rn_require assms)

lemma rn_guard_entry:
  assumes "\<And>a. Q a s" and "\<And>e. E e s"
  shows "rn (guard_entry env b a identity d) Q E s"
  unfolding guard_entry_def
  by (intro rn_bnd rn_on_auth rn_try_except rn_growing [OF growing_authorize] rn_raise assms)

lemma rn_commit_guard [rn_intro]:
  assumes "rn m Q E s" and "\<And>e. E e s"
  shows "rn (commit_guard env b a identity d m) Q E s"
  unfolding commit_guard_split guard_body_def
  by (intro rn_bnd rn_guard_entry rn_try_finally rn_try_except assms(2) rn_mono [OF assms(1)]
      rn_bnd rn_on_auth rn_raise)

section \<open>Reading the state\<close>

lemma rn_validate_paths [rn_intro]:
  assumes "foreign_errors env co" and "Q () s" and "\<And>e. e \<noteq> store_failed \<Longrightarrow> E e s"
  shows "rn (validate_paths env co) Q E s"
proof -
  have "e \<noteq> store_failed" if "paths_valid co n = Inl e" for e n
  proof -
    show ?thesis
      using that foreign_resolve [OF assms(1)] by (auto simp: paths_valid_def safe_path_def path_unsafe_def Let_def res_iffs)
  qed
  then show ?thesis
    unfolding validate_paths_def
    by (intro rn_bnd rn_gets rn_tick rn_lift) (use assms(2,3) in auto)
qed

lemma rn_read_index [rn_intro]:
  assumes "foreign_errors env co" and "\<And>raw. cs_index s = Some raw \<Longrightarrow> Q raw s"
    and "\<And>e. e \<noteq> store_failed \<Longrightarrow> E e s"
  shows "rn (read_index env) Q E s"
  unfolding read_index_def
proof (intro rn_bnd rn_io [OF assms(1)] rn_gets_cs assms(3))
  show "rn (case cs_index s of None \<Rightarrow> raise (Exc PyOSError ''no such file'') | Some raw \<Rightarrow> ret raw) Q E s"
    by (auto intro!: rn_ret rn_raise assms(2,3) split: option.splits)
qed

lemma rn_state [rn_intro]:
  assumes env: "foreign_errors env co"
    and ok: "\<And>r. store_state co (current s) = Some r \<Longrightarrow> Q r s"
    and fail: "\<And>e. e \<noteq> store_failed \<Longrightarrow> E e s"
  shows "rn (state_in_transaction env co) Q E s"
proof -
  show ?thesis
    unfolding state_in_transaction_def
  proof (rule rn_bnd, rule rn_query [OF env], goal_cases)
    case 1
    show ?case
    proof (cases "projection_of (current s)")
      case None
      then show ?thesis by (auto intro!: rn_raise fail)
    next
      case (Some p)
      show ?thesis
        unfolding Some option.case Let_def
        by (intro rn_bnd rn_require rn_query [OF env] rn_ret fail ok)
          (auto simp: store_state_def Some Let_def)
    qed
  qed (rule fail)
qed

lemma rn_state_check [rn_intro]:
  assumes "foreign_errors env co"
    and "\<And>r. cs_tx s = None \<Longrightarrow> store_state co (cs_db s) = Some r \<Longrightarrow> Q r s"
    and "\<And>e. e \<noteq> store_failed \<Longrightarrow> E e s"
  shows "rn (store_state_check env co) Q E s"
  unfolding store_state_check_def
  by (intro rn_bnd rn_gets_cs rn_require rn_query [OF assms(1)] rn_state [OF assms(1)])
    (use assms(2,3) in \<open>auto simp: current_def\<close>)

section \<open>How far a create went\<close>

text \<open>The tables after a create whose transition is in the given state.\<close>

definition stage_db ::
  "create_binding \<Rightarrow> CreateSessionDescriptor \<Rightarrow> rat \<Rightarrow> int \<Rightarrow> string \<Rightarrow> string \<Rightarrow> database \<Rightarrow> database" where
  "stage_db b d started generation raw state db =
     (created_db b d started generation raw db)
       \<lparr>db_transitions := db_transitions db @ [(new_transition b d (generation + 1) raw)\<lparr>t_state := state\<rparr>]\<rparr>"

text \<open>The store a create may go ahead on, and the bytes it is to publish.\<close>

definition opened ::
  "coordinator \<Rightarrow> CreateSessionDescriptor \<Rightarrow> cstate \<Rightarrow> int \<Rightarrow> string \<Rightarrow> string \<Rightarrow> bool" where
  "opened co d s generation old_raw raw \<longleftrightarrow>
     (let b = c_binding co; db = cs_db s
      in \<exists>routes. store_state co db = Some (generation, routes, old_raw)
           \<and> descriptor_ok b (b_owner b) d \<and> \<not> unfinished db \<and> cs_index s = Some old_raw
           \<and> d_route_slot d \<notin> fst ` set routes
           \<and> d_correlation_id d \<notin> set (map t_correlation (db_transitions db))
           \<and> raw = projection_bytes (b_instance_id b) (path_str (b_database b)) (generation + 1)
                     (assoc_put (d_route_slot d) (d_target_session d, 1) routes))"

text \<open>
  Exactly the rows of the descriptor were added to the tables of \<open>s\<close>, the transition has
  the given state, and the index holds the old or the new bytes.
\<close>

definition reached ::
  "coordinator \<Rightarrow> CreateSessionDescriptor \<Rightarrow> cstate \<Rightarrow> int \<Rightarrow> string \<Rightarrow> string \<Rightarrow> bool \<Rightarrow> cstate \<Rightarrow> bool" where
  "reached co d s generation raw state new_index t \<longleftrightarrow>
     (\<exists>old_raw started. opened co d s generation old_raw raw
        \<and> cs_db t = stage_db (c_binding co) d started generation raw state (cs_db s)
        \<and> cs_index t = Some (if new_index then raw else old_raw)
        \<and> cs_attempted t)"

definition unchanged :: "cstate \<Rightarrow> cstate \<Rightarrow> bool" where
  "unchanged s t \<longleftrightarrow> cs_db t = cs_db s \<and> cs_index t = cs_index s"

abbreviation pending :: string where "pending \<equiv> ''committed_pending_projection''"
abbreviation verified :: string where "verified \<equiv> ''projection_verified''"
abbreviation published :: string where "published \<equiv> ''published''"

definition left_behind :: "coordinator \<Rightarrow> CreateSessionDescriptor \<Rightarrow> cstate \<Rightarrow> cstate \<Rightarrow> bool" where
  "left_behind co d s t \<longleftrightarrow>
     (\<exists>generation raw. reached co d s generation raw pending False t
        \<or> reached co d s generation raw pending True t
        \<or> reached co d s generation raw verified True t
        \<or> reached co d s generation raw published True t)"

lemma left_behindI [intro]:
  "reached co d s g raw pending False t \<Longrightarrow> left_behind co d s t"
  "reached co d s g raw pending True t \<Longrightarrow> left_behind co d s t"
  "reached co d s g raw verified True t \<Longrightarrow> left_behind co d s t"
  "reached co d s g raw published True t \<Longrightarrow> left_behind co d s t"
  by (auto simp: left_behind_def)

lemma reached_tx [simp]:
  "reached co d s g raw st ix (t\<lparr>cs_tx := x\<rparr>) = reached co d s g raw st ix t"
  "reached co d s g raw st ix (t\<lparr>cs_committed := c\<rparr>) = reached co d s g raw st ix t"
  by (simp_all add: reached_def)

lemma unchanged_tx [simp]:
  "unchanged s (t\<lparr>cs_tx := x\<rparr>) = unchanged s t"
  "unchanged s (t\<lparr>cs_attempted := c\<rparr>) = unchanged s t"
  "unchanged s s"
  by (simp_all add: unchanged_def)

lemma current_tx [simp]: "current (s\<lparr>cs_tx := Some d\<rparr>) = d" "current (s\<lparr>cs_tx := None\<rparr>) = cs_db s"
  by (simp_all add: current_def)

section \<open>The transaction\<close>

lemma created_db_eq:
  "created_db b d started generation raw db =
     db\<lparr>db_sessions := db_sessions db @ [new_session b d started],
        db_owners := db_owners db @ [new_owner d],
        db_routes := db_routes db @ [new_route d],
        db_transitions := db_transitions db @ [new_transition b d (generation + 1) raw],
        db_projections :=
          map (\<lambda>p. if p_singleton p = 1 \<and> p_generation p = generation
                   then p\<lparr>p_generation := generation + 1, p_hash := b_digest b raw\<rparr> else p)
            (db_projections db)\<rparr>"
  by (cases db) (simp add: created_db_def)

lemma new_transition_correlation [simp]:
  "t_correlation (new_transition b d generation raw) = d_correlation_id d"
  by (simp add: new_transition_def)

lemma rn_insert_rows:
  assumes env: "foreign_errors env co" and tx: "cs_tx s = Some db"
    and ok: "\<And>started. d_correlation_id d \<notin> set (map t_correlation (db_transitions db)) \<Longrightarrow>
       Q () (s\<lparr>cs_tx := Some (created_db (c_binding co) d started generation raw db)\<rparr>)"
    and fail: "\<And>e t. E e (s\<lparr>cs_tx := t\<rparr>)"
  shows "rn (insert_rows env co d generation raw) Q E s"
proof -
  have fail0: "E e s" for e using fail [of e "cs_tx s"] by simp
  have cur: "current s = db" using tx by (simp add: current_def)
  show ?thesis
    unfolding insert_rows_def Let_def
    by (intro rn_bnd rn_gets rn_execute [OF env] rn_execute_count [OF env] rn_require)
      (auto simp: fail fail0 cur insert_session_def insert_owner_def insert_route_def
        insert_transition_def update_projection_def Let_def res_iffs
        intro!: ok [unfolded created_db_eq])
qed

text \<open>The bytes a create of \<open>d\<close> publishes on a store with the given routes.\<close>

definition new_bytes :: "coordinator \<Rightarrow> CreateSessionDescriptor \<Rightarrow> int \<Rightarrow> routes \<Rightarrow> string" where
  "new_bytes co d generation routes =
     projection_bytes (b_instance_id (c_binding co)) (path_str (b_database (c_binding co))) (generation + 1)
       (assoc_put (d_route_slot d) (d_target_session d, 1) routes)"

lemma rn_prepare:
  assumes env: "foreign_errors env co" and tx: "cs_tx s = Some db"
    and ok: "\<And>started routes. store_state co db = Some (generation, routes, old_raw) \<Longrightarrow>
       d_route_slot d \<notin> fst ` set routes \<Longrightarrow>
       d_correlation_id d \<notin> set (map t_correlation (db_transitions db)) \<Longrightarrow>
       Q (new_bytes co d generation routes)
         (s\<lparr>cs_tx := Some (created_db (c_binding co) d started generation
              (new_bytes co d generation routes) db)\<rparr>)"
    and fail: "\<And>e t. E e (s\<lparr>cs_tx := t\<rparr>)"
  shows "rn (prepare env co d generation old_raw) Q E s"
proof -
  have fail0: "E e s" for e using fail [of e "cs_tx s"] by simp
  have cur: "current s = db" using tx by (simp add: current_def)
  show ?thesis
    unfolding prepare_def Let_def
  proof (intro rn_bnd rn_state [OF env] fail0, unfold cur, clarify, intro rn_bnd rn_require rn_query [OF env] fail0)
    fix g routes raw
    assume "store_state co db = Some (g, routes, raw)"
      and "g = generation \<and> raw = old_raw \<and> d_route_slot d \<notin> fst ` set routes"
      and "\<not> list_ex (\<lambda>t. t_correlation t = d_correlation_id d) (db_transitions (current s))"
    then show "rn (insert_rows env co d generation
         (projection_bytes (b_instance_id (c_binding co)) (path_str (b_database (c_binding co)))
           (generation + 1) (assoc_put (d_route_slot d) (d_target_session d, 1) routes)))
         (\<lambda>_. rn (ret (projection_bytes (b_instance_id (c_binding co)) (path_str (b_database (c_binding co)))
           (generation + 1) (assoc_put (d_route_slot d) (d_target_session d, 1) routes))) Q E) E s"
      using ok [unfolded new_bytes_def] by (intro rn_insert_rows [OF env tx] rn_ret fail) auto
  qed
qed

lemma stage_pending: "stage_db b d started generation raw pending db = created_db b d started generation raw db"
  by (simp add: stage_db_def created_db_def new_transition_def)

lemma rn_commit_rows:
  assumes env: "foreign_errors env co" and state: "store_state co (cs_db s) = Some (generation, routes, old_raw)"
    and index: "cs_index s = Some old_raw" and settled: "\<not> unfinished (cs_db s)"
    and desc: "descriptor_ok (c_binding co) (b_owner (c_binding co)) d"
  shows "rn (commit_rows env co a d generation old_raw)
           (\<lambda>raw t. reached co d s generation raw pending False t \<and> cs_tx t = None)
           (\<lambda>e t. unchanged s t \<or> e \<noteq> store_failed \<and> left_behind co d s t) s"
proof -
  let ?E = "\<lambda>e t. unchanged s t \<or> e \<noteq> store_failed \<and> left_behind co d s t"
  have went: "reached co d s generation (new_bytes co d generation r) pending False
        (make_durable (s\<lparr>cs_tx := Some (created_db (c_binding co) d started generation
           (new_bytes co d generation r) (cs_db s)), cs_attempted := True\<rparr>))"
    if "store_state co (cs_db s) = Some (generation, r, old_raw)" "d_route_slot d \<notin> fst ` set r"
      "d_correlation_id d \<notin> set (map t_correlation (db_transitions (cs_db s)))" for r started
    using that desc settled index
    by (auto simp: reached_def opened_def Let_def make_durable_def current_def stage_pending new_bytes_def)
  show ?thesis
    unfolding commit_rows_def
    apply (intro rn_bnd rn_begin [OF env] rn_or_rollback [OF env])
     apply (rule rn_prepare [OF env])
       apply simp
      apply (intro rn_bnd rn_commit_guard rn_on_cs rn_commit [OF env] rn_ret)
         apply (auto dest!: went simp: make_durable_def)
    done
qed

section \<open>The publication\<close>

lemma rn_publish:
  assumes env: "foreign_errors env co"
    and "Q () (s\<lparr>cs_index := Some raw\<rparr>)" and fail: "\<And>e. e \<noteq> store_failed \<Longrightarrow> E e s"
    and late: "\<And>e. e \<noteq> store_failed \<Longrightarrow> E e (s\<lparr>cs_index := Some raw\<rparr>)"
  shows "rn (publish env co raw) Q E s"
  unfolding publish_def
  by (intro rn_bnd rn_validate_paths [OF env] rn_io [OF env] rn_try_except rn_raise rn_on_cs
      rn_read_index [OF env] rn_require fail late) (use assms(2) in auto)

lemma update_stage:
  assumes "d_correlation_id d \<notin> set (map t_correlation (db_transitions db))"
  shows "update_transition (d_correlation_id d) st st' (stage_db b d started generation raw st db) =
           (1, stage_db b d started generation raw st' db)"
proof -
  have other: "t_correlation t \<noteq> d_correlation_id d" if "t \<in> set (db_transitions db)" for t
    using assms that by force
  then have "filter (\<lambda>t. t_correlation t = d_correlation_id d \<and> t_state t = st) (db_transitions db) = []"
    by (simp add: filter_empty_conv)
  moreover have "map (\<lambda>t. if t_correlation t = d_correlation_id d \<and> t_state t = st
      then t\<lparr>t_state := st'\<rparr> else t) (db_transitions db) = db_transitions db"
    using other by (intro map_idI) simp
  ultimately show ?thesis by (simp add: update_transition_def stage_db_def Let_def)
qed

lemma reached_fresh:
  "reached co d s generation raw st ix t \<Longrightarrow>
   d_correlation_id d \<notin> set (map t_correlation (db_transitions (cs_db s)))"
  by (auto simp: reached_def opened_def Let_def)

text \<open>Moving the transition of a create from one state to the next, durably.\<close>

lemma reached_update:
  assumes "reached co d s generation raw st ix t"
  shows "fst (update_transition (d_correlation_id d) st st' (cs_db t)) = 1"
    and "reached co d s generation raw st' ix
           (make_durable (t\<lparr>cs_tx := Some (snd (update_transition (d_correlation_id d) st st' (cs_db t)))\<rparr>))"
proof -
  obtain old_raw started where at: "opened co d s generation old_raw raw"
    "cs_db t = stage_db (c_binding co) d started generation raw st (cs_db s)"
    "cs_index t = Some (if ix then raw else old_raw)" "cs_attempted t"
    using assms by (auto simp: reached_def)
  note step = update_stage [OF reached_fresh [OF assms], of st st' "c_binding co" started generation raw]
  show "fst (update_transition (d_correlation_id d) st st' (cs_db t)) = 1"
    using at(2) step by simp
  show "reached co d s generation raw st' ix
      (make_durable (t\<lparr>cs_tx := Some (snd (update_transition (d_correlation_id d) st st' (cs_db t)))\<rparr>))"
    unfolding reached_def
    by (rule exI [of _ old_raw], rule exI [of _ started])
      (use at step in \<open>simp add: make_durable_def\<close>)
qed

lemma rn_agrees:
  assumes "foreign_errors env co" and "Q () s" and "\<And>e. e \<noteq> store_failed \<Longrightarrow> E e s"
  shows "rn (projection_agrees env co generation raw) Q E s"
  unfolding projection_agrees_def
  by (intro rn_bnd rn_state [OF assms(1)])
    (auto intro!: rn_bnd rn_require rn_read_index [OF assms(1)] assms(2,3))

lemma rn_verify:
  assumes env: "foreign_errors env co" and at: "reached co d s generation raw pending True t"
  shows "rn (verify_projection env co a d generation raw)
           (\<lambda>_ u. reached co d s generation raw verified True u \<and> cs_tx u = None)
           (\<lambda>e u. e \<noteq> store_failed \<and> left_behind co d s u) t"
proof -
  have "left_behind co d s t" using at by auto
  moreover have "left_behind co d s (t\<lparr>cs_tx := x\<rparr>)" for x using at by auto
  moreover note reached_update(2) [OF at, of verified]
  ultimately show ?thesis
    unfolding verify_projection_def
    by (intro rn_bnd rn_begin [OF env] rn_or_rollback [OF env] rn_agrees [OF env] rn_auth_check
        rn_execute_count [OF env] rn_commit [OF env])
      (auto simp: make_durable_def)
qed

lemma rn_finish:
  assumes env: "foreign_errors env co" and at: "reached co d s generation raw verified True t"
  shows "rn (finish_transition env co d generation raw)
           (\<lambda>_ u. reached co d s generation raw published True u \<and> cs_tx u = None)
           (\<lambda>e u. e \<noteq> store_failed \<and> left_behind co d s u) t"
proof -
  have "left_behind co d s t" using at by auto
  moreover have "left_behind co d s (t\<lparr>cs_tx := x\<rparr>)" for x using at by auto
  moreover note reached_update [OF at, of published]
  ultimately show ?thesis
    unfolding finish_transition_def
    by (intro rn_bnd rn_begin [OF env] rn_or_rollback [OF env] rn_agrees [OF env] rn_require
        rn_execute_count [OF env] rn_commit [OF env])
      (auto simp: make_durable_def)
qed

lemma rn_authorize:
  assumes "descriptor_ok b identity d \<Longrightarrow> Q () s" and "\<And>e. E e s"
  shows "rn (auth_authorize env b a identity d) Q E s"
  unfolding rn_def
proof (intro allI impI)
  fix w :: "'z store_scheme"
  assume w: "cs w = s"
  have "cs v = s" if "grows w v" for v
    using that w same_more [of v w] by (simp add: grows_def)
  then show "wlp (auth_authorize env b a identity d) (\<lambda>a v. Q a (cs v)) (\<lambda>e v. E e (cs v)) w"
    by (intro wlp_mono [OF authorize_granted]) (use assms in auto)
qed

section \<open>The whole operation\<close>

lemma rn_sink_write [rn_intro]: "Q () s \<Longrightarrow> (\<And>e. E e s) \<Longrightarrow> rn (sink_write sink r) Q E s"
  by (simp add: rn_def wp split: option.splits)

lemma rn_audit:
  assumes "Q () s" and "\<And>e. e \<noteq> store_failed \<Longrightarrow> E e s"
  shows "rn (exception_as (boundary ''transition_audit_pending'') (bnd (tick env) (\<lambda>_. sink_write sink a))) Q E s"
proof -
  have "E e s" if "\<not> is_exception e" for e using that by (intro assms(2)) auto
  then show ?thesis using assms by (auto simp: rn_def wp split: option.splits)
qed

text \<open>A store that was not touched, or one on which a create can be seen to have begun.\<close>

definition settled_or_seen :: "coordinator \<Rightarrow> CreateSessionDescriptor \<Rightarrow> cstate \<Rightarrow> pyexc \<Rightarrow> cstate \<Rightarrow> bool" where
  "settled_or_seen co d s e t \<longleftrightarrow> unchanged s t \<or> e \<noteq> store_failed \<and> left_behind co d s t"

lemma settled_or_seen_other:
  "settled_or_seen co d s e t \<Longrightarrow> e' \<noteq> store_failed \<Longrightarrow> settled_or_seen co d s e' t"
  by (auto simp: settled_or_seen_def)

lemma settled_or_seenI [intro]:
  "unchanged s t \<Longrightarrow> settled_or_seen co d s e t"
  "e \<noteq> store_failed \<Longrightarrow> left_behind co d s t \<Longrightarrow> settled_or_seen co d s e t"
  by (simp_all add: settled_or_seen_def)

definition all_done :: "coordinator \<Rightarrow> CreateSessionDescriptor \<Rightarrow> cstate \<Rightarrow> receipt \<Rightarrow> cstate \<Rightarrow> bool" where
  "all_done co d s r t \<longleftrightarrow>
     r = receipt_of d \<and> cs_tx t = None \<and> (\<exists>generation raw. reached co d s generation raw published True t)"

lemma rn_after_commit:
  assumes env: "foreign_errors env co" and at: "reached co d s generation raw pending False t"
  shows "rn (publish_created env co a d generation raw) (all_done co d s) (settled_or_seen co d s) t"
proof -
  let ?b = "c_binding co"
  let ?u = "t\<lparr>cs_index := Some raw\<rparr>"
  let ?rest = "bnd (exception_as (boundary ''transition_audit_pending'')
                    (bnd (tick env) (\<lambda>_. sink_write (b_sink ?b) (outcome_record ?b d)))) (\<lambda>_.
             bnd (publication_guard ?b a (b_owner ?b) d (finish_transition env co d generation raw)) (\<lambda>_.
             ret (receipt_of d)))"
  have u: "reached co d s generation raw pending True ?u"
    using at by (auto simp: reached_def)
  have rest: "rn ?rest (all_done co d s) (settled_or_seen co d s) v"
    if "reached co d s generation raw verified True v" for v
    using that
    by (intro rn_bnd rn_audit rn_publication_guard rn_mono [OF rn_finish [OF env that]] rn_ret)
      (auto simp: all_done_def)
  have "rn (verify_projection env co a d generation raw)
      (\<lambda>_. rn ?rest (all_done co d s) (settled_or_seen co d s)) (settled_or_seen co d s) ?u"
    by (rule rn_mono [OF rn_verify [OF env u]], erule conjE, erule rest) auto
  then show ?thesis
    unfolding publish_created_def Let_def
    using at u
    by (intro rn_bnd rn_publication_guard rn_publish [OF env]) auto
qed

lemma rn_locked_create:
  assumes env: "foreign_errors env co"
  shows "rn (locked_create env co a d) (all_done co d s) (settled_or_seen co d s) s"
proof -
  have start: "rn (commit_rows env co a d generation raw)
      (\<lambda>new. rn (publish_created env co a d generation new) (all_done co d s) (settled_or_seen co d s))
      (settled_or_seen co d s) s"
    if "descriptor_ok (c_binding co) (b_owner (c_binding co)) d" "cs_index s = Some raw"
      "store_state co (cs_db s) = Some (generation, routes, raw)" "\<not> unfinished (cs_db s)"
    for generation routes raw
    by (rule rn_mono [OF rn_commit_rows [OF env that(3,2,4,1)]])
      (auto intro: rn_after_commit [OF env])
  show ?thesis
    unfolding locked_create_def
    apply (intro rn_bnd rn_authorize rn_state_check [OF env])
      apply (clarify, intro rn_bnd rn_read_index [OF env] rn_if rn_ret rn_query [OF env] rn_require)
    apply (auto simp: current_def intro!: start split: option.splits)
    done
qed

lemma rn_exclusive:
  assumes env: "foreign_errors env co"
    and body: "rn m Q E s" and start: "\<And>e. E e s"
    and other: "\<And>e e' t. E e t \<Longrightarrow> e' \<noteq> store_failed \<Longrightarrow> E e' t"
    and late: "\<And>a e t. Q a t \<Longrightarrow> e \<noteq> store_failed \<Longrightarrow> E e t"
  shows "rn (exclusive env co m) Q E s"
proof -
  have m: "rn m (\<lambda>a. rn (io env) (\<lambda>_. Q a) E) (\<lambda>e. rn (io env) (\<lambda>_. E e) E) s"
    by (rule rn_mono [OF body]) (auto intro!: rn_io [OF env] intro: late other)
  have inner: "rn (bnd (io env) (\<lambda>_. bnd (require (c_lock_qualified co) (boundary ''transition_lock_unqualified'')) (\<lambda>_.
        bnd (validate_paths env co) (\<lambda>_. bnd (io env) (\<lambda>_.
        try_finally (bnd (validate_paths env co) (\<lambda>_. m)) (io env)))))) Q E s"
    by (intro rn_bnd rn_require rn_io [OF env] rn_validate_paths [OF env] rn_try_finally m start)
  show ?thesis
    unfolding exclusive_def
    by (rule rn_try_except, rule rn_mono [OF inner], assumption)
      (auto intro!: rn_if rn_raise intro: other)
qed

lemma left_behind_attempted: "left_behind co d s t \<Longrightarrow> cs_attempted t"
  by (auto simp: left_behind_def reached_def)

text \<open>The outcomes of a create, whatever the environment does.\<close>

lemma rn_create:
  assumes env: "foreign_errors env co" and run: "create env co a w = (r, v)"
    and d: "d = ca_descriptor (tw_auths w a)"
  shows "(case r of Inr x \<Rightarrow> all_done co d (cs w) x (cs v)
          | Inl e \<Rightarrow> (e = store_failed \<longrightarrow> unchanged (cs w) (cs v))
               \<and> (unchanged (cs w) (cs v) \<or> left_behind co d (cs w) (cs v)))"
proof -
  let ?s = "cs w" and ?t = "(cs w)\<lparr>cs_committed := False, cs_attempted := False\<rparr>"
  let ?Q = "all_done co d ?s"
  let ?E = "\<lambda>e t. (e = store_failed \<longrightarrow> unchanged ?s t) \<and> (unchanged ?s t \<or> left_behind co d ?s t)"
  have same: "reached co d ?t g raw st ix = reached co d ?s g raw st ix" for g raw st ix
    by (intro ext) (simp add: reached_def opened_def)
  then have same': "all_done co d ?t = all_done co d ?s" "settled_or_seen co d ?t = settled_or_seen co d ?s"
    by (intro ext; simp add: all_done_def settled_or_seen_def left_behind_def unchanged_def)+
  have start: "settled_or_seen co d ?s e ?t" for e by (auto simp: unchanged_def)
  have body: "rn (exclusive env co (locked_create env co a d)) ?Q (settled_or_seen co d ?s) ?t"
    using rn_locked_create [OF env, of a d ?t] unfolding same'
    by (rule rn_exclusive [OF env]) (auto intro: settled_or_seen_other start simp: all_done_def)
  let ?h = "\<lambda>e. if is_boundary e then raise e
            else if is_exception e then
              bnd (gets (\<lambda>w. cs_committed (cs w) \<or> cs_attempted (cs w))) (\<lambda>late.
              raise (boundary (if late then ''transition_recovery_required'' else ''transition_store_failed'')))
            else raise e"
  have handler: "rn (?h e) ?Q ?E t" if at: "settled_or_seen co d ?s e t" for e t
  proof (intro rn_if rn_raise rn_bnd rn_gets_cs [where f = "\<lambda>s. cs_committed s \<or> cs_attempted s"])
    show "?E (boundary (if cs_committed t \<or> cs_attempted t then ''transition_recovery_required''
                        else ''transition_store_failed'')) t"
      using at left_behind_attempted [of co d ?s t] by (auto simp: settled_or_seen_def)
  qed (use at in \<open>auto simp: settled_or_seen_def\<close>)
  let ?m = "try_except
       (bnd (begin_attempt (c_binding co) a (b_owner (c_binding co)) d) (\<lambda>_.
        exclusive env co (locked_create env co a d))) ?h"
  have m: "rn ?m ?Q ?E ?t"
    by (intro rn_try_except rn_bnd rn_growing [OF growing_begin_attempt] rn_mono [OF body] handler start)
  have "wlp (create env co a) (\<lambda>x v. ?Q x (cs v)) (\<lambda>e v. ?E e (cs v)) w"
  proof (cases "c_middleware co")
    case True
    have "wlp ?m (\<lambda>x v. ?Q x (cs v)) (\<lambda>e v. ?E e (cs v)) (w\<lparr>cs := ?t\<rparr>)"
      using m unfolding rn_def by (elim allE impE) simp_all
    then show ?thesis using True unfolding create_def d by (simp add: wp_bnd wp_require wp_gets on_cs_def wp_modify)
  next
    case False
    then show ?thesis unfolding create_def by (simp add: wp_bnd wp_require)
  qed
  then show ?thesis using run by (auto simp: wlp_def split: sum.splits)
qed

section \<open>All or nothing\<close>

text \<open>
  C1. A create is all or nothing, and what it reports is true. Whatever fails, at whatever
  step, with whatever exception, even when a failing commit was durable: a receipt is returned
  only if all rows of the descriptor are durable, the transition is published and the index
  holds the new bytes; on an exception the durable tables and the index are either untouched,
  or hold exactly the rows of this create, the recorded state of the transition saying how far
  the publication went; and the error that reports a plain store failure is raised only when
  nothing was touched.
\<close>

theorem create_all_or_nothing:
  assumes "foreign_errors env co" and "create env co a w = (r, v)"
    and "d = ca_descriptor (tw_auths w a)"
  shows "(case r of Inr x \<Rightarrow> all_done co d (cs w) x (cs v)
          | Inl e \<Rightarrow> (e = store_failed \<longrightarrow> unchanged (cs w) (cs v))
               \<and> (unchanged (cs w) (cs v) \<or> left_behind co d (cs w) (cs v)))"
  by (rule rn_create [OF assms])

lemma reached_opened: "reached co d s g raw st ix t \<Longrightarrow> \<exists>old. opened co d s g old raw"
  by (auto simp: reached_def)

lemma opened_coherent:
  "opened co d s g old raw \<Longrightarrow>
   \<not> unfinished (cs_db s) \<and> (\<exists>g routes. store_state co (cs_db s) = Some (g, routes, old) \<and> cs_index s = Some old)"
  by (auto simp: opened_def Let_def)

text \<open>
  C19. An unfinished create blocks the next ones. While some transition is not published, or
  the index file is not the projection of the tables, every create raises and leaves tables and
  index as they are: nothing is built on top of an uncertain publication.
\<close>

theorem unfinished_blocks_create:
  assumes "foreign_errors env co" and "create env co a w = (r, v)"
    and "unfinished (cs_db (cs w))
         \<or> (\<forall>g routes raw. store_state co (cs_db (cs w)) = Some (g, routes, raw) \<longrightarrow> cs_index (cs w) \<noteq> Some raw)"
  shows "unchanged (cs w) (cs v) \<and> (\<exists>e. r = Inl e)"
proof -
  have closed: "\<not> reached co d (cs w) g raw st ix t" for d g raw st ix t
    using assms(3) reached_opened opened_coherent by blast
  then show ?thesis
    using rn_create [OF assms(1,2) refl] by (auto simp: all_done_def left_behind_def split: sum.splits)
qed

section \<open>The store stays coherent\<close>

text \<open>
  The tables validate, and unless a transition is marked unfinished, the index file is
  exactly the projection of the tables: a reader that sees every transition published may
  trust the index.
\<close>

definition coherent :: "coordinator \<Rightarrow> cstate \<Rightarrow> bool" where
  "coherent co s \<longleftrightarrow>
     (\<exists>g routes raw. store_state co (cs_db s) = Some (g, routes, raw)
        \<and> (unfinished (cs_db s) \<or> cs_index s = Some raw))"

lemma store_state_targets:
  assumes "map t_target (db_transitions db) = map t_target ts"
  shows "store_state co (db\<lparr>db_transitions := ts\<rparr>) = store_state co db"
proof -
  have image: "t_target ` set (db_transitions db) = t_target ` set ts"
    using arg_cong [OF assms, of set] by simp
  have targets: "list_all (\<lambda>t. P (t_target t)) ts = list_all (\<lambda>t. P (t_target t)) (db_transitions db)" for P
  proof -
    have "list_all (\<lambda>t. P (t_target t)) xs \<longleftrightarrow> t_target ` set xs \<subseteq> Collect P" for xs
      by (auto simp: list_all_iff)
    then show ?thesis using image by metis
  qed
  have "session_ids (db\<lparr>db_transitions := ts\<rparr>) = session_ids db" by (simp add: session_ids_def)
  then have "foreign_keys_ok (db\<lparr>db_transitions := ts\<rparr>) = foreign_keys_ok db"
    using targets [of "\<lambda>t. t \<in> set (session_ids db)"]
    by (simp add: foreign_keys_ok_def cong: option.case_cong)
  moreover have "active_route (db\<lparr>db_transitions := ts\<rparr>) = active_route db"
    by (rule ext) (simp add: active_route_def)
  ultimately show ?thesis
    by (simp add: store_state_def projection_of_def orphan_session_def foreign_owner_def
        active_routes_def Let_def split: option.split)
qed

lemma stage_state:
  assumes "opened co d s g old raw"
  shows "store_state co (stage_db (c_binding co) d started g raw st (cs_db s)) =
           Some (g + 1, active_routes (created_db (c_binding co) d started g raw (cs_db s)), raw)"
proof -
  let ?c = "created_db (c_binding co) d started g raw (cs_db s)"
  have "store_state co ?c = Some (g + 1, active_routes ?c, raw)"
    using assms unfolding opened_def Let_def by (auto intro: created_state)
  moreover have "store_state co (stage_db (c_binding co) d started g raw st (cs_db s)) = store_state co ?c"
    unfolding stage_db_def by (rule store_state_targets) (simp add: created_db_def new_transition_def)
  ultimately show ?thesis by simp
qed

lemma unfinished_stage:
  "opened co d s g old raw \<Longrightarrow>
   unfinished (stage_db (c_binding co) d started g raw st (cs_db s)) \<longleftrightarrow> st \<noteq> published"
  by (auto simp: opened_def Let_def unfinished_def stage_db_def)

lemma reached_coherent:
  assumes "reached co d s g raw st ix t" and "st \<noteq> published \<or> ix"
  shows "coherent co t"
proof -
  obtain old started where o: "opened co d s g old raw"
    "cs_db t = stage_db (c_binding co) d started g raw st (cs_db s)"
    "cs_index t = Some (if ix then raw else old)"
    using assms(1) by (auto simp: reached_def)
  then show ?thesis
    using assms(2) unfolding coherent_def by (auto simp: stage_state unfinished_stage)
qed

lemma left_behind_coherent: "left_behind co d s t \<Longrightarrow> coherent co t"
  by (auto simp: left_behind_def intro: reached_coherent)

lemma left_behind_sessions:
  "left_behind co d s t \<Longrightarrow> \<exists>row. db_sessions (cs_db t) = db_sessions (cs_db s) @ [row]"
  by (auto simp: left_behind_def reached_def stage_db_def created_db_def)

text \<open>
  What may happen to a store: creates of any authority in any environment, steps that do not
  touch it (authority scopes, other threads), and the loss of an open transaction (a crash).
\<close>

inductive store_step :: "coordinator \<Rightarrow> store \<Rightarrow> store \<Rightarrow> bool" for co where
  creates: "foreign_errors env co \<Longrightarrow> create env co a w = (r, v) \<Longrightarrow> store_step co w v"
| untouched: "cs v = cs w \<Longrightarrow> store_step co w v"
| crash: "store_step co w (w\<lparr>cs := (cs w)\<lparr>cs_tx := None\<rparr>\<rparr>)"

inductive store_run :: "coordinator \<Rightarrow> store \<Rightarrow> store \<Rightarrow> bool" for co where
  here: "store_run co w w"
| next_step: "store_run co w v \<Longrightarrow> store_step co v u \<Longrightarrow> store_run co w u"

lemma create_changes:
  assumes "foreign_errors env co" and "create env co a w = (r, v)"
  shows "unchanged (cs w) (cs v) \<or> (\<exists>d. left_behind co d (cs w) (cs v))"
  using rn_create [OF assms refl]
  by (auto simp: all_done_def left_behind_def split: sum.splits)

lemma store_step_coherent:
  "store_step co w v \<Longrightarrow> coherent co (cs w) \<Longrightarrow>
   coherent co (cs v) \<and> (\<exists>rows. db_sessions (cs_db (cs v)) = db_sessions (cs_db (cs w)) @ rows)"
proof (induction rule: store_step.induct)
  case (creates env a w r v)
  from create_changes [OF creates(1,2)] show ?case
  proof
    assume "unchanged (cs w) (cs v)"
    then show ?case using creates.prems by (simp add: unchanged_def coherent_def)
  next
    assume "\<exists>d. left_behind co d (cs w) (cs v)"
    then show ?case using left_behind_coherent left_behind_sessions by blast
  qed
qed (simp_all add: coherent_def)

lemma store_run_coherent:
  "store_run co w v \<Longrightarrow> coherent co (cs w) \<Longrightarrow>
   coherent co (cs v) \<and> (\<exists>rows. db_sessions (cs_db (cs v)) = db_sessions (cs_db (cs w)) @ rows)"
proof (induction rule: store_run.induct)
  case (next_step w v u)
  then show ?case using store_step_coherent [OF next_step(2)] by fastforce
qed simp

text \<open>
  C2. The store is coherent at every moment of every history. Start from a coherent store and
  let creates run in any environment and number, fail at any step, be interrupted by crashes:
  in every state reached the tables validate, every session row present before is still there,
  and the index file is exactly the projection of the tables unless some transition is marked
  as unfinished, which is what makes every reader and every create stop.
\<close>

theorem store_always_coherent:
  assumes "store_run co w v" and "coherent co (cs w)"
  shows "coherent co (cs v)
         \<and> (\<exists>rows. db_sessions (cs_db (cs v)) = db_sessions (cs_db (cs w)) @ rows)"
  by (rule store_run_coherent [OF assms])

section \<open>The claims at concrete inputs\<close>

definition demo_files :: "path \<Rightarrow> file_kind" where
  "demo_files p =
     (if path_parts p \<in> set [[''s'', ''sessions.json''], [''s'', ''maya-session-projection.lock''], [''db'']]
      then Regular else Directory)"

definition demo_coordinator :: coordinator where
  "demo_coordinator =
     \<lparr>c_binding = demo_binding, c_directory = Path ''/'' [''s''], c_db_path = Path ''/'' [''db''],
      c_files = (\<lambda>_. demo_files), c_resolve = (\<lambda>_ p. Inr p), c_wall = (\<lambda>_. 0),
      c_lock_qualified = True, c_middleware = True, c_foreign_keys = True\<rparr>"

definition empty_bytes :: string where
  "empty_bytes = projection_bytes ''m1'' ''/db'' 0 []"

definition empty_db :: database where
  "empty_db =
     \<lparr>db_sessions = [], db_owners = [], db_routes = [], db_transitions = [],
      db_projections =
        [\<lparr>p_singleton = 1, p_schema_version = 1, p_instance_id = ''m1'', p_database_id = ''/db'',
          p_generation = 0, p_hash = empty_bytes, p_index_path = ''/s/sessions.json''\<rparr>]\<rparr>"

definition demo_cstate :: cstate where
  "demo_cstate =
     \<lparr>cs_db = empty_db, cs_tx = None, cs_index = Some empty_bytes, cs_committed = False,
      cs_attempted = False\<rparr>"

definition demo_store :: store where
  "demo_store = tworld.extend demo_tworld (store.fields demo_cstate)"

lemma demo_store_cs [simp]: "cs demo_store = demo_cstate" "tw_auths demo_store = tw_auths demo_tworld"
  by (simp_all add: demo_store_def tworld.defs store.defs)

lemma demo_foreign_errors: "foreign_errors demo_env demo_coordinator"
  by (simp add: foreign_errors_def demo_env_def demo_coordinator_def)

lemma demo_state: "store_state demo_coordinator empty_db = Some (0, [], empty_bytes)"
  by (simp add: store_state_def projection_of_def empty_db_def active_routes_def projection_bound_def
      demo_coordinator_def demo_binding_def foreign_keys_ok_def orphan_session_def foreign_owner_def
      path_str_def c_index_def state_bytes_def empty_bytes_def)

theorem create_all_or_nothing_witness:
  "\<exists>r v. create demo_env demo_coordinator 0 demo_store = (r, v)
     \<and> (case r of Inr x \<Rightarrow> all_done demo_coordinator demo_descriptor demo_cstate x (cs v)
          | Inl e \<Rightarrow> (e = store_failed \<longrightarrow> unchanged demo_cstate (cs v))
               \<and> (unchanged demo_cstate (cs v) \<or> left_behind demo_coordinator demo_descriptor demo_cstate (cs v)))"
proof -
  obtain r v where run: "create demo_env demo_coordinator 0 demo_store = (r, v)" by fastforce
  have d: "demo_descriptor = ca_descriptor (tw_auths demo_store 0)"
    by (simp add: demo_tworld_def demo_authority_def)
  show ?thesis
    using create_all_or_nothing [OF demo_foreign_errors run d] run unfolding demo_store_cs by blast
qed

text \<open>A store on which a create stopped before its publication.\<close>

definition stopped_store :: store where
  "stopped_store = demo_store\<lparr>cs := demo_cstate\<lparr>cs_db := empty_db
     \<lparr>db_transitions := [new_transition demo_binding demo_descriptor 1 empty_bytes]\<rparr>\<rparr>\<rparr>"

theorem unfinished_blocks_create_witness:
  "\<exists>e v. create demo_env demo_coordinator 0 stopped_store = (Inl e, v) \<and> unchanged (cs stopped_store) (cs v)"
proof -
  obtain r v where run: "create demo_env demo_coordinator 0 stopped_store = (r, v)" by fastforce
  have "unfinished (cs_db (cs stopped_store))"
    by (simp add: stopped_store_def unfinished_def new_transition_def)
  then show ?thesis
    using unfinished_blocks_create [OF demo_foreign_errors run] run by blast
qed

theorem store_always_coherent_witness:
  "\<exists>v. store_run demo_coordinator demo_store v \<and> coherent demo_coordinator (cs v)
     \<and> (\<exists>r. create demo_env demo_coordinator 0 demo_store = (r, v))"
proof -
  obtain r v where run: "create demo_env demo_coordinator 0 demo_store = (r, v)" by fastforce
  have "coherent demo_coordinator (cs demo_store)"
    using demo_state by (simp add: coherent_def demo_cstate_def)
  moreover have "store_run demo_coordinator demo_store v"
    by (rule next_step [OF here creates [OF demo_foreign_errors run]])
  ultimately show ?thesis using store_always_coherent run by blast
qed

end
