(* ===== verification/Maya_Base64.thy ===== *)
theory Maya_Base64
  imports Maya_Prelude "HOL-Library.Word"
begin

text \<open>
  Bytes, and the unpadded URL-safe base64 text the broker protocol writes keys, digests and
  signatures in (\<open>_b64\<close> and \<open>_unb64\<close> of \<open>src/project_maya/broker.py\<close>). The decoder is the
  one \<open>base64.urlsafe_b64decode\<close> calls, lenient mode included: it skips characters outside
  the alphabet and stops at a complete padding.
\<close>

type_synonym bytes = "8 word list"

section \<open>The alphabet\<close>

definition b64_char :: "nat \<Rightarrow> char" where
  "b64_char n =
     (if n < 26 then char_of (65 + n)
      else if n < 52 then char_of (71 + n)
      else if n < 62 then char_of (n - 4)
      else if n = 62 then CHR ''-'' else CHR ''_'')"

definition b64_index :: "char \<Rightarrow> nat option" where
  "b64_index c =
     (if is_upper c then Some (of_char c - 65)
      else if is_lower c then Some (of_char c - 71)
      else if is_digit c then Some (of_char c + 4)
      else if c = CHR ''-'' \<or> c = CHR ''+'' then Some 62
      else if c = CHR ''_'' \<or> c = CHR 0x2F then Some 63
      else None)"

lemma b64_index_char [simp]: "n < 64 \<Longrightarrow> b64_index (b64_char n) = Some n"
  by (auto simp: b64_index_def b64_char_def is_upper_def is_lower_def is_digit_def)

lemma b64_char_pad [simp]: "n < 64 \<Longrightarrow> b64_char n \<noteq> CHR ''=''"
proof
  assume n: "n < 64" and pad: "b64_char n = CHR ''=''"
  have "b64_index (CHR ''='') = None" by code_simp
  then show False using b64_index_char [OF n] pad by simp
qed

section \<open>Encoding\<close>

text \<open>\<open>base64.urlsafe_b64encode\<close>.\<close>

fun b64_encode :: "bytes \<Rightarrow> string" where
  "b64_encode [] = []"
| "b64_encode [a] =
     [b64_char (unat a div 4), b64_char (unat a mod 4 * 16), CHR ''='', CHR ''='']"
| "b64_encode [a, b] =
     [b64_char (unat a div 4), b64_char (unat a mod 4 * 16 + unat b div 16),
      b64_char (unat b mod 16 * 4), CHR ''='']"
| "b64_encode (a # b # c # rest) =
     [b64_char (unat a div 4), b64_char (unat a mod 4 * 16 + unat b div 16),
      b64_char (unat b mod 16 * 4 + unat c div 64), b64_char (unat c mod 64)] @ b64_encode rest"

definition rstrip_char :: "char \<Rightarrow> string \<Rightarrow> string" where
  "rstrip_char c s = rev (dropWhile (\<lambda>d. d = c) (rev s))"

definition b64 :: "bytes \<Rightarrow> string" where
  "b64 bs = rstrip_char (CHR ''='') (b64_encode bs)"

section \<open>Decoding\<close>

definition byte_of :: "nat \<Rightarrow> 8 word" where
  "byte_of n = word_of_nat n"

text \<open>
  \<open>binascii.a2b_base64\<close> without \<open>strict_mode\<close>: the position in the group of four, the bits
  left over, the paddings in a row.
\<close>

fun a2b :: "nat \<Rightarrow> nat \<Rightarrow> nat \<Rightarrow> string \<Rightarrow> bytes res" where
  "a2b quad left pads [] =
     (if quad = 0 then Inr []
      else if quad = 1
      then Inl (Exc PyValueError ''Invalid base64-encoded string: number of data characters cannot be 1 more than a multiple of 4'')
      else Inl (Exc PyValueError ''Incorrect padding''))"
| "a2b quad left pads (c # cs) =
     (if c = CHR ''=''
      then (if 2 \<le> quad \<and> 4 \<le> quad + Suc pads then Inr []
            else a2b quad left (if 2 \<le> quad then Suc pads else pads) cs)
      else (case b64_index c of
          None \<Rightarrow> a2b quad left pads cs
        | Some n \<Rightarrow>
            if quad = 0 then a2b 1 n 0 cs
            else if quad = 1
            then bindR (a2b 2 (n mod 16) 0 cs) (\<lambda>out. Inr (byte_of (left * 4 + n div 16) # out))
            else if quad = 2
            then bindR (a2b 3 (n mod 4) 0 cs) (\<lambda>out. Inr (byte_of (left * 16 + n div 4) # out))
            else bindR (a2b 0 0 0 cs) (\<lambda>out. Inr (byte_of (left * 64 + n) # out))))"

definition ascii :: "string \<Rightarrow> bool" where
  "ascii s \<longleftrightarrow> list_all (\<lambda>c. (of_char c :: nat) < 128) s"

definition unb64 :: "string \<Rightarrow> bytes res" where
  "unb64 s =
     bindR (requireR (ascii s) (Exc PyValueError ''ascii'')) (\<lambda>_.
     a2b 0 0 0 (s @ replicate ((4 - length s mod 4) mod 4) (CHR ''='')))"

section \<open>Round trip\<close>

lemma byte_less: "unat (a :: 8 word) < 256"
  using unsigned_less [of a, where 'a = nat] by simp

lemma byte_parts [simp]:
  "unat (a :: 8 word) div 4 < 64" "unat a mod 4 * 16 + unat (b :: 8 word) div 16 < 64"
  "unat b mod 16 * 4 + unat (c :: 8 word) div 64 < 64" "unat a mod 4 * 16 < 64" "unat b mod 16 * 4 < 64"
  using byte_less [of a] byte_less [of b] byte_less [of c] by linarith+

lemma byte_ofI: "n = unat a \<Longrightarrow> byte_of n = a"
  by (simp add: byte_of_def)

lemma sextet_join:
  fixes x y :: nat
  shows "y < 16 \<Longrightarrow> (x * 16 + y) div 16 = x" "y < 16 \<Longrightarrow> (x * 16 + y) mod 16 = y"
    "y < 4 \<Longrightarrow> (x * 4 + y) div 4 = x" "y < 4 \<Longrightarrow> (x * 4 + y) mod 4 = y"
  by simp_all

lemma byte_join:
  fixes a b c :: "8 word"
  shows "byte_of (unat a div 4 * 4 + (unat a mod 4 * 16 + unat b div 16) div 16) = a"
    and "byte_of ((unat a mod 4 * 16 + unat b div 16) mod 16 * 16 + (unat b mod 16 * 4 + unat c div 64) div 4) = b"
    and "byte_of ((unat b mod 16 * 4 + unat c div 64) mod 4 * 64 + unat c mod 64) = c"
proof -
  have "unat b div 16 < 16" "unat c div 64 < 4"
    using byte_less [of b] byte_less [of c] by linarith+
  then show "byte_of (unat a div 4 * 4 + (unat a mod 4 * 16 + unat b div 16) div 16) = a"
    "byte_of ((unat a mod 4 * 16 + unat b div 16) mod 16 * 16 + (unat b mod 16 * 4 + unat c div 64) div 4) = b"
    "byte_of ((unat b mod 16 * 4 + unat c div 64) mod 4 * 64 + unat c mod 64) = c"
    by (simp_all only: sextet_join div_mult_mod_eq) (simp_all add: byte_of_def)
qed

lemma byte_join_tail:
  fixes a b :: "8 word"
  shows "byte_of (unat a div 4 * 4 + (unat a mod 4 * 16) div 16) = a"
    and "byte_of ((unat a mod 4 * 16 + unat b div 16) mod 16 * 16 + (unat b mod 16 * 4) div 4) = b"
  using byte_join(1) [of a 0] byte_join(2) [of a b 0] by simp_all

lemma a2b_group:
  assumes "p < 64" and "q < 64" and "r < 64"
  shows "s < 64 \<Longrightarrow> a2b 0 0 0 (b64_char p # b64_char q # b64_char r # b64_char s # cs)
     = bindR (a2b 0 0 0 cs) (\<lambda>out. Inr (byte_of (p * 4 + q div 16)
         # byte_of (q mod 16 * 16 + r div 4) # byte_of (r mod 4 * 64 + s) # out))"
    and "a2b 0 0 0 [b64_char p, b64_char q, b64_char r, CHR ''='']
     = Inr [byte_of (p * 4 + q div 16), byte_of (q mod 16 * 16 + r div 4)]"
    and "a2b 0 0 0 [b64_char p, b64_char q, CHR ''='', CHR ''=''] = Inr [byte_of (p * 4 + q div 16)]"
  using assms by (cases "a2b 0 0 0 cs"; simp)+

lemma rstrip_append:
  "d \<noteq> c \<Longrightarrow> rstrip_char c (xs @ d # ys) = xs @ d # rstrip_char c ys"
proof -
  assume d: "d \<noteq> c"
  have "dropWhile (\<lambda>e. e = c) (zs @ d # us) = dropWhile (\<lambda>e. e = c) zs @ d # us" for zs us
    using d by (induction zs) auto
  then show ?thesis by (simp add: rstrip_char_def)
qed

lemma b64_simps:
  "b64 [] = []"
  "b64 [a] = [b64_char (unat a div 4), b64_char (unat a mod 4 * 16)]"
  "b64 [a, b] = [b64_char (unat a div 4), b64_char (unat a mod 4 * 16 + unat b div 16),
     b64_char (unat b mod 16 * 4)]"
  "b64 (a # b # c # rest) =
     [b64_char (unat a div 4), b64_char (unat a mod 4 * 16 + unat b div 16),
      b64_char (unat b mod 16 * 4 + unat c div 64), b64_char (unat c mod 64)] @ b64 rest"
proof -
  have last: "b64_char (unat c mod 64) \<noteq> CHR ''=''" by (rule b64_char_pad) simp
  show "b64 (a # b # c # rest) =
     [b64_char (unat a div 4), b64_char (unat a mod 4 * 16 + unat b div 16),
      b64_char (unat b mod 16 * 4 + unat c div 64), b64_char (unat c mod 64)] @ b64 rest"
    using rstrip_append [OF last, of "[b64_char (unat a div 4),
       b64_char (unat a mod 4 * 16 + unat b div 16), b64_char (unat b mod 16 * 4 + unat c div 64)]"]
    by (simp add: b64_def)
qed (simp_all add: b64_def rstrip_char_def)

lemma ascii_b64_char: "n < 64 \<Longrightarrow> (of_char (b64_char n) :: nat) < 128"
  by (auto simp: b64_char_def)

lemma ascii_b64: "ascii (b64 bs)"
  by (induction bs rule: b64_encode.induct) (auto simp: b64_simps ascii_def ascii_b64_char)

lemma a2b_b64:
  "a2b 0 0 0 (b64 bs @ replicate ((4 - length (b64 bs) mod 4) mod 4) (CHR ''='')) = Inr bs"
proof (induction bs rule: b64_encode.induct)
  case (2 a)
  show ?case
    using a2b_group(3) [of "unat a div 4" "unat a mod 4 * 16" 0]
    by (simp only: b64_simps byte_parts byte_join_tail) (simp add: numeral_2_eq_2 del: a2b.simps)
next
  case (3 a b)
  show ?case
    using a2b_group(2) [of "unat a div 4" "unat a mod 4 * 16 + unat b div 16" "unat b mod 16 * 4"]
    by (simp only: b64_simps byte_parts byte_join byte_join_tail) simp
next
  case (4 a b c rest)
  have "length (b64 (a # b # c # rest)) mod 4 = length (b64 rest) mod 4" by (simp add: b64_simps)
  then show ?case
    by (simp only: b64_simps append.simps a2b_group(1) byte_parts mod_less_divisor zero_less_numeral
        byte_join 4 bindR_simps)
qed (simp add: b64_simps)

lemma unb64_b64 [simp]: "unb64 (b64 bs) = Inr bs"
  using a2b_b64 [of bs] by (simp add: unb64_def ascii_b64 bindR_def requireR_def)

section \<open>Text as bytes\<close>

text \<open>\<open>s.encode("utf-8")\<close>, for code points below 256.\<close>

definition utf8_char :: "char \<Rightarrow> bytes" where
  "utf8_char c =
     (let n = (of_char c :: nat)
      in if n < 128 then [word_of_nat n] else [word_of_nat (192 + n div 64), word_of_nat (128 + n mod 64)])"

definition utf8 :: "string \<Rightarrow> bytes" where
  "utf8 s = concat (map utf8_char s)"

lemma utf8_ascii: "ascii s \<Longrightarrow> utf8 s = map (\<lambda>c. word_of_nat (of_char c)) s"
  by (induction s) (simp_all add: utf8_def utf8_char_def ascii_def)

lemma word_of_char_inj:
  assumes "(word_of_nat (of_char c) :: 8 word) = word_of_nat (of_char d)"
  shows "c = d"
proof -
  have "unat (word_of_nat (of_char c) :: 8 word) = unat (word_of_nat (of_char d) :: 8 word)"
    using assms by simp
  then have "(of_char c :: nat) = of_char d" by (simp add: unat_of_nat)
  then show ?thesis by (metis char_of_char)
qed

lemma utf8_inj: "ascii s \<Longrightarrow> ascii t \<Longrightarrow> utf8 s = utf8 t \<Longrightarrow> s = t"
  by (simp add: utf8_ascii)
     (metis (mono_tags, lifting) injI inj_map_eq_map word_of_char_inj)

text \<open>
  Keys, digests and signatures survive their text: what the unpadded URL-safe encoder
  writes, the lenient decoder reads back, for every sequence of bytes.
\<close>

theorem base64_round_trip: "unb64 (b64 bs) = Inr bs"
  by (rule unb64_b64)

end
