(* ===== verification/Maya_Time.thy ===== *)
theory Maya_Time
  imports Maya_Prelude
begin

text \<open>
  Aware UTC datetimes, as the program stamps and compares them. An instant is the number of
  microseconds since 0001-01-01T00:00:00+00:00; \<open>format_time\<close> is \<open>_format_time\<close> of
  \<open>src/project_maya/broker.py\<close>, \<open>value.astimezone(UTC).isoformat()\<close>, and \<open>parse_time\<close> is
  \<open>datetime.fromisoformat\<close>: exact on the texts \<open>isoformat\<close> writes for UTC, a parameter on
  the other texts it accepts. Every instant is read back from its text.
\<close>

type_synonym instant = nat

section \<open>The proleptic Gregorian calendar\<close>

definition leap :: "nat \<Rightarrow> bool" where
  "leap y \<longleftrightarrow> 4 dvd y \<and> (\<not> 100 dvd y \<or> 400 dvd y)"

definition days_before_year :: "nat \<Rightarrow> nat" where
  "days_before_year y = (y - 1) * 365 + (y - 1) div 4 + (y - 1) div 400 - (y - 1) div 100"

definition month_lengths :: "nat \<Rightarrow> nat list" where
  "month_lengths y = [31, if leap y then 29 else 28, 31, 30, 31, 30, 31, 31, 30, 31, 30, 31]"

text \<open>The days since 0001-01-01 of a date (\<open>date.toordinal() - 1\<close>).\<close>

definition day_number :: "nat \<Rightarrow> nat \<Rightarrow> nat \<Rightarrow> nat" where
  "day_number y m d = days_before_year y + sum_list (take (m - 1) (month_lengths y)) + (d - 1)"

definition split_year :: "nat \<Rightarrow> nat \<times> nat" where
  "split_year n =
     (let n400 = n div 146097; r400 = n mod 146097;
          n100 = r400 div 36524; r100 = r400 mod 36524;
          n4 = r100 div 1461; r4 = r100 mod 1461;
          n1 = r4 div 365;
          y = n400 * 400 + n100 * 100 + n4 * 4 + n1
      in if n1 = 4 \<or> n100 = 4 then (y, 365) else (y + 1, r4 mod 365))"

fun split_month :: "nat list \<Rightarrow> nat \<Rightarrow> nat \<times> nat" where
  "split_month [] d = (0, d)"
| "split_month (l # ls) d =
     (if d < l then (1, d + 1) else (case split_month ls (d - l) of (m, r) \<Rightarrow> (m + 1, r)))"

lemma days_before_year_split:
  assumes "b \<le> 3" and "c \<le> 24" and "e \<le> 3"
  shows "days_before_year (a * 400 + b * 100 + c * 4 + e + 1) = a * 146097 + b * 36524 + c * 1461 + e * 365"
proof -
  let ?y = "a * 400 + b * 100 + c * 4 + e"
  have "?y div 4 = a * 100 + b * 25 + c" and "?y div 400 = a" and "?y div 100 = a * 4 + b"
    using assms by simp_all
  then show ?thesis by (simp add: days_before_year_def)
qed

lemma split_year_ok:
  assumes "split_year n = (y, d)"
  shows "days_before_year y + d = n \<and> d < (if leap y then 366 else 365) \<and> 1 \<le> y"
proof -
  define a where "a = n div 146097"
  define r where "r = n mod 146097"
  define b where "b = r div 36524"
  define s where "s = r mod 36524"
  define c where "c = s div 1461"
  define t where "t = s mod 1461"
  define e where "e = t div 365"
  have n: "n = a * 146097 + r" "r < 146097" by (simp_all add: a_def r_def)
  have r: "r = b * 36524 + s" "s < 36524" by (simp_all add: b_def s_def)
  have s: "s = c * 1461 + t" "t < 1461" by (simp_all add: c_def t_def)
  have t: "t = e * 365 + t mod 365" "t mod 365 < 365" by (simp_all add: e_def)
  have split: "(y, d) = (if e = 4 \<or> b = 4 then (a * 400 + b * 100 + c * 4 + e, 365)
                else (a * 400 + b * 100 + c * 4 + e + 1, t mod 365))"
    using assms unfolding split_year_def Let_def a_def r_def b_def s_def c_def t_def e_def by simp
  have c: "c \<le> 24" using r(2) s by linarith
  have b: "b \<le> 4" using n(2) r by linarith
  have e: "e \<le> 4" using s(2) t by linarith
  consider (day) "e \<noteq> 4" "b \<noteq> 4" | (century) "b = 4" | (fourth) "b \<noteq> 4" "e = 4" by blast
  then show ?thesis
  proof cases
    case day
    then have y: "y = a * 400 + b * 100 + c * 4 + e + 1" "d = t mod 365" using split by auto
    have "days_before_year y = a * 146097 + b * 36524 + c * 1461 + e * 365"
      unfolding y(1) using day b e c by (intro days_before_year_split) linarith+
    then show ?thesis using n r s t y by auto
  next
    case century
    then have "s = 0" using n(2) r by linarith
    then have z: "c = 0" "t = 0" "e = 0" by (simp_all add: c_def t_def e_def)
    then have y: "y = a * 400 + 3 * 100 + 24 * 4 + 3 + 1" "d = 365" using split century by auto
    have "days_before_year y = a * 146097 + 3 * 36524 + 24 * 1461 + 3 * 365"
      unfolding y(1) by (rule days_before_year_split) simp_all
    moreover have "leap y"
    proof -
      have "y = 400 * (a + 1)" using y(1) by simp
      then have "400 dvd y" by simp
      moreover from this have "4 dvd y" by (rule dvd_trans [rotated]) simp
      ultimately show ?thesis by (simp add: leap_def)
    qed
    ultimately show ?thesis using n r z century y by simp
  next
    case fourth
    then have z: "t = 1460" using s(2) t by linarith
    then have c': "c \<le> 23" using r(2) s by linarith
    have y: "y = a * 400 + b * 100 + c * 4 + 3 + 1" "d = 365" using split fourth by auto
    have "days_before_year y = a * 146097 + b * 36524 + c * 1461 + 3 * 365"
      unfolding y(1) using fourth b c' by (intro days_before_year_split) linarith+
    moreover have "leap y"
    proof -
      have "y = 4 * (a * 100 + b * 25 + c + 1)" using y(1) by simp
      then have "4 dvd y" by (rule dvdI)
      moreover have "\<not> 100 dvd y"
      proof -
        have "y = (c * 4 + 4) + 100 * (a * 4 + b)" using y(1) by simp
        then have "y mod 100 = c * 4 + 4" using c' by (simp only: mod_mult_self2) simp
        then show ?thesis by (simp add: dvd_eq_mod_eq_0)
      qed
      ultimately show ?thesis by (simp add: leap_def)
    qed
    ultimately show ?thesis using n r s z y by simp
  qed
qed

lemma split_month_ok:
  assumes "\<forall>l \<in> set ls. l \<le> B"
  shows "split_month ls d = (m, r) \<Longrightarrow> d < sum_list ls
     \<Longrightarrow> sum_list (take (m - 1) ls) + (r - 1) = d \<and> 1 \<le> m \<and> m \<le> length ls \<and> 1 \<le> r \<and> r \<le> B"
  using assms
proof (induction ls d arbitrary: m r rule: split_month.induct)
  case (1 d)
  then show ?case by simp
next
  case (2 l ls d)
  show ?case
  proof (cases "d < l")
    case True
    then show ?thesis using 2 by auto
  next
    case False
    obtain m' r' where rest: "split_month ls (d - l) = (m', r')" by force
    then have "m = m' + 1" "r = r'" using 2(2) False by simp_all
    moreover have "d - l < sum_list ls" using 2(3) False by simp
    then have "sum_list (take (m' - 1) ls) + (r' - 1) = d - l \<and> 1 \<le> m' \<and> m' \<le> length ls \<and> 1 \<le> r' \<and> r' \<le> B"
      using 2(1) [OF False rest] 2(4) by simp
    ultimately show ?thesis using False by (cases m') auto
  qed
qed

lemma length_month_lengths: "length (month_lengths y) = 12"
  by (simp add: month_lengths_def)

lemma month_lengths_le: "\<forall>l \<in> set (month_lengths y). l \<le> 31"
  by (simp add: month_lengths_def)

lemma sum_month_lengths: "sum_list (month_lengths y) = (if leap y then 366 else 365)"
  by (simp add: month_lengths_def)

section \<open>The text of an instant\<close>

definition digit :: "nat \<Rightarrow> char" where
  "digit n = char_of (48 + n mod 10)"

definition pad2 :: "nat \<Rightarrow> string" where
  "pad2 n = [digit (n div 10), digit n]"

definition pad4 :: "nat \<Rightarrow> string" where
  "pad4 n = pad2 (n div 100) @ pad2 n"

definition pad6 :: "nat \<Rightarrow> string" where
  "pad6 n = pad2 (n div 10000) @ pad2 (n div 100) @ pad2 n"

definition format_date :: "nat \<Rightarrow> string" where
  "format_date n =
     (case split_year n of (y, d) \<Rightarrow>
       (case split_month (month_lengths y) d of (m, r) \<Rightarrow>
         pad4 y @ ''-'' @ pad2 m @ ''-'' @ pad2 r))"

definition format_time :: "instant \<Rightarrow> string" where
  "format_time t =
     (let micro = t mod 1000000; sec = t div 1000000
      in format_date (sec div 86400) @ ''T'' @ pad2 (sec mod 86400 div 3600) @ '':''
         @ pad2 (sec mod 3600 div 60) @ '':'' @ pad2 (sec mod 60)
         @ (if micro = 0 then [] else ''.'' @ pad6 micro) @ ''+00:00'')"

definition digits_value :: "string \<Rightarrow> nat" where
  "digits_value s = foldl (\<lambda>n c. 10 * n + (of_char c - 48)) 0 s"

text \<open>The instant a text of the shape above gives, whatever its characters are.\<close>

definition read_time :: "string \<Rightarrow> instant" where
  "read_time s =
     (let part = (\<lambda>i n. digits_value (take n (drop i s)));
          day = day_number (part 0 4) (part 5 2) (part 8 2);
          sec = part 11 2 * 3600 + part 14 2 * 60 + part 17 2;
          micro = (if take 1 (drop 19 s) = ''.'' then part 20 6 else 0)
      in (day * 86400 + sec) * 1000000 + micro)"

definition parse_time :: "(string \<Rightarrow> instant res) \<Rightarrow> string \<Rightarrow> instant res" where
  "parse_time other s = (if format_time (read_time s) = s then Inr (read_time s) else other s)"

definition max_instant :: instant where
  "max_instant = 3652059 * 86400000000"

text \<open>\<open>t + timedelta(seconds=d)\<close>.\<close>

definition add_seconds :: "instant \<Rightarrow> int \<Rightarrow> instant res" where
  "add_seconds t d =
     (let u = int t + d * 1000000
      in if 0 \<le> u \<and> u < int max_instant then Inr (nat u)
         else Inl (Exc OtherException ''date value out of range''))"

lemma digit_value: "(of_char (digit n) :: nat) - 48 = n mod 10"
  by (simp add: digit_def)

lemma digits_pad2: "digits_value (s @ pad2 n) = 100 * digits_value s + n mod 100"
proof -
  have "n mod (10 * 10) = 10 * (n div 10 mod 10) + n mod 10" by (rule mod_mult2_eq)
  then show ?thesis by (simp add: digits_value_def pad2_def digit_value)
qed

lemma pad_value:
  "n < 100 \<Longrightarrow> digits_value (pad2 n) = n"
  "n < 10000 \<Longrightarrow> digits_value (pad4 n) = n"
  "n < 1000000 \<Longrightarrow> digits_value (pad6 n) = n"
proof -
  have nil: "digits_value [] = 0" by (simp add: digits_value_def)
  have two: "digits_value (pad2 k) = k mod 100" for k using digits_pad2 [of "[]" k] nil by simp
  have four: "digits_value (pad2 (k div 100) @ pad2 k) = k mod 10000" for k
    using mod_mult2_eq [of k 100 100] by (simp add: digits_pad2 two)
  show "n < 100 \<Longrightarrow> digits_value (pad2 n) = n" by (simp add: two)
  show "n < 10000 \<Longrightarrow> digits_value (pad4 n) = n" by (simp add: pad4_def four)
  have six: "digits_value ((pad2 (n div 10000) @ pad2 (n div 100)) @ pad2 n) = n mod 1000000"
    using mod_mult2_eq [of n 100 10000] four [of "n div 100"]
    by (simp only: digits_pad2 [of "pad2 (n div 10000) @ pad2 (n div 100)"] div_mult2_eq [symmetric]) simp
  then show "n < 1000000 \<Longrightarrow> digits_value (pad6 n) = n" by (simp add: pad6_def)
qed

lemma pad_length [simp]: "length (pad2 n) = 2" "length (pad4 n) = 4" "length (pad6 n) = 6"
  by (simp_all add: pad2_def pad4_def pad6_def)

lemma year_bound:
  assumes "n < 3652059" and "split_year n = (y, d)"
  shows "y < 10000"
proof (rule ccontr)
  assume "\<not> y < 10000"
  define z where "z = y - 1"
  have z: "9999 \<le> z" using \<open>\<not> y < 10000\<close> by (simp add: z_def)
  have "2499 \<le> z div 4" and quad: "24 \<le> z div 400" using z by linarith+
  then have "2400 + z div 4 div 25 \<le> z div 4" by linarith
  then have "2400 + z div 100 \<le> z div 4" by (simp add: div_mult2_eq [symmetric])
  then have "9999 * 365 + 2424 \<le> days_before_year y"
    using z quad unfolding days_before_year_def z_def [symmetric] by linarith
  then show False using split_year_ok [OF assms(2)] assms(1) by simp
qed

lemma clock_parts:
  "s mod 86400 div 3600 * 3600 + s mod 3600 div 60 * 60 + s mod 60 = s mod (86400 :: nat)"
proof -
  have "s mod 86400 div 3600 * 3600 + s mod 86400 mod 3600 = s mod 86400" by (rule div_mult_mod_eq)
  moreover have "s mod 3600 div 60 * 60 + s mod 3600 mod 60 = s mod 3600" by (rule div_mult_mod_eq)
  ultimately show ?thesis by (simp add: mod_mod_cancel)
qed

lemma read_format:
  assumes "t < max_instant"
  shows "read_time (format_time t) = t"
proof -
  define sec where "sec = t div 1000000"
  define micro where "micro = t mod 1000000"
  obtain y d where y: "split_year (sec div 86400) = (y, d)" by force
  obtain m r where m: "split_month (month_lengths y) d = (m, r)" by force
  have days: "sec div 86400 < 3652059"
    using assms by (simp add: sec_def max_instant_def div_mult2_eq [symmetric] less_mult_imp_div_less)
  have bound: "y < 10000" by (rule year_bound [OF days y])
  have yd: "days_before_year y + d = sec div 86400" "d < sum_list (month_lengths y)"
    using split_year_ok [OF y] by (simp_all add: sum_month_lengths)
  have md: "sum_list (take (m - 1) (month_lengths y)) + (r - 1) = d" "m \<le> 12" "r \<le> 31"
    using split_month_ok [OF month_lengths_le m yd(2)] by (simp_all add: length_month_lengths)
  have shown: "format_time t = pad4 y @ ''-'' @ pad2 m @ ''-'' @ pad2 r @ ''T'' @ pad2 (sec mod 86400 div 3600)
       @ '':'' @ pad2 (sec mod 3600 div 60) @ '':'' @ pad2 (sec mod 60)
       @ (if micro = 0 then [] else ''.'' @ pad6 micro) @ ''+00:00''"
    by (simp add: format_time_def format_date_def Let_def y m sec_def [symmetric] micro_def [symmetric])
  have "day_number y m r = sec div 86400"
    using yd(1) md(1) by (simp add: day_number_def)
  moreover have "sec mod 86400 div 3600 < 100" "sec mod 3600 div 60 < 100" "sec mod 60 < 100" "micro < 1000000"
    by (simp_all add: micro_def less_mult_imp_div_less)
  moreover have "sec mod 86400 div 3600 * 3600 + sec mod 3600 div 60 * 60 + sec mod 60 = sec mod 86400"
    by (rule clock_parts)
  ultimately have "read_time (format_time t)
      = (sec div 86400 * 86400 + sec mod 86400) * 1000000 + micro"
    unfolding read_time_def Let_def shown using bound md by (simp add: pad_value)
  then show ?thesis by (simp add: sec_def micro_def)
qed

lemma parse_format [simp]: "t < max_instant \<Longrightarrow> parse_time other (format_time t) = Inr t"
  by (simp add: parse_time_def read_format)

lemma add_seconds_ok:
  "add_seconds t d = Inr u \<Longrightarrow> u < max_instant \<and> int u = int t + d * 1000000"
  by (auto simp: add_seconds_def Let_def split: if_splits)

text \<open>
  A time stamp the program writes is read back as the same instant, whatever the
  interpreter makes of other texts: calendar, clock and microseconds survive.
\<close>

theorem time_text_round_trip:
  assumes "t < max_instant"
  shows "parse_time other (format_time t) = Inr t"
  using assms by (rule parse_format)

theorem time_text_round_trip_witness:
  "(5529600000001 :: nat) < max_instant
   \<and> format_time 5529600000001 = ''0001-03-06T00:00:00.000001+00:00''
   \<and> parse_time (\<lambda>_. Inl (Exc PyValueError [])) (format_time 5529600000001) = Inr 5529600000001"
proof -
  have "(5529600000001 :: nat) < max_instant" by (simp add: max_instant_def)
  moreover have "format_time 5529600000001 = ''0001-03-06T00:00:00.000001+00:00''"
    by (simp add: format_time_def format_date_def split_year_def month_lengths_def leap_def pad2_def
        pad4_def pad6_def digit_def char_of_def bit_0)
  ultimately show ?thesis using time_text_round_trip by blast
qed

end
