(* ===== verification/Maya_Secrets.thy ===== *)
theory Maya_Secrets
  imports Maya_Config_Types
begin

text \<open>
  \<open>src/project_maya/secrets.py\<close>: secret references, the contract of a secret store
  (\<open>SecretStore\<close>) as a locale, and its two portable implementations, the in-memory
  Enterprise backend and the honest fallback without a backend. The DPAPI store, which only
  wraps Windows calls around files, is not modelled beyond its path rule.
\<close>

section \<open>References\<close>

record SecretRef =
  ref_name :: string

definition ref_str :: "SecretRef \<Rightarrow> string" where
  "ref_str r = ''secret://'' @ ref_name r"

definition parse_ref :: "string \<Rightarrow> SecretRef res" where
  "parse_ref v =
     (if \<not> starts_with v ''secret://'' \<or> v = ''secret://''
      then Inl (Exc SecretReferenceError ''secret references must use secret://<name>'')
      else Inr \<lparr>ref_name = drop 9 v\<rparr>)"

definition secret_char :: "char \<Rightarrow> bool" where
  "secret_char c \<longleftrightarrow> is_alnum c \<or> c \<in> set ''-_.''"

definition safe_secret_part :: "string \<Rightarrow> string res" where
  "safe_secret_part v =
     bindR (requireR (v \<noteq> [] \<and> v \<noteq> ''.'' \<and> v \<noteq> ''..'')
       (Exc SecretReferenceError ''secret reference contains an invalid path part'')) (\<lambda>_.
     bindR (requireR (list_all secret_char v)
       (Exc SecretReferenceError ''secret reference contains unsupported characters'')) (\<lambda>_.
     Inr v))"

definition validate_secret_ref :: "SecretRef \<Rightarrow> unit res" where
  "validate_secret_ref r =
     all_okR (\<lambda>p. bindR (safe_secret_part p) (\<lambda>_. Inr ())) (split_on (CHR ''/'') (ref_name r))"

text \<open>
  \<open>WindowsDPAPISecretStore._path_for\<close> below a root without links: the parts of the name
  under the root, the last one with a suffix.
\<close>

definition secret_path :: "path \<Rightarrow> SecretRef \<Rightarrow> path res" where
  "secret_path base r =
     bindR (mapR safe_secret_part (split_on (CHR ''/'') (ref_name r))) (\<lambda>parts.
     Inr (Path (path_root base) (path_parts base @ butlast parts @ [last parts @ ''.secret''])))"

section \<open>Health\<close>

datatype SecretStoreStatus = HEALTHY | STORE_UNAVAILABLE | UNHEALTHY

datatype SecretBackendKind = PLATFORM | MASTER_KEY | TPM_HSM | EXTERNAL_VAULT | TEST

fun backend_kind_value :: "SecretBackendKind \<Rightarrow> string" where
  "backend_kind_value PLATFORM = ''platform''"
| "backend_kind_value MASTER_KEY = ''master_key''"
| "backend_kind_value TPM_HSM = ''tpm_hsm''"
| "backend_kind_value EXTERNAL_VAULT = ''external_vault''"
| "backend_kind_value TEST = ''test''"

record SecretStoreHealth =
  sh_backend :: string
  sh_status :: SecretStoreStatus
  sh_message :: string

record SecretBackendDescriptor =
  bd_kind :: SecretBackendKind
  bd_name :: string
  bd_location :: "string option"
  bd_key_ref :: "SecretRef option"

definition backend_summary :: "SecretBackendDescriptor \<Rightarrow> string" where
  "backend_summary d =
     ''kind='' @ backend_kind_value (bd_kind d) @ ''; name='' @ bd_name d
     @ ''; location='' @ (if bd_location d \<in> {None, Some []} then ''not_configured'' else ''configured'')
     @ ''; key_ref='' @ (if bd_key_ref d = None then ''not_configured'' else ''configured'')"

section \<open>The contract of a store\<close>

record 's secret_ops =
  so_read :: "'s \<Rightarrow> SecretRef \<Rightarrow> string res"
  so_write :: "SecretRef \<Rightarrow> string \<Rightarrow> 's \<Rightarrow> 's res"
  so_delete :: "SecretRef \<Rightarrow> 's \<Rightarrow> 's res"
  so_contains :: "'s \<Rightarrow> SecretRef \<Rightarrow> bool res"

text \<open>
  What a client relies on: a write that succeeds is read back and touches no other
  reference; a delete that succeeds leaves nothing to read, and touches no other reference;
  \<open>contains\<close> says whether a read would succeed; a failing operation is an exception.
\<close>

locale secret_store =
  fixes ops :: "'s secret_ops"
  assumes read_written: "so_write ops r v s = Inr t \<Longrightarrow> so_read ops t r = Inr v"
    and write_other: "so_write ops r v s = Inr t \<Longrightarrow> q \<noteq> r \<Longrightarrow> so_read ops t q = so_read ops s q"
    and read_deleted: "so_delete ops r s = Inr t \<Longrightarrow> \<not> is_ok (so_read ops t r)"
    and delete_other: "so_delete ops r s = Inr t \<Longrightarrow> q \<noteq> r \<Longrightarrow> so_read ops t q = so_read ops s q"
    and contains_read: "so_contains ops s r = Inr b \<Longrightarrow> b = is_ok (so_read ops s r)"
begin

lemma rotate:
  assumes "so_write ops r v s = Inr t" and "so_write ops r v' t = Inr u"
  shows "so_read ops u r = Inr v'"
  using assms(2) by (rule read_written)

lemma revoked_for_good:
  assumes "so_delete ops r s = Inr t" and "so_write ops q v t = Inr u" and "q \<noteq> r"
  shows "\<not> is_ok (so_read ops u r)"
  using read_deleted [OF assms(1)] write_other [OF assms(2), of r] assms(3) by simp

lemma contains_written:
  assumes "so_write ops r v s = Inr t" and "so_contains ops t r = Inr b"
  shows b
  using read_written [OF assms(1)] contains_read [OF assms(2)] by simp

end

section \<open>The in-memory backend\<close>

type_synonym memory_store = "(string \<times> string) list"

definition store_error :: "string \<Rightarrow> pyexc" where
  "store_error m = Exc SecretStoreError m"

definition memory_read :: "memory_store \<Rightarrow> SecretRef \<Rightarrow> string res" where
  "memory_read s r =
     bindR (validate_secret_ref r) (\<lambda>_.
     case map_of s (ref_str r) of
       None \<Rightarrow> Inl (store_error (''secret not found: '' @ ref_str r))
     | Some v \<Rightarrow> Inr v)"

definition memory_write :: "SecretRef \<Rightarrow> string \<Rightarrow> memory_store \<Rightarrow> memory_store res" where
  "memory_write r v s =
     bindR (validate_secret_ref r) (\<lambda>_. Inr (assoc_put (ref_str r) v s))"

definition memory_delete :: "SecretRef \<Rightarrow> memory_store \<Rightarrow> memory_store res" where
  "memory_delete r s =
     bindR (validate_secret_ref r) (\<lambda>_. Inr (filter (\<lambda>(k, _). k \<noteq> ref_str r) s))"

definition memory_contains :: "memory_store \<Rightarrow> SecretRef \<Rightarrow> bool res" where
  "memory_contains s r =
     bindR (validate_secret_ref r) (\<lambda>_. Inr (map_of s (ref_str r) \<noteq> None))"

definition memory_health :: "SecretBackendDescriptor \<Rightarrow> SecretStoreHealth" where
  "memory_health d = \<lparr>sh_backend = bd_name d, sh_status = HEALTHY, sh_message = backend_summary d\<rparr>"

definition memory_ops :: "memory_store secret_ops" where
  "memory_ops =
     \<lparr>so_read = memory_read, so_write = memory_write, so_delete = memory_delete,
      so_contains = memory_contains\<rparr>"

lemma ref_str_inj [simp]: "ref_str q = ref_str r \<longleftrightarrow> q = r"
  by (cases q, cases r) (simp add: ref_str_def)

lemma map_of_filter_key: "map_of (filter (\<lambda>(k, _). k \<noteq> a) s) b = (if b = a then None else map_of s b)"
  by (induction s) auto

interpretation memory: secret_store memory_ops
proof
  fix r q :: SecretRef and v :: string and s t :: memory_store and b :: bool
  show "so_read memory_ops t r = Inr v" if "so_write memory_ops r v s = Inr t"
    using that by (auto simp: memory_ops_def memory_write_def memory_read_def res_iffs)
  show "so_read memory_ops t q = so_read memory_ops s q"
    if "so_write memory_ops r v s = Inr t" "q \<noteq> r"
    using that by (auto simp: memory_ops_def memory_write_def memory_read_def res_iffs)
  show "\<not> is_ok (so_read memory_ops t r)" if "so_delete memory_ops r s = Inr t"
    using that
    by (auto simp: memory_ops_def memory_delete_def memory_read_def map_of_filter_key res_iffs)
  show "so_read memory_ops t q = so_read memory_ops s q"
    if "so_delete memory_ops r s = Inr t" "q \<noteq> r"
    using that
    by (auto simp: memory_ops_def memory_delete_def memory_read_def map_of_filter_key res_iffs)
  show "b = is_ok (so_read memory_ops s r)" if "so_contains memory_ops s r = Inr b"
    using that
    by (auto simp: memory_ops_def memory_contains_def memory_read_def res_iffs split: option.splits)
qed

section \<open>No backend\<close>

definition unavailable_ops :: "string \<Rightarrow> unit secret_ops" where
  "unavailable_ops reason =
     \<lparr>so_read = (\<lambda>_ r. bindR (validate_secret_ref r) (\<lambda>_. Inl (store_error reason))),
      so_write = (\<lambda>r _ _. bindR (validate_secret_ref r) (\<lambda>_. Inl (store_error reason))),
      so_delete = (\<lambda>r _. bindR (validate_secret_ref r) (\<lambda>_. Inl (store_error reason))),
      so_contains = (\<lambda>_ r. bindR (validate_secret_ref r) (\<lambda>_. Inr False))\<rparr>"

definition unavailable_health :: "string \<Rightarrow> SecretStoreHealth" where
  "unavailable_health reason =
     \<lparr>sh_backend = ''unavailable'', sh_status = STORE_UNAVAILABLE, sh_message = reason\<rparr>"

interpretation unavailable: secret_store "unavailable_ops reason" for reason
  by unfold_locales (auto simp: unavailable_ops_def res_iffs)

section \<open>A reference cannot leave the store\<close>

lemma validate_secret_ref_iff:
  "validate_secret_ref r = Inr () \<longleftrightarrow>
   (\<forall>p \<in> set (split_on (CHR ''/'') (ref_name r)).
      p \<noteq> [] \<and> p \<noteq> ''.'' \<and> p \<noteq> ''..'' \<and> list_all secret_char p)"
  by (auto simp: validate_secret_ref_def all_okR_iff safe_secret_part_def res_iffs)

lemma mapR_safe_parts:
  "mapR safe_secret_part xs = Inr ys \<longleftrightarrow>
   ys = xs \<and> (\<forall>p \<in> set xs. p \<noteq> [] \<and> p \<noteq> ''.'' \<and> p \<noteq> ''..'' \<and> list_all secret_char p)"
proof (induction xs arbitrary: ys)
  case (Cons x xs)
  then show ?case by (auto simp: res_iffs safe_secret_part_def)
qed auto

lemma split_on_inj: "split_on c a = split_on c b \<Longrightarrow> a = b"
proof (induction a arbitrary: b)
  case Nil
  then show ?case by (cases b) (auto split: list.splits if_splits)
next
  case (Cons x a)
  then show ?case
    by (cases b) (auto split: list.splits if_splits)
qed

text \<open>
  Whatever the reference is, the file of a secret lies below the root of the store: a
  reference that is accepted gives a path strictly inside the root whose parts are neither
  empty nor dots, and two different references have different paths.
\<close>

theorem secret_path_confined:
  assumes "secret_path base r = Inr p" and "secret_path base q = Inr p'"
  shows "path_root p = path_root base
         \<and> (\<exists>below. path_parts p = path_parts base @ below \<and> below \<noteq> [] \<and> '''' \<notin> set below
              \<and> ''.'' \<notin> set below \<and> ''..'' \<notin> set below)
         \<and> (p = p' \<longleftrightarrow> r = q)"
proof -
  let ?x = "split_on (CHR ''/'') (ref_name r)" and ?y = "split_on (CHR ''/'') (ref_name q)"
  have p: "p = Path (path_root base) (path_parts base @ butlast ?x @ [last ?x @ ''.secret''])"
    and safe: "\<forall>w \<in> set ?x. w \<noteq> [] \<and> w \<noteq> ''.'' \<and> w \<noteq> ''..''"
    using assms(1) by (auto simp: secret_path_def res_iffs mapR_safe_parts)
  have p': "p' = Path (path_root base) (path_parts base @ butlast ?y @ [last ?y @ ''.secret''])"
    using assms(2) by (auto simp: secret_path_def res_iffs mapR_safe_parts)
  have "p = p' \<longleftrightarrow> ?x = ?y"
    unfolding p p' by simp (metis append_butlast_last_id split_on_nonempty)
  also have "\<dots> \<longleftrightarrow> r = q" using split_on_inj [of "CHR ''/''"] by (cases r, cases q) auto
  finally have "p = p' \<longleftrightarrow> r = q" .
  moreover have "\<forall>w \<in> set (butlast ?x). w \<noteq> [] \<and> w \<noteq> ''.'' \<and> w \<noteq> ''..''"
    using safe by (auto dest: in_set_butlastD)
  ultimately show ?thesis using p by auto
qed

theorem secret_path_confined_witness:
  "secret_path (Path ''/'' [''v'']) \<lparr>ref_name = ''a/b''\<rparr> = Inr (Path ''/'' [''v'', ''a'', ''b.secret''])
   \<and> secret_path (Path ''/'' [''v'']) \<lparr>ref_name = ''a''\<rparr> = Inr (Path ''/'' [''v'', ''a.secret''])
   \<and> Path ''/'' [''v'', ''a'', ''b.secret''] \<noteq> Path ''/'' [''v'', ''a.secret'']"
proof -
  have "secret_path (Path ''/'' [''v'']) \<lparr>ref_name = ''a/b''\<rparr> = Inr (Path ''/'' [''v'', ''a'', ''b.secret''])"
    "secret_path (Path ''/'' [''v'']) \<lparr>ref_name = ''a''\<rparr> = Inr (Path ''/'' [''v'', ''a.secret''])"
    by (simp_all add: secret_path_def safe_secret_part_def secret_char_def is_alnum_def is_lower_def)
  then show ?thesis using secret_path_confined by blast
qed

end
