(* ===== verification/Maya_Broker_Protocol.thy ===== *)
theory Maya_Broker_Protocol
  imports Maya_Config_Types Maya_Json Maya_Base64 Maya_Time Maya_Secrets
begin

text \<open>
  The signed messages of \<open>src/project_maya/broker.py\<close>: identities, requests and responses,
  what is signed, what a verifier checks and in which order, the replay cache and the
  conformance self-test. The Ed25519 and SHA-256 primitives, the clock and the source of
  randomness are arguments (\<open>benv\<close>); the state holds everything the operations change.
\<close>

section \<open>Environment and state\<close>

text \<open>
  \<open>be_sign private message\<close> and \<open>be_verify public signature message\<close> on raw keys of
  32 bytes, \<open>be_public\<close> the public key of a private one; \<open>be_crypto\<close> whether the
  package is installed. Every reading of the clock, every draw of random bytes and every
  file operation is one tick; \<open>be_fault\<close> is the failure of the file operation at a tick and
  \<open>be_torn\<close> whether a failing write leaves half a file.
\<close>

record benv =
  be_crypto :: bool
  be_public :: "bytes \<Rightarrow> bytes"
  be_sign :: "bytes \<Rightarrow> bytes \<Rightarrow> bytes"
  be_verify :: "bytes \<Rightarrow> bytes \<Rightarrow> bytes \<Rightarrow> bool"
  be_sha256 :: "bytes \<Rightarrow> bytes"
  be_clock :: "nat \<Rightarrow> instant"
  be_random :: "nat \<Rightarrow> nat \<Rightarrow> bytes"
  be_fault :: "nat \<Rightarrow> pyexc option"
  be_torn :: "nat \<Rightarrow> bool"
  be_float :: "pyfloat \<Rightarrow> string"
  be_repr :: "pyval \<Rightarrow> string"
  be_iso :: "string \<Rightarrow> instant res"
  be_loads :: "string \<Rightarrow> pyval res"
  be_bracket :: "string \<Rightarrow> bool"
  be_unquote :: "string \<Rightarrow> string"

text \<open>A JSON file is its document, or text that is no JSON.\<close>

datatype json_file = Document pyval | NotJson

record 's bworld =
  bw_secrets :: 's
  bw_files :: "path \<Rightarrow> json_file option"
  bw_tick :: nat
  bw_seen :: "string list"

definition tick_op :: "(nat \<Rightarrow> 'a) \<Rightarrow> ('s bworld, 'a) py" where
  "tick_op f = bnd (gets bw_tick) (\<lambda>t. bnd (modify (\<lambda>w. w\<lparr>bw_tick := Suc t\<rparr>)) (\<lambda>_. ret (f t)))"

definition now_op :: "benv \<Rightarrow> ('s bworld, instant) py" where
  "now_op env = tick_op (be_clock env)"

text \<open>\<open>secrets.token_urlsafe(n)\<close>.\<close>

definition token_urlsafe :: "benv \<Rightarrow> nat \<Rightarrow> ('s bworld, string) py" where
  "token_urlsafe env n = tick_op (\<lambda>t. b64 (be_random env t n))"

definition protocol_error :: "string \<Rightarrow> pyexc" where
  "protocol_error m = Exc BrokerProtocolError m"

definition operation_error :: "string \<Rightarrow> pyexc" where
  "operation_error m = Exc BrokerOperationError m"

section \<open>Identities and messages\<close>

definition BROKER_PROTOCOL_VERSION :: string where
  "BROKER_PROTOCOL_VERSION = ''maya-broker-v1''"

definition INSTANCE_PRIVATE_KEY_REF :: SecretRef where
  "INSTANCE_PRIVATE_KEY_REF = \<lparr>ref_name = ''broker/instance-private-key''\<rparr>"

definition INSTANCE_PUBLIC_KEY_REF :: SecretRef where
  "INSTANCE_PUBLIC_KEY_REF = \<lparr>ref_name = ''broker/instance-public-key''\<rparr>"

record BrokerInstanceIdentity =
  bi_instance_id :: string
  bi_key_id :: string
  bi_public_key :: string
  bi_private_key_ref :: SecretRef

record SignedBrokerRequest =
  rq_protocol_version :: string
  rq_instance_id :: string
  rq_key_id :: string
  rq_method :: string
  rq_path :: string
  rq_body_hash :: string
  rq_nonce :: string
  rq_issued_at :: string
  rq_expires_at :: string
  rq_signature :: string

record SignedBrokerResponse =
  rs_protocol_version :: string
  rs_broker_key_id :: string
  rs_request_nonce :: string
  rs_body_hash :: string
  rs_issued_at :: string
  rs_expires_at :: string
  rs_signature :: string

definition canonical_json :: "benv \<Rightarrow> pydict \<Rightarrow> bytes res" where
  "canonical_json env d = bindR (json_dumps (be_float env) '','' '':'' (VDict d)) (\<lambda>s. Inr (utf8 s))"

definition request_payload :: "benv \<Rightarrow> SignedBrokerRequest \<Rightarrow> bytes res" where
  "request_payload env r = canonical_json env
     [(VStr ''protocol_version'', VStr (rq_protocol_version r)),
      (VStr ''instance_id'', VStr (rq_instance_id r)),
      (VStr ''key_id'', VStr (rq_key_id r)),
      (VStr ''method'', VStr (rq_method r)),
      (VStr ''path'', VStr (rq_path r)),
      (VStr ''body_hash'', VStr (rq_body_hash r)),
      (VStr ''nonce'', VStr (rq_nonce r)),
      (VStr ''issued_at'', VStr (rq_issued_at r)),
      (VStr ''expires_at'', VStr (rq_expires_at r))]"

definition response_payload :: "benv \<Rightarrow> SignedBrokerResponse \<Rightarrow> bytes res" where
  "response_payload env r = canonical_json env
     [(VStr ''protocol_version'', VStr (rs_protocol_version r)),
      (VStr ''broker_key_id'', VStr (rs_broker_key_id r)),
      (VStr ''request_nonce'', VStr (rs_request_nonce r)),
      (VStr ''body_hash'', VStr (rs_body_hash r)),
      (VStr ''issued_at'', VStr (rs_issued_at r)),
      (VStr ''expires_at'', VStr (rs_expires_at r))]"

definition identity_summary :: "BrokerInstanceIdentity \<Rightarrow> pydict" where
  "identity_summary i =
     [(VStr ''instance_id'', VStr (bi_instance_id i)),
      (VStr ''key_id'', VStr (bi_key_id i)),
      (VStr ''public_key_state'', VStr ''configured''),
      (VStr ''private_key_ref'', VStr (ref_str (bi_private_key_ref i)))]"

definition request_summary :: "SignedBrokerRequest \<Rightarrow> pydict" where
  "request_summary r =
     [(VStr ''protocol_version'', VStr (rq_protocol_version r)),
      (VStr ''instance_id'', VStr (rq_instance_id r)),
      (VStr ''key_id'', VStr (rq_key_id r)),
      (VStr ''method'', VStr (rq_method r)),
      (VStr ''path'', VStr (rq_path r)),
      (VStr ''body_hash'', VStr (rq_body_hash r)),
      (VStr ''nonce_state'', VStr ''configured''),
      (VStr ''issued_at'', VStr (rq_issued_at r)),
      (VStr ''expires_at'', VStr (rq_expires_at r)),
      (VStr ''signature_state'', VStr ''configured'')]"

section \<open>Keys and digests\<close>

definition digest :: "benv \<Rightarrow> bytes \<Rightarrow> string" where
  "digest env v = b64 (be_sha256 env v)"

definition hash_body :: "benv \<Rightarrow> pydict \<Rightarrow> string res" where
  "hash_body env body = bindR (canonical_json env body) (\<lambda>v. Inr (digest env v))"

definition require_crypto :: "benv \<Rightarrow> unit res" where
  "require_crypto env =
     requireR (be_crypto env) (operation_error ''cryptography>=42 is required for broker protocol operations'')"

definition load_private_key :: "benv \<Rightarrow> string \<Rightarrow> bytes res" where
  "load_private_key env v =
     bindR (require_crypto env) (\<lambda>_. bindR (unb64 v) (\<lambda>raw.
     bindR (requireR (length raw = 32) (Exc PyValueError ''An Ed25519 private key is 32 bytes long'')) (\<lambda>_.
     Inr raw)))"

definition load_public_key :: "benv \<Rightarrow> string \<Rightarrow> bytes res" where
  "load_public_key env v =
     bindR (require_crypto env) (\<lambda>_. bindR (unb64 v) (\<lambda>raw.
     bindR (requireR (length raw = 32) (Exc PyValueError ''An Ed25519 public key is 32 bytes long'')) (\<lambda>_.
     Inr raw)))"

definition generate_instance_identity ::
  "benv \<Rightarrow> MayaConfig \<Rightarrow> ('s bworld, BrokerInstanceIdentity \<times> string) py" where
  "generate_instance_identity env config =
     bnd (lift (require_crypto env)) (\<lambda>_.
     bnd (tick_op (\<lambda>t. be_random env t 32)) (\<lambda>private_raw.
     let public_raw = be_public env private_raw;
         inst = instance_id (product config);
         key_id = take 16 (digest env (utf8 (inst @ '':'' @ b64 public_raw)))
     in ret (\<lparr>bi_instance_id = inst, bi_key_id = key_id, bi_public_key = b64 public_raw,
              bi_private_key_ref = INSTANCE_PRIVATE_KEY_REF\<rparr>, b64 private_raw)))"

section \<open>Signing\<close>

definition the_time :: "benv \<Rightarrow> instant option \<Rightarrow> ('s bworld, instant) py" where
  "the_time env now = (case now of Some t \<Rightarrow> ret t | None \<Rightarrow> now_op env)"

definition sign_broker_request ::
  "benv \<Rightarrow> BrokerInstanceIdentity \<Rightarrow> string \<Rightarrow> string \<Rightarrow> string \<Rightarrow> pydict \<Rightarrow> int \<Rightarrow> instant option
     \<Rightarrow> ('s bworld, SignedBrokerRequest) py" where
  "sign_broker_request env identity private_key mth path body ttl now =
     bnd (the_time env now) (\<lambda>issued.
     bnd (lift (hash_body env body)) (\<lambda>body_hash.
     bnd (token_urlsafe env 32) (\<lambda>nonce.
     bnd (lift (add_seconds issued ttl)) (\<lambda>expires.
     let request =
       \<lparr>rq_protocol_version = BROKER_PROTOCOL_VERSION, rq_instance_id = bi_instance_id identity,
        rq_key_id = bi_key_id identity, rq_method = upper mth, rq_path = path,
        rq_body_hash = body_hash, rq_nonce = nonce, rq_issued_at = format_time issued,
        rq_expires_at = format_time expires, rq_signature = []\<rparr>
     in bnd (lift (load_private_key env private_key)) (\<lambda>key.
        bnd (lift (request_payload env request)) (\<lambda>payload.
        ret (request\<lparr>rq_signature := b64 (be_sign env key payload)\<rparr>)))))))"

definition sign_broker_response ::
  "benv \<Rightarrow> string \<Rightarrow> string \<Rightarrow> string \<Rightarrow> pydict \<Rightarrow> int \<Rightarrow> instant option
     \<Rightarrow> ('s bworld, SignedBrokerResponse) py" where
  "sign_broker_response env broker_key_id broker_private_key request_nonce body ttl now =
     bnd (the_time env now) (\<lambda>issued.
     bnd (lift (hash_body env body)) (\<lambda>body_hash.
     bnd (lift (add_seconds issued ttl)) (\<lambda>expires.
     let response =
       \<lparr>rs_protocol_version = BROKER_PROTOCOL_VERSION, rs_broker_key_id = broker_key_id,
        rs_request_nonce = request_nonce, rs_body_hash = body_hash,
        rs_issued_at = format_time issued, rs_expires_at = format_time expires, rs_signature = []\<rparr>
     in bnd (lift (load_private_key env broker_private_key)) (\<lambda>key.
        bnd (lift (response_payload env response)) (\<lambda>payload.
        ret (response\<lparr>rs_signature := b64 (be_sign env key payload)\<rparr>))))))"

section \<open>Verifying\<close>

definition require_protocol :: "string \<Rightarrow> unit res" where
  "require_protocol version =
     requireR (version = BROKER_PROTOCOL_VERSION) (protocol_error ''unsupported broker protocol version'')"

definition require_hash :: "benv \<Rightarrow> string \<Rightarrow> pydict \<Rightarrow> unit res" where
  "require_hash env expected body =
     bindR (hash_body env body) (\<lambda>found.
     requireR (expected = found) (protocol_error ''broker message body hash mismatch''))"

definition require_fresh :: "benv \<Rightarrow> string \<Rightarrow> string \<Rightarrow> instant option \<Rightarrow> ('s bworld, unit) py" where
  "require_fresh env issued_at expires_at now =
     bnd (the_time env now) (\<lambda>current.
     bnd (lift (parse_time (be_iso env) issued_at)) (\<lambda>issued.
     bnd (lift (parse_time (be_iso env) expires_at)) (\<lambda>expires.
     bnd (lift (add_seconds current 60)) (\<lambda>limit.
     bnd (require (\<not> limit < issued) (protocol_error ''broker message issued_at is in the future'')) (\<lambda>_.
     require (\<not> expires \<le> current) (protocol_error ''broker message expired''))))))"

text \<open>\<open>ReplayCache.remember\<close>.\<close>

definition remember :: "string \<Rightarrow> ('s bworld, unit) py" where
  "remember nonce =
     bnd (gets (\<lambda>w. nonce \<in> set (bw_seen w))) (\<lambda>seen.
     bnd (require (\<not> seen) (protocol_error ''broker request nonce was replayed'')) (\<lambda>_.
     modify (\<lambda>w. w\<lparr>bw_seen := nonce # bw_seen w\<rparr>)))"

text \<open>\<open>cached\<close>: whether the caller passes its replay cache.\<close>

definition verify_broker_request ::
  "benv \<Rightarrow> SignedBrokerRequest \<Rightarrow> string \<Rightarrow> pydict \<Rightarrow> bool \<Rightarrow> instant option \<Rightarrow> ('s bworld, unit) py" where
  "verify_broker_request env request public_key body cached now =
     bnd (lift (require_protocol (rq_protocol_version request))) (\<lambda>_.
     bnd (lift (require_hash env (rq_body_hash request) body)) (\<lambda>_.
     bnd (require_fresh env (rq_issued_at request) (rq_expires_at request) now) (\<lambda>_.
     bnd (lift (load_public_key env public_key)) (\<lambda>key.
     bnd (lift (unb64 (rq_signature request))) (\<lambda>signature.
     bnd (lift (request_payload env request)) (\<lambda>payload.
     bnd (require (be_verify env key signature payload)
            (protocol_error ''broker request signature is invalid'')) (\<lambda>_.
     if cached then remember (rq_nonce request) else ret ())))))))"

definition verify_broker_response ::
  "benv \<Rightarrow> SignedBrokerResponse \<Rightarrow> string \<Rightarrow> string \<Rightarrow> pydict \<Rightarrow> instant option \<Rightarrow> ('s bworld, unit) py" where
  "verify_broker_response env response broker_public_key request_nonce body now =
     bnd (lift (require_protocol (rs_protocol_version response))) (\<lambda>_.
     bnd (require (rs_request_nonce response = request_nonce)
            (protocol_error ''broker response nonce does not match request'')) (\<lambda>_.
     bnd (lift (require_hash env (rs_body_hash response) body)) (\<lambda>_.
     bnd (require_fresh env (rs_issued_at response) (rs_expires_at response) now) (\<lambda>_.
     bnd (lift (load_public_key env broker_public_key)) (\<lambda>key.
     bnd (lift (unb64 (rs_signature response))) (\<lambda>signature.
     bnd (lift (response_payload env response)) (\<lambda>payload.
     require (be_verify env key signature payload)
       (protocol_error ''broker response signature is invalid''))))))))"

section \<open>What a signature covers\<close>

definition request_entries :: "SignedBrokerRequest \<Rightarrow> (string \<times> string) list" where
  "request_entries r =
     [(''body_hash'', rq_body_hash r), (''expires_at'', rq_expires_at r),
      (''instance_id'', rq_instance_id r), (''issued_at'', rq_issued_at r), (''key_id'', rq_key_id r),
      (''method'', rq_method r), (''nonce'', rq_nonce r), (''path'', rq_path r),
      (''protocol_version'', rq_protocol_version r)]"

definition response_entries :: "SignedBrokerResponse \<Rightarrow> (string \<times> string) list" where
  "response_entries r =
     [(''body_hash'', rs_body_hash r), (''broker_key_id'', rs_broker_key_id r),
      (''expires_at'', rs_expires_at r), (''issued_at'', rs_issued_at r),
      (''protocol_version'', rs_protocol_version r), (''request_nonce'', rs_request_nonce r)]"

lemma request_payload_text: "request_payload env r = Inr (utf8 (json_strings (request_entries r)))"
  by (simp add: request_payload_def canonical_json_def json_strings_def json_object_def json_field_def
      request_entries_def sort_key_def less_char_def)

lemma response_payload_text: "response_payload env r = Inr (utf8 (json_strings (response_entries r)))"
  by (simp add: response_payload_def canonical_json_def json_strings_def json_object_def json_field_def
      response_entries_def sort_key_def less_char_def)

lemma ascii_append [simp]: "ascii (s @ t) \<longleftrightarrow> ascii s \<and> ascii t"
  by (simp add: ascii_def)

lemma ascii_json_str [simp]: "ascii (json_str s)"
proof -
  have "ascii (json_char c)" for c
    by (auto simp: json_char_def Let_def ascii_def hex_digit_def) (use hex_digit_code [of c] in auto)
  then show ?thesis by (induction s) (auto simp: json_str_def ascii_def)
qed

lemma ascii_json_strings: "ascii (json_strings entries)"
proof -
  have join: "ascii (join_with '','' ws)" if "\<forall>w \<in> set ws. ascii w" for ws
    using that by (induction "'',''" ws rule: join_with.induct) (auto simp: ascii_def)
  have "ascii (json_field k (json_str v))" for k v
    using ascii_json_str [of k] ascii_json_str [of v] by (simp add: json_field_def ascii_def)
  then have "ascii (join_with '','' (map (\<lambda>(k, t). json_field k t) (map (\<lambda>(k, v). (k, json_str v)) entries)))"
    by (intro join) auto
  then show ?thesis by (simp add: json_strings_def json_object_def) (simp add: ascii_def)
qed

lemma request_payload_inj:
  assumes "request_payload env r = request_payload env s"
  shows "r\<lparr>rq_signature := []\<rparr> = s\<lparr>rq_signature := []\<rparr>"
proof -
  have "json_strings (request_entries r) = json_strings (request_entries s)"
    using assms by (intro utf8_inj ascii_json_strings)
      (simp add: request_payload_text)
  then have "request_entries r = request_entries s"
    by (rule json_strings_inj) (simp add: request_entries_def)
  then show ?thesis by (cases r, cases s) (simp add: request_entries_def)
qed

lemma response_payload_inj:
  assumes "response_payload env r = response_payload env s"
  shows "r\<lparr>rs_signature := []\<rparr> = s\<lparr>rs_signature := []\<rparr>"
proof -
  have "json_strings (response_entries r) = json_strings (response_entries s)"
    using assms by (intro utf8_inj ascii_json_strings) (simp add: response_payload_text)
  then have "response_entries r = response_entries s"
    by (rule json_strings_inj) (simp add: response_entries_def)
  then show ?thesis by (cases r, cases s) (simp add: response_entries_def)
qed

section \<open>Runs of the protocol\<close>

text \<open>A signature made with a private key verifies under its public key.\<close>

definition sound_crypto :: "benv \<Rightarrow> bool" where
  "sound_crypto env \<longleftrightarrow> be_crypto env
     \<and> (\<forall>k m. length k = 32 \<longrightarrow> length (be_public env k) = 32 \<and> be_verify env (be_public env k) (be_sign env k m) m)"

lemma bnd_lift_Inr: "bnd (lift (Inr a)) f = f a"
  by (rule ext) (simp add: bnd_def lift_def)

lemma bnd_lift_Inl: "bnd (lift (Inl e)) f = raise e"
  by (rule ext) (simp add: bnd_def lift_def raise_def)

lemma bnd_raise: "bnd (raise e) f = raise e"
  by (rule ext) (simp add: bnd_def raise_def)

lemma bnd_require: "bnd (require c e) f = (if c then f () else raise e)"
  by (rule ext) (simp add: bnd_def require_def ret_def raise_def)

lemma load_public_b64: "be_crypto env \<Longrightarrow> length k = 32 \<Longrightarrow> load_public_key env (b64 k) = Inr k"
  by (simp add: load_public_key_def require_crypto_def)

lemma load_private_b64: "be_crypto env \<Longrightarrow> length k = 32 \<Longrightarrow> load_private_key env (b64 k) = Inr k"
  by (simp add: load_private_key_def require_crypto_def)

lemma add_minute: "add_seconds t 60 = Inr u \<longleftrightarrow> u = t + 60000000 \<and> u < max_instant"
  by (auto simp: add_seconds_def Let_def nat_add_distrib)

lemma add_minute_fails: "add_seconds t 60 = Inl e \<Longrightarrow> \<not> t + 60000000 < max_instant"
  by (auto simp: add_seconds_def Let_def split: if_splits)

lemma fresh_window:
  assumes "parse_time (be_iso env) i = Inr issued" and "parse_time (be_iso env) x = Inr expires"
    and "t + 60000000 < max_instant"
  shows "require_fresh env i x (Some t) w
     = (if issued \<le> t + 60000000
        then (if t < expires then (Inr (), w) else (Inl (protocol_error ''broker message expired''), w))
        else (Inl (protocol_error ''broker message issued_at is in the future''), w))"
proof -
  have "add_seconds t 60 = Inr (t + 60000000)" using assms(3) by (simp add: add_seconds_def Let_def nat_add_distrib)
  then show ?thesis using assms(1,2)
    by (simp add: require_fresh_def the_time_def bnd_lift_Inr bnd_require bnd_raise ret_def raise_def require_def)
qed

text \<open>What a request signed at \<open>issued\<close> looks like.\<close>

lemma signed_request_shape:
  assumes "sound_crypto env" and "length key = 32" and "issued < max_instant"
    and "sign_broker_request env identity (b64 key) mth path body ttl (Some issued) w = (Inr rq, w')"
  obtains body_hash expires payload where
    "hash_body env body = Inr body_hash" and "add_seconds issued ttl = Inr expires"
    and "request_payload env rq = Inr payload"
    and "rq_signature rq = b64 (be_sign env key payload)"
    and "rq_protocol_version rq = BROKER_PROTOCOL_VERSION" and "rq_body_hash rq = body_hash"
    and "rq_issued_at rq = format_time issued" and "rq_expires_at rq = format_time expires"
    and "rq_nonce rq = b64 (be_random env (bw_tick w) 32)"
proof -
  have key: "load_private_key env (b64 key) = Inr key"
    using assms(1,2) by (simp add: load_private_b64 sound_crypto_def)
  obtain h x where h: "hash_body env body = Inr h" and x: "add_seconds issued ttl = Inr x"
    using assms(4)
    by (cases "hash_body env body"; cases "add_seconds issued ttl")
       (auto simp: sign_broker_request_def the_time_def bnd_lift_Inr bnd_lift_Inl raise_def
         token_urlsafe_def tick_op_def bnd_def gets_def modify_def ret_def lift_def)
  show ?thesis
    using assms(4) h x key that
    by (auto simp: request_entries_def sign_broker_request_def the_time_def bnd_lift_Inr request_payload_text
        token_urlsafe_def tick_op_def bnd_def gets_def modify_def ret_def lift_def Let_def)
qed

lemma request_replayed:
  assumes "rq_nonce rq \<in> set (bw_seen w)"
  shows "wlp (verify_broker_request env rq pk body True now) (\<lambda>_ _. False)
           (\<lambda>_ v. bw_seen v = bw_seen w) w"
proof -
  have ticks: "wlp (tick_op f) (\<lambda>_ v. bw_seen v = bw_seen w) (\<lambda>_ _. False) u"
    if "bw_seen u = bw_seen w" for f :: "nat \<Rightarrow> 'b" and u :: "'a bworld"
    using that by (simp add: tick_op_def wp)
  have time: "wlp (the_time env now) (\<lambda>_ v. bw_seen v = bw_seen w) (\<lambda>_ _. False) w"
    using ticks [of w] by (cases now) (simp_all add: the_time_def now_op_def wp)
  show ?thesis
    unfolding verify_broker_request_def require_fresh_def remember_def wp
    using assms
    by (auto split: sum.splits intro!: wlp_mono [OF time])
qed

lemma request_verifies:
  assumes "hash_body env body = Inr (rq_body_hash rq)" and "rq_protocol_version rq = BROKER_PROTOCOL_VERSION"
    and "rq_issued_at rq = format_time issued" and "rq_expires_at rq = format_time x"
    and "issued < max_instant" and "x < max_instant" and "issued \<le> t + 60000000" and "t < x"
    and "t + 60000000 < max_instant"
    and "load_public_key env pk = Inr k" and "rq_signature rq = b64 sg" and "request_payload env rq = Inr p"
    and "be_verify env k sg p" and "rq_nonce rq \<notin> set (bw_seen v)"
  shows "verify_broker_request env rq pk body True (Some t) v
           = (Inr (), v\<lparr>bw_seen := rq_nonce rq # bw_seen v\<rparr>)"
proof -
  have "require_fresh env (rq_issued_at rq) (rq_expires_at rq) (Some t) v = (Inr (), v)"
    using fresh_window [OF parse_format [OF assms(5)] parse_format [OF assms(6)] assms(9), of env v]
      assms(3,4,7,8) by simp
  then show ?thesis
    using assms(1,2,10-14)
    by (simp add: verify_broker_request_def require_protocol_def require_hash_def bnd_lift_Inr
        bnd_require remember_def bnd_def gets_def modify_def require_def ret_def)
qed

text \<open>
  C33. A signed request is accepted once. With a sound signature scheme, a request signed at
  one time with a key pair verifies against its body at any time inside its window (one minute
  of clock skew, until it expires) and its nonce is remembered; after that no verifier sharing
  the cache accepts it again, at any time, for any body or key.
\<close>

theorem signed_request_accepted_once:
  assumes "sound_crypto env" and "length key = 32" and "issued < max_instant"
    and "sign_broker_request env identity (b64 key) mth path body ttl (Some issued) w = (Inr rq, w')"
    and "issued \<le> t + 60000000" and "int t < int issued + ttl * 1000000" and "t + 60000000 < max_instant"
    and "rq_nonce rq \<notin> set (bw_seen v)"
  shows "verify_broker_request env rq (b64 (be_public env key)) body True (Some t) v
           = (Inr (), v\<lparr>bw_seen := rq_nonce rq # bw_seen v\<rparr>)
         \<and> (\<forall>pk other now u. rq_nonce rq \<in> set (bw_seen u) \<longrightarrow>
              (\<exists>e u'. verify_broker_request env rq pk other True now u = (Inl e, u')
                 \<and> bw_seen u' = bw_seen u))"
proof -
  obtain h x p where shape: "hash_body env body = Inr h" "add_seconds issued ttl = Inr x"
    "request_payload env rq = Inr p" "rq_signature rq = b64 (be_sign env key p)"
    "rq_protocol_version rq = BROKER_PROTOCOL_VERSION" "rq_body_hash rq = h"
    "rq_issued_at rq = format_time issued" "rq_expires_at rq = format_time x"
    by (rule signed_request_shape [OF assms(1-4)])
  have x: "x < max_instant" "t < x" using add_seconds_ok [OF shape(2)] assms(6) by auto
  have pub: "load_public_key env (b64 (be_public env key)) = Inr (be_public env key)"
    "be_verify env (be_public env key) (be_sign env key p) p"
    using assms(1,2) by (simp_all add: load_public_b64 sound_crypto_def)
  have "verify_broker_request env rq (b64 (be_public env key)) body True (Some t) v
           = (Inr (), v\<lparr>bw_seen := rq_nonce rq # bw_seen v\<rparr>)"
    using shape(1,6)
    by (intro request_verifies [OF _ shape(5,7,8) assms(3) x(1) assms(5) x(2) assms(7) pub(1) shape(4,3) pub(2) assms(8)])
       simp
  moreover have "\<exists>e u'. verify_broker_request env rq pk other True now u = (Inl e, u') \<and> bw_seen u' = bw_seen u"
    if "rq_nonce rq \<in> set (bw_seen u)" for pk other now and u :: "'c bworld"
    using request_replayed [OF that, of env pk other now]
    by (cases "verify_broker_request env rq pk other True now u") (auto simp: wlp_def split: sum.splits)
  ultimately show ?thesis by blast
qed

text \<open>
  C34. What is accepted was signed. If the public key verifies only messages that were signed
  with its private key, every request a verifier accepts agrees in every field (version,
  instance, key, method, path, body hash, nonce, both times) with a request that was signed,
  it carries the hash of the body it was accepted with, and it is inside its time window:
  changing any field of a signed request makes it fail.
\<close>

theorem accepted_request_was_signed:
  assumes "verify_broker_request env rq public_key body cached (Some t) w = (Inr (), v)"
    and "\<forall>raw signature m. unb64 public_key = Inr raw \<longrightarrow> be_verify env raw signature m
           \<longrightarrow> (\<exists>r \<in> issued_requests. request_payload env r = Inr m)"
  shows "\<exists>r \<in> issued_requests. rq = r\<lparr>rq_signature := rq_signature rq\<rparr>
           \<and> hash_body env body = Inr (rq_body_hash r)
           \<and> (\<exists>issued expires. parse_time (be_iso env) (rq_issued_at r) = Inr issued
                \<and> parse_time (be_iso env) (rq_expires_at r) = Inr expires
                \<and> issued \<le> t + 60000000 \<and> t < expires)"
proof -
  have "wlp (verify_broker_request env rq public_key body cached (Some t))
     (\<lambda>_ _. hash_body env body = Inr (rq_body_hash rq)
        \<and> (\<exists>issued expires. parse_time (be_iso env) (rq_issued_at rq) = Inr issued
             \<and> parse_time (be_iso env) (rq_expires_at rq) = Inr expires \<and> issued \<le> t + 60000000 \<and> t < expires)
        \<and> (\<exists>raw signature m. unb64 public_key = Inr raw \<and> be_verify env raw signature m
             \<and> request_payload env rq = Inr m)) (\<lambda>_ _. True) w"
    unfolding verify_broker_request_def require_fresh_def the_time_def remember_def wp option.case
    by (auto simp: require_hash_def require_protocol_def load_public_key_def require_crypto_def wp
        res_iffs add_minute split: sum.splits if_splits)
  then have acc: "hash_body env body = Inr (rq_body_hash rq)"
    "\<exists>issued expires. parse_time (be_iso env) (rq_issued_at rq) = Inr issued
       \<and> parse_time (be_iso env) (rq_expires_at rq) = Inr expires \<and> issued \<le> t + 60000000 \<and> t < expires"
    "\<exists>raw signature m. unb64 public_key = Inr raw \<and> be_verify env raw signature m
       \<and> request_payload env rq = Inr m"
    using assms(1) by (auto dest: wlp_run)
  obtain r m where r: "r \<in> issued_requests" "request_payload env r = Inr m" "request_payload env rq = Inr m"
    using acc(3) assms(2) by blast
  have "rq\<lparr>rq_signature := []\<rparr> = r\<lparr>rq_signature := []\<rparr>"
    by (rule request_payload_inj [of env]) (simp only: r)
  then have same: "rq = r\<lparr>rq_signature := rq_signature rq\<rparr>" by (cases rq, cases r) simp
  then have "rq_body_hash rq = rq_body_hash r" "rq_issued_at rq = rq_issued_at r"
    "rq_expires_at rq = rq_expires_at r" by (cases rq, cases r, simp)+
  then show ?thesis using r(1) same acc(1,2) by auto
qed

text \<open>
  A response is accepted exactly when it answers this request: it speaks the protocol, it
  names the nonce of the request, its hash is that of the body, the time is inside its window,
  and its signature over all its fields verifies under the broker's key; verifying changes
  nothing.
\<close>

theorem response_accepted_iff:
  "verify_broker_response env rs public_key request_nonce body (Some t) w = (Inr (), v) \<longleftrightarrow>
     v = w \<and> rs_protocol_version rs = BROKER_PROTOCOL_VERSION \<and> rs_request_nonce rs = request_nonce
     \<and> hash_body env body = Inr (rs_body_hash rs)
     \<and> (\<exists>issued expires. parse_time (be_iso env) (rs_issued_at rs) = Inr issued
          \<and> parse_time (be_iso env) (rs_expires_at rs) = Inr expires
          \<and> issued \<le> t + 60000000 \<and> t < expires \<and> t + 60000000 < max_instant)
     \<and> (\<exists>key signature. load_public_key env public_key = Inr key
          \<and> unb64 (rs_signature rs) = Inr signature
          \<and> be_verify env key signature (utf8 (json_strings (response_entries rs))))"
  unfolding verify_broker_response_def require_fresh_def the_time_def option.case
  by (auto simp: bnd_def lift_def require_def ret_def raise_def require_protocol_def require_hash_def
      res_iffs add_minute response_payload_text dest: add_minute_fails split: sum.splits if_splits)

section \<open>The conformance self-test\<close>

datatype BrokerReadinessStatus = BR_READY | BR_BLOCKED | BR_PENDING | BR_DISABLED | BR_NOT_CONFIGURED

fun readiness_value :: "BrokerReadinessStatus \<Rightarrow> string" where
  "readiness_value BR_READY = ''ready''"
| "readiness_value BR_BLOCKED = ''blocked''"
| "readiness_value BR_PENDING = ''pending''"
| "readiness_value BR_DISABLED = ''disabled''"
| "readiness_value BR_NOT_CONFIGURED = ''not_configured''"

record conformance_check =
  cc_name :: string
  cc_status :: string
  cc_message :: string

record BrokerConformanceReport =
  cr_status :: BrokerReadinessStatus
  cr_checks :: "conformance_check list"
  cr_network_used :: bool

text \<open>\<open>type(exc).__name__\<close>, a parameter.\<close>

definition record_check ::
  "(pyexc \<Rightarrow> string) \<Rightarrow> string \<Rightarrow> ('s bworld, unit) py \<Rightarrow> ('s bworld, conformance_check) py" where
  "record_check class_name name operation =
     try_except (bnd operation (\<lambda>_. ret \<lparr>cc_name = name, cc_status = ''passed'', cc_message = ''ok''\<rparr>))
       (\<lambda>e. if is_exception e
            then ret \<lparr>cc_name = name, cc_status = ''failed'', cc_message = class_name e\<rparr> else raise e)"

definition record_expected_failure ::
  "string \<Rightarrow> ('s bworld, unit) py \<Rightarrow> ('s bworld, conformance_check) py" where
  "record_expected_failure name operation =
     try_except (bnd operation (\<lambda>_. ret \<lparr>cc_name = name, cc_status = ''failed'', cc_message = ''accepted''\<rparr>))
       (\<lambda>e. if exc_class_of e = BrokerProtocolError
            then ret \<lparr>cc_name = name, cc_status = ''passed'', cc_message = ''rejected''\<rparr> else raise e)"

definition mock_body :: pydict where
  "mock_body = [(VStr ''provider'', VStr ''google''), (VStr ''state'', VStr ''redacted'')]"

definition mock_response_body :: pydict where
  "mock_response_body = [(VStr ''session'', VStr ''created''), (VStr ''token'', VStr ''redacted'')]"

definition conformance_report :: "conformance_check list \<Rightarrow> BrokerConformanceReport" where
  "conformance_report checks =
     \<lparr>cr_status = (if list_all (\<lambda>c. cc_status c = ''passed'') checks then BR_READY else BR_BLOCKED),
      cr_checks = checks, cr_network_used = False\<rparr>"

text \<open>
  \<open>run_mock_broker_conformance\<close>; its replay cache is a new one, the one the caller may hold
  is put back.
\<close>

definition run_mock_broker_conformance ::
  "benv \<Rightarrow> (pyexc \<Rightarrow> string) \<Rightarrow> ('s bworld, BrokerConformanceReport) py" where
  "run_mock_broker_conformance env class_name =
     bnd (lift (require_crypto env)) (\<lambda>_.
     bnd (gets bw_seen) (\<lambda>outer.
     bnd (modify (\<lambda>w. w\<lparr>bw_seen := []\<rparr>)) (\<lambda>_.
     try_finally
       (bnd (tick_op (\<lambda>t. be_random env t 32)) (\<lambda>private.
        bnd (tick_op (\<lambda>t. be_random env t 32)) (\<lambda>broker_private.
        let private_raw = b64 private; public_raw = b64 (be_public env private);
            broker_private_raw = b64 broker_private; broker_public_raw = b64 (be_public env broker_private);
            identity = \<lparr>bi_instance_id = ''mock-instance'', bi_key_id = ''mock-key'',
              bi_public_key = public_raw, bi_private_key_ref = INSTANCE_PRIVATE_KEY_REF\<rparr>
        in bnd (sign_broker_request env identity private_raw ''POST'' ''/oauth/start'' mock_body 300 None) (\<lambda>request.
           bnd (record_check class_name ''signed_request_valid''
                  (verify_broker_request env request public_raw mock_body True None)) (\<lambda>c1.
           bnd (record_expected_failure ''replay_rejected''
                  (verify_broker_request env request public_raw mock_body True None)) (\<lambda>c2.
           bnd (record_expected_failure ''tampered_body_rejected''
                  (verify_broker_request env request public_raw
                     [(VStr ''provider'', VStr ''slack'')] False None)) (\<lambda>c3.
           bnd (sign_broker_response env ''broker-key'' broker_private_raw (rq_nonce request)
                  mock_response_body 300 None) (\<lambda>response.
           bnd (record_check class_name ''signed_response_valid''
                  (verify_broker_response env response broker_public_raw (rq_nonce request)
                     mock_response_body None)) (\<lambda>c4.
           bnd (record_expected_failure ''wrong_response_nonce_rejected''
                  (verify_broker_response env response broker_public_raw ''wrong'' mock_response_body None)) (\<lambda>c5.
           bnd (now_op env) (\<lambda>now.
           bnd (lift (add_seconds now (- 600))) (\<lambda>past.
           bnd (sign_broker_request env identity private_raw ''POST'' ''/oauth/start'' mock_body 1 (Some past)) (\<lambda>expired.
           bnd (record_expected_failure ''expired_request_rejected''
                  (verify_broker_request env expired public_raw mock_body False None)) (\<lambda>c6.
           ret (conformance_report [c1, c2, c3, c4, c5, c6])))))))))))))))
       (modify (\<lambda>w. w\<lparr>bw_seen := outer\<rparr>)))))"

section \<open>A concrete scheme\<close>

text \<open>A toy signature scheme (the key before the message) with which the hypotheses hold.\<close>

definition demo_benv :: benv where
  "demo_benv =
     \<lparr>be_crypto = True, be_public = id, be_sign = (\<lambda>k m. k @ m), be_verify = (\<lambda>k s m. s = k @ m),
      be_sha256 = id, be_clock = (\<lambda>t. 5529600000000 + t), be_random = (\<lambda>t n. replicate n (word_of_nat t)),
      be_fault = (\<lambda>_. None), be_torn = (\<lambda>_. False), be_float = (\<lambda>_. []), be_repr = (\<lambda>_. []),
      be_iso = (\<lambda>_. Inl (Exc PyValueError [])), be_loads = (\<lambda>_. Inl (Exc PyValueError [])),
      be_bracket = (\<lambda>_. False), be_unquote = id\<rparr>"

definition demo_key :: bytes where
  "demo_key = replicate 32 7"

definition demo_bi :: BrokerInstanceIdentity where
  "demo_bi = \<lparr>bi_instance_id = ''demo'', bi_key_id = ''k'', bi_public_key = b64 demo_key,
     bi_private_key_ref = INSTANCE_PRIVATE_KEY_REF\<rparr>"

definition demo_bworld :: "memory_store bworld" where
  "demo_bworld = \<lparr>bw_secrets = [], bw_files = (\<lambda>_. None), bw_tick = 0, bw_seen = []\<rparr>"

definition demo_request :: SignedBrokerRequest where
  "demo_request =
     (case fst (sign_broker_request demo_benv demo_bi (b64 demo_key) ''post'' ''/oauth/start'' mock_body 300
                  (Some 5529600000000) demo_bworld) of
        Inr rq \<Rightarrow> rq | Inl _ \<Rightarrow> undefined)"

lemma demo_signed:
  "\<exists>w'. sign_broker_request demo_benv demo_bi (b64 demo_key) ''post'' ''/oauth/start'' mock_body 300
          (Some 5529600000000) demo_bworld = (Inr demo_request, w')"
proof -
  have crypto: "load_private_key demo_benv (b64 demo_key) = Inr demo_key"
    by (rule load_private_b64) (simp_all add: demo_benv_def demo_key_def)
  have x: "add_seconds 5529600000000 300 = Inr 5529900000000"
    by (simp add: add_seconds_def Let_def max_instant_def)
  have "\<exists>h. hash_body demo_benv mock_body = Inr h"
    by (simp add: hash_body_def canonical_json_def mock_body_def)
  then obtain h where "hash_body demo_benv mock_body = Inr h" by blast
  then show ?thesis using crypto x
    by (simp add: demo_request_def sign_broker_request_def the_time_def bnd_lift_Inr request_payload_text
        token_urlsafe_def tick_op_def bnd_def gets_def modify_def ret_def lift_def Let_def)
qed

lemma demo_sound: "sound_crypto demo_benv"
  by (simp add: sound_crypto_def demo_benv_def)

theorem signed_request_accepted_once_witness:
  "verify_broker_request demo_benv demo_request (b64 (be_public demo_benv demo_key)) mock_body True
     (Some 5529700000000) demo_bworld
   = (Inr (), demo_bworld\<lparr>bw_seen := [rq_nonce demo_request]\<rparr>)"
proof -
  obtain w' where signed: "sign_broker_request demo_benv demo_bi (b64 demo_key) ''post'' ''/oauth/start''
      mock_body 300 (Some 5529600000000) demo_bworld = (Inr demo_request, w')" using demo_signed by blast
  have "verify_broker_request demo_benv demo_request (b64 (be_public demo_benv demo_key)) mock_body True
      (Some 5529700000000) demo_bworld
      = (Inr (), demo_bworld\<lparr>bw_seen := rq_nonce demo_request # bw_seen demo_bworld\<rparr>)"
    by (rule signed_request_accepted_once [OF demo_sound _ _ signed, THEN conjunct1])
       (simp_all add: demo_key_def max_instant_def demo_bworld_def)
  then show ?thesis by (simp add: demo_bworld_def)
qed

text \<open>The scheme in which nothing but the payload of the demo request verifies.\<close>

definition strict_benv :: benv where
  "strict_benv = demo_benv\<lparr>be_verify := (\<lambda>k s m. s = k @ m \<and> request_payload demo_benv demo_request = Inr m)\<rparr>"

lemma demo_accepted:
  "verify_broker_request strict_benv demo_request (b64 demo_key) mock_body True
     (Some 5529700000000) demo_bworld
   = (Inr (), demo_bworld\<lparr>bw_seen := [rq_nonce demo_request]\<rparr>)"
proof -
  obtain w' where signed: "sign_broker_request demo_benv demo_bi (b64 demo_key) ''post'' ''/oauth/start''
      mock_body 300 (Some 5529600000000) demo_bworld = (Inr demo_request, w')" using demo_signed by blast
  obtain h x p where shape: "hash_body demo_benv mock_body = Inr h" "add_seconds 5529600000000 300 = Inr x"
    "request_payload demo_benv demo_request = Inr p" "rq_signature demo_request = b64 (be_sign demo_benv demo_key p)"
    "rq_protocol_version demo_request = BROKER_PROTOCOL_VERSION" "rq_body_hash demo_request = h"
    "rq_issued_at demo_request = format_time 5529600000000" "rq_expires_at demo_request = format_time x"
    by (rule signed_request_shape [OF demo_sound _ _ signed]) (simp_all add: demo_key_def max_instant_def)
  have x: "x = 5529900000000" using shape(2) by (simp add: add_seconds_def Let_def max_instant_def)
  have strict: "load_public_key strict_benv (b64 demo_key) = Inr demo_key"
    "hash_body strict_benv mock_body = Inr (rq_body_hash demo_request)"
    "request_payload strict_benv demo_request = Inr p"
    "be_verify strict_benv demo_key (be_sign demo_benv demo_key p) p"
    using shape(1,3,6)
    by (simp_all add: load_public_b64 strict_benv_def demo_benv_def demo_key_def hash_body_def
        canonical_json_def digest_def request_payload_text)
  show ?thesis
    by (subst request_verifies [OF strict(2) shape(5,7,8) _ _ _ _ _ strict(1) shape(4) strict(3,4)])
       (simp_all add: max_instant_def demo_bworld_def x)
qed

theorem accepted_request_was_signed_witness:
  "hash_body strict_benv mock_body = Inr (rq_body_hash demo_request)"
proof -
  have "\<exists>r \<in> {demo_request}. demo_request = r\<lparr>rq_signature := rq_signature demo_request\<rparr>
      \<and> hash_body strict_benv mock_body = Inr (rq_body_hash r)
      \<and> (\<exists>issued expires. parse_time (be_iso strict_benv) (rq_issued_at r) = Inr issued
           \<and> parse_time (be_iso strict_benv) (rq_expires_at r) = Inr expires
           \<and> issued \<le> 5529700000000 + 60000000 \<and> 5529700000000 < expires)"
    by (rule accepted_request_was_signed [OF demo_accepted])
       (simp add: strict_benv_def demo_benv_def request_payload_text)
  then show ?thesis by simp
qed

end
