(* ===== verification/Maya_Broker.thy ===== *)
theory Maya_Broker
  imports Maya_Broker_Protocol Maya_Connectors Maya_Payload
begin

text \<open>
  The operations of \<open>src/project_maya/broker.py\<close> on the installation: registration of the
  instance, OAuth sessions, the token life cycle over a secret store and the metadata files,
  and the readiness reports. The store is any \<open>secret_ops\<close>; files are the JSON documents
  under the data directory.
\<close>

section \<open>Results\<close>

datatype TokenLifecycleState = TK_NOT_CONFIGURED | TK_ACTIVE | TK_REFRESH_REQUIRED | TK_REVOKED | TK_BLOCKED

fun token_state_value :: "TokenLifecycleState \<Rightarrow> string" where
  "token_state_value TK_NOT_CONFIGURED = ''not_configured''"
| "token_state_value TK_ACTIVE = ''active''"
| "token_state_value TK_REFRESH_REQUIRED = ''refresh_required''"
| "token_state_value TK_REVOKED = ''revoked''"
| "token_state_value TK_BLOCKED = ''blocked''"

abbreviation "token_state_of \<equiv> enum_of token_state_value
  [TK_NOT_CONFIGURED, TK_ACTIVE, TK_REFRESH_REQUIRED, TK_REVOKED, TK_BLOCKED]"

record BrokerOperationResult =
  br_operation :: string
  br_status :: BrokerReadinessStatus
  br_provider :: "string option"
  br_mutation :: string
  br_network_used :: bool
  br_message :: string
  br_details :: pydict

definition br_successful :: "BrokerOperationResult \<Rightarrow> bool" where
  "br_successful r \<longleftrightarrow> br_status r \<in> {BR_READY, BR_PENDING}"

definition opt_str :: "string option \<Rightarrow> pyval" where
  "opt_str v = (case v of None \<Rightarrow> VNone | Some s \<Rightarrow> VStr s)"

definition operation_summary :: "BrokerOperationResult \<Rightarrow> pydict" where
  "operation_summary r = foldl (\<lambda>d (k, v). assoc_put k v d)
     [(VStr ''operation'', VStr (br_operation r)),
      (VStr ''status'', VStr (readiness_value (br_status r))),
      (VStr ''provider'', opt_str (br_provider r)),
      (VStr ''mutation'', VStr (br_mutation r)),
      (VStr ''network_used'', VBool (br_network_used r)),
      (VStr ''message'', VStr (br_message r))] (br_details r)"

text \<open>The fields read back from a metadata file are whatever its document holds.\<close>

record TokenLifecycleStatus =
  ts_provider :: string
  ts_state :: TokenLifecycleState
  ts_credential_ref :: SecretRef
  ts_refresh_owner :: pyval
  ts_scopes :: "pyval list"
  ts_expires_at :: pyval
  ts_rotation_count :: int
  ts_revoked_at :: pyval
  ts_network_used :: bool
  ts_message :: pyval

definition token_summary :: "TokenLifecycleStatus \<Rightarrow> pydict" where
  "token_summary s =
     [(VStr ''provider'', VStr (ts_provider s)),
      (VStr ''state'', VStr (token_state_value (ts_state s))),
      (VStr ''credential_ref'', VStr (ref_str (ts_credential_ref s))),
      (VStr ''refresh_owner'', ts_refresh_owner s),
      (VStr ''scopes'', VList (ts_scopes s)),
      (VStr ''expires_at'', ts_expires_at s),
      (VStr ''rotation_count'', VInt (ts_rotation_count s)),
      (VStr ''revoked_at'', ts_revoked_at s),
      (VStr ''network_used'', VBool (ts_network_used s)),
      (VStr ''message'', ts_message s)]"

record OAuthSession =
  os_session_id :: string
  os_provider :: string
  os_state :: string
  os_nonce :: string
  os_code_challenge :: string
  os_code_challenge_method :: string
  os_redirect_uri :: string
  os_authorization_url :: string
  os_scopes :: "string list"
  os_expires_at :: string
  os_mutation :: string

definition session_summary :: "OAuthSession \<Rightarrow> pydict" where
  "session_summary s =
     [(VStr ''session_id'', VStr (os_session_id s)),
      (VStr ''provider'', VStr (os_provider s)),
      (VStr ''state'', VStr ''configured''),
      (VStr ''nonce'', VStr ''configured''),
      (VStr ''code_challenge_method'', VStr (os_code_challenge_method s)),
      (VStr ''redirect_uri'', VStr (os_redirect_uri s)),
      (VStr ''authorization_url'', VStr (os_authorization_url s)),
      (VStr ''scopes'', VList (map VStr (os_scopes s))),
      (VStr ''expires_at'', VStr (os_expires_at s)),
      (VStr ''mutation'', VStr (os_mutation s))]"

record ModelProxyReadiness =
  mp_status :: BrokerReadinessStatus
  mp_mode :: string
  mp_broker_mode :: BrokerMode
  mp_protocol_ready :: bool
  mp_governance_required :: bool
  mp_billing_state :: string
  mp_network_used :: bool
  mp_message :: string

definition proxy_summary :: "ModelProxyReadiness \<Rightarrow> pydict" where
  "proxy_summary m =
     [(VStr ''operation'', VStr ''broker.model-proxy-status''),
      (VStr ''status'', VStr (readiness_value (mp_status m))),
      (VStr ''mode'', VStr (mp_mode m)),
      (VStr ''broker_mode'', VStr (broker_mode_value (mp_broker_mode m))),
      (VStr ''protocol_ready'', VBool (mp_protocol_ready m)),
      (VStr ''governance_required'', VBool (mp_governance_required m)),
      (VStr ''billing_state'', VStr (mp_billing_state m)),
      (VStr ''network_used'', VBool (mp_network_used m)),
      (VStr ''message'', VStr (mp_message m))]"

section \<open>Guards\<close>

definition require_broker_not_disabled :: "MayaConfig \<Rightarrow> bool \<Rightarrow> unit res" where
  "require_broker_not_disabled config runtime_required =
     (if broker_mode (broker config) = BROKER_DISABLED
      then Inl (operation_error ''broker mode is disabled'')
      else if runtime_required \<and> broker_mode (broker config) \<noteq> RUNTIME
      then Inl (operation_error ''broker runtime mode is required'')
      else Inr ())"

definition require_broker_runtime :: "MayaConfig \<Rightarrow> unit res" where
  "require_broker_runtime config =
     bindR (require_broker_not_disabled config True) (\<lambda>_.
     requireR (broker_endpoint (broker config) \<notin> {None, Some []})
       (operation_error ''broker endpoint is required''))"

definition SUPPORTED_BROKER_PROVIDERS :: "string list" where
  "SUPPORTED_BROKER_PROVIDERS = [''google'', ''slack'']"

definition require_supported_provider :: "string \<Rightarrow> string res" where
  "require_supported_provider provider =
     (let normalized = strip (lower provider)
      in bindR (requireR (normalized \<in> set SUPPORTED_BROKER_PROVIDERS)
           (operation_error ''broker OAuth supports google and slack only'')) (\<lambda>_. Inr normalized))"

definition require_broker_connector :: "MayaConfig \<Rightarrow> string \<Rightarrow> unit res" where
  "require_broker_connector config provider =
     (case map_of (integrations config) provider of
        None \<Rightarrow> Inl (operation_error (provider @ '' integration is not enabled''))
      | Some i \<Rightarrow>
          bindR (requireR (int_enabled i) (operation_error (provider @ '' integration is not enabled''))) (\<lambda>_.
          bindR (requireR (int_credential_mode i = BROKER)
            (operation_error (provider @ '' integration is not broker-assisted''))) (\<lambda>_.
          requireR (edition (product config) \<noteq> ENTERPRISE)
            (operation_error ''Enterprise must use customer-owned OAuth clients''))))"

definition connector_scopes :: "MayaConfig \<Rightarrow> string \<Rightarrow> string list res" where
  "connector_scopes config provider =
     (case map_of (integrations config) provider of
        None \<Rightarrow> Inl (Exc PyKeyError provider)
      | Some i \<Rightarrow>
          bindR (build_connector_manifest provider i (broker_mode (broker config))) (\<lambda>m.
          Inr (dedup (concat (map cap_scopes (man_capabilities m))))))"

definition refresh_owner :: "string \<Rightarrow> string" where
  "refresh_owner provider = (if provider = ''google'' then ''local'' else ''broker_assisted'')"

section \<open>Places\<close>

definition TOKEN_SECRET_PREFIX :: string where
  "TOKEN_SECRET_PREFIX = ''integrations''"

definition token_secret_ref :: "string \<Rightarrow> SecretRef" where
  "token_secret_ref provider =
     \<lparr>ref_name = TOKEN_SECRET_PREFIX @ ''/'' @ provider @ ''/broker-token-envelope''\<rparr>"

definition below :: "path \<Rightarrow> string list \<Rightarrow> path" where
  "below p parts = Path (path_root p) (path_parts p @ parts)"

definition token_metadata_path :: "MayaConfig \<Rightarrow> string \<Rightarrow> path" where
  "token_metadata_path config provider =
     below (data_dir (deployment config)) [''integrations'', provider, ''token-status.json'']"

text \<open>\<open>str.isalnum\<close> on code points below 256.\<close>

definition is_alnum_latin :: "char \<Rightarrow> bool" where
  "is_alnum_latin c \<longleftrightarrow> is_word c \<and> c \<noteq> CHR ''_''"

definition session_path :: "MayaConfig \<Rightarrow> string \<Rightarrow> path res" where
  "session_path config session_id =
     (let safe = filter (\<lambda>c. is_alnum_latin c \<or> c \<in> set ''-_'') session_id
      in bindR (requireR (safe = session_id \<and> safe \<noteq> []) (operation_error ''invalid oauth session id'')) (\<lambda>_.
         Inr (below (data_dir (deployment config)) [''broker'', ''oauth-sessions'', safe @ ''.json''])))"

section \<open>Files and secrets\<close>

text \<open>A file operation is one tick and may fail; writing makes the parents.\<close>

definition file_tick :: "benv \<Rightarrow> ('s bworld, unit) py" where
  "file_tick env =
     bnd (tick_op (be_fault env)) (\<lambda>f. case f of None \<Rightarrow> ret () | Some e \<Rightarrow> raise e)"

definition write_json :: "benv \<Rightarrow> path \<Rightarrow> pydict \<Rightarrow> ('s bworld, unit) py" where
  "write_json env p d =
     bnd (lift (json_dumps (be_float env) '','' '': '' (VDict d))) (\<lambda>_.
     bnd (tick_op (\<lambda>t. (be_fault env t, be_torn env t))) (\<lambda>(fault, torn).
     case fault of
       None \<Rightarrow> modify (\<lambda>w. w\<lparr>bw_files := (bw_files w)(p \<mapsto> Document (VDict d))\<rparr>)
     | Some e \<Rightarrow>
         bnd (if torn then modify (\<lambda>w. w\<lparr>bw_files := (bw_files w)(p \<mapsto> NotJson)\<rparr>) else ret ()) (\<lambda>_.
         raise e)))"

definition read_json :: "benv \<Rightarrow> path \<Rightarrow> ('s bworld, pyval) py" where
  "read_json env p =
     bnd (file_tick env) (\<lambda>_.
     bnd (gets (\<lambda>w. bw_files w p)) (\<lambda>f. case f of
         None \<Rightarrow> raise (Exc PyOSError ''FileNotFoundError'')
       | Some NotJson \<Rightarrow> raise (Exc PyValueError ''JSONDecodeError'')
       | Some (Document v) \<Rightarrow> ret v))"

definition secret_write :: "'s secret_ops \<Rightarrow> SecretRef \<Rightarrow> string \<Rightarrow> ('s bworld, unit) py" where
  "secret_write store r v =
     bnd (gets (\<lambda>w. so_write store r v (bw_secrets w))) (\<lambda>out.
     bnd (lift out) (\<lambda>s. modify (\<lambda>w. w\<lparr>bw_secrets := s\<rparr>)))"

definition secret_delete :: "'s secret_ops \<Rightarrow> SecretRef \<Rightarrow> ('s bworld, unit) py" where
  "secret_delete store r =
     bnd (gets (\<lambda>w. so_delete store r (bw_secrets w))) (\<lambda>out.
     bnd (lift out) (\<lambda>s. modify (\<lambda>w. w\<lparr>bw_secrets := s\<rparr>)))"

definition secret_read :: "'s secret_ops \<Rightarrow> SecretRef \<Rightarrow> ('s bworld, string) py" where
  "secret_read store r = bnd (gets (\<lambda>w. so_read store (bw_secrets w) r)) lift"

definition secret_contains :: "'s secret_ops \<Rightarrow> SecretRef \<Rightarrow> ('s bworld, bool) py" where
  "secret_contains store r = bnd (gets (\<lambda>w. so_contains store (bw_secrets w) r)) lift"

definition as_dict :: "pyval \<Rightarrow> pydict res" where
  "as_dict v = (case v of VDict d \<Rightarrow> Inr d | _ \<Rightarrow> Inl (Exc PyTypeError ''indices must be integers''))"

section \<open>URLs\<close>

definition unreserved :: "char \<Rightarrow> bool" where
  "unreserved c \<longleftrightarrow> is_alnum c \<or> c \<in> set ''_.-~''"

definition upper_hex :: "nat \<Rightarrow> char" where
  "upper_hex n = (if n < 10 then char_of (48 + n) else char_of (55 + n))"

text \<open>\<open>quote_plus\<close> and \<open>urlencode\<close>.\<close>

definition quote_plus :: "string \<Rightarrow> string" where
  "quote_plus s = concat (map (\<lambda>c.
     if unreserved c then [c] else if c = CHR '' '' then ''+''
     else concat (map (\<lambda>b. [CHR ''%'', upper_hex (unat b div 16), upper_hex (unat b mod 16)]) (utf8_char c))) s)"

definition urlencode :: "(string \<times> string) list \<Rightarrow> string" where
  "urlencode entries = join_with ''&'' (map (\<lambda>(k, v). quote_plus k @ ''='' @ quote_plus v) entries)"

definition authorization_url :: "string \<Rightarrow> string \<Rightarrow> string" where
  "authorization_url provider challenge =
     (if provider = ''google'' then ''https://accounts.google.com/o/oauth2/v2/auth''
      else ''https://slack.com/oauth/v2/authorize'')
     @ ''?'' @ urlencode
       [(''response_type'', ''code''), (''code_challenge'', challenge),
        (''code_challenge_method'', ''S256''), (''state'', ''redacted'')]"

text \<open>\<open>unquote(part.replace("+", " "))\<close>; percent escapes are decoded by a parameter.\<close>

definition unquote_plus :: "benv \<Rightarrow> string \<Rightarrow> string" where
  "unquote_plus env s =
     (let t = map (\<lambda>c. if c = CHR ''+'' then CHR '' '' else c) s
      in if CHR ''%'' \<in> set t then be_unquote env t else t)"

text \<open>\<open>parse_qs(query).get(name, [""])[0]\<close>: the first pair of that name with a value.\<close>

definition query_pairs :: "benv \<Rightarrow> string \<Rightarrow> (string \<times> string) list" where
  "query_pairs env query =
     map (\<lambda>p. (unquote_plus env (fst p), unquote_plus env (snd p)))
       (filter (\<lambda>p. snd p \<noteq> [])
         (map (\<lambda>part. (takeWhile (\<lambda>c. c \<noteq> CHR ''='') part, drop 1 (dropWhile (\<lambda>c. c \<noteq> CHR ''='') part)))
           (filter (\<lambda>part. part \<noteq> []) (split_on (CHR ''&'') query))))"

definition query_param :: "benv \<Rightarrow> string \<Rightarrow> string \<Rightarrow> string" where
  "query_param env query name =
     (case map_of (query_pairs env query) name of None \<Rightarrow> [] | Some v \<Rightarrow> v)"

section \<open>Reports and registration\<close>

definition broker_status ::
  "'s secret_ops \<Rightarrow> MayaConfig \<Rightarrow> ('s bworld, BrokerOperationResult) py" where
  "broker_status store config =
     (let result = (\<lambda>status message details.
            \<lparr>br_operation = ''broker.status'', br_status = status, br_provider = None,
             br_mutation = ''none'', br_network_used = False, br_message = message, br_details = details\<rparr>)
      in if broker_mode (broker config) = BROKER_DISABLED
         then ret (result BR_DISABLED ''broker disabled by configuration'' [])
         else
           let endpoint_state =
             (if broker_endpoint (broker config) \<in> {None, Some []} then ''not_configured'' else ''configured'')
           in bnd (secret_contains store INSTANCE_PRIVATE_KEY_REF) (\<lambda>has_key.
              let key_state = (if has_key then ''configured'' else ''missing'')
              in ret (result
                   (if endpoint_state = ''configured'' \<and> key_state = ''configured'' then BR_READY else BR_PENDING)
                   ''broker status is redacted and local''
                   [(VStr ''broker_mode'', VStr (broker_mode_value (broker_mode (broker config)))),
                    (VStr ''endpoint'', VStr endpoint_state),
                    (VStr ''instance_private_key'', VStr key_state)])))"

definition register_broker_instance ::
  "benv \<Rightarrow> 's secret_ops \<Rightarrow> MayaConfig \<Rightarrow> bool \<Rightarrow> ('s bworld, BrokerOperationResult) py" where
  "register_broker_instance env store config apply_it =
     bnd (lift (require_broker_not_disabled config False)) (\<lambda>_.
     bnd (generate_instance_identity env config) (\<lambda>(identity, private_key).
     bnd (if apply_it
          then bnd (secret_write store INSTANCE_PRIVATE_KEY_REF private_key) (\<lambda>_.
               secret_write store INSTANCE_PUBLIC_KEY_REF (bi_public_key identity))
          else ret ()) (\<lambda>_.
     ret \<lparr>br_operation = ''broker.register'',
          br_status = (if apply_it then BR_READY else BR_PENDING), br_provider = None,
          br_mutation = (if apply_it then ''stored_instance_identity'' else ''dry_run''),
          br_network_used = False,
          br_message = (if apply_it then ''broker instance identity stored locally''
                        else ''broker instance identity would be generated and stored''),
          br_details = [(VStr ''identity'', VDict (identity_summary identity))]\<rparr>)))"

definition model_proxy_readiness ::
  "'s secret_ops \<Rightarrow> MayaConfig \<Rightarrow> ('s bworld, ModelProxyReadiness) py" where
  "model_proxy_readiness store config =
     (let report = (\<lambda>status ready billing message.
            \<lparr>mp_status = status, mp_mode = llm_mode (llm config), mp_broker_mode = broker_mode (broker config),
             mp_protocol_ready = ready, mp_governance_required = True, mp_billing_state = billing,
             mp_network_used = False, mp_message = message\<rparr>)
      in if llm_mode (llm config) \<noteq> ''maya_managed''
         then ret (report BR_NOT_CONFIGURED False ''not_configured'' ''llm.mode is not maya_managed'')
         else if broker_mode (broker config) \<noteq> RUNTIME
         then ret (report BR_BLOCKED False ''blocked''
                     ''maya_managed model billing requires broker runtime mode'')
         else bnd (secret_contains store INSTANCE_PRIVATE_KEY_REF) (\<lambda>ready.
              ret (if ready
                   then report BR_READY True ''ready'' ''model proxy billing readiness verified without inference''
                   else report BR_PENDING False ''pending_instance_registration''
                     ''register broker instance before model proxy billing'')))"

section \<open>OAuth sessions\<close>

definition write_session ::
  "benv \<Rightarrow> MayaConfig \<Rightarrow> OAuthSession \<Rightarrow> string \<Rightarrow> ('s bworld, unit) py" where
  "write_session env config session verifier =
     bnd (lift (session_path config (os_session_id session))) (\<lambda>p.
     bnd (now_op env) (\<lambda>created.
     write_json env p (foldl (\<lambda>d (k, v). assoc_put k v d) (session_summary session)
       [(VStr ''provider'', VStr (os_provider session)),
        (VStr ''state'', VStr (os_state session)),
        (VStr ''nonce'', VStr (os_nonce session)),
        (VStr ''code_verifier_ref'', VStr ''secret://broker/oauth-session-verifier''),
        (VStr ''code_verifier_hash'', VStr (digest env (utf8 verifier))),
        (VStr ''created_at'', VStr (format_time created))])))"

definition read_session :: "benv \<Rightarrow> MayaConfig \<Rightarrow> string \<Rightarrow> ('s bworld, pydict) py" where
  "read_session env config session_id =
     bnd (lift (session_path config session_id)) (\<lambda>p.
     bnd (gets (\<lambda>w. bw_files w p \<noteq> None)) (\<lambda>is_file.
     bnd (require is_file (operation_error ''oauth session not found'')) (\<lambda>_.
     bnd (read_json env p) (\<lambda>v. lift (as_dict v)))))"

definition start_oauth_session ::
  "benv \<Rightarrow> MayaConfig \<Rightarrow> string \<Rightarrow> bool \<Rightarrow> ('s bworld, OAuthSession) py" where
  "start_oauth_session env config provider0 apply_it =
     bnd (lift (require_broker_runtime config)) (\<lambda>_.
     bnd (lift (require_supported_provider provider0)) (\<lambda>provider.
     bnd (lift (require_broker_connector config provider)) (\<lambda>_.
     bnd (token_urlsafe env 64) (\<lambda>token.
     let verifier = take 96 token; challenge = b64 (be_sha256 env (utf8 verifier))
     in bnd (token_urlsafe env 24) (\<lambda>session_id.
        bnd (token_urlsafe env 32) (\<lambda>state.
        bnd (token_urlsafe env 32) (\<lambda>nonce.
        bnd (lift (connector_scopes config provider)) (\<lambda>scopes.
        bnd (now_op env) (\<lambda>now.
        bnd (lift (add_seconds now 600)) (\<lambda>expires.
        let session =
          \<lparr>os_session_id = session_id, os_provider = provider, os_state = state, os_nonce = nonce,
           os_code_challenge = challenge, os_code_challenge_method = ''S256'',
           os_redirect_uri = ''http://127.0.0.1/oauth/maya/callback'',
           os_authorization_url = authorization_url provider challenge, os_scopes = scopes,
           os_expires_at = format_time expires,
           os_mutation = (if apply_it then ''stored_oauth_session'' else ''dry_run'')\<rparr>
        in bnd (if apply_it then write_session env config session verifier else ret ()) (\<lambda>_.
           ret session)))))))))))"

section \<open>The token life cycle\<close>

text \<open>\<open>datetime.fromisoformat\<close> accepts strings only.\<close>

definition as_str :: "pyval \<Rightarrow> string res" where
  "as_str v = (case v of VStr s \<Rightarrow> Inr s | _ \<Rightarrow> Inl (Exc PyTypeError ''argument must be str''))"

text \<open>\<open>s.split()\<close>.\<close>

fun split_space_from :: "string \<Rightarrow> string \<Rightarrow> string list" where
  "split_space_from w [] = (if w = [] then [] else [w])"
| "split_space_from w (c # cs) =
     (if is_space c then (if w = [] then split_space_from [] cs else w # split_space_from [] cs)
      else split_space_from (w @ [c]) cs)"

definition split_space :: "string \<Rightarrow> string list" where
  "split_space s = split_space_from [] s"

text \<open>\<open>" ".join(xs)\<close> on a list of strings.\<close>

definition join_values :: "pyval \<Rightarrow> string res" where
  "join_values v = (case v of
       VList xs \<Rightarrow> bindR (mapR as_str xs) (\<lambda>ws. Inr (join_with '' '' ws))
     | VTuple xs \<Rightarrow> bindR (mapR as_str xs) (\<lambda>ws. Inr (join_with '' '' ws))
     | VStr s \<Rightarrow> Inr (join_with '' '' (map (\<lambda>c. [c]) s))
     | VDict d \<Rightarrow> bindR (mapR (\<lambda>e. as_str (fst e)) d) (\<lambda>ws. Inr (join_with '' '' ws))
     | _ \<Rightarrow> Inl (Exc PyTypeError ''can only join an iterable''))"

definition token_metadata_from_payload ::
  "benv \<Rightarrow> SecretRef \<Rightarrow> pydict \<Rightarrow> TokenLifecycleStatus res" where
  "token_metadata_from_payload env token_ref payload =
     bindR (ditem payload ''provider'') (\<lambda>provider.
     bindR (ditem payload ''refresh_owner'') (\<lambda>owner.
     bindR (ditem payload ''expires_at'') (\<lambda>expires.
     bindR (py_int (dget_or payload ''rotation_count'' (VInt 0))) (\<lambda>count.
     Inr \<lparr>ts_provider = py_str (be_repr env) provider, ts_state = TK_ACTIVE, ts_credential_ref = token_ref,
          ts_refresh_owner = VStr (py_str (be_repr env) owner),
          ts_scopes = map VStr (split_space (py_str (be_repr env) (dget_or payload ''scope'' (VStr [])))),
          ts_expires_at = VStr (py_str (be_repr env) expires), ts_rotation_count = count,
          ts_revoked_at = VNone, ts_network_used = False,
          ts_message = VStr ''token envelope active; raw values stored only in SecretStore''\<rparr>))))"

definition write_token_metadata ::
  "benv \<Rightarrow> MayaConfig \<Rightarrow> string \<Rightarrow> TokenLifecycleStatus \<Rightarrow> ('s bworld, unit) py" where
  "write_token_metadata env config provider metadata =
     write_json env (token_metadata_path config provider) (token_summary metadata)"

definition store_payload ::
  "benv \<Rightarrow> 's secret_ops \<Rightarrow> SecretRef \<Rightarrow> pydict \<Rightarrow> ('s bworld, unit) py" where
  "store_payload env store token_ref payload =
     bnd (lift (json_dumps (be_float env) '', '' '': '' (VDict payload))) (\<lambda>text_of.
     secret_write store token_ref text_of)"

definition operation_done :: "string \<Rightarrow> string \<Rightarrow> string \<Rightarrow> string \<Rightarrow> TokenLifecycleStatus \<Rightarrow> BrokerOperationResult" where
  "operation_done operation provider mutation message metadata =
     \<lparr>br_operation = operation, br_status = BR_READY, br_provider = Some provider, br_mutation = mutation,
      br_network_used = False, br_message = message,
      br_details = [(VStr ''token'', VDict (token_summary metadata))]\<rparr>"

text \<open>The part of \<open>complete_oauth_session\<close> after the callback has been accepted.\<close>

definition store_new_token ::
  "benv \<Rightarrow> 's secret_ops \<Rightarrow> MayaConfig \<Rightarrow> string \<Rightarrow> pydict \<Rightarrow> ('s bworld, BrokerOperationResult) py" where
  "store_new_token env store config provider session_doc =
     bnd (token_urlsafe env 48) (\<lambda>access.
     bnd (token_urlsafe env 48) (\<lambda>refresh.
     bnd (lift (bindR (ditem session_doc ''scopes'') join_values)) (\<lambda>scope.
     bnd (now_op env) (\<lambda>now.
     bnd (lift (add_seconds now 43200)) (\<lambda>expires.
     let token_ref = token_secret_ref provider;
         payload =
           [(VStr ''provider'', VStr provider), (VStr ''access_token'', VStr access),
            (VStr ''refresh_token'', VStr refresh), (VStr ''token_type'', VStr ''Bearer''),
            (VStr ''scope'', VStr scope), (VStr ''expires_at'', VStr (format_time expires)),
            (VStr ''refresh_owner'', VStr (refresh_owner provider)), (VStr ''rotation_count'', VInt 0)]
     in bnd (store_payload env store token_ref payload) (\<lambda>_.
        bnd (lift (token_metadata_from_payload env token_ref payload)) (\<lambda>metadata.
        bnd (write_token_metadata env config provider metadata) (\<lambda>_.
        ret (operation_done ''broker.oauth-complete'' provider ''stored_token_envelope''
               ''broker-assisted OAuth token envelope stored locally'' metadata)))))))))"

definition accept_callback ::
  "benv \<Rightarrow> MayaConfig \<Rightarrow> string \<Rightarrow> string \<Rightarrow> string \<Rightarrow> ('s bworld, pydict) py" where
  "accept_callback env config provider session_id callback_url =
     bnd (read_session env config session_id) (\<lambda>session_doc.
     bnd (lift (ditem session_doc ''provider'')) (\<lambda>found.
     bnd (require (found = VStr provider) (operation_error ''oauth session provider mismatch'')) (\<lambda>_.
     bnd (lift (bindR (ditem session_doc ''created_at'') as_str)) (\<lambda>created.
     bnd (lift (ditem session_doc ''expires_at'')) (\<lambda>expires.
     bnd (require_fresh env created (py_str (be_repr env) expires) None) (\<lambda>_.
     bnd (lift (urlsplit (be_bracket env) callback_url)) (\<lambda>parsed.
     let state = query_param env (url_query parsed) ''state'';
         code = query_param env (url_query parsed) ''code''
     in bnd (lift (if state = [] then Inl (operation_error ''oauth callback state mismatch'')
                   else bindR (ditem session_doc ''state'') (\<lambda>expected.
                     requireR (VStr state = expected) (operation_error ''oauth callback state mismatch'')))) (\<lambda>_.
        bnd (require (code \<noteq> []) (operation_error ''oauth callback code is required'')) (\<lambda>_.
        ret session_doc)))))))))"

definition complete_oauth_session ::
  "benv \<Rightarrow> 's secret_ops \<Rightarrow> MayaConfig \<Rightarrow> string \<Rightarrow> string \<Rightarrow> string \<Rightarrow> bool
     \<Rightarrow> ('s bworld, BrokerOperationResult) py" where
  "complete_oauth_session env store config provider0 session_id callback_url apply_it =
     bnd (lift (require_broker_runtime config)) (\<lambda>_.
     bnd (lift (require_supported_provider provider0)) (\<lambda>provider.
     bnd (require apply_it (operation_error ''oauth completion requires --apply'')) (\<lambda>_.
     bnd (accept_callback env config provider session_id callback_url) (\<lambda>session_doc.
     store_new_token env store config provider session_doc))))"

text \<open>\<open>tuple(v)\<close>.\<close>

definition as_tuple :: "pyval \<Rightarrow> pyval list res" where
  "as_tuple v = (case v of VList xs \<Rightarrow> Inr xs | VTuple xs \<Rightarrow> Inr xs
     | VStr s \<Rightarrow> Inr (map (\<lambda>c. VStr [c]) s) | VDict d \<Rightarrow> Inr (map fst d)
     | _ \<Rightarrow> Inl (Exc PyTypeError ''object is not iterable''))"

definition status_from_document :: "string \<Rightarrow> pydict \<Rightarrow> TokenLifecycleStatus res" where
  "status_from_document provider raw =
     bindR (bindR (ditem raw ''state'') token_state_of) (\<lambda>state.
     bindR (ditem raw ''refresh_owner'') (\<lambda>owner.
     bindR (bindR (ditem raw ''scopes'') as_tuple) (\<lambda>scopes.
     bindR (py_int (dget_or raw ''rotation_count'' (VInt 0))) (\<lambda>count.
     bindR (ditem raw ''message'') (\<lambda>message.
     Inr \<lparr>ts_provider = provider, ts_state = state, ts_credential_ref = token_secret_ref provider,
          ts_refresh_owner = owner, ts_scopes = scopes, ts_expires_at = dget_or raw ''expires_at'' VNone,
          ts_rotation_count = count, ts_revoked_at = dget_or raw ''revoked_at'' VNone,
          ts_network_used = False, ts_message = message\<rparr>)))))"

definition token_status :: "benv \<Rightarrow> MayaConfig \<Rightarrow> string \<Rightarrow> ('s bworld, TokenLifecycleStatus) py" where
  "token_status env config provider0 =
     bnd (lift (require_supported_provider provider0)) (\<lambda>provider.
     let p = token_metadata_path config provider
     in bnd (gets (\<lambda>w. bw_files w p \<noteq> None)) (\<lambda>is_file.
        if \<not> is_file
        then ret \<lparr>ts_provider = provider, ts_state = TK_NOT_CONFIGURED,
                  ts_credential_ref = token_secret_ref provider,
                  ts_refresh_owner = VStr (refresh_owner provider), ts_scopes = [], ts_expires_at = VNone,
                  ts_rotation_count = 0, ts_revoked_at = VNone, ts_network_used = False,
                  ts_message = VStr ''token metadata not configured''\<rparr>
        else bnd (read_json env p) (\<lambda>v.
             bnd (lift (as_dict v)) (\<lambda>raw. lift (status_from_document provider raw)))))"

definition load_payload :: "benv \<Rightarrow> 's secret_ops \<Rightarrow> SecretRef \<Rightarrow> ('s bworld, pyval) py" where
  "load_payload env store token_ref =
     bnd (try_except (secret_read store token_ref)
       (\<lambda>e. if exc_class_of e = SecretStoreError
            then raise (operation_error ''token envelope is unavailable'') else raise e)) (\<lambda>envelope.
     case json_loads (be_loads env) envelope of
       Inr v \<Rightarrow> ret v
     | Inl e \<Rightarrow> if exc_class_of e = PyValueError
               then raise (operation_error ''token envelope is unavailable'') else raise e)"

text \<open>The new contents of an envelope, in the order the code computes them.\<close>

definition rotated_payload :: "benv \<Rightarrow> string \<Rightarrow> pyval \<Rightarrow> ('s bworld, pydict) py" where
  "rotated_payload env provider value =
     bnd (token_urlsafe env 48) (\<lambda>access.
     bnd (lift (as_dict value)) (\<lambda>payload0.
     bnd (now_op env) (\<lambda>now.
     bnd (lift (add_seconds now 43200)) (\<lambda>expires.
     let payload1 = assoc_put (VStr ''expires_at'') (VStr (format_time expires))
                      (assoc_put (VStr ''access_token'') (VStr access) payload0)
     in bnd (if provider = ''slack''
             then bnd (token_urlsafe env 48) (\<lambda>r. ret (assoc_put (VStr ''refresh_token'') (VStr r) payload1))
             else ret payload1) (\<lambda>payload2.
        bnd (lift (py_int (dget_or payload2 ''rotation_count'' (VInt 0)))) (\<lambda>count.
        ret (assoc_put (VStr ''rotation_count'') (VInt (count + 1)) payload2)))))))"

definition refresh_token ::
  "benv \<Rightarrow> 's secret_ops \<Rightarrow> MayaConfig \<Rightarrow> string \<Rightarrow> bool \<Rightarrow> ('s bworld, BrokerOperationResult) py" where
  "refresh_token env store config provider0 apply_it =
     bnd (lift (require_broker_runtime config)) (\<lambda>_.
     bnd (lift (require_supported_provider provider0)) (\<lambda>provider.
     bnd (require apply_it (operation_error ''token refresh requires --apply'')) (\<lambda>_.
     let token_ref = token_secret_ref provider
     in bnd (load_payload env store token_ref) (\<lambda>value.
        bnd (rotated_payload env provider value) (\<lambda>payload.
        bnd (store_payload env store token_ref payload) (\<lambda>_.
        bnd (lift (token_metadata_from_payload env token_ref payload)) (\<lambda>metadata.
        bnd (write_token_metadata env config provider metadata) (\<lambda>_.
        ret (operation_done ''broker.token-refresh'' provider ''rotated_token_envelope''
               ''token envelope refreshed through broker lifecycle'' metadata)))))))))"

definition revoke_token ::
  "benv \<Rightarrow> 's secret_ops \<Rightarrow> MayaConfig \<Rightarrow> string \<Rightarrow> bool \<Rightarrow> ('s bworld, BrokerOperationResult) py" where
  "revoke_token env store config provider0 apply_it =
     bnd (lift (require_broker_runtime config)) (\<lambda>_.
     bnd (lift (require_supported_provider provider0)) (\<lambda>provider.
     bnd (require apply_it (operation_error ''token revocation requires --apply'')) (\<lambda>_.
     let token_ref = token_secret_ref provider
     in bnd (secret_delete store token_ref) (\<lambda>_.
        bnd (now_op env) (\<lambda>now.
        let metadata =
          \<lparr>ts_provider = provider, ts_state = TK_REVOKED, ts_credential_ref = token_ref,
           ts_refresh_owner = VStr (refresh_owner provider), ts_scopes = [], ts_expires_at = VNone,
           ts_rotation_count = 0, ts_revoked_at = VStr (format_time now), ts_network_used = False,
           ts_message = VStr ''local token envelope revoked; provider revocation is broker-mediated''\<rparr>
        in bnd (write_token_metadata env config provider metadata) (\<lambda>_.
           ret (operation_done ''broker.token-revoke'' provider ''deleted_token_envelope''
                  ''local token envelope deleted'' metadata)))))))"

end
