(* ===== verification/Maya_Tokens.thy ===== *)
theory Maya_Tokens
  imports Maya_Broker Maya_Config
begin

text \<open>
  Properties of the token life cycle of \<open>src/project_maya/broker.py\<close>: what revocation,
  refresh and completion do to the secret store and the metadata, for every store that keeps
  the contract, and on the in-memory backend.
\<close>

section \<open>Preconditions of the small steps\<close>

lemma wp_tick_op [wp]: "wlp (tick_op f) Q E = (\<lambda>w. Q (f (bw_tick w)) (w\<lparr>bw_tick := Suc (bw_tick w)\<rparr>))"
  by (simp add: tick_op_def wp)

lemma wp_now_op [wp]:
  "wlp (now_op env) Q E = (\<lambda>w. Q (be_clock env (bw_tick w)) (w\<lparr>bw_tick := Suc (bw_tick w)\<rparr>))"
  by (simp add: now_op_def wp)

lemma wp_token [wp]:
  "wlp (token_urlsafe env n) Q E
     = (\<lambda>w. Q (b64 (be_random env (bw_tick w) n)) (w\<lparr>bw_tick := Suc (bw_tick w)\<rparr>))"
  by (simp add: token_urlsafe_def wp)

lemma wp_secret_write [wp]:
  "wlp (secret_write store r v) Q E
     = (\<lambda>w. case so_write store r v (bw_secrets w) of
          Inl e \<Rightarrow> E e w | Inr s \<Rightarrow> Q () (w\<lparr>bw_secrets := s\<rparr>))"
  by (rule ext) (simp add: secret_write_def wp split: sum.splits)

lemma wp_secret_delete [wp]:
  "wlp (secret_delete store r) Q E
     = (\<lambda>w. case so_delete store r (bw_secrets w) of
          Inl e \<Rightarrow> E e w | Inr s \<Rightarrow> Q () (w\<lparr>bw_secrets := s\<rparr>))"
  by (rule ext) (simp add: secret_delete_def wp split: sum.splits)

lemma wp_secret_read [wp]:
  "wlp (secret_read store r) Q E
     = (\<lambda>w. case so_read store (bw_secrets w) r of Inl e \<Rightarrow> E e w | Inr v \<Rightarrow> Q v w)"
  by (rule ext) (simp add: secret_read_def wp split: sum.splits)

text \<open>What writing a document can do: the secrets stay, and at most the file at the path changes.\<close>

lemma wlp_write_json:
  assumes "\<And>u. u = w\<lparr>bw_files := (bw_files w)(p \<mapsto> Document (VDict d)), bw_tick := Suc (bw_tick w)\<rparr>
              \<Longrightarrow> be_fault env (bw_tick w) = None \<Longrightarrow> Q () u"
    and "\<And>e u. bw_secrets u = bw_secrets w \<Longrightarrow> (\<And>q. q \<noteq> p \<Longrightarrow> bw_files u q = bw_files w q)
              \<Longrightarrow> bw_seen u = bw_seen w \<Longrightarrow> E e u"
  shows "wlp (write_json env p d) Q E w"
  unfolding write_json_def wp
  by (auto simp: wp split: sum.splits option.splits intro!: assms)

section \<open>Revocation\<close>

context secret_store
begin

text \<open>Whatever happens, the store is untouched or the token is gone and nothing else is.\<close>

lemma revoke_effect:
  "wlp (revoke_token env ops config provider0 apply_it)
     (\<lambda>r v. \<exists>provider. require_supported_provider provider0 = Inr provider
        \<and> \<not> is_ok (so_read ops (bw_secrets v) (token_secret_ref provider))
        \<and> (\<forall>q. q \<noteq> token_secret_ref provider \<longrightarrow> so_read ops (bw_secrets v) q = so_read ops (bw_secrets w) q)
        \<and> (\<exists>t. bw_files v (token_metadata_path config provider)
               = Some (Document (VDict (token_summary t))) \<and> ts_state t = TK_REVOKED
               \<and> ts_scopes t = [] \<and> ts_provider t = provider))
     (\<lambda>e v. bw_secrets v = bw_secrets w
        \<or> (\<exists>provider. require_supported_provider provider0 = Inr provider
             \<and> \<not> is_ok (so_read ops (bw_secrets v) (token_secret_ref provider))
             \<and> (\<forall>q. q \<noteq> token_secret_ref provider \<longrightarrow> so_read ops (bw_secrets v) q = so_read ops (bw_secrets w) q)))
     w"
  unfolding revoke_token_def wp Let_def write_token_metadata_def
  by (auto simp: wp read_deleted delete_other split: sum.splits intro!: wlp_write_json)

lemma revoke_files:
  "wlp (revoke_token env ops config provider0 apply_it)
     (\<lambda>r v. \<forall>provider q. require_supported_provider provider0 = Inr provider
        \<longrightarrow> q \<noteq> token_metadata_path config provider \<longrightarrow> bw_files v q = bw_files w q) (\<lambda>_ _. True) w"
  unfolding revoke_token_def wp Let_def write_token_metadata_def
  by (auto simp: wp split: sum.splits intro!: wlp_write_json)

end

section \<open>Refresh\<close>

lemma flat_assoc_put: "list_all flat_entry d \<Longrightarrow> flat_entry (VStr k, v) \<Longrightarrow> list_all flat_entry (assoc_put (VStr k) v d)"
  by (induction "VStr k" v d rule: assoc_put.induct) auto

lemma dget_assoc_put [simp]: "dget (assoc_put (VStr k) v d) l = (if l = k then Some v else dget d l)"
  by (simp add: dget_def)

lemma assoc_put_nonempty [simp]: "assoc_put k v d \<noteq> []"
  by (cases "(k, v, d)" rule: assoc_put.cases) auto

text \<open>A payload the program can write and read back.\<close>

definition good_payload :: "pydict \<Rightarrow> bool" where
  "good_payload d \<longleftrightarrow> list_all flat_entry d \<and> distinct (map fst d) \<and> d \<noteq> []"

lemma good_payload_nonneg: "good_payload d \<Longrightarrow> dget d k = Some (VInt n) \<Longrightarrow> 0 \<le> n"
  by (auto simp: good_payload_def list_all_iff dget_def dest!: map_of_SomeD)

lemma good_payload_put:
  "good_payload d \<Longrightarrow> flat_entry (VStr k, v) \<Longrightarrow> good_payload (assoc_put (VStr k) v d)"
  by (simp add: good_payload_def flat_assoc_put distinct_assoc_put)

lemma good_payload_read:
  assumes "good_payload d" and "json_dumps fl '', '' '': '' (VDict d) = Inr s"
  obtains d' where "json_loads other s = Inr (VDict d')" and "dget d' = dget d" and "good_payload d'"
proof -
  let ?d = "sort_key entry_key d"
  have "json_loads other s = Inr (VDict ?d)"
    using assms by (intro json_loads_dumps) (auto simp: good_payload_def)
  moreover have "dget ?d = dget d" using assms(1) by (intro ext dget_sorted) (simp add: good_payload_def)
  moreover have "good_payload ?d"
    using assms(1) unfolding good_payload_def
    by (metis length_0_conv length_sort list_all_iff mset_eq_imp_distinct_iff mset_map mset_sort set_sort)
  ultimately show ?thesis by (rule that)
qed

definition holds_payload :: "benv \<Rightarrow> 's secret_ops \<Rightarrow> 's \<Rightarrow> SecretRef \<Rightarrow> pydict \<Rightarrow> bool" where
  "holds_payload env ops s r d \<longleftrightarrow>
     (\<exists>t d'. so_read ops s r = Inr t \<and> json_loads (be_loads env) t = Inr (VDict d')
        \<and> good_payload d' \<and> dget d' = dget d)"

text \<open>What the refreshed payload is, from the tick the refresh starts at.\<close>

definition refreshed :: "benv \<Rightarrow> string \<Rightarrow> nat \<Rightarrow> pydict \<Rightarrow> int \<Rightarrow> string \<Rightarrow> pydict" where
  "refreshed env provider t d n expires =
     (let d1 = assoc_put (VStr ''expires_at'') (VStr expires)
                 (assoc_put (VStr ''access_token'') (VStr (b64 (be_random env t 48))) d);
          d2 = (if provider = ''slack''
                then assoc_put (VStr ''refresh_token'') (VStr (b64 (be_random env (t + 2) 48))) d1 else d1)
      in assoc_put (VStr ''rotation_count'') (VInt (n + 1)) d2)"

lemma dget_refreshed:
  "dget (refreshed env provider t d n x) k =
     (if k = ''rotation_count'' then Some (VInt (n + 1))
      else if k = ''refresh_token'' \<and> provider = ''slack'' then Some (VStr (b64 (be_random env (t + 2) 48)))
      else if k = ''expires_at'' then Some (VStr x)
      else if k = ''access_token'' then Some (VStr (b64 (be_random env t 48))) else dget d k)"
  by (simp add: refreshed_def Let_def)

lemma wlp_rotated_payload:
  assumes "dget d ''rotation_count'' = Some (VInt n)"
    and "\<And>x u. bw_secrets u = bw_secrets w \<Longrightarrow> bw_files u = bw_files w
           \<Longrightarrow> Q (refreshed env provider (bw_tick w) d n x) u"
    and "\<And>e u. E e u"
  shows "wlp (rotated_payload env provider (VDict d)) Q E w"
proof -
  have "Q (refreshed env provider (bw_tick w) d n x) (w\<lparr>bw_tick := k\<rparr>)" for x k
    by (rule assms(2)) simp_all
  then show ?thesis
    using assms(1)
    by (auto simp: rotated_payload_def wp as_dict_def dget_or_def refreshed_def Let_def assms(3)
        split: sum.splits)
qed

context secret_store
begin

lemma store_payload_effect:
  assumes "good_payload d"
    and "\<And>s. holds_payload env ops s r d \<Longrightarrow> (\<And>q. q \<noteq> r \<Longrightarrow> so_read ops s q = so_read ops (bw_secrets w) q)
           \<Longrightarrow> Q () (w\<lparr>bw_secrets := s\<rparr>)"
    and "\<And>e. E e w"
  shows "wlp (store_payload env ops r d) Q E w"
proof -
  have "holds_payload env ops s r d"
    if "json_dumps (be_float env) '', '' '': '' (VDict d) = Inr t" "so_write ops r t (bw_secrets w) = Inr s" for t s
    using good_payload_read [OF assms(1) that(1)] read_written [OF that(2)] unfolding holds_payload_def by metis
  then show ?thesis
    unfolding store_payload_def wp using write_other
    by (auto split: sum.splits intro!: assms(2,3))
qed

lemma refresh_effect:
  assumes "require_supported_provider provider0 = Inr provider"
    and "holds_payload env ops (bw_secrets w) (token_secret_ref provider) d"
    and "dget d ''rotation_count'' = Some (VInt n)"
  shows "wlp (refresh_token env ops config provider0 apply_it)
     (\<lambda>r v. \<exists>x d0. dget d0 = dget d
        \<and> holds_payload env ops (bw_secrets v) (token_secret_ref provider) (refreshed env provider (bw_tick w) d0 n x)
        \<and> (\<forall>q. q \<noteq> token_secret_ref provider \<longrightarrow> so_read ops (bw_secrets v) q = so_read ops (bw_secrets w) q)
        \<and> (\<exists>t. bw_files v (token_metadata_path config provider)
               = Some (Document (VDict (token_summary t))) \<and> ts_state t = TK_ACTIVE
               \<and> ts_rotation_count t = n + 1 \<and> ts_expires_at t = VStr x))
     (\<lambda>e v. True) w"
proof -
  obtain t d0 where read: "so_read ops (bw_secrets w) (token_secret_ref provider) = Inr t"
    "json_loads (be_loads env) t = Inr (VDict d0)" "good_payload d0" "dget d0 = dget d"
    using assms(2) unfolding holds_payload_def by blast
  have count: "dget d0 ''rotation_count'' = Some (VInt n)" using read(4) assms(3) by simp
  have "0 \<le> n" by (rule good_payload_nonneg [OF read(3) count])
  then have good: "good_payload (refreshed env provider k d0 n x)" for k x
    using read(3) by (simp add: refreshed_def Let_def good_payload_put)
  have load: "wlp (load_payload env ops (token_secret_ref provider)) Q E w = Q (VDict d0) w" for Q E
    using read(1,2) by (simp add: load_payload_def wp)
  have metadata: "token_metadata_from_payload env r (refreshed env provider k d0 n x) = Inr m
      \<Longrightarrow> ts_state m = TK_ACTIVE \<and> ts_rotation_count m = n + 1 \<and> ts_expires_at m = VStr x" for r k x m
    by (auto simp: token_metadata_from_payload_def res_iffs ditem_def dget_or_def dget_refreshed)
  show ?thesis
    unfolding refresh_token_def wp Let_def write_token_metadata_def
    apply (simp add: assms(1) wp load split: sum.splits)
    apply (intro allI impI wlp_rotated_payload [OF count])
    apply (rule store_payload_effect [OF good])
    apply (auto simp: wp split: sum.splits intro!: wlp_write_json)
    using read(4) metadata apply blast
    done
qed

end

section \<open>Completion, and the callback used twice\<close>

text \<open>A steady environment: the clock stands and no file operation fails.\<close>

definition steady :: "benv \<Rightarrow> instant \<Rightarrow> bool" where
  "steady env now \<longleftrightarrow> (\<forall>t. be_clock env t = now \<and> be_fault env t = None)"

definition fresh_at :: "benv \<Rightarrow> instant \<Rightarrow> string \<Rightarrow> string \<Rightarrow> bool" where
  "fresh_at env now issued_at expires_at \<longleftrightarrow>
     (\<exists>issued expires limit. parse_time (be_iso env) issued_at = Inr issued
        \<and> parse_time (be_iso env) expires_at = Inr expires \<and> add_seconds now 60 = Inr limit
        \<and> issued \<le> limit \<and> now < expires)"

text \<open>What a callback has to satisfy, given the session file and the time.\<close>

definition callback_ok ::
  "benv \<Rightarrow> MayaConfig \<Rightarrow> instant \<Rightarrow> string \<Rightarrow> string \<Rightarrow> string \<Rightarrow> (path \<Rightarrow> json_file option) \<Rightarrow> pydict \<Rightarrow> bool" where
  "callback_ok env config now provider session_id callback_url file doc \<longleftrightarrow>
     (\<exists>p. session_path config session_id = Inr p \<and> file p = Some (Document (VDict doc)))
     \<and> ditem doc ''provider'' = Inr (VStr provider)
     \<and> (\<exists>created expires. bindR (ditem doc ''created_at'') as_str = Inr created
          \<and> ditem doc ''expires_at'' = Inr expires \<and> fresh_at env now created (py_str (be_repr env) expires))
     \<and> (\<exists>parsed. urlsplit (be_bracket env) callback_url = Inr parsed
          \<and> query_param env (url_query parsed) ''state'' \<noteq> []
          \<and> ditem doc ''state'' = Inr (VStr (query_param env (url_query parsed) ''state''))
          \<and> query_param env (url_query parsed) ''code'' \<noteq> [])"

lemma require_fresh_steady:
  "steady env now \<Longrightarrow> wlp (require_fresh env i x None) (\<lambda>_ v. v = w\<lparr>bw_tick := Suc (bw_tick w)\<rparr> \<and> fresh_at env now i x)
      (\<lambda>_ _. \<not> fresh_at env now i x) w"
  by (auto simp: require_fresh_def the_time_def wp steady_def fresh_at_def split: sum.splits)

lemma as_dict_iff: "as_dict v = Inr d \<longleftrightarrow> v = VDict d"
  by (auto simp: as_dict_def split: pyval.splits)

lemma wlp_read_session:
  assumes "steady env now"
  shows "wlp (read_session env config sid)
      (\<lambda>doc v. v = w\<lparr>bw_tick := Suc (bw_tick w)\<rparr>
         \<and> (\<exists>p. session_path config sid = Inr p \<and> bw_files w p = Some (Document (VDict doc))))
      (\<lambda>_ _. \<not> (\<exists>p doc. session_path config sid = Inr p \<and> bw_files w p = Some (Document (VDict doc)))) w"
  using assms
  by (auto simp: read_session_def read_json_def file_tick_def wp steady_def as_dict_iff
      split: sum.splits option.splits json_file.splits) (auto simp: as_dict_def split: pyval.splits)

lemma accept_steady:
  assumes "steady env now"
  shows "wlp (accept_callback env config provider sid url)
      (\<lambda>doc v. v = w\<lparr>bw_tick := bw_tick w + 2\<rparr> \<and> callback_ok env config now provider sid url (bw_files w) doc)
      (\<lambda>_ _. \<nexists>doc. callback_ok env config now provider sid url (bw_files w) doc) w"
  unfolding accept_callback_def wp Let_def
  by (rule wlp_mono [OF wlp_read_session [OF assms]];
      auto simp: wp split: sum.splits intro!: wlp_mono [OF require_fresh_steady [OF assms]];
      auto simp: callback_ok_def bindR_Inr_iff requireR_iff bindR_Inl_iff)

lemma token_ref_valid:
  "require_supported_provider provider0 = Inr provider
     \<Longrightarrow> validate_secret_ref (token_secret_ref provider) = Inr ()"
proof -
  assume "require_supported_provider provider0 = Inr provider"
  then consider "provider = ''google''" | "provider = ''slack''"
    by (auto simp: require_supported_provider_def SUPPORTED_BROKER_PROVIDERS_def Let_def res_iffs)
  then show ?thesis
    by cases (simp_all add: token_secret_ref_def TOKEN_SECRET_PREFIX_def validate_secret_ref_def
        safe_secret_part_def secret_char_def is_alnum_def is_lower_def)
qed

lemma json_items_strings: "\<exists>ts. json_items fl sep colon (map VStr xs) = Inr ts"
  by (induction xs) auto

lemma summary_members:
  assumes "ts_refresh_owner t = VStr a" and "ts_scopes t = map VStr b" and "ts_expires_at t = VStr c"
    and "ts_revoked_at t = VNone" and "ts_message t = VStr e"
  shows "json_members fl sep colon (token_summary t) \<noteq> Inl err"
  using json_items_strings [of fl sep colon b] assms by (auto simp: token_summary_def)

text \<open>Storing a token, on the in-memory backend and in a steady environment.\<close>

lemma store_new_token_steady:
  assumes "steady env now" and "require_supported_provider provider0 = Inr provider"
  shows "wlp (store_new_token env memory_ops config provider doc)
      (\<lambda>_ v. is_ok (memory_read (bw_secrets v) (token_secret_ref provider))
         \<and> (\<exists>scope. bindR (ditem doc ''scopes'') join_values = Inr scope)
         \<and> is_ok (add_seconds now 43200)
         \<and> (\<forall>q. q \<noteq> token_metadata_path config provider \<longrightarrow> bw_files v q = bw_files w q)
         \<and> (\<exists>t. bw_files v (token_metadata_path config provider)
               = Some (Document (VDict (token_summary t))) \<and> ts_state t = TK_ACTIVE))
      (\<lambda>_ _. \<not> (is_ok (bindR (ditem doc ''scopes'') join_values) \<and> is_ok (add_seconds now 43200))) w"
proof -
  have wr: "so_write memory_ops (token_secret_ref provider) t s
      = Inr (assoc_put (ref_str (token_secret_ref provider)) t s)" for t s
    using token_ref_valid [OF assms(2)] by (simp add: memory_ops_def memory_write_def)
  have rd: "is_ok (memory_read (assoc_put (ref_str (token_secret_ref provider)) t s) (token_secret_ref provider))" for t s
    using token_ref_valid [OF assms(2)] by (simp add: memory_read_def)
  show ?thesis
    using assms(1)
    unfolding store_new_token_def store_payload_def write_token_metadata_def write_json_def wp Let_def steady_def
    by (auto simp: wp wr rd token_metadata_from_payload_def ditem_def dget_def dget_or_def bindR_Inl_iff
        summary_members split: sum.splits)
qed

lemma complete_steady:
  assumes "steady env now" and "require_supported_provider provider0 = Inr provider"
  shows "wlp (complete_oauth_session env memory_ops config provider0 session_id url True)
      (\<lambda>_ v. require_broker_runtime config = Inr ()
         \<and> (\<exists>doc. callback_ok env config now provider session_id url (bw_files w) doc
              \<and> is_ok (bindR (ditem doc ''scopes'') join_values))
         \<and> is_ok (add_seconds now 43200)
         \<and> is_ok (memory_read (bw_secrets v) (token_secret_ref provider))
         \<and> (\<forall>q. q \<noteq> token_metadata_path config provider \<longrightarrow> bw_files v q = bw_files w q)
         \<and> (\<exists>t. bw_files v (token_metadata_path config provider)
               = Some (Document (VDict (token_summary t))) \<and> ts_state t = TK_ACTIVE))
      (\<lambda>_ _. \<not> (require_broker_runtime config = Inr () \<and> is_ok (add_seconds now 43200)
         \<and> (\<exists>doc. callback_ok env config now provider session_id url (bw_files w) doc
              \<and> is_ok (bindR (ditem doc ''scopes'') join_values)))) w"
proof -
  have one: "doc = doc'"
    if "callback_ok env config now provider session_id url f doc"
      "callback_ok env config now provider session_id url f doc'" for doc doc' f
    using that by (auto simp: callback_ok_def)
  show ?thesis
    unfolding complete_oauth_session_def wp
    using assms(2)
    by (auto simp: wp split: sum.splits intro!: wlp_mono [OF accept_steady [OF assms(1)]]
        wlp_mono [OF store_new_token_steady [OF assms]] dest: one)
qed

text \<open>
  C35. A callback is not used up. On the in-memory backend, while the clock is inside the window
  of the session: once a completion has succeeded and the token has been revoked, presenting the
  very same callback again succeeds again, and the provider has an active token as if it had
  never been revoked.
\<close>

theorem revoked_token_comes_back:
  assumes "steady env now"
    and "complete_oauth_session env memory_ops config provider session_id url True w = (Inr r1, v)"
    and "revoke_token env memory_ops config provider True v = (Inr r2, u)"
  shows "\<exists>r3 x p. complete_oauth_session env memory_ops config provider session_id url True u = (Inr r3, x)
           \<and> require_supported_provider provider = Inr p
           \<and> \<not> is_ok (memory_read (bw_secrets u) (token_secret_ref p))
           \<and> is_ok (memory_read (bw_secrets x) (token_secret_ref p))
           \<and> (\<exists>t. bw_files x (token_metadata_path config p) = Some (Document (VDict (token_summary t)))
                \<and> ts_state t = TK_ACTIVE)"
proof -
  obtain p where p: "require_supported_provider provider = Inr p"
    using memory.revoke_effect [of env config provider True v] assms(3) by (auto dest: wlp_run)
  note done_once = wlp_run(1) [OF complete_steady [OF assms(1) p] assms(2)]
  have gone: "\<not> is_ok (memory_read (bw_secrets u) (token_secret_ref p))"
    using memory.revoke_effect [of env config provider True v] assms(3) p
    by (auto dest!: wlp_run(1) simp: memory_ops_def)
  have files: "\<forall>q. q \<noteq> token_metadata_path config p \<longrightarrow> bw_files u q = bw_files w q"
    using wlp_run(1) [OF memory.revoke_files assms(3)] done_once p by simp
  have "callback_ok env config now p session_id url (bw_files u) doc"
    if ok: "callback_ok env config now p session_id url (bw_files w) doc" for doc
  proof -
    have "session_path config session_id = Inr q \<Longrightarrow> q \<noteq> token_metadata_path config p" for q
      by (auto simp: session_path_def token_metadata_path_def below_def Let_def res_iffs)
    then show ?thesis using ok files unfolding callback_ok_def by metis
  qed
  then have again: "wlp (complete_oauth_session env memory_ops config provider session_id url True)
      (\<lambda>_ x. is_ok (memory_read (bw_secrets x) (token_secret_ref p))
         \<and> (\<exists>t. bw_files x (token_metadata_path config p)
               = Some (Document (VDict (token_summary t))) \<and> ts_state t = TK_ACTIVE)) (\<lambda>_ _. False) u"
    using done_once by (intro wlp_mono [OF complete_steady [OF assms(1) p]]) blast+
  obtain out x where out: "complete_oauth_session env memory_ops config provider session_id url True u = (out, x)"
    by force
  then show ?thesis using again p gone by (cases out) (auto dest: wlp_run)
qed

section \<open>Starting a session\<close>

lemma start_effect:
  "wlp (start_oauth_session env config provider0 apply_it)
     (\<lambda>s v. broker_mode (broker config) = RUNTIME \<and> broker_endpoint (broker config) \<notin> {None, Some []}
        \<and> os_provider s \<in> {''google'', ''slack''}
        \<and> (\<exists>i. map_of (integrations config) (os_provider s) = Some i \<and> int_enabled i
             \<and> int_credential_mode i = BROKER)
        \<and> edition (product config) = STANDARD
        \<and> bw_secrets v = bw_secrets w
        \<and> (\<exists>p. \<forall>q. q \<noteq> p \<or> \<not> apply_it \<longrightarrow> bw_files v q = bw_files w q))
     (\<lambda>_ v. bw_secrets v = bw_secrets w
        \<and> (\<exists>p. \<forall>q. q \<noteq> p \<or> \<not> apply_it \<longrightarrow> bw_files v q = bw_files w q)) w"
proof -
  have guards: "broker_mode (broker config) = RUNTIME \<and> broker_endpoint (broker config) \<notin> {None, Some []}
      \<and> provider \<in> {''google'', ''slack''}
      \<and> (\<exists>i. map_of (integrations config) provider = Some i \<and> int_enabled i \<and> int_credential_mode i = BROKER)
      \<and> edition (product config) = STANDARD"
    if "require_broker_runtime config = Inr ()" "require_supported_provider provider0 = Inr provider"
      "require_broker_connector config provider = Inr ()" for provider
  proof -
    have "edition (product config) = STANDARD"
      using that(3) by (cases "edition (product config)")
        (auto simp: require_broker_connector_def res_iffs split: option.splits)
    then show ?thesis using that
      by (auto simp: require_broker_runtime_def require_broker_not_disabled_def require_broker_connector_def
          require_supported_provider_def SUPPORTED_BROKER_PROVIDERS_def Let_def res_iffs
          split: option.splits if_splits)
  qed
  show ?thesis
    unfolding start_oauth_session_def write_session_def wp Let_def
    by ((auto simp: wp dest: guards split: sum.splits intro!: wlp_write_json)?; blast)
qed

text \<open>
  An OAuth session starts only where the product allows it: if \<open>start_oauth_session\<close>
  returns a session, the broker runs with an endpoint, the provider is Google or Slack, its
  integration is enabled with broker credentials, and the edition is not Enterprise. No outcome
  changes a secret; without \<open>--apply\<close> no file changes, and with it at most the file of
  one session.
\<close>

theorem oauth_start_guarded:
  assumes "start_oauth_session env config provider apply_it w = (r, v)"
  shows "bw_secrets v = bw_secrets w
    \<and> (\<exists>p. \<forall>q. q \<noteq> p \<or> \<not> apply_it \<longrightarrow> bw_files v q = bw_files w q)
    \<and> (\<forall>s. r = Inr s \<longrightarrow>
         broker_mode (broker config) = RUNTIME \<and> broker_endpoint (broker config) \<notin> {None, Some []}
         \<and> os_provider s \<in> {''google'', ''slack''}
         \<and> (\<exists>i. map_of (integrations config) (os_provider s) = Some i \<and> int_enabled i
              \<and> int_credential_mode i = BROKER)
         \<and> edition (product config) = STANDARD)"
proof (cases r)
  case (Inl e)
  then show ?thesis using wlp_run(2) [OF start_effect] assms by blast
next
  case (Inr s)
  then show ?thesis using wlp_run(1) [OF start_effect] assms by blast
qed

section \<open>Revocation and refresh on the in-memory backend\<close>

lemma revoke_steady:
  assumes "steady env now" and "require_broker_runtime config = Inr ()"
    and "require_supported_provider provider0 = Inr provider"
  shows "wlp (revoke_token env memory_ops config provider0 True) (\<lambda>_ _. True) (\<lambda>_ _. False) w"
proof -
  have del: "so_delete memory_ops (token_secret_ref provider) s
      = Inr (filter (\<lambda>(k, _). k \<noteq> ref_str (token_secret_ref provider)) s)" for s
    using token_ref_valid [OF assms(3)] by (simp add: memory_ops_def memory_delete_def)
  show ?thesis
    using assms
    unfolding revoke_token_def write_token_metadata_def write_json_def wp Let_def steady_def
    by (auto simp: wp del token_summary_def split: sum.splits)
qed

text \<open>
  Revocation deletes, and deletes only that. Whatever \<open>revoke_token\<close> ends with on the
  in-memory backend (an exception of a failing metadata write included), either the secrets are
  untouched and it raised, or the token of the named provider cannot be read any more while
  every other secret reads as before; when it returns, the metadata file says revoked, without
  scopes; and with the broker running, a supported provider and no failing file operation it
  does return.
\<close>

theorem revoked_token_gone:
  assumes "revoke_token env memory_ops config provider apply_it w = (r, v)"
  shows "(bw_secrets v = bw_secrets w \<and> \<not> is_ok r
    \<or> (\<exists>p. require_supported_provider provider = Inr p
         \<and> \<not> is_ok (memory_read (bw_secrets v) (token_secret_ref p))
         \<and> (\<forall>q. q \<noteq> token_secret_ref p \<longrightarrow> memory_read (bw_secrets v) q = memory_read (bw_secrets w) q)
         \<and> (is_ok r \<longrightarrow> (\<exists>t. bw_files v (token_metadata_path config p)
               = Some (Document (VDict (token_summary t))) \<and> ts_state t = TK_REVOKED \<and> ts_scopes t = []))))
    \<and> ((\<exists>now. steady env now) \<and> require_broker_runtime config = Inr () \<and> apply_it
         \<and> is_ok (require_supported_provider provider) \<longrightarrow> is_ok r)"
proof -
  have "is_ok r" if "steady env now" "require_broker_runtime config = Inr ()" apply_it
      "is_ok (require_supported_provider provider)" for now
    using revoke_steady [OF that(1,2), of provider _ w] that(3,4) assms
    by (cases "require_supported_provider provider"; cases r) (auto simp: wlp_def)
  moreover have "so_read memory_ops = memory_read" by (simp add: memory_ops_def)
  note effect = memory.revoke_effect [of env config provider apply_it w, unfolded wlp_def assms prod.case this]
  have "bw_secrets v = bw_secrets w \<and> \<not> is_ok r
    \<or> (\<exists>p. require_supported_provider provider = Inr p
         \<and> \<not> is_ok (memory_read (bw_secrets v) (token_secret_ref p))
         \<and> (\<forall>q. q \<noteq> token_secret_ref p \<longrightarrow> memory_read (bw_secrets v) q = memory_read (bw_secrets w) q)
         \<and> (is_ok r \<longrightarrow> (\<exists>t. bw_files v (token_metadata_path config p)
               = Some (Document (VDict (token_summary t))) \<and> ts_state t = TK_REVOKED \<and> ts_scopes t = [])))"
  proof (cases r)
    case (Inl e)
    then show ?thesis using effect by simp
  next
    case (Inr out)
    then show ?thesis using effect by auto
  qed
  ultimately show ?thesis by blast
qed

lemma refresh_steady:
  assumes "steady env now" and "require_broker_runtime config = Inr ()" and "is_ok (add_seconds now 43200)"
    and "require_supported_provider provider0 = Inr provider"
    and "holds_payload env memory_ops (bw_secrets w) (token_secret_ref provider) d"
    and "dget d ''rotation_count'' = Some (VInt n)"
    and "dget d ''provider'' \<noteq> None" and "dget d ''refresh_owner'' \<noteq> None"
  shows "wlp (refresh_token env memory_ops config provider0 True) (\<lambda>_ _. True) (\<lambda>_ _. False) w"
proof -
  obtain t d0 where read: "memory_read (bw_secrets w) (token_secret_ref provider) = Inr t"
    "json_loads (be_loads env) t = Inr (VDict d0)" "good_payload d0" "dget d0 = dget d"
    using assms(5) unfolding holds_payload_def by (auto simp: memory_ops_def)
  have load: "wlp (load_payload env memory_ops (token_secret_ref provider)) Q E w = Q (VDict d0) w" for Q E
    using read(1,2) by (simp add: load_payload_def wp memory_ops_def)
  obtain x where x: "add_seconds now 43200 = Inr x" using assms(3) by (cases "add_seconds now 43200") auto
  have rotated: "wlp (rotated_payload env provider (VDict d0))
      (\<lambda>p u. p = refreshed env provider (bw_tick w) d0 n (format_time x)) (\<lambda>_ _. False) w"
    using assms(1,6) read(4) x
    by (auto simp: rotated_payload_def wp as_dict_def dget_or_def refreshed_def Let_def steady_def
        numeral_2_eq_2)
  define p where "p = refreshed env provider (bw_tick w) d0 n (format_time x)"
  have "good_payload p"
  proof -
    have "0 \<le> n" using good_payload_nonneg [OF read(3)] assms(6) read(4) by simp
    then show ?thesis using read(3) by (simp add: p_def refreshed_def Let_def good_payload_put)
  qed
  then have dump: "json_members (be_float env) sep colon p \<noteq> Inl err" for sep colon err
    by (simp add: json_members_flat good_payload_def)
  obtain a b where ab: "dget d0 ''provider'' = Some a" "dget d0 ''refresh_owner'' = Some b"
    using assms(7,8) read(4) by auto
  then have meta: "\<exists>m. token_metadata_from_payload env r p = Inr m \<and> (\<forall>fl sep colon err.
      json_members fl sep colon (token_summary m) \<noteq> Inl err)" for r
    by (auto simp: token_metadata_from_payload_def ditem_def dget_or_def p_def dget_refreshed summary_members)
  have wr: "so_write memory_ops (token_secret_ref provider) v s
      = Inr (assoc_put (ref_str (token_secret_ref provider)) v s)" for v s
    using token_ref_valid [OF assms(4)] by (simp add: memory_ops_def memory_write_def)
  obtain m where m: "token_metadata_from_payload env (token_secret_ref provider) p = Inr m"
    "\<And>fl sep colon err. json_members fl sep colon (token_summary m) \<noteq> Inl err" using meta by blast
  show ?thesis
    using assms(1,2,4)
    unfolding refresh_token_def write_token_metadata_def write_json_def store_payload_def wp Let_def steady_def
    by (auto simp: wp load dump wr m bindR_Inl_iff p_def [symmetric] split: sum.splits
        intro!: wlp_mono [OF rotated])
qed

text \<open>
  Refreshing rotates what it must and keeps the rest. If the store holds a readable token
  envelope of the provider, with a rotation count, and the broker runs without failing file
  operations, \<open>refresh_token\<close> returns, and then the store holds an envelope with a new
  access token and expiry, a rotation count one higher, a new refresh token exactly for Slack,
  and every other entry as it was; other secrets are untouched and the metadata file shows an
  active token with the same count and expiry.
\<close>

theorem refresh_rotates:
  assumes "steady env now" and "require_broker_runtime config = Inr ()" and "is_ok (add_seconds now 43200)"
    and "require_supported_provider provider0 = Inr provider"
    and "holds_payload env memory_ops (bw_secrets w) (token_secret_ref provider) d"
    and "dget d ''rotation_count'' = Some (VInt n)"
    and "dget d ''provider'' \<noteq> None" and "dget d ''refresh_owner'' \<noteq> None"
  shows "\<exists>r v x d' t. refresh_token env memory_ops config provider0 True w = (Inr r, v)
      \<and> holds_payload env memory_ops (bw_secrets v) (token_secret_ref provider) d'
      \<and> dget d' ''access_token'' = Some (VStr (b64 (be_random env (bw_tick w) 48)))
      \<and> dget d' ''expires_at'' = Some (VStr x)
      \<and> dget d' ''rotation_count'' = Some (VInt (n + 1))
      \<and> dget d' ''refresh_token'' = (if provider = ''slack''
           then Some (VStr (b64 (be_random env (bw_tick w + 2) 48))) else dget d ''refresh_token'')
      \<and> (\<forall>k. k \<notin> {''access_token'', ''expires_at'', ''rotation_count'', ''refresh_token''} \<longrightarrow> dget d' k = dget d k)
      \<and> (\<forall>q. q \<noteq> token_secret_ref provider \<longrightarrow> memory_read (bw_secrets v) q = memory_read (bw_secrets w) q)
      \<and> bw_files v (token_metadata_path config provider) = Some (Document (VDict (token_summary t)))
      \<and> ts_state t = TK_ACTIVE \<and> ts_rotation_count t = n + 1 \<and> ts_expires_at t = VStr x"
proof -
  obtain r v where run: "refresh_token env memory_ops config provider0 True w = (Inr r, v)"
    using refresh_steady [OF assms] by (auto simp: wlp_def split: prod.splits sum.splits)
  obtain x d0 t where new: "dget d0 = dget d"
    "holds_payload env memory_ops (bw_secrets v) (token_secret_ref provider) (refreshed env provider (bw_tick w) d0 n x)"
    "\<forall>q. q \<noteq> token_secret_ref provider \<longrightarrow> so_read memory_ops (bw_secrets v) q = so_read memory_ops (bw_secrets w) q"
    "bw_files v (token_metadata_path config provider) = Some (Document (VDict (token_summary t)))"
    "ts_state t = TK_ACTIVE" "ts_rotation_count t = n + 1" "ts_expires_at t = VStr x"
    using wlp_run(1) [OF memory.refresh_effect [OF assms(4-6)] run] by blast
  show ?thesis
    by (rule exI [of _ r], rule exI [of _ v], rule exI [of _ x],
        rule exI [of _ "refreshed env provider (bw_tick w) d0 n x"], rule exI [of _ t])
       (use run new in \<open>auto simp: dget_refreshed memory_ops_def\<close>)
qed

section \<open>Concrete runs\<close>

definition calm_benv :: benv where
  "calm_benv = demo_benv\<lparr>be_clock := (\<lambda>_. 5529600000000)\<rparr>"

lemma calm_steady: "steady calm_benv 5529600000000"
  by (simp add: steady_def calm_benv_def demo_benv_def)

definition demo_session_doc :: pydict where
  "demo_session_doc =
     [(VStr ''provider'', VStr ''google''), (VStr ''state'', VStr ''s1''), (VStr ''scopes'', VList [VStr ''drive'']),
      (VStr ''created_at'', VStr (format_time 5529600000000)),
      (VStr ''expires_at'', VStr (format_time 5529601000000))]"

definition demo_callback :: string where
  "demo_callback = ''http://127.0.0.1/cb?state=s1&code=c1''"

definition waiting_bworld :: "memory_store bworld" where
  "waiting_bworld = demo_bworld\<lparr>bw_files := [Path ''/'' [''var'', ''maya'', ''broker'', ''oauth-sessions'', ''q.json'']
     \<mapsto> Document (VDict demo_session_doc)]\<rparr>"

lemma demo_provider: "require_supported_provider ''google'' = Inr ''google''"
  by (simp add: require_supported_provider_def SUPPORTED_BROKER_PROVIDERS_def Let_def lower_def lower_char_def
      is_upper_def strip_def is_space_def)

lemma demo_runtime: "require_broker_runtime demo_config = Inr ()"
  by (simp add: require_broker_runtime_def require_broker_not_disabled_def demo_config_def)

lemma demo_callback_ok:
  "callback_ok calm_benv demo_config 5529600000000 ''google'' ''q'' demo_callback (bw_files waiting_bworld) demo_session_doc"
proof -
  have "session_path demo_config ''q'' = Inr (Path ''/'' [''var'', ''maya'', ''broker'', ''oauth-sessions'', ''q.json''])"
    by (simp add: session_path_def below_def demo_config_def is_alnum_latin_def is_word_def is_alnum_def is_lower_def)
  moreover have "fresh_at calm_benv 5529600000000 (format_time 5529600000000) (format_time 5529601000000)"
    unfolding fresh_at_def
    by (rule exI [of _ 5529600000000], rule exI [of _ 5529601000000], rule exI [of _ 5529660000000])
       (simp add: max_instant_def add_seconds_def Let_def)
  moreover have "\<exists>parsed. urlsplit (be_bracket calm_benv) demo_callback = Inr parsed
      \<and> url_query parsed = ''state=s1&code=c1''"
    by (simp add: urlsplit_def demo_callback_def split_scheme_def scheme_char_def cut_at_def is_alnum_def
        is_digit_def is_upper_def is_lower_def starts_with_def Let_def)
  ultimately show ?thesis
    by (auto simp: callback_ok_def waiting_bworld_def demo_session_doc_def ditem_def dget_def as_str_def
        query_param_def query_pairs_def unquote_plus_def Let_def)
qed

lemma demo_in_time: "is_ok (add_seconds 5529600000000 43200)"
  by (simp add: add_seconds_def Let_def max_instant_def)

lemma demo_completes:
  "\<exists>r v. complete_oauth_session calm_benv memory_ops demo_config ''google'' ''q'' demo_callback True waiting_bworld
           = (Inr r, v)"
proof -
  have "is_ok (bindR (ditem demo_session_doc ''scopes'') join_values)"
    by (simp add: demo_session_doc_def ditem_def dget_def join_values_def as_str_def)
  then show ?thesis
    using complete_steady [OF calm_steady demo_provider, of demo_config "''q''" demo_callback waiting_bworld]
      demo_callback_ok demo_runtime demo_in_time
    by (auto simp: wlp_def split: prod.splits sum.splits)
qed

theorem revoked_token_comes_back_witness:
  "\<exists>r1 v r2 u r3 x.
     complete_oauth_session calm_benv memory_ops demo_config ''google'' ''q'' demo_callback True waiting_bworld = (Inr r1, v)
     \<and> revoke_token calm_benv memory_ops demo_config ''google'' True v = (Inr r2, u)
     \<and> complete_oauth_session calm_benv memory_ops demo_config ''google'' ''q'' demo_callback True u = (Inr r3, x)"
proof -
  obtain r1 v where complete: "complete_oauth_session calm_benv memory_ops demo_config ''google'' ''q''
      demo_callback True waiting_bworld = (Inr r1, v)" using demo_completes by blast
  obtain r2 u where revoke: "revoke_token calm_benv memory_ops demo_config ''google'' True v = (Inr r2, u)"
    using revoke_steady [OF calm_steady demo_runtime demo_provider, of v]
    by (auto simp: wlp_def split: prod.splits sum.splits)
  show ?thesis
    using revoked_token_comes_back [OF calm_steady complete revoke] complete revoke by blast
qed

definition held_bworld :: "memory_store bworld" where
  "held_bworld =
     demo_bworld\<lparr>bw_secrets :=
       [(ref_str (token_secret_ref ''google''), ''t''), (''secret://other'', ''keep'')]\<rparr>"

theorem revoked_token_gone_witness:
  "\<exists>r v. revoke_token calm_benv memory_ops demo_config ''google'' True held_bworld = (Inr r, v)
     \<and> is_ok (memory_read (bw_secrets held_bworld) (token_secret_ref ''google''))
     \<and> \<not> is_ok (memory_read (bw_secrets v) (token_secret_ref ''google''))
     \<and> memory_read (bw_secrets v) \<lparr>ref_name = ''other''\<rparr> = Inr ''keep''"
proof -
  obtain r v where revoke: "revoke_token calm_benv memory_ops demo_config ''google'' True held_bworld = (r, v)"
    by force
  have other: "memory_read (bw_secrets held_bworld) \<lparr>ref_name = ''other''\<rparr> = Inr ''keep''"
    "is_ok (memory_read (bw_secrets held_bworld) (token_secret_ref ''google''))"
    by (simp_all add: held_bworld_def memory_read_def validate_secret_ref_def safe_secret_part_def
        secret_char_def is_alnum_def is_lower_def ref_str_def token_secret_ref_def TOKEN_SECRET_PREFIX_def)
  have "is_ok r \<and> (bw_secrets v = bw_secrets held_bworld \<and> \<not> is_ok r
      \<or> \<not> is_ok (memory_read (bw_secrets v) (token_secret_ref ''google''))
        \<and> (\<forall>q. q \<noteq> token_secret_ref ''google'' \<longrightarrow>
             memory_read (bw_secrets v) q = memory_read (bw_secrets held_bworld) q))"
    using revoked_token_gone [OF revoke] demo_provider demo_runtime calm_steady by auto
  moreover have "\<lparr>ref_name = ''other''\<rparr> \<noteq> token_secret_ref ''google''"
    by (simp add: token_secret_ref_def TOKEN_SECRET_PREFIX_def)
  ultimately show ?thesis using revoke other by (cases r) auto
qed

definition demo_envelope :: pydict where
  "demo_envelope =
     [(VStr ''provider'', VStr ''google''), (VStr ''access_token'', VStr ''a''),
      (VStr ''refresh_token'', VStr ''r''), (VStr ''scope'', VStr ''drive''),
      (VStr ''refresh_owner'', VStr ''local''), (VStr ''rotation_count'', VInt 4)]"

definition envelope_text :: string where
  "envelope_text = (case json_dumps (be_float calm_benv) '', '' '': '' (VDict demo_envelope) of Inr t \<Rightarrow> t | Inl _ \<Rightarrow> [])"

definition refreshable_bworld :: "memory_store bworld" where
  "refreshable_bworld =
     demo_bworld\<lparr>bw_secrets := [(ref_str (token_secret_ref ''google''), envelope_text)]\<rparr>"

lemma refreshable_holds:
  "holds_payload calm_benv memory_ops (bw_secrets refreshable_bworld) (token_secret_ref ''google'') demo_envelope"
proof -
  have good: "good_payload demo_envelope" by (simp add: good_payload_def demo_envelope_def)
  then have "json_dumps (be_float calm_benv) '', '' '': '' (VDict demo_envelope) = Inr envelope_text"
    using json_dumps_flat [of demo_envelope "be_float calm_benv"] by (simp add: envelope_text_def good_payload_def)
  moreover have "memory_read (bw_secrets refreshable_bworld) (token_secret_ref ''google'') = Inr envelope_text"
    using token_ref_valid [OF demo_provider] by (simp add: refreshable_bworld_def memory_read_def)
  ultimately show ?thesis using good_payload_read [OF good] unfolding holds_payload_def
    by (metis memory_ops_def secret_ops.select_convs(1))
qed

theorem refresh_rotates_witness:
  "\<exists>r v d'. refresh_token calm_benv memory_ops demo_config ''google'' True refreshable_bworld = (Inr r, v)
     \<and> holds_payload calm_benv memory_ops (bw_secrets v) (token_secret_ref ''google'') d'
     \<and> dget d' ''rotation_count'' = Some (VInt 5) \<and> dget d' ''refresh_token'' = Some (VStr ''r'')"
proof -
  have "dget demo_envelope ''rotation_count'' = Some (VInt 4)" "dget demo_envelope ''provider'' \<noteq> None"
    "dget demo_envelope ''refresh_owner'' \<noteq> None" "dget demo_envelope ''refresh_token'' = Some (VStr ''r'')"
    by (simp_all add: demo_envelope_def dget_def)
  then show ?thesis
    using refresh_rotates [OF calm_steady demo_runtime demo_in_time demo_provider refreshable_holds] by fastforce
qed

theorem oauth_start_guarded_witness:
  "bw_secrets (snd (start_oauth_session calm_benv demo_config ''google'' True demo_bworld)) = bw_secrets demo_bworld"
  using oauth_start_guarded [OF surjective_pairing [of "start_oauth_session calm_benv demo_config ''google'' True demo_bworld"]]
  by blast

end
