(* ===== verification/Maya_Telegram.thy ===== *)
theory Maya_Telegram
  imports Maya_Transitions Maya_Mediation Maya_Base64
begin

text \<open>
  \<open>src/project_maya/hermes_plugins/telegram_intake.py\<close>: the intake of private Telegram
  messages. Python objects that are compared with \<open>is\<close> are numbers; the attributes of the
  adapter, the application and the bot are in the state, since anything may reassign them.
  The consumer is an arbitrary computation, so it stands for whatever happens while it is
  awaited, calls of the same intake included.
\<close>

section \<open>Objects\<close>

text \<open>A missing attribute is \<open>None\<close>, as \<open>getattr(x, name, None)\<close> gives it.\<close>

record tg_objects =
  ad_app :: "nat option"
  ad_bot :: "nat option"
  ad_webhook_mode :: pyval
  app_bot :: "nat \<Rightarrow> nat option"
  bot_ident :: "nat \<Rightarrow> pyval"
  bot_base_url :: "nat \<Rightarrow> pyval"
  ad_registration :: "nat option"
  app_is_application :: "nat \<Rightarrow> bool"
  app_running :: "nat \<Rightarrow> bool"
  app_updater_running :: "nat \<Rightarrow> bool option"
  app_persistence :: "nat \<Rightarrow> bool"
  app_concurrent :: "nat \<Rightarrow> int"
  app_handlers :: "nat \<Rightarrow> (int \<times> nat list) list"
  handler_block :: "nat \<Rightarrow> pyval"
  handler_callback :: "nat \<Rightarrow> nat"

record tg_context =
  cx_application :: "nat option"
  cx_bot :: "nat option"

record tg_user =
  us_id :: pyval
  us_is_bot :: pyval

record tg_chat =
  ch_id :: pyval
  ch_type :: pyval

record tg_message =
  ms_from_user :: "tg_user option"
  ms_chat :: "tg_chat option"
  ms_text :: pyval
  ms_attributes :: "(string \<times> pyval) list"

record tg_update =
  up_update_id :: pyval
  up_message :: "tg_message option"
  up_is_update :: bool
  up_attributes :: "(string \<times> pyval) list"

record TelegramIntakeRequest =
  tr_identity :: RequestIdentity
  tr_request_id :: string
  tr_text :: string
  tr_qualification :: string

text \<open>The fields of \<open>CandidateTelegramPollingIntake\<close> that are set once.\<close>

record tg_intake =
  ti_application :: "nat option"
  ti_bot :: "nat option"
  ti_bot_id :: int
  ti_owners :: "((int \<times> int) \<times> RequestIdentity) list"
  ti_sink :: "AuditRecord list \<Rightarrow> AuditRecord \<Rightarrow> pyexc option"
  ti_digest :: "string \<Rightarrow> string"
  ti_uuid :: "nat \<Rightarrow> string"

text \<open>The state: the lock, the last update consumed, the objects, the uuids drawn, the
  objects made so far.\<close>

record tgworld = world +
  tg_busy :: bool
  tg_last :: int
  tg_objs :: tg_objects
  tg_draws :: nat
  tg_made :: nat

definition TELEGRAM_INTAKE_CONTRACT :: string where
  "TELEGRAM_INTAKE_CONTRACT = ''project-maya.telegram-polling-intake.v1''"

definition positive_id :: "pyval \<Rightarrow> bool" where
  "positive_id v = (case v of VInt i \<Rightarrow> 0 < i | _ \<Rightarrow> False)"

definition pyattr :: "(string \<times> pyval) list \<Rightarrow> string \<Rightarrow> pyval" where
  "pyattr attrs name = (case map_of attrs name of None \<Rightarrow> VNone | Some v \<Rightarrow> v)"

section \<open>The transport\<close>

definition transport_ok :: "tg_intake \<Rightarrow> tg_context option \<Rightarrow> tg_objects \<Rightarrow> bool" where
  "transport_ok ti ctx x \<longleftrightarrow>
     (case (ti_application ti, ti_bot ti) of
        (Some app, Some robot) \<Rightarrow>
          ad_webhook_mode x = VBool False \<and> ad_app x = Some app \<and> ad_bot x = Some robot
          \<and> app_bot x app = Some robot \<and> bot_ident x robot = VInt (ti_bot_id ti)
          \<and> (case bot_base_url x robot of VStr s \<Rightarrow> starts_with s ''https://api.telegram.org/bot'' | _ \<Rightarrow> False)
          \<and> (case ctx of None \<Rightarrow> True | Some c \<Rightarrow> cx_application c = Some app \<and> cx_bot c = Some robot)
      | _ \<Rightarrow> False)"

definition validate_transport :: "tg_intake \<Rightarrow> tg_context option \<Rightarrow> ('z tgworld_scheme, unit) py" where
  "validate_transport ti ctx =
     bnd (gets (\<lambda>w. transport_ok ti ctx (tg_objs w))) (\<lambda>good.
     require good (boundary ''telegram_transport_unqualified''))"

text \<open>The constructor on typed arguments; the owners map is a dict, so its keys are distinct.\<close>

definition owner_key_ok :: "(int \<times> int) \<times> RequestIdentity \<Rightarrow> bool" where
  "owner_key_ok e \<longleftrightarrow> 0 < fst (fst e) \<and> 0 < snd (fst e)"

definition intake_init ::
  "string \<Rightarrow> pyval \<Rightarrow> ((int \<times> int) \<times> RequestIdentity) list
     \<Rightarrow> (AuditRecord list \<Rightarrow> AuditRecord \<Rightarrow> pyexc option) \<Rightarrow> (string \<Rightarrow> string) \<Rightarrow> (nat \<Rightarrow> string)
     \<Rightarrow> ('z tgworld_scheme, tg_intake) py" where
  "intake_init acknowledgement bot_id owners sink hash uuid =
     bnd (require (acknowledgement = ''session-write-source-candidate-only'' \<and> positive_id bot_id \<and> owners \<noteq> [])
       (boundary ''telegram_intake_invalid'')) (\<lambda>_.
     bnd (for_each owners (\<lambda>e.
       bnd (require (owner_key_ok e) (boundary ''telegram_intake_invalid'')) (\<lambda>_.
       bind_request_identity (id_actor (snd e)) (id_classification (snd e)) (ret ())))) (\<lambda>_.
     bnd (gets tg_objs) (\<lambda>x.
     let ti = \<lparr>ti_application = ad_app x, ti_bot = ad_bot x,
               ti_bot_id = (case bot_id of VInt i \<Rightarrow> i | _ \<Rightarrow> 0), ti_owners = owners,
               ti_sink = sink, ti_digest = hash, ti_uuid = uuid\<rparr>
     in bnd (modify (\<lambda>w. w\<lparr>tg_last := - 1, tg_busy := False\<rparr>)) (\<lambda>_.
        bnd (validate_transport ti None) (\<lambda>_. ret ti)))))"

section \<open>What an update must be\<close>

definition other_updates :: "string list" where
  "other_updates =
     [''edited_message'', ''channel_post'', ''edited_channel_post'', ''callback_query'',
      ''business_message'', ''edited_business_message'']"

definition message_extras :: "string list" where
  "message_extras =
     [''sender_chat'', ''forward_origin'', ''forward_from'', ''forward_from_chat'', ''reply_to_message'',
      ''external_reply'', ''message_thread_id'', ''is_topic_message'', ''photo'', ''video'', ''audio'',
      ''voice'', ''document'', ''sticker'', ''caption'']"

definition update_ok :: "int \<Rightarrow> tg_update \<Rightarrow> bool" where
  "update_ok seen u \<longleftrightarrow>
     (case up_update_id u of VInt i \<Rightarrow> 0 \<le> i \<and> seen < i | _ \<Rightarrow> False)
     \<and> up_message u \<noteq> None
     \<and> list_all (\<lambda>name. pyattr (up_attributes u) name = VNone) other_updates"

definition user_ident :: "tg_message \<Rightarrow> pyval" where
  "user_ident m = (case ms_from_user m of None \<Rightarrow> VNone | Some x \<Rightarrow> us_id x)"

definition chat_ident :: "tg_message \<Rightarrow> pyval" where
  "chat_ident m = (case ms_chat m of None \<Rightarrow> VNone | Some x \<Rightarrow> ch_id x)"

definition text_ok :: "pyval \<Rightarrow> bool" where
  "text_ok v = (case v of
       VStr s \<Rightarrow> strip s \<noteq> [] \<and> length (utf8 s) \<le> 65536 \<and> \<not> starts_with (lstrip s) [CHR 0x2F]
     | _ \<Rightarrow> False)"

definition message_ok :: "tg_message \<Rightarrow> bool" where
  "message_ok m \<longleftrightarrow>
     positive_id (user_ident m) \<and> positive_id (chat_ident m)
     \<and> (\<exists>x. ms_from_user m = Some x \<and> us_is_bot x = VBool False)
     \<and> (\<exists>x. ms_chat m = Some x \<and> ch_type x = VStr ''private'')
     \<and> text_ok (ms_text m)
     \<and> list_all (\<lambda>name. \<not> truthy (pyattr (ms_attributes m) name)) message_extras"

definition owner_of :: "tg_intake \<Rightarrow> tg_message \<Rightarrow> RequestIdentity option" where
  "owner_of ti m =
     (case (user_ident m, chat_ident m) of
        (VInt u, VInt c) \<Rightarrow> map_of (ti_owners ti) (u, c) | _ \<Rightarrow> None)"

definition intake_record :: "tg_intake \<Rightarrow> RequestIdentity \<Rightarrow> int \<Rightarrow> int \<Rightarrow> int \<Rightarrow> AuditRecord" where
  "intake_record ti owner user chat update =
     \<lparr>aud_event_type = ''authentication.telegram_intake'', aud_decision = ''allow'',
      aud_reason_code = ''authentication.identity_bound'', aud_actor_id = id_actor owner,
      aud_capability = ''telegram.request'',
      aud_target = ''sha256:'' @ ti_digest ti
        (show_int (ti_bot_id ti) @ '':'' @ show_int user @ '':'' @ show_int chat),
      aud_operation = ''bind'', aud_classification = id_classification owner,
      aud_idempotency_key = Some (''sha256:'' @ ti_digest ti
        (show_int (ti_bot_id ti) @ '':'' @ show_int update)),
      aud_metadata = [(''contract'', TELEGRAM_INTAKE_CONTRACT), (''qualification'', ''source_candidate_only'')]\<rparr>"

section \<open>A call\<close>

type_synonym 'z consumer = "TelegramIntakeRequest \<Rightarrow> ('z tgworld_scheme, unit) py"

text \<open>\<open>uuid4().hex\<close>.\<close>

definition fresh_id :: "tg_intake \<Rightarrow> ('z tgworld_scheme, string) py" where
  "fresh_id ti = bnd (gets tg_draws) (\<lambda>n. bnd (modify (\<lambda>w. w\<lparr>tg_draws := Suc n\<rparr>)) (\<lambda>_. ret (ti_uuid ti n)))"

definition admit :: "tg_intake \<Rightarrow> tg_update \<Rightarrow> ('z tgworld_scheme, RequestIdentity \<times> string \<times> string) py" where
  "admit ti u =
     bnd (gets (\<lambda>w. update_ok (tg_last w) u)) (\<lambda>good.
     bnd (require good (boundary ''telegram_update_unqualified'')) (\<lambda>_.
     let m = the (up_message u)
     in bnd (require (message_ok m) (boundary ''telegram_message_unqualified'')) (\<lambda>_.
        case (owner_of ti m, user_ident m, chat_ident m, up_update_id u, ms_text m) of
          (Some owner, VInt user, VInt chat, VInt update, VStr body) \<Rightarrow>
            bnd (fresh_id ti) (\<lambda>request_id.
            bnd (exception_as (boundary ''audit_unavailable'')
                   (sink_write (ti_sink ti) (intake_record ti owner user chat update))) (\<lambda>_.
            bnd (modify (\<lambda>w. w\<lparr>tg_last := update\<rparr>)) (\<lambda>_.
            ret (owner, request_id, body))))
        | _ \<Rightarrow> raise (boundary ''telegram_owner_unmapped''))))"

definition dispatch :: "'z consumer \<Rightarrow> RequestIdentity \<times> string \<times> string \<Rightarrow> ('z tgworld_scheme, unit) py" where
  "dispatch consume x =
     (case x of (owner, request_id, body) \<Rightarrow>
        bind_request_identity (id_actor owner) (id_classification owner)
          (boundary_or (boundary ''telegram_dispatch_failed'')
            (consume \<lparr>tr_identity = owner, tr_request_id = request_id, tr_text = body,
                      tr_qualification = ''source_candidate_only''\<rparr>)))"

text \<open>\<open>CandidateTelegramPollingIntake.__call__\<close>.\<close>

definition intake_call ::
  "tg_intake \<Rightarrow> 'z consumer \<Rightarrow> tg_update \<Rightarrow> tg_context option \<Rightarrow> ('z tgworld_scheme, unit) py" where
  "intake_call ti consume u ctx =
     bnd (require (ctx \<noteq> None) (boundary ''telegram_transport_unqualified'')) (\<lambda>_.
     bnd (validate_transport ti ctx) (\<lambda>_.
     bnd (gets tg_busy) (\<lambda>busy.
     bnd (require (\<not> busy) (boundary ''telegram_intake_busy'')) (\<lambda>_.
     bnd (modify (\<lambda>w. w\<lparr>tg_busy := True\<rparr>)) (\<lambda>_.
     try_finally (bnd (admit ti u) (dispatch consume)) (modify (\<lambda>w. w\<lparr>tg_busy := False\<rparr>)))))))"

section \<open>Registration with the polling application\<close>

text \<open>
  \<open>CandidateTelegramPollingRegistration.__call__\<close>. The module \<open>telegram\<close> is a library: the
  version it reports is an argument, \<open>None\<close> when it cannot be imported. What the code relies on
  is documented there: \<open>handlers\<close> is the dict of handlers by group, \<open>add_handler\<close> appends to
  it, and a handler keeps the callback and the flag it was made with until somebody changes them.
\<close>

definition handler_stop :: pyexc where
  "handler_stop = Exc OtherException ''ApplicationHandlerStop''"

definition application_idle :: "string option \<Rightarrow> tg_objects \<Rightarrow> bool" where
  "application_idle version x \<longleftrightarrow>
     version = Some ''22.6''
     \<and> (case ad_app x of None \<Rightarrow> False | Some app \<Rightarrow>
          app_is_application x app \<and> \<not> app_running x app
          \<and> app_updater_running x app = Some False
          \<and> \<not> app_persistence x app \<and> app_concurrent x app \<le> 1)
     \<and> ad_registration x = None"

text \<open>What a registration holds: the intake, its application, and the two objects it made.\<close>

record tg_registration =
  rg_intake :: tg_intake
  rg_application :: nat
  rg_dispatch :: nat
  rg_handler :: nat

definition rejected_record :: AuditRecord where
  "rejected_record =
     \<lparr>aud_event_type = ''authentication.telegram_rejected'', aud_decision = ''deny'',
      aud_reason_code = ''authentication.intake_rejected'', aud_actor_id = ''unmapped'',
      aud_capability = ''telegram.request'', aud_target = ''telegram:intake'', aud_operation = ''bind'',
      aud_classification = ''confidential'', aud_idempotency_key = None, aud_metadata = []\<rparr>"

definition registration_unchanged :: "tg_registration \<Rightarrow> tg_objects \<Rightarrow> bool" where
  "registration_unchanged rg x \<longleftrightarrow>
     app_handlers x (rg_application rg) = [(0, [rg_handler rg])]
     \<and> handler_block x (rg_handler rg) = VBool True
     \<and> handler_callback x (rg_handler rg) = rg_dispatch rg
     \<and> ad_registration x = Some (rg_handler rg)"

definition polling_dispatch ::
  "tg_registration \<Rightarrow> 'z consumer \<Rightarrow> tg_update \<Rightarrow> tg_context option \<Rightarrow> ('z tgworld_scheme, unit) py" where
  "polling_dispatch rg consume u ctx =
     bnd (try_except
       (bnd (gets (\<lambda>w. registration_unchanged rg (tg_objs w))) (\<lambda>same.
        bnd (require (up_is_update u \<and> same) (boundary ''telegram_registration_changed'')) (\<lambda>_.
        intake_call (rg_intake rg) consume u ctx)))
       (\<lambda>e. if is_exception e
            then try_finally (sink_write (ti_sink (rg_intake rg)) rejected_record) (raise handler_stop)
            else raise e)) (\<lambda>_.
     raise handler_stop)"

definition install_handler :: "nat \<Rightarrow> nat \<Rightarrow> nat \<Rightarrow> tg_objects \<Rightarrow> tg_objects" where
  "install_handler app callback handler x =
     x\<lparr>app_handlers := (app_handlers x)(app := [(0, [handler])]),
       handler_block := (handler_block x)(handler := VBool True),
       handler_callback := (handler_callback x)(handler := callback),
       ad_registration := Some handler\<rparr>"

definition register_polling ::
  "string option \<Rightarrow> string \<Rightarrow> pyval \<Rightarrow> ((int \<times> int) \<times> RequestIdentity) list
     \<Rightarrow> (AuditRecord list \<Rightarrow> AuditRecord \<Rightarrow> pyexc option) \<Rightarrow> (string \<Rightarrow> string) \<Rightarrow> (nat \<Rightarrow> string)
     \<Rightarrow> ('z tgworld_scheme, tg_registration) py" where
  "register_polling version acknowledgement bot_id owners sink hash uuid =
     boundary_or (boundary ''telegram_registration_unqualified'')
       (bnd (gets (\<lambda>w. application_idle version (tg_objs w))) (\<lambda>idle.
        bnd (require idle (Exc PyValueError [])) (\<lambda>_.
        bnd (gets (\<lambda>w. the (ad_app (tg_objs w)))) (\<lambda>app.
        bnd (intake_init acknowledgement bot_id owners sink hash uuid) (\<lambda>ti.
        bnd (gets tg_made) (\<lambda>n.
        bnd (modify (\<lambda>w. w\<lparr>tg_made := n + 2, tg_objs := install_handler app n (n + 1) (tg_objs w)\<rparr>)) (\<lambda>_.
        ret \<lparr>rg_intake = ti, rg_application = app, rg_dispatch = n, rg_handler = n + 1\<rparr>)))))))"

section \<open>Complete mediation of intake\<close>

text \<open>
  Everything the intake checks before it hands a message over, and the state it leaves: the
  lock held, the update marked as consumed, one record for exactly this owner.
\<close>

definition tg_admitted ::
  "tg_intake \<Rightarrow> tg_update \<Rightarrow> tg_context option \<Rightarrow> 'z tgworld_scheme
     \<Rightarrow> RequestIdentity \<times> string \<times> string \<Rightarrow> 'z tgworld_scheme \<Rightarrow> bool" where
  "tg_admitted ti u ctx w x v \<longleftrightarrow>
     ctx \<noteq> None \<and> transport_ok ti ctx (tg_objs w) \<and> \<not> tg_busy w \<and> update_ok (tg_last w) u
     \<and> (\<exists>m user chat update owner body.
          up_message u = Some m \<and> message_ok m \<and> text_ok (VStr body)
          \<and> user_ident m = VInt user \<and> chat_ident m = VInt chat \<and> ms_text m = VStr body
          \<and> up_update_id u = VInt update \<and> map_of (ti_owners ti) (user, chat) = Some owner
          \<and> x = (owner, ti_uuid ti (tg_draws w), body)
          \<and> v = w\<lparr>tg_busy := True, tg_draws := Suc (tg_draws w), tg_last := update,
                  w_audit := w_audit w @ [intake_record ti owner user chat update]\<rparr>)"

lemma wlp_admit:
  assumes "ctx \<noteq> None" "transport_ok ti ctx (tg_objs w)" "\<not> tg_busy w"
  shows "wlp (admit ti u) (\<lambda>x v. tg_admitted ti u ctx w x v)
           (\<lambda>_ v. tg_last v = tg_last w \<and> tg_busy v) (w\<lparr>tg_busy := True\<rparr>)"
  using assms
  by (auto simp: admit_def fresh_id_def exception_as_def wp Let_def tg_admitted_def update_ok_def
      message_ok_def owner_of_def split: option.splits pyval.splits)

lemma telegram_step:
  fixes w :: "'z tgworld_scheme"
  shows "(\<exists>e v. (\<forall>consume :: 'z consumer. intake_call ti consume u ctx w = (Inl e, v))
            \<and> tg_last v = tg_last w \<and> tg_busy v = tg_busy w)
   \<or> (\<exists>x v. tg_admitted ti u ctx w x v
        \<and> (\<forall>consume :: 'z consumer. intake_call ti consume u ctx w =
             try_finally (dispatch consume x) (modify (\<lambda>w. w\<lparr>tg_busy := False\<rparr>)) v))"
proof (cases "ctx \<noteq> None \<and> transport_ok ti ctx (tg_objs w) \<and> \<not> tg_busy w")
  case False
  have "\<exists>e. \<forall>consume :: 'z consumer. intake_call ti consume u ctx w = (Inl e, w)"
    using False by (auto simp: intake_call_def validate_transport_def bnd_def gets_def require_def ret_def raise_def)
  then show ?thesis by blast
next
  case True
  then have call: "intake_call ti consume u ctx w =
      try_finally (bnd (admit ti u) (dispatch consume)) (modify (\<lambda>w. w\<lparr>tg_busy := False\<rparr>))
        (w\<lparr>tg_busy := True\<rparr>)" for consume :: "'z consumer"
    by (auto simp: intake_call_def validate_transport_def bnd_def gets_def require_def ret_def raise_def
        modify_def)
  have adm: "wlp (admit ti u) (\<lambda>x v. tg_admitted ti u ctx w x v)
      (\<lambda>_ v. tg_last v = tg_last w \<and> tg_busy v) (w\<lparr>tg_busy := True\<rparr>)"
    using True by (intro wlp_admit) auto
  show ?thesis
  proof (cases "admit ti u (w\<lparr>tg_busy := True\<rparr>)")
    case (Pair r v)
    show ?thesis
    proof (cases r)
      case (Inl e)
      then have "\<forall>consume :: 'z consumer. intake_call ti consume u ctx w = (Inl e, v\<lparr>tg_busy := False\<rparr>)"
        using Pair by (simp add: call try_finally_def bnd_def modify_def)
      moreover have "tg_last v = tg_last w" using adm Pair Inl by (simp add: wlp_def)
      ultimately show ?thesis using True by (intro disjI1 exI [of _ e] exI [of _ "v\<lparr>tg_busy := False\<rparr>"]) auto
    next
      case (Inr x)
      then have "\<forall>consume :: 'z consumer. intake_call ti consume u ctx w =
          try_finally (dispatch consume x) (modify (\<lambda>w. w\<lparr>tg_busy := False\<rparr>)) v"
        using Pair by (simp add: call try_finally_def bnd_def)
      moreover have "tg_admitted ti u ctx w x v" using adm Pair Inr by (simp add: wlp_def)
      ultimately show ?thesis by blast
    qed
  qed
qed

interpretation intake_gate: mediated_call "\<lambda>consume. intake_call ti consume u ctx" "tg_admitted ti u ctx"
  "\<lambda>x consume. try_finally (dispatch consume x) (modify (\<lambda>w. w\<lparr>tg_busy := False\<rparr>))" for ti u ctx
proof
  show "(\<exists>e v. \<forall>consume. intake_call ti consume u ctx w = (Inl e, v))
    \<or> (\<exists>x v. tg_admitted ti u ctx w x v \<and> (\<forall>consume. intake_call ti consume u ctx w =
          try_finally (dispatch consume x) (modify (\<lambda>w. w\<lparr>tg_busy := False\<rparr>)) v))" for w
    using telegram_step [of ti u ctx w] by blast
qed

lemma unmapped_owner_refused:
  "owner_of ti (the (up_message u)) = None \<Longrightarrow> \<exists>e v. \<forall>consume. intake_call ti consume u ctx w = (Inl e, v)"
  by (rule intake_gate.refused) (auto simp: tg_admitted_def owner_of_def)

text \<open>
  C39. Every Telegram update is mediated. For every update, context and state, either the call is
  refused with an outcome that does not depend on the consumer at all (it never ran), and then
  the update is not consumed and the lock is as it was; or the transport is the registered one,
  no other call holds the lock, the update is newer than every consumed one, its message is a
  plain text from a human in a private chat, the pair of user and chat is mapped to an owner,
  exactly the record of this binding was added to the audit log and the update was marked as
  consumed before the consumer runs, once, on that owner's request; the lock is released after it.
\<close>

theorem telegram_update_mediated:
  fixes w :: "'z tgworld_scheme"
  shows "(\<exists>e v. (\<forall>consume :: 'z consumer. intake_call ti consume u ctx w = (Inl e, v))
            \<and> tg_last v = tg_last w \<and> tg_busy v = tg_busy w)
   \<or> (\<exists>x v. tg_admitted ti u ctx w x v
        \<and> (\<forall>consume :: 'z consumer. intake_call ti consume u ctx w =
             try_finally (dispatch consume x) (modify (\<lambda>w. w\<lparr>tg_busy := False\<rparr>)) v))"
  by (rule telegram_step)

section \<open>No update twice\<close>

definition accepted_update ::
  "tg_intake \<Rightarrow> tg_update \<Rightarrow> tg_context option \<Rightarrow> 'z tgworld_scheme \<Rightarrow> bool" where
  "accepted_update ti u ctx w \<longleftrightarrow>
     ctx \<noteq> None \<and> transport_ok ti ctx (tg_objs w) \<and> \<not> tg_busy w
     \<and> is_ok (fst (admit ti u (w\<lparr>tg_busy := True\<rparr>)))"

definition update_number :: "tg_update \<Rightarrow> int" where
  "update_number u = (case up_update_id u of VInt i \<Rightarrow> i | _ \<Rightarrow> 0)"

text \<open>The numbers of the updates a sequence of calls hands over, in order.\<close>

fun handed_over ::
  "tg_intake \<Rightarrow> ('z consumer \<times> tg_update \<times> tg_context option) list \<Rightarrow> 'z tgworld_scheme \<Rightarrow> int list" where
  "handed_over ti [] w = []"
| "handed_over ti ((consume, u, ctx) # calls) w =
     (if accepted_update ti u ctx w then [update_number u] else [])
     @ handed_over ti calls (snd (intake_call ti consume u ctx w))"

text \<open>A consumer that does not take back an update, whatever else it does or calls.\<close>

definition forward :: "'z consumer \<Rightarrow> bool" where
  "forward consume \<longleftrightarrow> (\<forall>request s. tg_last s \<le> tg_last (snd (consume request s)))"

lemma dispatch_forward:
  assumes "forward consume"
  shows "tg_last v \<le> tg_last (snd (try_finally (dispatch consume x) (modify (\<lambda>w. w\<lparr>tg_busy := False\<rparr>)) v))"
proof -
  have consume: "wlp (consume q) (\<lambda>_ t. tg_last s \<le> tg_last t) (\<lambda>_ t. tg_last s \<le> tg_last t) s" for q s
    using assms by (auto simp: forward_def wlp_def split: prod.splits sum.splits) (metis snd_conv)+
  have "wlp (try_finally (dispatch consume x) (modify (\<lambda>w. w\<lparr>tg_busy := False\<rparr>)))
      (\<lambda>_ t. tg_last v \<le> tg_last t) (\<lambda>_ t. tg_last v \<le> tg_last t) v"
    by (cases x) (auto simp: dispatch_def wp boundary_or_def intro!: wlp_mono [OF consume])
  then show ?thesis
    by (auto simp: wlp_def split: prod.splits sum.splits)
qed

lemma accepted_update_step:
  assumes "accepted_update ti u ctx w" and "forward consume"
  shows "tg_last w < update_number u
         \<and> update_number u \<le> tg_last (snd (intake_call ti consume u ctx w))"
proof -
  have "ctx \<noteq> None \<and> transport_ok ti ctx (tg_objs w) \<and> \<not> tg_busy w"
    using assms(1) by (simp add: accepted_update_def)
  moreover from this obtain x v where run: "admit ti u (w\<lparr>tg_busy := True\<rparr>) = (Inr x, v)"
    and adm: "tg_admitted ti u ctx w x v"
    using assms(1) wlp_admit [of ctx ti w u]
    by (cases "admit ti u (w\<lparr>tg_busy := True\<rparr>)"; cases "fst (admit ti u (w\<lparr>tg_busy := True\<rparr>))")
      (auto simp: accepted_update_def wlp_def)
  ultimately have "intake_call ti consume u ctx w =
      try_finally (dispatch consume x) (modify (\<lambda>w. w\<lparr>tg_busy := False\<rparr>)) v"
    by (auto simp: intake_call_def validate_transport_def bnd_def gets_def require_def ret_def
        modify_def try_finally_def)
  then show ?thesis
    using dispatch_forward [OF assms(2), of v x] adm
    by (auto simp: tg_admitted_def update_number_def update_ok_def)
qed

lemma intake_call_forward:
  assumes "forward consume"
  shows "tg_last w \<le> tg_last (snd (intake_call ti consume u ctx w))"
proof (rule disjE [OF telegram_step [of ti u ctx w]])
  assume "\<exists>x v. tg_admitted ti u ctx w x v
      \<and> (\<forall>consume :: 'a consumer. intake_call ti consume u ctx w =
           try_finally (dispatch consume x) (modify (\<lambda>w. w\<lparr>tg_busy := False\<rparr>)) v)"
  then obtain x v where adm: "tg_admitted ti u ctx w x v" and "intake_call ti consume u ctx w =
      try_finally (dispatch consume x) (modify (\<lambda>w. w\<lparr>tg_busy := False\<rparr>)) v"
    by blast
  moreover have "tg_last w \<le> tg_last v"
    using adm by (auto simp: tg_admitted_def update_ok_def)
  ultimately show ?thesis
    using dispatch_forward [OF assms, of v x] by simp
qed auto

text \<open>
  C40. No update is handed over twice, whatever order the updates arrive in and however the
  consumers end: in every sequence of calls the numbers of the updates handed over strictly
  increase and are all beyond those consumed before, provided no consumer resets that mark.
\<close>

theorem telegram_update_once:
  assumes "list_all (\<lambda>call. forward (fst call)) calls"
  shows "sorted_wrt (<) (handed_over ti calls w) \<and> list_all (\<lambda>i. tg_last w < i) (handed_over ti calls w)"
  using assms
proof (induction calls arbitrary: w)
  case Nil
  then show ?case by simp
next
  case (Cons call calls)
  obtain consume u ctx where call: "call = (consume, u, ctx)" by (metis prod_cases3)
  then have fwd: "forward consume" using Cons.prems by simp
  let ?w = "snd (intake_call ti consume u ctx w)"
  have rest: "sorted_wrt (<) (handed_over ti calls ?w) \<and> list_all (\<lambda>i. tg_last ?w < i) (handed_over ti calls ?w)"
    using Cons by simp
  then show ?case
    using accepted_update_step [OF _ fwd, of ti u ctx w] intake_call_forward [OF fwd, of w ti u ctx]
    by (auto simp: call list_all_iff)
qed

section \<open>Registration\<close>

text \<open>Checking the identities of the owners changes nothing.\<close>

lemma wlp_owner_checks:
  "wlp (for_each owners (\<lambda>e.
       bnd (require (owner_key_ok e) other) (\<lambda>_.
       bind_request_identity (id_actor (snd e)) (id_classification (snd e)) (ret ()))))
     (\<lambda>_ v. v = w \<and> list_all owner_key_ok owners) (\<lambda>_ v. v = w) (w :: 'z tgworld_scheme)"
  by (induction owners) (simp_all add: wp)

lemma wlp_intake_init:
  "wlp (intake_init acknowledgement bot_id owners sink hash uuid)
     (\<lambda>ti v. v = w\<lparr>tg_last := - 1, tg_busy := False\<rparr> \<and> transport_ok ti None (tg_objs w)
        \<and> ti_application ti = ad_app (tg_objs w) \<and> ti_owners ti = owners \<and> ti_sink ti = sink
        \<and> list_all owner_key_ok owners \<and> owners \<noteq> [])
     (\<lambda>_ _. True) (w :: 'z tgworld_scheme)"
  unfolding intake_init_def
  by (auto simp: wp validate_transport_def Let_def intro!: wlp_mono [OF wlp_owner_checks])

text \<open>
  A registration that returns is complete. It found the pinned library, an idle polling
  application and no earlier registration; afterwards the only handler of the application is the
  one it installed, blocking and with its own callback, the adapter carries it, the transport is
  the qualified one, no update counts as consumed and the lock is free.
\<close>

theorem registration_complete:
  assumes "register_polling version acknowledgement bot_id owners sink hash uuid w = (Inr rg, v)"
  shows "application_idle version (tg_objs w) \<and> registration_unchanged rg (tg_objs v)
         \<and> transport_ok (rg_intake rg) None (tg_objs v)
         \<and> ad_app (tg_objs v) = Some (rg_application rg)
         \<and> tg_last v = - 1 \<and> \<not> tg_busy v \<and> list_all owner_key_ok (ti_owners (rg_intake rg))"
proof -
  have "wlp (register_polling version acknowledgement bot_id owners sink hash uuid)
      (\<lambda>rg v. application_idle version (tg_objs w) \<and> registration_unchanged rg (tg_objs v)
         \<and> transport_ok (rg_intake rg) None (tg_objs v)
         \<and> ad_app (tg_objs v) = Some (rg_application rg)
         \<and> tg_last v = - 1 \<and> \<not> tg_busy v \<and> list_all owner_key_ok (ti_owners (rg_intake rg)))
      (\<lambda>_ _. True) w"
    unfolding register_polling_def wp_boundary_or wp_bnd wp_gets wp_require
    by (auto simp: wp registration_unchanged_def install_handler_def transport_ok_def application_idle_def
        split: option.splits intro!: wlp_mono [OF wlp_intake_init])
  then show ?thesis using assms by (simp add: wlp_def)
qed

text \<open>A dispatched update never continues to another handler.\<close>

lemma dispatch_raises:
  "\<exists>e. fst (polling_dispatch rg consume u ctx w) = Inl e \<and> (is_exception e \<longrightarrow> e = handler_stop)"
  by (auto simp: polling_dispatch_def bnd_def try_except_def try_finally_def raise_def
      split: prod.splits sum.splits)

section \<open>The claims at concrete inputs\<close>

definition demo_objects :: tg_objects where
  "demo_objects =
     \<lparr>ad_app = Some 1, ad_bot = Some 2, ad_webhook_mode = VBool False, app_bot = (\<lambda>_. Some 2),
      bot_ident = (\<lambda>_. VInt 99), bot_base_url = (\<lambda>_. VStr ''https://api.telegram.org/bot''),
      ad_registration = None, app_is_application = (\<lambda>_. True), app_running = (\<lambda>_. False),
      app_updater_running = (\<lambda>_. Some False), app_persistence = (\<lambda>_. False),
      app_concurrent = (\<lambda>_. 1), app_handlers = (\<lambda>_. []), handler_block = (\<lambda>_. VNone),
      handler_callback = (\<lambda>_. 0)\<rparr>"

definition demo_tg :: tgworld where
  "demo_tg = \<lparr>w_clock = 0, w_thread = 1, w_task = None, w_leases = [], w_identity = None,
     w_session = None, w_audit = [], tg_busy = False, tg_last = - 1, tg_objs = demo_objects,
     tg_draws = 0, tg_made = 0\<rparr>"

definition demo_intake :: tg_intake where
  "demo_intake = \<lparr>ti_application = Some 1, ti_bot = Some 2, ti_bot_id = 99,
     ti_owners = [((7, 7), demo_identity)], ti_sink = (\<lambda>_ _. None), ti_digest = (\<lambda>s. s),
     ti_uuid = (\<lambda>_. ''r-1'')\<rparr>"

definition demo_update :: tg_update where
  "demo_update = \<lparr>up_update_id = VInt 5,
     up_message = Some \<lparr>ms_from_user = Some \<lparr>us_id = VInt 7, us_is_bot = VBool False\<rparr>,
       ms_chat = Some \<lparr>ch_id = VInt 7, ch_type = VStr ''private''\<rparr>, ms_text = VStr ''hi'', ms_attributes = []\<rparr>,
     up_is_update = True, up_attributes = []\<rparr>"

definition demo_cx :: tg_context where
  "demo_cx = \<lparr>cx_application = Some 1, cx_bot = Some 2\<rparr>"

lemma demo_text_ok: "text_ok (VStr ''hi'')"
  by (simp add: text_ok_def strip_def lstrip_def is_space_def utf8_def utf8_char_def starts_with_def)

lemma demo_identity_ok:
  "is_identifier (id_actor demo_identity)" "id_classification demo_identity \<in> set classifications"
  by code_simp+

lemma demo_message_ok: "message_ok (the (up_message demo_update))"
  using demo_text_ok
  by (simp add: message_ok_def demo_update_def positive_id_def user_ident_def chat_ident_def pyattr_def
      list_all_iff)

lemma demo_admit:
  "admit demo_intake demo_update (demo_tg\<lparr>tg_busy := True\<rparr>) =
     (Inr (demo_identity, ''r-1'', ''hi''),
      demo_tg\<lparr>tg_busy := True, tg_draws := 1, tg_last := 5,
        w_audit := [intake_record demo_intake demo_identity 7 7 5]\<rparr>)"
proof -
  have "update_ok (- 1) demo_update"
    by (simp add: update_ok_def demo_update_def pyattr_def list_all_iff)
  moreover have "owner_of demo_intake (the (up_message demo_update)) = Some demo_identity"
    by (simp add: owner_of_def demo_update_def user_ident_def chat_ident_def demo_intake_def)
  ultimately show ?thesis
    using demo_message_ok
    by (simp add: admit_def bnd_def gets_def require_def ret_def fresh_id_def exception_as_def
        try_except_def sink_write_def modify_def Let_def demo_update_def user_ident_def chat_ident_def
        demo_tg_def)
      (simp add: demo_intake_def bnd_def modify_def ret_def)
qed

lemma demo_transport: "transport_ok demo_intake (Some demo_cx) demo_objects"
  by (simp add: transport_ok_def demo_intake_def demo_objects_def demo_cx_def starts_with_def)

text \<open>The same update twice, first consumed by a consumer that fails: it is handed over once.\<close>

theorem telegram_update_once_witness:
  "handed_over demo_intake
     [(\<lambda>_. raise (Exc PyValueError []), demo_update, Some demo_cx), (\<lambda>_. ret (), demo_update, Some demo_cx)]
     demo_tg = [5]
   \<and> sorted_wrt (<) (handed_over demo_intake
     [(\<lambda>_. raise (Exc PyValueError []), demo_update, Some demo_cx), (\<lambda>_. ret (), demo_update, Some demo_cx)]
     demo_tg)"
proof -
  let ?calls = "[(\<lambda>_. raise (Exc PyValueError []), demo_update, Some demo_cx),
    (\<lambda>_. ret (), demo_update, Some demo_cx)] :: (unit consumer \<times> tg_update \<times> tg_context option) list"
  have fwd: "list_all (\<lambda>call. forward (fst call)) ?calls"
    by (simp add: forward_def raise_def ret_def)
  note once = telegram_update_once [OF fwd, of demo_intake demo_tg]
  have acc: "accepted_update demo_intake demo_update (Some demo_cx) demo_tg"
    using demo_admit demo_transport
    by (simp add: accepted_update_def) (simp add: demo_tg_def)
  have "update_number demo_update = 5" by (simp add: update_number_def demo_update_def)
  then show ?thesis
    using once acc by (auto split: if_splits)
qed

theorem registration_complete_witness:
  "\<exists>rg v. register_polling (Some ''22.6'') ''session-write-source-candidate-only'' (VInt 99)
       [((7, 7), demo_identity)] (\<lambda>_ _. None) (\<lambda>s. s) (\<lambda>_. ''r-1'') demo_tg = (Inr rg, v)
     \<and> registration_unchanged rg (tg_objs v)"
proof -
  have "\<exists>rg v. register_polling (Some ''22.6'') ''session-write-source-candidate-only'' (VInt 99)
      [((7, 7), demo_identity)] (\<lambda>_ _. None) (\<lambda>s. s) (\<lambda>_. ''r-1'') demo_tg = (Inr rg, v)"
    using demo_identity_ok
    by (simp add: register_polling_def boundary_or_def try_except_def bnd_def gets_def require_def
        ret_def intake_init_def positive_id_def owner_key_ok_def bind_request_identity_def
        with_identity_def modify_def try_finally_def validate_transport_def Let_def
        application_idle_def transport_ok_def demo_tg_def demo_objects_def starts_with_def)
  then show ?thesis
    by (metis registration_complete)
qed

end
