(* ===== verification/Maya_Requests.thy ===== *)
theory Maya_Requests
  imports Maya_Transitions Maya_Mediation
begin

text \<open>
  \<open>src/project_maya/hermes_plugins/session_requests.py\<close>: the scope one authenticated request
  of the Local API runs in, and \<open>session_client.py\<close>: the client that sends such requests. The
  body of the scope and the exchange over HTTP are arbitrary computations.
\<close>

section \<open>The binding\<close>

definition ACKNOWLEDGEMENT :: string where
  "ACKNOWLEDGEMENT = ''session-write-source-candidate-only''"

definition REQUEST_BINDING_CONTRACT :: string where
  "REQUEST_BINDING_CONTRACT = ''project-maya.authenticated-session-request.v1''"

record session_binding =
  sb_owner :: RequestIdentity
  sb_session_id :: string
  sb_database :: path
  sb_operations :: "string list"
  sb_timeout :: pyval
  sb_sink :: "AuditRecord list \<Rightarrow> AuditRecord \<Rightarrow> pyexc option"
  sb_digest :: "string \<Rightarrow> string"
  sb_uuid :: "nat \<Rightarrow> string"
  sb_resolve :: "path \<Rightarrow> path"

text \<open>
  What importing \<open>hermes_cli.middleware\<close> and asking it gives: the module is a library, and
  may be missing, lack the contract, or raise.
\<close>

record middleware =
  mw_contract :: pyval
  mw_enabled :: "pyval res"
  mw_valid :: "pyval res"

text \<open>The state: the lock of the binding, the uuids drawn, the middleware as it is now.\<close>

record rworld = world +
  rq_busy :: bool
  rq_draws :: nat
  rq_middleware :: "middleware res"

text \<open>
  \<open>CandidateSessionRequestBinding.__post_init__\<close>. \<open>existing\<close> is the strict resolution of the
  path followed by the file test.
\<close>

definition request_binding_init ::
  "(path \<Rightarrow> path res) \<Rightarrow> (path \<Rightarrow> bool) \<Rightarrow> string \<Rightarrow> session_binding
     \<Rightarrow> ('z rworld_scheme, session_binding) py" where
  "request_binding_init existing is_file acknowledgement b =
     bnd (require (acknowledgement = ACKNOWLEDGEMENT \<and> sb_timeout b \<noteq> VNone)
       (boundary ''session_context_invalid'')) (\<lambda>_.
     bnd (exception_as (boundary ''session_context_invalid'')
       (bnd (lift (existing (sb_database b))) (\<lambda>database.
        bnd (require (is_file database) (Exc PyValueError [])) (\<lambda>_.
        bnd (bind_request_identity (id_actor (sb_owner b)) (id_classification (sb_owner b))
          (bind_session_write (sb_resolve b) ''binding-validation'' (sb_session_id b) database
             (sb_operations b) (sb_timeout b) (\<lambda>_. ret ()))) (\<lambda>_.
        ret database))))) (\<lambda>database.
     ret (b\<lparr>sb_database := database\<rparr>)))"

section \<open>An authenticated request\<close>

definition middleware_ok :: "middleware res \<Rightarrow> unit res" where
  "middleware_ok m =
     bindR m (\<lambda>m.
     bindR (requireR (mw_contract m = VStr SESSION_WRITE_CONTRACT) (Exc PyValueError [])) (\<lambda>_.
     bindR (mw_enabled m) (\<lambda>enabled.
     bindR (requireR (enabled = VBool True) (Exc PyValueError [])) (\<lambda>_.
     bindR (mw_valid m) (\<lambda>valid.
     requireR (valid = VBool True) (Exc PyValueError []))))))"

definition request_record :: "session_binding \<Rightarrow> RequestIdentity \<Rightarrow> string \<Rightarrow> AuditRecord" where
  "request_record b i request_id =
     \<lparr>aud_event_type = ''authentication.local_api_session'', aud_decision = ''allow'',
      aud_reason_code = ''authentication.identity_bound'', aud_actor_id = id_actor i,
      aud_capability = ''local_api.request'', aud_target = ''sha256:'' @ sb_digest b (sb_session_id b),
      aud_operation = ''bind'', aud_classification = id_classification i,
      aud_idempotency_key = Some (''sha256:'' @ sb_digest b request_id), aud_metadata = []\<rparr>"

definition draw_id :: "session_binding \<Rightarrow> ('z rworld_scheme, string) py" where
  "draw_id b = bnd (gets rq_draws) (\<lambda>n. bnd (modify (\<lambda>w. w\<lparr>rq_draws := Suc n\<rparr>)) (\<lambda>_. ret (sb_uuid b n)))"

definition authenticated_request ::
  "session_binding \<Rightarrow> RequestIdentity \<Rightarrow> ('z rworld_scheme, 'a) py \<Rightarrow> ('z rworld_scheme, 'a) py" where
  "authenticated_request b identity body =
     bnd (require (identity = sb_owner b) (boundary ''session_owner_mismatch'')) (\<lambda>_.
     bnd (gets rq_middleware) (\<lambda>m.
     bnd (exception_as (boundary ''session_contract_unavailable'') (lift (middleware_ok m))) (\<lambda>_.
     bnd (gets rq_busy) (\<lambda>busy.
     bnd (require (\<not> busy) (boundary ''session_request_busy'')) (\<lambda>_.
     bnd (modify (\<lambda>w. w\<lparr>rq_busy := True\<rparr>)) (\<lambda>_.
     try_finally
       (bnd (draw_id b) (\<lambda>request_id.
        bnd (exception_as (boundary ''audit_unavailable'')
          (sink_write (sb_sink b) (request_record b identity request_id))) (\<lambda>_.
        bind_request_identity (id_actor identity) (id_classification identity)
          (bind_session_write (sb_resolve b) request_id (sb_session_id b) (sb_database b)
             (sb_operations b) (sb_timeout b) (\<lambda>_. body)))))
       (modify (\<lambda>w. w\<lparr>rq_busy := False\<rparr>))))))))"

section \<open>The client\<close>

text \<open>\<open>CandidateSessionClientError\<close>: only fixed codes.\<close>

definition client_codes :: "string list" where
  "client_codes =
     [''acknowledgement_required'', ''loopback_endpoint_required'', ''invalid_local_api_token'',
      ''invalid_request'', ''request_too_large'', ''request_rejected'', ''response_rejected'',
      ''binding_required'', ''request_failed'', ''invalid_arguments'']"

definition client_error :: "string \<Rightarrow> pyexc" where
  "client_error code =
     Exc CandidateSessionClientError (if code \<in> set client_codes then code else ''request_failed'')"

record http_request =
  hr_host :: string
  hr_port :: int
  hr_method :: string
  hr_path :: string
  hr_body :: "string option"
  hr_headers :: "(string \<times> string) list"

text \<open>
  The services of the client: the exchange with the server (a status and the bytes of the
  body), closing the connection, \<open>ip_address(host).is_loopback\<close>, and the JSON functions.
\<close>

record 's client_services =
  cs_http :: "http_request \<Rightarrow> ('s, int \<times> string) py"
  cs_close :: "('s, unit) py"
  cs_loopback :: "string \<Rightarrow> bool res"
  cs_loads :: "string \<Rightarrow> pyval res"
  cs_dumps :: "pyval \<Rightarrow> string res"
  cs_depth :: nat

definition MAX_RESPONSE_BYTES :: nat where
  "MAX_RESPONSE_BYTES = 1048576"

text \<open>\<open>part in whole\<close> on texts.\<close>

definition occurs_in :: "string \<Rightarrow> string \<Rightarrow> bool" where
  "occurs_in part whole \<longleftrightarrow> list_ex (\<lambda>n. starts_with (drop n whole) part) [0..<Suc (length whole)]"

text \<open>The alphabet and padding of a bearer token: \<open>[A-Za-z0-9._~+/-]+={0,2}\<close>.\<close>

definition api_token_ok :: "string \<Rightarrow> bool" where
  "api_token_ok s \<longleftrightarrow> 1 \<le> length s \<and> length s \<le> 4096
     \<and> takeWhile bearer_char s \<noteq> [] \<and> dropWhile bearer_char s \<in> {[], ''='', ''==''}"

text \<open>
  The loop over \<open>pending\<close>: the stack is kept with its top first, so the keys and values an
  item pushes come in reverse.
\<close>

function token_free :: "string \<Rightarrow> pyval list \<Rightarrow> bool" where
  "token_free token [] = True"
| "token_free token (item # pending) =
     (case item of
        VStr s \<Rightarrow> \<not> occurs_in token s \<and> token_free token pending
      | VDict d \<Rightarrow> token_free token (rev (map snd d) @ rev (map fst d) @ pending)
      | VList xs \<Rightarrow> token_free token (rev xs @ pending)
      | _ \<Rightarrow> token_free token pending)"
  by pat_completeness auto

lemma size_list_append: "size_list f (xs @ ys) = size_list f xs + size_list f ys"
  by (induction xs) auto

lemma size_list_rev: "size_list f (rev xs) = size_list f xs"
  by (induction xs) (auto simp: size_list_append)

lemma size_list_entries:
  "size_list size (map snd d) + size_list size (map fst d) = size_list (size_prod size size) (d :: pydict)"
  by (induction d) auto

termination token_free
  by (relation "measure (\<lambda>(_, pending). size_list size pending)")
    (auto simp: size_list_append size_list_rev size_list_entries [symmetric])

text \<open>The last two checks on a decoded response.\<close>

definition bound_response :: "'s client_services \<Rightarrow> pyval \<Rightarrow> pydict res" where
  "bound_response cs parsed =
     (case parsed of
        VDict d \<Rightarrow>
          bindR (requireR (dget_or d ''session_binding_contract'' VNone = VStr REQUEST_BINDING_CONTRACT
                   \<and> dget_or d ''qualification'' VNone = VStr ''source_candidate_only'')
            (client_error ''binding_required'')) (\<lambda>_.
          bindR (checked_payload (cs_loads cs) (cs_dumps cs) (cs_depth cs) parsed) (\<lambda>_. Inr d))
      | _ \<Rightarrow> Inl (client_error ''binding_required''))"

text \<open>
  \<open>exchange\<close>: the response is refused for its status, its length, the token in its bytes or
  in a decoded text, a missing binding, or an unsafe payload; other exceptions become one code.
\<close>

definition response_of :: "'s client_services \<Rightarrow> string \<Rightarrow> int \<times> string \<Rightarrow> pydict res" where
  "response_of cs token response =
     (case response of (status, bytes) \<Rightarrow>
        let data = take (MAX_RESPONSE_BYTES + 1) bytes
        in bindR (requireR (status = 200) (client_error ''request_rejected'')) (\<lambda>_.
           bindR (requireR (length data \<le> MAX_RESPONSE_BYTES \<and> \<not> occurs_in token data)
             (client_error ''response_rejected'')) (\<lambda>_.
           bindR (cs_loads cs data) (\<lambda>parsed.
           bindR (requireR (token_free token [parsed]) (client_error ''response_rejected'')) (\<lambda>_.
           bound_response cs parsed)))))"

definition client_or :: "pyexc \<Rightarrow> ('s, 'a) py \<Rightarrow> ('s, 'a) py" where
  "client_or other m =
     try_except m (\<lambda>e. if exc_class_of e = CandidateSessionClientError then raise e
                        else if is_exception e then raise other else raise e)"

definition exchange ::
  "'s client_services \<Rightarrow> string \<Rightarrow> int \<Rightarrow> string \<Rightarrow> string \<Rightarrow> string \<Rightarrow> string option \<Rightarrow> ('s, pydict) py" where
  "exchange cs host port token verb path payload =
     try_finally
       (client_or (client_error ''request_failed'')
         (bnd (cs_http cs \<lparr>hr_host = host, hr_port = port, hr_method = verb, hr_path = path,
              hr_body = payload,
              hr_headers = [(''Authorization'', ''Bearer '' @ token), (''Content-Type'', ''application/json''),
                            (''X-Maya-Session-Binding'', REQUEST_BINDING_CONTRACT)]\<rparr>)
           (\<lambda>response. lift (response_of cs token response))))
       (cs_close cs)"

text \<open>The endpoint: the configured one, when the configuration is valid and the host is an address
  of this machine.\<close>

definition client_host :: "MayaConfig \<Rightarrow> string" where
  "client_host c = (if api_bind (local_api c) = ''localhost'' then ''127.0.0.1'' else api_bind (local_api c))"

definition port_ok :: "int option \<Rightarrow> bool" where
  "port_ok p = (case p of None \<Rightarrow> False | Some n \<Rightarrow> 1 \<le> n \<and> n \<le> 65535)"

definition client_endpoint :: "'s client_services \<Rightarrow> MayaConfig \<Rightarrow> (string \<times> int) res" where
  "client_endpoint cs c =
     (let api = local_api c;
          checked =
            bindR (validate c) (\<lambda>_.
            bindR (requireR (\<not> api_remote_access api) (Exc PyValueError [])) (\<lambda>_.
            bindR (cs_loopback cs (client_host c)) (\<lambda>here.
            bindR (requireR (here \<and> port_ok (api_port api)) (Exc PyValueError []))
              (\<lambda>_. Inr (client_host c, the (api_port api))))))
      in case checked of
           Inr e \<Rightarrow> Inr e
         | Inl e \<Rightarrow> Inl (if is_exception e then client_error ''loopback_endpoint_required'' else e))"

definition request_body :: "string \<Rightarrow> string" where
  "request_body message = json_object [(''input'', json_str message)]"

definition run_authenticated_cli_request ::
  "'s client_services \<Rightarrow> MayaConfig \<Rightarrow> string \<Rightarrow> string \<Rightarrow> string \<Rightarrow> ('s, pyval) py" where
  "run_authenticated_cli_request cs c token message acknowledgement =
     bnd (require (acknowledgement = ACKNOWLEDGEMENT) (client_error ''acknowledgement_required'')) (\<lambda>_.
     bnd (lift (client_endpoint cs c)) (\<lambda>(host, port).
     bnd (require (api_token_ok token) (client_error ''invalid_local_api_token'')) (\<lambda>_.
     bnd (require (strip message \<noteq> []) (client_error ''invalid_request'')) (\<lambda>_.
     bnd (require (length (request_body message) \<le> 65536) (client_error ''request_too_large'')) (\<lambda>_.
     bnd (exchange cs host port token ''GET'' ''/v1/session-binding'' None) (\<lambda>_.
     bnd (exchange cs host port token ''POST'' ''/v1/run'' (Some (request_body message))) (\<lambda>result.
     case dget result ''result'' of
       None \<Rightarrow> raise (client_error ''response_rejected'')
     | Some v \<Rightarrow> ret v)))))))"

section \<open>Complete mediation of requests\<close>

text \<open>The body of a session scope whose context is set up: how it ends the lease.\<close>

definition in_session_scope ::
  "SessionWriteContext \<Rightarrow> ('z world_scheme, 'a) py \<Rightarrow> ('z world_scheme, 'a) py" where
  "in_session_scope ctx body =
     with_session ctx
       (try_except body (\<lambda>e. bnd (revoke (sw_lease ctx)
          (if exc_class_of e = CancelledError then ''cancelled'' else ''failed'')) (\<lambda>_. raise e)))
       (revoke (sw_lease ctx) ''completed'')"

definition new_scope ::
  "(path \<Rightarrow> path) \<Rightarrow> string \<Rightarrow> string \<Rightarrow> path \<Rightarrow> string list \<Rightarrow> RequestIdentity \<Rightarrow> 'z world_scheme
     \<Rightarrow> SessionWriteContext" where
  "new_scope resolve request_id session_id db operations i w =
     \<lparr>sw_identity = i, sw_request_id = request_id, sw_session_id = session_id,
      sw_database = resolve db, sw_operations = operations, sw_thread = w_thread w,
      sw_task = w_task w, sw_lease = length (w_leases w)\<rparr>"

definition new_scope_lease :: "pyval \<Rightarrow> 'z world_scheme \<Rightarrow> lease" where
  "new_scope_lease timeout w =
     \<lparr>le_active = True, le_parent = None,
      le_deadline = (if timeout = VNone then None
         else map_option (\<lambda>t. w_clock w + t) (timeout_value timeout)), le_termination = None\<rparr>"

lemma bind_session_write_runs:
  assumes "session_binding_ok request_id session_id operations timeout" and "w_identity w = Some i"
  shows "bind_session_write resolve request_id session_id db operations timeout (\<lambda>_. body) w =
     in_session_scope (new_scope resolve request_id session_id db operations i w) body
       (w\<lparr>w_leases := w_leases w @ [new_scope_lease timeout w]\<rparr>)"
  using assms
  by (auto simp: bind_session_write_def session_binding_ok_def in_session_scope_def new_scope_def
      new_scope_lease_def bnd_def gets_def require_def ret_def on_leases_def new_lease_def Let_def)

lemma bind_session_write_refused:
  fixes i :: RequestIdentity and w :: "'z world_scheme"
  assumes "\<not> session_binding_ok request_id session_id operations timeout" and "w_identity w = Some i"
  shows "\<exists>e. \<forall>body :: SessionWriteContext \<Rightarrow> ('z world_scheme, 'a) py. bind_session_write resolve request_id session_id db operations timeout body w = (Inl e, w)"
  using assms
  by (auto simp: bind_session_write_def session_binding_ok_def bnd_def gets_def require_def ret_def raise_def)

text \<open>
  What is checked before the body of a request runs, the scope it runs in, and the state it
  starts from.
\<close>

definition request_admitted ::
  "session_binding \<Rightarrow> RequestIdentity \<Rightarrow> 'z rworld_scheme \<Rightarrow> SessionWriteContext \<Rightarrow> 'z rworld_scheme \<Rightarrow> bool" where
  "request_admitted b i w ctx v \<longleftrightarrow>
     (let request_id = sb_uuid b (rq_draws w); record = request_record b i request_id
      in i = sb_owner b \<and> middleware_ok (rq_middleware w) = Inr () \<and> \<not> rq_busy w
         \<and> is_identifier (id_actor i) \<and> id_classification i \<in> set classifications
         \<and> session_binding_ok request_id (sb_session_id b) (sb_operations b) (sb_timeout b)
         \<and> sb_sink b (w_audit w) record = None
         \<and> ctx = new_scope (sb_resolve b) request_id (sb_session_id b) (sb_database b) (sb_operations b) i w
         \<and> v = w\<lparr>rq_busy := True, rq_draws := Suc (rq_draws w), w_audit := w_audit w @ [record],
                 w_identity := Some i, w_leases := w_leases w @ [new_scope_lease (sb_timeout b) w]\<rparr>)"

definition leave_request :: "RequestIdentity option \<Rightarrow> ('z rworld_scheme, unit) py" where
  "leave_request previous = modify (\<lambda>v. v\<lparr>w_identity := previous, rq_busy := False\<rparr>)"

lemma rworld_comm [simp]:
  "(w\<lparr>w_identity := i\<rparr>)\<lparr>rq_busy := x\<rparr> = (w :: 'z rworld_scheme)\<lparr>rq_busy := x, w_identity := i\<rparr>"
  by simp

lemma identity_eta [simp]: "\<lparr>id_actor = id_actor i, id_classification = id_classification i\<rparr> = i"
  by simp

text \<open>The part under the lock, before the scopes open.\<close>

definition request_entry :: "session_binding \<Rightarrow> RequestIdentity \<Rightarrow> ('z rworld_scheme, string) py" where
  "request_entry b identity =
     bnd (draw_id b) (\<lambda>request_id.
     bnd (exception_as (boundary ''audit_unavailable'')
       (sink_write (sb_sink b) (request_record b identity request_id))) (\<lambda>_. ret request_id))"

lemma request_entry_runs:
  "request_entry b i w =
     (case sb_sink b (w_audit w) (request_record b i (sb_uuid b (rq_draws w))) of
        None \<Rightarrow> (Inr (sb_uuid b (rq_draws w)), w\<lparr>rq_draws := Suc (rq_draws w),
                 w_audit := w_audit w @ [request_record b i (sb_uuid b (rq_draws w))]\<rparr>)
      | Some e \<Rightarrow> (Inl (if is_exception e then boundary ''audit_unavailable'' else e),
                   w\<lparr>rq_draws := Suc (rq_draws w)\<rparr>))"
  by (auto simp: request_entry_def draw_id_def bnd_def gets_def modify_def ret_def exception_as_def
      try_except_def sink_write_def raise_def split: option.splits)

lemma authenticated_request_entered:
  assumes "i = sb_owner b" "middleware_ok (rq_middleware w) = Inr ()" "\<not> rq_busy w"
  shows "authenticated_request b i body w =
     try_finally (bnd (request_entry b i) (\<lambda>request_id.
        bind_request_identity (id_actor i) (id_classification i)
          (bind_session_write (sb_resolve b) request_id (sb_session_id b) (sb_database b)
             (sb_operations b) (sb_timeout b) (\<lambda>_. body))))
       (modify (\<lambda>w. w\<lparr>rq_busy := False\<rparr>)) (w\<lparr>rq_busy := True\<rparr>)"
  using assms
  by (simp add: authenticated_request_def request_entry_def bnd_assoc)
    (simp add: bnd_def gets_def require_def ret_def modify_def exception_as_def try_except_def lift_def)

lemma authenticated_request_refused:
  fixes w :: "'z rworld_scheme"
  assumes "\<not> (i = sb_owner b \<and> middleware_ok (rq_middleware w) = Inr () \<and> \<not> rq_busy w)"
  shows "\<exists>e. \<forall>body :: ('z rworld_scheme, 'a) py. authenticated_request b i body w = (Inl e, w)"
  using assms
  by (cases "middleware_ok (rq_middleware w)")
    (auto simp: authenticated_request_def bnd_def gets_def require_def ret_def raise_def
      exception_as_def try_except_def lift_def)

lemma new_scope_other [simp]:
  "new_scope r q s d p i (w\<lparr>w_identity := j\<rparr>) = new_scope r q s d p i w"
  "new_scope r q s d p i (w\<lparr>w_audit := entries\<rparr>) = new_scope r q s d p i w"
  "new_scope_lease t (w\<lparr>w_identity := j\<rparr>) = new_scope_lease t w"
  "new_scope_lease t (w\<lparr>w_audit := entries\<rparr>) = new_scope_lease t w"
  by (simp_all add: new_scope_def new_scope_lease_def)

lemma new_scope_request [simp]:
  "new_scope r q s d p i (v\<lparr>rq_busy := x\<rparr>) = new_scope r q s d p i v"
  "new_scope r q s d p i (v\<lparr>rq_draws := n\<rparr>) = new_scope r q s d p i v"
  "new_scope_lease t (v\<lparr>rq_busy := x\<rparr>) = new_scope_lease t v"
  "new_scope_lease t (v\<lparr>rq_draws := n\<rparr>) = new_scope_lease t v"
  by (simp_all add: new_scope_def new_scope_lease_def)

lemma scopes_open:
  fixes i :: RequestIdentity
  assumes "is_identifier (id_actor i)" "id_classification i \<in> set classifications"
    and "session_binding_ok request_id session_id operations timeout"
  shows "try_finally
      (bind_request_identity (id_actor i) (id_classification i)
        (bind_session_write resolve request_id session_id db operations timeout (\<lambda>_. body)))
      (modify (\<lambda>w. w\<lparr>rq_busy := False\<rparr>)) u =
    try_finally (in_session_scope (new_scope resolve request_id session_id db operations i u) body)
      (leave_request (w_identity u))
      (u\<lparr>w_identity := Some i, w_leases := w_leases u @ [new_scope_lease timeout u]\<rparr>)"
  using assms
  by (simp add: bind_request_identity_def with_identity_def bnd_def require_def ret_def gets_def modify_def
      try_finally_def bind_session_write_runs leave_request_def split: prod.splits)

lemma scopes_refused:
  fixes i :: RequestIdentity and u :: "'z rworld_scheme"
  assumes "\<not> (is_identifier (id_actor i) \<and> id_classification i \<in> set classifications
      \<and> session_binding_ok request_id session_id operations timeout)"
  shows "\<exists>e. \<forall>body :: ('z rworld_scheme, 'a) py. try_finally
      (bind_request_identity (id_actor i) (id_classification i)
        (bind_session_write resolve request_id session_id db operations timeout (\<lambda>_. body)))
      (modify (\<lambda>w. w\<lparr>rq_busy := False\<rparr>)) u = (Inl e, u\<lparr>rq_busy := False\<rparr>)"
proof (cases "is_identifier (id_actor i) \<and> id_classification i \<in> set classifications")
  case False
  then show ?thesis
    by (auto simp: bind_request_identity_def bnd_def require_def ret_def raise_def modify_def try_finally_def)
next
  case True
  then obtain e where "\<forall>body :: SessionWriteContext \<Rightarrow> ('z rworld_scheme, 'a) py. bind_session_write resolve request_id session_id db operations timeout body
      (u\<lparr>w_identity := Some i\<rparr>) = (Inl e, u\<lparr>w_identity := Some i\<rparr>)"
    using bind_session_write_refused [where w = "u\<lparr>w_identity := Some i\<rparr>" and i = i] assms
    by fastforce
  then show ?thesis
    using True by (simp add: bind_request_identity_def with_identity_def bnd_def require_def ret_def
        gets_def modify_def try_finally_def)
qed

lemma request_step:
  fixes w :: "'z rworld_scheme"
  shows "(\<exists>e v. (\<forall>body :: ('z rworld_scheme, 'a) py. authenticated_request b i body w = (Inl e, v))
            \<and> rq_busy v = rq_busy w \<and> w_leases v = w_leases w)
   \<or> (\<exists>ctx v. request_admitted b i w ctx v
        \<and> (\<forall>body :: ('z rworld_scheme, 'a) py. authenticated_request b i body w =
             try_finally (in_session_scope ctx body) (leave_request (w_identity w)) v))"
proof (cases "i = sb_owner b \<and> middleware_ok (rq_middleware w) = Inr () \<and> \<not> rq_busy w")
  case False
  then show ?thesis using authenticated_request_refused [of i b w] by blast
next
  case True
  let ?q = "sb_uuid b (rq_draws w)"
  let ?u = "w\<lparr>rq_busy := True, rq_draws := Suc (rq_draws w), w_audit := w_audit w @ [request_record b i ?q]\<rparr>"
  show ?thesis
  proof (cases "sb_sink b (w_audit w) (request_record b i ?q)")
    case (Some e)
    then have "\<exists>e v. (\<forall>body :: ('z rworld_scheme, 'a) py. authenticated_request b i body w = (Inl e, v))
        \<and> rq_busy v = rq_busy w \<and> w_leases v = w_leases w"
      using True by (simp add: authenticated_request_entered request_entry_runs bnd_def try_finally_def modify_def)
    then show ?thesis by blast
  next
    case None
    then have run: "authenticated_request b i body w = try_finally
        (bind_request_identity (id_actor i) (id_classification i)
          (bind_session_write (sb_resolve b) ?q (sb_session_id b) (sb_database b)
             (sb_operations b) (sb_timeout b) (\<lambda>_. body)))
        (modify (\<lambda>w. w\<lparr>rq_busy := False\<rparr>)) ?u" for body :: "('z rworld_scheme, 'a) py"
      using True by (simp add: authenticated_request_entered request_entry_runs bnd_def try_finally_def)
    show ?thesis
    proof (cases "is_identifier (id_actor i) \<and> id_classification i \<in> set classifications
        \<and> session_binding_ok ?q (sb_session_id b) (sb_operations b) (sb_timeout b)")
      case False
      from scopes_refused [OF this, of "sb_resolve b" "sb_database b" ?u]
      obtain e where "\<forall>body :: ('z rworld_scheme, 'a) py.
          authenticated_request b i body w = (Inl e, ?u\<lparr>rq_busy := False\<rparr>)"
        unfolding run by blast
      then show ?thesis using True 
        by (intro disjI1 exI [of _ e] exI [of _ "?u\<lparr>rq_busy := False\<rparr>"]) auto
    next
      case ok: True
      then have "request_admitted b i w
          (new_scope (sb_resolve b) ?q (sb_session_id b) (sb_database b) (sb_operations b) i w)
          (?u\<lparr>w_identity := Some i, w_leases := w_leases w @ [new_scope_lease (sb_timeout b) w]\<rparr>)"
        using True None by (simp add: request_admitted_def Let_def)
      moreover have "\<forall>body :: ('z rworld_scheme, 'a) py. authenticated_request b i body w =
          try_finally (in_session_scope
            (new_scope (sb_resolve b) ?q (sb_session_id b) (sb_database b) (sb_operations b) i w) body)
            (leave_request (w_identity w))
          (?u\<lparr>w_identity := Some i, w_leases := w_leases w @ [new_scope_lease (sb_timeout b) w]\<rparr>)"
        using ok by (simp add: run scopes_open)
      ultimately show ?thesis by blast
    qed
  qed
qed

interpretation request_gate: mediated_call
  "authenticated_request b i :: ('z rworld_scheme, 'a) py \<Rightarrow> ('z rworld_scheme, 'a) py"
  "\<lambda>w x v. request_admitted b i w (fst x) v \<and> snd x = w_identity w"
  "\<lambda>x body. try_finally (in_session_scope (fst x) body) (leave_request (snd x))" for b i
proof
  fix w :: "'z rworld_scheme"
  show "(\<exists>e v. \<forall>body :: ('z rworld_scheme, 'a) py. authenticated_request b i body w = (Inl e, v))
    \<or> (\<exists>x v. (request_admitted b i w (fst x) v \<and> snd x = w_identity w)
          \<and> (\<forall>body :: ('z rworld_scheme, 'a) py. authenticated_request b i body w =
               try_finally (in_session_scope (fst x) body) (leave_request (snd x)) v))"
  proof (rule disjE [OF request_step [of b i w]])
    assume "\<exists>ctx v. request_admitted b i w ctx v
        \<and> (\<forall>body :: ('z rworld_scheme, 'a) py. authenticated_request b i body w =
             try_finally (in_session_scope ctx body) (leave_request (w_identity w)) v)"
    then show ?thesis by (metis fst_conv snd_conv)
  qed blast
qed

lemma foreign_identity_refused:
  "i \<noteq> sb_owner b \<Longrightarrow> \<exists>e v. \<forall>body. authenticated_request b i body w = (Inl e, v)"
  by (rule request_gate.refused) (simp add: request_admitted_def Let_def)

text \<open>
  C36. Every authenticated request of the Local API is mediated. For every identity and state,
  either the request is refused with an outcome that does not depend on its body (it never ran)
  and the lock is as it was; or the identity is the owner the host selected, the middleware
  states the session contract and validates, no other request holds the lock, exactly the record
  of this binding was added to the audit log, and the body runs once as the owner in a session
  scope of its own: the bound session, database and operations, the calling thread and task, a
  fresh identifier, and a fresh lease with the time limit of the binding. However the body
  ends, the scope ends its lease, the previous identity comes back and the lock is released.
\<close>

theorem request_mediated:
  fixes w :: "'z rworld_scheme"
  shows "(\<exists>e v. (\<forall>body :: ('z rworld_scheme, 'a) py. authenticated_request b i body w = (Inl e, v))
            \<and> rq_busy v = rq_busy w \<and> w_leases v = w_leases w)
   \<or> (\<exists>ctx v. request_admitted b i w ctx v
        \<and> (\<forall>body :: ('z rworld_scheme, 'a) py. authenticated_request b i body w =
             try_finally (in_session_scope ctx body) (leave_request (w_identity w)) v))"
  by (rule request_step)

section \<open>The client keeps its token\<close>

text \<open>Some text of a decoded value, a key included, contains the token.\<close>

fun mentions :: "string \<Rightarrow> pyval \<Rightarrow> bool" where
  "mentions token (VStr s) = occurs_in token s"
| "mentions token (VList xs) = list_ex (mentions token) xs"
| "mentions token (VDict d) = list_ex (\<lambda>(k, v). mentions token k \<or> mentions token v) d"
| "mentions token v = False"

lemma token_free_iff: "token_free token pending \<longleftrightarrow> list_all (\<lambda>v. \<not> mentions token v) pending"
proof (induction token pending rule: token_free.induct)
  case (2 token item pending)
  then show ?case
    by (cases item) (auto simp: list_all_iff list_ex_iff split_beta; force)+
qed simp

text \<open>What the client checks before it opens a connection.\<close>

definition client_ready :: "'s client_services \<Rightarrow> MayaConfig \<Rightarrow> string \<Rightarrow> string \<Rightarrow> string \<Rightarrow> bool" where
  "client_ready cs c token message acknowledgement \<longleftrightarrow>
     acknowledgement = ACKNOWLEDGEMENT \<and> validate c = Inr () \<and> \<not> api_remote_access (local_api c)
     \<and> cs_loopback cs (client_host c) = Inr True \<and> port_ok (api_port (local_api c))
     \<and> api_token_ok token \<and> strip message \<noteq> [] \<and> length (request_body message) \<le> 65536"

lemma client_endpoint_iff:
  "client_endpoint cs c = Inr (host, port) \<longleftrightarrow>
   validate c = Inr () \<and> \<not> api_remote_access (local_api c) \<and> cs_loopback cs (client_host c) = Inr True
   \<and> port_ok (api_port (local_api c)) \<and> host = client_host c \<and> port = the (api_port (local_api c))"
  by (auto simp: client_endpoint_def Let_def res_iffs bindR_unit_Inr_iff split: sum.splits)

lemma client_endpoint_http [simp]: "client_endpoint (cs\<lparr>cs_http := http\<rparr>) c = client_endpoint cs c"
  by (simp add: client_endpoint_def Let_def)

lemma client_stops:
  assumes "\<not> client_ready cs c token message acknowledgement"
  shows "\<exists>e. \<forall>http. run_authenticated_cli_request (cs\<lparr>cs_http := http\<rparr>) c token message acknowledgement s
           = (Inl e, s)"
proof (cases "client_endpoint cs c")
  case (Inl e)
  then show ?thesis
    by (auto simp: run_authenticated_cli_request_def bnd_def require_def lift_def ret_def raise_def)
next
  case (Inr endpoint)
  obtain host port where endpoint: "client_endpoint cs c = Inr (host, port)"
    using Inr by (cases endpoint) auto
  then have "\<not> (acknowledgement = ACKNOWLEDGEMENT \<and> api_token_ok token \<and> strip message \<noteq> []
      \<and> length (request_body message) \<le> 65536)"
    using assms by (simp add: client_ready_def client_endpoint_iff)
  then show ?thesis
    using endpoint
    by (auto simp: run_authenticated_cli_request_def bnd_def require_def lift_def ret_def raise_def)
qed

lemma bound_response_iff:
  "bound_response cs parsed = Inr d \<longleftrightarrow>
   parsed = VDict d \<and> dget_or d ''session_binding_contract'' VNone = VStr REQUEST_BINDING_CONTRACT
   \<and> dget_or d ''qualification'' VNone = VStr ''source_candidate_only''
   \<and> is_ok (checked_payload (cs_loads cs) (cs_dumps cs) (cs_depth cs) parsed)"
  by (cases parsed; cases "checked_payload (cs_loads cs) (cs_dumps cs) (cs_depth cs) parsed")
    (auto simp: bound_response_def res_iffs)

lemma response_clean:
  "response_of cs token response = Inr d \<Longrightarrow> \<not> mentions token (VDict d) \<and> \<not> exposes (cs_loads cs) (VDict d)"
  by (cases "checked_payload (cs_loads cs) (cs_dumps cs) (cs_depth cs) (VDict d)")
    (auto simp: response_of_def Let_def res_iffs bound_response_iff token_free_iff checked_payload_clean
      split: prod.splits)

lemma wlp_exchange:
  "wlp (exchange cs host port token verb path payload)
     (\<lambda>d _. \<not> mentions token (VDict d) \<and> \<not> exposes (cs_loads cs) (VDict d)) (\<lambda>_ _. True) s"
  unfolding exchange_def client_or_def wp_try_finally wp_try_except wp_bnd wp_lift
  by (rule wlpI; auto simp: wp dest!: response_clean split: sum.splits intro!: wlpI)

lemma mentions_item: "\<not> mentions token (VDict d) \<Longrightarrow> dget d k = Some v \<Longrightarrow> \<not> mentions token v"
  by (auto simp: list_ex_iff dget_def dest!: map_of_SomeD)

lemma exposes_item: "\<not> exposes loads (VDict d) \<Longrightarrow> dget d k = Some v \<Longrightarrow> \<not> exposes loads v"
  by (auto simp: dget_def dest!: map_of_SomeD intro: exposes.item)

lemma wlp_bnd_last:
  "(\<And>a t. wlp (f a) Q (\<lambda>_ _. True) t) \<Longrightarrow> wlp (bnd m f) Q (\<lambda>_ _. True) s"
  unfolding wp_bnd by (rule wlpI) auto

lemma wlp_result_item:
  "wlp (bnd (exchange cs host port token verb path payload) (\<lambda>result.
       case dget result k of None \<Rightarrow> raise e | Some v \<Rightarrow> ret v))
     (\<lambda>v _. \<not> mentions token v \<and> \<not> exposes (cs_loads cs) v) (\<lambda>_ _. True) s"
  unfolding wp_bnd
  by (rule wlp_mono [OF wlp_exchange])
    (auto simp: wp mentions_item exposes_item simp del: mentions.simps split: option.splits)


section \<open>The claim at a concrete input\<close>

text \<open>No secret pattern begins without one of four pairs of characters.\<close>

definition suspicious :: "char \<Rightarrow> char \<Rightarrow> bool" where
  "suspicious c d \<longleftrightarrow>
     (lower_char c, lower_char d) \<in> {(CHR ''s'', CHR ''k''), (CHR ''-'', CHR ''-''), (CHR ''b'', CHR ''e'')}
     \<or> is_digit c \<and> is_digit d"

lemma secret_at_pair: "secret_at prev s \<Longrightarrow> \<exists>c d t. s = c # d # t \<and> suspicious c d"
  by (cases s; cases "tl s")
    (auto simp: secret_at_def api_key_at_def bot_token_at_def private_key_at_def bearer_at_def
      starts_with_def lower_def suspicious_def Let_def split: if_splits)

lemma no_secret:
  "\<not> list_ex (\<lambda>(c, d). suspicious c d) (zip s (tl s)) \<Longrightarrow> \<not> search_from secret_at prev s"
proof (induction s arbitrary: prev)
  case Nil
  then show ?case using secret_at_pair by fastforce
next
  case (Cons c s)
  then show ?case using secret_at_pair [of prev "c # s"] by (cases s) auto
qed

definition demo_answer :: pydict where
  "demo_answer = [(VStr ''session_binding_contract'', VStr REQUEST_BINDING_CONTRACT),
     (VStr ''qualification'', VStr ''source_candidate_only''), (VStr ''result'', VStr ''ok'')]"

definition demo_services :: "unit client_services" where
  "demo_services = \<lparr>cs_http = (\<lambda>_. ret (200, ''x'')), cs_close = ret (),
     cs_loopback = (\<lambda>s. Inr (s = ''127.0.0.1'')), cs_loads = (\<lambda>_. Inr (VDict demo_answer)),
     cs_dumps = (\<lambda>_. Inr ''{}''), cs_depth = Suc (Suc 0)\<rparr>"

lemma demo_client_ready: "client_ready demo_services demo_config ''tok-1'' ''hi'' ACKNOWLEDGEMENT"
proof -
  have "api_token_ok ''tok-1''"
    by (simp add: api_token_ok_def bearer_char_def is_alnum_def is_digit_def is_upper_def is_lower_def)
  moreover have "strip ''hi'' \<noteq> []" by (simp add: strip_def is_space_def)
  moreover have "length (request_body ''hi'') \<le> 65536"
    by (simp add: request_body_def json_object_def json_field_def json_str_def json_char_def)
  ultimately show ?thesis
    using demo_config_valid
    by (simp add: client_ready_def demo_services_def client_host_def port_ok_def)
      (simp add: demo_config_def)
qed

lemma demo_response: "response_of demo_services ''tok-1'' (200, ''x'') = Inr demo_answer"
proof -
  have "\<not> occurs_in ''tok-1'' ''x''" "\<not> mentions ''tok-1'' (VDict demo_answer)"
    by code_simp+
  moreover have "check_value (cs_loads demo_services) (Suc (Suc 0)) (VDict demo_answer) = Inr ()"
  proof -
    have "\<not> secret_search s \<and> \<not> embedded_json s"
      if "s \<in> {REQUEST_BINDING_CONTRACT, ''source_candidate_only'', ''ok''}" for s
    proof -
      have "\<not> list_ex (\<lambda>(c, d). suspicious c d) (zip s (tl s)) \<and> \<not> embedded_json s"
        using that by (elim insertE emptyE) (simp, code_simp)+
      then show ?thesis by (simp add: secret_search_def no_secret)
    qed
    moreover have "lower k \<notin> set SECRET_FIELDS"
      if "k \<in> {''session_binding_contract'', ''qualification'', ''result''}" for k
      using that by (elim insertE emptyE) (simp, code_simp)+
    ultimately show ?thesis by (simp add: demo_answer_def)
  qed
  moreover from this have "checked_payload (cs_loads demo_services) (cs_dumps demo_services)
      (cs_depth demo_services) (VDict demo_answer) = Inr ''{}''"
    unfolding checked_payload_iff by (simp add: demo_services_def MAX_PAYLOAD_BYTES_def del: check_value.simps)
  moreover have "dget_or demo_answer ''session_binding_contract'' VNone = VStr REQUEST_BINDING_CONTRACT"
    "dget_or demo_answer ''qualification'' VNone = VStr ''source_candidate_only''"
    "cs_loads demo_services = (\<lambda>_. Inr (VDict demo_answer))"
    by (simp_all add: demo_answer_def dget_or_def dget_def demo_services_def)
  ultimately show ?thesis
    by (simp add: response_of_def Let_def MAX_RESPONSE_BYTES_def token_free_iff bound_response_def
        del: check_value.simps mentions.simps)
qed


end
