(* ===== verification/Maya_Handoff.thy ===== *)
theory Maya_Handoff
  imports Maya_Requests
begin

text \<open>
  \<open>src/project_maya/hermes_plugins/session_handoff.py\<close>: handing the limits of an authenticated
  request to one function in an executor thread, and the scope of the native caller. Objects
  compared with \<open>is\<close> are numbers or positions in a list; a session context is compared by
  value, which is the same, since no two contexts share a lease. The function, the helper of the
  runner and the executor are arbitrary computations.
\<close>

section \<open>State\<close>

definition SESSION_HANDOFF_CONTRACT :: string where
  "SESSION_HANDOFF_CONTRACT = ''project-maya.session-executor-handoff.v1''"

definition CONVERSATION_SCHEDULE_CONTRACT :: string where
  "CONVERSATION_SCHEDULE_CONTRACT = ''project-maya.conversation-executor-schedule.v1''"

definition CALLER_ENTRY_CONTRACT :: string where
  "CALLER_ENTRY_CONTRACT = ''project-maya.native-caller-entry.v1''"

record caller_entry =
  ce_source :: SessionWriteContext
  ce_factory :: nat
  ce_active :: bool

record executor_selection =
  es_source :: SessionWriteContext
  es_function :: nat
  es_factory :: nat
  es_consumed :: bool

record executor_handoff =
  ho_source :: SessionWriteContext
  ho_function :: nat
  ho_lease :: nat
  ho_used :: bool
  ho_started :: bool

text \<open>
  The attributes of a runner: the factory whose resolver is installed, the factory, the bound
  helper, and what the strict resolution of its database path gives.
\<close>

record runner_state =
  ru_executor :: "nat option"
  ru_factory :: "nat option"
  ru_helper :: "nat option"
  ru_database :: "path res"

record executor_factory =
  ef_runner :: nat
  ef_helper :: "nat option"
  ef_claimed :: "(string \<times> nat) list"
  ef_callers :: "(string \<times> nat) list"

record hworld = world +
  hw_handoffs :: "executor_handoff list"
  hw_selections :: "executor_selection list"
  hw_selection :: "nat option"
  hw_entries :: "caller_entry list"
  hw_entry :: "nat option"
  hw_runners :: "nat \<Rightarrow> runner_state"
  hw_factories :: "executor_factory list"
  hw_cancelled :: "nat option list"

text \<open>The audit sink, the digest, \<open>asyncio.iscoroutinefunction\<close> and \<open>__self__\<close> of a method.\<close>

record handoff_env =
  he_sink :: "AuditRecord list \<Rightarrow> AuditRecord \<Rightarrow> pyexc option"
  he_digest :: "string \<Rightarrow> string"
  he_async :: "nat \<Rightarrow> bool"
  he_self :: "nat \<Rightarrow> nat option"

abbreviation "handoff_invalid \<equiv> boundary ''session_handoff_invalid''"
abbreviation "caller_invalid \<equiv> boundary ''caller_entry_invalid''"

definition handoff_record ::
  "handoff_env \<Rightarrow> string \<Rightarrow> string \<Rightarrow> string \<Rightarrow> string \<Rightarrow> string \<Rightarrow> SessionWriteContext \<Rightarrow> AuditRecord" where
  "handoff_record env event reason capability operation contract s =
     \<lparr>aud_event_type = event, aud_decision = ''allow'', aud_reason_code = reason,
      aud_actor_id = id_actor (sw_identity s), aud_capability = capability,
      aud_target = ''sha256:'' @ he_digest env (sw_session_id s), aud_operation = operation,
      aud_classification = id_classification (sw_identity s),
      aud_idempotency_key = Some (''sha256:'' @ he_digest env (sw_request_id s)),
      aud_metadata = [(''contract'', contract), (''qualification'', ''source_candidate_only'')]\<rparr>"

definition record_handoff ::
  "handoff_env \<Rightarrow> AuditRecord \<Rightarrow> ('z hworld_scheme, unit) py" where
  "record_handoff env r = exception_as (boundary ''audit_unavailable'') (sink_write (he_sink env) r)"

text \<open>The ambient scope, identity, thread and task are those of the scope \<open>s\<close>.\<close>

definition in_scope_of :: "SessionWriteContext \<Rightarrow> 'z hworld_scheme \<Rightarrow> bool" where
  "in_scope_of s w \<longleftrightarrow>
     w_session w = Some s \<and> sw_thread s = w_thread w \<and> sw_task s = w_task w
     \<and> w_identity w = Some (sw_identity s)"

definition lease_parent :: "SessionWriteContext \<Rightarrow> 'z hworld_scheme \<Rightarrow> nat option" where
  "lease_parent s w = le_parent (w_leases w ! sw_lease s)"

section \<open>One handoff\<close>

text \<open>The selection of the running task, when it is for this scope and function and unused.\<close>

definition selected_task :: "nat \<Rightarrow> 'z hworld_scheme \<Rightarrow> nat option" where
  "selected_task function w =
     (case hw_selection w of
        None \<Rightarrow> None
      | Some k \<Rightarrow>
          let sel = hw_selections w ! k
          in if w_session w = Some (es_source sel) \<and> es_function sel = function \<and> \<not> es_consumed sel
             then Some k else None)"

definition consume_selection :: "nat option \<Rightarrow> ('z hworld_scheme, unit) py" where
  "consume_selection chosen =
     (case chosen of None \<Rightarrow> ret ()
      | Some k \<Rightarrow> modify (\<lambda>w. w\<lparr>hw_selections :=
          (hw_selections w)[k := (hw_selections w ! k)\<lparr>es_consumed := True\<rparr>]\<rparr>))"

text \<open>\<open>CandidateSessionExecutorHandoff.__init__\<close>: the position of the new handoff.\<close>

definition handoff_init :: "handoff_env \<Rightarrow> nat \<Rightarrow> string \<Rightarrow> ('z hworld_scheme, nat) py" where
  "handoff_init env function acknowledgement =
     bnd (gets id) (\<lambda>w.
     case w_session w of
       None \<Rightarrow> raise handoff_invalid
     | Some s \<Rightarrow>
         bnd (require (acknowledgement = ACKNOWLEDGEMENT \<and> \<not> he_async env function) handoff_invalid) (\<lambda>_.
         bnd (active (sw_lease s)) (\<lambda>live.
         bnd (require (live \<and> (lease_parent s w = None \<or> selected_task function w \<noteq> None)
                       \<and> in_scope_of s w) handoff_invalid) (\<lambda>_.
         bnd (consume_selection (selected_task function w)) (\<lambda>_.
         bnd (on_leases (new_lease (Some (sw_lease s)) None)) (\<lambda>lease.
         bnd (gets (\<lambda>w. length (hw_handoffs w))) (\<lambda>n.
         bnd (modify (\<lambda>w. w\<lparr>hw_handoffs := hw_handoffs w @
           [\<lparr>ho_source = s, ho_function = function, ho_lease = lease, ho_used = False,
             ho_started = False\<rparr>]\<rparr>)) (\<lambda>_.
         ret n))))))))"

definition on_handoff :: "nat \<Rightarrow> (executor_handoff \<Rightarrow> executor_handoff) \<Rightarrow> ('z hworld_scheme, unit) py" where
  "on_handoff n f = modify (\<lambda>w. w\<lparr>hw_handoffs := (hw_handoffs w)[n := f (hw_handoffs w ! n)]\<rparr>)"

text \<open>
  \<open>_invoke\<close>, in the thread of the executor. \<open>suspended\<close>: the result is awaitable or a
  generator.
\<close>

definition invoke :: "nat \<Rightarrow> ('a \<Rightarrow> bool) \<Rightarrow> ('z hworld_scheme, 'a) py \<Rightarrow> ('z hworld_scheme, 'a) py" where
  "invoke n suspended body =
     bnd (gets id) (\<lambda>w.
     let h = hw_handoffs w ! n; s = ho_source h
     in bnd (require (ho_used h \<and> \<not> ho_started h \<and> w_thread w \<noteq> sw_thread s \<and> w_task w = None)
          handoff_invalid) (\<lambda>_.
        bnd (on_handoff n (\<lambda>h. h\<lparr>ho_started := True\<rparr>)) (\<lambda>_.
        bind_session_handoff s (ho_lease h)
          (bnd body (\<lambda>result.
           bnd (require (\<not> suspended result) (boundary ''session_executor_result_unqualified'')) (\<lambda>_.
           ret result))))))"

text \<open>\<open>execute\<close>; \<open>executor\<close> is \<open>run_in_executor\<close> and the wait for its result.\<close>

definition claim_handoff :: "nat \<Rightarrow> nat \<Rightarrow> ('z hworld_scheme, executor_handoff) py" where
  "claim_handoff n function =
     bnd (gets (\<lambda>w. hw_handoffs w ! n)) (\<lambda>h.
     bnd (gets (\<lambda>w. function = ho_function h \<and> in_scope_of (ho_source h) w)) (\<lambda>here.
     bnd (if here then active (ho_lease h) else ret False) (\<lambda>live.
     bnd (require live handoff_invalid) (\<lambda>_.
     bnd (require (\<not> ho_used h) (boundary ''session_handoff_consumed'')) (\<lambda>_.
     bnd (on_handoff n (\<lambda>h. h\<lparr>ho_used := True\<rparr>)) (\<lambda>_.
     ret h))))))"

definition handoff_execute ::
  "handoff_env \<Rightarrow> (('z hworld_scheme, 'a) py \<Rightarrow> ('z hworld_scheme, 'a) py) \<Rightarrow> nat \<Rightarrow> nat
     \<Rightarrow> ('a \<Rightarrow> bool) \<Rightarrow> ('z hworld_scheme, 'a) py \<Rightarrow> ('z hworld_scheme, 'a) py" where
  "handoff_execute env executor n function suspended body =
     bnd (claim_handoff n function) (\<lambda>h.
     try_finally
       (boundary_or (boundary ''session_executor_failed'')
         (bnd (record_handoff env (handoff_record env ''authentication.session_executor_handoff''
             ''authentication.request_handoff'' ''session.executor'' ''handoff'' SESSION_HANDOFF_CONTRACT
             (ho_source h))) (\<lambda>_.
          executor (invoke n suspended body))))
       (end_lease (ho_lease h)))"

text \<open>\<open>_CandidateExecutorResolver.execute\<close> of the factory \<open>f\<close>.\<close>

definition resolver_execute ::
  "handoff_env \<Rightarrow> (('z hworld_scheme, 'a) py \<Rightarrow> ('z hworld_scheme, 'a) py) \<Rightarrow> nat \<Rightarrow> nat \<Rightarrow> bool
     \<Rightarrow> ('a \<Rightarrow> bool) \<Rightarrow> ('z hworld_scheme, 'a) py \<Rightarrow> ('z hworld_scheme, 'a) py" where
  "resolver_execute env executor f function has_args suspended body =
     bnd (gets id) (\<lambda>w.
     case hw_selection w of
       None \<Rightarrow> raise handoff_invalid
     | Some k \<Rightarrow>
         let sel = hw_selections w ! k
         in bnd (require (es_factory sel = f \<and> w_session w = Some (es_source sel)
                   \<and> es_function sel = function \<and> \<not> has_args) handoff_invalid) (\<lambda>_.
            bnd (handoff_init env function ACKNOWLEDGEMENT) (\<lambda>n.
            handoff_execute env executor n function suspended body)))"

section \<open>The factory of one runner\<close>

definition on_factory :: "nat \<Rightarrow> (executor_factory \<Rightarrow> executor_factory) \<Rightarrow> ('z hworld_scheme, unit) py" where
  "on_factory f g = modify (\<lambda>w. w\<lparr>hw_factories := (hw_factories w)[f := g (hw_factories w ! f)]\<rparr>)"

text \<open>\<open>CandidateConversationExecutorFactory.__init__\<close>: the position of the new factory.\<close>

definition factory_init :: "handoff_env \<Rightarrow> nat \<Rightarrow> string \<Rightarrow> ('z hworld_scheme, nat) py" where
  "factory_init env runner acknowledgement =
     bnd (gets (\<lambda>w. hw_runners w runner)) (\<lambda>r.
     bnd (require (acknowledgement = ACKNOWLEDGEMENT
             \<and> (case ru_helper r of None \<Rightarrow> False | Some m \<Rightarrow> he_async env m \<and> he_self env m = Some runner)
             \<and> ru_executor r = None \<and> ru_factory r = None) handoff_invalid) (\<lambda>_.
     bnd (gets (\<lambda>w. length (hw_factories w))) (\<lambda>f.
     bnd (modify (\<lambda>w. w\<lparr>hw_factories := hw_factories w @
            [\<lparr>ef_runner = runner, ef_helper = ru_helper r, ef_claimed = [], ef_callers = []\<rparr>],
          hw_runners := (hw_runners w)(runner := r\<lparr>ru_executor := Some f, ru_factory := Some f\<rparr>)\<rparr>)) (\<lambda>_.
     ret f))))"

definition installed :: "nat \<Rightarrow> nat \<Rightarrow> 'z hworld_scheme \<Rightarrow> bool" where
  "installed f runner w \<longleftrightarrow>
     (let fac = hw_factories w ! f; r = hw_runners w runner
      in runner = ef_runner fac \<and> ru_executor r = Some f \<and> ru_factory r = Some f
         \<and> ru_helper r = ef_helper fac)"

text \<open>
  The list comprehension over the claims: those whose lease is still active (asking it may end
  leases whose time is over).
\<close>

fun live_claims :: "(string \<times> nat) list \<Rightarrow> ('z hworld_scheme, (string \<times> nat) list) py" where
  "live_claims [] = ret []"
| "live_claims (c # cs) =
     bnd (active (snd c)) (\<lambda>a.
     bnd (live_claims cs) (\<lambda>rest.
     ret (if a then c # rest else rest)))"

text \<open>\<open>with self._lock: ...\<close>: one claim of a request among those whose scope is live.\<close>

definition claim_request ::
  "(executor_factory \<Rightarrow> (string \<times> nat) list)
     \<Rightarrow> ((string \<times> nat) list \<Rightarrow> executor_factory \<Rightarrow> executor_factory)
     \<Rightarrow> string \<Rightarrow> nat \<Rightarrow> SessionWriteContext \<Rightarrow> ('z hworld_scheme, unit) py" where
  "claim_request claims set_claims reason f s =
     bnd (gets (\<lambda>w. claims (hw_factories w ! f))) (\<lambda>cs.
     bnd (live_claims cs) (\<lambda>cs.
     bnd (on_factory f (set_claims cs)) (\<lambda>_.
     bnd (require (sw_request_id s \<notin> fst ` set cs) (boundary reason)) (\<lambda>_.
     on_factory f (set_claims (cs @ [(sw_request_id s, sw_lease s)]))))))"

definition validate_caller ::
  "nat \<Rightarrow> nat \<Rightarrow> string \<Rightarrow> ('z hworld_scheme, SessionWriteContext) py" where
  "validate_caller f runner session_id =
     bnd (gets id) (\<lambda>w.
     case w_session w of
       None \<Rightarrow> raise caller_invalid
     | Some s \<Rightarrow>
         bnd (require (installed f runner w \<and> lease_parent s w = None
                \<and> le_deadline (w_leases w ! sw_lease s) \<noteq> None) caller_invalid) (\<lambda>_.
         bnd (active (sw_lease s)) (\<lambda>live.
         bnd (require (live \<and> in_scope_of s w \<and> sw_task s \<noteq> None \<and> session_id = sw_session_id s)
           caller_invalid) (\<lambda>_.
         bnd (exception_as caller_invalid (lift (ru_database (hw_runners w runner)))) (\<lambda>database.
         bnd (require (database = sw_database s) caller_invalid) (\<lambda>_.
         ret s))))))"

text \<open>\<open>expire\<close>, which the event loop calls at the deadline of the scope.\<close>

definition expire_caller :: "nat \<Rightarrow> ('z hworld_scheme, unit) py" where
  "expire_caller k =
     bnd (gets (\<lambda>w. hw_entries w ! k)) (\<lambda>entry.
     bnd (gets (\<lambda>w. ce_active entry \<and> le_active (w_leases w ! sw_lease (ce_source entry)))) (\<lambda>open.
     if open then
       bnd (revoke (sw_lease (ce_source entry)) ''timeout'') (\<lambda>_.
       modify (\<lambda>w. w\<lparr>hw_cancelled := hw_cancelled w @ [sw_task (ce_source entry)]\<rparr>))
     else ret ()))"

definition close_entry :: "nat \<Rightarrow> nat option \<Rightarrow> ('z hworld_scheme, unit) py" where
  "close_entry k previous = modify (\<lambda>w. w\<lparr>hw_entries :=
     (hw_entries w)[k := (hw_entries w ! k)\<lparr>ce_active := False\<rparr>], hw_entry := previous\<rparr>)"

text \<open>\<open>timer\<close> is what scheduling the timer gives; the timer itself fires inside the body.\<close>

definition caller_body ::
  "nat \<Rightarrow> nat option \<Rightarrow> SessionWriteContext \<Rightarrow> unit res \<Rightarrow> ('z hworld_scheme, 'a) py \<Rightarrow> ('z hworld_scheme, 'a) py" where
  "caller_body k previous s timer body =
     try_finally
       (try_except (bnd (lift timer) (\<lambda>_. body))
         (\<lambda>e. bnd (revoke (sw_lease s)
                 (if exc_class_of e = CancelledError then ''cancelled'' else ''failed'')) (\<lambda>_. raise e)))
       (bnd (revoke (sw_lease s) ''completed'') (\<lambda>_. close_entry k previous))"

definition caller_scope ::
  "handoff_env \<Rightarrow> nat \<Rightarrow> nat \<Rightarrow> string \<Rightarrow> unit res \<Rightarrow> ('z hworld_scheme, 'a) py \<Rightarrow> ('z hworld_scheme, 'a) py" where
  "caller_scope env f runner session_id timer body =
     bnd (validate_caller f runner session_id) (\<lambda>s.
     bnd (gets hw_entry) (\<lambda>previous.
     bnd (require (previous = None) caller_invalid) (\<lambda>_.
     bnd (claim_request ef_callers (\<lambda>cs fac. fac\<lparr>ef_callers := cs\<rparr>) ''caller_entry_consumed'' f s) (\<lambda>_.
     bnd (record_handoff env (handoff_record env ''authentication.native_caller''
        ''authentication.identity_bound'' ''runtime.caller'' ''enter'' CALLER_ENTRY_CONTRACT s)) (\<lambda>_.
     bnd (gets (\<lambda>w. length (hw_entries w))) (\<lambda>k.
     bnd (modify (\<lambda>w. w\<lparr>hw_entries := hw_entries w @
        [\<lparr>ce_source = s, ce_factory = f, ce_active = True\<rparr>], hw_entry := Some k\<rparr>)) (\<lambda>_.
     caller_body k previous s timer body)))))))"

definition entry_matches :: "nat \<Rightarrow> SessionWriteContext \<Rightarrow> 'z hworld_scheme \<Rightarrow> bool" where
  "entry_matches f s w \<longleftrightarrow>
     (case hw_entry w of None \<Rightarrow> False
      | Some k \<Rightarrow> let e = hw_entries w ! k in ce_active e \<and> ce_factory e = f \<and> ce_source e = s)"

definition require_caller :: "nat \<Rightarrow> nat \<Rightarrow> string \<Rightarrow> ('z hworld_scheme, bool) py" where
  "require_caller f runner session_id =
     bnd (validate_caller f runner session_id) (\<lambda>s.
     bnd (gets (entry_matches f s)) (\<lambda>good.
     bnd (require good caller_invalid) (\<lambda>_. ret True)))"

definition revoke_caller :: "nat \<Rightarrow> nat \<Rightarrow> string \<Rightarrow> string \<Rightarrow> ('z hworld_scheme, unit) py" where
  "revoke_caller f runner session_id reason =
     bnd (gets id) (\<lambda>w.
     case w_session w of
       None \<Rightarrow> raise caller_invalid
     | Some s \<Rightarrow>
         bnd (require (runner = ef_runner (hw_factories w ! f) \<and> entry_matches f s w
                \<and> lease_parent s w = None \<and> in_scope_of s w \<and> sw_session_id s = session_id)
           caller_invalid) (\<lambda>_.
         revoke_request (sw_lease s) reason))"

section \<open>Scheduling the conversation\<close>

text \<open>
  \<open>schedule\<close>: the scope, the child lease and the function of the new task. \<open>task\<close> is what
  making the task object gives.
\<close>

definition schedule ::
  "handoff_env \<Rightarrow> nat \<Rightarrow> nat \<Rightarrow> nat \<Rightarrow> unit res
     \<Rightarrow> ('z hworld_scheme, SessionWriteContext \<times> nat \<times> nat) py" where
  "schedule env f runner function task =
     bnd (gets id) (\<lambda>w.
     case w_session w of
       None \<Rightarrow> raise handoff_invalid
     | Some s \<Rightarrow>
         bnd (require (installed f runner w) handoff_invalid) (\<lambda>_.
         bnd (active (sw_lease s)) (\<lambda>live.
         bnd (require (live \<and> lease_parent s w = None \<and> sw_task s \<noteq> None \<and> in_scope_of s w
                       \<and> \<not> he_async env function) handoff_invalid) (\<lambda>_.
         bnd (claim_request ef_claimed (\<lambda>cs fac. fac\<lparr>ef_claimed := cs\<rparr>) ''session_handoff_consumed'' f s) (\<lambda>_.
         bnd (on_leases (new_lease (Some (sw_lease s)) None)) (\<lambda>lease.
         bnd (try_except (sink_write (he_sink env) (handoff_record env ''authentication.session_task_handoff''
               ''authentication.request_handoff'' ''session.task'' ''handoff'' CONVERSATION_SCHEDULE_CONTRACT s))
             (\<lambda>e. if is_exception e
                  then bnd (end_lease lease) (\<lambda>_. raise (boundary ''audit_unavailable'')) else raise e)) (\<lambda>_.
         bnd (try_except (lift task)
             (\<lambda>e. if is_exception e
                  then bnd (end_lease lease) (\<lambda>_. raise (boundary ''session_task_failed'')) else raise e)) (\<lambda>_.
         ret (s, lease, function)))))))))"

text \<open>\<open>_receive\<close>, the body of that task; \<open>helper\<close> is the helper of the runner on the function.\<close>

definition with_selection :: "executor_selection \<Rightarrow> ('z hworld_scheme, 'a) py \<Rightarrow> ('z hworld_scheme, 'a) py" where
  "with_selection sel body =
     bnd (gets hw_selection) (\<lambda>previous.
     bnd (modify (\<lambda>w. w\<lparr>hw_selections := hw_selections w @ [sel],
                       hw_selection := Some (length (hw_selections w))\<rparr>)) (\<lambda>_.
     try_finally body (modify (\<lambda>w. w\<lparr>hw_selection := previous\<rparr>))))"

definition receive ::
  "nat \<Rightarrow> SessionWriteContext \<Rightarrow> nat \<Rightarrow> nat \<Rightarrow> ('z hworld_scheme, 'a) py \<Rightarrow> ('z hworld_scheme, 'a) py" where
  "receive f s lease function helper =
     try_finally
       (try_except
         (bind_session_handoff s lease
           (bnd (gets (\<lambda>w. the (w_session w))) (\<lambda>bound.
            with_selection \<lparr>es_source = bound, es_function = function, es_factory = f, es_consumed = False\<rparr>
              helper)))
         (\<lambda>e. bnd (revoke_request lease
                 (if exc_class_of e = CancelledError then ''cancelled'' else ''failed'')) (\<lambda>_. raise e)))
       (end_lease lease)"

text \<open>\<open>_LeasedRequestTask\<close>: cancelling the task ends the whole request first.\<close>

datatype task_outcome = TaskCancelled | TaskFailed | TaskReturned

definition task_cancel :: "nat \<Rightarrow> bool \<Rightarrow> ('z hworld_scheme, bool) py \<Rightarrow> ('z hworld_scheme, bool) py" where
  "task_cancel lease finished cancel =
     (if finished then ret False
      else bnd (revoke_request lease ''cancelled'') (\<lambda>_. cancel))"

definition observe_completion :: "nat \<Rightarrow> task_outcome \<Rightarrow> ('z hworld_scheme, unit) py" where
  "observe_completion lease outcome =
     (case outcome of
        TaskCancelled \<Rightarrow> revoke_request lease ''cancelled''
      | TaskFailed \<Rightarrow> revoke_request lease ''failed''
      | TaskReturned \<Rightarrow> ret ())"

section \<open>A handoff is used once\<close>

definition executor_record :: "handoff_env \<Rightarrow> SessionWriteContext \<Rightarrow> AuditRecord" where
  "executor_record env s =
     handoff_record env ''authentication.session_executor_handoff'' ''authentication.request_handoff''
       ''session.executor'' ''handoff'' SESSION_HANDOFF_CONTRACT s"

text \<open>
  What is checked before a function goes to the executor, and the state it goes from: the caller
  is in the scope the handoff was made in, with its function, its lease is active, it was not
  used before and is used now, and exactly the record of it was added to the audit log.
\<close>

definition handed_off ::
  "handoff_env \<Rightarrow> nat \<Rightarrow> nat \<Rightarrow> 'z hworld_scheme \<Rightarrow> 'z hworld_scheme \<Rightarrow> bool" where
  "handed_off env n function w v \<longleftrightarrow>
     (let h = hw_handoffs w ! n; live = lease_is_active (w_clock w) (ho_lease h) (w_leases w)
      in function = ho_function h \<and> in_scope_of (ho_source h) w \<and> fst live \<and> \<not> ho_used h
         \<and> he_sink env (w_audit w) (executor_record env (ho_source h)) = None
         \<and> v = w\<lparr>w_leases := snd live,
                 hw_handoffs := (hw_handoffs w)[n := h\<lparr>ho_used := True\<rparr>],
                 w_audit := w_audit w @ [executor_record env (ho_source h)]\<rparr>)"

lemma claim_handoff_runs:
  "claim_handoff n function w =
     (let h = hw_handoffs w ! n; live = lease_is_active (w_clock w) (ho_lease h) (w_leases w)
      in if \<not> (function = ho_function h \<and> in_scope_of (ho_source h) w) then (Inl handoff_invalid, w)
         else if \<not> fst live then (Inl handoff_invalid, w\<lparr>w_leases := snd live\<rparr>)
         else if ho_used h then (Inl (boundary ''session_handoff_consumed''), w\<lparr>w_leases := snd live\<rparr>)
         else (Inr h, w\<lparr>w_leases := snd live, hw_handoffs := (hw_handoffs w)[n := h\<lparr>ho_used := True\<rparr>]\<rparr>))"
  by (auto simp: claim_handoff_def bnd_def gets_def active_def require_def ret_def raise_def on_handoff_def
      modify_def Let_def split: prod.splits)

lemma execute_split:
  fixes w :: "'z hworld_scheme"
  shows "(\<exists>e v. \<forall>executor body. handoff_execute env executor n function (suspended :: 'a \<Rightarrow> bool) body w = (Inl e, v))
   \<or> (\<exists>v. handed_off env n function w v
        \<and> (\<forall>executor body. handoff_execute env executor n function suspended body w =
             try_finally (boundary_or (boundary ''session_executor_failed'')
               (executor (invoke n suspended body))) (end_lease (ho_lease (hw_handoffs w ! n))) v))"
proof (cases "claim_handoff n function w")
  case (Pair r u)
  show ?thesis
  proof (cases r)
    case (Inl e)
    then have "\<forall>executor body. handoff_execute env executor n function suspended body w = (Inl e, u)"
      using Pair by (simp add: handoff_execute_def bnd_def)
    then show ?thesis by blast
  next
    case (Inr h)
    then have h: "h = hw_handoffs w ! n"
      and u: "u = w\<lparr>w_leases := snd (lease_is_active (w_clock w) (ho_lease h) (w_leases w)),
                  hw_handoffs := (hw_handoffs w)[n := h\<lparr>ho_used := True\<rparr>]\<rparr>"
      and ok: "function = ho_function h" "in_scope_of (ho_source h) w" "\<not> ho_used h"
        "fst (lease_is_active (w_clock w) (ho_lease h) (w_leases w))"
      using Pair by (auto simp: claim_handoff_runs Let_def split: if_splits)
    show ?thesis
    proof (cases "he_sink env (w_audit w) (executor_record env (ho_source h))")
      case (Some e)
      then have "\<exists>e v. \<forall>executor body. handoff_execute env executor n function suspended body w = (Inl e, v)"
        using Pair Inr u
        by (simp add: handoff_execute_def record_handoff_def exception_as_def executor_record_def [symmetric] bnd_def
            boundary_or_def try_finally_def try_except_def sink_write_def raise_def end_lease_def modify_def)
      then show ?thesis by blast
    next
      case None
      then have "handed_off env n function w (u\<lparr>w_audit := w_audit w @ [executor_record env (ho_source h)]\<rparr>)"
        using ok h u by (simp add: handed_off_def Let_def)
      moreover have "\<forall>executor body. handoff_execute env executor n function suspended body w =
          try_finally (boundary_or (boundary ''session_executor_failed'')
            (executor (invoke n suspended body))) (end_lease (ho_lease (hw_handoffs w ! n)))
            (u\<lparr>w_audit := w_audit w @ [executor_record env (ho_source h)]\<rparr>)"
        using Pair Inr u None h
        by (simp add: handoff_execute_def record_handoff_def exception_as_def executor_record_def [symmetric] bnd_def
            boundary_or_def try_finally_def try_except_def sink_write_def)
      ultimately show ?thesis by blast
    qed
  qed
qed

text \<open>
  What is checked in the thread of the executor, and the state the function starts from: the
  handoff was used and not received before, this is another thread, outside every task, the
  leases of the source scope and of the handoff are active, and the ambient scope is a copy of
  the source scope for this thread, under a child lease of the handoff.
\<close>

definition received ::
  "nat \<Rightarrow> 'z hworld_scheme \<Rightarrow> nat \<Rightarrow> 'z hworld_scheme \<Rightarrow> bool" where
  "received n w child v \<longleftrightarrow>
     (let h = hw_handoffs w ! n; s = ho_source h;
          source_live = lease_is_active (w_clock w) (sw_lease s) (w_leases w);
          live = lease_is_active (w_clock w) (ho_lease h) (snd source_live)
      in ho_used h \<and> \<not> ho_started h \<and> w_thread w \<noteq> sw_thread s \<and> w_task w = None
         \<and> fst source_live \<and> fst live \<and> child = length (w_leases w)
         \<and> is_identifier (id_actor (sw_identity s)) \<and> id_classification (sw_identity s) \<in> set classifications
         \<and> v = w\<lparr>hw_handoffs := (hw_handoffs w)[n := h\<lparr>ho_started := True\<rparr>],
                 w_leases := snd live @ [\<lparr>le_active = True, le_parent = Some (ho_lease h),
                   le_deadline = None, le_termination = None\<rparr>],
                 w_identity := Some (sw_identity s),
                 w_session := Some (s\<lparr>sw_thread := w_thread w, sw_task := w_task w, sw_lease := child\<rparr>)\<rparr>)"

definition leave_handoff ::
  "nat \<Rightarrow> SessionWriteContext option \<Rightarrow> RequestIdentity option \<Rightarrow> ('z world_scheme, unit) py" where
  "leave_handoff child bound identity =
     bnd (end_lease child) (\<lambda>_. modify (\<lambda>w. w\<lparr>w_session := bound, w_identity := identity\<rparr>))"

definition checked_body :: "('a \<Rightarrow> bool) \<Rightarrow> ('s, 'a) py \<Rightarrow> ('s, 'a) py" where
  "checked_body suspended body =
     bnd body (\<lambda>result.
     bnd (require (\<not> suspended result) (boundary ''session_executor_result_unqualified'')) (\<lambda>_. ret result))"

lemma handoff_scope_refused:
  fixes u :: "'z world_scheme"
  assumes "\<not> (let live = lease_is_active (w_clock u) (sw_lease s) (w_leases u);
                 live2 = lease_is_active (w_clock u) parent (snd live)
             in fst live \<and> fst live2 \<and> is_identifier (id_actor (sw_identity s))
                \<and> id_classification (sw_identity s) \<in> set classifications)"
  shows "\<exists>e v. \<forall>body :: ('z world_scheme, 'a) py. bind_session_handoff s parent body u = (Inl e, v)"
  using assms
  by (auto simp: bind_session_handoff_def bind_request_identity_def active_def bnd_def require_def ret_def
      raise_def on_leases_def new_lease_def Let_def split: prod.splits if_splits)

lemma handoff_scope_opens:
  assumes live: "live = lease_is_active (w_clock u) (sw_lease s) (w_leases u)"
    and live2: "live2 = lease_is_active (w_clock u) parent (snd live)"
    and "fst live" "fst live2" "is_identifier (id_actor (sw_identity s))"
      "id_classification (sw_identity s) \<in> set classifications"
  shows "bind_session_handoff s parent body u =
    try_finally body (leave_handoff (length (w_leases u)) (w_session u) (w_identity u))
      (u\<lparr>w_leases := snd live2 @ [\<lparr>le_active = True, le_parent = Some parent, le_deadline = None,
            le_termination = None\<rparr>],
         w_identity := Some (sw_identity s),
         w_session := Some (s\<lparr>sw_thread := w_thread u, sw_task := w_task u, sw_lease := length (w_leases u)\<rparr>)\<rparr>)"
proof -
  obtain h1 h2 where pairs: "live = (True, h1)" "live2 = (True, h2)"
    using assms(3,4) by (cases live; cases live2) auto
  then have "length h2 = length (w_leases u)"
    by (metis live live2 length_is_active snd_conv)
  then show ?thesis
    using assms pairs
    by (auto simp: bind_session_handoff_def bind_request_identity_def with_identity_def with_session_def
        active_def bnd_def require_def ret_def gets_def modify_def on_leases_def new_lease_def try_finally_def
        leave_handoff_def end_lease_def split: prod.splits sum.splits)
qed

lemma invoke_split:
  fixes w :: "'z hworld_scheme"
  shows "(\<exists>e v. \<forall>body :: ('z hworld_scheme, 'a) py. invoke n suspended body w = (Inl e, v))
   \<or> (\<exists>child v. received n w child v
        \<and> (\<forall>body :: ('z hworld_scheme, 'a) py. invoke n suspended body w =
             try_finally (checked_body suspended body) (leave_handoff child (w_session w) (w_identity w)) v))"
proof -
  let ?h = "hw_handoffs w ! n" and ?u = "w\<lparr>hw_handoffs := (hw_handoffs w)[n := (hw_handoffs w ! n)\<lparr>ho_started := True\<rparr>]\<rparr>"
  let ?l = "lease_is_active (w_clock w) (sw_lease (ho_source ?h)) (w_leases w)"
  let ?m = "lease_is_active (w_clock w) (ho_lease ?h) (snd ?l)"
  show ?thesis
  proof (cases "ho_used ?h \<and> \<not> ho_started ?h \<and> w_thread w \<noteq> sw_thread (ho_source ?h) \<and> w_task w = None")
    case False
    then have "\<forall>body :: ('z hworld_scheme, 'a) py. invoke n suspended body w = (Inl handoff_invalid, w)"
      by (auto simp: invoke_def bnd_def gets_def require_def raise_def ret_def Let_def)
    then show ?thesis by blast
  next
    case True
    then have run: "invoke n suspended body w =
        bind_session_handoff (ho_source ?h) (ho_lease ?h) (checked_body suspended body) ?u"
      for body :: "('z hworld_scheme, 'a) py"
      by (simp add: invoke_def bnd_def gets_def require_def ret_def Let_def on_handoff_def modify_def
          checked_body_def)
    show ?thesis
    proof (cases "fst ?l \<and> fst ?m \<and> is_identifier (id_actor (sw_identity (ho_source ?h)))
        \<and> id_classification (sw_identity (ho_source ?h)) \<in> set classifications")
      case False
      then obtain e v where "\<forall>body :: ('z hworld_scheme, 'a) py.
          bind_session_handoff (ho_source ?h) (ho_lease ?h) body ?u = (Inl e, v)"
        using handoff_scope_refused [of ?u "ho_source ?h" "ho_lease ?h", where 'a = 'a] by (auto simp: Let_def)
      then show ?thesis unfolding run by blast
    next
      case ok: True
      have "\<forall>body :: ('z hworld_scheme, 'a) py. invoke n suspended body w =
          try_finally (checked_body suspended body)
            (leave_handoff (length (w_leases w)) (w_session w) (w_identity w))
            (?u\<lparr>w_leases := snd ?m @ [\<lparr>le_active = True, le_parent = Some (ho_lease ?h),
                 le_deadline = None, le_termination = None\<rparr>],
               w_identity := Some (sw_identity (ho_source ?h)),
               w_session := Some ((ho_source ?h)\<lparr>sw_thread := w_thread w, sw_task := w_task w,
                 sw_lease := length (w_leases w)\<rparr>)\<rparr>)"
        using ok unfolding run
        by (subst handoff_scope_opens [where live = ?l and ?live2.0 = ?m]) simp_all
      then show ?thesis
        using True ok by (intro disjI2 exI conjI) (auto simp: received_def Let_def)
    qed
  qed
qed

text \<open>
  C37. A handoff passes the limits of a request on once, to one function, in another thread.
  In every state, \<open>execute\<close> either ends with an outcome that depends neither on the executor nor
  on the function (nothing was started), or the caller is in the scope the handoff was made in
  and names its function, its lease is active, the handoff was unused and counts as used from
  then on, and its record was added to the audit log; when the executor is done, however it ends,
  the lease of the handoff ends. In every state of the thread it runs in, the function either
  does not run, or the handoff was used and not received before, the thread is not that of the
  caller and no task runs in it, the leases of the request and of the handoff are active, and the
  function runs once with the identity, session, database and operations of the request, under
  a child lease of the handoff that ends with it; a result that is still suspended is refused.
\<close>

theorem handoff_single_use:
  fixes w u :: "'z hworld_scheme"
  shows "((\<exists>e v. \<forall>executor body. handoff_execute env executor n function (suspended :: 'a \<Rightarrow> bool) body w = (Inl e, v))
     \<or> (\<exists>v. handed_off env n function w v
          \<and> (\<forall>executor body. handoff_execute env executor n function suspended body w =
               try_finally (boundary_or (boundary ''session_executor_failed'')
                 (executor (invoke n suspended body))) (end_lease (ho_lease (hw_handoffs w ! n))) v)))
   \<and> ((\<exists>e v. \<forall>body. invoke n suspended body u = (Inl e, v))
     \<or> (\<exists>child v. received n u child v
          \<and> (\<forall>body. invoke n suspended body u =
               try_finally (checked_body suspended body) (leave_handoff child (w_session u) (w_identity u)) v)))"
  by (rule conjI [OF execute_split invoke_split])

section \<open>A used handoff stays used\<close>

interpretation execute_gate: mediated_call
  "\<lambda>(executor, body). handoff_execute env executor n function suspended body"
  "\<lambda>w x v. handed_off env n function w v \<and> x = ho_lease (hw_handoffs w ! n)"
  "\<lambda>x (executor, body). try_finally (boundary_or (boundary ''session_executor_failed'')
     (executor (invoke n suspended body))) (end_lease x)" for env n "function" suspended
proof
  show "(\<exists>e v. \<forall>b. (case b of (executor, body) \<Rightarrow> handoff_execute env executor n function suspended body) w = (Inl e, v))
    \<or> (\<exists>x v. (handed_off env n function w v \<and> x = ho_lease (hw_handoffs w ! n))
          \<and> (\<forall>b. (case b of (executor, body) \<Rightarrow> handoff_execute env executor n function suspended body) w =
               (case b of (executor, body) \<Rightarrow> try_finally (boundary_or (boundary ''session_executor_failed'')
                  (executor (invoke n suspended body))) (end_lease x)) v))" for w
    using execute_split [of env n "function" suspended w] by (simp add: split_paired_all split_paired_All)
qed

lemma used_handoff_refused:
  assumes "ho_used (hw_handoffs w ! n)"
  shows "\<exists>e v. \<forall>b. (case b of (executor, body) \<Rightarrow> handoff_execute env executor n function suspended body) w = (Inl e, v)"
  by (rule execute_gate.refused) (use assms in \<open>simp add: handed_off_def Let_def\<close>)

section \<open>The scope of the caller\<close>

text \<open>However the body of a caller scope ends, the lease of the request ends and so does the entry.\<close>

lemma caller_body_closes:
  assumes "lease_safe (bnd (lift timer) (\<lambda>_. body))" and "sw_lease s < length (w_leases w)"
  shows "wlp (caller_body k previous s timer body)
      (\<lambda>_ v. \<not> le_active (w_leases v ! sw_lease s) \<and> hw_entry v = previous)
      (\<lambda>_ v. \<not> le_active (w_leases v ! sw_lease s) \<and> hw_entry v = previous) w"
proof -
  have "wlp (bnd (lift timer) (\<lambda>_. body)) (\<lambda>_ v. sw_lease s < length (w_leases v))
      (\<lambda>_ v. sw_lease s < length (w_leases v)) w"
    using lease_safeD [OF assms(1), of w] by (rule wlp_mono) (auto dest: later_length intro: assms(2))
  then show ?thesis
    unfolding caller_body_def wp_try_finally wp_try_except
    by (rule wlp_mono) (auto simp: wp close_entry_def)
qed

end
