(* ===== verification/Maya_Preparation.thy ===== *)
theory Maya_Preparation
  imports Maya_Publication Maya_Requests
begin

text \<open>
  \<open>src/project_maya/hermes_plugins/caller_preparation.py\<close>: the caller of a created session
  acknowledges it by leaving its scope normally; otherwise the session is quarantined. The create
  operation of the staged overlay this runs on, and the body of the scope, are arbitrary
  computations.
\<close>

section \<open>State\<close>

definition CALLER_CONTRACT :: string where
  "CALLER_CONTRACT = ''project-maya.create-caller-acknowledgement.v1''"

text \<open>\<open>_CleanupBinding\<close>.\<close>

record cleanup_binding =
  cl_descriptor :: CreateSessionDescriptor
  cl_thread :: nat
  cl_task :: "nat option"

record pstore = store +
  pr_busy :: bool
  pr_phase :: string
  pr_current :: "(nat \<times> cleanup_binding) option"

text \<open>
  The preparation: its coordinator; whether, at each step, store, database, coordinator and
  preparation still belong together, the limits of the host are the captured ones and the
  middleware of the runtime validates; and the create operation of the store.
\<close>

record caller_preparation =
  cp_coordinator :: coordinator
  cp_bound :: "nat \<Rightarrow> bool"
  cp_create :: "nat \<Rightarrow> (pstore, receipt) py"

abbreviation cp_binding :: "caller_preparation \<Rightarrow> create_binding" where
  "cp_binding cp \<equiv> c_binding (cp_coordinator cp)"

section \<open>Checks\<close>

definition require_bound :: "caller_preparation \<Rightarrow> RequestIdentity \<Rightarrow> ('z tworld_scheme, unit) py" where
  "require_bound cp identity =
     bnd (gets tw_step) (\<lambda>n.
     require (cp_bound cp n \<and> identity = b_owner (cp_binding cp)) (boundary ''caller_binding_invalid''))"

definition descriptor_bound :: "create_binding \<Rightarrow> CreateSessionDescriptor \<Rightarrow> bool" where
  "descriptor_bound b d \<longleftrightarrow>
     d_instance_id d = b_instance_id b \<and> d_database d = path_str (b_database b)
     \<and> d_principal d = id_actor (b_owner b) \<and> d_classification d = id_classification (b_owner b)
     \<and> d_binding_version d = b_binding_version b \<and> d_route_slot d = b_route_slot b"

text \<open>The row of the transition, and that of the route, that the descriptor names.\<close>

definition transition_of :: "string \<Rightarrow> database \<Rightarrow> transition_row option" where
  "transition_of correlation db = find (\<lambda>t. t_correlation t = correlation) (db_transitions db)"

definition route_correlation :: "string \<Rightarrow> database \<Rightarrow> string option" where
  "route_correlation slot db = map_option r_correlation (find (\<lambda>r. r_slot r = slot) (db_routes db))"

definition receipt_row_ok ::
  "create_binding \<Rightarrow> CreateSessionDescriptor \<Rightarrow> string \<Rightarrow> int \<Rightarrow> string \<Rightarrow> transition_row option \<Rightarrow> bool" where
  "receipt_row_ok b d expected generation raw row \<longleftrightarrow>
     (case row of None \<Rightarrow> False
      | Some t \<Rightarrow>
          t_digest t = descriptor_digest b d \<and> t_principal t = d_principal d
          \<and> t_binding_version t = d_binding_version d \<and> t_operation t = ''create''
          \<and> t_target t = d_target_session d \<and> t_expected_version t = 0 \<and> t_result_version t = 1
          \<and> t_state t = expected \<and> t_generation t = generation \<and> t_hash t = b_digest b raw)"

definition other_unacknowledged :: "string \<Rightarrow> database \<Rightarrow> bool" where
  "other_unacknowledged correlation db \<longleftrightarrow>
     list_ex (\<lambda>t. t_correlation t \<noteq> correlation \<and> t_state t \<noteq> ''caller_acknowledged'') (db_transitions db)"

abbreviation receipt_invalid :: pyexc where
  "receipt_invalid \<equiv> boundary ''caller_receipt_invalid''"

text \<open>\<open>_bound\<close>.\<close>

definition check_bound ::
  "env \<Rightarrow> caller_preparation \<Rightarrow> CreateSessionDescriptor \<Rightarrow> string \<Rightarrow> ('z store_scheme, unit) py" where
  "check_bound env cp d expected =
     (let b = cp_binding cp; co = cp_coordinator cp
      in bnd (require_bound cp (b_owner b)) (\<lambda>_.
         bnd (require (descriptor_bound b d) (boundary ''caller_binding_invalid'')) (\<lambda>_.
         bnd (gets (\<lambda>w. cs_tx (cs w))) (\<lambda>t.
         bnd (if t \<noteq> None then state_in_transaction env co else store_state_check env co)
           (\<lambda>(generation, routes, raw).
         bnd (query env (transition_of (d_correlation_id d))) (\<lambda>row.
         bnd (query env (route_correlation (d_route_slot d))) (\<lambda>correlated.
         bnd (require (receipt_row_ok b d expected generation raw row
                \<and> map_of routes (d_route_slot d) = Some (d_target_session d, 1)
                \<and> correlated = Some (d_correlation_id d)) receipt_invalid) (\<lambda>_.
         bnd (read_index env) (\<lambda>bytes.
         bnd (require (bytes = raw) receipt_invalid) (\<lambda>_.
         bnd (query env (other_unacknowledged (d_correlation_id d))) (\<lambda>others.
         require (\<not> others) receipt_invalid)))))))))))"

definition caller_record :: "create_binding \<Rightarrow> CreateSessionDescriptor \<Rightarrow> string \<Rightarrow> string \<Rightarrow> AuditRecord" where
  "caller_record b d operation decision =
     \<lparr>aud_event_type = ''authorization.create_caller'', aud_decision = decision,
      aud_reason_code = ''governance.caller_'' @ operation @ ''_'' @ decision,
      aud_actor_id = d_principal d, aud_capability = ''session.transition'',
      aud_target = hash_ref b (d_route_slot d), aud_operation = operation,
      aud_classification = d_classification d,
      aud_idempotency_key = Some (hash_ref b (d_correlation_id d)),
      aud_metadata = [(''contract'', CALLER_CONTRACT), (''qualification'', ''source_candidate_only'')]\<rparr>"

definition caller_audit ::
  "create_binding \<Rightarrow> CreateSessionDescriptor \<Rightarrow> string \<Rightarrow> string \<Rightarrow> ('z tworld_scheme, unit) py" where
  "caller_audit b d operation decision =
     exception_as (boundary ''caller_audit_unavailable'')
       (sink_write (b_sink b) (caller_record b d operation decision))"

section \<open>Acknowledgement and quarantine\<close>

abbreviation waiting_caller :: string where "waiting_caller \<equiv> ''published_pending_caller''"

text \<open>The conditional update of the one row; the number of rows it changed.\<close>

definition settle_row ::
  "create_binding \<Rightarrow> CreateSessionDescriptor \<Rightarrow> string \<Rightarrow> database \<Rightarrow> nat \<times> database" where
  "settle_row b d new_state db =
     (let hit = (\<lambda>t. t_correlation t = d_correlation_id d \<and> t_digest t = descriptor_digest b d
                      \<and> t_state t = waiting_caller)
      in (length (filter hit (db_transitions db)),
          db\<lparr>db_transitions :=
            map (\<lambda>t. if hit t then t\<lparr>t_state := new_state\<rparr> else t) (db_transitions db)\<rparr>))"

definition ack_action :: "create_binding \<Rightarrow> CreateSessionDescriptor \<Rightarrow> ActionRequest" where
  "ack_action b d =
     \<lparr>req_actor_id = d_principal d, req_capability = ''session.transition'',
      req_target = d_route_slot d, req_operation = ''acknowledge_create'',
      req_classification = d_classification d, req_idempotency_key = Some (d_correlation_id d),
      req_metadata = [(''contract'', CALLER_CONTRACT), (''descriptor_digest'', descriptor_digest b d)]\<rparr>"

definition ack_allowed :: "AuthorizationResult option \<Rightarrow> bool" where
  "ack_allowed result = (case result of None \<Rightarrow> False | Some r \<Rightarrow> accepts r)"

text \<open>The transaction both share; \<open>live\<close> is the last check of the acknowledgement.\<close>

definition settle ::
  "env \<Rightarrow> caller_preparation \<Rightarrow> CreateSessionDescriptor \<Rightarrow> ('z store_scheme, unit) py \<Rightarrow> string \<Rightarrow> pyexc
     \<Rightarrow> ('z store_scheme, unit) py" where
  "settle env cp d live new_state other =
     bnd (begin_tx env) (\<lambda>_.
     or_rollback env
       (bnd (check_bound env cp d waiting_caller) (\<lambda>_.
        bnd live (\<lambda>_.
        bnd (execute_count env (settle_row (cp_binding cp) d new_state)) (\<lambda>changed.
        bnd (require (changed = 1) other) (\<lambda>_.
        commit_tx env))))))"

definition acknowledge_bound ::
  "env \<Rightarrow> caller_preparation \<Rightarrow> nat \<Rightarrow> CreateSessionDescriptor \<Rightarrow> ('z store_scheme, unit) py" where
  "acknowledge_bound env cp a d =
     (let b = cp_binding cp; owner = b_owner b
      in bnd (check_bound env cp d waiting_caller) (\<lambda>_.
         bnd (exception_as (boundary ''caller_policy_unavailable'') (lift (b_gateway b (ack_action b d)))) (\<lambda>result.
         bnd (auth_check b a owner d) (\<lambda>_.
         bnd (caller_audit b d ''acknowledge_create'' (if ack_allowed result then ''allow'' else ''deny'')) (\<lambda>_.
         bnd (require (ack_allowed result) (boundary ''caller_ack_denied'')) (\<lambda>_.
         settle env cp d (auth_check b a owner d) ''caller_acknowledged'' receipt_invalid))))))"

definition acknowledge :: "env \<Rightarrow> caller_preparation \<Rightarrow> nat \<Rightarrow> ('z pstore_scheme, unit) py" where
  "acknowledge env cp a =
     bnd (gets (\<lambda>w. pr_phase w = ''acknowledging'' \<and> map_option fst (pr_current w) = Some a)) (\<lambda>mine.
     bnd (require mine (boundary ''caller_scope_invalid'')) (\<lambda>_.
     bnd (gets (\<lambda>w. ca_descriptor (tw_auths w a))) (\<lambda>d.
     exclusive env (cp_coordinator cp)
       (publication_guard (cp_binding cp) a (b_owner (cp_binding cp)) d (acknowledge_bound env cp a d)))))"

definition quarantine :: "env \<Rightarrow> caller_preparation \<Rightarrow> cleanup_binding \<Rightarrow> ('z pstore_scheme, unit) py" where
  "quarantine env cp cleanup =
     bnd (gets (\<lambda>w. pr_phase w = ''failed'' \<and> map_option snd (pr_current w) = Some cleanup
                     \<and> cl_thread cleanup = w_thread w \<and> cl_task cleanup = w_task w)) (\<lambda>mine.
     bnd (require mine (boundary ''caller_cleanup_invalid'')) (\<lambda>_.
     let d = cl_descriptor cleanup
     in bnd (try_except (caller_audit (cp_binding cp) d ''quarantine_create'' ''deny'')
               (\<lambda>e. if is_boundary e then ret () else raise e)) (\<lambda>_.
        exclusive env (cp_coordinator cp)
          (bnd (check_bound env cp d waiting_caller) (\<lambda>_.
           settle env cp d (ret ()) ''caller_quarantined'' (boundary ''caller_cleanup_invalid''))))))"

section \<open>The scope\<close>

definition set_phase :: "string \<Rightarrow> ('z pstore_scheme, unit) py" where
  "set_phase phase = modify (\<lambda>w. w\<lparr>pr_phase := phase\<rparr>)"

text \<open>The inner \<open>try\<close>: the body, then the acknowledgement; any exception quarantines.\<close>

definition prepared_body ::
  "env \<Rightarrow> caller_preparation \<Rightarrow> nat \<Rightarrow> cleanup_binding \<Rightarrow> ('z pstore_scheme, 'a) py \<Rightarrow> ('z pstore_scheme, 'a) py" where
  "prepared_body env cp a cleanup body =
     try_except
       (bnd body (\<lambda>x.
        bnd (set_phase ''acknowledging'') (\<lambda>_.
        bnd (acknowledge env cp a) (\<lambda>_.
        ret x))))
       (\<lambda>e. bnd (set_phase ''failed'') (\<lambda>_.
            bnd (try_except (quarantine env cp cleanup) (\<lambda>_. ret ())) (\<lambda>_.
            raise e)))"

definition prepare_caller ::
  "env \<Rightarrow> caller_preparation \<Rightarrow> RequestIdentity \<Rightarrow> (receipt \<Rightarrow> (pstore, 'a) py) \<Rightarrow> (pstore, 'a) py" where
  "prepare_caller env cp identity body =
     bnd (require_bound cp identity) (\<lambda>_.
     bnd (gets (\<lambda>w. w_session w = None \<and> \<not> pr_busy w)) (\<lambda>free.
     bnd (require free (boundary ''caller_scope_busy'')) (\<lambda>_.
     bnd (modify (\<lambda>w. w\<lparr>pr_busy := True\<rparr>)) (\<lambda>_.
     try_finally
       (authenticated_create env (cp_binding cp) identity (\<lambda>a.
        bnd (cp_create cp a) (\<lambda>r.
        bnd (require (rc_state r = waiting_caller \<and> \<not> rc_dispatch_allowed r) receipt_invalid) (\<lambda>_.
        bnd (gets id) (\<lambda>w.
        let cleanup = \<lparr>cl_descriptor = ca_descriptor (tw_auths w a), cl_thread = w_thread w,
                       cl_task = w_task w\<rparr>
        in bnd (modify (\<lambda>w. w\<lparr>pr_current := Some (a, cleanup), pr_phase := ''preparing''\<rparr>)) (\<lambda>_.
           prepared_body env cp a cleanup (body r)))))))
       (modify (\<lambda>w. w\<lparr>pr_current := None, pr_phase := ''idle'', pr_busy := False\<rparr>))))))"

text \<open>\<open>CandidateCallerPreparation.__init__\<close>: a staged coordinator whose store has no preparation.\<close>

definition preparation_init ::
  "string \<Rightarrow> string option \<Rightarrow> bool \<Rightarrow> ('z pstore_scheme, unit) py" where
  "preparation_init acknowledgement caller_contract taken =
     bnd (require (acknowledgement = ACKNOWLEDGEMENT \<and> caller_contract = Some CALLER_CONTRACT \<and> \<not> taken)
       (boundary ''caller_overlay_required'')) (\<lambda>_.
     modify (\<lambda>w. w\<lparr>pr_busy := False, pr_phase := ''idle'', pr_current := None\<rparr>))"

section \<open>One row changes its state\<close>

text \<open>What a passed check says of the tables.\<close>

definition waiting_row :: "create_binding \<Rightarrow> CreateSessionDescriptor \<Rightarrow> database \<Rightarrow> bool" where
  "waiting_row b d db \<longleftrightarrow>
     descriptor_bound b d \<and> route_correlation (b_route_slot b) db = Some (d_correlation_id d)
     \<and> (\<exists>t. transition_of (d_correlation_id d) db = Some t \<and> t_state t = waiting_caller
           \<and> t_digest t = descriptor_digest b d)
     \<and> \<not> other_unacknowledged (d_correlation_id d) db"

text \<open>
  From the tables \<open>db\<close> the one waiting transition that the bound route names was moved to a new
  state, and nothing else was changed.
\<close>

definition settled :: "create_binding \<Rightarrow> string \<Rightarrow> database \<Rightarrow> database \<Rightarrow> bool" where
  "settled b new_state db db' \<longleftrightarrow>
     (\<exists>d. waiting_row b d db \<and> settle_row b d new_state db = (1, db'))"

lemma route_correlation_settle [simp]:
  "route_correlation slot (snd (settle_row b d st db)) = route_correlation slot db"
  by (simp add: settle_row_def route_correlation_def Let_def)

lemma find_correlation:
  "(\<And>x. t_correlation (f x) = t_correlation x) \<Longrightarrow>
   find (\<lambda>x. t_correlation x = c) (map f xs) = map_option f (find (\<lambda>x. t_correlation x = c) xs)"
  by (induction xs) auto

lemma transition_of_settle:
  assumes "transition_of (d_correlation_id d) db = Some t"
    and "t_digest t = descriptor_digest b d" and "t_state t = waiting_caller"
  shows "transition_of (d_correlation_id d) (snd (settle_row b d st db)) = Some (t\<lparr>t_state := st\<rparr>)"
proof -
  have "t_correlation t = d_correlation_id d"
    using assms(1) by (auto simp: transition_of_def find_Some_iff)
  then show ?thesis
    using assms by (simp add: transition_of_def settle_row_def Let_def find_correlation)
qed

text \<open>What was settled cannot be settled again.\<close>

lemma settled_once:
  assumes "settled b st db db'" and "st \<noteq> waiting_caller"
  shows "\<not> waiting_row b d' db'"
proof
  assume second: "waiting_row b d' db'"
  obtain d where first: "waiting_row b d db" "db' = snd (settle_row b d st db)"
    using assms(1) by (auto simp: settled_def)
  obtain t where row: "transition_of (d_correlation_id d) db = Some t" "t_state t = waiting_caller"
    "t_digest t = descriptor_digest b d"
    using first(1) by (auto simp: waiting_row_def)
  have "d_correlation_id d' = d_correlation_id d"
    using first second by (simp add: waiting_row_def)
  then show False
    using transition_of_settle [OF row(1,3,2), of st] second first(2) assms(2) by (auto simp: waiting_row_def)
qed

section \<open>Runs seen from the store\<close>

lemma rn_accept: "(\<And>t. cs t = s \<Longrightarrow> wlp m (\<lambda>a v. Q a (cs v)) (\<lambda>e v. E e (cs v)) t) \<Longrightarrow> rn m Q E s"
  by (simp add: rn_def)

lemma rn_sink [rn_intro]: "Q () s \<Longrightarrow> (\<And>e. E e s) \<Longrightarrow> rn (exception_as other (sink_write sink r)) Q E s"
  unfolding exception_as_def
  by (intro rn_try_except rn_sink_write rn_if rn_raise)

lemma rn_require_bound [rn_intro]: "Q () s \<Longrightarrow> (\<And>e. E e s) \<Longrightarrow> rn (require_bound cp i) Q E s"
  unfolding require_bound_def by (intro rn_bnd rn_gets rn_require)

lemma rn_check_bound:
  assumes env: "foreign_errors env (cp_coordinator cp)"
    and ok: "waiting_row (cp_binding cp) d (current s) \<Longrightarrow> Q () s" and fail: "\<And>e. E e s"
  shows "rn (check_bound env cp d waiting_caller) Q E s"
proof -
  have state: "rn (if t \<noteq> None then state_in_transaction env (cp_coordinator cp)
      else store_state_check env (cp_coordinator cp)) (\<lambda>_ u. u = s) E s" for t :: "database option"
    by (intro rn_if rn_state [OF env] rn_state_check [OF env] fail) simp_all
  show ?thesis
    unfolding check_bound_def Let_def
    apply (intro rn_bnd rn_require_bound rn_require rn_gets fail)
    apply (rule rn_mono [OF state])
     apply (clarsimp simp: split_beta)
     apply (intro rn_bnd rn_query [OF env] rn_require rn_read_index [OF env] fail)
     apply (auto intro!: ok simp: waiting_row_def receipt_row_ok_def descriptor_bound_def fail
        split: option.splits)
    done
qed

lemma rn_settle:
  assumes env: "foreign_errors env (cp_coordinator cp)"
    and live: "\<And>t. rn live (\<lambda>_ u. u = t) (\<lambda>_ u. u = t) t"
    and ok: "\<And>t. settled (cp_binding cp) st (cs_db s) (cs_db t) \<Longrightarrow> Q () t"
    and fail: "\<And>e t. cs_db t = cs_db s \<Longrightarrow> E e t"
    and late: "\<And>e t. settled (cp_binding cp) st (cs_db s) (cs_db t) \<Longrightarrow> E e t"
  shows "rn (settle env cp d live st other) Q E s"
proof -
  let ?s = "s\<lparr>cs_tx := Some (cs_db s)\<rparr>"
  let ?E = "\<lambda>(e :: pyexc) t. cs_db t = cs_db s \<or> settled (cp_binding cp) st (cs_db s) (cs_db t)"
  let ?row = "settle_row (cp_binding cp) d st (cs_db s)"
  have commit: "rn (require (fst ?row = Suc 0) other)
      (\<lambda>_. rn (commit_tx env) (\<lambda>_ t. settled (cp_binding cp) st (cs_db s) (cs_db t)) ?E) ?E
      (s\<lparr>cs_tx := Some (snd ?row)\<rparr>)"
    if row: "waiting_row (cp_binding cp) d (cs_db s)"
  proof -
    have "settled (cp_binding cp) st (cs_db s) (snd ?row)" if "fst ?row = Suc 0"
      using that row by (auto simp: settled_def prod_eq_iff intro!: exI [of _ d])
    then show ?thesis
      by (intro rn_require rn_commit [OF env]) (auto simp: make_durable_def current_def)
  qed
  have inner: "rn (bnd (check_bound env cp d waiting_caller) (\<lambda>_. bnd live (\<lambda>_.
      bnd (execute_count env (settle_row (cp_binding cp) d st)) (\<lambda>changed.
      bnd (require (changed = 1) other) (\<lambda>_. commit_tx env)))))
      (\<lambda>_ t. settled (cp_binding cp) st (cs_db s) (cs_db t)) ?E ?s"
    by (intro rn_bnd rn_check_bound [OF env] rn_mono [OF live] rn_execute_count [OF env])
      (auto simp: current_def intro!: commit)
  show ?thesis
    unfolding settle_def
    by (intro rn_bnd rn_begin [OF env] rn_or_rollback [OF env] rn_mono [OF inner])
      (auto intro: ok fail late)
qed

abbreviation settled_or_same :: "create_binding \<Rightarrow> string \<Rightarrow> cstate \<Rightarrow> cstate \<Rightarrow> bool" where
  "settled_or_same b st s t \<equiv> cs_db t = cs_db s \<or> settled b st (cs_db s) (cs_db t)"

lemma rn_auth_check_same: "rn (auth_check b a i d) (\<lambda>_ u. u = t) (\<lambda>_ u. u = t) t"
  by (intro rn_auth_check) simp_all

lemma rn_acknowledge:
  assumes env: "foreign_errors env (cp_coordinator cp)"
  shows "rn (acknowledge env cp a)
      (\<lambda>_ t. settled (cp_binding cp) ''caller_acknowledged'' (cs_db s) (cs_db t))
      (\<lambda>_ t. settled_or_same (cp_binding cp) ''caller_acknowledged'' s t) s"
proof -
  have "rn (acknowledge_bound env cp a d)
      (\<lambda>_ t. settled (cp_binding cp) ''caller_acknowledged'' (cs_db s) (cs_db t))
      (\<lambda>_ t. settled_or_same (cp_binding cp) ''caller_acknowledged'' s t) s" for d
    unfolding acknowledge_bound_def Let_def caller_audit_def exception_as_def [of "boundary ''caller_policy_unavailable''"]
    by (intro rn_bnd rn_check_bound [OF env] rn_try_except rn_lift rn_if rn_raise rn_auth_check rn_sink
        rn_require rn_settle [OF env rn_auth_check_same]) auto
  then show ?thesis
    unfolding acknowledge_def
    by (intro rn_bnd rn_gets rn_require rn_exclusive [OF env] rn_publication_guard) auto
qed

lemma rn_quarantine:
  assumes env: "foreign_errors env (cp_coordinator cp)"
  shows "rn (quarantine env cp cleanup)
      (\<lambda>_ t. settled (cp_binding cp) ''caller_quarantined'' (cs_db s) (cs_db t))
      (\<lambda>_ t. settled_or_same (cp_binding cp) ''caller_quarantined'' s t) s"
proof -
  have body: "rn (bnd (check_bound env cp d waiting_caller) (\<lambda>_.
        settle env cp d (ret ()) ''caller_quarantined'' (boundary ''caller_cleanup_invalid'')))
      (\<lambda>_ t. settled (cp_binding cp) ''caller_quarantined'' (cs_db s) (cs_db t))
      (\<lambda>_ t. settled_or_same (cp_binding cp) ''caller_quarantined'' s t) s" for d
    by (intro rn_bnd rn_check_bound [OF env] rn_settle [OF env] rn_ret) auto
  show ?thesis
    unfolding quarantine_def Let_def caller_audit_def
    by (intro rn_bnd rn_gets rn_require rn_try_except rn_sink rn_if rn_ret rn_raise
        rn_exclusive [OF env body]) auto
qed

text \<open>Quarantine cannot follow an acknowledgement.\<close>

lemma settled_chain:
  assumes "settled_or_same b ''caller_acknowledged'' s t" and "settled_or_same b ''caller_quarantined'' t u"
  shows "cs_db u = cs_db s \<or> settled b ''caller_acknowledged'' (cs_db s) (cs_db u)
         \<or> settled b ''caller_quarantined'' (cs_db s) (cs_db u)"
  using assms by (auto simp: settled_def [of _ "''caller_quarantined''"] dest: settled_once)

lemma rn_set_phase [rn_intro]: "Q () s \<Longrightarrow> rn (set_phase phase) Q E s"
  by (simp add: rn_def set_phase_def wp)

lemma rn_prepared_body:
  assumes env: "foreign_errors env (cp_coordinator cp)"
    and body: "rn body (\<lambda>_ t. t = s) (\<lambda>_ t. t = s) s"
  shows "rn (prepared_body env cp a cleanup body)
      (\<lambda>_ t. settled (cp_binding cp) ''caller_acknowledged'' (cs_db s) (cs_db t))
      (\<lambda>_ t. cs_db t = cs_db s \<or> settled (cp_binding cp) ''caller_acknowledged'' (cs_db s) (cs_db t)
         \<or> settled (cp_binding cp) ''caller_quarantined'' (cs_db s) (cs_db t)) s"
proof -
  let ?Q = "\<lambda>(_ :: 'b) t. settled (cp_binding cp) ''caller_acknowledged'' (cs_db s) (cs_db t)"
  let ?E = "\<lambda>(_ :: pyexc) t. cs_db t = cs_db s \<or> settled (cp_binding cp) ''caller_acknowledged'' (cs_db s) (cs_db t)
         \<or> settled (cp_binding cp) ''caller_quarantined'' (cs_db s) (cs_db t)"
  have cleanup: "rn (bnd (set_phase ''failed'') (\<lambda>_.
        bnd (try_except (quarantine env cp cleanup) (\<lambda>_. ret ())) (\<lambda>_. raise e))) ?Q ?E t"
    if "settled_or_same (cp_binding cp) ''caller_acknowledged'' s t" for e t
    by (intro rn_bnd rn_set_phase rn_try_except rn_mono [OF rn_quarantine [OF env]] rn_ret rn_raise)
      (use settled_chain [OF that] in blast)+
  have finish: "rn (bnd (set_phase ''acknowledging'') (\<lambda>_. bnd (acknowledge env cp a) (\<lambda>_. ret x))) ?Q
      (\<lambda>e. rn (bnd (set_phase ''failed'') (\<lambda>_.
        bnd (try_except (quarantine env cp cleanup) (\<lambda>_. ret ())) (\<lambda>_. raise e))) ?Q ?E) s" for x
    by (intro rn_bnd [of "set_phase ''acknowledging''"] rn_set_phase rn_bnd [of "acknowledge env cp a"]
        rn_mono [OF rn_acknowledge [OF env]] rn_ret cleanup)
  have "rn body (\<lambda>x. rn (bnd (set_phase ''acknowledging'') (\<lambda>_. bnd (acknowledge env cp a) (\<lambda>_. ret x))) ?Q
      (\<lambda>e. rn (bnd (set_phase ''failed'') (\<lambda>_.
        bnd (try_except (quarantine env cp cleanup) (\<lambda>_. ret ())) (\<lambda>_. raise e))) ?Q ?E))
      (\<lambda>e. rn (bnd (set_phase ''failed'') (\<lambda>_.
        bnd (try_except (quarantine env cp cleanup) (\<lambda>_. ret ())) (\<lambda>_. raise e))) ?Q ?E) s"
    by (rule rn_mono [OF body]) (use finish cleanup [of s] in simp_all)
  then show ?thesis
    unfolding prepared_body_def by (intro rn_try_except rn_bnd)
qed

lemma rn_modify_prep [rn_intro]:
  "Q () s \<Longrightarrow> rn (modify (\<lambda>w. w\<lparr>pr_busy := x\<rparr>)) Q E s"
  "Q () s \<Longrightarrow> rn (modify (\<lambda>w. w\<lparr>pr_current := c, pr_phase := p\<rparr>)) Q E s"
  "Q () s \<Longrightarrow> rn (modify (\<lambda>w. w\<lparr>pr_current := c, pr_phase := p, pr_busy := x\<rparr>)) Q E s"
  by (simp_all add: rn_def wp)

lemma rn_new_authority [rn_intro]: "(\<And>a. Q a s) \<Longrightarrow> rn (new_authority b d) Q E s"
  by (simp add: rn_def wlp_def new_authority_def)

lemma rn_authenticated_create:
  fixes body :: "nat \<Rightarrow> ('z store_scheme, 'a) py"
  assumes "\<And>a. rn (body a) Q E s" and "\<And>e. E e s"
  shows "rn (authenticated_create env b identity body) Q E s"
proof -
  have unlock: "rn (modify (\<lambda>w. w\<lparr>tw_locked := x\<rparr>)) R F t" if "R () t" for R F t x
    using that by (simp add: rn_def wp)
  have revoke: "rn (auth_revoke a) R F t" if "R () t" for R F t a
    using that unfolding auth_revoke_def by (intro rn_with_auth_lock rn_on_auth)
  show ?thesis
    unfolding authenticated_create_def
    by (intro rn_bnd rn_require rn_gets unlock rn_try_finally rn_new_authority assms(2)
        rn_growing [OF growing_authorize] rn_mono [OF assms(1)] revoke)
qed

text \<open>What a run of the create operation does, as it is.\<close>

lemma rn_itself:
  fixes m :: "('z store_scheme, 'a) py"
  shows "rn m (\<lambda>a u. \<exists>w t. cs w = s \<and> m w = (Inr a, t) \<and> cs t = u)
      (\<lambda>e u. \<exists>w t. cs w = s \<and> m w = (Inl e, t) \<and> cs t = u) s"
  by (auto simp: rn_def intro!: wlpI)

text \<open>
  How a preparation ends: with its receipt acknowledged; or with an exception, and then the tables
  are as before, or as the create operation left them, or its receipt is quarantined or (when the
  commit of the acknowledgement was durable and failed all the same) acknowledged.
\<close>

definition prepared :: "caller_preparation \<Rightarrow> cstate \<Rightarrow> cstate \<Rightarrow> bool" where
  "prepared cp s t \<longleftrightarrow>
     (\<exists>a u r v. cs u = s \<and> cp_create cp a u = (Inr r, v) \<and> rc_state r = waiting_caller \<and> \<not> rc_dispatch_allowed r
        \<and> settled (cp_binding cp) ''caller_acknowledged'' (cs_db (cs v)) (cs_db t))"

definition unprepared :: "caller_preparation \<Rightarrow> cstate \<Rightarrow> cstate \<Rightarrow> bool" where
  "unprepared cp s t \<longleftrightarrow>
     cs_db t = cs_db s
     \<or> (\<exists>a u e v. cs u = s \<and> cp_create cp a u = (Inl e, v) \<and> cs_db t = cs_db (cs v))
     \<or> (\<exists>a u r v. cs u = s \<and> cp_create cp a u = (Inr r, v)
          \<and> (cs_db t = cs_db (cs v)
             \<or> settled (cp_binding cp) ''caller_acknowledged'' (cs_db (cs v)) (cs_db t)
             \<or> settled (cp_binding cp) ''caller_quarantined'' (cs_db (cs v)) (cs_db t)))"

lemma unpreparedI:
  "cs w = s \<Longrightarrow> cp_create cp a w = (Inr r, v) \<Longrightarrow>
   cs_db t = cs_db (cs v) \<or> settled (cp_binding cp) ''caller_acknowledged'' (cs_db (cs v)) (cs_db t)
     \<or> settled (cp_binding cp) ''caller_quarantined'' (cs_db (cs v)) (cs_db t) \<Longrightarrow>
   unprepared cp s t"
  "cs w = s \<Longrightarrow> cp_create cp a w = (Inl e, v) \<Longrightarrow> cs_db t = cs_db (cs v) \<Longrightarrow> unprepared cp s t"
  unfolding unprepared_def by blast+

lemma rn_prepare_caller:
  assumes env: "foreign_errors env (cp_coordinator cp)"
    and body: "\<And>r w. cs (snd (body r w)) = cs w"
  shows "rn (prepare_caller env cp identity body) (\<lambda>_ t. prepared cp s t) (\<lambda>_ t. unprepared cp s t) s"
proof -
  let ?Q = "\<lambda>(_ :: 'a) t. prepared cp s t" and ?E = "\<lambda>(_ :: pyexc) t. unprepared cp s t"
  have same: "rn (body r) (\<lambda>_ t. t = u) (\<lambda>_ t. t = u) u" for r u
    using body by (auto simp: rn_def intro!: wlpI) (metis snd_conv)+
  have scope: "rn (bnd (require (rc_state r = waiting_caller \<and> \<not> rc_dispatch_allowed r) receipt_invalid) (\<lambda>_.
        bnd (gets id) (\<lambda>w.
        let cleanup = \<lparr>cl_descriptor = ca_descriptor (tw_auths w a), cl_thread = w_thread w, cl_task = w_task w\<rparr>
        in bnd (modify (\<lambda>w. w\<lparr>pr_current := Some (a, cleanup), pr_phase := ''preparing''\<rparr>)) (\<lambda>_.
           prepared_body env cp a cleanup (body r))))) ?Q ?E u"
    if "cs w = s" "cp_create cp a w = (Inr r, v)" "cs v = u" for a r u w v
    unfolding Let_def
    by (intro rn_bnd rn_require rn_gets rn_modify_prep rn_mono [OF rn_prepared_body [OF env same]])
      (use that in \<open>auto simp: prepared_def intro: unpreparedI(1) [OF refl]\<close>)
  have inner: "rn (bnd (cp_create cp a) (\<lambda>r.
      bnd (require (rc_state r = waiting_caller \<and> \<not> rc_dispatch_allowed r) receipt_invalid) (\<lambda>_.
        bnd (gets id) (\<lambda>w.
        let cleanup = \<lparr>cl_descriptor = ca_descriptor (tw_auths w a), cl_thread = w_thread w, cl_task = w_task w\<rparr>
        in bnd (modify (\<lambda>w. w\<lparr>pr_current := Some (a, cleanup), pr_phase := ''preparing''\<rparr>)) (\<lambda>_.
           prepared_body env cp a cleanup (body r)))))) ?Q ?E s" for a
  proof (rule rn_bnd, rule rn_mono [OF rn_itself [of "cp_create cp a"]], goal_cases)
    case (1 r t)
    then obtain u v where "cs u = s" "cp_create cp a u = (Inr r, v)" "cs v = t" by blast
    then show ?case by (rule scope)
  next
    case (2 e t)
    then show ?case by (auto intro: unpreparedI(2))
  qed
  have start: "unprepared cp s s" by (simp add: unprepared_def)
  have all: "rn (authenticated_create env (cp_binding cp) identity (\<lambda>a.
      bnd (cp_create cp a) (\<lambda>r.
      bnd (require (rc_state r = waiting_caller \<and> \<not> rc_dispatch_allowed r) receipt_invalid) (\<lambda>_.
        bnd (gets id) (\<lambda>w.
        let cleanup = \<lparr>cl_descriptor = ca_descriptor (tw_auths w a), cl_thread = w_thread w, cl_task = w_task w\<rparr>
        in bnd (modify (\<lambda>w. w\<lparr>pr_current := Some (a, cleanup), pr_phase := ''preparing''\<rparr>)) (\<lambda>_.
           prepared_body env cp a cleanup (body r))))))) (\<lambda>a. rn (modify (\<lambda>w. w\<lparr>pr_current := None, pr_phase := ''idle'', pr_busy := False\<rparr>)) (\<lambda>_. ?Q a) ?E)
      (\<lambda>e. rn (modify (\<lambda>w. w\<lparr>pr_current := None, pr_phase := ''idle'', pr_busy := False\<rparr>)) (\<lambda>_. ?E e) ?E) s"
    by (rule rn_mono [OF rn_authenticated_create [OF inner start]]) (rule rn_modify_prep(3), assumption)+
  show ?thesis
    unfolding prepare_caller_def
    by (intro rn_bnd rn_require_bound rn_gets rn_require rn_modify_prep(1) rn_try_finally all start)
qed

text \<open>
  C6. A caller either acknowledges the created session or blocks it. When a preparation returns,
  the create operation returned a receipt that waits for its caller and allows no dispatch, and
  against the tables it left exactly the one waiting transition that the bound route names is now
  acknowledged, no other transition being open. When it raises, whatever was raised and
  whichever step failed, the tables are those from before, or those the create operation left, or
  that one transition is quarantined or, after a commit that was durable and failed all the same,
  acknowledged; never both, and nothing else changed. The body receives no access to the store.
\<close>

theorem caller_settles_receipt:
  assumes "foreign_errors env (cp_coordinator cp)"
    and "\<And>r w. cs (snd (body r w)) = cs w"
    and "prepare_caller env cp identity body w = (result, v)"
  shows "case result of Inr _ \<Rightarrow> prepared cp (cs w) (cs v) | Inl _ \<Rightarrow> unprepared cp (cs w) (cs v)"
  using rn_prepare_caller [where body = body, OF assms(1,2), where identity = identity and s = "cs w"] assms(3)
  by (cases result) (auto simp: rn_def wlp_def)

section \<open>The claim at a concrete input\<close>

definition demo_receipt :: receipt where
  "demo_receipt = \<lparr>rc_session_id = ''s-1'', rc_correlation_id = ''c-1'', rc_state = waiting_caller,
     rc_qualification = ''source_candidate_only'', rc_dispatch_allowed = False\<rparr>"

definition demo_preparation :: caller_preparation where
  "demo_preparation =
     \<lparr>cp_coordinator = demo_coordinator, cp_bound = (\<lambda>_. True), cp_create = (\<lambda>_. ret demo_receipt)\<rparr>"

definition demo_pstore :: pstore where
  "demo_pstore = store.extend demo_store (pstore.fields False ''idle'' None)"

theorem caller_settles_receipt_witness:
  "\<exists>result v. prepare_caller demo_env demo_preparation demo_identity (\<lambda>r. ret r) demo_pstore = (result, v)
     \<and> (case result of Inr _ \<Rightarrow> prepared demo_preparation (cs demo_pstore) (cs v)
        | Inl _ \<Rightarrow> unprepared demo_preparation (cs demo_pstore) (cs v))"
proof -
  obtain result v where run:
    "prepare_caller demo_env demo_preparation demo_identity (\<lambda>r. ret r) demo_pstore = (result, v)"
    by (cases "prepare_caller demo_env demo_preparation demo_identity (\<lambda>r. ret r) demo_pstore")
  have "case result of Inr _ \<Rightarrow> prepared demo_preparation (cs demo_pstore) (cs v)
      | Inl _ \<Rightarrow> unprepared demo_preparation (cs demo_pstore) (cs v)"
    by (rule caller_settles_receipt [OF _ _ run]) (simp_all add: demo_preparation_def demo_foreign_errors ret_def)
  then show ?thesis using run by blast
qed

end
