(* ===== verification/Maya_Paths.thy ===== *)
theory Maya_Paths
  imports Maya_Config_Types
begin

text \<open>
  The parts of a \<open>pathlib\<close> path the program asks for: name, parent, suffix, stem and the path below
  a directory.
\<close>

text \<open>\<open>Path(p).name\<close>.\<close>

definition path_name :: "path \<Rightarrow> string" where
  "path_name p = (if path_parts p = [] then [] else last (path_parts p))"

text \<open>\<open>p.parent\<close>.\<close>

definition path_parent :: "path \<Rightarrow> path" where
  "path_parent p = Path (path_root p) (butlast (path_parts p))"

text \<open>\<open>path.suffix\<close>: from the last dot of the name, when it is neither the first nor the last character.\<close>

definition path_suffix :: "path \<Rightarrow> string" where
  "path_suffix p =
     (let name = path_name p; after = takeWhile (\<lambda>c. c \<noteq> CHR ''.'') (rev name)
      in if CHR ''.'' \<in> set name \<and> after \<noteq> [] \<and> Suc (length after) < length name
         then CHR ''.'' # rev after else [])"

definition relative_to :: "path \<Rightarrow> path \<Rightarrow> path" where
  "relative_to p base = Path [] (drop (length (path_parts base)) (path_parts p))"

text \<open>\<open>p.stem\<close>: the name without the suffix.\<close>

definition path_stem :: "path \<Rightarrow> string" where
  "path_stem p = take (length (path_name p) - length (path_suffix p)) (path_name p)"

text \<open>An error of the operating system.\<close>

definition os_error :: "string \<Rightarrow> pyexc" where
  "os_error m = Exc PyOSError m"

text \<open>Files by path, for the parts of the program that work on several.\<close>

datatype fnode = FileNode string | FolderNode

type_synonym files = "path \<Rightarrow> fnode option"

definition is_file :: "files \<Rightarrow> path \<Rightarrow> bool" where
  "is_file fs p \<longleftrightarrow> (case fs p of Some (FileNode s) \<Rightarrow> True | _ \<Rightarrow> False)"

definition file_text :: "files \<Rightarrow> path \<Rightarrow> string res" where
  "file_text fs p = (case fs p of Some (FileNode s) \<Rightarrow> Inr s | _ \<Rightarrow> Inl (os_error ''no such file''))"

end
