(* ===== verification/Maya_Migration.thy ===== *)
theory Maya_Migration
  imports Maya_Json Maya_Paths "HOL-Library.Word"
begin

text \<open>
  The migration of legacy \<open>memory_kv\<close> rows (\<open>src/project_maya/migration.py\<close>): the tables and the
  statements SQLite executes on them, the connection with its transaction, the files, and
  \<open>migrate\<close> itself. Every call into SQLite or the operating system may fail at any step; a
  statement that fails has no effect, a file copy or a report that fails leaves a torn file.
\<close>

section \<open>Tables\<close>

text \<open>A value of a column; SQLite types values, not columns.\<close>

datatype sql_value = SqlNull | SqlInt int | SqlReal pyfloat | SqlText string | SqlBlob "8 word list"

record embedding_row =
  em_chunk_id :: sql_value
  em_embedding_path :: sql_value
  em_source_path :: sql_value
  em_source_hash :: sql_value
  em_model :: sql_value
  em_extractor_version :: sql_value
  em_embedding_timestamp :: sql_value
  em_updated_at :: sql_value

record entry_row =
  en_id :: int
  en_embedding_id :: sql_value
  en_chunk_id :: sql_value
  en_vector :: sql_value
  en_vector_dim :: sql_value
  en_created_at :: sql_value
  en_source_path :: sql_value
  en_score_meta :: sql_value
  en_normalized_vector :: sql_value
  en_normalized_vector_dim :: sql_value
  en_normalized_vector_algo :: sql_value
  en_normalized_at :: sql_value
  en_normalized_version :: sql_value

record memory_row =
  mr_key :: sql_value
  mr_value :: sql_value
  mr_migrated_from :: sql_value

text \<open>The tables the migration names, each \<open>None\<close> when the file has no such table.\<close>

record memory_db =
  sd_kv :: "(sql_value \<times> sql_value) list option"
  sd_entries :: "entry_row list option"
  sd_embeddings :: "embedding_row list option"
  sd_memory :: "memory_row list option"

definition new_db :: memory_db where
  "new_db = \<lparr>sd_kv = None, sd_entries = None, sd_embeddings = None, sd_memory = None\<rparr>"

section \<open>Environment\<close>

text \<open>
  What the migration finds outside its own code: failures and clocks by step, path resolution,
  the codecs and the hash, the JSON reader and the texts of floats, SQLite's text of a real and its
  choice of a row id when the largest one is taken, the sizes of files and the result of
  \<open>PRAGMA quick_check\<close>.
\<close>

record mig_env =
  ev_fault :: "nat \<Rightarrow> pyexc option"
  ev_now :: "nat \<Rightarrow> string"
  ev_clock :: "nat \<Rightarrow> rat"
  ev_resolve :: "string \<Rightarrow> path"
  ev_sha256 :: "8 word list \<Rightarrow> string"
  ev_utf8 :: "string \<Rightarrow> 8 word list"
  ev_utf8_decode :: "8 word list \<Rightarrow> string"
  ev_repr :: "pyval \<Rightarrow> string"
  ev_bytes_repr :: "8 word list \<Rightarrow> string"
  ev_loads :: "string \<Rightarrow> pyval res"
  ev_loads_bytes :: "8 word list \<Rightarrow> pyval res"
  ev_float_text :: "pyfloat \<Rightarrow> string"
  ev_sql_real :: "pyfloat \<Rightarrow> string"
  ev_rowid :: "int list \<Rightarrow> int"
  ev_size :: "nat \<Rightarrow> path \<Rightarrow> nat"
  ev_quick_check :: "nat \<Rightarrow> string option"

record mig_summary =
  su_source_rows :: nat
  su_migrated :: nat
  su_skipped_keys :: "string list"
  su_samples :: "pyval list"
  su_validation_errors :: "string list"
  su_to_path :: string
  su_target_schema :: string
  su_dry_run :: bool
  su_overwrite :: bool
  su_duration :: rat
  su_report_path :: "string option"
  su_backup_path :: "string option"

text \<open>What is at a path: nothing, a directory, a database file, a report, or another file.\<close>

datatype node = NoNode | DirNode | DbNode memory_db | ReportNode mig_summary | TornNode

text \<open>
  The world: the files, the number of calls made so far, and the tables as they were when the open
  transaction of the connection began.
\<close>

record mig_world =
  mg_fs :: "path \<Rightarrow> node"
  mg_step :: nat
  mg_saved :: "memory_db option"

type_synonym 'a mig = "(mig_world, 'a) py"

definition set_node :: "path \<Rightarrow> node \<Rightarrow> unit mig" where
  "set_node p n = modify (\<lambda>w. w\<lparr>mg_fs := (mg_fs w)(p := n)\<rparr>)"

text \<open>One call into SQLite or the operating system: it gets the number of the step, or fails.\<close>

definition call_out :: "mig_env \<Rightarrow> nat mig" where
  "call_out env =
     bnd (gets mg_step) (\<lambda>n.
     bnd (modify (\<lambda>w. w\<lparr>mg_step := Suc n\<rparr>)) (\<lambda>_.
     case ev_fault env n of None \<Rightarrow> ret n | Some e \<Rightarrow> raise e))"

section \<open>Connections and statements\<close>

definition sql_error :: "string \<Rightarrow> pyexc" where
  "sql_error m = Exc SqliteError m"

text \<open>\<open>sqlite3.connect(p)\<close> makes an empty database of a missing file.\<close>

definition connect_db :: "mig_env \<Rightarrow> path \<Rightarrow> unit mig" where
  "connect_db env p =
     bnd (call_out env) (\<lambda>_.
     bnd (gets (\<lambda>w. mg_fs w p)) (\<lambda>n.
     case n of
       NoNode \<Rightarrow> set_node p (DbNode new_db)
     | DirNode \<Rightarrow> raise (sql_error ''unable to open database file'')
     | _ \<Rightarrow> ret ()))"

text \<open>Closing a connection rolls an open transaction back.\<close>

definition close_db :: "path \<Rightarrow> unit mig" where
  "close_db p = modify (\<lambda>w. case mg_saved w of
       None \<Rightarrow> w
     | Some d \<Rightarrow> w\<lparr>mg_fs := (mg_fs w)(p := DbNode d), mg_saved := None\<rparr>)"

definition with_db :: "mig_env \<Rightarrow> path \<Rightarrow> 'a mig \<Rightarrow> 'a mig" where
  "with_db env p body = bnd (connect_db env p) (\<lambda>_. try_finally body (close_db p))"

text \<open>\<open>conn.execute\<close>: a statement is a function on the tables; an error leaves them as they are.\<close>

definition run_sql :: "mig_env \<Rightarrow> path \<Rightarrow> (memory_db \<Rightarrow> ('a \<times> memory_db) res) \<Rightarrow> 'a mig" where
  "run_sql env p f =
     bnd (call_out env) (\<lambda>_.
     bnd (gets (\<lambda>w. mg_fs w p)) (\<lambda>n.
     case n of
       DbNode d \<Rightarrow> (case f d of
           Inl e \<Rightarrow> raise e
         | Inr (a, d') \<Rightarrow> bnd (set_node p (DbNode d')) (\<lambda>_. ret a))
     | _ \<Rightarrow> raise (sql_error ''file is not a database'')))"

definition begin_rows :: "mig_env \<Rightarrow> path \<Rightarrow> unit mig" where
  "begin_rows env p =
     bnd (run_sql env p (\<lambda>d. Inr (d, d))) (\<lambda>d. modify (\<lambda>w. w\<lparr>mg_saved := Some d\<rparr>))"

definition commit_changes :: "mig_env \<Rightarrow> unit mig" where
  "commit_changes env = bnd (call_out env) (\<lambda>_. modify (\<lambda>w. w\<lparr>mg_saved := None\<rparr>))"

definition roll_back :: "mig_env \<Rightarrow> path \<Rightarrow> unit mig" where
  "roll_back env p = bnd (call_out env) (\<lambda>_. close_db p)"

definition no_table :: "string \<Rightarrow> pyexc" where
  "no_table name = sql_error (''no such table: '' @ name)"

text \<open>\<open>INSERT\<close>, \<open>INSERT OR REPLACE\<close> and \<open>INSERT OR IGNORE\<close> into a table with one unique column.\<close>

datatype conflict = Abort | Replace | Ignore

definition insert_into :: "conflict \<Rightarrow> ('r \<Rightarrow> sql_value) \<Rightarrow> 'r \<Rightarrow> 'r list \<Rightarrow> 'r list res" where
  "insert_into mode key row rows =
     (let hit = (\<lambda>r. key r = key row \<and> key row \<noteq> SqlNull)
      in if list_ex hit rows then
           (case mode of
              Abort \<Rightarrow> Inl (sql_error ''UNIQUE constraint failed'')
            | Replace \<Rightarrow> Inr (filter (\<lambda>r. \<not> hit r) rows @ [row])
            | Ignore \<Rightarrow> Inr rows)
         else Inr (rows @ [row]))"

definition next_rowid :: "mig_env \<Rightarrow> int list \<Rightarrow> int" where
  "next_rowid env ids =
     (case ids of
        [] \<Rightarrow> 1
      | i # js \<Rightarrow> (let m = fold max js i in if m < 2 ^ 63 - 1 then m + 1 else ev_rowid env ids))"

definition sql_insert_entry :: "mig_env \<Rightarrow> conflict \<Rightarrow> entry_row \<Rightarrow> memory_db \<Rightarrow> (unit \<times> memory_db) res" where
  "sql_insert_entry env mode row d =
     (case sd_entries d of
        None \<Rightarrow> Inl (no_table ''entries'')
      | Some rows \<Rightarrow>
          bindR (insert_into mode en_embedding_id (row\<lparr>en_id := next_rowid env (map en_id rows)\<rparr>) rows)
            (\<lambda>rows'. Inr ((), d\<lparr>sd_entries := Some rows'\<rparr>)))"

definition sql_insert_embedding :: "conflict \<Rightarrow> embedding_row \<Rightarrow> memory_db \<Rightarrow> (unit \<times> memory_db) res" where
  "sql_insert_embedding mode row d =
     (case sd_embeddings d of
        None \<Rightarrow> Inl (no_table ''embeddings'')
      | Some rows \<Rightarrow>
          bindR (insert_into mode em_chunk_id row rows)
            (\<lambda>rows'. Inr ((), d\<lparr>sd_embeddings := Some rows'\<rparr>)))"

text \<open>A column declared \<open>TEXT\<close> stores numbers as their texts.\<close>

fun text_affinity :: "mig_env \<Rightarrow> sql_value \<Rightarrow> sql_value" where
  "text_affinity env (SqlInt i) = SqlText (show_int i)"
| "text_affinity env (SqlReal x) = SqlText (ev_sql_real env x)"
| "text_affinity env v = v"

definition sql_insert_memory :: "mig_env \<Rightarrow> conflict \<Rightarrow> memory_row \<Rightarrow> memory_db \<Rightarrow> (unit \<times> memory_db) res" where
  "sql_insert_memory env mode row d =
     (case sd_memory d of
        None \<Rightarrow> Inl (no_table ''memory_entries'')
      | Some rows \<Rightarrow>
          bindR (insert_into mode mr_key (row\<lparr>mr_value := text_affinity env (mr_value row)\<rparr>) rows)
            (\<lambda>rows'. Inr ((), d\<lparr>sd_memory := Some rows'\<rparr>)))"

definition sql_entry :: "string \<Rightarrow> memory_db \<Rightarrow> (entry_row option \<times> memory_db) res" where
  "sql_entry key d =
     (case sd_entries d of
        None \<Rightarrow> Inl (no_table ''entries'')
      | Some rows \<Rightarrow> Inr (List.find (\<lambda>r. en_embedding_id r = SqlText key) rows, d))"

definition sql_memory :: "string \<Rightarrow> memory_db \<Rightarrow> (memory_row option \<times> memory_db) res" where
  "sql_memory key d =
     (case sd_memory d of
        None \<Rightarrow> Inl (no_table ''memory_entries'')
      | Some rows \<Rightarrow> Inr (List.find (\<lambda>r. mr_key r = SqlText key) rows, d))"

definition create_table :: "'r list option \<Rightarrow> 'r list option" where
  "create_table t = (case t of None \<Rightarrow> Some [] | Some rows \<Rightarrow> Some rows)"

definition ensure_registry_schema :: "mig_env \<Rightarrow> path \<Rightarrow> unit mig" where
  "ensure_registry_schema env p =
     bnd (run_sql env p (\<lambda>d. Inr ((), d\<lparr>sd_embeddings := create_table (sd_embeddings d)\<rparr>))) (\<lambda>_.
     run_sql env p (\<lambda>d. Inr ((), d\<lparr>sd_entries := create_table (sd_entries d)\<rparr>)))"

definition ensure_memory_entries_schema :: "mig_env \<Rightarrow> path \<Rightarrow> unit mig" where
  "ensure_memory_entries_schema env p =
     run_sql env p (\<lambda>d. Inr ((), d\<lparr>sd_memory := create_table (sd_memory d)\<rparr>))"

section \<open>Legacy values\<close>

fun sql_py :: "sql_value \<Rightarrow> pyval" where
  "sql_py SqlNull = VNone"
| "sql_py (SqlInt i) = VInt i"
| "sql_py (SqlReal x) = VFloat x"
| "sql_py (SqlText s) = VStr s"
| "sql_py (SqlBlob bs) = VObj 0"

fun sql_str :: "mig_env \<Rightarrow> sql_value \<Rightarrow> string" where
  "sql_str env (SqlBlob bs) = ev_bytes_repr env bs"
| "sql_str env v = py_str (ev_repr env) (sql_py v)"

fun decode_legacy :: "mig_env \<Rightarrow> sql_value \<Rightarrow> pyval \<times> string" where
  "decode_legacy env (SqlBlob bs) = (VStr (ev_utf8_decode env bs), ev_sha256 env bs)"
| "decode_legacy env SqlNull = (VNone, ev_sha256 env [])"
| "decode_legacy env v = (sql_py v, ev_sha256 env (ev_utf8 env (sql_str env v)))"

text \<open>\<open>json.loads(v)\<close> of a value that is not \<open>bytes\<close>.\<close>

definition loads_value :: "mig_env \<Rightarrow> pyval \<Rightarrow> pyval res" where
  "loads_value env v =
     (case v of VStr s \<Rightarrow> ev_loads env s | _ \<Rightarrow> Inl (Exc PyTypeError ''the JSON object must be str, bytes or bytearray''))"

text \<open>\<open>except (TypeError, ValueError, json.JSONDecodeError)\<close>.\<close>

definition unreadable :: "pyexc \<Rightarrow> bool" where
  "unreadable e \<longleftrightarrow> exc_class_of e = PyTypeError \<or> exc_class_of e = PyValueError"

fun numeric_item :: "pyval \<Rightarrow> bool" where
  "numeric_item (VInt i) = True"
| "numeric_item (VFloat (Finite q)) = True"
| "numeric_item v = False"

definition numeric_vector :: "mig_env \<Rightarrow> pyval \<Rightarrow> pyval list option res" where
  "numeric_vector env v =
     (case loads_value env v of
        Inl e \<Rightarrow> if unreadable e then Inr None else Inl e
      | Inr (VList xs) \<Rightarrow> Inr (if list_all numeric_item xs then Some xs else None)
      | Inr _ \<Rightarrow> Inr None)"

text \<open>\<open>json.dumps(v, ensure_ascii=False)\<close>: the keys in their order, the default separators.\<close>

definition plain_char :: "char \<Rightarrow> string" where
  "plain_char c = (if 127 \<le> (of_char c :: nat) then [c] else json_char c)"

definition plain_str :: "string \<Rightarrow> string" where
  "plain_str s = CHR 0x22 # concat (map plain_char s) @ [CHR 0x22]"

fun plain_dumps :: "(pyfloat \<Rightarrow> string) \<Rightarrow> pyval \<Rightarrow> string res"
  and plain_items :: "(pyfloat \<Rightarrow> string) \<Rightarrow> pyval list \<Rightarrow> string list res"
  and plain_members :: "(pyfloat \<Rightarrow> string) \<Rightarrow> pydict \<Rightarrow> string list res"
  where
  "plain_dumps fl VNone = Inr ''null''"
| "plain_dumps fl (VBool b) = Inr (if b then ''true'' else ''false'')"
| "plain_dumps fl (VInt i) = Inr (show_int i)"
| "plain_dumps fl (VFloat x) = Inr (fl x)"
| "plain_dumps fl (VStr s) = Inr (plain_str s)"
| "plain_dumps fl (VList xs) = bindR (plain_items fl xs) (\<lambda>ts. Inr (''['' @ join_with '', '' ts @ '']''))"
| "plain_dumps fl (VTuple xs) = bindR (plain_items fl xs) (\<lambda>ts. Inr (''['' @ join_with '', '' ts @ '']''))"
| "plain_dumps fl (VDict d) = bindR (plain_members fl d) (\<lambda>ms. Inr (''{'' @ join_with '', '' ms @ ''}''))"
| "plain_dumps fl (VObj n) = Inl (Exc PyTypeError ''Object is not JSON serializable'')"
| "plain_items fl [] = Inr []"
| "plain_items fl (x # xs) = bindR (plain_dumps fl x) (\<lambda>t. bindR (plain_items fl xs) (\<lambda>ts. Inr (t # ts)))"
| "plain_members fl [] = Inr []"
| "plain_members fl ((k, v) # d) =
     (case k of
        VStr key \<Rightarrow>
          bindR (plain_dumps fl v) (\<lambda>t.
          bindR (plain_members fl d) (\<lambda>ms. Inr ((plain_str key @ '': '' @ t) # ms)))
      | _ \<Rightarrow> Inl (Exc PyTypeError ''keys must be str''))"

section \<open>Rows\<close>

definition object :: "(string \<times> pyval) list \<Rightarrow> pyval" where
  "object entries = VDict (map (\<lambda>(k, v). (VStr k, v)) entries)"

text \<open>The columns \<open>_insert_registry_row\<close> computes before its statements, and the dimension.\<close>

definition legacy_row ::
  "mig_env \<Rightarrow> string \<Rightarrow> sql_value \<Rightarrow> string \<Rightarrow> string \<Rightarrow> (entry_row \<times> embedding_row option) res" where
  "legacy_row env key v migrated_from created_at =
     (case decode_legacy env v of
        (decoded, original_hash) \<Rightarrow>
          bindR (numeric_vector env decoded) (\<lambda>vector.
          let provenance = [(''migrated_from'', VStr migrated_from), (''original_sha256'', VStr original_hash),
                (''migration'', VStr ''project_maya.migration:v1'')];
              entry = (\<lambda>chunk_id vector_json vector_dim meta.
                \<lparr>en_id = 0, en_embedding_id = SqlText key, en_chunk_id = chunk_id, en_vector = vector_json,
                 en_vector_dim = vector_dim, en_created_at = SqlText created_at,
                 en_source_path = SqlText ''legacy_kv'', en_score_meta = SqlText meta,
                 en_normalized_vector = SqlNull, en_normalized_vector_dim = SqlNull,
                 en_normalized_vector_algo = SqlNull, en_normalized_at = SqlNull,
                 en_normalized_version = SqlNull\<rparr>)
          in case vector of
               Some xs \<Rightarrow>
                 bindR (json_dumps (ev_float_text env) '','' '':'' (VList xs)) (\<lambda>vector_json.
                 bindR (plain_dumps (ev_float_text env) (object provenance)) (\<lambda>meta.
                 Inr (entry (SqlText key) (SqlText vector_json) (SqlInt (int (length xs))) meta,
                      Some \<lparr>em_chunk_id = SqlText key, em_embedding_path = SqlNull,
                        em_source_path = SqlText ''legacy_kv'', em_source_hash = SqlText original_hash,
                        em_model = SqlNull, em_extractor_version = SqlText ''legacy-migration'',
                        em_embedding_timestamp = SqlText created_at, em_updated_at = SqlText created_at\<rparr>)))
             | None \<Rightarrow>
                 bindR (case loads_value env decoded of
                     Inl e \<Rightarrow> if unreadable e then Inr decoded else Inl e
                   | Inr parsed \<Rightarrow> Inr parsed) (\<lambda>legacy.
                 bindR (plain_dumps (ev_float_text env)
                   (object (provenance @ [(''legacy_value'', legacy)]))) (\<lambda>meta.
                 Inr (entry SqlNull SqlNull SqlNull meta, None)))))"

definition skipped_conflict :: "string \<Rightarrow> pyval" where
  "skipped_conflict key = object [(''key'', VStr key), (''status'', VStr ''skipped_conflict'')]"

definition written_status :: "bool \<Rightarrow> pyval" where
  "written_status existing = VStr (if existing then ''overwritten'' else ''migrated'')"

definition insert_registry_row ::
  "mig_env \<Rightarrow> path \<Rightarrow> string \<Rightarrow> sql_value \<Rightarrow> string \<Rightarrow> bool \<Rightarrow> (bool \<times> pyval) mig" where
  "insert_registry_row env p key v migrated_from overwrite =
     bnd (run_sql env p (sql_entry key)) (\<lambda>existing.
     if existing \<noteq> None \<and> \<not> overwrite then ret (False, skipped_conflict key)
     else
       bnd (gets mg_step) (\<lambda>n.
       bnd (lift (legacy_row env key v migrated_from (ev_now env n))) (\<lambda>(entry, embedding).
       bnd (run_sql env p (sql_insert_entry env (if overwrite then Replace else Abort) entry)) (\<lambda>_.
       bnd (case embedding of
           None \<Rightarrow> ret ()
         | Some row \<Rightarrow> run_sql env p (sql_insert_embedding (if overwrite then Replace else Ignore) row)) (\<lambda>_.
       ret (True, object [(''key'', VStr key), (''status'', written_status (existing \<noteq> None)),
              (''vector_dim'', sql_py (en_vector_dim entry))]))))))"

definition insert_memory_entry ::
  "mig_env \<Rightarrow> path \<Rightarrow> string \<Rightarrow> sql_value \<Rightarrow> string \<Rightarrow> bool \<Rightarrow> (bool \<times> pyval) mig" where
  "insert_memory_entry env p key v migrated_from overwrite =
     bnd (run_sql env p (sql_memory key)) (\<lambda>existing.
     if existing \<noteq> None \<and> \<not> overwrite then ret (False, skipped_conflict key)
     else
       bnd (run_sql env p (sql_insert_memory env (if overwrite then Replace else Abort)
         \<lparr>mr_key = SqlText key, mr_value = v, mr_migrated_from = SqlText migrated_from\<rparr>)) (\<lambda>_.
       ret (True, object [(''key'', VStr key), (''status'', written_status (existing \<noteq> None))])))"

section \<open>Validation\<close>

text \<open>\<open>name in value\<close> for a parsed document.\<close>

fun has_text :: "string \<Rightarrow> string \<Rightarrow> bool" where
  "has_text sub [] = (sub = [])"
| "has_text sub (c # s) = (starts_with (c # s) sub \<or> has_text sub s)"

fun contains_key :: "string \<Rightarrow> pyval \<Rightarrow> bool res" where
  "contains_key k (VDict d) = Inr (VStr k \<in> fst ` set d)"
| "contains_key k (VList xs) = Inr (VStr k \<in> set xs)"
| "contains_key k (VTuple xs) = Inr (VStr k \<in> set xs)"
| "contains_key k (VStr s) = Inr (has_text k s)"
| "contains_key k v = Inl (Exc PyTypeError ''argument is not iterable'')"

definition loads_column :: "mig_env \<Rightarrow> sql_value \<Rightarrow> pyval res" where
  "loads_column env v = (case v of SqlBlob bs \<Rightarrow> ev_loads_bytes env bs | _ \<Rightarrow> loads_value env (sql_py v))"

text \<open>The checks on one row: the sample when the row was read that far, and the errors.\<close>

definition check_row :: "mig_env \<Rightarrow> string \<Rightarrow> entry_row \<Rightarrow> (pyval list \<times> string list) res" where
  "check_row env key row =
     (case loads_column env (en_score_meta row) of
        Inl e \<Rightarrow> if unreadable e then Inr ([], [''invalid score_meta JSON: '' @ key]) else Inl e
      | Inr meta \<Rightarrow>
          bindR (contains_key ''migrated_from'' meta) (\<lambda>has_source.
          bindR (if has_source then contains_key ''original_sha256'' meta else Inr False) (\<lambda>has_provenance.
          bindR (if en_vector row = SqlNull then Inr []
                 else (case loads_column env (en_vector row) of
                     Inl e \<Rightarrow> if unreadable e then Inr [''invalid vector JSON: '' @ key] else Inl e
                   | Inr (VList xs) \<Rightarrow>
                       Inr (if en_vector_dim row = SqlInt (int (length xs))
                              \<or> en_vector_dim row = SqlReal (Finite (of_nat (length xs)))
                            then [] else [''vector_dim mismatch: '' @ key])
                   | Inr _ \<Rightarrow> Inr [''vector_dim mismatch: '' @ key])) (\<lambda>vector_errors.
          Inr ([object [(''key'', VStr key), (''vector_dim'', sql_py (en_vector_dim row))]],
               (if has_provenance then [] else [''missing provenance: '' @ key]) @ vector_errors)))))"

fun validate_keys :: "mig_env \<Rightarrow> path \<Rightarrow> string list \<Rightarrow> (pyval list \<times> string list) mig" where
  "validate_keys env p [] = ret ([], [])"
| "validate_keys env p (key # keys) =
     bnd (run_sql env p (sql_entry key)) (\<lambda>row.
     bnd (case row of
         None \<Rightarrow> ret ([], [''missing migrated entry: '' @ key])
       | Some r \<Rightarrow> lift (check_row env key r)) (\<lambda>(samples, errors).
     bnd (validate_keys env p keys) (\<lambda>(samples', errors').
     ret (samples @ samples', errors @ errors'))))"

definition validate_registry :: "mig_env \<Rightarrow> path \<Rightarrow> string list \<Rightarrow> (pyval list \<times> string list) mig" where
  "validate_registry env p migrated_keys = validate_keys env p (take 5 migrated_keys)"

section \<open>Files\<close>

definition path_prefixes :: "path \<Rightarrow> path list" where
  "path_prefixes p = map (\<lambda>n. Path (path_root p) (take n (path_parts p))) [0..<Suc (length (path_parts p))]"

text \<open>\<open>p.mkdir(parents=True, exist_ok=True)\<close>.\<close>

definition make_dirs :: "mig_env \<Rightarrow> path \<Rightarrow> unit mig" where
  "make_dirs env p =
     bnd (call_out env) (\<lambda>_.
     bnd (gets mg_fs) (\<lambda>fs.
     bnd (require (list_all (\<lambda>q. fs q = NoNode \<or> fs q = DirNode) (path_prefixes p))
       (os_error ''File exists'')) (\<lambda>_.
     modify (\<lambda>w. w\<lparr>mg_fs := (\<lambda>q. if q \<in> set (path_prefixes p) then DirNode else fs q)\<rparr>))))"

text \<open>\<open>shutil.copy2(source, backup)\<close>: into the directory when \<open>backup\<close> is one.\<close>

definition copy_target :: "(path \<Rightarrow> node) \<Rightarrow> path \<Rightarrow> path \<Rightarrow> path" where
  "copy_target fs source backup =
     (if fs backup = DirNode then Path (path_root backup) (path_parts backup @ [last (path_parts source)])
      else backup)"

definition copy_file :: "mig_env \<Rightarrow> path \<Rightarrow> path \<Rightarrow> unit mig" where
  "copy_file env source backup =
     bnd (gets mg_fs) (\<lambda>fs.
     let target = copy_target fs source backup
     in bnd (require (target \<noteq> source) (os_error ''are the same file'')) (\<lambda>_.
        bnd (require (fs source \<noteq> DirNode) (os_error ''Is a directory'')) (\<lambda>_.
        bnd (require (fs target \<noteq> DirNode) (os_error ''Is a directory'')) (\<lambda>_.
        bnd (set_node target TornNode) (\<lambda>_.
        bnd (call_out env) (\<lambda>_.
        set_node target (fs source)))))))"

definition backup_database :: "mig_env \<Rightarrow> path \<Rightarrow> path \<Rightarrow> unit mig" where
  "backup_database env source backup =
     bnd (make_dirs env (path_parent backup)) (\<lambda>_.
     bnd (copy_file env source backup) (\<lambda>_.
     bnd (call_out env) (\<lambda>n.
     bnd (require (ev_size env n source = ev_size env n backup)
       (Exc OtherException ''database backup size verification failed'')) (\<lambda>_.
     bnd (with_db env backup (bnd (run_sql env backup (\<lambda>d. Inr ((), d))) (\<lambda>_.
       bnd (gets mg_step) (\<lambda>n. ret (ev_quick_check env n))))) (\<lambda>result.
     require (result = Some ''ok'')
       (Exc OtherException ''database backup integrity verification failed''))))))"

definition tmp_path :: "path \<Rightarrow> path" where
  "tmp_path p = Path (path_root p) (butlast (path_parts p) @ [last (path_parts p) @ ''.tmp''])"

definition write_report :: "mig_env \<Rightarrow> path \<Rightarrow> mig_summary \<Rightarrow> unit mig" where
  "write_report env p report =
     bnd (make_dirs env (path_parent p)) (\<lambda>_.
     bnd (require (path_parts p \<noteq> []) (Exc PyValueError ''has an empty name'')) (\<lambda>_.
     bnd (gets (\<lambda>w. mg_fs w (tmp_path p))) (\<lambda>n.
     bnd (require (n \<noteq> DirNode) (os_error ''Is a directory'')) (\<lambda>_.
     bnd (set_node (tmp_path p) TornNode) (\<lambda>_.
     bnd (call_out env) (\<lambda>_.
     bnd (set_node (tmp_path p) (ReportNode report)) (\<lambda>_.
     bnd (call_out env) (\<lambda>_.
     bnd (gets (\<lambda>w. mg_fs w p)) (\<lambda>old.
     bnd (require (old \<noteq> DirNode) (os_error ''Is a directory'')) (\<lambda>_.
     bnd (set_node p (ReportNode report)) (\<lambda>_.
     set_node (tmp_path p) NoNode)))))))))))"

section \<open>The migration\<close>

record mig_args =
  ma_from :: string
  ma_to :: string
  ma_dry_run :: bool
  ma_target_schema :: string
  ma_allow_modify :: bool
  ma_overwrite :: bool
  ma_backup_path :: "string option"
  ma_report_path :: "string option"

definition TARGET_SCHEMAS :: "string list" where
  "TARGET_SCHEMAS = [''registry'', ''memory_entries'']"

abbreviation registry :: "mig_args \<Rightarrow> bool" where
  "registry a \<equiv> ma_target_schema a = ''registry''"

definition insert_row ::
  "mig_env \<Rightarrow> mig_args \<Rightarrow> path \<Rightarrow> string \<Rightarrow> string \<Rightarrow> sql_value \<Rightarrow> (bool \<times> pyval) mig" where
  "insert_row env a p src key v =
     (if registry a then insert_registry_row env p key v src (ma_overwrite a)
      else insert_memory_entry env p key v src (ma_overwrite a))"

text \<open>The loop over the rows, with the migrated keys and the summary so far.\<close>

fun migrate_rows :: "mig_env \<Rightarrow> mig_args \<Rightarrow> path \<Rightarrow> string \<Rightarrow> (sql_value \<times> sql_value) list
    \<Rightarrow> string list \<Rightarrow> mig_summary \<Rightarrow> (string list \<times> mig_summary) mig" where
  "migrate_rows env a p src [] keys su = ret (keys, su)"
| "migrate_rows env a p src ((k, v) # rows) keys su =
     (let key = sql_str env k
      in bnd (insert_row env a p src key v) (\<lambda>(inserted, sample).
         if inserted then
           migrate_rows env a p src rows (keys @ [key])
             (su\<lparr>su_migrated := Suc (su_migrated su),
                su_samples := (if length (su_samples su) < 5 then su_samples su @ [sample]
                               else su_samples su)\<rparr>)
         else migrate_rows env a p src rows keys
                (su\<lparr>su_skipped_keys := su_skipped_keys su @ [key]\<rparr>)))"

definition read_legacy :: "mig_env \<Rightarrow> path \<Rightarrow> (sql_value \<times> sql_value) list mig" where
  "read_legacy env p =
     with_db env p
       (bnd (run_sql env p (\<lambda>d. Inr (sd_kv d \<noteq> None, d))) (\<lambda>table.
        bnd (require table (Exc OtherException ''legacy table 'memory_kv' not found in source DB'')) (\<lambda>_.
        run_sql env p (\<lambda>d. case sd_kv d of
            None \<Rightarrow> Inl (no_table ''memory_kv'')
          | Some rows \<Rightarrow> Inr (rows, d)))))"

text \<open>The part of \<open>migrate\<close> under the \<open>BEGIN\<close>.\<close>

definition migrate_tx :: "mig_env \<Rightarrow> mig_args \<Rightarrow> path \<Rightarrow> string \<Rightarrow> (sql_value \<times> sql_value) list
    \<Rightarrow> mig_summary \<Rightarrow> mig_summary mig" where
  "migrate_tx env a p src rows su =
     try_except
       (bnd (begin_rows env p) (\<lambda>_.
        bnd (migrate_rows env a p src rows [] su) (\<lambda>(keys, su).
        bnd (if registry a then
               bnd (validate_registry env p keys) (\<lambda>(samples, errors).
               bnd (require (errors = []) (Exc OtherException ''migration validation failed'')) (\<lambda>_.
               ret (su\<lparr>su_samples := samples, su_validation_errors := errors\<rparr>)))
             else ret su) (\<lambda>su.
        bnd (commit_changes env) (\<lambda>_.
        ret su)))))
       (\<lambda>e. if is_exception e then bnd (roll_back env p) (\<lambda>_. raise e) else raise e)"

definition migrate_db :: "mig_env \<Rightarrow> mig_args \<Rightarrow> path \<Rightarrow> string \<Rightarrow> (sql_value \<times> sql_value) list
    \<Rightarrow> mig_summary \<Rightarrow> mig_summary mig" where
  "migrate_db env a p src rows su =
     with_db env p
       (bnd (if registry a then ensure_registry_schema env p else ensure_memory_entries_schema env p) (\<lambda>_.
        migrate_tx env a p src rows su))"

text \<open>\<open>round(x, 6)\<close>, half to even.\<close>

definition round6 :: "rat \<Rightarrow> rat" where
  "round6 x =
     (let y = x * 1000000; f = \<lfloor>y\<rfloor>; r = y - of_int f
      in of_int (if r < 1 / 2 \<or> (r = 1 / 2 \<and> even f) then f else f + 1) / 1000000)"

definition migration_elapsed :: "mig_env \<Rightarrow> rat \<Rightarrow> rat mig" where
  "migration_elapsed env started = bnd (gets mg_step) (\<lambda>n. ret (round6 (ev_clock env n - started)))"

definition report_file :: "mig_env \<Rightarrow> mig_args \<Rightarrow> path" where
  "report_file env a =
     ev_resolve env (case ma_report_path a of
         Some r \<Rightarrow> if r = [] then path_str (ev_resolve env (ma_to a)) @ ''.migration.report.json'' else r
       | None \<Rightarrow> path_str (ev_resolve env (ma_to a)) @ ''.migration.report.json'')"

text \<open>The backup path when one is given and not empty.\<close>

definition backup_file :: "mig_args \<Rightarrow> string option" where
  "backup_file a = (case ma_backup_path a of Some b \<Rightarrow> if b = [] then None else Some b | None \<Rightarrow> None)"

definition finish_migration :: "mig_env \<Rightarrow> mig_args \<Rightarrow> rat \<Rightarrow> bool \<Rightarrow> mig_summary \<Rightarrow> mig_summary mig" where
  "finish_migration env a started existed su =
     bnd (migration_elapsed env started) (\<lambda>t.
     let su = su\<lparr>su_duration := t, su_report_path := Some (path_str (report_file env a)),
           su_backup_path := (if existed then map_option (\<lambda>b. path_str (ev_resolve env b)) (backup_file a)
                              else None)\<rparr>
     in bnd (write_report env (report_file env a) su) (\<lambda>_. ret su))"

text \<open>The part of \<open>migrate\<close> that writes.\<close>

definition apply_migration :: "mig_env \<Rightarrow> mig_args \<Rightarrow> rat \<Rightarrow> (sql_value \<times> sql_value) list
    \<Rightarrow> mig_summary \<Rightarrow> mig_summary mig" where
  "apply_migration env a started rows su =
     (let p = ev_resolve env (ma_to a)
      in bnd (gets (\<lambda>w. mg_fs w p \<noteq> NoNode)) (\<lambda>existed.
         bnd (if existed then
                (case backup_file a of
                   None \<Rightarrow> raise (os_error ''an existing destination requires backup_path'')
                 | Some b \<Rightarrow> backup_database env p (ev_resolve env b))
              else ret ()) (\<lambda>_.
         bnd (make_dirs env (path_parent p)) (\<lambda>_.
         bnd (migrate_db env a p (path_str (ev_resolve env (ma_from a))) rows su) (\<lambda>su.
         finish_migration env a started existed su)))))"

definition migrate :: "mig_env \<Rightarrow> mig_args \<Rightarrow> mig_summary mig" where
  "migrate env a =
     bnd (gets (\<lambda>w. ev_clock env (mg_step w))) (\<lambda>started.
     bnd (require (ma_target_schema a \<in> set TARGET_SCHEMAS)
       (Exc PyValueError (''unsupported target_schema: '' @ ma_target_schema a))) (\<lambda>_.
     bnd (require (ma_dry_run a \<or> ma_allow_modify a)
       (os_error ''apply requires allow_modify=True'')) (\<lambda>_.
     let p = ev_resolve env (ma_to a); source = ev_resolve env (ma_from a)
     in bnd (gets (\<lambda>w. mg_fs w source)) (\<lambda>node.
        bnd (require (node \<noteq> NoNode \<and> node \<noteq> DirNode) (os_error ''legacy source DB not found'')) (\<lambda>_.
        bnd (read_legacy env source) (\<lambda>rows.
        let su = \<lparr>su_source_rows = length rows, su_migrated = 0, su_skipped_keys = [], su_samples = [],
              su_validation_errors = [], su_to_path = path_str p, su_target_schema = ma_target_schema a,
              su_dry_run = ma_dry_run a, su_overwrite = ma_overwrite a, su_duration = 0,
              su_report_path = None, su_backup_path = None\<rparr>
        in if ma_dry_run a then
             bnd (migration_elapsed env started) (\<lambda>t. ret (su\<lparr>su_duration := t\<rparr>))
           else apply_migration env a started rows su))))))"

end
