(* ===== verification/Maya_Migrated.thy ===== *)
theory Maya_Migrated
  imports Maya_Migration
begin

text \<open>
  What a migration leaves behind: it is all or nothing, an existing destination is written only
  after it was copied, a dry run writes nothing, and a second run finds nothing to do. The relation
  \<open>grown\<close> says what merging rows makes of a table; the rules follow a run outside in, from one
  statement to the whole of \<open>migrate\<close>.
\<close>

section \<open>What a migration makes of a table\<close>

text \<open>
  A table after rows for the keys \<open>ks\<close> were merged into it: the old rows in their order, less the
  overwritten ones, then new rows, at most one per key, of which \<open>made\<close> holds. Without overwriting
  no new row has the key of an old one.
\<close>

definition grown :: "bool \<Rightarrow> sql_value set \<Rightarrow> ('r \<Rightarrow> sql_value) \<Rightarrow> ('r \<Rightarrow> bool) \<Rightarrow> 'r list \<Rightarrow> 'r list \<Rightarrow> bool" where
  "grown overwrite ks key made old cur \<longleftrightarrow>
     (\<exists>new. cur = filter (\<lambda>r. \<not> (overwrite \<and> key r \<in> ks)) old @ new
        \<and> distinct (map key new) \<and> key ` set new \<subseteq> ks \<and> (\<forall>r \<in> set new. made r)
        \<and> (overwrite \<or> key ` set new \<inter> key ` set old = {}))"

lemma grown_start: "grown overwrite {} key made old old"
  by (auto simp: grown_def)

lemma grown_skip: "grown False ks key made old cur \<Longrightarrow> grown False (insert k ks) key made old cur"
  by (auto simp: grown_def)

lemma grown_new:
  assumes "grown False ks key made old cur" and "made row" and "key row \<notin> key ` set cur"
  shows "grown False (insert (key row) ks) key made old (cur @ [row])"
proof -
  obtain new where "cur = old @ new" "distinct (map key new)" "key ` set new \<subseteq> ks"
    "\<forall>r \<in> set new. made r" "key ` set new \<inter> key ` set old = {}"
    using assms(1) by (auto simp: grown_def)
  with assms(2,3) show ?thesis unfolding grown_def by (intro exI [of _ "new @ [row]"]) auto
qed

lemma grown_replace:
  assumes "grown True ks key made old cur" and "made row"
  shows "grown True (insert (key row) ks) key made old (filter (\<lambda>r. key r \<noteq> key row) cur @ [row])"
proof -
  obtain new where "cur = filter (\<lambda>r. key r \<notin> ks) old @ new" "distinct (map key new)"
    "key ` set new \<subseteq> ks" "\<forall>r \<in> set new. made r"
    using assms(1) by (auto simp: grown_def)
  with assms(2) show ?thesis unfolding grown_def
    by (intro exI [of _ "filter (\<lambda>r. key r \<noteq> key row) new @ [row]"])
      (auto simp: conj_commute distinct_map_filter intro!: filter_cong)
qed

text \<open>How the three forms of \<open>INSERT\<close> change a table.\<close>

lemma insert_into_cases:
  assumes "key row \<noteq> SqlNull"
  shows "insert_into mode key row rows =
     (if key row \<in> key ` set rows then
        (case mode of Abort \<Rightarrow> Inl (sql_error ''UNIQUE constraint failed'')
         | Replace \<Rightarrow> Inr (filter (\<lambda>r. key r \<noteq> key row) rows @ [row])
         | Ignore \<Rightarrow> Inr rows)
      else Inr (rows @ [row]))"
proof -
  have "list_ex (\<lambda>r. key r = key row \<and> key row \<noteq> SqlNull) rows \<longleftrightarrow> key row \<in> key ` set rows"
    using assms by (auto simp: list_ex_iff image_iff) metis
  then show ?thesis using assms by (simp add: insert_into_def)
qed

lemma grown_insert:
  assumes "grown overwrite ks key made old cur" and "made row" and "key row \<noteq> SqlNull"
    and "insert_into mode key row cur = Inr cur'" and "overwrite \<longleftrightarrow> mode = Replace"
  shows "grown overwrite (insert (key row) ks) key made old cur'" and "key ` set cur' = insert (key row) (key ` set cur)"
proof -
  show "grown overwrite (insert (key row) ks) key made old cur'"
  proof (cases "mode = Replace")
    case True
    have "filter (\<lambda>r. key r \<noteq> key row) cur = cur" if "key row \<notin> key ` set cur"
      using that by (intro filter_True ballI) (metis image_eqI)
    then have "cur' = filter (\<lambda>r. key r \<noteq> key row) cur @ [row]"
      using assms(3,4) True by (auto simp: insert_into_cases split: if_splits)
    then show ?thesis using grown_replace [of ks key made old cur row] assms True by simp
  next
    case False
    then show ?thesis
      using assms grown_new [of ks key made old cur row] grown_skip [of ks key made old cur "key row"]
      by (auto simp: insert_into_cases split: if_splits conflict.splits)
  qed
  show "key ` set cur' = insert (key row) (key ` set cur)"
    using assms(3,4) by (auto simp: insert_into_cases split: if_splits conflict.splits)
qed

section \<open>Statements inside a transaction\<close>

text \<open>The files are \<open>fs\<close> but for the database \<open>d\<close> at \<open>p\<close>; \<open>saved\<close> is what a rollback restores.\<close>

definition in_db :: "(path \<Rightarrow> node) \<Rightarrow> path \<Rightarrow> memory_db option \<Rightarrow> memory_db \<Rightarrow> mig_world \<Rightarrow> bool" where
  "in_db fs p saved d w \<longleftrightarrow> mg_fs w = fs(p := DbNode d) \<and> mg_saved w = saved"

definition in_some_db :: "(path \<Rightarrow> node) \<Rightarrow> path \<Rightarrow> memory_db option \<Rightarrow> mig_world \<Rightarrow> bool" where
  "in_some_db fs p saved w \<longleftrightarrow> (\<exists>d. in_db fs p saved d w)"

lemma in_someI: "in_db fs p saved d w \<Longrightarrow> in_some_db fs p saved w"
  by (auto simp: in_some_db_def)

lemma wp_call_out [wp]:
  "wlp (call_out env) Q E = (\<lambda>w. case ev_fault env (mg_step w) of
      None \<Rightarrow> Q (mg_step w) (w\<lparr>mg_step := Suc (mg_step w)\<rparr>)
    | Some e \<Rightarrow> E e (w\<lparr>mg_step := Suc (mg_step w)\<rparr>))"
  by (rule ext) (simp add: call_out_def wp split: option.splits)

lemma wp_set_node [wp]:
  "wlp (set_node p n) Q E = (\<lambda>w. Q () (w\<lparr>mg_fs := (mg_fs w)(p := n)\<rparr>))"
  by (simp add: set_node_def wp)

lemma run_sql_rule:
  assumes "in_db fs p saved d w"
    and "\<And>a d' w'. f d = Inr (a, d') \<Longrightarrow> in_db fs p saved d' w' \<Longrightarrow> Q a w'"
    and "\<And>e w'. in_db fs p saved d w' \<Longrightarrow> E e w'"
  shows "wlp (run_sql env p f) Q E w"
  using assms by (auto simp: run_sql_def wp in_db_def split: option.splits node.splits sum.splits)

lemma created_row_key: "legacy_row env key v src t = Inr (entry, emb) \<Longrightarrow>
    en_embedding_id entry = SqlText key \<and> (\<forall>row. emb = Some row \<longrightarrow> em_chunk_id row = SqlText key)"
  by (auto simp: legacy_row_def res_iffs Let_def split: prod.splits option.splits)

definition table_rows :: "'r list option \<Rightarrow> 'r list" where
  "table_rows t = (case t of None \<Rightarrow> [] | Some rows \<Rightarrow> rows)"

text \<open>The rows a run may write for a source: those the code computes from one of its pairs.\<close>

definition entry_made :: "mig_env \<Rightarrow> string \<Rightarrow> (sql_value \<times> sql_value) list \<Rightarrow> entry_row \<Rightarrow> bool" where
  "entry_made env src rows r \<longleftrightarrow>
     (\<exists>(k, v) \<in> set rows. \<exists>t e m. legacy_row env (sql_str env k) v src t = Inr (e, m) \<and> r = e\<lparr>en_id := en_id r\<rparr>)"

definition embedding_made :: "mig_env \<Rightarrow> string \<Rightarrow> (sql_value \<times> sql_value) list \<Rightarrow> embedding_row \<Rightarrow> bool" where
  "embedding_made env src rows r \<longleftrightarrow>
     (\<exists>(k, v) \<in> set rows. \<exists>t e. legacy_row env (sql_str env k) v src t = Inr (e, Some r))"

definition memory_made :: "mig_env \<Rightarrow> string \<Rightarrow> (sql_value \<times> sql_value) list \<Rightarrow> memory_row \<Rightarrow> bool" where
  "memory_made env src rows r \<longleftrightarrow>
     (\<exists>(k, v) \<in> set rows. r = \<lparr>mr_key = SqlText (sql_str env k), mr_value = text_affinity env v,
        mr_migrated_from = SqlText src\<rparr>)"

text \<open>
  The tables after the source rows with the keys \<open>ks\<close> went through: every key has a row, the
  tables have grown as \<open>grown\<close> says, and nothing else changed.
\<close>

definition registry_merged ::
  "mig_env \<Rightarrow> string \<Rightarrow> bool \<Rightarrow> (sql_value \<times> sql_value) list \<Rightarrow> sql_value set \<Rightarrow> memory_db \<Rightarrow> memory_db \<Rightarrow> bool" where
  "registry_merged env src overwrite rows ks d d' \<longleftrightarrow>
     sd_kv d' = sd_kv d \<and> table_rows (sd_memory d') = table_rows (sd_memory d)
     \<and> grown overwrite ks en_embedding_id (entry_made env src rows) (table_rows (sd_entries d)) (table_rows (sd_entries d'))
     \<and> ks \<subseteq> en_embedding_id ` set (table_rows (sd_entries d'))
     \<and> (\<exists>vs \<subseteq> ks. grown overwrite vs em_chunk_id (embedding_made env src rows)
          (table_rows (sd_embeddings d)) (table_rows (sd_embeddings d')))"

definition memory_merged ::
  "mig_env \<Rightarrow> string \<Rightarrow> bool \<Rightarrow> (sql_value \<times> sql_value) list \<Rightarrow> sql_value set \<Rightarrow> memory_db \<Rightarrow> memory_db \<Rightarrow> bool" where
  "memory_merged env src overwrite rows ks d d' \<longleftrightarrow>
     sd_kv d' = sd_kv d \<and> table_rows (sd_entries d') = table_rows (sd_entries d)
     \<and> table_rows (sd_embeddings d') = table_rows (sd_embeddings d)
     \<and> grown overwrite ks mr_key (memory_made env src rows) (table_rows (sd_memory d)) (table_rows (sd_memory d'))
     \<and> ks \<subseteq> mr_key ` set (table_rows (sd_memory d'))"

definition merged ::
  "mig_env \<Rightarrow> mig_args \<Rightarrow> string \<Rightarrow> (sql_value \<times> sql_value) list \<Rightarrow> sql_value set \<Rightarrow> memory_db \<Rightarrow> memory_db \<Rightarrow> bool" where
  "merged env a src rows ks d d' =
     (if registry a then registry_merged env src (ma_overwrite a) rows ks d d'
      else memory_merged env src (ma_overwrite a) rows ks d d')"

text \<open>The keys a table of the target schema already has.\<close>

definition target_keys :: "mig_args \<Rightarrow> memory_db \<Rightarrow> sql_value set" where
  "target_keys a d =
     (if registry a then en_embedding_id ` set (table_rows (sd_entries d))
      else mr_key ` set (table_rows (sd_memory d)))"

lemma find_key:
  "List.find (\<lambda>r. key r = k) rows = None \<longleftrightarrow> k \<notin> key ` set rows"
  by (auto simp: find_None_iff image_iff)

lemma merge_entry:
  assumes m: "registry_merged env src overwrite rows ks d0 d" and row: "(k, v) \<in> set rows"
    and legacy: "legacy_row env (sql_str env k) v src t = Inr (entry, emb)"
    and ins: "sql_insert_entry env mode entry d = Inr (u, d')" and mode: "overwrite \<longleftrightarrow> mode = Replace"
  shows "registry_merged env src overwrite rows (insert (SqlText (sql_str env k)) ks) d0 d'"
proof -
  let ?key = "SqlText (sql_str env k)"
  obtain es es' where es: "sd_entries d = Some es" "d' = d\<lparr>sd_entries := Some es'\<rparr>"
    and put: "insert_into mode en_embedding_id (entry\<lparr>en_id := next_rowid env (map en_id es)\<rparr>) es = Inr es'"
    using ins by (auto simp: sql_insert_entry_def res_iffs split: option.splits)
  define e where "e = entry\<lparr>en_id := next_rowid env (map en_id es)\<rparr>"
  have e: "en_embedding_id e = ?key" using created_row_key [OF legacy] by (simp add: e_def)
  have made: "entry_made env src rows e"
    using row legacy unfolding entry_made_def e_def by force
  have old: "grown overwrite ks en_embedding_id (entry_made env src rows) (table_rows (sd_entries d0)) es"
    using m es by (simp add: registry_merged_def table_rows_def)
  have "grown overwrite (insert ?key ks) en_embedding_id (entry_made env src rows) (table_rows (sd_entries d0)) es'"
    "en_embedding_id ` set es' = insert ?key (en_embedding_id ` set es)"
    using grown_insert [OF old made _ put [folded e_def] mode] e by simp_all
  then show ?thesis using m es
    by (auto simp: registry_merged_def table_rows_def)
qed

lemma merge_embedding:
  assumes m: "registry_merged env src overwrite rows ks d0 d" and row: "(k, v) \<in> set rows"
    and legacy: "legacy_row env (sql_str env k) v src t = Inr (entry, Some emb)"
    and key: "SqlText (sql_str env k) \<in> ks"
    and ins: "sql_insert_embedding mode emb d = Inr (u, d')" and mode: "overwrite \<longleftrightarrow> mode = Replace"
  shows "registry_merged env src overwrite rows ks d0 d'"
proof -
  obtain ms ms' where ms: "sd_embeddings d = Some ms" "d' = d\<lparr>sd_embeddings := Some ms'\<rparr>"
    and put: "insert_into mode em_chunk_id emb ms = Inr ms'"
    using ins by (auto simp: sql_insert_embedding_def res_iffs split: option.splits)
  have emb: "em_chunk_id emb = SqlText (sql_str env k)" using created_row_key [OF legacy] by simp
  have made: "embedding_made env src rows emb"
    using row legacy unfolding embedding_made_def by blast
  obtain vs where vs: "vs \<subseteq> ks" "grown overwrite vs em_chunk_id (embedding_made env src rows)
      (table_rows (sd_embeddings d0)) ms"
    using m ms by (auto simp: registry_merged_def table_rows_def)
  have "grown overwrite (insert (em_chunk_id emb) vs) em_chunk_id (embedding_made env src rows)
      (table_rows (sd_embeddings d0)) ms'"
    by (rule grown_insert(1) [OF vs(2) made _ put mode]) (simp add: emb)
  then show ?thesis using m ms vs(1) key emb
    by (auto simp: registry_merged_def table_rows_def intro!: exI [of _ "insert (em_chunk_id emb) vs"])
qed

lemma sql_entry_cases:
  assumes "sql_entry key d = Inr (found, d')"
  shows "d' = d \<and> (found = None \<longleftrightarrow> SqlText key \<notin> en_embedding_id ` set (table_rows (sd_entries d)))"
  using assms by (auto simp: sql_entry_def table_rows_def find_key split: option.splits)

lemma insert_registry_rule:
  assumes w: "in_db fs p saved d w" and row: "(k, v) \<in> set rows"
    and m: "registry_merged env src overwrite rows ks d0 d"
  shows "wlp (insert_registry_row env p (sql_str env k) v src overwrite)
      (\<lambda>(ins, sample) w'. \<exists>d'. in_db fs p saved d' w'
         \<and> registry_merged env src overwrite rows (insert (SqlText (sql_str env k)) ks) d0 d'
         \<and> (if ins then overwrite \<or> SqlText (sql_str env k) \<notin> en_embedding_id ` set (table_rows (sd_entries d))
            else d' = d))
      (\<lambda>_. in_some_db fs p saved) w"
  unfolding insert_registry_row_def wp_bnd
proof (rule run_sql_rule [OF w])
  let ?key = "sql_str env k"
  fix found d1 w1
  assume sel: "sql_entry ?key d = Inr (found, d1)" and w1: "in_db fs p saved d1 w1"
  note found = sql_entry_cases [OF sel]
  let ?Q = "\<lambda>(ins, sample) w'. \<exists>d'. in_db fs p saved d' w'
         \<and> registry_merged env src overwrite rows (insert (SqlText ?key) ks) d0 d'
         \<and> (if ins then overwrite \<or> SqlText ?key \<notin> en_embedding_id ` set (table_rows (sd_entries d)) else d' = d)"
  show "wlp (if found \<noteq> None \<and> \<not> overwrite then ret (False, skipped_conflict ?key)
     else bnd (gets mg_step) (\<lambda>n. bnd (lift (legacy_row env ?key v src (ev_now env n))) (\<lambda>(entry, embedding).
       bnd (run_sql env p (sql_insert_entry env (if overwrite then Replace else Abort) entry)) (\<lambda>_.
       bnd (case embedding of None \<Rightarrow> ret ()
         | Some row \<Rightarrow> run_sql env p (sql_insert_embedding (if overwrite then Replace else Ignore) row)) (\<lambda>_.
       ret (True, object [(''key'', VStr ?key), (''status'', written_status (found \<noteq> None)),
              (''vector_dim'', sql_py (en_vector_dim entry))]))))))
     ?Q (\<lambda>_. in_some_db fs p saved) w1"
  proof (cases "found \<noteq> None \<and> \<not> overwrite")
    case True
    have "registry_merged env src overwrite rows (insert (SqlText ?key) ks) d0 d"
      using m True found by (auto simp: registry_merged_def intro: grown_skip)
    then show ?thesis using True w1 found by (auto simp: wp)
  next
    case False
    have absent: "overwrite \<or> SqlText ?key \<notin> en_embedding_id ` set (table_rows (sd_entries d))"
      using False found by blast
    obtain mi me where modes: "(if overwrite then Replace else Abort) = mi" "(if overwrite then Replace else Ignore) = me"
      and mode: "overwrite \<longleftrightarrow> mi = Replace" "overwrite \<longleftrightarrow> me = Replace"
      by (cases overwrite) auto
    have embed: "wlp (case emb of None \<Rightarrow> ret () | Some row \<Rightarrow> run_sql env p (sql_insert_embedding me row))
         (\<lambda>_ w'. \<exists>d'. in_db fs p saved d' w' \<and> registry_merged env src overwrite rows (insert (SqlText ?key) ks) d0 d')
         (\<lambda>_. in_some_db fs p saved) w2"
      if legacy: "legacy_row env ?key v src t = Inr (entry, emb)" and w2: "in_db fs p saved d2 w2"
        and ins: "sql_insert_entry env mi entry d1 = Inr (u, d2)" for t entry emb d2 w2 u
    proof -
      have m2: "registry_merged env src overwrite rows (insert (SqlText ?key) ks) d0 d2"
        using merge_entry [OF m row legacy _ mode(1)] ins found by blast
      show ?thesis
      proof (cases emb)
        case None
        then show ?thesis using w2 m2 by (auto simp: wp)
      next
        case (Some e)
        have "registry_merged env src overwrite rows (insert (SqlText ?key) ks) d0 d3"
          if "sql_insert_embedding me e d2 = Inr (u, d3)" for u d3
          using merge_embedding [OF m2 row legacy [unfolded Some] insertI1 that mode(2)] .
        then show ?thesis unfolding Some option.case
          by (intro run_sql_rule [OF w2]) (auto intro: in_someI)
      qed
    qed
    show ?thesis unfolding modes using False absent w1
      by (auto simp: wp split: sum.splits intro!: run_sql_rule [OF w1] in_someI wlp_mono [OF embed])
  qed
qed (auto intro: in_someI)

lemma merge_memory:
  assumes m: "memory_merged env src overwrite rows ks d0 d" and row: "(k, v) \<in> set rows"
    and ins: "sql_insert_memory env mode \<lparr>mr_key = SqlText (sql_str env k), mr_value = v,
        mr_migrated_from = SqlText src\<rparr> d = Inr (u, d')" and mode: "overwrite \<longleftrightarrow> mode = Replace"
  shows "memory_merged env src overwrite rows (insert (SqlText (sql_str env k)) ks) d0 d'"
proof -
  define r where "r = \<lparr>mr_key = SqlText (sql_str env k), mr_value = text_affinity env v, mr_migrated_from = SqlText src\<rparr>"
  obtain ms ms' where ms: "sd_memory d = Some ms" "d' = d\<lparr>sd_memory := Some ms'\<rparr>"
    and put: "insert_into mode mr_key r ms = Inr ms'"
    using ins by (auto simp: sql_insert_memory_def r_def res_iffs split: option.splits)
  have made: "memory_made env src rows r" using row by (force simp: memory_made_def r_def)
  have old: "grown overwrite ks mr_key (memory_made env src rows) (table_rows (sd_memory d0)) ms"
    using m ms by (simp add: memory_merged_def table_rows_def)
  have "grown overwrite (insert (mr_key r) ks) mr_key (memory_made env src rows) (table_rows (sd_memory d0)) ms'"
    "mr_key ` set ms' = insert (mr_key r) (mr_key ` set ms)"
    using grown_insert [OF old made _ put mode] by (simp_all add: r_def)
  then show ?thesis using m ms by (auto simp: memory_merged_def table_rows_def r_def)
qed

lemma insert_memory_rule:
  assumes w: "in_db fs p saved d w" and row: "(k, v) \<in> set rows"
    and m: "memory_merged env src overwrite rows ks d0 d"
  shows "wlp (insert_memory_entry env p (sql_str env k) v src overwrite)
      (\<lambda>(ins, sample) w'. \<exists>d'. in_db fs p saved d' w'
         \<and> memory_merged env src overwrite rows (insert (SqlText (sql_str env k)) ks) d0 d'
         \<and> (if ins then overwrite \<or> SqlText (sql_str env k) \<notin> mr_key ` set (table_rows (sd_memory d))
            else d' = d))
      (\<lambda>_. in_some_db fs p saved) w"
  unfolding insert_memory_entry_def wp_bnd
proof (rule run_sql_rule [OF w])
  let ?key = "sql_str env k"
  fix found d1 w1
  assume sel: "sql_memory ?key d = Inr (found, d1)" and w1: "in_db fs p saved d1 w1"
  have found: "d1 = d" "found = None \<longleftrightarrow> SqlText ?key \<notin> mr_key ` set (table_rows (sd_memory d))"
    using sel by (auto simp: sql_memory_def table_rows_def find_key split: option.splits)
  obtain mode where mode: "(if overwrite then Replace else Abort) = mode" "overwrite \<longleftrightarrow> mode = Replace"
    by (cases overwrite) auto
  have "memory_merged env src overwrite rows (insert (SqlText ?key) ks) d0 d" if "found \<noteq> None" "\<not> overwrite"
    using m that found by (auto simp: memory_merged_def intro: grown_skip)
  then show "wlp (if found \<noteq> None \<and> \<not> overwrite then ret (False, skipped_conflict ?key)
     else bnd (run_sql env p (sql_insert_memory env (if overwrite then Replace else Abort)
         \<lparr>mr_key = SqlText ?key, mr_value = v, mr_migrated_from = SqlText src\<rparr>)) (\<lambda>_.
       ret (True, object [(''key'', VStr ?key), (''status'', written_status (found \<noteq> None))])))
     (\<lambda>(ins, sample) w'. \<exists>d'. in_db fs p saved d' w'
         \<and> memory_merged env src overwrite rows (insert (SqlText ?key) ks) d0 d'
         \<and> (if ins then overwrite \<or> SqlText ?key \<notin> mr_key ` set (table_rows (sd_memory d)) else d' = d))
     (\<lambda>_. in_some_db fs p saved) w1"
    unfolding mode(1) using w1 found merge_memory [OF m row _ mode(2)]
    by (auto simp: wp intro!: run_sql_rule [OF w1] in_someI)
qed (auto intro: in_someI)

lemma insert_row_rule:
  assumes "in_db fs p saved d w" and "(k, v) \<in> set rows" and "merged env a src rows ks d0 d"
  shows "wlp (insert_row env a p src (sql_str env k) v)
      (\<lambda>(ins, sample) w'. \<exists>d'. in_db fs p saved d' w' \<and> merged env a src rows (insert (SqlText (sql_str env k)) ks) d0 d'
         \<and> (if ins then ma_overwrite a \<or> SqlText (sql_str env k) \<notin> target_keys a d else d' = d))
      (\<lambda>_. in_some_db fs p saved) w"
proof (cases "registry a")
  case True
  then have tk: "target_keys a d = en_embedding_id ` set (table_rows (sd_entries d))" by (simp add: target_keys_def)
  show ?thesis unfolding tk
    using insert_registry_rule [OF assms(1,2), of env src "ma_overwrite a" ks d0] assms(3) True
    by (simp add: insert_row_def merged_def split del: if_split)
next
  case False
  then have tk: "target_keys a d = mr_key ` set (table_rows (sd_memory d))" by (simp add: target_keys_def)
  show ?thesis unfolding tk
    using insert_memory_rule [OF assms(1,2), of env src "ma_overwrite a" ks d0] assms(3) False
    by (simp add: insert_row_def merged_def split del: if_split)
qed

lemma merged_start: "merged env a src rows {} d d"
  by (auto simp: merged_def registry_merged_def memory_merged_def intro: grown_start)

lemma merged_keys: "merged env a src rows ks d0 d \<Longrightarrow> ks \<subseteq> target_keys a d"
  by (auto simp: merged_def registry_merged_def memory_merged_def target_keys_def split: if_splits)

abbreviation row_keys :: "mig_env \<Rightarrow> (sql_value \<times> sql_value) list \<Rightarrow> string list" where
  "row_keys env rows \<equiv> map (\<lambda>(k, v). sql_str env k) rows"

lemma migrate_rows_rule:
  assumes "in_db fs p saved d w" and "set rows \<subseteq> set all" and "merged env a src all ks d0 d"
  shows "wlp (migrate_rows env a p src rows keys su)
      (\<lambda>_ w'. \<exists>d'. in_db fs p saved d' w' \<and> merged env a src all (ks \<union> SqlText ` set (row_keys env rows)) d0 d')
      (\<lambda>_. in_some_db fs p saved) w"
  using assms
proof (induction rows arbitrary: d w ks keys su)
  case Nil
  then show ?case by (auto simp: wp)
next
  case (Cons row rows)
  obtain k v where row: "row = (k, v)" by force
  then have kv: "(k, v) \<in> set all" using Cons.prems(2) by simp
  define K where "K = SqlText ` set (row_keys env ((k, v) # rows))"
  have IH: "wlp (migrate_rows env a p src rows keys' su')
      (\<lambda>_ w'. \<exists>d'. in_db fs p saved d' w' \<and> merged env a src all (ks \<union> K) d0 d') (\<lambda>_. in_some_db fs p saved) w1"
    if "in_db fs p saved d1 w1" "merged env a src all (insert (SqlText (sql_str env k)) ks) d0 d1" for d1 w1 keys' su'
    using Cons.IH [OF that(1) _ that(2), of keys' su'] Cons.prems(2) by (simp add: row K_def)
  show ?case unfolding row migrate_rows.simps Let_def wp_bnd K_def [symmetric]
    by (rule wlp_mono [OF insert_row_rule [OF Cons.prems(1) kv Cons.prems(3)]])
      (auto simp: wp split: if_splits intro: IH)
qed

text \<open>When every key is there already, nothing is written.\<close>

lemma migrate_rows_all_present:
  assumes "in_db fs p saved d w" and "\<not> ma_overwrite a" and "SqlText ` set (row_keys env rows) \<subseteq> target_keys a d"
  shows "wlp (migrate_rows env a p src rows keys su)
      (\<lambda>(keys', su') w'. in_db fs p saved d w' \<and> keys' = keys
         \<and> su' = su\<lparr>su_skipped_keys := su_skipped_keys su @ row_keys env rows\<rparr>)
      (\<lambda>_. in_some_db fs p saved) w"
  using assms
proof (induction rows arbitrary: w su)
  case Nil
  then show ?case by (auto simp: wp)
next
  case (Cons row rows)
  obtain k v where row: "row = (k, v)" by force
  have "wlp (insert_row env a p src (sql_str env k) v)
      (\<lambda>(ins, sample) w'. \<not> ins \<and> in_db fs p saved d w') (\<lambda>_. in_some_db fs p saved) w"
    by (rule wlp_mono [OF insert_row_rule [OF Cons.prems(1) _ merged_start, where rows = "[(k, v)]"]])
      (use Cons.prems in \<open>auto simp: row split: if_splits\<close>)
  moreover have "wlp (migrate_rows env a p src rows keys (su\<lparr>su_skipped_keys := su_skipped_keys su @ [sql_str env k]\<rparr>))
      (\<lambda>(keys', su') w'. in_db fs p saved d w' \<and> keys' = keys
         \<and> su' = su\<lparr>su_skipped_keys := su_skipped_keys su @ row_keys env (row # rows)\<rparr>)
      (\<lambda>_. in_some_db fs p saved) w1" if "in_db fs p saved d w1" for w1
    using Cons.IH [OF that Cons.prems(2), of "su\<lparr>su_skipped_keys := su_skipped_keys su @ [sql_str env k]\<rparr>"]
      Cons.prems(3) by (simp add: row)
  ultimately show ?case unfolding row migrate_rows.simps Let_def wp_bnd
    by (elim wlp_mono) (auto simp: wp split: if_splits)
qed

section \<open>The transaction\<close>

lemma validate_keys_rule:
  "in_db fs p saved d w \<Longrightarrow>
     wlp (validate_keys env p keys) (\<lambda>_. in_db fs p saved d) (\<lambda>_. in_some_db fs p saved) w"
proof (induction keys arbitrary: w)
  case Nil
  then show ?case by (simp add: wp)
next
  case (Cons key keys)
  show ?case unfolding validate_keys.simps wp_bnd
  proof (rule run_sql_rule [OF Cons.prems])
    fix row d' w'
    assume "sql_entry key d = Inr (row, d')" and "in_db fs p saved d' w'"
    then have w': "in_db fs p saved d w'" using sql_entry_cases by blast
    show "wlp (case row of None \<Rightarrow> ret ([], [''missing migrated entry: '' @ key])
            | Some r \<Rightarrow> lift (check_row env key r))
          (\<lambda>x. wlp (case x of (samples, errors) \<Rightarrow>
             bnd (validate_keys env p keys) (\<lambda>(samples', errors'). ret (samples @ samples', errors @ errors')))
             (\<lambda>_. in_db fs p saved d) (\<lambda>_. in_some_db fs p saved))
          (\<lambda>_. in_some_db fs p saved) w'"
      using w' by (auto simp: wp split: option.splits sum.splits intro: in_someI wlp_mono [OF Cons.IH [OF w']])
  qed (auto intro: in_someI)
qed

text \<open>Rolled back, or still to be rolled back when the connection closes.\<close>

definition rolled_back :: "(path \<Rightarrow> node) \<Rightarrow> path \<Rightarrow> memory_db \<Rightarrow> mig_world \<Rightarrow> bool" where
  "rolled_back fs p d w \<longleftrightarrow> in_some_db fs p (Some d) w \<or> in_db fs p None d w"

lemma rolled_back_close:
  "rolled_back fs p d w \<Longrightarrow> wlp (close_db p) (\<lambda>_. in_db fs p None d) E w"
  by (auto simp: rolled_back_def in_some_db_def in_db_def close_db_def wp)

lemma rollback_rule:
  "rolled_back fs p d w \<Longrightarrow> wlp (roll_back env p) (\<lambda>_. rolled_back fs p d) (\<lambda>_. rolled_back fs p d) w"
  by (auto simp: rolled_back_def in_some_db_def in_db_def roll_back_def close_db_def wp split: option.splits)

lemma migrate_tx_rule:
  assumes w: "in_db fs p None d w"
    and loop: "\<And>w. in_db fs p (Some d) d w \<Longrightarrow> wlp (migrate_rows env a p src rows [] su)
      (\<lambda>(keys, su') w'. \<exists>d'. in_db fs p (Some d) d' w' \<and> R d' (su_migrated su') (su_skipped_keys su'))
      (\<lambda>_. in_some_db fs p (Some d)) w"
  shows "wlp (migrate_tx env a p src rows su)
      (\<lambda>su' w'. \<exists>d'. in_db fs p None d' w' \<and> R d' (su_migrated su') (su_skipped_keys su'))
      (\<lambda>_. rolled_back fs p d) w"
proof -
  let ?Q = "\<lambda>su' w'. \<exists>d'. in_db fs p None d' w' \<and> R d' (su_migrated su') (su_skipped_keys su')"
  let ?E = "\<lambda>e::pyexc. rolled_back fs p d"
  let ?tail = "\<lambda>(keys, su). bnd (if registry a then
               bnd (validate_registry env p keys) (\<lambda>(samples, errors).
               bnd (require (errors = []) (Exc OtherException ''migration validation failed'')) (\<lambda>_.
               ret (su\<lparr>su_samples := samples, su_validation_errors := errors\<rparr>)))
             else ret su) (\<lambda>su. bnd (commit_changes env) (\<lambda>_. ret su))"
  have commit: "wlp (bnd (commit_changes env) (\<lambda>_. ret su')) ?Q ?E w1"
    if "in_db fs p (Some d) d' w1" and "R d' (su_migrated su') (su_skipped_keys su')" for d' w1 su'
    using that by (auto simp: commit_changes_def wp in_db_def rolled_back_def in_some_db_def split: option.splits)
  have tail: "wlp (?tail (keys, su')) ?Q ?E w1"
    if w1: "in_db fs p (Some d) d' w1" and r: "R d' (su_migrated su') (su_skipped_keys su')" for d' w1 keys su'
  proof (cases "registry a")
    case True
    have c2: "wlp (bnd (commit_changes env) (\<lambda>_. ret (su'\<lparr>su_samples := s, su_validation_errors := e\<rparr>))) ?Q ?E w1"
      if "in_db fs p (Some d) d' w1" for s e w1
      by (rule commit [OF that]) (simp add: r)
    have "wlp (validate_registry env p keys) (\<lambda>_. in_db fs p (Some d) d') ?E w1"
      unfolding validate_registry_def
      by (rule wlp_mono [OF validate_keys_rule [OF w1]]) (auto simp: rolled_back_def)
    then have "wlp (validate_registry env p keys) (\<lambda>(samples, errors). wlp
          (bnd (require (errors = []) (Exc OtherException ''migration validation failed'')) (\<lambda>_.
               bnd (commit_changes env) (\<lambda>_. ret (su'\<lparr>su_samples := samples, su_validation_errors := errors\<rparr>)))) ?Q ?E) ?E w1"
      by (rule wlp_mono) (auto simp: wp_bnd wp_require intro: c2 [unfolded wp_bnd] simp: rolled_back_def in_someI)
    then show ?thesis using True by (simp add: wp case_prod_beta' bnd_assoc)
  next
    case False
    then show ?thesis using commit [OF w1 r] by simp
  qed
  have body: "wlp (bnd (begin_rows env p) (\<lambda>_. bnd (migrate_rows env a p src rows [] su) ?tail)) ?Q ?E w"
    unfolding begin_rows_def wp_bnd wp_modify
  proof (rule run_sql_rule [OF w])
    fix x d' w' assume "Inr (d, d) = (Inr (x, d') :: (memory_db \<times> memory_db) res)" and "in_db fs p None d' w'"
    then have b: "in_db fs p (Some d) d (w'\<lparr>mg_saved := Some x\<rparr>)" by (auto simp: in_db_def)
    show "wlp (migrate_rows env a p src rows [] su) (\<lambda>x. wlp (?tail x) ?Q ?E) ?E (w'\<lparr>mg_saved := Some x\<rparr>)"
      by (rule wlp_mono [OF loop [OF b]]) (use tail in \<open>auto simp: rolled_back_def\<close>)
  qed (simp add: rolled_back_def)
  show ?thesis unfolding migrate_tx_def wp_try_except
    by (rule wlp_mono [OF body]) (auto simp: wp intro: wlp_mono [OF rollback_rule])
qed

section \<open>The destination\<close>

definition db_of :: "node \<Rightarrow> memory_db" where
  "db_of n = (case n of DbNode d \<Rightarrow> d | _ \<Rightarrow> new_db)"

text \<open>The same rows, whether or not a table without rows exists.\<close>

definition same_rows :: "memory_db \<Rightarrow> memory_db \<Rightarrow> bool" where
  "same_rows d d' \<longleftrightarrow> sd_kv d' = sd_kv d
     \<and> table_rows (sd_entries d') = table_rows (sd_entries d)
     \<and> table_rows (sd_embeddings d') = table_rows (sd_embeddings d)
     \<and> table_rows (sd_memory d') = table_rows (sd_memory d)"

lemma same_rows_refl [simp]: "same_rows d d"
  by (simp add: same_rows_def)

lemma table_rows_create [simp]: "table_rows (create_table t) = table_rows t"
  by (simp add: table_rows_def create_table_def split: option.splits)

lemma same_rows_create [simp]:
  "same_rows d (d\<lparr>sd_embeddings := create_table (sd_embeddings d)\<rparr>)"
  "same_rows d (d\<lparr>sd_embeddings := create_table (sd_embeddings d), sd_entries := create_table (sd_entries d)\<rparr>)"
  "same_rows d (d\<lparr>sd_memory := create_table (sd_memory d)\<rparr>)"
  by (simp_all add: same_rows_def)

lemma same_rows_inI: "in_db fs p saved d' w \<Longrightarrow> same_rows d d' \<Longrightarrow> \<exists>d'. same_rows d d' \<and> in_db fs p saved d' w"
  by blast

lemma schema_rule:
  assumes "in_db fs p None d w"
  shows "wlp (if registry a then ensure_registry_schema env p else ensure_memory_entries_schema env p)
      (\<lambda>_ w'. \<exists>d'. same_rows d d' \<and> in_db fs p None d' w') (\<lambda>_ w'. \<exists>d'. same_rows d d' \<and> in_db fs p None d' w') w"
proof -
  have "wlp (ensure_registry_schema env p)
      (\<lambda>_ w'. \<exists>d'. same_rows d d' \<and> in_db fs p None d' w') (\<lambda>_ w'. \<exists>d'. same_rows d d' \<and> in_db fs p None d' w') w"
    unfolding ensure_registry_schema_def wp_bnd
    by (rule run_sql_rule [OF assms]; (erule same_rows_inI, simp)?; rule run_sql_rule, assumption; auto elim!: same_rows_inI)
  moreover have "wlp (ensure_memory_entries_schema env p)
      (\<lambda>_ w'. \<exists>d'. same_rows d d' \<and> in_db fs p None d' w') (\<lambda>_ w'. \<exists>d'. same_rows d d' \<and> in_db fs p None d' w') w"
    unfolding ensure_memory_entries_schema_def
    by (rule run_sql_rule [OF assms]) (auto elim!: same_rows_inI)
  ultimately show ?thesis by simp
qed

lemma rolled_backI: "in_db fs p None d w \<Longrightarrow> rolled_back fs p d w"
  by (simp add: rolled_back_def)

lemma close_idle: "in_db fs p None d w \<Longrightarrow> wlp (close_db p) Q E w = Q () w"
  by (simp add: in_db_def close_db_def wp)

lemma migrate_db_rule:
  assumes saved: "mg_saved w = None" and node: "mg_fs w p = NoNode \<and> d0 = new_db \<or> mg_fs w p = DbNode d0"
    and loop: "\<And>d w'. same_rows d0 d \<Longrightarrow> in_db (mg_fs w) p (Some d) d w' \<Longrightarrow>
      wlp (migrate_rows env a p src rows [] su)
      (\<lambda>(keys, su') w'. \<exists>d'. in_db (mg_fs w) p (Some d) d' w' \<and> R d d' (su_migrated su') (su_skipped_keys su'))
      (\<lambda>_. in_some_db (mg_fs w) p (Some d)) w'"
  shows "wlp (migrate_db env a p src rows su)
      (\<lambda>su' w'. \<exists>d. same_rows d0 d \<and> (\<exists>d'. in_db (mg_fs w) p None d' w' \<and> R d d' (su_migrated su') (su_skipped_keys su')))
      (\<lambda>_ w'. mg_saved w' = None \<and> (mg_fs w' = mg_fs w \<or> (\<exists>d. same_rows d0 d \<and> in_db (mg_fs w) p None d w'))) w"
proof -
  let ?fs = "mg_fs w"
  let ?Q = "\<lambda>su' w'. \<exists>d. same_rows d0 d \<and> (\<exists>d'. in_db ?fs p None d' w' \<and> R d d' (su_migrated su') (su_skipped_keys su'))"
  let ?E = "\<lambda>(e::pyexc) w'. \<exists>d. same_rows d0 d \<and> in_db ?fs p None d w'"
  have tx: "wlp (migrate_tx env a p src rows su) ?Q (\<lambda>_ w'. \<exists>d. same_rows d0 d \<and> rolled_back ?fs p d w') w1"
    if "same_rows d0 d" and "in_db ?fs p None d w1" for d w1
    by (rule wlp_mono [OF migrate_tx_rule [OF that(2), where R = "R d"]]) (use loop that(1) in auto)
  have body: "wlp (bnd (if registry a then ensure_registry_schema env p else ensure_memory_entries_schema env p)
       (\<lambda>_. migrate_tx env a p src rows su)) ?Q (\<lambda>_ w'. \<exists>d. same_rows d0 d \<and> rolled_back ?fs p d w') w1"
    if "in_db ?fs p None d0 w1" for w1
    unfolding wp_bnd by (rule wlp_mono [OF schema_rule [OF that]]) (auto intro: tx rolled_backI)
  have open_db: "wlp (try_finally (bnd (if registry a then ensure_registry_schema env p else ensure_memory_entries_schema env p)
       (\<lambda>_. migrate_tx env a p src rows su)) (close_db p)) ?Q ?E w1" if "in_db ?fs p None d0 w1" for w1
    unfolding wp_try_finally
    by (rule wlp_mono [OF body [OF that]])
      ((auto simp: close_idle)[1], auto intro!: wlp_mono [OF rolled_back_close])
  have connect: "wlp (connect_db env p) (\<lambda>_. in_db ?fs p None d0) (\<lambda>_ w'. mg_saved w' = None \<and> mg_fs w' = ?fs) w"
    using node saved by (auto simp: connect_db_def wp in_db_def fun_upd_idem split: option.splits)
  show ?thesis unfolding migrate_db_def with_db_def wp_bnd
    by (rule wlp_mono [OF connect], erule wlp_mono [OF open_db]) (auto simp: in_db_def)
qed

section \<open>The other files\<close>

text \<open>A file other than the ones a step writes keeps its content, and nothing is open in between.\<close>

definition idle_at :: "path \<Rightarrow> memory_db \<Rightarrow> mig_world \<Rightarrow> bool" where
  "idle_at p d w \<longleftrightarrow> mg_saved w = None \<and> mg_fs w p = DbNode d"

lemma idle_make_dirs: "idle_at p d w \<Longrightarrow> wlp (make_dirs env q) (\<lambda>_. idle_at p d) (\<lambda>_. idle_at p d) w"
  by (auto simp: make_dirs_def wp idle_at_def list_all_iff split: option.splits intro!: bexI [of _ p])

lemma idle_write_report:
  assumes "idle_at p d w" and "q \<noteq> p" and "tmp_path q \<noteq> p"
  shows "wlp (write_report env q su) (\<lambda>_. idle_at p d) (\<lambda>_. idle_at p d) w"
  unfolding write_report_def wp_bnd
  by (rule wlp_mono [OF idle_make_dirs [OF assms(1)]])
    (use assms(2,3) in \<open>auto simp: wp idle_at_def split: option.splits\<close>)

text \<open>A backup that returns left a copy where it was asked to, and the original untouched.\<close>

lemma backup_rule:
  assumes w: "idle_at p d w"
  shows "wlp (backup_database env p b) (\<lambda>_ w'. idle_at p d w' \<and> idle_at b d w' \<and> b \<noteq> p) (\<lambda>_. idle_at p d) w"
proof -
  let ?P = "\<lambda>w'. idle_at p d w' \<and> (idle_at b d w' \<and> b \<noteq> p \<or> mg_fs w' b = DirNode)"
  have copy: "wlp (copy_file env p b) (\<lambda>_. ?P) (\<lambda>_. idle_at p d) w1" if "idle_at p d w1" for w1
    using that by (auto simp: copy_file_def copy_target_def wp idle_at_def Let_def split: option.splits)
  have open_b: "wlp (with_db env b (bnd (run_sql env b (\<lambda>d. Inr ((), d))) (\<lambda>_.
        bnd (gets mg_step) (\<lambda>n. ret (ev_quick_check env n)))))
      (\<lambda>_ w'. idle_at p d w' \<and> idle_at b d w' \<and> b \<noteq> p) (\<lambda>_. idle_at p d) w1" if "?P w1" for w1
    using that
    by (auto simp: with_db_def connect_db_def run_sql_def close_db_def wp idle_at_def fun_upd_idem
        split: option.splits node.splits)
  show ?thesis unfolding backup_database_def wp_bnd
    by (rule wlp_mono [OF idle_make_dirs [OF w]])
      (auto simp: wp_call_out wp_require split: option.splits
        intro!: wlp_mono [OF copy] wlp_mono [OF open_b] simp: idle_at_def)
qed

section \<open>Applying a migration\<close>

text \<open>The destination: nothing yet, or a database with the content \<open>d\<close>.\<close>

definition dest_at :: "path \<Rightarrow> memory_db \<Rightarrow> mig_world \<Rightarrow> bool" where
  "dest_at p d w \<longleftrightarrow> mg_saved w = None
     \<and> (mg_fs w p = DbNode d \<or> mg_fs w p = NoNode \<and> d = new_db \<and> path_parts p \<noteq> [])"

text \<open>The backup that was asked for holds \<open>d\<close>.\<close>

definition backed_up :: "mig_env \<Rightarrow> mig_args \<Rightarrow> memory_db \<Rightarrow> mig_world \<Rightarrow> bool" where
  "backed_up env a d w \<longleftrightarrow> (\<exists>b. backup_file a = Some b \<and> mg_fs w (ev_resolve env b) = DbNode d
     \<and> ev_resolve env b \<noteq> ev_resolve env (ma_to a))"

text \<open>The report goes neither to the destination nor to the backup.\<close>

definition report_apart :: "mig_env \<Rightarrow> mig_args \<Rightarrow> bool" where
  "report_apart env a \<longleftrightarrow> (\<forall>q \<in> {report_file env a, tmp_path (report_file env a)}.
     q \<noteq> ev_resolve env (ma_to a) \<and> (\<forall>b. backup_file a = Some b \<longrightarrow> q \<noteq> ev_resolve env b))"

lemma parent_prefix: "path_parts p \<noteq> [] \<Longrightarrow> p \<notin> set (path_prefixes (path_parent p))"
proof
  assume parts: "path_parts p \<noteq> []" and "p \<in> set (path_prefixes (path_parent p))"
  then obtain n where "p = Path (path_root p) (take n (butlast (path_parts p)))"
    by (auto simp: path_prefixes_def path_parent_def)
  then have "path_parts p = take n (butlast (path_parts p))" by (metis path.sel(2))
  then have "length (path_parts p) \<le> length (butlast (path_parts p))" by (metis length_take min.cobounded1)
  moreover have "0 < length (path_parts p)" using parts by simp
  ultimately show False unfolding length_butlast by linarith
qed

lemma dest_make_dirs:
  assumes "dest_at p d w"
  shows "wlp (make_dirs env (path_parent p)) (\<lambda>_. dest_at p d) (\<lambda>_. dest_at p d) w"
proof (cases "mg_fs w p = DbNode d")
  case True
  then have "idle_at p d w" using assms by (simp add: dest_at_def idle_at_def)
  then show ?thesis
    by (rule wlp_mono [OF idle_make_dirs]) (auto simp: dest_at_def idle_at_def)
next
  case False
  then have "mg_saved w = None" "mg_fs w p = NoNode" "d = new_db" "path_parts p \<noteq> []"
    using assms by (auto simp: dest_at_def)
  then show ?thesis using parent_prefix
    by (auto simp: make_dirs_def wp dest_at_def split: option.splits)
qed

lemma dest_backup:
  assumes w: "dest_at p d w" and p: "p = ev_resolve env (ma_to a)"
  shows "wlp (if mg_fs w p \<noteq> NoNode then (case backup_file a of
           None \<Rightarrow> raise (os_error ''an existing destination requires backup_path'')
         | Some b \<Rightarrow> backup_database env p (ev_resolve env b)) else ret ())
      (\<lambda>_ w'. dest_at p d w' \<and> (mg_fs w p \<noteq> NoNode \<longrightarrow> backed_up env a d w')) (\<lambda>_ w'. mg_fs w p \<noteq> NoNode \<and> idle_at p d w') w"
proof (cases "mg_fs w p = NoNode")
  case True
  then show ?thesis using w by (simp add: wp)
next
  case False
  then have idle: "idle_at p d w" using w by (auto simp: dest_at_def idle_at_def)
  have "wlp (backup_database env p (ev_resolve env b))
      (\<lambda>_ w'. dest_at p d w' \<and> backed_up env a d w') (\<lambda>_. idle_at p d) w" if "backup_file a = Some b" for b
    by (rule wlp_mono [OF backup_rule [OF idle]]) (use that p in \<open>auto simp: dest_at_def idle_at_def backed_up_def\<close>)
  then show ?thesis using False idle by (auto simp: wp split: option.splits)
qed

lemma finish_rule:
  assumes "idle_at (ev_resolve env (ma_to a)) d w" and "report_apart env a" and "existed \<longrightarrow> backed_up env a d0 w"
  shows "wlp (finish_migration env a started existed su)
      (\<lambda>su' w'. idle_at (ev_resolve env (ma_to a)) d w' \<and> (existed \<longrightarrow> backed_up env a d0 w')
         \<and> su_migrated su' = su_migrated su \<and> su_skipped_keys su' = su_skipped_keys su)
      (\<lambda>_ w'. idle_at (ev_resolve env (ma_to a)) d w' \<and> (existed \<longrightarrow> backed_up env a d0 w')) w"
proof -
  let ?p = "ev_resolve env (ma_to a)"
  have keep: "wlp (write_report env (report_file env a) su')
      (\<lambda>_ w'. idle_at ?p d w' \<and> (existed \<longrightarrow> backed_up env a d0 w'))
      (\<lambda>_ w'. idle_at ?p d w' \<and> (existed \<longrightarrow> backed_up env a d0 w')) w" for su'
  proof (cases existed)
    case True
    then obtain b where b: "backup_file a = Some b" "idle_at (ev_resolve env b) d0 w" "ev_resolve env b \<noteq> ?p"
      using assms(1,3) by (auto simp: backed_up_def idle_at_def)
    then have "wlp (write_report env (report_file env a) su')
        (\<lambda>_ w'. idle_at ?p d w' \<and> idle_at (ev_resolve env b) d0 w')
        (\<lambda>_ w'. idle_at ?p d w' \<and> idle_at (ev_resolve env b) d0 w') w"
      unfolding wlp_conj using assms(1,2) by (auto simp: report_apart_def intro!: idle_write_report)
    then show ?thesis by (rule wlp_mono) (use b in \<open>auto simp: backed_up_def idle_at_def\<close>)
  next
    case False
    then show ?thesis using assms(1,2) by (auto simp: report_apart_def intro!: idle_write_report)
  qed
  show ?thesis unfolding finish_migration_def migration_elapsed_def bnd_assoc Let_def
    by (auto simp: wp intro!: wlp_mono [OF keep])
qed

text \<open>What a migration that returned, and one that raised, leave at the destination.\<close>

definition applied ::
  "(memory_db \<Rightarrow> memory_db \<Rightarrow> nat \<Rightarrow> string list \<Rightarrow> bool) \<Rightarrow> path \<Rightarrow> memory_db \<Rightarrow> nat \<Rightarrow> string list \<Rightarrow> mig_world \<Rightarrow> bool" where
  "applied R p d0 m ks w \<longleftrightarrow> mg_saved w = None
     \<and> (\<exists>d d'. same_rows d0 d \<and> mg_fs w p = DbNode d' \<and> R d d' m ks)"

definition unapplied :: "path \<Rightarrow> memory_db \<Rightarrow> mig_world \<Rightarrow> bool" where
  "unapplied p d0 w \<longleftrightarrow> mg_saved w = None \<and> same_rows d0 (db_of (mg_fs w p))"

lemma unapplied_dest: "dest_at p d w \<Longrightarrow> unapplied p d w"
  by (auto simp: dest_at_def unapplied_def db_of_def)

lemma unapplied_idle: "idle_at p d w \<Longrightarrow> unapplied p d w"
  by (auto simp: idle_at_def unapplied_def db_of_def)

lemma apply_rule:
  assumes w: "dest_at p d0 w" and p: "p = ev_resolve env (ma_to a)" and apart: "report_apart env a"
    and loop: "\<And>fs d w'. same_rows d0 d \<Longrightarrow> in_db fs p (Some d) d w' \<Longrightarrow>
      wlp (migrate_rows env a p (path_str (ev_resolve env (ma_from a))) rows [] su)
      (\<lambda>(keys, su') w'. \<exists>d'. in_db fs p (Some d) d' w' \<and> R d d' (su_migrated su') (su_skipped_keys su'))
      (\<lambda>_. in_some_db fs p (Some d)) w'"
  shows "wlp (apply_migration env a started rows su)
      (\<lambda>su' w'. applied R p d0 (su_migrated su') (su_skipped_keys su') w'
         \<and> (mg_fs w p \<noteq> NoNode \<longrightarrow> backed_up env a d0 w'))
      (\<lambda>_ w'. (unapplied p d0 w' \<or> (\<exists>m ks. applied R p d0 m ks w'))
         \<and> (mg_fs w p \<noteq> NoNode \<longrightarrow> backed_up env a d0 w' \<or> mg_fs w' p = DbNode d0)) w"
proof -
  let ?src = "path_str (ev_resolve env (ma_from a))" and ?ex = "mg_fs w p \<noteq> NoNode"
  let ?B = "\<lambda>w'. ?ex \<longrightarrow> backed_up env a d0 w'"
  let ?Q = "\<lambda>su' w'. applied R p d0 (su_migrated su') (su_skipped_keys su') w' \<and> ?B w'"
  let ?E = "\<lambda>(_::pyexc) w'. (unapplied p d0 w' \<or> (\<exists>m ks. applied R p d0 m ks w'))
         \<and> (?ex \<longrightarrow> backed_up env a d0 w' \<or> mg_fs w' p = DbNode d0)"
  have finish: "wlp (finish_migration env a started ?ex su') ?Q ?E w1"
    if "same_rows d0 d" "in_db fs p None d' w1" "R d d' (su_migrated su') (su_skipped_keys su')" "?B w1" for fs d d' su' w1
  proof -
    have "idle_at p d' w1" using that(2) by (simp add: in_db_def idle_at_def)
    then show ?thesis unfolding p
      by (rule wlp_mono [OF finish_rule [OF _ apart]])
        (use that p in \<open>auto simp: applied_def idle_at_def\<close>)
  qed
  have db: "wlp (migrate_db env a p ?src rows su) (\<lambda>su'. wlp (finish_migration env a started ?ex su') ?Q ?E) ?E w1"
    if d: "dest_at p d0 w1" and b: "?B w1" for w1
  proof -
    have node: "mg_saved w1 = None" "mg_fs w1 p = NoNode \<and> d0 = new_db \<or> mg_fs w1 p = DbNode d0"
      using d by (auto simp: dest_at_def)
    have B: "?B w'" if "in_db (mg_fs w1) p None d' w'" for d' w'
      using b that p by (auto simp: backed_up_def in_db_def)
    have U: "unapplied p d0 w' \<and> ?B w'" if "mg_saved w' = None" "mg_fs w' = mg_fs w1" for w'
      using that d b by (auto simp: unapplied_def dest_at_def backed_up_def db_of_def)
    have failed: "?E e t" if "mg_saved t = None" "same_rows d0 d" "in_db (mg_fs w1) p None d t" for e :: pyexc and d t
      using that B [OF that(3)] by (simp add: unapplied_def in_db_def db_of_def)
    show ?thesis
    proof (rule wlp_mono [OF migrate_db_rule [where R = R, OF node loop]])
      fix su' :: mig_summary and t
      assume "\<exists>d. same_rows d0 d \<and> (\<exists>d'. in_db (mg_fs w1) p None d' t \<and> R d d' (su_migrated su') (su_skipped_keys su'))"
      then show "wlp (finish_migration env a started ?ex su') ?Q ?E t" using finish B by blast
    next
      fix e t
      assume "mg_saved t = None \<and> (mg_fs t = mg_fs w1 \<or> (\<exists>d. same_rows d0 d \<and> in_db (mg_fs w1) p None d t))"
      then show "?E e t" using U failed by blast
    qed
  qed
  have dirs: "wlp (make_dirs env (path_parent p)) (\<lambda>_ w'. dest_at p d0 w' \<and> ?B w')
      (\<lambda>_ w'. dest_at p d0 w' \<and> ?B w') w1" if d: "dest_at p d0 w1" and b: "?B w1" for w1
  proof (cases ?ex)
    case True
    then obtain b where b: "backup_file a = Some b" "idle_at (ev_resolve env b) d0 w1" "ev_resolve env b \<noteq> p"
      using b d p by (auto simp: backed_up_def idle_at_def dest_at_def)
    have "wlp (make_dirs env (path_parent p)) (\<lambda>_ w'. dest_at p d0 w' \<and> idle_at (ev_resolve env b) d0 w')
        (\<lambda>_ w'. dest_at p d0 w' \<and> idle_at (ev_resolve env b) d0 w') w1"
      unfolding wlp_conj using dest_make_dirs [OF d] idle_make_dirs [OF b(2)] by blast
    then show ?thesis by (rule wlp_mono) (use b p in \<open>auto simp: backed_up_def idle_at_def\<close>)
  qed (use dest_make_dirs [OF d] in simp)
  show ?thesis unfolding apply_migration_def p [symmetric] Let_def wp_bnd wp_gets
    by (rule wlp_mono [OF dest_backup [OF w p]], rule wlp_mono [OF dirs])
      (auto intro: db simp: unapplied_dest unapplied_idle idle_at_def)
qed

section \<open>The whole migration\<close>

definition legacy_rows :: "node \<Rightarrow> (sql_value \<times> sql_value) list option" where
  "legacy_rows n = (case n of DbNode d \<Rightarrow> sd_kv d | _ \<Rightarrow> None)"

lemma read_legacy_rule:
  assumes "mg_saved w = None" and "mg_fs w q \<noteq> NoNode"
  shows "wlp (read_legacy env q)
      (\<lambda>rows w'. mg_fs w' = mg_fs w \<and> mg_saved w' = None \<and> legacy_rows (mg_fs w q) = Some rows)
      (\<lambda>_ w'. mg_fs w' = mg_fs w \<and> mg_saved w' = None) w"
  using assms
  by (auto simp: read_legacy_def with_db_def connect_db_def run_sql_def close_db_def legacy_rows_def wp fun_upd_idem
      split: option.splits node.splits sum.splits)

lemma migrate_rule:
  assumes w: "dest_at (ev_resolve env (ma_to a)) d0 w" and apart: "report_apart env a"
    and loop: "\<And>rows su fs d w'. legacy_rows (mg_fs w (ev_resolve env (ma_from a))) = Some rows \<Longrightarrow>
      su_migrated su = 0 \<Longrightarrow> su_skipped_keys su = [] \<Longrightarrow>
      same_rows d0 d \<Longrightarrow> in_db fs (ev_resolve env (ma_to a)) (Some d) d w' \<Longrightarrow>
      wlp (migrate_rows env a (ev_resolve env (ma_to a)) (path_str (ev_resolve env (ma_from a))) rows [] su)
      (\<lambda>(keys, su') w'. \<exists>d'. in_db fs (ev_resolve env (ma_to a)) (Some d) d' w' \<and> R rows d d' (su_migrated su') (su_skipped_keys su'))
      (\<lambda>_. in_some_db fs (ev_resolve env (ma_to a)) (Some d)) w'"
  defines "p \<equiv> ev_resolve env (ma_to a)"
  shows "wlp (migrate env a)
      (\<lambda>su w'. if ma_dry_run a then mg_fs w' = mg_fs w
         else ma_allow_modify a \<and> (\<exists>rows. legacy_rows (mg_fs w (ev_resolve env (ma_from a))) = Some rows
           \<and> applied (R rows) p d0 (su_migrated su) (su_skipped_keys su) w')
           \<and> (mg_fs w p \<noteq> NoNode \<longrightarrow> backed_up env a d0 w'))
      (\<lambda>_ w'. mg_fs w' = mg_fs w
         \<or> \<not> ma_dry_run a \<and> ma_allow_modify a
           \<and> (unapplied p d0 w' \<or> (\<exists>rows m ks. legacy_rows (mg_fs w (ev_resolve env (ma_from a))) = Some rows
               \<and> applied (R rows) p d0 m ks w'))
           \<and> (mg_fs w p \<noteq> NoNode \<longrightarrow> backed_up env a d0 w' \<or> mg_fs w' p = DbNode d0)) w"
proof -
  let ?src = "ev_resolve env (ma_from a)"
  have saved: "mg_saved w = None" using w by (simp add: dest_at_def)
  have write_part: "wlp (apply_migration env a started rows su)
      (\<lambda>su w'. applied (R rows) p d0 (su_migrated su) (su_skipped_keys su) w'
         \<and> (mg_fs w p \<noteq> NoNode \<longrightarrow> backed_up env a d0 w'))
      (\<lambda>_ w'. mg_fs w' = mg_fs w \<or> (unapplied p d0 w' \<or> (\<exists>m ks. applied (R rows) p d0 m ks w'))
         \<and> (mg_fs w p \<noteq> NoNode \<longrightarrow> backed_up env a d0 w' \<or> mg_fs w' p = DbNode d0)) w1"
    if "mg_fs w1 = mg_fs w" "mg_saved w1 = None" "legacy_rows (mg_fs w ?src) = Some rows"
      "su_migrated su = 0" "su_skipped_keys su = []" for w1 rows su started
  proof -
    have d: "dest_at p d0 w1" using w that(1,2) by (simp add: dest_at_def p_def)
    show ?thesis
      by (rule wlp_mono [OF apply_rule [where R = "R rows", OF d p_def [THEN meta_eq_to_obj_eq] apart]])
        (use that loop in \<open>auto simp: p_def\<close>)
  qed
  have read: "wlp (read_legacy env ?src)
      (\<lambda>rows w'. mg_fs w' = mg_fs w \<and> mg_saved w' = None \<and> legacy_rows (mg_fs w ?src) = Some rows)
      (\<lambda>_ w'. mg_fs w' = mg_fs w \<and> mg_saved w' = None) w" if "mg_fs w ?src \<noteq> NoNode"
    by (rule read_legacy_rule [OF saved that])
  show ?thesis unfolding migrate_def Let_def wp_bnd wp_gets wp_require
    by (auto simp: wp_if wp migration_elapsed_def intro!: wlp_mono [OF read] write_part)
qed

lemma merged_same: "same_rows d0 d \<Longrightarrow> merged env a src rows ks d d' \<Longrightarrow> merged env a src rows ks d0 d'"
  by (auto simp: same_rows_def merged_def registry_merged_def memory_merged_def split: if_splits)

lemma migrate_outcome:
  assumes "dest_at (ev_resolve env (ma_to a)) d0 w" and "report_apart env a"
  shows "wlp (migrate env a)
      (\<lambda>su w'. if ma_dry_run a then mg_fs w' = mg_fs w
         else ma_allow_modify a \<and> (\<exists>rows. legacy_rows (mg_fs w (ev_resolve env (ma_from a))) = Some rows
           \<and> applied (\<lambda>d d' _ _. merged env a (path_str (ev_resolve env (ma_from a))) rows (SqlText ` set (row_keys env rows)) d d')
               (ev_resolve env (ma_to a)) d0 (su_migrated su) (su_skipped_keys su) w')
           \<and> (mg_fs w (ev_resolve env (ma_to a)) \<noteq> NoNode \<longrightarrow> backed_up env a d0 w'))
      (\<lambda>_ w'. mg_fs w' = mg_fs w
         \<or> \<not> ma_dry_run a \<and> ma_allow_modify a
           \<and> (unapplied (ev_resolve env (ma_to a)) d0 w'
             \<or> (\<exists>rows m ks. legacy_rows (mg_fs w (ev_resolve env (ma_from a))) = Some rows
               \<and> applied (\<lambda>d d' _ _. merged env a (path_str (ev_resolve env (ma_from a))) rows (SqlText ` set (row_keys env rows)) d d')
                   (ev_resolve env (ma_to a)) d0 m ks w'))
           \<and> (mg_fs w (ev_resolve env (ma_to a)) \<noteq> NoNode \<longrightarrow>
               backed_up env a d0 w' \<or> mg_fs w' (ev_resolve env (ma_to a)) = DbNode d0)) w"
  by (rule migrate_rule [OF assms, where R = "\<lambda>rows d d' _ _. merged env a (path_str (ev_resolve env (ma_from a))) rows
        (SqlText ` set (row_keys env rows)) d d'"])
    (rule wlp_mono [OF migrate_rows_rule [OF _ subset_refl merged_start]]; auto)

lemma applied_merged:
  "applied (\<lambda>d d' _ _. merged env a src rows ks d d') p d0 m s w \<Longrightarrow> merged env a src rows ks d0 (db_of (mg_fs w p))"
  by (auto simp: applied_def db_of_def intro: merged_same)

lemma unchanged_rows: "dest_at p d w \<Longrightarrow> mg_fs w' p = mg_fs w p \<Longrightarrow> same_rows d (db_of (mg_fs w' p))"
  by (auto simp: dest_at_def db_of_def)

text \<open>A migration on an idle machine: one legacy row, which is not a vector.\<close>

definition quiet_env :: mig_env where
  "quiet_env = \<lparr>ev_fault = (\<lambda>_. None), ev_now = (\<lambda>_. ''now''), ev_clock = (\<lambda>_. 0), ev_resolve = parse_path,
     ev_sha256 = (\<lambda>_. ''h''), ev_utf8 = (\<lambda>_. []), ev_utf8_decode = (\<lambda>_. []), ev_repr = (\<lambda>_. []),
     ev_bytes_repr = (\<lambda>_. []),
     ev_loads = (\<lambda>s. if s = ''v'' then Inl (Exc PyValueError ''Expecting value'')
        else Inr (object [(''migrated_from'', VNone), (''original_sha256'', VNone)])),
     ev_loads_bytes = (\<lambda>_. Inr VNone), ev_float_text = (\<lambda>_. []), ev_sql_real = (\<lambda>_. []),
     ev_rowid = (\<lambda>_. 1), ev_size = (\<lambda>_ _. 0), ev_quick_check = (\<lambda>_. Some ''ok'')\<rparr>"

definition sample_args :: mig_args where
  "sample_args = \<lparr>ma_from = ''/s'', ma_to = ''/d'', ma_dry_run = False, ma_target_schema = ''registry'',
     ma_allow_modify = True, ma_overwrite = False, ma_backup_path = Some ''/b'', ma_report_path = Some ''/r''\<rparr>"

definition sample_world :: mig_world where
  "sample_world = \<lparr>mg_fs = (\<lambda>_. NoNode)(
       Path ''/'' [] := DirNode, Path ''/'' [''s''] := DbNode (new_db\<lparr>sd_kv := Some [(SqlText ''k'', SqlText ''v'')]\<rparr>),
       Path ''/'' [''d''] := DbNode new_db), mg_step = 0, mg_saved = None\<rparr>"

lemma sample_setting:
  "dest_at (ev_resolve quiet_env (ma_to sample_args)) new_db sample_world" "report_apart quiet_env sample_args"
  by (simp_all add: dest_at_def report_apart_def report_file_def tmp_path_def backup_file_def
      quiet_env_def sample_args_def sample_world_def parse_path_def)

section \<open>Claims\<close>



text \<open>
  Nothing is written by a dry run, or without \<open>allow_modify\<close>; and an existing destination is
  as it was unless the requested backup holds its old content.
\<close>

theorem migration_backed_up:
  assumes dest: "dest_at (ev_resolve env (ma_to a)) d w" and apart: "report_apart env a"
    and run: "migrate env a w = (r, w')"
  shows "((ma_dry_run a \<or> \<not> ma_allow_modify a) \<longrightarrow> mg_fs w' = mg_fs w)
    \<and> (mg_fs w (ev_resolve env (ma_to a)) = DbNode d \<longrightarrow>
        mg_fs w' (ev_resolve env (ma_to a)) = DbNode d \<or> backed_up env a d w')"
proof (cases r)
  case (Inl e)
  show ?thesis using wlp_run(2) [OF migrate_outcome [OF dest apart] run [unfolded Inl]] by auto
next
  case (Inr su)
  show ?thesis using wlp_run(1) [OF migrate_outcome [OF dest apart] run [unfolded Inr]]
    by (auto split: if_splits)
qed

theorem migration_backed_up_witness:
  "((ma_dry_run sample_args \<or> \<not> ma_allow_modify sample_args)
      \<longrightarrow> mg_fs (snd (migrate quiet_env sample_args sample_world)) = mg_fs sample_world)
    \<and> (mg_fs sample_world (ev_resolve quiet_env (ma_to sample_args)) = DbNode new_db \<longrightarrow>
        mg_fs (snd (migrate quiet_env sample_args sample_world)) (ev_resolve quiet_env (ma_to sample_args)) = DbNode new_db
        \<or> backed_up quiet_env sample_args new_db (snd (migrate quiet_env sample_args sample_world)))"
  using migration_backed_up [OF sample_setting, of "fst (migrate quiet_env sample_args sample_world)"
      "snd (migrate quiet_env sample_args sample_world)"]
  by simp

text \<open>
  A second migration of the same rows finds nothing to do: without \<open>overwrite\<close> it migrates no
  row, names every key as skipped and leaves the rows of the destination as they are.
\<close>

theorem second_migration_idle:
  assumes dest: "dest_at (ev_resolve env (ma_to a)) d w" and apart: "report_apart env a"
    and run: "migrate env a w = (Inr su, w')" and wet: "\<not> ma_dry_run a"
    and later: "mg_fs w2 (ev_resolve env (ma_to a)) = mg_fs w' (ev_resolve env (ma_to a))" "mg_saved w2 = None"
    and same: "ev_resolve env (ma_to a2) = ev_resolve env (ma_to a)" "ma_target_schema a2 = ma_target_schema a"
      "legacy_rows (mg_fs w2 (ev_resolve env (ma_from a2))) = legacy_rows (mg_fs w (ev_resolve env (ma_from a)))"
    and again: "\<not> ma_dry_run a2" "\<not> ma_overwrite a2" "report_apart env a2" "migrate env a2 w2 = (Inr su2, w3)"
  shows "su_migrated su2 = 0
    \<and> legacy_rows (mg_fs w (ev_resolve env (ma_from a))) \<noteq> None
    \<and> su_skipped_keys su2 = row_keys env (the (legacy_rows (mg_fs w (ev_resolve env (ma_from a)))))
    \<and> same_rows (db_of (mg_fs w2 (ev_resolve env (ma_to a)))) (db_of (mg_fs w3 (ev_resolve env (ma_to a))))"
proof -
  let ?p = "ev_resolve env (ma_to a)" and ?src = "ev_resolve env (ma_from a)"
  obtain rows d0 d1 where rows: "legacy_rows (mg_fs w ?src) = Some rows" and d1: "mg_fs w' ?p = DbNode d1"
    and m1: "merged env a (path_str ?src) rows (SqlText ` set (row_keys env rows)) d0 d1"
    using wlp_run(1) [OF migrate_outcome [OF dest apart] run] wet
    by (auto simp: applied_def)
  note m = merged_keys [OF m1]
  have dest2: "dest_at (ev_resolve env (ma_to a2)) d1 w2" using d1 later same(1) by (simp add: dest_at_def)
  let ?R = "\<lambda>rows' d d' m ks. d' = d \<and> m = 0 \<and> ks = row_keys env rows'"
  have loop: "wlp (migrate_rows env a2 (ev_resolve env (ma_to a2)) (path_str (ev_resolve env (ma_from a2))) rows' [] su)
      (\<lambda>(keys, su') w'. \<exists>d'. in_db fs (ev_resolve env (ma_to a2)) (Some d) d' w' \<and> ?R rows' d d' (su_migrated su') (su_skipped_keys su'))
      (\<lambda>_. in_some_db fs (ev_resolve env (ma_to a2)) (Some d)) w1"
    if "legacy_rows (mg_fs w2 (ev_resolve env (ma_from a2))) = Some rows'" "su_migrated su = 0" "su_skipped_keys su = []"
      "same_rows d1 d" "in_db fs (ev_resolve env (ma_to a2)) (Some d) d w1" for rows' su fs d w1
  proof -
    have "target_keys a2 d = target_keys a d1"
      using that(4) same(2) by (simp add: same_rows_def target_keys_def)
    then have "SqlText ` set (row_keys env rows') \<subseteq> target_keys a2 d"
      using m that(1) rows same(3) by simp
    from migrate_rows_all_present [OF that(5) again(2) this] show ?thesis
      by (rule wlp_mono) (use that(2,3) in auto)
  qed
  obtain rows' where r: "legacy_rows (mg_fs w2 (ev_resolve env (ma_from a2))) = Some rows'"
    and ap: "applied (?R rows') (ev_resolve env (ma_to a2)) d1 (su_migrated su2) (su_skipped_keys su2) w3"
    using wlp_run(1) [OF migrate_rule [where R = ?R, OF dest2 again(3) loop] again(4)]
    by (simp only: again(1) if_False) blast
  obtain d where "same_rows d1 d" "mg_fs w3 ?p = DbNode d" "su_migrated su2 = 0" "su_skipped_keys su2 = row_keys env rows'"
    using ap unfolding applied_def same(1) by blast
  moreover have "rows' = rows" using r rows same(3) by simp
  moreover have "mg_fs w2 ?p = DbNode d1" using later(1) d1 by simp
  ultimately show ?thesis using rows by (simp add: db_of_def)
qed

text \<open>The sample row migrated into the other schema, and the world after that.\<close>

definition memory_args :: mig_args where
  "memory_args = sample_args\<lparr>ma_target_schema := ''memory_entries''\<rparr>"

definition memory_result :: memory_db where
  "memory_result = new_db\<lparr>sd_memory := Some [\<lparr>mr_key = SqlText ''k'', mr_value = SqlText ''v'',
     mr_migrated_from = SqlText ''/s''\<rparr>]\<rparr>"

definition memory_world :: mig_world where
  "memory_world = sample_world\<lparr>mg_fs := (mg_fs sample_world)(Path ''/'' [''d''] := DbNode memory_result)\<rparr>"

lemma memory_runs:
  "is_ok (fst (migrate quiet_env memory_args sample_world))"
  "is_ok (fst (migrate quiet_env memory_args memory_world))"
  "mg_fs memory_world (ev_resolve quiet_env (ma_to memory_args))
     = mg_fs (snd (migrate quiet_env memory_args sample_world)) (ev_resolve quiet_env (ma_to memory_args))"
  by code_simp+

lemma memory_setting:
  "dest_at (ev_resolve quiet_env (ma_to memory_args)) new_db sample_world" "report_apart quiet_env memory_args"
  "mg_saved memory_world = None"
  "legacy_rows (mg_fs memory_world (ev_resolve quiet_env (ma_from memory_args)))
     = legacy_rows (mg_fs sample_world (ev_resolve quiet_env (ma_from memory_args)))"
  by (simp_all add: dest_at_def report_apart_def report_file_def tmp_path_def backup_file_def memory_args_def
      quiet_env_def sample_args_def memory_world_def sample_world_def parse_path_def)

lemma ok_run: "is_ok (fst x) \<Longrightarrow> \<exists>a. x = (Inr a, snd x)"
  by (cases x; cases "fst x") auto

theorem second_migration_idle_witness:
  "\<exists>su2 w3. migrate quiet_env memory_args memory_world = (Inr su2, w3) \<and> su_migrated su2 = 0
    \<and> same_rows (db_of (mg_fs memory_world (ev_resolve quiet_env (ma_to memory_args))))
        (db_of (mg_fs w3 (ev_resolve quiet_env (ma_to memory_args))))"
proof -
  obtain su where 1: "migrate quiet_env memory_args sample_world
      = (Inr su, snd (migrate quiet_env memory_args sample_world))"
    using ok_run [OF memory_runs(1)] by blast
  obtain su2 w3 where 2: "migrate quiet_env memory_args memory_world = (Inr su2, w3)"
    using ok_run [OF memory_runs(2)] by blast
  have wet: "\<not> ma_dry_run memory_args" "\<not> ma_overwrite memory_args"
    by (simp_all add: memory_args_def sample_args_def)
  show ?thesis
    using second_migration_idle [OF memory_setting(1,2) 1 wet(1) memory_runs(3) memory_setting(3) refl refl
        memory_setting(4) wet memory_setting(2) 2] 2
    by blast
qed

end
