(* ===== verification/Maya_Governed.thy ===== *)
theory Maya_Governed
  imports Maya_World
begin

text \<open>
  The authorization step that \<open>runtime.py\<close>, \<open>memory/retriever.py\<close> and \<open>documents.py\<close> repeat
  (\<open>_authorize\<close>, \<open>_authorize_document_action\<close>): ask the gateway, write the audit record when the answer
  asks for one, refuse what is not allowed. It is a gate in the sense of \<open>mediated_call\<close>. Then the
  governed runtime of \<open>src/project_maya/runtime.py\<close>.
\<close>

section \<open>The authorization step\<close>

text \<open>The gateway, the audit sink and the actor a governed facade is built with; a gateway may raise.\<close>

record governor =
  gv_gateway :: "ActionRequest \<Rightarrow> AuthorizationResult res"
  gv_sink :: "AuditRecord list \<Rightarrow> AuditRecord \<Rightarrow> pyexc option"
  gv_actor :: string

definition action_record :: "string \<Rightarrow> ActionRequest \<Rightarrow> AuthorizationResult \<Rightarrow> AuditRecord" where
  "action_record event action r =
     \<lparr>aud_event_type = event, aud_decision = decision_value (res_decision r),
      aud_reason_code = res_reason_code r, aud_actor_id = req_actor_id action,
      aud_capability = req_capability action, aud_target = req_target action,
      aud_operation = req_operation action, aud_classification = req_classification action,
      aud_idempotency_key = req_idempotency_key action, aud_metadata = req_metadata action\<rparr>"

definition authorize_action :: "governor \<Rightarrow> string \<Rightarrow> ActionRequest \<Rightarrow> ('z world_scheme, unit) py" where
  "authorize_action g event action =
     bnd (lift (gv_gateway g action)) (\<lambda>r.
     bnd (if res_audit_required r then sink_write (gv_sink g) (action_record event action r) else ret ()) (\<lambda>_.
     require (allowed r) (Exc ActionDeniedError (res_reason_code r))))"

text \<open>What follows an authorization in the code.\<close>

definition governed :: "governor \<Rightarrow> string \<Rightarrow> ActionRequest \<Rightarrow> ('z world_scheme, 'a) py \<Rightarrow> ('z world_scheme, 'a) py" where
  "governed g event action body = bnd (authorize_action g event action) (\<lambda>_. body)"

text \<open>
  The gateway allowed the action, and the record of that answer is the one thing that happened
  between \<open>w\<close> and \<open>v\<close> (nothing, when the answer asks for no record).
\<close>

definition action_admitted ::
  "governor \<Rightarrow> string \<Rightarrow> ActionRequest \<Rightarrow> 'z world_scheme \<Rightarrow> 'z world_scheme \<Rightarrow> bool" where
  "action_admitted g event action w v \<longleftrightarrow>
     (\<exists>r. gv_gateway g action = Inr r \<and> allowed r
        \<and> (if res_audit_required r
           then gv_sink g (w_audit w) (action_record event action r) = None
             \<and> v = w\<lparr>w_audit := w_audit w @ [action_record event action r]\<rparr>
           else v = w))"

lemma authorize_action_cases:
  "(\<exists>e v. authorize_action g event action w = (Inl e, v)) \<or>
   (\<exists>v. authorize_action g event action w = (Inr (), v) \<and> action_admitted g event action w v)"
  by (cases "gv_gateway g action")
    (auto simp: authorize_action_def bnd_def lift_def ret_def raise_def require_def sink_write_def action_admitted_def
      split: option.splits)

lemma governed_split:
  "(\<exists>e v. \<forall>body. governed g event action body w = (Inl e, v)) \<or>
   (\<exists>v. action_admitted g event action w v \<and> (\<forall>body. governed g event action body w = body v))"
  using authorize_action_cases [of g event action w] by (auto simp: governed_def bnd_def)

text \<open>An authorization before what is a gate itself.\<close>

lemma governed_then:
  assumes inner: "\<And>v. (\<exists>e u. \<forall>b. m b v = (Inl e, u)) \<or> (\<exists>x u. P v x u \<and> (\<forall>b. m b v = go x b u))"
  shows "(\<exists>e u. \<forall>b. governed g event action (m b) w = (Inl e, u)) \<or>
     (\<exists>x u. (\<exists>v. action_admitted g event action w v \<and> P v x u) \<and> (\<forall>b. governed g event action (m b) w = go x b u))"
proof (rule disjE [OF authorize_action_cases [of g event action w]])
  assume "\<exists>e v. authorize_action g event action w = (Inl e, v)"
  then show ?thesis by (auto simp: governed_def bnd_def)
next
  assume "\<exists>v. authorize_action g event action w = (Inr (), v) \<and> action_admitted g event action w v"
  then obtain v where v: "action_admitted g event action w v" "governed g event action (m b) w = m b v" for b
    by (auto simp: governed_def bnd_def)
  from inner [of v] show ?thesis unfolding v(2) using v(1) by blast
qed

interpretation action_gate: mediated_call "governed g event action" "\<lambda>w (_ :: unit) v. action_admitted g event action w v"
  "\<lambda>_ body. body" for g event action
  by unfold_locales (use governed_split in blast)

lemma refused_when_not_allowed:
  "(\<And>r. gv_gateway g action = Inr r \<Longrightarrow> \<not> allowed r) \<Longrightarrow> \<exists>e v. \<forall>body. governed g event action body w = (Inl e, v)"
  by (rule action_gate.refused) (auto simp: action_admitted_def)

section \<open>The governed runtime\<close>

text \<open>\<open>ModelEgressPolicy\<close>, its target and its metadata.\<close>

record ModelEgressPolicy =
  eg_mode :: string
  eg_provider :: string
  eg_endpoint :: "string option"
  eg_redaction :: string
  eg_consent :: string

definition egress_target :: "ModelEgressPolicy \<Rightarrow> string" where
  "egress_target p = ''model:'' @ eg_provider p"

definition bool_text :: "bool \<Rightarrow> string" where
  "bool_text b = (if b then ''true'' else ''false'')"

definition egress_metadata :: "ModelEgressPolicy \<Rightarrow> (string \<times> string) list" where
  "egress_metadata p =
     [(''mode'', eg_mode p), (''provider'', eg_provider p),
      (''endpoint_configured'', bool_text (eg_endpoint p \<noteq> None \<and> eg_endpoint p \<noteq> Some [])),
      (''redaction'', eg_redaction p), (''consent'', eg_consent p)]"

definition run_action :: "governor \<Rightarrow> string \<Rightarrow> string option \<Rightarrow> ActionRequest" where
  "run_action g classification key =
     \<lparr>req_actor_id = gv_actor g, req_capability = ''runtime.execute'', req_target = ''hermes-agent'',
      req_operation = ''run'', req_classification = classification, req_idempotency_key = key,
      req_metadata = [(''request_type'', ''agent_request'')]\<rparr>"

definition egress_action :: "governor \<Rightarrow> ModelEgressPolicy \<Rightarrow> string \<Rightarrow> string option \<Rightarrow> ActionRequest" where
  "egress_action g p classification key =
     \<lparr>req_actor_id = gv_actor g, req_capability = ''model.egress'', req_target = egress_target p,
      req_operation = ''infer'', req_classification = classification, req_idempotency_key = key,
      req_metadata = egress_metadata p\<rparr>"

text \<open>
  \<open>GovernedAgentRuntime.run\<close>; \<open>agent\<close> is the call of the wrapped runtime. The arguments
  \<open>data_classification\<close> and \<open>idempotency_key\<close> are \<open>None\<close> when the caller leaves them out.
\<close>

definition governed_run :: "governor \<Rightarrow> ModelEgressPolicy option \<Rightarrow> string option \<Rightarrow> string option
    \<Rightarrow> ('z world_scheme, 'a) py \<Rightarrow> ('z world_scheme, 'a) py" where
  "governed_run g egress data_classification idempotency_key agent =
     (let classification = (case data_classification of None \<Rightarrow> ''internal'' | Some c \<Rightarrow> c);
          identified = bind_request_identity (gv_actor g) classification agent
      in governed g ''authorization.runtime'' (run_action g classification idempotency_key)
           (case egress of
              None \<Rightarrow> identified
            | Some p \<Rightarrow> governed g ''authorization.model_egress'' (egress_action g p classification idempotency_key)
                identified))"

definition run_admitted :: "governor \<Rightarrow> ModelEgressPolicy option \<Rightarrow> string option \<Rightarrow> string option
    \<Rightarrow> 'z world_scheme \<Rightarrow> RequestIdentity \<Rightarrow> 'z world_scheme \<Rightarrow> bool" where
  "run_admitted g egress data_classification key w i v \<longleftrightarrow>
     (let classification = (case data_classification of None \<Rightarrow> ''internal'' | Some c \<Rightarrow> c)
      in i = \<lparr>id_actor = gv_actor g, id_classification = classification\<rparr>
         \<and> is_identifier (gv_actor g) \<and> classification \<in> set classifications
         \<and> (\<exists>u. action_admitted g ''authorization.runtime'' (run_action g classification key) w u
              \<and> (case egress of None \<Rightarrow> v = u
                 | Some p \<Rightarrow> action_admitted g ''authorization.model_egress'' (egress_action g p classification key) u v)))"

lemma identity_split:
  "(\<exists>e u. \<forall>body. bind_request_identity actor c body w = (Inl e, u)) \<or>
   (\<exists>i u. (i = \<lparr>id_actor = actor, id_classification = c\<rparr> \<and> is_identifier actor \<and> c \<in> set classifications \<and> u = w)
     \<and> (\<forall>body. bind_request_identity actor c body w = with_identity i body u))"
  by (auto simp: bind_request_identity_def bnd_def require_def ret_def raise_def)

lemma run_split:
  fixes w :: "'z world_scheme"
  shows "(\<exists>e v. \<forall>agent :: ('z world_scheme, 'a) py. governed_run g egress c k agent w = (Inl e, v)) \<or>
   (\<exists>i v. run_admitted g egress c k w i v
     \<and> (\<forall>agent :: ('z world_scheme, 'a) py. governed_run g egress c k agent w = with_identity i agent v))"
proof -
  define cl where "cl = (case c of None \<Rightarrow> ''internal'' | Some c \<Rightarrow> c)"
  let ?bind = "\<lambda>agent :: ('z world_scheme, 'a) py. bind_request_identity (gv_actor g) cl agent"
  let ?P = "\<lambda>(w :: 'z world_scheme) i u. i = \<lparr>id_actor = gv_actor g, id_classification = cl\<rparr>
      \<and> is_identifier (gv_actor g) \<and> cl \<in> set classifications \<and> u = w"
  let ?run = "run_action g cl k"
  have bound: "(\<exists>e u. \<forall>b. ?bind b v = (Inl e, u)) \<or> (\<exists>i u. ?P v i u \<and> (\<forall>b. ?bind b v = with_identity i b u))" for v
    by (rule identity_split)
  show ?thesis
  proof (cases egress)
    case None
    have "(\<exists>e u. \<forall>b. governed g ''authorization.runtime'' ?run (?bind b) w = (Inl e, u)) \<or>
        (\<exists>i u. (\<exists>v. action_admitted g ''authorization.runtime'' ?run w v \<and> ?P v i u)
          \<and> (\<forall>b. governed g ''authorization.runtime'' ?run (?bind b) w = with_identity i b u))"
      by (rule governed_then [OF bound])
    then show ?thesis using None
      unfolding governed_run_def run_admitted_def cl_def [symmetric] Let_def by simp blast
  next
    case (Some p)
    let ?egress = "egress_action g p cl k"
    let ?inner = "\<lambda>b. governed g ''authorization.model_egress'' ?egress (?bind b)"
    have "(\<exists>e u. \<forall>b. ?inner b v = (Inl e, u)) \<or>
        (\<exists>i u. (\<exists>u'. action_admitted g ''authorization.model_egress'' ?egress v u' \<and> ?P u' i u)
          \<and> (\<forall>b. ?inner b v = with_identity i b u))" for v
      by (rule governed_then [OF bound])
    then have "(\<exists>e u. \<forall>b. governed g ''authorization.runtime'' ?run (?inner b) w = (Inl e, u)) \<or>
        (\<exists>i u. (\<exists>v. action_admitted g ''authorization.runtime'' ?run w v
            \<and> (\<exists>u'. action_admitted g ''authorization.model_egress'' ?egress v u' \<and> ?P u' i u))
          \<and> (\<forall>b. governed g ''authorization.runtime'' ?run (?inner b) w = with_identity i b u))"
      by (rule governed_then)
    then show ?thesis using Some
      unfolding governed_run_def run_admitted_def cl_def [symmetric] Let_def by simp blast
  qed
qed

interpretation run_gate: mediated_call "governed_run g egress c k" "run_admitted g egress c k"
  "\<lambda>i agent. with_identity i agent" for g egress c k
  by unfold_locales (rule run_split)

section \<open>Claims\<close>

text \<open>
  C22. The agent runs only when authorized. For every request and state, the run is refused with an
  exception and a state that do not depend on the agent, or the gateway allowed the run and, where a
  model is configured, the egress to that model, the records of these answers are in the audit log,
  the actor and the classification are valid, and the agent runs once under that identity.
\<close>

theorem agent_run_mediated:
  fixes w :: "'z world_scheme"
  shows "(\<exists>e v. \<forall>agent :: ('z world_scheme, 'a) py. governed_run g egress c k agent w = (Inl e, v)) \<or>
   (\<exists>i v. run_admitted g egress c k w i v
     \<and> (\<forall>agent :: ('z world_scheme, 'a) py. governed_run g egress c k agent w = with_identity i agent v))"
  by (rule run_split)

end
