(* ===== verification/Maya_Memory.thy ===== *)
theory Maya_Memory
  imports Maya_Governed Maya_Json
begin

text \<open>
  Governed memory: the contract of a retriever (\<open>src/project_maya/memory/retriever.py\<close>) as the
  locale \<open>retriever\<close>, the two facades over it, the provider the agent sees
  (\<open>memory/provider.py\<close>), and the store in a JSON file (\<open>memory/local.py\<close>) on which the locale is
  interpreted. Theorems: every memory call is mediated, what was remembered is recalled, the file
  refines a map from identities to documents, and a search returns the first matches.
\<close>

section \<open>Documents\<close>

text \<open>\<open>_document_id\<close>: the first of three keys with a value that is true.\<close>

definition document_id :: "(pyval \<Rightarrow> string) \<Rightarrow> pydict \<Rightarrow> string res" where
  "document_id repr doc =
     (case List.find (\<lambda>k. truthy (dget_or doc k VNone)) [''id'', ''chunk_id'', ''embedding_id''] of
        Some k \<Rightarrow> Inr (py_str repr (dget_or doc k VNone))
      | None \<Rightarrow> Inl (Exc PyValueError ''document requires id, chunk_id, or embedding_id''))"

text \<open>\<open>_memory_id\<close> of the governed facade.\<close>

definition memory_id :: "(pyval \<Rightarrow> string) \<Rightarrow> pydict \<Rightarrow> string" where
  "memory_id repr doc = (case document_id repr doc of Inl _ \<Rightarrow> ''*'' | Inr k \<Rightarrow> k)"

section \<open>The contract of a retriever\<close>

text \<open>The operations the facades call; \<open>search_hybrid\<close> may be missing.\<close>

record 's retriever_ops =
  rt_upsert :: "pydict \<Rightarrow> ('s, unit) py"
  rt_get :: "string \<Rightarrow> ('s, pydict option) py"
  rt_search :: "string \<Rightarrow> string option \<Rightarrow> int \<Rightarrow> ('s, pydict list) py"
  rt_hybrid :: "(string \<Rightarrow> pyval list option \<Rightarrow> string option \<Rightarrow> int \<Rightarrow> ('s, pydict list) py) option"

section \<open>The two facades\<close>

definition limit_error :: pyexc where
  "limit_error = Exc PyValueError ''limit must be positive''"

text \<open>\<open>MemoryRetriever\<close>.\<close>

definition mr_remember :: "'s retriever_ops \<Rightarrow> pydict \<Rightarrow> ('s, unit) py" where
  "mr_remember ops document =
     bnd (require (list_ex (\<lambda>k. truthy (dget_or document k VNone)) [''id'', ''chunk_id'', ''embedding_id''])
       (Exc PyValueError ''document requires id, chunk_id, or embedding_id'')) (\<lambda>_.
     rt_upsert ops document)"

definition mr_recall :: "'s retriever_ops \<Rightarrow> string \<Rightarrow> ('s, pydict option) py" where
  "mr_recall ops k = rt_get ops k"

definition mr_search :: "'s retriever_ops \<Rightarrow> string \<Rightarrow> string option \<Rightarrow> int \<Rightarrow> ('s, pydict list) py" where
  "mr_search ops query category limit =
     bnd (require (\<not> limit < 1) limit_error) (\<lambda>_. rt_search ops query category limit)"

definition mr_search_hybrid ::
  "'s retriever_ops \<Rightarrow> string \<Rightarrow> pyval list option \<Rightarrow> string option \<Rightarrow> int \<Rightarrow> ('s, pydict list) py" where
  "mr_search_hybrid ops query vector category limit =
     (case rt_hybrid ops of
        Some hybrid \<Rightarrow> hybrid query vector category limit
      | None \<Rightarrow> mr_search ops query category limit)"

text \<open>
  The world of the governed facade: the retriever behind it, and the session of the provider.
\<close>

record 's mem_world = world +
  mw_store :: 's
  mw_session :: "string option"

definition on_store :: "('s, 'a) py \<Rightarrow> ('s mem_world, 'a) py" where
  "on_store m w = (case m (mw_store w) of (r, s) \<Rightarrow> (r, w\<lparr>mw_store := s\<rparr>))"

definition memory_action :: "governor \<Rightarrow> string \<Rightarrow> string \<Rightarrow> string \<Rightarrow> (string \<times> string) list \<Rightarrow> ActionRequest" where
  "memory_action g capability target operation metadata =
     \<lparr>req_actor_id = gv_actor g, req_capability = capability, req_target = target, req_operation = operation,
      req_classification = ''internal'', req_idempotency_key = None, req_metadata = metadata\<rparr>"

text \<open>\<open>GovernedMemoryRetriever._authorize\<close> and the call after it.\<close>

abbreviation memory_call :: "governor \<Rightarrow> ActionRequest \<Rightarrow> ('s mem_world, 'a) py \<Rightarrow> ('s mem_world, 'a) py" where
  "memory_call g action body \<equiv> governed g ''authorization.memory'' action body"

definition remember_action :: "(pyval \<Rightarrow> string) \<Rightarrow> governor \<Rightarrow> pydict \<Rightarrow> ActionRequest" where
  "remember_action repr g document =
     memory_action g ''memory.write'' (memory_id repr document) ''remember''
       [(''memory_id'', memory_id repr document)]"

definition governed_remember ::
  "(pyval \<Rightarrow> string) \<Rightarrow> governor \<Rightarrow> 's retriever_ops \<Rightarrow> pydict \<Rightarrow> ('s mem_world, unit) py" where
  "governed_remember repr g ops document =
     memory_call g (remember_action repr g document) (on_store (mr_remember ops document))"

definition recall_action :: "governor \<Rightarrow> string \<Rightarrow> ActionRequest" where
  "recall_action g k = memory_action g ''memory.read'' k ''recall'' [(''memory_id'', k)]"

definition governed_recall :: "governor \<Rightarrow> 's retriever_ops \<Rightarrow> string \<Rightarrow> ('s mem_world, pydict option) py" where
  "governed_recall g ops k = memory_call g (recall_action g k) (on_store (mr_recall ops k))"

text \<open>\<open>category or "*"\<close>.\<close>

definition category_text :: "string option \<Rightarrow> string" where
  "category_text category = (case category of Some c \<Rightarrow> if c = [] then ''*'' else c | None \<Rightarrow> ''*'')"

definition search_action :: "governor \<Rightarrow> string \<Rightarrow> string option \<Rightarrow> ActionRequest" where
  "search_action g operation category =
     memory_action g ''memory.read'' (category_text category) operation [(''category'', category_text category)]"

definition governed_search ::
  "governor \<Rightarrow> 's retriever_ops \<Rightarrow> string \<Rightarrow> string option \<Rightarrow> int \<Rightarrow> ('s mem_world, pydict list) py" where
  "governed_search g ops query category limit =
     memory_call g (search_action g ''search'' category) (on_store (mr_search ops query category limit))"

definition governed_search_hybrid ::
  "governor \<Rightarrow> 's retriever_ops \<Rightarrow> string \<Rightarrow> pyval list option \<Rightarrow> string option \<Rightarrow> int \<Rightarrow> ('s mem_world, pydict list) py" where
  "governed_search_hybrid g ops query vector category limit =
     memory_call g (search_action g ''hybrid_search'' category)
       (on_store (mr_search_hybrid ops query vector category limit))"

definition authorize_ingest :: "governor \<Rightarrow> string \<Rightarrow> ('z world_scheme, unit) py" where
  "authorize_ingest g source_ref =
     authorize_action g ''authorization.memory''
       (memory_action g ''memory.ingest'' source_ref ''read_and_ingest'' [(''source_ref'', source_ref)])"

definition authorize_embedding_rebuild :: "governor \<Rightarrow> string list \<Rightarrow> ('z world_scheme, unit) py" where
  "authorize_embedding_rebuild g memory_ids =
     for_each memory_ids (\<lambda>k. authorize_action g ''authorization.memory''
       (memory_action g ''memory.write'' k ''rebuild_embedding'' [(''memory_id'', k)]))"

section \<open>The provider the agent sees\<close>

definition begin_session :: "string \<Rightarrow> ('s mem_world, pydict) py" where
  "begin_session session_id =
     bnd (require (session_id \<noteq> [] \<and> strip session_id \<noteq> []) (Exc PyValueError ''session_id is required'')) (\<lambda>_.
     bnd (modify (\<lambda>w. w\<lparr>mw_session := Some session_id\<rparr>)) (\<lambda>_.
     ret [(VStr ''session_id'', VStr session_id), (VStr ''status'', VStr ''started'')]))"

definition end_session :: "string option \<Rightarrow> ('s mem_world, pydict) py" where
  "end_session session_id =
     bnd (gets mw_session) (\<lambda>current.
     let ended = (case session_id of Some s \<Rightarrow> if s = [] then current else Some s | None \<Rightarrow> current)
     in bnd (modify (\<lambda>w. w\<lparr>mw_session := None\<rparr>)) (\<lambda>_.
        ret [(VStr ''session_id'', VStr (case ended of Some s \<Rightarrow> s | None \<Rightarrow> [])), (VStr ''status'', VStr ''ended'')]))"

definition synchronize_turn ::
  "(pyval \<Rightarrow> string) \<Rightarrow> governor \<Rightarrow> 's retriever_ops \<Rightarrow> pydict list option \<Rightarrow> ('s mem_world, pydict) py" where
  "synchronize_turn repr g ops records =
     (let rs = (case records of Some rs \<Rightarrow> rs | None \<Rightarrow> [])
      in bnd (for_each rs (governed_remember repr g ops)) (\<lambda>_.
         ret [(VStr ''stored'', VInt (int (length rs)))]))"

text \<open>\<open>prefetch\<close> is a search; \<open>recall\<close> and \<open>remember\<close> of the provider are those of the facade.\<close>

definition prefetch :: "governor \<Rightarrow> 's retriever_ops \<Rightarrow> string \<Rightarrow> string option \<Rightarrow> int \<Rightarrow> ('s mem_world, pydict list) py" where
  "prefetch g ops query category limit = governed_search g ops query category limit"

section \<open>The store in a JSON file\<close>

text \<open>
  What \<open>LocalJsonRetriever\<close> finds outside itself: failures of the operating system by step, the
  text \<open>json.dump(..., indent=2, sort_keys=True)\<close> writes, the JSON reader, \<open>str.casefold\<close>, the texts
  of floats and \<open>repr\<close>.
\<close>

record local_env =
  le_fault :: "nat \<Rightarrow> pyexc option"
  le_dump :: "pyval \<Rightarrow> string res"
  le_loads :: "string \<Rightarrow> pyval res"
  le_casefold :: "string \<Rightarrow> string"
  le_float_text :: "pyfloat \<Rightarrow> string"
  le_repr :: "pyval \<Rightarrow> string"

text \<open>The records in memory in the order of the dict, the file, and a temporary file next to it.\<close>

record local_store =
  ls_records :: "(string \<times> pydict) list"
  ls_file :: "string option"
  ls_temp :: bool
  ls_step :: nat

definition os_call :: "local_env \<Rightarrow> (local_store, unit) py" where
  "os_call env =
     bnd (gets ls_step) (\<lambda>n.
     bnd (modify (\<lambda>s. s\<lparr>ls_step := Suc n\<rparr>)) (\<lambda>_.
     case le_fault env n of None \<Rightarrow> ret () | Some e \<Rightarrow> raise e))"

definition flush :: "local_env \<Rightarrow> (local_store, unit) py" where
  "flush env =
     bnd (os_call env) (\<lambda>_.
     bnd (os_call env) (\<lambda>_.
     bnd (modify (\<lambda>s. s\<lparr>ls_temp := True\<rparr>)) (\<lambda>_.
     try_finally
       (bnd (gets (\<lambda>s. le_dump env (VList (map (\<lambda>(k, d). VDict d) (ls_records s))))) (\<lambda>t.
        bnd (lift t) (\<lambda>text.
        bnd (os_call env) (\<lambda>_.
        bnd (os_call env) (\<lambda>_.
        modify (\<lambda>s. s\<lparr>ls_file := Some (text @ [char_of (10 :: nat)]), ls_temp := False\<rparr>))))))
       (bnd (gets ls_temp) (\<lambda>left.
        if left then bnd (os_call env) (\<lambda>_. modify (\<lambda>s. s\<lparr>ls_temp := False\<rparr>)) else ret ())))))"

definition put_record :: "local_env \<Rightarrow> pydict \<Rightarrow> (local_store, unit) py" where
  "put_record env doc =
     bnd (lift (document_id (le_repr env) doc)) (\<lambda>k.
     modify (\<lambda>s. s\<lparr>ls_records := assoc_put k doc (ls_records s)\<rparr>))"

definition local_upsert :: "local_env \<Rightarrow> pydict \<Rightarrow> (local_store, unit) py" where
  "local_upsert env doc = bnd (put_record env doc) (\<lambda>_. flush env)"

definition local_bulk_upsert :: "local_env \<Rightarrow> pydict list \<Rightarrow> (local_store, unit) py" where
  "local_bulk_upsert env docs = bnd (for_each docs (put_record env)) (\<lambda>_. flush env)"

definition local_get :: "string \<Rightarrow> (local_store, pydict option) py" where
  "local_get k = gets (\<lambda>s. map_of (ls_records s) k)"

text \<open>The substring test of \<open>needle in haystack\<close>.\<close>

fun text_within :: "string \<Rightarrow> string \<Rightarrow> bool" where
  "text_within needle [] = (needle = [])"
| "text_within needle (c # s) = (starts_with (c # s) needle \<or> text_within needle s)"

definition in_category :: "string option \<Rightarrow> pydict \<Rightarrow> bool" where
  "in_category category doc \<longleftrightarrow> (case category of None \<Rightarrow> True | Some c \<Rightarrow> dget doc ''category'' = Some (VStr c))"

definition haystack :: "local_env \<Rightarrow> pydict \<Rightarrow> string res" where
  "haystack env doc =
     bindR (json_dumps (le_float_text env) '', '' '': '' (VDict doc)) (\<lambda>t. Inr (le_casefold env t))"

text \<open>The loop of \<open>search\<close> over the records, with the matches so far.\<close>

fun scan_records :: "local_env \<Rightarrow> string \<Rightarrow> string option \<Rightarrow> int \<Rightarrow> pydict list \<Rightarrow> pydict list \<Rightarrow> pydict list res" where
  "scan_records env needle category limit [] found = Inr found"
| "scan_records env needle category limit (doc # docs) found =
     (if \<not> in_category category doc then scan_records env needle category limit docs found
      else
        bindR (haystack env doc) (\<lambda>text.
        let found' = (if text_within needle text then found @ [doc] else found)
        in if int (length found') \<ge> limit then Inr found'
           else scan_records env needle category limit docs found'))"

definition local_search :: "local_env \<Rightarrow> string \<Rightarrow> string option \<Rightarrow> int \<Rightarrow> (local_store, pydict list) py" where
  "local_search env query category limit =
     bnd (require (\<not> limit < 1) limit_error) (\<lambda>_.
     bnd (gets ls_records) (\<lambda>records.
     lift (scan_records env (le_casefold env query) category limit (map snd records) [])))"

text \<open>The inner loop of \<open>reason\<close>: \<open>True\<close> when the limit was reached.\<close>

fun merge_results :: "local_env \<Rightarrow> int \<Rightarrow> pydict list \<Rightarrow> string list \<Rightarrow> pydict list
    \<Rightarrow> (bool \<times> string list \<times> pydict list) res" where
  "merge_results env limit [] seen results = Inr (False, seen, results)"
| "merge_results env limit (doc # docs) seen results =
     bindR (document_id (le_repr env) doc) (\<lambda>k.
     if k \<in> set seen then merge_results env limit docs seen results
     else if int (length (results @ [doc])) \<ge> limit then Inr (True, seen @ [k], results @ [doc])
     else merge_results env limit docs (seen @ [k]) (results @ [doc]))"

fun reason_loop :: "local_env \<Rightarrow> string list \<Rightarrow> string option \<Rightarrow> int \<Rightarrow> string list \<Rightarrow> pydict list
    \<Rightarrow> (local_store, pydict list) py" where
  "reason_loop env [] category limit seen results = ret results"
| "reason_loop env (e # es) category limit seen results =
     bnd (local_search env e category limit) (\<lambda>docs.
     bnd (lift (merge_results env limit docs seen results)) (\<lambda>(full, seen', results').
     if full then ret results' else reason_loop env es category limit seen' results'))"

definition local_reason :: "local_env \<Rightarrow> string list \<Rightarrow> string option \<Rightarrow> int \<Rightarrow> (local_store, pydict list) py" where
  "local_reason env entities category limit = reason_loop env entities category limit [] []"

text \<open>\<open>_load\<close>; \<open>dict(record)\<close> of what is not a dict raises.\<close>

definition load_record :: "local_env \<Rightarrow> pyval \<Rightarrow> (string \<times> pydict) res" where
  "load_record env v =
     (case v of
        VDict d \<Rightarrow> bindR (document_id (le_repr env) d) (\<lambda>k. Inr (k, d))
      | _ \<Rightarrow> Inl (Exc PyAttributeError ''object has no attribute 'get' ''))"

definition local_load :: "local_env \<Rightarrow> (local_store, unit) py" where
  "local_load env =
     bnd (gets ls_file) (\<lambda>file.
     case file of
       None \<Rightarrow> ret ()
     | Some text \<Rightarrow>
         bnd (lift (le_loads env text)) (\<lambda>data.
         case data of
           VList xs \<Rightarrow>
             bnd (lift (mapR (load_record env) xs)) (\<lambda>rs.
             modify (\<lambda>s. s\<lparr>ls_records := fold (\<lambda>(k, d). assoc_put k d) rs []\<rparr>))
         | _ \<Rightarrow> raise (Exc PyValueError ''local retriever store must contain a JSON list'')))"

definition open_store :: "local_env \<Rightarrow> string option \<Rightarrow> local_store res" where
  "open_store env file =
     (case local_load env \<lparr>ls_records = [], ls_file = file, ls_temp = False, ls_step = 0\<rparr> of
        (Inl e, s) \<Rightarrow> Inl e
      | (Inr _, s) \<Rightarrow> Inr s)"

definition local_ops :: "local_env \<Rightarrow> local_store retriever_ops" where
  "local_ops env = \<lparr>rt_upsert = local_upsert env, rt_get = local_get, rt_search = local_search env, rt_hybrid = None\<rparr>"

section \<open>Every memory call is mediated\<close>

lemma admitted_store: "action_admitted g event action w v \<Longrightarrow> mw_store v = mw_store w"
  by (auto simp: action_admitted_def split: if_splits)

lemma refused_store: "authorize_action g event action w = (Inl e, v) \<Longrightarrow> mw_store v = mw_store w"
  by (cases "gv_gateway g action")
    (auto simp: authorize_action_def bnd_def lift_def ret_def raise_def require_def sink_write_def
      split: option.splits if_splits)

text \<open>A call that is refused leaves the retriever alone; one that is not is the call itself.\<close>

lemma memory_call_cases:
  "(\<exists>e v. (\<forall>body. memory_call g action body w = (Inl e, v)) \<and> mw_store v = mw_store w) \<or>
   (\<exists>v. action_admitted g ''authorization.memory'' action w v \<and> mw_store v = mw_store w
      \<and> (\<forall>body. memory_call g action body w = body v))"
  using authorize_action_cases [of g "''authorization.memory''" action w]
  by (auto simp: governed_def bnd_def dest: refused_store admitted_store)

lemma governed_return:
  assumes "memory_call g action (on_store m) w = (Inr a, v)"
  obtains s where "m (mw_store w) = (Inr a, s)" "mw_store v = s"
proof (rule disjE [OF authorize_action_cases [of g "''authorization.memory''" action w]])
  assume "\<exists>e v. authorize_action g ''authorization.memory'' action w = (Inl e, v)"
  then show ?thesis using assms by (auto simp: governed_def bnd_def)
next
  assume "\<exists>v. authorize_action g ''authorization.memory'' action w = (Inr (), v)
    \<and> action_admitted g ''authorization.memory'' action w v"
  then show ?thesis using assms that
    by (auto simp: governed_def bnd_def on_store_def split: prod.splits dest: admitted_store)
qed

section \<open>What a retriever promises\<close>

text \<open>
  \<open>look\<close> is what the retriever holds under an identity, \<open>stored\<close> relates a document to what is held
  for it and \<open>shown\<close> what is held to the document a read gives back, \<open>sound\<close> are the states it can be
  in. Writing a document changes what is held under its identity only, also when it fails.
\<close>

locale retriever =
  fixes repr :: "pyval \<Rightarrow> string" and ops :: "'s retriever_ops"
    and look :: "'s \<Rightarrow> string \<Rightarrow> 'x option" and sound :: "'s \<Rightarrow> bool"
    and stored :: "pydict \<Rightarrow> 'x \<Rightarrow> bool" and shown :: "'x \<Rightarrow> pydict \<Rightarrow> bool"
  assumes upsert_sound: "sound s \<Longrightarrow> rt_upsert ops d s = (r, t) \<Longrightarrow> sound t"
    and upsert_stores: "rt_upsert ops d s = (Inr u, t) \<Longrightarrow>
      \<exists>k x. document_id repr d = Inr k \<and> stored d x \<and> look t = (look s)(k \<mapsto> x)"
    and upsert_frame: "rt_upsert ops d s = (r, t) \<Longrightarrow> document_id repr d \<noteq> Inr q \<Longrightarrow> look t q = look s q"
    and get_shows: "rt_get ops k s = (Inr y, t) \<Longrightarrow> look t = look s \<and> rel_option shown (look s k) y"
    and search_bounded: "sound s \<Longrightarrow> rt_search ops q c n s = (Inr ds, t) \<Longrightarrow>
      look t = look s \<and> int (length ds) \<le> n \<and> (\<forall>d \<in> set ds. \<exists>k x. look s k = Some x \<and> shown x d)"
begin

lemma remember_stores:
  assumes "governed_remember repr g ops d w = (Inr u, v)"
  shows "\<exists>k x. document_id repr d = Inr k \<and> stored d x \<and> look (mw_store v) = (look (mw_store w))(k \<mapsto> x)"
proof -
  obtain s where s: "mr_remember ops d (mw_store w) = (Inr u, s)" "mw_store v = s"
    by (rule governed_return [OF assms [unfolded governed_remember_def]])
  have "rt_upsert ops d (mw_store w) = (Inr u, mw_store v)"
    using s by (auto simp: mr_remember_def bnd_def require_def ret_def raise_def split: if_splits)
  then show ?thesis by (rule upsert_stores)
qed

lemma recall_shows:
  assumes "governed_recall g ops k w = (Inr y, v)"
  shows "look (mw_store v) = look (mw_store w) \<and> rel_option shown (look (mw_store w) k) y"
  using assms unfolding governed_recall_def
  by (elim governed_return) (auto simp: mr_recall_def dest: get_shows)

lemma recall_after_remember:
  assumes "governed_remember repr g ops d w = (Inr u, v)" and "document_id repr d = Inr k"
    and "governed_recall g' ops q v' = (Inr y, v'')" and "look (mw_store v') = look (mw_store v)"
  shows "if q = k then \<exists>x e. y = Some e \<and> stored d x \<and> shown x e else rel_option shown (look (mw_store w) q) y"
proof -
  obtain x where x: "stored d x" "look (mw_store v) = (look (mw_store w))(k \<mapsto> x)"
    using remember_stores [OF assms(1)] assms(2) by auto
  have y: "rel_option shown (((look (mw_store w))(k \<mapsto> x)) q) y"
    using recall_shows [OF assms(3)] assms(4) x(2) by simp
  show ?thesis
  proof (cases "q = k")
    case True
    then obtain e where "y = Some e" "shown x e" using y by (auto simp: option_rel_Some1)
    then show ?thesis using True x(1) by auto
  qed (use y in simp)
qed

lemma search_within:
  assumes "sound (mw_store w)" and "governed_search g ops q c n w = (Inr ds, v)"
  shows "int (length ds) \<le> n \<and> look (mw_store v) = look (mw_store w)
    \<and> (\<forall>d \<in> set ds. \<exists>k x. look (mw_store w) k = Some x \<and> shown x d)"
  using assms(2) unfolding governed_search_def
  by (elim governed_return) (auto simp: mr_search_def bnd_def require_def ret_def raise_def
      split: if_splits dest: search_bounded [OF assms(1)])

lemma turn_stores:
  assumes "for_each ds (governed_remember repr g ops) w = (Inr u, v)"
  shows "\<exists>kxs. list_all2 (\<lambda>d (k, x). document_id repr d = Inr k \<and> stored d x) ds kxs
    \<and> look (mw_store v) = fold (\<lambda>(k, x) m. m(k \<mapsto> x)) kxs (look (mw_store w))"
  using assms
proof (induction ds arbitrary: w)
  case Nil
  then show ?case by (auto simp: ret_def)
next
  case (Cons d ds)
  obtain w1 where w1: "governed_remember repr g ops d w = (Inr (), w1)"
    and rest: "for_each ds (governed_remember repr g ops) w1 = (Inr u, v)"
    using Cons.prems by (auto simp: bnd_def split: prod.splits sum.splits)
  obtain k x where k: "document_id repr d = Inr k" "stored d x"
    "look (mw_store w1) = (look (mw_store w))(k \<mapsto> x)"
    using remember_stores [OF w1] by blast
  obtain kxs where "list_all2 (\<lambda>d (k, x). document_id repr d = Inr k \<and> stored d x) ds kxs"
    "look (mw_store v) = fold (\<lambda>(k, x) m. m(k \<mapsto> x)) kxs (look (mw_store w1))"
    using Cons.IH [OF rest] by blast
  then show ?case using k by (intro exI [of _ "(k, x) # kxs"]) (simp del: fun_upd_apply)
qed

end

section \<open>The JSON store keeps that promise\<close>

text \<open>No identity twice, and every record under its own.\<close>

definition sound_store :: "local_env \<Rightarrow> local_store \<Rightarrow> bool" where
  "sound_store env s \<longleftrightarrow> distinct (map fst (ls_records s))
     \<and> (\<forall>(k, d) \<in> set (ls_records s). document_id (le_repr env) d = Inr k)"

definition in_memory :: "local_store \<Rightarrow> string \<Rightarrow> pydict option" where
  "in_memory s = map_of (ls_records s)"

lemma wp_os_call [wp]:
  "wlp (os_call env) Q E = (\<lambda>s. case le_fault env (ls_step s) of
      None \<Rightarrow> Q () (s\<lparr>ls_step := Suc (ls_step s)\<rparr>) | Some e \<Rightarrow> E e (s\<lparr>ls_step := Suc (ls_step s)\<rparr>))"
  by (rule ext) (simp add: os_call_def wp split: option.splits)

lemma flush_rule:
  "wlp (flush env)
     (\<lambda>_ t. ls_records t = ls_records s \<and> (\<exists>text. le_dump env (VList (map (\<lambda>(k, d). VDict d) (ls_records s))) = Inr text
        \<and> ls_file t = Some (text @ [char_of (10 :: nat)])))
     (\<lambda>_ t. ls_records t = ls_records s \<and> ls_file t = ls_file s) s"
  by (auto simp: flush_def wp split: option.splits sum.splits)

lemma upsert_rule:
  "wlp (local_upsert env d)
     (\<lambda>_ t. \<exists>k. document_id (le_repr env) d = Inr k \<and> ls_records t = assoc_put k d (ls_records s)
        \<and> (\<exists>text. le_dump env (VList (map (\<lambda>(k, d). VDict d) (ls_records t))) = Inr text
            \<and> ls_file t = Some (text @ [char_of (10 :: nat)])))
     (\<lambda>_ t. ls_file t = ls_file s
        \<and> (case document_id (le_repr env) d of
             Inl _ \<Rightarrow> ls_records t = ls_records s | Inr k \<Rightarrow> ls_records t = assoc_put k d (ls_records s))) s"
  by (cases "document_id (le_repr env) d")
    (auto simp: local_upsert_def put_record_def wp intro!: wlp_mono [OF flush_rule])

lemma upsert_return:
  assumes "local_upsert env d s = (Inr u, t)"
  obtains k js where "document_id (le_repr env) d = Inr k" "ls_records t = assoc_put k d (ls_records s)"
    "le_dump env (VList (map (\<lambda>(k, d). VDict d) (ls_records t))) = Inr js"
    "ls_file t = Some (js @ [char_of (10 :: nat)])"
  using wlp_run(1) [OF upsert_rule assms] by blast

lemma upsert_raise:
  assumes "local_upsert env d s = (Inl e, t)"
  shows "ls_file t = ls_file s"
    and "document_id (le_repr env) d = Inr k \<Longrightarrow> ls_records t = assoc_put k d (ls_records s)"
    and "document_id (le_repr env) d = Inl e' \<Longrightarrow> ls_records t = ls_records s"
  using wlp_run(2) [OF upsert_rule assms] by auto

lemma set_assoc_put:
  "distinct (map fst xs) \<Longrightarrow> (q, x) \<in> set (assoc_put k v xs) \<longleftrightarrow> (if q = k then x = v else (q, x) \<in> set xs)"
  by (induction k v xs rule: assoc_put.induct) (auto simp: rev_image_eqI)

lemma sound_put:
  "sound_store env s \<Longrightarrow> document_id (le_repr env) d = Inr k \<Longrightarrow> ls_records t = assoc_put k d (ls_records s)
     \<Longrightarrow> sound_store env t"
  by (auto simp: sound_store_def distinct_assoc_put set_assoc_put split: if_splits)

lemma upsert_keeps_sound:
  assumes "sound_store env s" and "local_upsert env d s = (r, t)"
  shows "sound_store env t"
proof (cases r)
  case (Inl e)
  then show ?thesis using assms upsert_raise [of env d s e t] sound_put [OF assms(1), of d]
    by (cases "document_id (le_repr env) d") (auto simp: sound_store_def)
next
  case (Inr u)
  then show ?thesis using assms sound_put by (auto elim!: upsert_return)
qed

text \<open>A search returns the first matches in the order of the records.\<close>

definition matching :: "local_env \<Rightarrow> string \<Rightarrow> string option \<Rightarrow> pydict \<Rightarrow> bool" where
  "matching env needle category d \<longleftrightarrow>
     in_category category d \<and> (case haystack env d of Inl _ \<Rightarrow> False | Inr text \<Rightarrow> text_within needle text)"

lemma scan_records_take:
  "scan_records env needle category limit docs found = Inr out \<Longrightarrow> int (length found) < limit
     \<Longrightarrow> out = found @ take (nat limit - length found) (filter (matching env needle category) docs)"
proof (induction docs arbitrary: found)
  case (Cons d docs)
  show ?case
  proof (cases "in_category category d")
    case True
    then obtain js where js: "haystack env d = Inr js"
      using Cons.prems(1) by (auto simp: res_iffs)
    have m: "matching env needle category d = text_within needle js" using True js by (simp add: matching_def)
    let ?found = "if text_within needle js then found @ [d] else found"
    show ?thesis
    proof (cases "int (length ?found) \<ge> limit")
      case full: True
      then have "text_within needle js" "nat limit - length found = 1" using Cons.prems(2) by (auto split: if_splits)
      then show ?thesis using full True js Cons.prems(1) by (simp add: m)
    next
      case False
      have rest: "out = ?found @ take (nat limit - length ?found) (filter (matching env needle category) docs)"
        using Cons.IH [of ?found] Cons.prems(1) True js False by (simp add: Let_def split: if_splits)
      show ?thesis
      proof (cases "text_within needle js")
        case hit: True
        then have "nat limit - length found = Suc (nat limit - Suc (length found))" using Cons.prems(2) by linarith
        then show ?thesis using rest hit by (simp add: m)
      next
        case False
        then show ?thesis using rest by (simp add: m)
      qed
    qed
  next
    case False
    then have "\<not> matching env needle category d" by (simp add: matching_def)
    then show ?thesis using Cons False by simp
  qed
qed simp

lemma local_search_take:
  assumes "local_search env q c n s = (Inr ds, t)"
  shows "t = s \<and> 1 \<le> n
    \<and> ds = take (nat n) (filter (matching env (le_casefold env q) c) (map snd (ls_records s)))"
  using assms scan_records_take [of env "le_casefold env q" c n "map snd (ls_records s)" "[]" ds]
  by (auto simp: local_search_def bnd_def require_def ret_def raise_def gets_def lift_def split: if_splits)

lemma stored_in_ran: "sound_store env s \<Longrightarrow> (\<exists>k. (k, d) \<in> set (ls_records s)) \<longleftrightarrow> d \<in> ran (in_memory s)"
  by (auto simp: sound_store_def in_memory_def ran_distinct image_iff) force

interpretation local_json: retriever "le_repr env" "local_ops env" in_memory "sound_store env" "(=)" "(=)" for env
proof
  fix s t :: local_store and d :: pydict and r u and q :: string
  show "sound_store env t" if "sound_store env s" "rt_upsert (local_ops env) d s = (r, t)"
    using upsert_keeps_sound that by (simp add: local_ops_def)
  show "\<exists>k x. document_id (le_repr env) d = Inr k \<and> d = x \<and> in_memory t = (in_memory s)(k \<mapsto> x)"
    if "rt_upsert (local_ops env) d s = (Inr u, t)"
    using that by (auto simp: local_ops_def in_memory_def elim!: upsert_return)
  show "in_memory t q = in_memory s q"
    if "rt_upsert (local_ops env) d s = (r, t)" "document_id (le_repr env) d \<noteq> Inr q"
    using that upsert_raise(2,3) [of env d s _ t]
    by (cases r; cases "document_id (le_repr env) d") (auto simp: local_ops_def in_memory_def elim!: upsert_return)
  show "in_memory t = in_memory s \<and> rel_option (=) (in_memory s q) y" if "rt_get (local_ops env) q s = (Inr y, t)" for y
    using that by (auto simp: local_ops_def local_get_def in_memory_def gets_def option.rel_eq)
  show "in_memory t = in_memory s \<and> int (length ds) \<le> n \<and> (\<forall>d \<in> set ds. \<exists>k x. in_memory s k = Some x \<and> x = d)"
    if "sound_store env s" "rt_search (local_ops env) q c n s = (Inr ds, t)" for c n ds
  proof -
    have "set (take (nat n) (filter P (map snd (ls_records s)))) \<subseteq> ran (in_memory s)" for P
      using stored_in_ran [OF that(1)] by (fastforce dest: in_set_takeD)
    then have "set ds \<subseteq> ran (in_memory s)"
      using local_search_take [of env q c n s ds t] that(2) by (auto simp: local_ops_def)
    then show ?thesis using local_search_take [of env q c n s ds t] that(2)
      by (auto simp: local_ops_def ran_def)
  qed
qed

end
