(* ===== verification/Maya_Vector.thy ===== *)
theory Maya_Vector
  imports Maya_Memory Maya_Migration "HOL-Library.Product_Lexorder"
begin

text \<open>
  The local vector store (\<open>src/project_maya/memory/sqlite_vector.py\<close>): the tables with their full-text
  index and metadata, the preparation of documents, transactional writes with the check of the
  embedding dimension, the rebuild of all embeddings, and lexical, semantic and hybrid search.
\<close>

section \<open>Tables\<close>

text \<open>
  A row of \<open>memory_records\<close>. The column \<open>vector_dim\<close> is \<open>None\<close> for NULL, as is \<open>embedding_json\<close>.
\<close>

record vector_row =
  vr_id :: string
  vr_document :: string
  vr_content :: string
  vr_category :: sql_value
  vr_trust :: rat
  vr_embedding :: "string option"
  vr_dim :: "nat option"
  vr_source_path :: sql_value
  vr_source_hash :: sql_value
  vr_version :: sql_value
  vr_created :: string
  vr_updated :: string

text \<open>The three tables, the rows in the order they were inserted.\<close>

record vector_db =
  vd_rows :: "vector_row list"
  vd_index :: "(string \<times> string) list"
  vd_meta :: "(string \<times> string) list"

record vector_store =
  vs_db :: vector_db
  vs_connected :: bool
  vs_step :: nat

text \<open>
  What the store finds outside itself: failures of SQLite and of the file system by step, the clock,
  the JSON reader, the texts and readings of floats, correctly rounded arithmetic on finite floats
  (\<open>ve_round\<close> of the exact result), \<open>math.sqrt\<close> and \<open>sum\<close>, and the rows of the index that match an
  expression with their \<open>bm25\<close> rank. Overflow of a float operation is not represented.
\<close>

record vector_env =
  ve_fault :: "nat \<Rightarrow> pyexc option"
  ve_now :: "nat \<Rightarrow> string"
  ve_loads :: "string \<Rightarrow> pyval res"
  ve_float_text :: "pyfloat \<Rightarrow> string"
  ve_read_float :: "string \<Rightarrow> pyfloat res"
  ve_int_float :: "int \<Rightarrow> pyfloat res"
  ve_round :: "rat \<Rightarrow> rat"
  ve_sqrt :: "rat \<Rightarrow> rat"
  ve_sum :: "rat list \<Rightarrow> rat"
  ve_sql_real :: "pyfloat \<Rightarrow> string"
  ve_match :: "string \<Rightarrow> (string \<times> string) list \<Rightarrow> (string \<times> rat) list res"
  ve_journal :: string
  ve_integrity :: string
  ve_repr :: "pyval \<Rightarrow> string"

text \<open>A call of SQLite or of the operating system, and the clock.\<close>

definition sql_call :: "vector_env \<Rightarrow> (vector_store, unit) py" where
  "sql_call env =
     bnd (gets vs_step) (\<lambda>n.
     bnd (modify (\<lambda>s. s\<lparr>vs_step := Suc n\<rparr>)) (\<lambda>_.
     case ve_fault env n of None \<Rightarrow> ret () | Some e \<Rightarrow> raise e))"

definition read_clock :: "vector_env \<Rightarrow> (vector_store, string) py" where
  "read_clock env =
     bnd (gets vs_step) (\<lambda>n. bnd (modify (\<lambda>s. s\<lparr>vs_step := Suc n\<rparr>)) (\<lambda>_. ret (ve_now env n)))"

definition require_connection :: "(vector_store, unit) py" where
  "require_connection =
     bnd (gets vs_connected) (\<lambda>c. require c (Exc PyRuntimeError ''local_vector retriever is closed''))"

definition execute_statement :: "vector_env \<Rightarrow> (vector_store, unit) py" where
  "execute_statement env = bnd require_connection (\<lambda>_. sql_call env)"

text \<open>
  \<open>with connection\<close>: commit when the body returns, otherwise, and when the commit fails, go back to
  the tables as they were.
\<close>

definition transaction :: "vector_env \<Rightarrow> (vector_store, 'a) py \<Rightarrow> (vector_store, 'a) py" where
  "transaction env body s =
     (case bnd body (\<lambda>a. bnd (sql_call env) (\<lambda>_. ret a)) s of
        (Inl e, t) \<Rightarrow> (Inl e, t\<lparr>vs_db := vs_db s\<rparr>)
      | (Inr a, t) \<Rightarrow> (Inr a, t))"

definition on_db :: "(vector_db \<Rightarrow> vector_db) \<Rightarrow> (vector_store, unit) py" where
  "on_db f = modify (\<lambda>s. s\<lparr>vs_db := f (vs_db s)\<rparr>)"

fun map_each :: "'a list \<Rightarrow> ('a \<Rightarrow> ('s, 'b) py) \<Rightarrow> ('s, 'b list) py" where
  "map_each [] f = ret []"
| "map_each (x # xs) f = bnd (f x) (\<lambda>y. bnd (map_each xs f) (\<lambda>ys. ret (y # ys)))"

section \<open>Vectors\<close>

text \<open>\<open>float(v)\<close>.\<close>

fun py_float :: "vector_env \<Rightarrow> pyval \<Rightarrow> pyfloat res" where
  "py_float env (VFloat f) = Inr f"
| "py_float env (VInt i) = ve_int_float env i"
| "py_float env (VBool b) = Inr (Finite (if b then 1 else 0))"
| "py_float env (VStr s) = ve_read_float env s"
| "py_float env v = Inl (Exc PyTypeError ''float() argument must be a string or a real number'')"

definition finite_value :: "pyfloat \<Rightarrow> rat res" where
  "finite_value f = (case f of Finite q \<Rightarrow> Inr q | _ \<Rightarrow> Inl (Exc PyValueError ''embedding values must be finite''))"

definition validated_vector :: "vector_env \<Rightarrow> pyval \<Rightarrow> rat list res" where
  "validated_vector env v =
     (if v = VNone \<or> v = VList [] then Inr []
      else case v of
        VList xs \<Rightarrow> bindR (mapR (py_float env) xs) (mapR finite_value)
      | VTuple xs \<Rightarrow> bindR (mapR (py_float env) xs) (mapR finite_value)
      | _ \<Rightarrow> Inl (Exc PyValueError ''embedding must be a numeric list''))"

definition vector_value :: "rat list \<Rightarrow> pyval" where
  "vector_value xs = VList (map (\<lambda>q. VFloat (Finite q)) xs)"

definition dump_value :: "vector_env \<Rightarrow> pyval \<Rightarrow> string res" where
  "dump_value env v = json_dumps (ve_float_text env) '', '' '': '' v"

definition cosine_similarity :: "vector_env \<Rightarrow> rat list \<Rightarrow> rat list \<Rightarrow> rat res" where
  "cosine_similarity env left right =
     (let dot = ve_sum env (map (\<lambda>(a, b). ve_round env (a * b)) (zip left right));
          norm = (\<lambda>xs. ve_sqrt env (ve_sum env (map (\<lambda>x. ve_round env (x * x)) xs)))
      in if norm left = 0 \<or> norm right = 0 then Inr 0
         else let scale = ve_round env (norm left * norm right)
              in if scale = 0 then Inl (Exc OtherException ''ZeroDivisionError'')
                 else Inr (ve_round env (dot / scale)))"

section \<open>Documents\<close>

definition decode_document :: "vector_env \<Rightarrow> string \<Rightarrow> pydict res" where
  "decode_document env js =
     bindR (ve_loads env js) (\<lambda>v.
     case v of VDict d \<Rightarrow> Inr d | _ \<Rightarrow> Inl (Exc PyValueError ''stored memory document must be an object''))"

text \<open>\<open>isinstance(value, str) and value.strip()\<close>.\<close>

definition text_of :: "pydict \<Rightarrow> string \<Rightarrow> string" where
  "text_of d k = (case dget d k of Some (VStr s) \<Rightarrow> strip s | _ \<Rightarrow> [])"

definition document_content :: "pydict \<Rightarrow> string" where
  "document_content d =
     (case List.find (\<lambda>k. text_of d k \<noteq> []) [''content'', ''text''] of
        Some k \<Rightarrow> text_of d k
      | None \<Rightarrow> join_with [CHR 0x0A]
          (map (\<lambda>(label, k). label @ '': '' @ text_of d k)
            (filter (\<lambda>(label, k). text_of d k \<noteq> []) [(''User'', ''user_content''), (''Assistant'', ''assistant_content'')])))"

definition set_default :: "string \<Rightarrow> pyval \<Rightarrow> pydict \<Rightarrow> pydict" where
  "set_default k v d = (if dget d k = None then d @ [(VStr k, v)] else d)"

text \<open>\<open>doc.get(k) or metadata.get(k)\<close>.\<close>

definition either_of :: "pydict \<Rightarrow> pydict \<Rightarrow> string \<Rightarrow> pyval" where
  "either_of d meta k = (if truthy (dget_or d k VNone) then dget_or d k VNone else dget_or meta k VNone)"

text \<open>The tuple of \<open>_prepare_document\<close>: the row with the values that are not yet bound to columns.\<close>

record prepared =
  pr_id :: string
  pr_document :: string
  pr_content :: string
  pr_category :: pyval
  pr_trust :: rat
  pr_embedding :: "(string \<times> nat) option"
  pr_source_path :: pyval
  pr_source_hash :: pyval
  pr_version :: pyval
  pr_created :: string
  pr_now :: string

text \<open>\<open>json.dumps(vector) if vector else None\<close> with its length.\<close>

definition vector_columns :: "vector_env \<Rightarrow> rat list \<Rightarrow> (string \<times> nat) option res" where
  "vector_columns env xs =
     (if xs = [] then Inr None else bindR (dump_value env (vector_value xs)) (\<lambda>js. Inr (Some (js, length xs))))"

definition trust_of :: "vector_env \<Rightarrow> pydict \<Rightarrow> rat res" where
  "trust_of env d =
     bindR (py_float env (dget_or d ''trust_score'' (VFloat (Finite (1 / 2))))) (\<lambda>f.
     case f of
       Finite q \<Rightarrow> if 0 \<le> q \<and> q \<le> 1 then Inr q else Inl (Exc PyValueError ''trust_score must be between 0 and 1'')
     | _ \<Rightarrow> Inl (Exc PyValueError ''trust_score must be between 0 and 1''))"

text \<open>The document as it is stored: identity, time of creation and trust are filled in.\<close>

definition completed :: "vector_env \<Rightarrow> string \<Rightarrow> string \<Rightarrow> rat \<Rightarrow> pydict \<Rightarrow> pydict" where
  "completed env k created trust d =
     set_default ''trust_score'' (VFloat (Finite trust))
       (set_default ''created_at'' (VStr created) (set_default ''id'' (VStr k) d))"

definition created_of :: "vector_env \<Rightarrow> string \<Rightarrow> pydict \<Rightarrow> string" where
  "created_of env now d =
     (if truthy (dget_or d ''created_at'' VNone) then py_str (ve_repr env) (dget_or d ''created_at'' VNone) else now)"

definition embedding_of :: "pydict \<Rightarrow> pyval" where
  "embedding_of d =
     (case List.find (\<lambda>k. truthy (dget_or d k VNone)) [''embedding'', ''vector''] of
        Some k \<Rightarrow> dget_or d k VNone
      | None \<Rightarrow> VList [])"

definition prepare_document :: "vector_env \<Rightarrow> pydict \<Rightarrow> (vector_store, prepared) py" where
  "prepare_document env d =
     bnd (lift (document_id (ve_repr env) d)) (\<lambda>k.
     bnd (lift (validated_vector env (embedding_of d))) (\<lambda>embedding.
     bnd (lift (trust_of env d)) (\<lambda>trust.
     bnd (read_clock env) (\<lambda>now.
     let created = created_of env now d;
         doc = completed env k created trust d;
         meta = (case dget doc ''meta'' of Some (VDict m) \<Rightarrow> m | _ \<Rightarrow> [])
     in bnd (lift (dump_value env (VDict doc))) (\<lambda>js.
        bnd (lift (vector_columns env embedding)) (\<lambda>columns.
        ret \<lparr>pr_id = k, pr_document = js, pr_content = document_content d,
             pr_category = either_of doc meta ''category'', pr_trust = trust, pr_embedding = columns,
             pr_source_path = either_of doc meta ''source_path'', pr_source_hash = either_of doc meta ''source_hash'',
             pr_version = either_of doc meta ''extractor_version'', pr_created = created, pr_now = now\<rparr>))))))"

section \<open>Writing\<close>

text \<open>A Python value as a parameter of a statement, and stored in a column of type TEXT.\<close>

fun bind_value :: "pyval \<Rightarrow> sql_value res" where
  "bind_value VNone = Inr SqlNull"
| "bind_value (VBool b) = Inr (SqlInt (if b then 1 else 0))"
| "bind_value (VInt i) =
     (if - (2 ^ 63) \<le> i \<and> i < 2 ^ 63 then Inr (SqlInt i)
      else Inl (Exc OtherException ''OverflowError''))"
| "bind_value (VFloat NaN) = Inr SqlNull"
| "bind_value (VFloat f) = Inr (SqlReal f)"
| "bind_value (VStr s) = Inr (SqlText s)"
| "bind_value v = Inl (sql_error ''type is not supported'')"

fun text_column :: "vector_env \<Rightarrow> sql_value \<Rightarrow> sql_value" where
  "text_column env (SqlInt i) = SqlText (show_int i)"
| "text_column env (SqlReal x) = SqlText (ve_sql_real env x)"
| "text_column env v = v"

definition bind_row :: "vector_env \<Rightarrow> prepared \<Rightarrow> vector_row res" where
  "bind_row env p =
     bindR (bind_value (pr_category p)) (\<lambda>category.
     bindR (bind_value (pr_source_path p)) (\<lambda>path.
     bindR (bind_value (pr_source_hash p)) (\<lambda>hash.
     bindR (bind_value (pr_version p)) (\<lambda>version.
     Inr \<lparr>vr_id = pr_id p, vr_document = pr_document p, vr_content = pr_content p,
          vr_category = text_column env category, vr_trust = pr_trust p,
          vr_embedding = map_option fst (pr_embedding p), vr_dim = map_option snd (pr_embedding p),
          vr_source_path = text_column env path, vr_source_hash = text_column env hash,
          vr_version = text_column env version, vr_created = pr_created p, vr_updated = pr_now p\<rparr>))))"

text \<open>\<open>INSERT ... ON CONFLICT(record_id) DO UPDATE\<close>, which keeps the time of creation.\<close>

fun put_row :: "vector_row \<Rightarrow> vector_row list \<Rightarrow> vector_row list" where
  "put_row row [] = [row]"
| "put_row row (r # rs) =
     (if vr_id r = vr_id row then row\<lparr>vr_created := vr_created r\<rparr> # rs else r # put_row row rs)"

definition embedding_dimension :: "vector_env \<Rightarrow> (vector_store, int option) py" where
  "embedding_dimension env =
     bnd (execute_statement env) (\<lambda>_.
     bnd (gets (\<lambda>s. map_of (vd_meta (vs_db s)) ''embedding_dimension'')) (\<lambda>v.
     case v of
       None \<Rightarrow> ret None
     | Some t \<Rightarrow> bnd (lift (int_of_str t)) (\<lambda>n. ret (Some n))))"

definition row_dims :: "vector_row list \<Rightarrow> nat list" where
  "row_dims rows = dedup (List.map_filter vr_dim rows)"

definition validate_embedding_dimensions :: "vector_env \<Rightarrow> prepared list \<Rightarrow> (vector_store, unit) py" where
  "validate_embedding_dimensions env ps =
     (case dedup (List.map_filter (\<lambda>p. map_option snd (pr_embedding p)) ps) of
        [] \<Rightarrow> ret ()
      | [incoming] \<Rightarrow>
          bnd (embedding_dimension env) (\<lambda>known.
          bnd (case known of
              Some n \<Rightarrow> ret n
            | None \<Rightarrow>
                bnd (sql_call env) (\<lambda>_.
                bnd (gets (\<lambda>s. row_dims (vd_rows (vs_db s)))) (\<lambda>existing.
                bnd (require (length existing \<le> 1)
                  (Exc PyValueError ''stored embeddings use inconsistent dimensions'')) (\<lambda>_.
                let n = int (case existing of [] \<Rightarrow> incoming | d # _ \<Rightarrow> d)
                in bnd (sql_call env) (\<lambda>_.
                   bnd (on_db (\<lambda>d. d\<lparr>vd_meta := assoc_put ''embedding_dimension'' (show_int n) (vd_meta d)\<rparr>)) (\<lambda>_.
                   ret n)))))) (\<lambda>n.
          require (int incoming = n) (Exc PyValueError ''embedding dimension must match'')))
      | _ \<Rightarrow> raise (Exc PyValueError ''all embeddings must use one dimension''))"

definition write_row :: "vector_env \<Rightarrow> prepared \<Rightarrow> (vector_store, unit) py" where
  "write_row env p =
     bnd (lift (bind_row env p)) (\<lambda>row.
     bnd (sql_call env) (\<lambda>_.
     bnd (on_db (\<lambda>d. d\<lparr>vd_rows := put_row row (vd_rows d)\<rparr>)) (\<lambda>_.
     bnd (sql_call env) (\<lambda>_.
     bnd (on_db (\<lambda>d. d\<lparr>vd_index := filter (\<lambda>(k, c). k \<noteq> pr_id p) (vd_index d)\<rparr>)) (\<lambda>_.
     bnd (sql_call env) (\<lambda>_.
     on_db (\<lambda>d. d\<lparr>vd_index := vd_index d @ [(pr_id p, pr_content p)]\<rparr>)))))))"

definition upsert_many :: "vector_env \<Rightarrow> pydict list \<Rightarrow> (vector_store, unit) py" where
  "upsert_many env docs =
     bnd (map_each docs (prepare_document env)) (\<lambda>ps.
     if ps = [] then ret ()
     else
       bnd require_connection (\<lambda>_.
       transaction env
         (bnd (validate_embedding_dimensions env ps) (\<lambda>_.
          for_each ps (write_row env)))))"

definition vector_upsert :: "vector_env \<Rightarrow> pydict \<Rightarrow> (vector_store, unit) py" where
  "vector_upsert env d = upsert_many env [d]"

section \<open>Rebuilding the embeddings\<close>

definition rebuilt_document :: "rat list \<Rightarrow> pydict \<Rightarrow> pydict" where
  "rebuilt_document xs d =
     (if xs \<noteq> [] then assoc_put (VStr ''embedding'') (vector_value xs) d
      else filter (\<lambda>(k, v). k \<noteq> VStr ''embedding'' \<and> k \<noteq> VStr ''vector'') d)"

definition update_row :: "string \<Rightarrow> (vector_row \<Rightarrow> vector_row) \<Rightarrow> vector_row list \<Rightarrow> vector_row list" where
  "update_row k f rows = map (\<lambda>r. if vr_id r = k then f r else r) rows"

definition rebuild_row :: "vector_env \<Rightarrow> string \<Rightarrow> rat list \<Rightarrow> vector_row \<Rightarrow> (vector_store, unit) py" where
  "rebuild_row env now xs row =
     bnd (lift (decode_document env (vr_document row))) (\<lambda>d.
     bnd (lift (dump_value env (VDict (rebuilt_document xs d)))) (\<lambda>js.
     bnd (lift (vector_columns env xs)) (\<lambda>columns.
     bnd (sql_call env) (\<lambda>_.
     on_db (\<lambda>db. db\<lparr>vd_rows := update_row (vr_id row) (\<lambda>r. r\<lparr>vr_document := js,
         vr_embedding := map_option fst columns, vr_dim := map_option snd columns, vr_updated := now\<rparr>) (vd_rows db)\<rparr>)))))"

text \<open>\<open>embeddings\<close> is a dict: its keys are different.\<close>

definition replace_embeddings :: "vector_env \<Rightarrow> (string \<times> pyval) list \<Rightarrow> (vector_store, unit) py" where
  "replace_embeddings env embeddings =
     bnd (lift (mapR (\<lambda>(k, v). bindR (validated_vector env v) (\<lambda>xs. Inr (k, xs))) embeddings)) (\<lambda>vectors.
     let dims = dedup (map (\<lambda>(k, xs). length xs) (filter (\<lambda>(k, xs). xs \<noteq> []) vectors))
     in bnd (require (length dims \<le> 1) (Exc PyValueError ''all embeddings must use one dimension'')) (\<lambda>_.
        bnd require_connection (\<lambda>_.
        transaction env
          (bnd (sql_call env) (\<lambda>_.
           bnd (gets (\<lambda>s. sort_key vr_id (vd_rows (vs_db s)))) (\<lambda>rows.
           bnd (require (fst ` set vectors = vr_id ` set rows)
             (Exc PyValueError ''embedding rebuild must cover every memory record'')) (\<lambda>_.
           bnd (read_clock env) (\<lambda>now.
           bnd (for_each rows (\<lambda>row.
             case map_of vectors (vr_id row) of
               None \<Rightarrow> raise (Exc PyKeyError (vr_id row))
             | Some xs \<Rightarrow> rebuild_row env now xs row)) (\<lambda>_.
           bnd (sql_call env) (\<lambda>_.
           bnd (on_db (\<lambda>d. d\<lparr>vd_meta := filter (\<lambda>(k, v). k \<noteq> ''embedding_dimension'') (vd_meta d)\<rparr>)) (\<lambda>_.
           case dims of
             [] \<Rightarrow> ret ()
           | n # _ \<Rightarrow>
               bnd (sql_call env) (\<lambda>_.
               on_db (\<lambda>d. d\<lparr>vd_meta := vd_meta d @ [(''embedding_dimension'', show_nat n)]\<rparr>)))))))))))))"

section \<open>Reading\<close>

definition vector_get :: "vector_env \<Rightarrow> string \<Rightarrow> (vector_store, pydict option) py" where
  "vector_get env k =
     bnd (execute_statement env) (\<lambda>_.
     bnd (gets (\<lambda>s. List.find (\<lambda>r. vr_id r = k) (vd_rows (vs_db s)))) (\<lambda>row.
     case row of
       None \<Rightarrow> ret None
     | Some r \<Rightarrow> bnd (lift (decode_document env (vr_document r))) (\<lambda>d. ret (Some d))))"

definition vector_documents :: "vector_env \<Rightarrow> (vector_store, pydict list) py" where
  "vector_documents env =
     bnd (execute_statement env) (\<lambda>_.
     bnd (gets (\<lambda>s. sort_key vr_id (vd_rows (vs_db s)))) (\<lambda>rows.
     lift (mapR (\<lambda>r. decode_document env (vr_document r)) rows)))"

text \<open>\<open>query.split()\<close>, and the words as they are quoted for the index.\<close>

fun split_words :: "string \<Rightarrow> string list" where
  "split_words [] = []"
| "split_words (c # s) =
     (if is_space c then split_words s
      else case s of
          [] \<Rightarrow> [[c]]
        | d # _ \<Rightarrow> if is_space d then [c] # split_words s
            else (case split_words s of [] \<Rightarrow> [[c]] | w # ws \<Rightarrow> (c # w) # ws))"

definition search_terms :: "string \<Rightarrow> string list" where
  "search_terms query =
     map (\<lambda>t. concat (map (\<lambda>c. if c = CHR 0x22 then [CHR 0x22, CHR 0x22] else [c]) t))
       (filter (\<lambda>t. strip t \<noteq> []) (split_words query))"

definition match_text :: "string list \<Rightarrow> string" where
  "match_text terms = join_with '' AND '' (map (\<lambda>t. [CHR 0x22] @ t @ [CHR 0x22]) terms)"

text \<open>The rows the statement of \<open>search\<close> selects, in its order.\<close>

definition select_matches :: "(string \<times> rat) list \<Rightarrow> string option \<Rightarrow> int \<Rightarrow> vector_row list \<Rightarrow> vector_row list" where
  "select_matches matches category limit rows =
     take (nat limit)
       (map snd
         (sort_key (\<lambda>(rank, r). (rank, vr_id r))
           (concat (map (\<lambda>(k, rank). map (Pair rank)
              (filter (\<lambda>r. vr_id r = k \<and> (case category of None \<Rightarrow> True | Some c \<Rightarrow> vr_category r = SqlText c)) rows))
             matches))))"

definition vector_search :: "vector_env \<Rightarrow> string \<Rightarrow> string option \<Rightarrow> int \<Rightarrow> (vector_store, pydict list) py" where
  "vector_search env query category limit =
     bnd (require (\<not> limit < 1) limit_error) (\<lambda>_.
     if search_terms query = [] then ret []
     else
       bnd (execute_statement env) (\<lambda>_.
       bnd (gets vs_db) (\<lambda>db.
       bnd (lift (ve_match env (match_text (search_terms query)) (vd_index db))) (\<lambda>matches.
       lift (mapR (\<lambda>r. decode_document env (vr_document r)) (select_matches matches category limit (vd_rows db)))))))"

text \<open>\<open>reason\<close> searches for the entities together.\<close>

definition vector_reason :: "vector_env \<Rightarrow> string list \<Rightarrow> string option \<Rightarrow> int \<Rightarrow> (vector_store, pydict list) py" where
  "vector_reason env entities category limit = vector_search env (join_with '' '' entities) category limit"

text \<open>A row against the query vector: \<open>None\<close> when the lengths differ.\<close>

definition rank_row :: "vector_env \<Rightarrow> rat list \<Rightarrow> string \<Rightarrow> string \<Rightarrow> (rat \<times> string \<times> pydict) option res" where
  "rank_row env query document embedding =
     bindR (ve_loads env embedding) (\<lambda>v.
     bindR (validated_vector env v) (\<lambda>candidate.
     if length candidate \<noteq> length query then Inr None
     else
       bindR (decode_document env document) (\<lambda>d.
       bindR (cosine_similarity env query candidate) (\<lambda>similarity.
       let d' = assoc_put (VStr ''score'') (VFloat (Finite similarity))
                 (assoc_put (VStr ''similarity'') (VFloat (Finite similarity)) d)
       in bindR (document_id (ve_repr env) d') (\<lambda>k. Inr (Some (similarity, k, d')))))))"

definition query_vector :: "vector_env \<Rightarrow> pyval \<Rightarrow> int \<Rightarrow> string \<Rightarrow> (vector_store, pydict list) py" where
  "query_vector env vector top_k metric =
     bnd (require (\<not> top_k < 1) (Exc PyValueError ''top_k must be positive'')) (\<lambda>_.
     bnd (require (metric = ''cosine'') (Exc PyValueError ''local_vector supports only cosine similarity'')) (\<lambda>_.
     bnd (lift (validated_vector env vector)) (\<lambda>query.
     if query = [] then ret []
     else
       bnd (embedding_dimension env) (\<lambda>known.
       bnd (require (case known of None \<Rightarrow> True | Some n \<Rightarrow> int (length query) = n)
         (Exc PyValueError ''embedding dimension must match'')) (\<lambda>_.
       bnd (execute_statement env) (\<lambda>_.
       bnd (gets (\<lambda>s. List.map_filter (\<lambda>r. map_option (Pair (vr_document r)) (vr_embedding r)) (vd_rows (vs_db s)))) (\<lambda>rows.
       bnd (lift (mapR (\<lambda>(d, e). rank_row env query d e) rows)) (\<lambda>ranked.
       ret (map (\<lambda>(s, k, d). d)
         (take (nat top_k) (sort_key (\<lambda>(s, k, d). (- s, k)) (List.map_filter (\<lambda>x. x) ranked))))))))))))"

section \<open>Hybrid search\<close>

text \<open>\<open>xs[:n]\<close>.\<close>

definition py_take :: "int \<Rightarrow> 'a list \<Rightarrow> 'a list" where
  "py_take n xs = (if 0 \<le> n then take (nat n) xs else take (length xs - nat (- n)) xs)"

type_synonym ranking = "(string \<times> rat \<times> pydict) list"

definition rank_score :: "vector_env \<Rightarrow> rat \<Rightarrow> nat \<Rightarrow> rat" where
  "rank_score env weight rank = ve_round env (weight / ve_round env (60 + of_nat rank))"

text \<open>The loop over one list of results, from a rank on.\<close>

fun add_ranks :: "vector_env \<Rightarrow> rat \<Rightarrow> nat \<Rightarrow> pydict list \<Rightarrow> ranking \<Rightarrow> ranking res" where
  "add_ranks env weight rank [] ranked = Inr ranked"
| "add_ranks env weight rank (d # ds) ranked =
     bindR (document_id (ve_repr env) d) (\<lambda>k.
     let previous = (case map_of ranked k of None \<Rightarrow> 0 | Some (score, _) \<Rightarrow> score)
     in add_ranks env weight (Suc rank) ds
          (assoc_put k (ve_round env (previous + rank_score env weight rank), d) ranked))"

definition ordered_results :: "vector_env \<Rightarrow> ranking \<Rightarrow> (rat \<times> string \<times> pydict) list res" where
  "ordered_results env ranked =
     bindR (mapR (\<lambda>(k, score, d). bindR (document_id (ve_repr env) d) (\<lambda>k'. Inr (score, k', d))) ranked) (\<lambda>rs.
     Inr (sort_key (\<lambda>(score, k, d). (- score, k)) rs))"

text \<open>\<open>if query_vector\<close>, then the filter by category.\<close>

definition semantic_search ::
  "vector_env \<Rightarrow> pyval list option \<Rightarrow> string option \<Rightarrow> int \<Rightarrow> (vector_store, pydict list) py" where
  "semantic_search env vector category limit =
     bnd (case vector of
         Some (x # xs) \<Rightarrow> query_vector env (VList (x # xs)) (max (limit * 3) 20) ''cosine''
       | _ \<Rightarrow> ret []) (\<lambda>found.
     ret (case category of
         None \<Rightarrow> found
       | Some c \<Rightarrow> filter (\<lambda>d. dget d ''category'' = Some (VStr c)) found))"

definition vector_search_hybrid ::
  "vector_env \<Rightarrow> string \<Rightarrow> pyval list option \<Rightarrow> string option \<Rightarrow> int \<Rightarrow> (vector_store, pydict list) py" where
  "vector_search_hybrid env query vector category limit =
     bnd (vector_search env query category (max (limit * 3) 20)) (\<lambda>lexical.
     bnd (semantic_search env vector category limit) (\<lambda>semantic.
     bnd (lift (add_ranks env (ve_round env (45 / 100)) 1 lexical [])) (\<lambda>ranked.
     bnd (lift (add_ranks env (ve_round env (55 / 100)) 1 semantic ranked)) (\<lambda>ranked.
     bnd (lift (ordered_results env ranked)) (\<lambda>ordered.
     ret (map (\<lambda>(score, k, d). assoc_put (VStr ''hybrid_score'') (VFloat (Finite score)) d)
       (py_take limit ordered)))))))"

section \<open>Opening, closing, inspection\<close>

text \<open>A table that does not exist is an empty one: creating the tables changes nothing.\<close>

definition vector_open :: "vector_env \<Rightarrow> (vector_store, unit) py" where
  "vector_open env =
     bnd (sql_call env) (\<lambda>_.
     bnd (sql_call env) (\<lambda>_.
     bnd (sql_call env) (\<lambda>_.
     bnd (sql_call env) (\<lambda>_.
     bnd (sql_call env) (\<lambda>_.
     bnd (sql_call env) (\<lambda>_.
     bnd (sql_call env) (\<lambda>_.
     bnd (transaction env
       (bnd (sql_call env) (\<lambda>_.
        on_db (\<lambda>d. d\<lparr>vd_meta := assoc_put ''schema_version'' ''1'' (vd_meta d)\<rparr>)))) (\<lambda>_.
     modify (\<lambda>s. s\<lparr>vs_connected := True\<rparr>)))))))))"

definition vector_close :: "vector_env \<Rightarrow> (vector_store, unit) py" where
  "vector_close env =
     bnd (gets vs_connected) (\<lambda>c.
     if c then bnd (sql_call env) (\<lambda>_. modify (\<lambda>s. s\<lparr>vs_connected := False\<rparr>)) else ret ())"

definition vector_stats :: "vector_env \<Rightarrow> string \<Rightarrow> (vector_store, pydict) py" where
  "vector_stats env path =
     bnd (execute_statement env) (\<lambda>_.
     bnd (gets (\<lambda>s. vd_rows (vs_db s))) (\<lambda>rows.
     bnd (execute_statement env) (\<lambda>_.
     ret [(VStr ''backend'', VStr ''local_vector''), (VStr ''path'', VStr path),
          (VStr ''records'', VInt (int (length rows))),
          (VStr ''vectors'', VInt (int (length (filter (\<lambda>r. vr_embedding r \<noteq> None) rows)))),
          (VStr ''schema_version'', VInt 1), (VStr ''journal_mode'', VStr (lower (ve_journal env)))])))"

definition integrity_check :: "vector_env \<Rightarrow> (vector_store, string) py" where
  "integrity_check env = bnd (execute_statement env) (\<lambda>_. ret (ve_integrity env))"

text \<open>\<open>inspect_local_vector_store\<close> opens the file of its own, read-only, when there is one.\<close>

definition inspect_local_vector_store :: "vector_env \<Rightarrow> bool \<Rightarrow> (vector_store, pydict) py" where
  "inspect_local_vector_store env present =
     (if \<not> present then ret [(VStr ''status'', VStr ''missing''), (VStr ''records'', VInt 0), (VStr ''vectors'', VInt 0)]
      else
        bnd (sql_call env) (\<lambda>_.
        bnd (try_finally
          (bnd (sql_call env) (\<lambda>_.
           bnd (sql_call env) (\<lambda>_.
           bnd (gets (\<lambda>s. map_of (vd_meta (vs_db s)) ''schema_version'')) (\<lambda>version.
           bnd (sql_call env) (\<lambda>_.
           bnd (gets (\<lambda>s. vd_rows (vs_db s))) (\<lambda>rows.
           bnd (case version of
               None \<Rightarrow> raise (Exc PyTypeError ''NoneType object is not subscriptable'')
             | Some t \<Rightarrow> lift (int_of_str t)) (\<lambda>v.
           ret [(VStr ''status'', VStr (if ve_integrity env = ''ok'' then ''ready'' else ''corrupt'')),
                (VStr ''integrity'', VStr (ve_integrity env)), (VStr ''schema_version'', VInt v),
                (VStr ''records'', VInt (int (length rows))),
                (VStr ''vectors'', VInt (int (length (filter (\<lambda>r. vr_embedding r \<noteq> None) rows))))])))))))
          (sql_call env)) ret))"

definition vector_ops :: "vector_env \<Rightarrow> vector_store retriever_ops" where
  "vector_ops env = \<lparr>rt_upsert = vector_upsert env, rt_get = vector_get env, rt_search = vector_search env,
     rt_hybrid = Some (vector_search_hybrid env)\<rparr>"

end
