(* ===== verification/Maya_Vectors.thy ===== *)
theory Maya_Vectors
  imports Maya_Vector
begin

text \<open>
  What the store of \<open>Maya_Vector\<close> promises: its tables stay well formed and its index in step with
  them whatever fails, writes are all or nothing, a rebuild replaces the vectors and nothing else, a
  hybrid search ranks each document once, and the contract of a retriever holds.
\<close>

section \<open>What a statement changes\<close>

lemma wp_sql_call [wp]:
  "wlp (sql_call env) Q E = (\<lambda>s. case ve_fault env (vs_step s) of
      None \<Rightarrow> Q () (s\<lparr>vs_step := Suc (vs_step s)\<rparr>) | Some e \<Rightarrow> E e (s\<lparr>vs_step := Suc (vs_step s)\<rparr>))"
  by (rule ext) (simp add: sql_call_def wp split: option.splits)

lemma wp_read_clock [wp]:
  "wlp (read_clock env) Q E = (\<lambda>s. Q (ve_now env (vs_step s)) (s\<lparr>vs_step := Suc (vs_step s)\<rparr>))"
  by (rule ext) (simp add: read_clock_def wp)

lemma wp_require_connection [wp]:
  "wlp require_connection Q E =
     (\<lambda>s. if vs_connected s then Q () s else E (Exc PyRuntimeError ''local_vector retriever is closed'') s)"
  by (rule ext) (simp add: require_connection_def wp)

lemma wp_on_db [wp]: "wlp (on_db f) Q E = (\<lambda>s. Q () (s\<lparr>vs_db := f (vs_db s)\<rparr>))"
  by (rule ext) (simp add: on_db_def wp)

lemma wp_transaction [wp]:
  "wlp (transaction env body) Q E = (\<lambda>s.
     wlp body (\<lambda>a t. case ve_fault env (vs_step t) of
         None \<Rightarrow> Q a (t\<lparr>vs_step := Suc (vs_step t)\<rparr>)
       | Some e \<Rightarrow> E e (t\<lparr>vs_step := Suc (vs_step t), vs_db := vs_db s\<rparr>))
       (\<lambda>e t. E e (t\<lparr>vs_db := vs_db s\<rparr>)) s)"
  by (rule ext)
    (auto simp: wlp_def transaction_def bnd_def sql_call_def gets_def modify_def ret_def raise_def
      split: prod.splits sum.splits option.splits)

text \<open>Everything but the writes leaves the tables alone.\<close>

definition db_is :: "vector_db \<Rightarrow> vector_store \<Rightarrow> bool" where
  "db_is d s \<longleftrightarrow> vs_db s = d"

lemma keeps_sql_call [keeps_intro]: "keeps (db_is d) (sql_call env)"
  by (rule keepsI) (auto simp: wp db_is_def split: option.splits)

lemma keeps_read_clock [keeps_intro]: "keeps (db_is d) (read_clock env)"
  by (rule keepsI) (simp add: wp db_is_def)

lemma keeps_require_connection [keeps_intro]: "keeps (db_is d) require_connection"
  by (rule keepsI) (simp add: wp db_is_def)

lemma keeps_connected [keeps_intro]: "keeps (db_is d) (modify (\<lambda>s. s\<lparr>vs_connected := c\<rparr>))"
  by (rule keepsI) (simp add: wp db_is_def)

lemma keeps_execute [keeps_intro]: "keeps (db_is d) (execute_statement env)"
  unfolding execute_statement_def by (intro keeps_intro)

lemma keeps_option [keeps_intro]:
  "keeps I m \<Longrightarrow> (\<And>x. keeps I (f x)) \<Longrightarrow> keeps I (case v of None \<Rightarrow> m | Some x \<Rightarrow> f x)"
  by (simp split: option.split)

lemma keeps_let [keeps_intro]: "(\<And>x. keeps I (f x)) \<Longrightarrow> keeps I (let x = v in f x)"
  by simp

lemma keeps_map_each [keeps_intro]: "(\<And>x. keeps I (f x)) \<Longrightarrow> keeps I (map_each xs f)"
  by (induction xs) (auto intro!: keeps_intro)

lemma keeps_prepare [keeps_intro]: "keeps (db_is d) (prepare_document env doc)"
  unfolding prepare_document_def by (intro keeps_intro)

lemma keeps_get [keeps_intro]: "keeps (db_is d) (vector_get env k)"
  unfolding vector_get_def by (intro keeps_intro)

lemma keeps_documents [keeps_intro]: "keeps (db_is d) (vector_documents env)"
  unfolding vector_documents_def by (intro keeps_intro)

lemma keeps_search [keeps_intro]: "keeps (db_is d) (vector_search env q c n)"
  unfolding vector_search_def by (intro keeps_intro)

lemma keeps_dimension [keeps_intro]: "keeps (db_is d) (embedding_dimension env)"
  unfolding embedding_dimension_def by (intro keeps_intro)

lemma keeps_query [keeps_intro]: "keeps (db_is d) (query_vector env v k m)"
  unfolding query_vector_def by (intro keeps_intro)

lemma keeps_semantic [keeps_intro]: "keeps (db_is d) (semantic_search env v c n)"
  unfolding semantic_search_def
  by (cases v; cases "the v"; simp) (intro keeps_intro)+

lemma keeps_hybrid [keeps_intro]: "keeps (db_is d) (vector_search_hybrid env q v c n)"
  unfolding vector_search_hybrid_def by (intro keeps_intro)

section \<open>Well-formed tables\<close>

text \<open>
  No identity twice, the full-text index holds exactly the contents of the rows, a row has a length
  when it has a vector, and all vectors have the length \<open>n\<close>, which the metadata record if they record one.
\<close>

definition tables_ok :: "nat \<Rightarrow> vector_db \<Rightarrow> bool" where
  "tables_ok n d \<longleftrightarrow> distinct (map vr_id (vd_rows d))
     \<and> mset (vd_index d) = mset (map (\<lambda>r. (vr_id r, vr_content r)) (vd_rows d))
     \<and> (\<forall>r \<in> set (vd_rows d). (vr_dim r = None \<or> vr_dim r = Some n) \<and> (vr_embedding r = None \<longleftrightarrow> vr_dim r = None))
     \<and> (\<forall>t. map_of (vd_meta d) ''embedding_dimension'' = Some t \<longrightarrow> int_of_str t = Inr (int n))"

definition vector_db_ok :: "vector_db \<Rightarrow> bool" where
  "vector_db_ok d \<longleftrightarrow> (\<exists>n. tables_ok n d)"

text \<open>The pure part of \<open>_prepare_document\<close> and of the binding of its values, for a time.\<close>

definition prepared_of :: "vector_env \<Rightarrow> string \<Rightarrow> pydict \<Rightarrow> prepared res" where
  "prepared_of env now d =
     bindR (document_id (ve_repr env) d) (\<lambda>k.
     bindR (validated_vector env (embedding_of d)) (\<lambda>embedding.
     bindR (trust_of env d) (\<lambda>trust.
     let created = created_of env now d;
         doc = completed env k created trust d;
         meta = (case dget doc ''meta'' of Some (VDict m) \<Rightarrow> m | _ \<Rightarrow> [])
     in bindR (dump_value env (VDict doc)) (\<lambda>js.
        bindR (vector_columns env embedding) (\<lambda>columns.
        Inr \<lparr>pr_id = k, pr_document = js, pr_content = document_content d,
             pr_category = either_of doc meta ''category'', pr_trust = trust, pr_embedding = columns,
             pr_source_path = either_of doc meta ''source_path'', pr_source_hash = either_of doc meta ''source_hash'',
             pr_version = either_of doc meta ''extractor_version'', pr_created = created, pr_now = now\<rparr>)))))"

definition row_of :: "vector_env \<Rightarrow> string \<Rightarrow> pydict \<Rightarrow> vector_row res" where
  "row_of env now d = bindR (prepared_of env now d) (bind_row env)"

lemma prepare_rule:
  "prepare_document env d s = (Inr p, t) \<Longrightarrow> prepared_of env (ve_now env (vs_step s)) d = Inr p \<and> vs_db t = vs_db s"
  by (auto simp: prepare_document_def prepared_of_def bnd_def lift_def read_clock_def gets_def modify_def ret_def raise_def
      Let_def split: prod.splits sum.splits)

lemma prepare_each:
  "map_each docs (prepare_document env) s = (Inr ps, t) \<Longrightarrow>
     list_all2 (\<lambda>d p. \<exists>now. prepared_of env now d = Inr p) docs ps \<and> vs_db t = vs_db s"
proof (induction docs arbitrary: s ps t)
  case (Cons d docs)
  obtain p s1 where p: "prepare_document env d s = (Inr p, s1)"
    using Cons.prems by (auto simp: bnd_def split: prod.splits sum.splits)
  obtain qs where qs: "map_each docs (prepare_document env) s1 = (Inr qs, t)" "ps = p # qs"
    using Cons.prems p by (auto simp: bnd_def ret_def split: prod.splits sum.splits)
  have "\<exists>now. prepared_of env now d = Inr p" "vs_db s1 = vs_db s" using prepare_rule [OF p] by blast+
  then show ?case using Cons.IH [OF qs(1)] qs(2) by simp
qed (auto simp: ret_def)

text \<open>One row written into the tables.\<close>

definition write_tables :: "vector_row \<Rightarrow> vector_db \<Rightarrow> vector_db" where
  "write_tables row d = d\<lparr>vd_rows := put_row row (vd_rows d),
     vd_index := filter (\<lambda>(k, c). k \<noteq> vr_id row) (vd_index d) @ [(vr_id row, vr_content row)]\<rparr>"

lemma bind_row_parts:
  "bind_row env p = Inr row \<Longrightarrow> vr_id row = pr_id p \<and> vr_content row = pr_content p \<and> vr_document row = pr_document p
     \<and> vr_dim row = map_option snd (pr_embedding p) \<and> vr_embedding row = map_option fst (pr_embedding p)"
  by (auto simp: bind_row_def res_iffs)

lemma write_row_rule:
  "wlp (write_row env p) (\<lambda>_ t. \<exists>row. bind_row env p = Inr row \<and> vs_db t = write_tables row (vs_db s))
     (\<lambda>_ _. True) s"
  by (auto simp: write_row_def wp write_tables_def split: sum.splits option.splits dest: bind_row_parts)

lemma write_rows_rule:
  "for_each ps (write_row env) s = (Inr u, t) \<Longrightarrow>
     \<exists>rows. list_all2 (\<lambda>p row. bind_row env p = Inr row) ps rows \<and> vs_db t = fold write_tables rows (vs_db s)"
proof (induction ps arbitrary: s)
  case (Cons p ps)
  obtain s1 where s1: "write_row env p s = (Inr (), s1)" "for_each ps (write_row env) s1 = (Inr u, t)"
    using Cons.prems by (auto simp: bnd_def split: prod.splits sum.splits)
  obtain row where row: "bind_row env p = Inr row" "vs_db s1 = write_tables row (vs_db s)"
    using wlp_run(1) [OF write_row_rule s1(1)] by blast
  obtain rows where "list_all2 (\<lambda>p row. bind_row env p = Inr row) ps rows" "vs_db t = fold write_tables rows (vs_db s1)"
    using Cons.IH [OF s1(2)] by blast
  then show ?case using row by (intro exI [of _ "row # rows"]) simp
qed (auto simp: ret_def)

lemma put_row_ids: "vr_id ` set (put_row row rows) = insert (vr_id row) (vr_id ` set rows)"
  by (induction row rows rule: put_row.induct) auto

lemma put_row_distinct: "distinct (map vr_id rows) \<Longrightarrow> distinct (map vr_id (put_row row rows))"
proof (induction rows)
  case (Cons r rows)
  then show ?case using put_row_ids [of row rows] by (auto simp flip: set_map)
qed simp

lemma put_row_index:
  "distinct (map vr_id rows) \<Longrightarrow>
     mset (map (\<lambda>r. (vr_id r, vr_content r)) (put_row row rows)) =
     add_mset (vr_id row, vr_content row)
       (mset (map (\<lambda>r. (vr_id r, vr_content r)) (filter (\<lambda>r. vr_id r \<noteq> vr_id row) rows)))"
proof (induction rows)
  case (Cons r rows)
  have "filter (\<lambda>r. vr_id r \<noteq> vr_id row) rows = rows" if "vr_id r = vr_id row"
    using Cons.prems that by (auto intro!: filter_True) (metis image_eqI)
  then show ?case using Cons by (auto simp: add_mset_commute)
qed simp

lemma put_row_set: "r \<in> set (put_row row rows) \<Longrightarrow> r \<in> set rows \<or> (\<exists>c. r = row\<lparr>vr_created := c\<rparr>) \<or> r = row"
  by (induction row rows rule: put_row.induct) (auto split: if_splits)

lemma write_tables_ok:
  assumes "tables_ok n d" and "vr_dim row = None \<or> vr_dim row = Some n" and "vr_embedding row = None \<longleftrightarrow> vr_dim row = None"
  shows "tables_ok n (write_tables row d)"
proof -
  have rows: "distinct (map vr_id (vd_rows d))"
    "mset (vd_index d) = mset (map (\<lambda>r. (vr_id r, vr_content r)) (vd_rows d))"
    using assms(1) by (simp_all add: tables_ok_def)
  have "filter_mset (\<lambda>(k, c). k \<noteq> vr_id row) (mset (vd_index d)) =
      mset (map (\<lambda>r. (vr_id r, vr_content r)) (filter (\<lambda>r. vr_id r \<noteq> vr_id row) (vd_rows d)))"
    unfolding rows(2) mset_map filter_mset_image_mset mset_filter by (simp add: case_prod_unfold)
  then have "mset (vd_index (write_tables row d)) = mset (map (\<lambda>r. (vr_id r, vr_content r)) (vd_rows (write_tables row d)))"
    unfolding write_tables_def using put_row_index [OF rows(1), of row] by (simp add: mset_filter)
  then show ?thesis using assms rows put_row_distinct [OF rows(1)]
    by (auto simp: tables_ok_def write_tables_def dest!: put_row_set)
qed

lemma fold_write_ok:
  "tables_ok n d \<Longrightarrow> (\<And>row. row \<in> set rows \<Longrightarrow> (vr_dim row = None \<or> vr_dim row = Some n)
      \<and> (vr_embedding row = None \<longleftrightarrow> vr_dim row = None)) \<Longrightarrow> tables_ok n (fold write_tables rows d)"
  by (induction rows arbitrary: d) (auto intro!: write_tables_ok)

lemma dedup_Nil [simp]: "dedup xs = [] \<longleftrightarrow> xs = []"
  by (metis set_dedup set_empty)

lemma dedup_single: "dedup xs = [x] \<Longrightarrow> set xs = {x}"
  by (metis set_dedup list.set(1) list.set(2))

text \<open>The check of the dimension settles on one length for the stored and the incoming vectors.\<close>

definition dims_agree :: "nat \<Rightarrow> prepared list \<Rightarrow> bool" where
  "dims_agree n ps \<longleftrightarrow> (\<forall>p \<in> set ps. pr_embedding p = None \<or> map_option snd (pr_embedding p) = Some n)"

lemma set_map_filter: "x \<in> set (List.map_filter f xs) \<longleftrightarrow> (\<exists>y \<in> set xs. f y = Some x)"
  by (induction xs) (auto simp: map_filter_simps split: option.splits)

lemma dims_agree_single:
  "dedup (List.map_filter (\<lambda>p. map_option snd (pr_embedding p)) ps) = [n] \<Longrightarrow> dims_agree n ps"
proof (drule dedup_single)
  assume "set (List.map_filter (\<lambda>p. map_option snd (pr_embedding p)) ps) = {n}"
  then have "k = n" if "p \<in> set ps" "map_option snd (pr_embedding p) = Some k" for p k
    using that set_map_filter [of k "\<lambda>p. map_option snd (pr_embedding p)" ps] by blast
  then show "dims_agree n ps" unfolding dims_agree_def by (metis not_None_eq option.map_disc_iff)
qed

lemma dims_agree_none:
  "dedup (List.map_filter (\<lambda>p. map_option snd (pr_embedding p)) ps) = [] \<Longrightarrow> dims_agree n ps"
proof -
  assume "dedup (List.map_filter (\<lambda>p. map_option snd (pr_embedding p)) ps) = []"
  then have "map_option snd (pr_embedding p) \<noteq> Some k" if "p \<in> set ps" for p k
    using that set_map_filter [of k "\<lambda>p. map_option snd (pr_embedding p)" ps] by auto
  then show "dims_agree n ps" unfolding dims_agree_def by (metis not_None_eq option.map_disc_iff)
qed

lemma meta_dimension_ok:
  assumes "tables_ok m d" and "map_of (vd_meta d) ''embedding_dimension'' = None"
    and "n = (case row_dims (vd_rows d) of [] \<Rightarrow> i | j # _ \<Rightarrow> j)"
  shows "tables_ok n (d\<lparr>vd_meta := assoc_put ''embedding_dimension'' (show_int (int n)) (vd_meta d)\<rparr>)"
proof -
  have dims: "set (row_dims (vd_rows d)) = {k. \<exists>r \<in> set (vd_rows d). vr_dim r = Some k}"
    by (auto simp: row_dims_def set_map_filter)
  have "vr_dim r = None \<or> vr_dim r = Some n" if "r \<in> set (vd_rows d)" for r
  proof (cases "row_dims (vd_rows d)")
    case Nil
    then show ?thesis using dims that by (cases "vr_dim r") auto
  next
    case (Cons j js)
    then have "j \<in> {k. \<exists>r \<in> set (vd_rows d). vr_dim r = Some k}" using dims by auto
    then have "j = m" using assms(1) by (auto simp: tables_ok_def)
    then show ?thesis using assms(1,3) Cons that by (auto simp: tables_ok_def)
  qed
  then show ?thesis using assms(1) by (auto simp: tables_ok_def int_of_show_int)
qed

lemma validate_rule:
  assumes "tables_ok m (vs_db s)"
  shows "wlp (validate_embedding_dimensions env ps)
     (\<lambda>_ t. vd_rows (vs_db t) = vd_rows (vs_db s) \<and> vd_index (vs_db t) = vd_index (vs_db s)
        \<and> (\<exists>n. tables_ok n (vs_db t) \<and> dims_agree n ps)) (\<lambda>_ _. True) s"
proof -
  let ?dims = "dedup (List.map_filter (\<lambda>p. map_option snd (pr_embedding p)) ps)"
  consider "?dims = []" | i where "?dims = [i]" | i j js where "?dims = i # j # js"
    by (metis list.exhaust)
  then show ?thesis
  proof cases
    case 1
    then show ?thesis using assms dims_agree_none [OF 1] by (auto simp: validate_embedding_dimensions_def wp)
  next
    case (2 i)
    have agree: "dims_agree i ps" by (rule dims_agree_single [OF 2])
    have known: "int_of_str t = Inr (int m)" if "map_of (vd_meta (vs_db s)) ''embedding_dimension'' = Some t" for t
      using assms that by (simp add: tables_ok_def)
    let ?n = "case row_dims (vd_rows (vs_db s)) of [] \<Rightarrow> i | j # _ \<Rightarrow> j"
    have fresh: "tables_ok ?n (vs_db s\<lparr>vd_meta := assoc_put ''embedding_dimension'' (show_int (int ?n)) (vd_meta (vs_db s))\<rparr>)"
      if "map_of (vd_meta (vs_db s)) ''embedding_dimension'' = None"
      by (rule meta_dimension_ok [OF assms that refl])
    have "\<exists>n. tables_ok n (vs_db s\<lparr>vd_meta := assoc_put ''embedding_dimension'' (show_int (int ?n)) (vd_meta (vs_db s))\<rparr>)
        \<and> dims_agree n ps"
      if "map_of (vd_meta (vs_db s)) ''embedding_dimension'' = None" "i = ?n"
      using fresh [OF that(1)] agree that(2) by metis
    then show ?thesis
      unfolding validate_embedding_dimensions_def 2
      using agree assms known
      by (auto simp: wp embedding_dimension_def execute_statement_def Let_def split: option.splits)
  next
    case (3 i j js)
    then show ?thesis by (simp add: validate_embedding_dimensions_def wp)
  qed
qed

section \<open>Writes are all or nothing\<close>

lemma transaction_raise: "transaction env body s = (Inl e, t) \<Longrightarrow> vs_db t = vs_db s"
  by (auto simp: transaction_def split: prod.splits sum.splits)

lemma transaction_return:
  assumes "transaction env body s = (Inr a, t)"
  obtains u where "body s = (Inr a, u)" "vs_db t = vs_db u"
  using assms by (auto simp: transaction_def bnd_def sql_call_def gets_def modify_def ret_def raise_def
      split: prod.splits sum.splits option.splits)

lemma require_connection_state: "require_connection s = (r, t) \<Longrightarrow> t = s"
  by (auto simp: require_connection_def bnd_def gets_def require_def ret_def raise_def split: if_splits)

lemma many_raise:
  assumes "upsert_many env docs s = (Inl e, t)"
  shows "vs_db t = vs_db s"
proof -
  have "keeps (db_is (vs_db s)) (map_each docs (prepare_document env))" by (intro keeps_intro)
  then have prepared: "vs_db u = vs_db s" if "map_each docs (prepare_document env) s = (r, u)" for r u
    using keeps_run [of "db_is (vs_db s)" _ s r u] that by (simp add: db_is_def)
  show ?thesis
    using assms unfolding upsert_many_def
    by (elim bnd_raised) (auto simp: ret_def dest!: prepared require_connection_state transaction_raise
        split: if_splits elim!: bnd_raised)
qed

lemma keeps_validate: "keeps (\<lambda>s. vd_rows (vs_db s) = rows) (validate_embedding_dimensions env ps)"
proof (rule keepsI)
  fix s :: vector_store
  assume "vd_rows (vs_db s) = rows"
  then show "wlp (validate_embedding_dimensions env ps) (\<lambda>_ s. vd_rows (vs_db s) = rows) (\<lambda>_ s. vd_rows (vs_db s) = rows) s"
    by (auto simp: validate_embedding_dimensions_def wp embedding_dimension_def execute_statement_def Let_def
        split: option.splits list.splits sum.splits)
qed

lemma rows_fold_write: "vd_rows (fold write_tables rows d) = fold put_row rows (vd_rows d)"
  by (induction rows arbitrary: d) (simp_all add: write_tables_def)

lemma rows_of_prepared:
  "list_all2 (\<lambda>d p. \<exists>now. prepared_of env now d = Inr p) docs ps \<Longrightarrow>
   list_all2 (\<lambda>p row. bind_row env p = Inr row) ps rows \<Longrightarrow>
   list_all2 (\<lambda>d row. \<exists>now. row_of env now d = Inr row) docs rows"
proof (induction docs arbitrary: ps rows)
  case (Cons d docs)
  obtain p ps' row rows' where split: "ps = p # ps'" "rows = row # rows'"
    using Cons.prems by (auto simp: list_all2_Cons1 list_all2_Cons2)
  then obtain now where "prepared_of env now d = Inr p" "bind_row env p = Inr row" using Cons.prems by auto
  then have "row_of env now d = Inr row" by (simp add: row_of_def)
  then show ?case using Cons split by auto
qed auto

lemma many_return:
  assumes "upsert_many env docs s = (Inr u, t)"
  shows "(\<exists>rows. list_all2 (\<lambda>d row. \<exists>now. row_of env now d = Inr row) docs rows
      \<and> vd_rows (vs_db t) = fold put_row rows (vd_rows (vs_db s)))
    \<and> (vector_db_ok (vs_db s) \<longrightarrow> vector_db_ok (vs_db t))"
proof -
  obtain ps s1 where ps: "map_each docs (prepare_document env) s = (Inr ps, s1)"
    and rest: "(if ps = [] then ret () else bnd require_connection (\<lambda>_. transaction env
         (bnd (validate_embedding_dimensions env ps) (\<lambda>_. for_each ps (write_row env))))) s1 = (Inr u, t)"
    using assms unfolding upsert_many_def by (elim bnd_return)
  have docs: "list_all2 (\<lambda>d p. \<exists>now. prepared_of env now d = Inr p) docs ps" and s1: "vs_db s1 = vs_db s"
    using prepare_each [OF ps] by simp_all
  show ?thesis
  proof (cases "ps = []")
    case True
    then show ?thesis using docs rest s1 by (auto simp: ret_def)
  next
    case False
    obtain s2 where "transaction env (bnd (validate_embedding_dimensions env ps) (\<lambda>_. for_each ps (write_row env))) s1
        = (Inr u, t)"
      using rest False by (auto elim!: bnd_return dest!: require_connection_state)
    then obtain s3 s4 where val: "validate_embedding_dimensions env ps s1 = (Inr (), s3)"
      and wr: "for_each ps (write_row env) s3 = (Inr u, s4)" and t: "vs_db t = vs_db s4"
      by (elim transaction_return bnd_return) auto
    obtain rows where rows: "list_all2 (\<lambda>p row. bind_row env p = Inr row) ps rows"
      "vs_db t = fold write_tables rows (vs_db s3)"
      using write_rows_rule [OF wr] t by auto
    have same: "vd_rows (vs_db s3) = vd_rows (vs_db s)"
      using keeps_run [OF keeps_validate [of "vd_rows (vs_db s)"] _ val] s1 by simp
    have "vector_db_ok (vs_db t)" if ok: "vector_db_ok (vs_db s)"
    proof -
      obtain m where "tables_ok m (vs_db s1)" using ok s1 by (auto simp: vector_db_ok_def)
      then obtain n where n: "tables_ok n (vs_db s3)" "dims_agree n ps"
        using wlp_run(1) [OF validate_rule val] by blast
      have "(vr_dim row = None \<or> vr_dim row = Some n) \<and> (vr_embedding row = None \<longleftrightarrow> vr_dim row = None)"
        if "row \<in> set rows" for row
      proof -
        obtain i where "i < length rows" "row = rows ! i" using \<open>row \<in> set rows\<close> by (auto simp: in_set_conv_nth)
        then have "ps ! i \<in> set ps" "bind_row env (ps ! i) = Inr row"
          using rows(1) by (auto simp: list_all2_conv_all_nth)
        then show ?thesis using n(2) by (auto simp: dims_agree_def dest!: bind_row_parts)
      qed
      then have "tables_ok n (vs_db t)" unfolding rows(2) by (rule fold_write_ok [OF n(1)])
      then show ?thesis by (auto simp: vector_db_ok_def)
    qed
    then show ?thesis using rows_of_prepared [OF docs rows(1)] rows(2) same by (auto simp: rows_fold_write)
  qed
qed

section \<open>A rebuild\<close>

text \<open>What a rebuild makes of a row, given the new vectors.\<close>

definition rebuilt :: "vector_env \<Rightarrow> (string \<times> rat list) list \<Rightarrow> vector_row \<Rightarrow> vector_row \<Rightarrow> bool" where
  "rebuilt env vectors r r' \<longleftrightarrow>
     (\<exists>xs d js columns now. map_of vectors (vr_id r) = Some xs \<and> decode_document env (vr_document r) = Inr d
        \<and> dump_value env (VDict (rebuilt_document xs d)) = Inr js \<and> vector_columns env xs = Inr columns
        \<and> r' = r\<lparr>vr_document := js, vr_embedding := map_option fst columns, vr_dim := map_option snd columns,
            vr_updated := now\<rparr>)"

lemma rebuild_row_rule:
  assumes "rebuild_row env now xs row s = (Inr u, t)" and "map_of vectors (vr_id row) = Some xs"
    and "distinct (map vr_id (vd_rows (vs_db s)))" and "row \<in> set (vd_rows (vs_db s))"
  shows "\<exists>f. rebuilt env vectors row (f row) \<and> vr_id (f row) = vr_id row
    \<and> vs_db t = vs_db s\<lparr>vd_rows := map (\<lambda>r. if r = row then f r else r) (vd_rows (vs_db s))\<rparr>"
proof -
  obtain d js columns where parts: "decode_document env (vr_document row) = Inr d"
    "dump_value env (VDict (rebuilt_document xs d)) = Inr js" "vector_columns env xs = Inr columns"
    and t: "vs_db t = vs_db s\<lparr>vd_rows := update_row (vr_id row) (\<lambda>r. r\<lparr>vr_document := js,
         vr_embedding := map_option fst columns, vr_dim := map_option snd columns, vr_updated := now\<rparr>) (vd_rows (vs_db s))\<rparr>"
    using assms(1)
    by (auto simp: rebuild_row_def bnd_def lift_def sql_call_def on_db_def gets_def modify_def ret_def raise_def
        split: sum.splits option.splits)
  have same: "vr_id r = vr_id row \<longleftrightarrow> r = row" if "r \<in> set (vd_rows (vs_db s))" for r
    using assms(3,4) that by (auto simp: distinct_map inj_on_def)
  show ?thesis
    by (rule exI [of _ "\<lambda>r. r\<lparr>vr_document := js, vr_embedding := map_option fst columns,
         vr_dim := map_option snd columns, vr_updated := now\<rparr>"])
      (use parts assms(2) same in \<open>auto simp: t rebuilt_def update_row_def\<close>)
qed

lemma rebuild_rows_rule:
  "for_each todo (\<lambda>row. case map_of vectors (vr_id row) of
       None \<Rightarrow> raise (Exc PyKeyError (vr_id row)) | Some xs \<Rightarrow> rebuild_row env now xs row) s = (Inr u, t) \<Longrightarrow>
     distinct (map vr_id (vd_rows (vs_db s))) \<Longrightarrow> set todo \<subseteq> set (vd_rows (vs_db s)) \<Longrightarrow> distinct todo \<Longrightarrow>
     \<exists>rows. vs_db t = vs_db s\<lparr>vd_rows := rows\<rparr>
       \<and> list_all2 (\<lambda>r r'. if r \<in> set todo then rebuilt env vectors r r' else r' = r) (vd_rows (vs_db s)) rows"
proof (induction todo arbitrary: s)
  case Nil
  have "vs_db s = vs_db s\<lparr>vd_rows := vd_rows (vs_db s)\<rparr>" by simp
  then show ?case using Nil.prems(1) by (auto simp: ret_def list_all2_refl intro!: exI [of _ "vd_rows (vs_db s)"])
next
  case (Cons x todo)
  let ?rows = "vd_rows (vs_db s)"
  obtain xs s1 where xs: "map_of vectors (vr_id x) = Some xs" and s1: "rebuild_row env now xs x s = (Inr (), s1)"
    and rest: "for_each todo (\<lambda>row. case map_of vectors (vr_id row) of
       None \<Rightarrow> raise (Exc PyKeyError (vr_id row)) | Some xs \<Rightarrow> rebuild_row env now xs row) s1 = (Inr u, t)"
    using Cons.prems(1) by (auto simp: raise_def split: option.splits elim!: bnd_return)
  obtain f where f: "rebuilt env vectors x (f x)" "vr_id (f x) = vr_id x"
    and d1: "vs_db s1 = vs_db s\<lparr>vd_rows := map (\<lambda>r. if r = x then f r else r) ?rows\<rparr>"
    using rebuild_row_rule [OF s1 xs Cons.prems(2)] Cons.prems(3) by auto
  let ?rows1 = "map (\<lambda>r. if r = x then f r else r) ?rows"
  have ids: "map vr_id ?rows1 = map vr_id ?rows" using f(2) by auto
  have inj: "r = q" if "r \<in> set ?rows" "q \<in> set ?rows" "vr_id r = vr_id q" for r q
    using Cons.prems(2) that by (auto simp: distinct_map inj_on_def)
  have in1: "set todo \<subseteq> set ?rows1" using Cons.prems(3,4) by auto
  have rows1: "vd_rows (vs_db s1) = ?rows1" by (simp add: d1)
  obtain rows where rows: "vs_db t = vs_db s1\<lparr>vd_rows := rows\<rparr>"
    "list_all2 (\<lambda>r r'. if r \<in> set todo then rebuilt env vectors r r' else r' = r) ?rows1 rows"
    using Cons.IH [OF rest] Cons.prems(2,4) in1 unfolding rows1 ids [symmetric] by auto
  have fx: "f x \<notin> set todo" using f(2) inj Cons.prems(3,4) by (metis distinct.simps(2) list.set_intros(1,2) subsetD)
  have "list_all2 (\<lambda>r r'. if r \<in> set (x # todo) then rebuilt env vectors r r' else r' = r) ?rows rows"
    using rows(2) unfolding list_all2_map1
    by (rule list_all2_mono) (use f(1) fx in \<open>auto split: if_splits\<close>)
  moreover have "vs_db t = vs_db s\<lparr>vd_rows := rows\<rparr>" using rows(1) d1 by simp
  ultimately show ?case by blast
qed

definition vectors_of :: "vector_env \<Rightarrow> (string \<times> pyval) list \<Rightarrow> (string \<times> rat list) list res" where
  "vectors_of env embeddings = mapR (\<lambda>(k, v). bindR (validated_vector env v) (\<lambda>xs. Inr (k, xs))) embeddings"

text \<open>The tables after a rebuild with these vectors: new vectors, lengths and documents, nothing else.\<close>

definition rebuilt_tables :: "vector_env \<Rightarrow> (string \<times> rat list) list \<Rightarrow> vector_db \<Rightarrow> vector_db \<Rightarrow> bool" where
  "rebuilt_tables env vectors d d' \<longleftrightarrow>
     list_all2 (rebuilt env vectors) (vd_rows d) (vd_rows d') \<and> vd_index d' = vd_index d
     \<and> (\<exists>n. (\<forall>(k, xs) \<in> set vectors. xs = [] \<or> length xs = n)
        \<and> map_of (vd_meta d') ''embedding_dimension'' =
            (if \<exists>(k, xs) \<in> set vectors. xs \<noteq> [] then Some (show_nat n) else None))
     \<and> (\<forall>k. k \<noteq> ''embedding_dimension'' \<longrightarrow> map_of (vd_meta d') k = map_of (vd_meta d) k)"

lemma map_of_without: "map_of (filter (\<lambda>(k, v). k \<noteq> q) m) = (map_of m)(q := None)"
  by (induction m) auto

lemma vector_lengths:
  assumes "dedup (map (\<lambda>(k, xs). length xs) (filter (\<lambda>(k, xs). xs \<noteq> []) vectors)) = ns" and "length ns \<le> 1"
  shows "(\<forall>(k, xs) \<in> set vectors. xs = [] \<or> length xs = (case ns of [] \<Rightarrow> 0 | n # _ \<Rightarrow> n))
    \<and> ((\<exists>(k, xs) \<in> set vectors. xs \<noteq> []) \<longleftrightarrow> ns \<noteq> [])"
proof -
  have ns: "set ns = {length xs |k xs. (k, xs) \<in> set vectors \<and> xs \<noteq> []}"
    unfolding assms(1) [symmetric] by (auto simp: image_iff)
  have one: "m = (case ns of [] \<Rightarrow> 0 | n # _ \<Rightarrow> n)" if "m \<in> set ns" for m
    using assms(2) that by (cases ns) auto
  have "xs = [] \<or> length xs = (case ns of [] \<Rightarrow> 0 | n # _ \<Rightarrow> n)" if "(k, xs) \<in> set vectors" for k xs
    using one [of "length xs"] ns that by blast
  moreover have "(\<exists>(k, xs) \<in> set vectors. xs \<noteq> []) \<longleftrightarrow> set ns \<noteq> {}" unfolding ns by auto
  ultimately show ?thesis by auto
qed

lemma replace_return:
  assumes "replace_embeddings env embeddings s = (Inr u, t)" and "vector_db_ok (vs_db s)"
  shows "\<exists>vectors. vectors_of env embeddings = Inr vectors \<and> fst ` set vectors = vr_id ` set (vd_rows (vs_db s))
    \<and> rebuilt_tables env vectors (vs_db s) (vs_db t)"
proof -
  obtain vectors where vectors: "vectors_of env embeddings = Inr vectors"
    using assms(1) by (auto simp: replace_embeddings_def vectors_of_def lift_def raise_def split: sum.splits elim!: bnd_return)
  let ?dims = "dedup (map (\<lambda>(k, xs). length xs) (filter (\<lambda>(k, xs). xs \<noteq> []) vectors))"
  let ?rows = "sort_key vr_id (vd_rows (vs_db s))"
  have distinct: "distinct (map vr_id (vd_rows (vs_db s)))"
    using assms(2) by (auto simp: vector_db_ok_def tables_ok_def)
  let ?s1 = "s\<lparr>vs_step := Suc (Suc (vs_step s))\<rparr>" and ?now = "ve_now env (vs_step (s\<lparr>vs_step := Suc (vs_step s)\<rparr>))"
  obtain s2 where dims: "length ?dims \<le> 1" and cover: "fst ` set vectors = vr_id ` set (vd_rows (vs_db s))"
    and loop: "for_each ?rows (\<lambda>row. case map_of vectors (vr_id row) of
       None \<Rightarrow> raise (Exc PyKeyError (vr_id row)) | Some xs \<Rightarrow> rebuild_row env ?now xs row) ?s1 = (Inr (), s2)"
    and t: "vs_db t = (let d = vs_db s2\<lparr>vd_meta := filter (\<lambda>(k, v). k \<noteq> ''embedding_dimension'') (vd_meta (vs_db s2))\<rparr> in
       case ?dims of [] \<Rightarrow> d | n # _ \<Rightarrow> d\<lparr>vd_meta := vd_meta d @ [(''embedding_dimension'', show_nat n)]\<rparr>)"
    using assms(1) vectors
    by (auto simp: replace_embeddings_def vectors_of_def lift_def ret_def raise_def Let_def require_def gets_def
        sql_call_def modify_def on_db_def read_clock_def
        split: if_splits list.splits option.splits dest!: require_connection_state
        elim!: bnd_return transaction_return)
  obtain rows where rows: "vs_db s2 = vs_db s\<lparr>vd_rows := rows\<rparr>"
    "list_all2 (\<lambda>r r'. if r \<in> set ?rows then rebuilt env vectors r r' else r' = r) (vd_rows (vs_db s)) rows"
    using rebuild_rows_rule [OF loop] distinct by (auto simp: distinct_map)
  have new: "list_all2 (rebuilt env vectors) (vd_rows (vs_db s)) rows"
    using rows(2) by (simp add: list_all2_conv_all_nth)
  have lengths: "\<forall>(k, xs) \<in> set vectors. xs = [] \<or> length xs = (case ?dims of [] \<Rightarrow> 0 | n # _ \<Rightarrow> n)"
    "(\<exists>(k, xs) \<in> set vectors. xs \<noteq> []) \<longleftrightarrow> ?dims \<noteq> []"
    using vector_lengths [OF refl dims] by simp_all
  let ?meta = "filter (\<lambda>(k, v). k \<noteq> ''embedding_dimension'') (vd_meta (vs_db s))"
  have meta: "map_of (vd_meta (vs_db t)) = (case ?dims of [] \<Rightarrow> map_of ?meta
      | n # _ \<Rightarrow> (map_of ?meta)(''embedding_dimension'' \<mapsto> show_nat n))"
    unfolding t Let_def rows(1) by (cases ?dims) (auto simp: fun_eq_iff map_add_def map_of_without split: option.split)
  have n: "map_of (vd_meta (vs_db t)) ''embedding_dimension'' =
      (if ?dims \<noteq> [] then Some (show_nat (case ?dims of [] \<Rightarrow> 0 | n # _ \<Rightarrow> n)) else None)"
    unfolding meta by (cases ?dims) (simp_all add: map_of_without)
  have others: "\<forall>k. k \<noteq> ''embedding_dimension'' \<longrightarrow> map_of (vd_meta (vs_db t)) k = map_of (vd_meta (vs_db s)) k"
    unfolding meta by (cases ?dims) (simp_all add: map_of_without)
  have "vd_rows (vs_db t) = rows" "vd_index (vs_db t) = vd_index (vs_db s)"
    unfolding t Let_def rows(1) by (cases ?dims; simp)+
  then have "rebuilt_tables env vectors (vs_db s) (vs_db t)"
    unfolding rebuilt_tables_def lengths(2)
    by (intro conjI exI [of _ "case ?dims of [] \<Rightarrow> 0 | n # _ \<Rightarrow> n"]) (use new lengths(1) n others in simp_all)
  then show ?thesis using vectors cover by blast
qed

lemma rebuilt_ok:
  assumes ok: "vector_db_ok d" and new: "rebuilt_tables env vectors d d'"
  shows "vector_db_ok d'"
proof -
  obtain m where m: "tables_ok m d" using ok by (auto simp: vector_db_ok_def)
  obtain n where n: "\<forall>(k, xs) \<in> set vectors. xs = [] \<or> length xs = n"
    "map_of (vd_meta d') ''embedding_dimension'' = (if \<exists>(k, xs) \<in> set vectors. xs \<noteq> [] then Some (show_nat n) else None)"
    using new by (auto simp: rebuilt_tables_def)
  have rows: "list_all2 (rebuilt env vectors) (vd_rows d) (vd_rows d')" using new by (simp add: rebuilt_tables_def)
  have "list_all2 (\<lambda>r r'. vr_id r' = vr_id r \<and> vr_content r' = vr_content r) (vd_rows d) (vd_rows d')"
    using rows by (rule list_all2_mono) (auto simp: rebuilt_def)
  then have same: "map vr_id (vd_rows d') = map vr_id (vd_rows d)"
    "map (\<lambda>r. (vr_id r, vr_content r)) (vd_rows d') = map (\<lambda>r. (vr_id r, vr_content r)) (vd_rows d)"
    by (simp_all add: list_all2_conv_all_nth list_eq_iff_nth_eq)
  have "(vr_dim r' = None \<or> vr_dim r' = Some n) \<and> (vr_embedding r' = None \<longleftrightarrow> vr_dim r' = None)"
    if in': "r' \<in> set (vd_rows d')" for r'
  proof -
    obtain r where "rebuilt env vectors r r'"
      using rows in' by (metis list_all2_conv_all_nth in_set_conv_nth)
    then obtain xs columns where "map_of vectors (vr_id r) = Some xs" "vector_columns env xs = Inr columns"
      "vr_embedding r' = map_option fst columns" "vr_dim r' = map_option snd columns"
      by (auto simp: rebuilt_def)
    then show ?thesis using n(1) by (auto simp: vector_columns_def res_iffs split: if_splits dest!: map_of_SomeD)
  qed
  moreover have "int_of_str t = Inr (int n)" if "map_of (vd_meta d') ''embedding_dimension'' = Some t" for t
    using n(2) that int_of_show_int [of "int n"] by (auto simp: show_int_def split: if_splits)
  ultimately have "tables_ok n d'" using m same new by (auto simp: tables_ok_def rebuilt_tables_def)
  then show ?thesis by (auto simp: vector_db_ok_def)
qed

lemma replace_raise:
  assumes "replace_embeddings env embeddings s = (Inl e, t)"
  shows "vs_db t = vs_db s"
  using assms unfolding replace_embeddings_def Let_def
  by (auto simp: lift_def raise_def ret_def require_def split: sum.splits if_splits
      dest!: require_connection_state transaction_raise elim!: bnd_raised)

text \<open>
  Rebuilding all embeddings is one step: when it returns, the given vectors covered exactly the
  stored records, every record has its new vector in its own column and inside its document and is
  otherwise the same, contents, index and other metadata have not changed, and the recorded length is
  that of all new vectors; when it raises, whatever failed, nothing has changed.
\<close>

theorem rebuild_is_atomic:
  assumes "vector_db_ok (vs_db s)" and "replace_embeddings env embeddings s = (r, t)"
  shows "case r of
      Inl e \<Rightarrow> vs_db t = vs_db s
    | Inr u \<Rightarrow> \<exists>vectors. vectors_of env embeddings = Inr vectors
        \<and> fst ` set vectors = vr_id ` set (vd_rows (vs_db s)) \<and> rebuilt_tables env vectors (vs_db s) (vs_db t)"
  using replace_raise [of env embeddings s _ t] replace_return [of env embeddings s _ t] assms by (cases r) auto

section \<open>Histories\<close>

text \<open>The operations of the store; each may be called by a process of its own, with any failures.\<close>

datatype vector_op =
    Upsert "pydict list"
  | Rebuild "(string \<times> pyval) list"
  | Get string
  | Documents
  | Search string "string option" int
  | Query pyval int string
  | Hybrid string "pyval list option" "string option" int
  | Open
  | Close

fun run_vector_op :: "vector_env \<Rightarrow> vector_op \<Rightarrow> (vector_store, unit) py" where
  "run_vector_op env (Upsert docs) = upsert_many env docs"
| "run_vector_op env (Rebuild embeddings) = replace_embeddings env embeddings"
| "run_vector_op env (Get k) = bnd (vector_get env k) (\<lambda>_. ret ())"
| "run_vector_op env Documents = bnd (vector_documents env) (\<lambda>_. ret ())"
| "run_vector_op env (Search q c n) = bnd (vector_search env q c n) (\<lambda>_. ret ())"
| "run_vector_op env (Query v k m) = bnd (query_vector env v k m) (\<lambda>_. ret ())"
| "run_vector_op env (Hybrid q v c n) = bnd (vector_search_hybrid env q v c n) (\<lambda>_. ret ())"
| "run_vector_op env Open = vector_open env"
| "run_vector_op env Close = vector_close env"

inductive vector_history :: "vector_db \<Rightarrow> bool" where
  start: "vector_history \<lparr>vd_rows = [], vd_index = [], vd_meta = []\<rparr>"
| op: "vector_history (vs_db s) \<Longrightarrow> run_vector_op env p s = (r, t) \<Longrightarrow> vector_history (vs_db t)"

lemma open_keeps:
  assumes "vector_open env s = (r, t)"
  shows "vs_db t = vs_db s \<or>
    vs_db t = vs_db s\<lparr>vd_meta := assoc_put ''schema_version'' ''1'' (vd_meta (vs_db s))\<rparr>"
proof -
  let ?P = "\<lambda>t. vs_db t = vs_db s \<or>
    vs_db t = vs_db s\<lparr>vd_meta := assoc_put ''schema_version'' ''1'' (vd_meta (vs_db s))\<rparr>"
  have "wlp (vector_open env) (\<lambda>_. ?P) (\<lambda>_. ?P) s"
    by (auto simp: vector_open_def wp split: option.splits)
  then show ?thesis using assms by (rule wlp_result)
qed

lemma keeps_close: "keeps (db_is d) (vector_close env)"
  unfolding vector_close_def by (intro keeps_intro)

lemma op_reads:
  assumes "run_vector_op env p s = (r, t)" and "\<And>docs. p \<noteq> Upsert docs" and "\<And>vs. p \<noteq> Rebuild vs" and "p \<noteq> Open"
  shows "vs_db t = vs_db s"
proof -
  have "keeps (db_is (vs_db s)) (run_vector_op env p)"
    using assms(2-4) by (cases p) (auto intro!: keeps_intro keeps_close)
  from keeps_run [OF this _ assms(1)] show ?thesis by (simp add: db_is_def)
qed

lemma schema_ok:
  "vector_db_ok d \<Longrightarrow> vector_db_ok (d\<lparr>vd_meta := assoc_put ''schema_version'' v (vd_meta d)\<rparr>)"
  unfolding vector_db_ok_def tables_ok_def by simp

lemma op_keeps_ok:
  assumes "run_vector_op env p s = (r, t)" and "vector_db_ok (vs_db s)"
  shows "vector_db_ok (vs_db t)"
proof (cases p)
  case (Upsert docs)
  then show ?thesis using assms many_raise [of env docs s _ t] many_return [of env docs s _ t] by (cases r) auto
next
  case (Rebuild vs)
  then show ?thesis using assms replace_raise [of env vs s _ t] replace_return [of env vs s _ t]
    by (cases r) (auto dest: rebuilt_ok [OF assms(2)])
next
  case Open
  then show ?thesis using assms(1,2) open_keeps [of env s r t] schema_ok [of "vs_db s"] by auto
qed (use assms op_reads [OF assms(1)] in auto)




section \<open>Hybrid search\<close>

text \<open>Each identity once, under its own document.\<close>

definition ranking_ok :: "vector_env \<Rightarrow> ranking \<Rightarrow> bool" where
  "ranking_ok env ranked \<longleftrightarrow> distinct (map fst ranked)
     \<and> (\<forall>(k, score, d) \<in> set ranked. document_id (ve_repr env) d = Inr k)"

lemma set_put:
  "distinct (map fst xs) \<Longrightarrow> set (assoc_put k v xs) = insert (k, v) {(q, x) \<in> set xs. q \<noteq> k}"
  using set_assoc_put [of xs _ _ k v] by (auto split: if_splits)

lemma add_ranks_ok:
  "add_ranks env weight rank ds ranked = Inr out \<Longrightarrow> ranking_ok env ranked \<Longrightarrow>
     ranking_ok env out \<and> fst ` set out = fst ` set ranked \<union> {k. \<exists>d \<in> set ds. document_id (ve_repr env) d = Inr k}"
proof (induction ds arbitrary: rank ranked)
  case (Cons d ds)
  obtain k where k: "document_id (ve_repr env) d = Inr k" using Cons.prems(1) by (auto simp: res_iffs)
  define v where "v = (ve_round env ((case map_of ranked k of None \<Rightarrow> 0 | Some (score, _) \<Rightarrow> score)
     + rank_score env weight rank), d)"
  have rest: "add_ranks env weight (Suc rank) ds (assoc_put k v ranked) = Inr out"
    using Cons.prems(1) k by (simp add: v_def Let_def)
  have set: "set (assoc_put k v ranked) = insert (k, v) {(q, x) \<in> set ranked. q \<noteq> k}"
    by (rule set_put) (use Cons.prems(2) in \<open>simp add: ranking_ok_def\<close>)
  have ok: "ranking_ok env (assoc_put k v ranked)"
    using Cons.prems(2) k unfolding ranking_ok_def set by (auto simp: distinct_assoc_put v_def)
  have "fst ` set (assoc_put k v ranked) = insert k (fst ` set ranked)" by (rule keys_assoc_put)
  then show ?case using Cons.IH [OF rest ok] k by auto
qed auto

text \<open>The ranking of two lists of results.\<close>

definition fused :: "vector_env \<Rightarrow> pydict list \<Rightarrow> pydict list \<Rightarrow> ranking res" where
  "fused env lexical semantic =
     bindR (add_ranks env (ve_round env (45 / 100)) 1 lexical []) (add_ranks env (ve_round env (55 / 100)) 1 semantic)"

lemma mapR_same: "mapR f xs = Inr ys \<Longrightarrow> (\<And>x. x \<in> set xs \<Longrightarrow> f x = Inr (g x)) \<Longrightarrow> ys = map g xs"
  by (induction xs arbitrary: ys) (auto simp: res_iffs)

lemma ordered_results_sort:
  assumes "ordered_results env ranked = Inr rs" and "ranking_ok env ranked"
  shows "rs = sort_key (\<lambda>(score, k, d). (- score, k)) (map (\<lambda>(k, score, d). (score, k, d)) ranked)"
proof -
  obtain ys where ys: "mapR (\<lambda>(k, score, d). bindR (document_id (ve_repr env) d) (\<lambda>k'. Inr (score, k', d))) ranked = Inr ys"
    "rs = sort_key (\<lambda>(score, k, d). (- score, k)) ys"
    using assms(1) by (auto simp: ordered_results_def res_iffs)
  have "ys = map (\<lambda>(k, score, d). (score, k, d)) ranked"
    by (rule mapR_same [OF ys(1)]) (use assms(2) in \<open>auto simp: ranking_ok_def\<close>)
  then show ?thesis using ys(2) by simp
qed

text \<open>
  A hybrid search ranks the results of the two searches, each identity once with the sum of its
  reciprocal ranks: what it returns is the start of that ranking, best score first and by identity where
  scores are equal, every identity found by either search is ranked, and nothing is stored. Unlike
  \<open>search\<close> it does not refuse a limit below one: a negative limit leaves off that many of the worst.
\<close>

theorem hybrid_ranks_each_once:
  assumes "vector_search_hybrid env query vector category limit s = (Inr ds, t)"
  shows "\<exists>lexical semantic ranked s1 s2.
      vector_search env query category (max (limit * 3) 20) s = (Inr lexical, s1)
    \<and> semantic_search env vector category limit s1 = (Inr semantic, s2)
    \<and> fused env lexical semantic = Inr ranked \<and> distinct (map fst ranked)
    \<and> fst ` set ranked = {k. \<exists>d \<in> set (lexical @ semantic). document_id (ve_repr env) d = Inr k}
    \<and> ds = map (\<lambda>(score, k, d). assoc_put (VStr ''hybrid_score'') (VFloat (Finite score)) d)
        (py_take limit (sort_key (\<lambda>(score, k, d). (- score, k)) (map (\<lambda>(k, score, d). (score, k, d)) ranked)))
    \<and> vs_db t = vs_db s"
proof -
  obtain lexical s1 semantic s2 r1 ranked rs where
    found: "vector_search env query category (max (limit * 3) 20) s = (Inr lexical, s1)"
      "semantic_search env vector category limit s1 = (Inr semantic, s2)"
    and ranked: "add_ranks env (ve_round env (45 / 100)) 1 lexical [] = Inr r1"
      "add_ranks env (ve_round env (55 / 100)) 1 semantic r1 = Inr ranked"
    and rs: "ordered_results env ranked = Inr rs"
    and ds: "ds = map (\<lambda>(score, k, d). assoc_put (VStr ''hybrid_score'') (VFloat (Finite score)) d) (py_take limit rs)"
    using assms unfolding vector_search_hybrid_def
    by (elim bnd_return) (auto simp: lift_def ret_def raise_def split: sum.splits)
  have r1: "ranking_ok env r1" "fst ` set r1 = {k. \<exists>d \<in> set lexical. document_id (ve_repr env) d = Inr k}"
    using add_ranks_ok [OF ranked(1)] by (simp_all add: ranking_ok_def)
  have ok: "ranking_ok env ranked" and keys: "fst ` set ranked = fst ` set r1
      \<union> {k. \<exists>d \<in> set semantic. document_id (ve_repr env) d = Inr k}"
    using add_ranks_ok [OF ranked(2) r1(1)] by simp_all
  have "vs_db t = vs_db s"
    using keeps_run [OF keeps_hybrid [of "vs_db s"] _ assms] by (simp add: db_is_def)
  moreover have "fused env lexical semantic = Inr ranked"
    unfolding fused_def ranked(1) bindR_simps by (rule ranked(2))
  moreover have "fst ` set ranked = {k. \<exists>d \<in> set (lexical @ semantic). document_id (ve_repr env) d = Inr k}"
    unfolding keys r1(2) by auto
  ultimately show ?thesis
    using found ordered_results_sort [OF rs ok] ds ok by (auto simp: ranking_ok_def)
qed

section \<open>The contract of a retriever\<close>

definition held :: "vector_store \<Rightarrow> string \<Rightarrow> string option" where
  "held s k = map_option vr_document (List.find (\<lambda>r. vr_id r = k) (vd_rows (vs_db s)))"

definition held_as :: "vector_env \<Rightarrow> pydict \<Rightarrow> string \<Rightarrow> bool" where
  "held_as env d js \<longleftrightarrow> (\<exists>now row. row_of env now d = Inr row \<and> vr_document row = js)"

definition decodes_to :: "vector_env \<Rightarrow> string \<Rightarrow> pydict \<Rightarrow> bool" where
  "decodes_to env js d \<longleftrightarrow> decode_document env js = Inr d"

lemma find_put_row:
  "map_option vr_document (List.find (\<lambda>r. vr_id r = k) (put_row row rows)) =
     (if k = vr_id row then Some (vr_document row) else map_option vr_document (List.find (\<lambda>r. vr_id r = k) rows))"
  by (induction row rows rule: put_row.induct) auto

lemma row_of_id: "row_of env now d = Inr row \<Longrightarrow> document_id (ve_repr env) d = Inr (vr_id row)"
  by (auto simp: row_of_def prepared_of_def res_iffs Let_def dest!: bind_row_parts)

lemma held_return:
  assumes "vector_upsert env d s = (Inr u, t)"
  shows "\<exists>k js. document_id (ve_repr env) d = Inr k \<and> held_as env d js \<and> held t = (held s)(k \<mapsto> js)"
proof -
  obtain row now where "row_of env now d = Inr row" "vd_rows (vs_db t) = put_row row (vd_rows (vs_db s))"
    using many_return [OF assms [unfolded vector_upsert_def]] by (auto simp: list_all2_Cons1)
  then show ?thesis
    by (intro exI [of _ "vr_id row"] exI [of _ "vr_document row"])
      (auto simp: held_as_def held_def find_put_row row_of_id fun_eq_iff)
qed

lemma select_matches_rows: "set (select_matches matches category limit rows) \<subseteq> set rows"
  by (auto simp: select_matches_def dest!: in_set_takeD)

lemma find_row: "distinct (map vr_id rows) \<Longrightarrow> r \<in> set rows \<Longrightarrow> List.find (\<lambda>q. vr_id q = vr_id r) rows = Some r"
  by (induction rows) (auto simp: image_iff)

lemma search_decodes:
  assumes "vector_search env q c n s = (Inr ds, t)"
  shows "int (length ds) \<le> n \<and> (\<forall>d \<in> set ds. \<exists>r \<in> set (vd_rows (vs_db s)). decode_document env (vr_document r) = Inr d)"
proof (cases "search_terms q = []")
  case True
  then show ?thesis using assms
    by (auto simp: vector_search_def bnd_def require_def ret_def raise_def split: if_splits)
next
  case False
  obtain s1 matches where s1: "execute_statement env s = (Inr (), s1)" and n: "1 \<le> n"
    and ds: "mapR (\<lambda>r. decode_document env (vr_document r)) (select_matches matches c n (vd_rows (vs_db s1))) = Inr ds"
    using assms False unfolding vector_search_def
    by (elim bnd_return) (auto simp: require_def ret_def raise_def lift_def gets_def split: if_splits sum.splits elim!: bnd_return)
  have same: "vs_db s1 = vs_db s"
    using keeps_run [OF keeps_execute [of "vs_db s"] _ s1] by (simp add: db_is_def)
  let ?rows = "select_matches matches c n (vd_rows (vs_db s))"
  have ok: "list_all2 (\<lambda>r d. decode_document env (vr_document r) = Inr d) ?rows ds"
    using ds same by (simp add: mapR_Inr_iff)
  have "length ?rows \<le> nat n" by (simp add: select_matches_def)
  moreover have "\<exists>r \<in> set (vd_rows (vs_db s)). decode_document env (vr_document r) = Inr d" if "d \<in> set ds" for d
  proof -
    obtain i where "i < length ds" "d = ds ! i" using \<open>d \<in> set ds\<close> by (auto simp: in_set_conv_nth)
    then have "?rows ! i \<in> set ?rows" "decode_document env (vr_document (?rows ! i)) = Inr d"
      using ok by (auto simp: list_all2_conv_all_nth)
    then show ?thesis using select_matches_rows [of matches c n "vd_rows (vs_db s)"] by blast
  qed
  ultimately show ?thesis using ok n list_all2_lengthD [OF ok] by auto
qed

interpretation local_vector: retriever "ve_repr env" "vector_ops env" held "\<lambda>s. vector_db_ok (vs_db s)"
  "held_as env" "decodes_to env" for env
proof
  fix s t :: vector_store and d :: pydict and r u and q :: string
  show "vector_db_ok (vs_db t)" if "vector_db_ok (vs_db s)" "rt_upsert (vector_ops env) d s = (r, t)"
    using op_keeps_ok [of env "Upsert [d]" s r t] that by (simp add: vector_ops_def vector_upsert_def)
  show "\<exists>k x. document_id (ve_repr env) d = Inr k \<and> held_as env d x \<and> held t = (held s)(k \<mapsto> x)"
    if "rt_upsert (vector_ops env) d s = (Inr u, t)"
    using held_return that by (simp add: vector_ops_def)
  show "held t q = held s q"
    if run: "rt_upsert (vector_ops env) d s = (r, t)" and other: "document_id (ve_repr env) d \<noteq> Inr q"
  proof (cases r)
    case (Inl e)
    then show ?thesis using run many_raise [of env "[d]" s e t] by (simp add: vector_ops_def vector_upsert_def held_def)
  next
    case (Inr u)
    then show ?thesis using run other held_return [of env d s u t] by (auto simp: vector_ops_def)
  qed
  show "held t = held s \<and> rel_option (decodes_to env) (held s q) y" if run: "rt_get (vector_ops env) q s = (Inr y, t)" for y
  proof -
    have get: "vector_get env q s = (Inr y, t)" using run by (simp add: vector_ops_def)
    have "vs_db t = vs_db s" using keeps_run [OF keeps_get [of "vs_db s"] _ get] by (simp add: db_is_def)
    moreover obtain s1 where s1: "execute_statement env s = (Inr (), s1)"
      and y: "(case List.find (\<lambda>r. vr_id r = q) (vd_rows (vs_db s1)) of None \<Rightarrow> ret None
         | Some r \<Rightarrow> bnd (lift (decode_document env (vr_document r))) (\<lambda>d. ret (Some d))) s1 = (Inr y, t)"
      using get unfolding vector_get_def by (elim bnd_return) (auto simp: gets_def)
    moreover have "vs_db s1 = vs_db s"
      using keeps_run [OF keeps_execute [of "vs_db s"] _ s1] by (simp add: db_is_def)
    ultimately show ?thesis
      by (auto simp: held_def fun_eq_iff decodes_to_def ret_def lift_def raise_def split: option.splits sum.splits elim!: bnd_return)
  qed
  show "held t = held s \<and> int (length ds) \<le> n \<and> (\<forall>d \<in> set ds. \<exists>k x. held s k = Some x \<and> decodes_to env x d)"
    if sound: "vector_db_ok (vs_db s)" and run: "rt_search (vector_ops env) q c n s = (Inr ds, t)" for c n ds
  proof -
    have search: "vector_search env q c n s = (Inr ds, t)" using run by (simp add: vector_ops_def)
    have "vs_db t = vs_db s" using keeps_run [OF keeps_search [of "vs_db s"] _ search] by (simp add: db_is_def)
    moreover have "\<exists>k x. held s k = Some x \<and> decodes_to env x d" if "d \<in> set ds" for d
      using search_decodes [OF search] that sound find_row [of "vd_rows (vs_db s)"]
      by (fastforce simp: held_def decodes_to_def vector_db_ok_def tables_ok_def)
    ultimately show ?thesis using search_decodes [OF search] by (auto simp: held_def fun_eq_iff)
  qed
qed

section \<open>Examples\<close>

definition sample_vectors :: vector_env where
  "sample_vectors = \<lparr>ve_fault = (\<lambda>n. None), ve_now = (\<lambda>n. ''t''),
     ve_loads = (\<lambda>t. if t = ''[1]'' then Inr (VList [VInt 1]) else Inr (VDict [(VStr ''id'', VStr ''a'')])),
     ve_float_text = (\<lambda>f. ''1''), ve_read_float = (\<lambda>s. Inl (Exc PyValueError s)),
     ve_int_float = (\<lambda>i. Inr (Finite (of_int i))), ve_round = (\<lambda>q. q), ve_sqrt = (\<lambda>q. q), ve_sum = sum_list,
     ve_sql_real = (\<lambda>f. ''1''), ve_match = (\<lambda>m idx. Inr (map (\<lambda>(k, c). (k, 0)) idx)),
     ve_journal = ''wal'', ve_integrity = ''ok'', ve_repr = (\<lambda>v. ''r'')\<rparr>"

definition sample_vector_row :: vector_row where
  "sample_vector_row = \<lparr>vr_id = ''a'', vr_document = ''{}'', vr_content = ''x'', vr_category = SqlNull, vr_trust = 1,
     vr_embedding = None, vr_dim = None, vr_source_path = SqlNull, vr_source_hash = SqlNull, vr_version = SqlNull,
     vr_created = ''t'', vr_updated = ''t''\<rparr>"

definition sample_vector_store :: vector_store where
  "sample_vector_store = \<lparr>vs_db = \<lparr>vd_rows = [sample_vector_row], vd_index = [(''a'', ''x'')], vd_meta = []\<rparr>,
     vs_connected = True, vs_step = 0\<rparr>"

lemmas vector_run = sample_vectors_def sample_vector_store_def sample_vector_row_def replace_embeddings_def
  validated_vector_def finite_value_def transaction_def sql_call_def read_clock_def require_connection_def
  execute_statement_def on_db_def rebuild_row_def rebuilt_document_def update_row_def decode_document_def dump_value_def
  vector_columns_def vector_value_def bnd_def lift_def ret_def raise_def gets_def modify_def require_def

lemma sample_vectors_ok: "vector_db_ok (vs_db sample_vector_store)"
  unfolding vector_db_ok_def tables_ok_def by (simp add: sample_vector_store_def sample_vector_row_def)

theorem rebuild_is_atomic_witness:
  "vd_index (vs_db (snd (replace_embeddings sample_vectors [(''a'', VList [VInt 1])] sample_vector_store))) = [(''a'', ''x'')]"
proof -
  obtain u t where t: "replace_embeddings sample_vectors [(''a'', VList [VInt 1])] sample_vector_store = (Inr u, t)"
    by (simp add: vector_run)
  show ?thesis using rebuild_is_atomic [OF sample_vectors_ok t] t
    by (auto simp: rebuilt_tables_def sample_vector_store_def)
qed

theorem hybrid_ranks_each_once_witness:
  "vs_db (snd (vector_search_hybrid sample_vectors ''x'' None None 5 sample_vector_store)) = vs_db sample_vector_store"
proof -
  obtain ds t where t: "vector_search_hybrid sample_vectors ''x'' None None 5 sample_vector_store = (Inr ds, t)"
    by (simp add: vector_run vector_search_hybrid_def vector_search_def semantic_search_def search_terms_def is_space_def
        match_text_def select_matches_def ordered_results_def document_id_def dget_or_def rank_score_def strip_def Let_def)
  show ?thesis using hybrid_ranks_each_once [OF t] t by auto
qed

end
