(* ===== verification/Maya_Recalled.thy ===== *)
theory Maya_Recalled
  imports Maya_Memory
begin

text \<open>
  What the governed memory of \<open>Maya_Memory\<close> promises: mediation of every operation, recall after
  remember, the file as a refinement of the map of documents, the results of a search, and what
  happens after a document that cannot be written.
\<close>

section \<open>What the memory keeps\<close>

text \<open>
  A call of the facade is refused whatever the retriever is, which is then left alone, or the gateway
  has allowed and recorded it and the call is that of the retriever.
\<close>

definition memory_mediated ::
  "governor \<Rightarrow> ActionRequest \<Rightarrow> ('o \<Rightarrow> ('s mem_world, 'a) py) \<Rightarrow> ('o \<Rightarrow> ('s, 'a) py) \<Rightarrow> 's mem_world \<Rightarrow> bool" where
  "memory_mediated g action run call w \<longleftrightarrow>
     (\<exists>e v. (\<forall>x. run x w = (Inl e, v)) \<and> mw_store v = mw_store w) \<or>
     (\<exists>v. action_admitted g ''authorization.memory'' action w v \<and> mw_store v = mw_store w
        \<and> (\<forall>x. run x w = on_store (call x) v))"

lemma memory_mediatedI: "memory_mediated g action (\<lambda>x. memory_call g action (on_store (call x))) call w"
proof (rule disjE [OF authorize_action_cases [of g "''authorization.memory''" action w]])
  assume "\<exists>e v. authorize_action g ''authorization.memory'' action w = (Inl e, v)"
  then show ?thesis by (auto simp: memory_mediated_def governed_def bnd_def dest: refused_store)
next
  assume "\<exists>v. authorize_action g ''authorization.memory'' action w = (Inr (), v)
    \<and> action_admitted g ''authorization.memory'' action w v"
  then show ?thesis by (fastforce simp: memory_mediated_def governed_def bnd_def dest: admitted_store)
qed

text \<open>
  C16. Every memory operation of the agent, whatever retriever stands behind it: either the call is
  refused, the refusal does not depend on the retriever or on what is searched, and nothing stored
  changes; or the gateway allowed exactly this action, with its record written first when one is asked
  for, and what happens is the operation of the retriever.
\<close>

theorem memory_calls_mediated:
  fixes w :: "'s mem_world"
  shows "memory_mediated g (remember_action repr g document)
      (\<lambda>ops. governed_remember repr g ops document) (\<lambda>ops. mr_remember ops document) w
    \<and> memory_mediated g (recall_action g k) (\<lambda>ops. governed_recall g ops k) (\<lambda>ops. mr_recall ops k) w
    \<and> memory_mediated g (search_action g ''search'' category)
      (\<lambda>(ops, query, limit). governed_search g ops query category limit)
      (\<lambda>(ops, query, limit). mr_search ops query category limit) w
    \<and> memory_mediated g (search_action g ''hybrid_search'' category)
      (\<lambda>(ops, query, vector, limit). governed_search_hybrid g ops query vector category limit)
      (\<lambda>(ops, query, vector, limit). mr_search_hybrid ops query vector category limit) w"
  unfolding governed_remember_def governed_recall_def governed_search_def governed_search_hybrid_def case_prod_unfold
  by (intro conjI memory_mediatedI)

text \<open>A store on a file, as the examples use it.\<close>

definition sample_local :: local_env where
  "sample_local = \<lparr>le_fault = (\<lambda>n. None),
     le_dump = (\<lambda>v. if v = VList [VDict [(VStr ''id'', VStr ''a'')]] then Inr ''A'' else Inl (Exc PyTypeError ''x'')),
     le_loads = (\<lambda>t. if t = ''A'' @ [char_of (10 :: nat)] then Inr (VList [VDict [(VStr ''id'', VStr ''a'')]])
        else Inl (Exc PyValueError ''x'')),
     le_casefold = (\<lambda>t. t), le_float_text = (\<lambda>f. ''0''), le_repr = (\<lambda>v. ''r'')\<rparr>"

definition sample_store :: local_store where
  "sample_store = \<lparr>ls_records = [], ls_file = None, ls_temp = False, ls_step = 0\<rparr>"

definition sample_document :: pydict where
  "sample_document = [(VStr ''id'', VStr ''a'')]"

definition open_governor :: governor where
  "open_governor = \<lparr>gv_gateway = (\<lambda>r. Inr \<lparr>res_decision = ALLOW, res_reason_code = ''ok'', res_audit_required = False,
       res_constraints = [], res_redactions = []\<rparr>),
     gv_sink = (\<lambda>_ _. None), gv_actor = ''maya''\<rparr>"

definition sample_memory_world :: "local_store mem_world" where
  "sample_memory_world = \<lparr>w_clock = 0, w_thread = 0, w_task = None, w_leases = [], w_identity = None, w_session = None,
     w_audit = [], mw_store = sample_store, mw_session = None\<rparr>"

text \<open>
  What was remembered is recalled: after a governed write of a document in the JSON store that
  returned, any later governed read of the same store returns that document under its identity and,
  under every other identity, what was there before the write.
\<close>

theorem remembered_is_recalled:
  assumes "governed_remember (le_repr env) g (local_ops env) d w = (Inr u, v)"
    and "document_id (le_repr env) d = Inr k"
    and "mw_store v' = mw_store v"
    and "governed_recall g' (local_ops env) q v' = (Inr x, v'')"
  shows "x = (if q = k then Some d else in_memory (mw_store w) q)"
  using local_json.recall_after_remember [OF assms(1,2,4)] assms(3) by (auto simp: option.rel_eq split: if_splits)

lemmas local_run = governed_remember_def governed_recall_def mr_remember_def mr_recall_def remember_action_def
  recall_action_def memory_action_def governed_def authorize_action_def open_governor_def on_store_def local_ops_def
  local_upsert_def put_record_def flush_def os_call_def local_get_def try_finally_def bnd_def lift_def ret_def
  raise_def gets_def modify_def require_def document_id_def sample_local_def sample_store_def sample_document_def
  dget_or_def allowed_def

theorem remembered_is_recalled_witness:
  "fst (governed_recall open_governor (local_ops sample_local) ''a''
      (snd (governed_remember (le_repr sample_local) open_governor (local_ops sample_local) sample_document
        sample_memory_world))) = Inr (Some sample_document)"
proof -
  let ?v = "snd (governed_remember (le_repr sample_local) open_governor (local_ops sample_local) sample_document
        sample_memory_world)"
  obtain x v'' where x: "governed_recall open_governor (local_ops sample_local) ''a'' ?v = (Inr x, v'')"
    by (simp add: local_run sample_memory_world_def)
  have "x = (if ''a'' = ''a'' then Some sample_document else in_memory (mw_store sample_memory_world) ''a'')"
    by (rule remembered_is_recalled [where u = "()" and g = open_governor and d = sample_document and v = ?v, OF _ _ _ x])
      (simp_all add: local_run sample_memory_world_def)
  then show ?thesis using x by simp
qed

section \<open>The file refines the map\<close>

text \<open>
  What \<open>json\<close> documents: reading the text that was written for a list of documents gives the list of
  the documents with their keys in order and tuples as lists, \<open>back\<close>, which have the same identities.
\<close>

definition reads_back :: "local_env \<Rightarrow> (pydict \<Rightarrow> pydict) \<Rightarrow> pydict list \<Rightarrow> bool" where
  "reads_back env back ds \<longleftrightarrow>
     (\<forall>js. le_dump env (VList (map VDict ds)) = Inr js \<longrightarrow>
        le_loads env (js @ [char_of (10 :: nat)]) = Inr (VList (map (\<lambda>d. VDict (back d)) ds)))
     \<and> (\<forall>d \<in> set ds. document_id (le_repr env) (back d) = document_id (le_repr env) d)"

lemma fold_assoc_put:
  "distinct (map fst xs) \<Longrightarrow> map_of (fold (\<lambda>(k, d). assoc_put k d) xs acc) = map_of acc ++ map_of xs"
proof (induction xs arbitrary: acc)
  case (Cons x xs)
  obtain k d where x: "x = (k, d)" by (cases x)
  have "map_of xs k = None" using Cons.prems x by (simp add: map_of_eq_None_iff)
  then show ?case using Cons x by (auto simp: map_add_def fun_eq_iff split: option.splits)
qed simp

lemma load_records:
  "\<forall>(k, d) \<in> set rs. document_id (le_repr env) (back d) = Inr k
    \<Longrightarrow> mapR (load_record env) (map (\<lambda>(k, d). VDict (back d)) rs) = Inr (map (\<lambda>(k, d). (k, back d)) rs)"
  by (induction rs) (auto simp: load_record_def)

lemma reopen:
  assumes sound: "sound_store env s" and rb: "reads_back env back (map snd (ls_records s))"
    and dump: "le_dump env (VList (map (\<lambda>(k, d). VDict d) (ls_records s))) = Inr js"
  shows "\<exists>r. open_store env (Some (js @ [char_of (10 :: nat)])) = Inr r
    \<and> in_memory r = map_option back \<circ> in_memory s"
proof -
  let ?rs = "ls_records s"
  have docs: "map (\<lambda>(k, d). VDict d) ?rs = map VDict (map snd ?rs)" "map (\<lambda>d. VDict (back d)) (map snd ?rs)
      = map (\<lambda>(k, d). VDict (back d)) ?rs" by (simp_all add: case_prod_unfold comp_def)
  have loads: "le_loads env (js @ [char_of (10 :: nat)]) = Inr (VList (map (\<lambda>(k, d). VDict (back d)) ?rs))"
    using rb dump unfolding reads_back_def docs by simp
  have ids: "\<forall>(k, d) \<in> set ?rs. document_id (le_repr env) (back d) = Inr k"
    using rb sound by (fastforce simp: reads_back_def sound_store_def)
  have keys: "distinct (map fst (map (\<lambda>(k, d). (k, back d)) ?rs))"
    using sound by (simp add: sound_store_def case_prod_unfold comp_def)
  have "map_of (map (\<lambda>(k, d). (k, back d)) ?rs) = map_option back \<circ> map_of ?rs"
    by (rule map_of_map)
  then show ?thesis using loads load_records [OF ids] fold_assoc_put [OF keys, of "[]"]
    by (simp add: open_store_def local_load_def bnd_def gets_def lift_def modify_def ret_def in_memory_def)
qed



section \<open>Searches\<close>

text \<open>
  A governed search of the JSON store that returns gives the first matches in the order the
  documents were written, as many as asked for when there are as many: at least one must have been
  asked for, every result is stored, and the store has not changed.
\<close>

theorem governed_search_first_matches:
  assumes "governed_search g (local_ops env) query category limit w = (Inr ds, v)"
  shows "1 \<le> limit \<and> ls_records (mw_store v) = ls_records (mw_store w)
    \<and> ds = take (nat limit) (filter (matching env (le_casefold env query) category) (map snd (ls_records (mw_store w))))"
  using assms unfolding governed_search_def
  by (elim governed_return)
    (auto simp: mr_search_def local_ops_def bnd_def require_def ret_def raise_def split: if_splits dest: local_search_take)

theorem governed_search_first_matches_witness:
  "ls_records (mw_store (snd (governed_search open_governor (local_ops sample_local) ''zz'' None 3 sample_memory_world))) = []"
proof -
  obtain ds v where v: "governed_search open_governor (local_ops sample_local) ''zz'' None 3 sample_memory_world = (Inr ds, v)"
    by (simp add: local_run governed_search_def mr_search_def search_action_def local_search_def sample_memory_world_def)
  show ?thesis using governed_search_first_matches [OF v] v by (simp add: sample_memory_world_def sample_store_def)
qed

text \<open>Different identities and no more documents than asked for.\<close>

definition distinct_results :: "local_env \<Rightarrow> int \<Rightarrow> string list \<Rightarrow> pydict list \<Rightarrow> bool" where
  "distinct_results env limit seen results \<longleftrightarrow>
     list_all2 (\<lambda>k d. document_id (le_repr env) d = Inr k) seen results \<and> distinct seen \<and> int (length results) \<le> limit"

lemma merge_results_distinct:
  "merge_results env limit docs seen results = Inr (full, seen', results') \<Longrightarrow>
     distinct_results env limit seen results \<Longrightarrow> (\<not> full \<longrightarrow> int (length results) < limit) \<Longrightarrow>
     int (length results) < limit \<Longrightarrow>
     distinct_results env limit seen' results' \<and> set results' \<subseteq> set results \<union> set docs
       \<and> (\<not> full \<longrightarrow> int (length results') < limit)"
proof (induction docs arbitrary: seen results)
  case (Cons d docs)
  obtain k where k: "document_id (le_repr env) d = Inr k" using Cons.prems(1) by (auto simp: res_iffs)
  have step: "distinct_results env limit (seen @ [k]) (results @ [d])" if "k \<notin> set seen"
    using Cons.prems(2,4) k that by (simp add: distinct_results_def list_all2_appendI)
  show ?case
  proof (cases "k \<in> set seen")
    case True
    then show ?thesis using Cons.IH [of seen results] Cons.prems k by auto
  next
    case new: False
    show ?thesis
    proof (cases "int (length (results @ [d])) \<ge> limit")
      case True
      then show ?thesis using Cons.prems k new step by auto
    next
      case False
      then show ?thesis using Cons.IH [of "seen @ [k]" "results @ [d]"] Cons.prems k new step by auto
    qed
  qed
qed (auto simp: distinct_results_def)

lemma reason_loop_distinct:
  "reason_loop env es category limit seen results s = (Inr ds, t) \<Longrightarrow>
     distinct_results env limit seen results \<Longrightarrow> int (length results) < limit \<Longrightarrow>
     t = s \<and> (\<exists>seen'. distinct_results env limit seen' ds) \<and> set ds \<subseteq> set results \<union> snd ` set (ls_records s)"
proof (induction es arbitrary: seen results)
  case (Cons e es)
  obtain docs where docs: "local_search env e category limit s = (Inr docs, s)"
    using Cons.prems(1) by (auto simp: bnd_def split: prod.splits sum.splits dest: local_search_take)
  obtain full seen' results' where m: "merge_results env limit docs seen results = Inr (full, seen', results')"
    using Cons.prems(1) docs by (auto simp: bnd_def lift_def raise_def split: sum.splits)
  have docs_in: "set docs \<subseteq> snd ` set (ls_records s)"
    using local_search_take [OF docs] by (auto dest: in_set_takeD)
  have m': "distinct_results env limit seen' results'" "set results' \<subseteq> set results \<union> set docs"
    "\<not> full \<Longrightarrow> int (length results') < limit"
    using merge_results_distinct [OF m] Cons.prems(2,3) by auto
  show ?case
  proof (cases full)
    case True
    then show ?thesis using Cons.prems(1) docs m m' docs_in by (auto simp: bnd_def lift_def ret_def)
  next
    case False
    then have "reason_loop env es category limit seen' results' s = (Inr ds, t)"
      using Cons.prems(1) docs m by (simp add: bnd_def lift_def ret_def)
    then show ?thesis using Cons.IH m' False docs_in by blast
  qed
qed (auto simp: ret_def)

text \<open>
  Reasoning over several entities returns documents of the store with pairwise different
  identities, never more than asked for, however often a document matches.
\<close>

theorem reason_bounded:
  assumes "1 \<le> limit" and "local_reason env entities category limit s = (Inr ds, t)"
  shows "t = s \<and> int (length ds) \<le> limit \<and> set ds \<subseteq> snd ` set (ls_records s)
    \<and> (\<exists>ks. distinct ks \<and> list_all2 (\<lambda>k d. document_id (le_repr env) d = Inr k) ks ds)"
  using reason_loop_distinct [OF assms(2) [unfolded local_reason_def]] assms(1)
  by (auto simp: distinct_results_def)

theorem reason_bounded_witness:
  "snd (local_reason sample_local [''zz''] None 2 sample_store) = sample_store"
proof -
  obtain ds t where t: "local_reason sample_local [''zz''] None 2 sample_store = (Inr ds, t)"
    by (simp add: local_run local_reason_def local_search_def)
  show ?thesis using reason_bounded [OF _ t] t by simp
qed

section \<open>A document that cannot be written\<close>

definition unwritable :: "local_env \<Rightarrow> pydict \<Rightarrow> bool" where
  "unwritable env d \<longleftrightarrow> (\<forall>ds js. d \<in> set ds \<longrightarrow> le_dump env (VList (map VDict ds)) \<noteq> Inr js)"

lemma unwritable_kept:
  assumes bad: "unwritable env d" and kept: "in_memory s k = Some d \<or> d' = d"
    and other: "d' = d \<longleftrightarrow> document_id (le_repr env) d' = Inr k"
  shows "\<exists>e t. local_upsert env d' s = (Inl e, t) \<and> ls_file t = ls_file s \<and> in_memory t k = Some d"
proof -
  obtain r t where run: "local_upsert env d' s = (r, t)" by (cases "local_upsert env d' s")
  have put: "in_memory t k = Some d"
    if "document_id (le_repr env) d' = Inr q" "ls_records t = assoc_put q d' (ls_records s)" for q
    using that kept other by (auto simp: in_memory_def)
  show ?thesis
  proof (cases r)
    case (Inl e)
    have fails: "local_upsert env d' s = (Inl e, t)" using run Inl by simp
    have "in_memory t k = Some d"
    proof (cases "document_id (le_repr env) d'")
      case (Inl e')
      then have "in_memory s k = Some d" using kept other by auto
      then show ?thesis using upsert_raise(3) [OF fails Inl] by (simp add: in_memory_def)
    next
      case (Inr q)
      show ?thesis by (rule put [OF Inr upsert_raise(2) [OF fails Inr]])
    qed
    then show ?thesis using fails upsert_raise(1) [OF fails] by blast
  next
    case (Inr u)
    then obtain q js where q: "document_id (le_repr env) d' = Inr q" "ls_records t = assoc_put q d' (ls_records s)"
      "le_dump env (VList (map (\<lambda>(k, d). VDict d) (ls_records t))) = Inr js"
      using run by (auto elim!: upsert_return)
    have "d \<in> set (map snd (ls_records t))"
      using map_of_SomeD [OF put [OF q(1,2), unfolded in_memory_def]] by (auto intro: image_eqI [of _ _ "(k, d)"])
    then have "le_dump env (VList (map VDict (map snd (ls_records t)))) \<noteq> Inr js"
      using bad unfolding unwritable_def by blast
    then show ?thesis using q(3) by (simp add: case_prod_unfold comp_def)
  qed
qed

text \<open>
  A write puts the document into memory before it writes the file and leaves it there when the
  file cannot be written. When \<open>json\<close> cannot write the document itself, every later write of another
  document fails as well, and the file keeps what it held before, until the document is replaced or
  the process restarted.
\<close>

theorem unwritable_document_blocks_store:
  assumes "unwritable env d" and "document_id (le_repr env) d = Inr k"
    and "\<forall>d' \<in> set others. document_id (le_repr env) d' \<noteq> Inr k"
    and "t = fold (\<lambda>d s. snd (local_upsert env d s)) others (snd (local_upsert env d s))"
  shows "ls_file t = ls_file s \<and> in_memory t k = Some d
    \<and> (\<forall>d'. document_id (le_repr env) d' \<noteq> Inr k \<longrightarrow> (\<exists>e t'. local_upsert env d' t = (Inl e, t')))"
proof -
  have first: "ls_file (snd (local_upsert env d s)) = ls_file s \<and> in_memory (snd (local_upsert env d s)) k = Some d"
    using unwritable_kept [OF assms(1), of s k d] assms(2) by auto
  have next_one: "\<exists>e t. local_upsert env d' s = (Inl e, t) \<and> ls_file t = ls_file s \<and> in_memory t k = Some d"
    if "in_memory s k = Some d" "document_id (le_repr env) d' \<noteq> Inr k" for d' s
    using unwritable_kept [OF assms(1), of s k d'] assms(2) that by auto
  have "ls_file (fold (\<lambda>d s. snd (local_upsert env d s)) others u) = ls_file u
      \<and> in_memory (fold (\<lambda>d s. snd (local_upsert env d s)) others u) k = Some d"
    if "in_memory u k = Some d" for u
    using assms(3) that
  proof (induction others arbitrary: u)
    case (Cons x xs)
    obtain e w where w: "local_upsert env x u = (Inl e, w)" "ls_file w = ls_file u" "in_memory w k = Some d"
      using next_one [of u x] Cons.prems by (metis list.set_intros(1))
    have "ls_file (fold (\<lambda>d s. snd (local_upsert env d s)) xs w) = ls_file w
      \<and> in_memory (fold (\<lambda>d s. snd (local_upsert env d s)) xs w) k = Some d"
      by (rule Cons.IH) (use Cons.prems w(3) in simp_all)
    then show ?case using w(1,2) by simp
  qed simp
  then have t: "ls_file t = ls_file s \<and> in_memory t k = Some d" unfolding assms(4) using first by simp
  have "\<exists>e t'. local_upsert env d' t = (Inl e, t')" if "document_id (le_repr env) d' \<noteq> Inr k" for d'
    using next_one [OF conjunct2 [OF t] that] by fast
  then show ?thesis using t by simp
qed

theorem unwritable_document_blocks_store_witness:
  "\<exists>e t. local_upsert sample_local sample_document
     (snd (local_upsert sample_local [(VStr ''id'', VObj 7)] sample_store)) = (Inl e, t)"
proof -
  let ?d = "[(VStr ''id'', VObj 7)] :: pydict"
  let ?t = "snd (local_upsert sample_local ?d sample_store)"
  have "unwritable sample_local ?d"
    by (auto simp: unwritable_def sample_local_def Cons_eq_map_conv map_eq_Cons_conv)
  moreover have "document_id (le_repr sample_local) ?d = Inr ''r''"
    by (simp add: document_id_def sample_local_def dget_or_def)
  moreover have "document_id (le_repr sample_local) sample_document \<noteq> Inr ''r''"
    by (simp add: document_id_def sample_document_def sample_local_def dget_or_def)
  ultimately show ?thesis
    using unwritable_document_blocks_store [of sample_local ?d "''r''" "[]" ?t sample_store] by simp
qed

end
