(* ===== verification/Maya_Profiles.thy ===== *)
theory Maya_Profiles
  imports Maya_Config Maya_Paths
begin

text \<open>
  Configuration profiles (\<open>src/project_maya/config_profiles.py\<close>): the scan for placeholders, their
  replacement at any depth of a JSON document, and the loading of a profile. Theorems: the two
  passes of \<open>str.replace\<close> are one simultaneous substitution, and no placeholder is left over.
\<close>

section \<open>Strings\<close>

text \<open>\<open>s.find(sub, start)\<close>, \<open>None\<close> for minus one, and \<open>s.replace(old, new)\<close> for a non-empty \<open>old\<close>.\<close>

definition find_from :: "string \<Rightarrow> string \<Rightarrow> nat \<Rightarrow> nat option" where
  "find_from s sub start = List.find (\<lambda>i. starts_with (drop i s) sub) [start..<Suc (length s)]"

lemma find_member: "List.find P xs = Some x \<Longrightarrow> x \<in> set xs \<and> P x"
  by (induction xs) (auto split: if_splits)

lemma find_from_bounds: "find_from s sub start = Some i \<Longrightarrow> start \<le> i \<and> i \<le> length s"
  by (auto simp: find_from_def dest!: find_member)

function str_replace :: "string \<Rightarrow> string \<Rightarrow> string \<Rightarrow> string" where
  "str_replace old new [] = []"
| "str_replace old new (c # s) =
     (if old \<noteq> [] \<and> starts_with (c # s) old then new @ str_replace old new (drop (length old) (c # s))
      else c # str_replace old new s)"
  by pat_completeness auto
termination by (relation "measure (\<lambda>(old, new, s). length s)") auto

section \<open>The profile\<close>

definition DATA_DIR :: string where
  "DATA_DIR = ''${MAYA_DATA_DIR}''"

definition INSTANCE_ID :: string where
  "INSTANCE_ID = ''${MAYA_INSTANCE_ID}''"

definition SUPPORTED_PROFILE_PLACEHOLDERS :: "string list" where
  "SUPPORTED_PROFILE_PLACEHOLDERS = [DATA_DIR, INSTANCE_ID]"

text \<open>The loop of \<open>_find_placeholders\<close> from an index on, with the placeholders seen so far.\<close>

function find_placeholders :: "string \<Rightarrow> nat \<Rightarrow> string list \<Rightarrow> string list" where
  "find_placeholders s start seen =
     (case find_from s ''${'' start of
        None \<Rightarrow> seen
      | Some i \<Rightarrow>
          (case find_from s ''}'' (i + 2) of
             None \<Rightarrow> seen
           | Some j \<Rightarrow> find_placeholders s (j + 1)
               (let p = drop i (take (j + 1) s) in if p \<in> set seen then seen else seen @ [p])))"
  by pat_completeness auto

termination
proof (relation "measure (\<lambda>(s, start, seen). Suc (length s) - start)")
  fix s :: string and start i j
  assume "find_from s ''${'' start = Some i" and "find_from s ''}'' (i + 2) = Some j"
  then show "((s, j + 1, seen'), (s, start, seen)) \<in> measure (\<lambda>(s, start, seen). Suc (length s) - start)" for seen seen' :: "string list"
    by (fastforce dest: find_from_bounds)
qed simp

declare find_placeholders.simps [simp del]

type_synonym replacements = "(string \<times> string) list"

definition resolve_text :: "replacements \<Rightarrow> string \<Rightarrow> string res" where
  "resolve_text reps s =
     (let unknown = filter (\<lambda>p. p \<notin> set SUPPORTED_PROFILE_PLACEHOLDERS) (find_placeholders s 0 [])
      in if unknown \<noteq> []
         then Inl (Exc ConfigProfileError (''unsupported profile placeholder: '' @ join_with '', '' (sort unknown)))
         else Inr (foldl (\<lambda>t (p, r). str_replace p r t) s reps))"

fun resolve_placeholders :: "replacements \<Rightarrow> pyval \<Rightarrow> pyval res"
  and resolve_items :: "replacements \<Rightarrow> pyval list \<Rightarrow> pyval list res"
  and resolve_members :: "replacements \<Rightarrow> pydict \<Rightarrow> pydict res"
  where
  "resolve_placeholders reps (VStr s) = bindR (resolve_text reps s) (\<lambda>t. Inr (VStr t))"
| "resolve_placeholders reps (VList xs) = bindR (resolve_items reps xs) (\<lambda>ys. Inr (VList ys))"
| "resolve_placeholders reps (VDict d) = bindR (resolve_members reps d) (\<lambda>e. Inr (VDict e))"
| "resolve_placeholders reps v = Inr v"
| "resolve_items reps [] = Inr []"
| "resolve_items reps (x # xs) =
     bindR (resolve_placeholders reps x) (\<lambda>y. bindR (resolve_items reps xs) (\<lambda>ys. Inr (y # ys)))"
| "resolve_members reps [] = Inr []"
| "resolve_members reps ((k, v) # d) =
     bindR (resolve_placeholders reps v) (\<lambda>y. bindR (resolve_members reps d) (\<lambda>e. Inr ((k, y) # e)))"

definition profile_replacements :: "string \<Rightarrow> string option \<Rightarrow> replacements" where
  "profile_replacements dir inst =
     [(DATA_DIR, path_str (parse_path dir)),
      (INSTANCE_ID, case inst of Some i \<Rightarrow> if i = [] then path_name (parse_path dir) else i
                    | None \<Rightarrow> path_name (parse_path dir))]"

text \<open>\<open>contents\<close> is what \<open>Path(path).read_text\<close> gives or raises, \<open>loads\<close> the JSON reader.\<close>

definition load_config_profile ::
  "(string \<Rightarrow> pyfloat res) \<Rightarrow> (string \<Rightarrow> pyval res) \<Rightarrow> string res \<Rightarrow> string \<Rightarrow> string option \<Rightarrow> MayaConfig res" where
  "load_config_profile float_of_str loads contents dir inst =
     bindR (requireR (is_absolute (parse_path dir)) (Exc ConfigProfileError ''data_dir must be absolute'')) (\<lambda>_.
     bindR contents (\<lambda>s.
     bindR (loads s) (\<lambda>raw.
     case raw of
       VDict d \<Rightarrow>
         bindR (resolve_members (profile_replacements dir inst) d) (\<lambda>resolved.
         config_from_mapping float_of_str resolved)
     | _ \<Rightarrow> Inl (Exc ConfigProfileError ''configuration profile must be a JSON object''))))"

section \<open>Cutting a text at its placeholders\<close>

text \<open>The text before and after the first occurrence of \<open>sub\<close>.\<close>

fun cut_on :: "string \<Rightarrow> string \<Rightarrow> (string \<times> string) option" where
  "cut_on sub [] = (if sub = [] then Some ([], []) else None)"
| "cut_on sub (c # s) =
     (if starts_with (c # s) sub then Some ([], drop (length sub) (c # s))
      else map_option (\<lambda>(a, b). (c # a, b)) (cut_on sub s))"

lemma cut_split: "cut_on sub s = Some (a, b) \<Longrightarrow> s = a @ sub @ b"
  by (induction sub s arbitrary: a rule: cut_on.induct) (auto simp: starts_with_iff split: if_splits)

lemma find_from_cut:
  "find_from (p @ t) sub (length p) = map_option (\<lambda>(a, b). length p + length a) (cut_on sub t)"
proof (induction t arbitrary: p)
  case Nil
  then show ?case by (simp add: find_from_def starts_with_def upt_rec)
next
  case (Cons c t)
  have range: "[length p..<Suc (length (p @ c # t))] = length p # [Suc (length p)..<Suc (length (p @ c # t))]"
    by (rule upt_conv_Cons) simp
  have "find_from (p @ c # t) sub (length p)
      = (if starts_with (c # t) sub then Some (length p) else find_from ((p @ [c]) @ t) sub (length (p @ [c])))"
    unfolding find_from_def range by (simp del: upt_Suc)
  then show ?case unfolding Cons.IH [of "p @ [c]"] by (cases "cut_on sub t") auto
qed

text \<open>The placeholders of a text from left to right, and their simultaneous substitution.\<close>

function placeholders :: "string \<Rightarrow> string list" where
  "placeholders s =
     (case cut_on ''${'' s of
        None \<Rightarrow> []
      | Some (a, r) \<Rightarrow> (case cut_on ''}'' r of
          None \<Rightarrow> []
        | Some (body, rest) \<Rightarrow> (''${'' @ body @ ''}'') # placeholders rest))"
  by pat_completeness auto
termination by (relation "measure length") (auto dest!: cut_split)

function substituted :: "replacements \<Rightarrow> string \<Rightarrow> string" where
  "substituted reps s =
     (case cut_on ''${'' s of
        None \<Rightarrow> s
      | Some (a, r) \<Rightarrow> (case cut_on ''}'' r of
          None \<Rightarrow> s
        | Some (body, rest) \<Rightarrow>
            a @ (case map_of reps (''${'' @ body @ ''}'') of Some x \<Rightarrow> x | None \<Rightarrow> ''${'' @ body @ ''}'')
              @ substituted reps rest))"
  by pat_completeness auto
termination by (relation "measure (length \<circ> snd)") (auto dest!: cut_split)

declare placeholders.simps [simp del] substituted.simps [simp del]

lemma set_find_placeholders:
  "set (find_placeholders (p @ t) (length p) seen) = set seen \<union> set (placeholders t)"
proof (induction t arbitrary: p seen rule: placeholders.induct)
  case (1 t)
  show ?case
  proof (cases "cut_on ''${'' t")
    case None
    then show ?thesis by (simp add: find_placeholders.simps [of "p @ t"] placeholders.simps [of t] find_from_cut)
  next
    case (Some ar)
    obtain a r where ar: "ar = (a, r)" by force
    have t: "t = a @ ''${'' @ r" using cut_split Some ar by blast
    have i: "find_from (p @ t) ''${'' (length p) = Some (length p + length a)" using Some ar by (simp add: find_from_cut)
    have j: "find_from (p @ t) ''}'' (length p + length a + 2) = map_option (\<lambda>(body, rest). length p + length a + 2 + length body) (cut_on ''}'' r)"
      using find_from_cut [of "p @ a @ ''${''" r "''}''"] t by (simp add: add.assoc)
    show ?thesis
    proof (cases "cut_on ''}'' r")
      case None
      then show ?thesis using i j Some ar
        by (simp add: find_placeholders.simps [of "p @ t"] placeholders.simps [of t])
    next
      case close: (Some br)
      obtain body rest where br: "br = (body, rest)" by force
      have r: "r = body @ ''}'' @ rest" using cut_split close br by blast
      have ph: "drop (length p + length a) (take (length p + length a + 2 + length body + 1) (p @ t)) = ''${'' @ body @ ''}''"
        using t r by (simp add: numeral_3_eq_3)
      have whole: "p @ t = (p @ a @ ''${'' @ body @ ''}'') @ rest" using t r by simp
      have len: "length p + length a + 2 + length body + 1 = length (p @ a @ ''${'' @ body @ ''}'')" by simp
      have step: "find_placeholders (p @ t) (length p) seen
          = find_placeholders ((p @ a @ ''${'' @ body @ ''}'') @ rest) (length (p @ a @ ''${'' @ body @ ''}''))
             (if (''${'' @ body @ ''}'') \<in> set seen then seen else seen @ [''${'' @ body @ ''}''])"
      proof -
        have "find_placeholders (p @ t) (length p) seen
            = find_placeholders (p @ t) (length p + length a + 2 + length body + 1)
               (if (''${'' @ body @ ''}'') \<in> set seen then seen else seen @ [''${'' @ body @ ''}''])"
          unfolding find_placeholders.simps [of "p @ t" "length p"] i option.case j close br option.map prod.case ph Let_def ..
        then show ?thesis unfolding len by (simp only: whole)
      qed
      show ?thesis unfolding step "1.IH" [OF Some ar [symmetric] close br [symmetric]]
        using Some ar close br by (auto simp: placeholders.simps [of t])
    qed
  qed
qed

section \<open>The two passes are one substitution\<close>

text \<open>No placeholder opens inside \<open>a\<close>, before \<open>t\<close>.\<close>

fun no_open :: "string \<Rightarrow> string \<Rightarrow> bool" where
  "no_open [] t = True"
| "no_open (c # a) t = (\<not> starts_with (c # a @ t) ''${'' \<and> no_open a t)"

lemma cut_no_open: "cut_on ''${'' s = Some (a, r) \<Longrightarrow> no_open a (''${'' @ r)"
proof (induction "''${''" s arbitrary: a rule: cut_on.induct)
  case (2 c s)
  show ?case
  proof (cases "starts_with (c # s) ''${''")
    case False
    then obtain b where b: "a = c # b" "cut_on ''${'' s = Some (b, r)" using 2(2) by (auto split: if_splits)
    then show ?thesis using 2(1) False cut_split [OF b(2)] by auto
  qed (use 2(2) in auto)
qed simp

lemma cut_none: "cut_on ''${'' s = None \<Longrightarrow> no_open s []"
  by (induction "''${''" s rule: cut_on.induct) (auto split: if_splits)

lemma no_open_append: "no_open (a @ b) t \<longleftrightarrow> no_open a (b @ t) \<and> no_open b t"
  by (induction a) auto

lemma starts_open: "starts_with (c # s) ''${'' \<longleftrightarrow> c = CHR ''$'' \<and> take 1 s = ''{''"
  by (cases s) (auto simp: starts_with_def)

lemma no_open_change: "no_open a t \<Longrightarrow> u \<noteq> [] \<Longrightarrow> hd u \<noteq> CHR ''{'' \<Longrightarrow> no_open a u"
proof (induction a)
  case (Cons c a)
  then show ?case by (cases a) (auto simp: starts_open neq_Nil_conv)
qed simp

lemma no_open_dollar_free: "CHR ''$'' \<notin> set x \<Longrightarrow> no_open x t"
  by (induction x) (auto simp: starts_open)

lemma cut_skip: "no_open b t \<Longrightarrow> cut_on ''${'' (b @ t) = map_option (\<lambda>(x, y). (b @ x, y)) (cut_on ''${'' t)"
  by (induction b) (auto simp: option.map_comp comp_def case_prod_beta' option.map_ident)

text \<open>A pattern that opens a placeholder does not match where none opens.\<close>

lemma opener: "starts_with s (''${'' @ w) \<Longrightarrow> starts_with s ''${''"
  by (auto simp: starts_with_iff)

lemma replace_skip:
  "no_open a t \<Longrightarrow> str_replace (''${'' @ w) new (a @ t) = a @ str_replace (''${'' @ w) new t"
proof (induction a)
  case (Cons c a)
  then have "\<not> starts_with (c # a @ t) (''${'' @ w)" using opener by auto
  then show ?case using Cons by simp
qed simp

lemma replace_match:
  "str_replace (''${'' @ w) new (''${'' @ w @ t) = new @ str_replace (''${'' @ w) new t"
  by (simp add: starts_with_def)

lemma replace_unclosed:
  "CHR ''}'' \<notin> set s \<Longrightarrow> str_replace (''${'' @ w @ ''}'') new s = s"
proof (induction s)
  case (Cons c s)
  then have "\<not> starts_with (c # s) (''${'' @ w @ ''}'')" by (auto simp: starts_with_iff)
  then show ?case using Cons by simp
qed simp

lemma cut_brace: "cut_on ''}'' r = None \<Longrightarrow> CHR ''}'' \<notin> set r"
  by (induction "''}''" r rule: cut_on.induct) (auto simp: starts_with_def split: if_splits)

lemma replace_end:
  assumes "cut_on ''${'' s = None \<or> (\<exists>a r. cut_on ''${'' s = Some (a, r) \<and> cut_on ''}'' r = None)"
  shows "str_replace (''${'' @ w @ ''}'') new s = s"
  using assms
proof
  assume "cut_on ''${'' s = None"
  then show ?thesis using replace_skip [of s "[]" "w @ ''}''"] cut_none by simp
next
  assume "\<exists>a r. cut_on ''${'' s = Some (a, r) \<and> cut_on ''}'' r = None"
  then obtain a r where c: "cut_on ''${'' s = Some (a, r)" "cut_on ''}'' r = None" by blast
  have "str_replace (''${'' @ w @ ''}'') new (''${'' @ r) = ''${'' @ r"
    by (rule replace_unclosed) (use cut_brace [OF c(2)] in simp)
  then show ?thesis using replace_skip [OF cut_no_open [OF c(1)], of "w @ ''}''"] cut_split [OF c(1)] by simp
qed

definition dir_key :: string where
  "dir_key = ''MAYA_DATA_DIR''"

definition id_key :: string where
  "id_key = ''MAYA_INSTANCE_ID''"

lemma keys: "DATA_DIR = ''${'' @ dir_key @ ''}''" "INSTANCE_ID = ''${'' @ id_key @ ''}''"
  by (simp_all add: DATA_DIR_def INSTANCE_ID_def dir_key_def id_key_def)

lemma replace_other: "str_replace DATA_DIR new (INSTANCE_ID @ t) = INSTANCE_ID @ str_replace DATA_DIR new t"
  by (simp add: DATA_DIR_def INSTANCE_ID_def starts_with_def)

theorem two_passes:
  assumes x: "CHR ''$'' \<notin> set x" "x \<noteq> []" "hd x \<noteq> CHR ''{''"
    and known: "set (placeholders s) \<subseteq> {DATA_DIR, INSTANCE_ID}"
  shows "str_replace INSTANCE_ID y (str_replace DATA_DIR x s) = substituted [(DATA_DIR, x), (INSTANCE_ID, y)] s"
  using known
proof (induction s rule: placeholders.induct)
  case (1 s)
  let ?reps = "[(DATA_DIR, x), (INSTANCE_ID, y)]"
  show ?case
  proof (cases "cut_on ''${'' s = None \<or> (\<exists>a r. cut_on ''${'' s = Some (a, r) \<and> cut_on ''}'' r = None)")
    case True
    then have "str_replace (''${'' @ k @ ''}'') v s = s" for k v by (rule replace_end)
    then show ?thesis using True by (auto simp: keys substituted.simps [of ?reps s] substituted.simps [of _ s])
  next
    case False
    then obtain a r body rest where cuts: "cut_on ''${'' s = Some (a, r)" "cut_on ''}'' r = Some (body, rest)"
      by (cases "cut_on ''${'' s") (auto simp: not_None_eq)
    let ?ph = "''${'' @ body @ ''}''"
    have s: "s = a @ ?ph @ rest" using cut_split [OF cuts(1)] cut_split [OF cuts(2)] by simp
    have open_a: "no_open a (?ph @ rest)" using cut_no_open [OF cuts(1)] cut_split [OF cuts(2)] by simp
    have known: "?ph \<in> {DATA_DIR, INSTANCE_ID}" "set (placeholders rest) \<subseteq> {DATA_DIR, INSTANCE_ID}"
      using 1(2) cuts by (simp_all add: placeholders.simps [of s])
    have IH: "str_replace INSTANCE_ID y (str_replace DATA_DIR x rest) = substituted ?reps rest"
      using 1(1) [OF cuts(1) refl cuts(2) refl known(2)] .
    have sub: "substituted ?reps s = a @ (if ?ph = DATA_DIR then x else y) @ substituted ?reps rest"
      using cuts known(1) by (auto simp: substituted.simps [of _ s])
    have first: "str_replace DATA_DIR x s = a @ str_replace DATA_DIR x (?ph @ rest)"
      unfolding s keys(1) by (rule replace_skip [OF open_a])
    show ?thesis
    proof (cases "?ph = DATA_DIR")
      case True
      have "str_replace DATA_DIR x (?ph @ rest) = x @ str_replace DATA_DIR x rest"
        unfolding True keys(1) using replace_match [of "dir_key @ ''}''"] by simp
      moreover have "no_open (a @ x) u" for u
        using no_open_change [OF open_a, of "x @ u"] no_open_dollar_free [OF x(1)] x(2,3) by (simp add: no_open_append)
      then have "str_replace INSTANCE_ID y ((a @ x) @ u) = (a @ x) @ str_replace INSTANCE_ID y u" for u
        unfolding keys(2) by (rule replace_skip)
      ultimately show ?thesis using first sub IH True by simp
    next
      case False
      then have ph: "?ph = INSTANCE_ID" using known(1) by blast
      have "str_replace DATA_DIR x (?ph @ rest) = INSTANCE_ID @ str_replace DATA_DIR x rest"
        unfolding ph by (rule replace_other)
      moreover have "no_open a (INSTANCE_ID @ u)" for u
        by (rule no_open_change [OF open_a]) (simp_all add: INSTANCE_ID_def)
      then have "str_replace INSTANCE_ID y (a @ INSTANCE_ID @ u) = a @ y @ str_replace INSTANCE_ID y u" for u
        unfolding keys(2) using replace_skip [of a _ "id_key @ ''}''"] replace_match [of "id_key @ ''}''"] by simp
      ultimately show ?thesis using first sub IH False by simp
    qed
  qed
qed

lemma substituted_free:
  assumes reps: "\<And>p x. map_of reps p = Some x \<Longrightarrow> CHR ''$'' \<notin> set x \<and> x \<noteq> [] \<and> hd x \<noteq> CHR ''{''"
    and known: "set (placeholders s) \<subseteq> dom (map_of reps)"
  shows "placeholders (substituted reps s) = []"
  using known
proof (induction s rule: placeholders.induct)
  case (1 s)
  show ?case
  proof (cases "cut_on ''${'' s = None \<or> (\<exists>a r. cut_on ''${'' s = Some (a, r) \<and> cut_on ''}'' r = None)")
    case True
    then show ?thesis by (auto simp: substituted.simps [of _ s] placeholders.simps [of s])
  next
    case False
    then obtain a r body rest where cuts: "cut_on ''${'' s = Some (a, r)" "cut_on ''}'' r = Some (body, rest)"
      by (cases "cut_on ''${'' s") (auto simp: not_None_eq)
    let ?ph = "''${'' @ body @ ''}''"
    have known: "?ph \<in> dom (map_of reps)" "set (placeholders rest) \<subseteq> dom (map_of reps)"
      using 1(2) cuts by (simp_all add: placeholders.simps [of s])
    then obtain x where x: "map_of reps ?ph = Some x" by blast
    note x' = reps [OF x]
    have open_a: "no_open a (?ph @ rest)" using cut_no_open [OF cuts(1)] cut_split [OF cuts(2)] by simp
    have "no_open (a @ x) (substituted reps rest)"
      using no_open_change [OF open_a, of "x @ substituted reps rest"] no_open_dollar_free x' by (simp add: no_open_append)
    then have "cut_on ''${'' ((a @ x) @ substituted reps rest)
        = map_option (\<lambda>(b, y). ((a @ x) @ b, y)) (cut_on ''${'' (substituted reps rest))"
      by (rule cut_skip)
    moreover have "placeholders (substituted reps rest) = []" using 1(1) [OF cuts(1) refl cuts(2) refl known(2)] .
    ultimately have "placeholders ((a @ x) @ substituted reps rest) = []"
      by (auto simp: placeholders.simps [of "substituted reps rest"] placeholders.simps [of "a @ _"]
          split: option.splits)
    then show ?thesis using cuts x by (simp add: substituted.simps [of _ s])
  qed
qed

section \<open>Claims\<close>

lemma absolute_text: "is_absolute (parse_path dir) \<Longrightarrow> path_str (parse_path dir) \<noteq> [] \<and> hd (path_str (parse_path dir)) = CHR ''/''"
  by (auto simp: is_absolute_def parse_path_def path_str_def Let_def split: if_splits)

lemma no_placeholder_iff: "find_placeholders s 0 [] = [] \<longleftrightarrow> placeholders s = []"
  using set_find_placeholders [of "[]" s "[]"] by (metis Un_empty_left append_Nil list.size(3) set_empty)

definition instance_text :: "string \<Rightarrow> string option \<Rightarrow> string" where
  "instance_text dir inst = snd (profile_replacements dir inst ! 1)"

lemma resolve_text_cases:
  assumes "is_absolute (parse_path dir)" and "CHR ''$'' \<notin> set (path_str (parse_path dir))"
  shows "if set (placeholders s) \<subseteq> set SUPPORTED_PROFILE_PLACEHOLDERS
     then resolve_text (profile_replacements dir inst) s = Inr (substituted (profile_replacements dir inst) s)
     else \<exists>m. resolve_text (profile_replacements dir inst) s = Inl (Exc ConfigProfileError m)"
proof -
  have set: "set (find_placeholders s 0 []) = set (placeholders s)" using set_find_placeholders [of "[]" s "[]"] by simp
  show ?thesis
  proof (cases "set (placeholders s) \<subseteq> set SUPPORTED_PROFILE_PLACEHOLDERS")
    case True
    then have "filter (\<lambda>p. p \<notin> set SUPPORTED_PROFILE_PLACEHOLDERS) (find_placeholders s 0 []) = []"
      using set by (auto simp: filter_empty_conv)
    then show ?thesis
      using two_passes [of "path_str (parse_path dir)" s] assms absolute_text [OF assms(1)] True
      by (simp add: resolve_text_def profile_replacements_def SUPPORTED_PROFILE_PLACEHOLDERS_def Let_def)
  next
    case False
    then have "filter (\<lambda>p. p \<notin> set SUPPORTED_PROFILE_PLACEHOLDERS) (find_placeholders s 0 []) \<noteq> []"
      using set by (auto simp: filter_empty_conv)
    then show ?thesis using False by (simp add: resolve_text_def Let_def)
  qed
qed



text \<open>The texts of a JSON document below its keys.\<close>

fun texts :: "pyval \<Rightarrow> string list"
  and item_texts :: "pyval list \<Rightarrow> string list"
  and member_texts :: "pydict \<Rightarrow> string list"
  where
  "texts (VStr s) = [s]"
| "texts (VList xs) = item_texts xs"
| "texts (VDict d) = member_texts d"
| "texts v = []"
| "item_texts [] = []"
| "item_texts (x # xs) = texts x @ item_texts xs"
| "member_texts [] = []"
| "member_texts ((k, v) # d) = texts v @ member_texts d"

lemma resolved_texts:
  assumes free: "\<And>s t. resolve_text reps s = Inr t \<Longrightarrow> P t"
  shows "resolve_placeholders reps v = Inr w \<Longrightarrow> \<forall>t \<in> set (texts w). P t"
    and "resolve_items reps xs = Inr ys \<Longrightarrow> \<forall>t \<in> set (item_texts ys). P t"
    and "resolve_members reps d = Inr e \<Longrightarrow> \<forall>t \<in> set (member_texts e). P t"
  by (induction v and xs and d arbitrary: w and ys and e rule: texts_item_texts_member_texts.induct)
    (auto simp: res_iffs free)

text \<open>
  A profile that loads was read from a mapping in which no placeholder is left at any depth,
  provided the data directory and the instance name do not bring in a dollar sign or an opening brace.
\<close>

theorem profile_placeholder_free:
  assumes load: "load_config_profile float_of_str loads contents dir inst = Inr c"
    and dir: "CHR ''$'' \<notin> set (path_str (parse_path dir))"
    and inst: "CHR ''$'' \<notin> set (instance_text dir inst)" "instance_text dir inst \<noteq> []"
      "hd (instance_text dir inst) \<noteq> CHR ''{''"
  shows "\<exists>d. config_from_mapping float_of_str d = Inr c \<and> (\<forall>t \<in> set (member_texts d). find_placeholders t 0 [] = [])"
proof -
  obtain s v where abs: "is_absolute (parse_path dir)" and v: "loads s = Inr v"
    and c: "(case v of VDict d \<Rightarrow>
         bindR (resolve_members (profile_replacements dir inst) d) (\<lambda>resolved. config_from_mapping float_of_str resolved)
       | _ \<Rightarrow> Inl (Exc ConfigProfileError ''configuration profile must be a JSON object'')) = Inr c"
    using load unfolding load_config_profile_def bindR_requireR_Inr_iff bindR_Inr_iff requireR_iff by blast
  obtain raw d where d: "resolve_members (profile_replacements dir inst) raw = Inr d" "config_from_mapping float_of_str d = Inr c"
    using c by (cases v) (auto simp: bindR_Inr_iff)
  have free: "find_placeholders t 0 [] = []" if r: "resolve_text (profile_replacements dir inst) s = Inr t" for s t
  proof -
    have known: "set (placeholders s) \<subseteq> set SUPPORTED_PROFILE_PLACEHOLDERS"
      and t: "t = substituted (profile_replacements dir inst) s"
      using resolve_text_cases [OF abs dir, of s inst] r by (auto split: if_splits)
    have "placeholders t = []" unfolding t
      by (rule substituted_free)
        (use known dir inst absolute_text [OF abs] in
          \<open>auto simp: profile_replacements_def SUPPORTED_PROFILE_PLACEHOLDERS_def instance_text_def split: if_splits\<close>)
    then show ?thesis by (simp add: no_placeholder_iff)
  qed
  have "\<forall>t \<in> set (member_texts d). find_placeholders t 0 [] = []"
    by (rule resolved_texts(3) [OF _ d(1)]) (rule free)
  then show ?thesis using d(2) by blast
qed

text \<open>A profile whose instance name is a placeholder.\<close>

definition demo_profile :: "string \<Rightarrow> pyval res" where
  "demo_profile _ = bindR (config_to_mapping (demo_config\<lparr>product := (product demo_config)\<lparr>instance_id := INSTANCE_ID\<rparr>\<rparr>))
     (\<lambda>m. Inr (VDict m))"

lemma demo_profile_loads: "is_ok (load_config_profile (\<lambda>_. Inl untyped) demo_profile (Inr []) ''/d'' (Some ''maya''))"
  by code_simp

theorem profile_placeholder_free_witness:
  "\<exists>c d. load_config_profile (\<lambda>_. Inl untyped) demo_profile (Inr []) ''/d'' (Some ''maya'') = Inr c
     \<and> config_from_mapping (\<lambda>_. Inl untyped) d = Inr c \<and> (\<forall>t \<in> set (member_texts d). find_placeholders t 0 [] = [])"
proof -
  obtain c where c: "load_config_profile (\<lambda>_. Inl untyped) demo_profile (Inr []) ''/d'' (Some ''maya'') = Inr c"
    using demo_profile_loads by (auto simp: is_ok_def split: sum.splits)
  have "CHR ''$'' \<notin> set (path_str (parse_path ''/d''))" by (simp add: parse_path_def path_str_def)
  moreover have "instance_text ''/d'' (Some ''maya'') = ''maya''" by (simp add: instance_text_def profile_replacements_def)
  ultimately show ?thesis using profile_placeholder_free [OF c] c by auto
qed

end
