(* ===== verification/Maya_Business.thy ===== *)
theory Maya_Business
  imports Maya_Vectors Maya_Recalled Maya_Profiles Maya_Boundary
begin

text \<open>
  The business memory (\<open>src/project_maya/memory/business.py\<close>): cutting a document into chunks, ingesting
  a text or a file of the documents directory, hybrid search, and the rebuild of all embeddings through
  the governed facade over the vector store. Theorems: the chunks, the confinement of what is read,
  what an ingest stores, what a rebuild changes and what blocks it.
\<close>

section \<open>Chunks\<close>

text \<open>\<open>text.split("\n\n")\<close>.\<close>

fun split_paragraphs :: "string \<Rightarrow> string list" where
  "split_paragraphs [] = [[]]"
| "split_paragraphs [c] = [[c]]"
| "split_paragraphs (c # d # s) =
     (if c = CHR 0x0A \<and> d = CHR 0x0A then [] # split_paragraphs s
      else case split_paragraphs (d # s) of [] \<Rightarrow> [[c]] | p # ps \<Rightarrow> (c # p) # ps)"

text \<open>\<open>paragraph[index : index + n] for index in range(0, len(paragraph), n)\<close>.\<close>

function slices :: "nat \<Rightarrow> string \<Rightarrow> string list" where
  "slices n s = (if s = [] \<or> n = 0 then [] else take n s # slices n (drop n s))"
  by pat_completeness auto
termination by (relation "measure (\<lambda>(n, s). length s)") auto

declare slices.simps [simp del]

text \<open>The loop over the paragraphs, with the result and the current chunk.\<close>

fun chunk_loop :: "nat \<Rightarrow> string list \<Rightarrow> string list \<Rightarrow> string \<Rightarrow> string list" where
  "chunk_loop n [] result current = (if current \<noteq> [] then result @ [current] else result)"
| "chunk_loop n (p # ps) result current =
     (if length p > n
      then chunk_loop n ps ((if current \<noteq> [] then result @ [current] else result) @ slices n p) []
      else if current = [] then chunk_loop n ps result p
      else if length current + 2 + length p \<le> n
        then chunk_loop n ps result (current @ [CHR 0x0A, CHR 0x0A] @ p)
      else chunk_loop n ps (result @ [current]) p)"

definition paragraphs :: "string \<Rightarrow> string list" where
  "paragraphs s =
     map strip (filter (\<lambda>p. strip p \<noteq> []) (split_paragraphs (str_replace [CHR 0x0D, CHR 0x0A] [CHR 0x0A] s)))"

definition chunks :: "string \<Rightarrow> int \<Rightarrow> string list res" where
  "chunks s max_chars =
     (if max_chars < 100 then Inl (Exc PyValueError ''max_chars must be at least 100'')
      else Inr (chunk_loop (nat max_chars) (paragraphs s) [] []))"

section \<open>The service\<close>

text \<open>
  What the service is built with and calls: the governor of its facade, the vector store, the embedding
  model if there is one, SHA-256 in hexadecimal, \<open>Path.resolve\<close> and the text of a file.
\<close>

record business =
  bs_governor :: governor
  bs_vectors :: vector_env
  bs_embed :: "(string list \<Rightarrow> pyval list res) option"
  bs_sha256 :: "string \<Rightarrow> string"
  bs_resolve :: "path \<Rightarrow> path res"
  bs_read_text :: "path \<Rightarrow> string res"

type_synonym memory_world = "vector_store mem_world"

text \<open>The record of a chunk.\<close>

definition chunk_record :: "string \<Rightarrow> string \<Rightarrow> string \<Rightarrow> nat \<Rightarrow> string \<Rightarrow> pyval \<Rightarrow> pydict" where
  "chunk_record hash source_path category index chunk vector =
     [(VStr ''id'', VStr (''business:'' @ hash @ '':'' @ show_nat index)), (VStr ''content'', VStr chunk),
      (VStr ''category'', VStr category), (VStr ''trust_score'', VFloat (Finite (4 / 5))),
      (VStr ''source_path'', VStr source_path), (VStr ''source_hash'', VStr hash),
      (VStr ''extractor_version'', VStr ''project-maya.business-memory.v1'')]
     @ (if vector = VNone then [] else [(VStr ''embedding'', vector)])"

definition remember_chunk :: "business \<Rightarrow> pydict \<Rightarrow> (memory_world, unit) py" where
  "remember_chunk b d = governed_remember (ve_repr (bs_vectors b)) (bs_governor b) (vector_ops (bs_vectors b)) d"

definition chunk_vectors :: "business \<Rightarrow> string list \<Rightarrow> pyval list res" where
  "chunk_vectors b cs = (case bs_embed b of Some emb \<Rightarrow> emb cs | None \<Rightarrow> Inr (replicate (length cs) VNone))"

text \<open>\<open>enumerate(zip(chunks, vectors))\<close>, each pair as its record.\<close>

definition chunk_records :: "string \<Rightarrow> string \<Rightarrow> string \<Rightarrow> string list \<Rightarrow> pyval list \<Rightarrow> pydict list" where
  "chunk_records hash source_path category cs vs =
     map (\<lambda>(index, chunk, vector). chunk_record hash source_path category index chunk vector)
       (zip [0..<length (zip cs vs)] (zip cs vs))"

definition ingest_text :: "business \<Rightarrow> string \<Rightarrow> string \<Rightarrow> string \<Rightarrow> int \<Rightarrow> (memory_world, pydict) py" where
  "ingest_text b t source_path category max_chars =
     bnd (require (strip t \<noteq> []) (Exc PyValueError ''document text is required'')) (\<lambda>_.
     let hash = bs_sha256 b t
     in bnd (lift (chunks t max_chars)) (\<lambda>cs.
        bnd (lift (chunk_vectors b cs)) (\<lambda>vs.
        bnd (for_each (chunk_records hash source_path category cs vs) (remember_chunk b)) (\<lambda>_.
        ret [(VStr ''status'', VStr ''ingested''), (VStr ''chunks'', VInt (int (length cs))),
             (VStr ''embedded'', VBool (bs_embed b \<noteq> None)), (VStr ''source_hash'', VStr hash)]))))"

definition business_file :: "business \<Rightarrow> path \<Rightarrow> path \<Rightarrow> (path \<times> string) res" where
  "business_file b path documents_root =
     bindR (bs_resolve b path) (\<lambda>source.
     bindR (bs_resolve b documents_root) (\<lambda>base.
     bindR (requireR (source = base \<or> strictly_inside base source)
       (Exc PyValueError ''document is outside the governed documents root'')) (\<lambda>_.
     bindR (requireR (lower (path_suffix source) \<in> {''.txt'', ''.md'', ''.csv'', ''.json''})
       (Exc PyValueError ''business-memory ingestion supports txt, md, csv, and json'')) (\<lambda>_.
     Inr (source, path_str (relative_to source base))))))"

definition ingest_document :: "business \<Rightarrow> path \<Rightarrow> path \<Rightarrow> (memory_world, pydict) py" where
  "ingest_document b path documents_root =
     bnd (lift (business_file b path documents_root)) (\<lambda>(source, source_ref).
     bnd (authorize_ingest (bs_governor b) source_ref) (\<lambda>_.
     bnd (lift (bs_read_text b source)) (\<lambda>t.
     ingest_text b t source_ref ''business_document'' 1200)))"

text \<open>The query vector of a search, \<open>embed([query])[0]\<close>.\<close>

definition query_embedding :: "business \<Rightarrow> string \<Rightarrow> pyval list option res" where
  "query_embedding b query =
     (case bs_embed b of
        None \<Rightarrow> Inr None
      | Some emb \<Rightarrow>
          bindR (emb [query]) (\<lambda>vs.
          case vs of
            [] \<Rightarrow> Inl (Exc OtherException ''IndexError'')
          | VList xs # _ \<Rightarrow> Inr (Some xs)
          | _ \<Rightarrow> Inl (Exc PyTypeError ''not a vector'')))"

definition business_search :: "business \<Rightarrow> string \<Rightarrow> string option \<Rightarrow> int \<Rightarrow> (memory_world, pydict list) py" where
  "business_search b query category limit =
     bnd (lift (query_embedding b query)) (\<lambda>vector.
     governed_search_hybrid (bs_governor b) (vector_ops (bs_vectors b)) query vector category limit)"

text \<open>\<open>str(document.get("content") or document.get("text") or "")\<close>.\<close>

definition embedded_text :: "business \<Rightarrow> pydict \<Rightarrow> string" where
  "embedded_text b d =
     (case List.find (\<lambda>k. truthy (dget_or d k VNone)) [''content'', ''text''] of
        Some k \<Rightarrow> py_str (ve_repr (bs_vectors b)) (dget_or d k VNone)
      | None \<Rightarrow> [])"

definition document_ids :: "business \<Rightarrow> pydict list \<Rightarrow> string list res" where
  "document_ids b docs = mapR (\<lambda>d. bindR (ditem d ''id'') (\<lambda>v. Inr (py_str (ve_repr (bs_vectors b)) v))) docs"

text \<open>\<open>dict(zip(identifiers, vectors))\<close>.\<close>

definition dict_of :: "string list \<Rightarrow> pyval list \<Rightarrow> (string \<times> pyval) list" where
  "dict_of ks vs = fold (\<lambda>(k, v). assoc_put k v) (zip ks vs) []"

definition rebuild_embeddings :: "business \<Rightarrow> (memory_world, pydict) py" where
  "rebuild_embeddings b =
     (case bs_embed b of
        None \<Rightarrow> raise (Exc PyRuntimeError ''local embedding model is unavailable'')
      | Some emb \<Rightarrow>
          bnd (on_store (vector_documents (bs_vectors b))) (\<lambda>docs.
          bnd (lift (emb (map (embedded_text b) docs))) (\<lambda>vs.
          bnd (require (length vs = length docs) (Exc PyRuntimeError ''embedding model returned an incomplete rebuild'')) (\<lambda>_.
          bnd (lift (document_ids b docs)) (\<lambda>ids.
          bnd (authorize_embedding_rebuild (bs_governor b) ids) (\<lambda>_.
          bnd (on_store (replace_embeddings (bs_vectors b) (dict_of ids vs))) (\<lambda>_.
          ret [(VStr ''status'', VStr ''rebuilt''), (VStr ''records'', VInt (int (length docs)))])))))))"

section \<open>What the chunks hold\<close>

definition visible :: "string \<Rightarrow> string" where
  "visible s = filter (\<lambda>c. \<not> is_space c) s"

lemma visible_simps [simp]:
  "visible [] = []" "visible (s @ t) = visible s @ visible t"
  "visible (c # s) = (if is_space c then visible s else c # visible s)"
  by (simp_all add: visible_def)

lemma visible_dropWhile: "visible (dropWhile is_space s) = visible s"
  by (induction s) simp_all

lemma visible_rev: "visible (rev s) = rev (visible s)"
  by (simp add: visible_def rev_filter)

lemma visible_strip [simp]: "visible (strip s) = visible s"
  by (simp add: strip_def visible_rev visible_dropWhile)

lemma visible_blank: "strip s = [] \<Longrightarrow> visible s = []"
  by (metis visible_strip visible_simps(1))

lemma newline_space [simp]: "is_space (CHR 0x0A)" "is_space (CHR 0x0D)"
  by (simp_all add: is_space_def)

lemma split_paragraphs_nonempty: "split_paragraphs s \<noteq> []"
  by (induction s rule: split_paragraphs.induct) (auto split: list.split)

lemma visible_paragraphs: "concat (map visible (split_paragraphs s)) = visible s"
proof (induction s rule: split_paragraphs.induct)
  case (3 c d s)
  obtain p ps where "split_paragraphs (d # s) = p # ps"
    using split_paragraphs_nonempty by (cases "split_paragraphs (d # s)") auto
  then show ?case using 3 by auto
qed simp_all

lemma visible_replace: "visible (str_replace [CHR 0x0D, CHR 0x0A] [CHR 0x0A] s) = visible s"
proof (induction "[CHR 0x0D, CHR 0x0A]" "[CHR 0x0A]" s rule: str_replace.induct)
  case (2 c s)
  then show ?case by (auto simp: starts_with_iff)
qed simp

lemma slices_parts: "0 < n \<Longrightarrow> concat (slices n s) = s \<and> (\<forall>c \<in> set (slices n s). c \<noteq> [] \<and> length c \<le> n)"
proof (induction n s rule: slices.induct)
  case (1 n s)
  then show ?case by (subst (1 2) slices.simps) auto
qed

lemma visible_concat: "visible (concat ss) = concat (map visible ss)"
  by (induction ss) simp_all

definition chunk_ok :: "nat \<Rightarrow> string \<Rightarrow> bool" where
  "chunk_ok n c \<longleftrightarrow> c \<noteq> [] \<and> length c \<le> n"

definition all_ok :: "nat \<Rightarrow> string list \<Rightarrow> bool" where
  "all_ok n cs \<longleftrightarrow> list_all (chunk_ok n) cs"

lemma chunk_loop_parts:
  assumes "0 < n"
  shows "[] \<notin> set ps \<Longrightarrow> all_ok n result \<Longrightarrow> length current \<le> n \<Longrightarrow>
     all_ok n (chunk_loop n ps result current)
     \<and> concat (map visible (chunk_loop n ps result current)) =
        concat (map visible result) @ visible current @ concat (map visible ps)"
proof (induction ps arbitrary: result current)
  case Nil
  then show ?case by (simp add: all_ok_def chunk_ok_def)
next
  case (Cons p ps)
  let ?result = "if current \<noteq> [] then result @ [current] else result"
  have p: "p \<noteq> []" "[] \<notin> set ps" using Cons.prems(1) by auto
  have flushed: "all_ok n ?result" "concat (map visible ?result) = concat (map visible result) @ visible current"
    using Cons.prems(2,3) by (simp_all add: all_ok_def chunk_ok_def)
  consider "n < length p" | "length p \<le> n" "current = []"
    | "length p \<le> n" "current \<noteq> []" "length current + 2 + length p \<le> n"
    | "length p \<le> n" "current \<noteq> []" "n < length current + 2 + length p" by linarith
  then show ?case
  proof cases
    case 1
    have "all_ok n (slices n p)" "concat (map visible (slices n p)) = visible p"
      using slices_parts [OF assms, of p] by (simp_all add: all_ok_def chunk_ok_def list_all_iff visible_concat [symmetric])
    then have "all_ok n (?result @ slices n p)" using flushed(1) by (simp add: all_ok_def)
    from Cons.IH [OF p(2) this, of "[]"] show ?thesis
      using 1 flushed(2) \<open>concat (map visible (slices n p)) = visible p\<close> by simp
  next
    case 2
    then show ?thesis using Cons.IH [OF p(2) Cons.prems(2) 2(1)] by simp
  next
    case 3
    have "length (current @ [CHR 0x0A, CHR 0x0A] @ p) \<le> n" using 3 by simp
    from Cons.IH [OF p(2) Cons.prems(2) this] show ?thesis using 3 by simp
  next
    case 4
    have "all_ok n (result @ [current])" using flushed(1) 4 by simp
    from Cons.IH [OF p(2) this 4(1)] show ?thesis using 4 by simp
  qed
qed

text \<open>
  C24. A document is cut into chunks exactly when the limit is at least one hundred characters; no chunk
  is empty or longer than the limit, and the chunks hold all characters of the document that are not
  white space, in their order.
\<close>

theorem chunks_hold_document:
  "case chunks s n of
     Inl e \<Rightarrow> n < 100
   | Inr cs \<Rightarrow> 100 \<le> n \<and> list_all (\<lambda>c. c \<noteq> [] \<and> int (length c) \<le> n) cs \<and> concat (map visible cs) = visible s"
proof (cases "n < 100")
  case True
  then show ?thesis by (simp add: chunks_def)
next
  case False
  define cs where "cs = chunk_loop (nat n) (paragraphs s) [] []"
  have "0 < nat n" "[] \<notin> set (paragraphs s)" "all_ok (nat n) []" "length ([] :: string) \<le> nat n"
    using False by (auto simp: paragraphs_def all_ok_def)
  from chunk_loop_parts [OF this]
  have parts: "all_ok (nat n) cs" "concat (map visible cs) = concat (map visible (paragraphs s))"
    unfolding cs_def by simp_all
  have "concat (map visible (filter (\<lambda>p. strip p \<noteq> []) ps)) = concat (map visible ps)" for ps
    by (induction ps) (simp_all add: visible_blank)
  then have "concat (map visible (paragraphs s)) = visible s"
    by (simp add: paragraphs_def comp_def visible_paragraphs visible_replace)
  moreover have "list_all (\<lambda>c. c \<noteq> [] \<and> int (length c) \<le> n) cs"
    using parts(1) False by (simp add: all_ok_def chunk_ok_def list_all_iff le_nat_iff)
  ultimately show ?thesis using False parts(2) by (simp add: chunks_def cs_def [symmetric])
qed

section \<open>What is read, stored and rebuilt\<close>

definition ingest_action :: "governor \<Rightarrow> string \<Rightarrow> ActionRequest" where
  "ingest_action g source_ref =
     memory_action g ''memory.ingest'' source_ref ''read_and_ingest'' [(''source_ref'', source_ref)]"

text \<open>The resolved source and its reference below the documents root.\<close>

definition inside_root :: "business \<Rightarrow> path \<Rightarrow> path \<Rightarrow> path \<Rightarrow> string \<Rightarrow> bool" where
  "inside_root b path documents_root source source_ref \<longleftrightarrow>
     bs_resolve b path = Inr source \<and>
     (\<exists>base. bs_resolve b documents_root = Inr base \<and> (source = base \<or> strictly_inside base source)
        \<and> source_ref = path_str (relative_to source base))
     \<and> lower (path_suffix source) \<in> {''.txt'', ''.md'', ''.csv'', ''.json''}"

lemma business_file_iff: "business_file b path base = Inr (source, ref) \<longleftrightarrow> inside_root b path base source ref"
  by (auto simp: business_file_def inside_root_def res_iffs)

text \<open>
  Ingesting a document: either it is refused, whatever any file holds, and nothing stored changes;
  or the resolved path is the documents root or below it, its extension is one of the four, the gateway
  has allowed and recorded the ingestion of exactly this reference, and only then the one file at the
  resolved path is read and its text ingested under that reference.
\<close>

theorem ingest_reads_governed_file:
  "(\<exists>e v. (\<forall>read. ingest_document (b\<lparr>bs_read_text := read\<rparr>) path documents_root w = (Inl e, v))
      \<and> mw_store v = mw_store w) \<or>
   (\<exists>source source_ref v. inside_root b path documents_root source source_ref
      \<and> action_admitted (bs_governor b) ''authorization.memory'' (ingest_action (bs_governor b) source_ref) w v
      \<and> mw_store v = mw_store w
      \<and> (\<forall>read. ingest_document (b\<lparr>bs_read_text := read\<rparr>) path documents_root w =
           bnd (lift (read source))
             (\<lambda>t. ingest_text (b\<lparr>bs_read_text := read\<rparr>) t source_ref ''business_document'' 1200) v))"
proof -
  have bf: "business_file (b\<lparr>bs_read_text := read\<rparr>) path documents_root = business_file b path documents_root" for read
    by (simp add: business_file_def)
  show ?thesis
  proof (cases "business_file b path documents_root")
    case (Inl e)
    then have "ingest_document (b\<lparr>bs_read_text := read\<rparr>) path documents_root w = (Inl e, w)" for read
      by (simp add: ingest_document_def bf bnd_def lift_def raise_def)
    then show ?thesis by blast
  next
    case (Inr sr)
    obtain source ref where sr: "sr = (source, ref)" by (cases sr)
    let ?auth = "authorize_action (bs_governor b) ''authorization.memory'' (ingest_action (bs_governor b) ref) w"
    have run: "ingest_document (b\<lparr>bs_read_text := read\<rparr>) path documents_root w =
        (case ?auth of (Inl e, v) \<Rightarrow> (Inl e, v)
         | (Inr u, v) \<Rightarrow> bnd (lift (read source))
             (\<lambda>t. ingest_text (b\<lparr>bs_read_text := read\<rparr>) t ref ''business_document'' 1200) v)" for read
      by (simp add: ingest_document_def bf Inr sr bnd_def lift_def ret_def authorize_ingest_def ingest_action_def)
    show ?thesis
    proof (rule disjE [OF authorize_action_cases [of "bs_governor b" "''authorization.memory''"
            "ingest_action (bs_governor b) ref" w]])
      assume "\<exists>e v. ?auth = (Inl e, v)"
      then obtain e v where v: "?auth = (Inl e, v)" by blast
      then show ?thesis using refused_store [OF v] unfolding run by auto
    next
      assume "\<exists>v. ?auth = (Inr (), v) \<and> action_admitted (bs_governor b) ''authorization.memory''
          (ingest_action (bs_governor b) ref) w v"
      then obtain v where v: "?auth = (Inr (), v)" "action_admitted (bs_governor b) ''authorization.memory''
          (ingest_action (bs_governor b) ref) w v" by blast
      have "inside_root b path documents_root source ref" using Inr sr business_file_iff by blast
      then show ?thesis using v admitted_store [OF v(2)] unfolding run
        by (intro disjI2 exI [of _ source] exI [of _ ref] exI [of _ v]) simp
    qed
  qed
qed

lemma chunk_record_id:
  "document_id repr (chunk_record hash src category i c v) = Inr (''business:'' @ hash @ '':'' @ show_nat i)"
  by (simp add: document_id_def chunk_record_def dget_or_def)

lemma chunk_ids:
  "list_all2 (\<lambda>d (k, x). document_id repr d = Inr k \<and> P d x) (chunk_records hash src category cs vs) kxs \<Longrightarrow>
     map fst kxs = map (\<lambda>i. ''business:'' @ hash @ '':'' @ show_nat i) [0..<min (length cs) (length vs)]"
proof (rule nth_equalityI)
  assume all: "list_all2 (\<lambda>d (k, x). document_id repr d = Inr k \<and> P d x) (chunk_records hash src category cs vs) kxs"
  then have len: "length kxs = min (length cs) (length vs)"
    by (auto simp: chunk_records_def dest: list_all2_lengthD)
  then show "length (map fst kxs) = length (map (\<lambda>i. ''business:'' @ hash @ '':'' @ show_nat i) [0..<min (length cs) (length vs)])"
    by simp
  fix i assume i: "i < length (map fst kxs)"
  then have "document_id repr (chunk_records hash src category cs vs ! i) = Inr (fst (kxs ! i))"
    using all by (auto simp: list_all2_conv_all_nth case_prod_unfold)
  then show "map fst kxs ! i = map (\<lambda>i. ''business:'' @ hash @ '':'' @ show_nat i) [0..<min (length cs) (length vs)] ! i"
    using i len by (simp add: chunk_records_def chunk_record_id)
qed

text \<open>
  An ingest that returns has written one record for each chunk with its vector, under the hash of the
  document and the number of the chunk, and nothing else. The number of chunks it reports is that of
  the text; where the embedding model gives fewer vectors than chunks, the chunks without one are
  reported as ingested and are not stored.
\<close>

theorem ingest_stores_paired_chunks:
  assumes "ingest_text b t src category n w = (Inr out, v)"
  shows "\<exists>cs vs kxs. chunks t n = Inr cs \<and> chunk_vectors b cs = Inr vs
    \<and> dget out ''chunks'' = Some (VInt (int (length cs)))
    \<and> map fst kxs = map (\<lambda>i. ''business:'' @ bs_sha256 b t @ '':'' @ show_nat i) [0..<min (length cs) (length vs)]
    \<and> list_all2 (\<lambda>d (k, x). document_id (ve_repr (bs_vectors b)) d = Inr k \<and> held_as (bs_vectors b) d x)
        (chunk_records (bs_sha256 b t) src category cs vs) kxs
    \<and> held (mw_store v) = fold (\<lambda>(k, x) m. m(k \<mapsto> x)) kxs (held (mw_store w))"
proof -
  obtain cs vs where cs: "chunks t n = Inr cs" "chunk_vectors b cs = Inr vs"
    and loop: "for_each (chunk_records (bs_sha256 b t) src category cs vs) (remember_chunk b) w = (Inr (), v)"
    and out: "out = [(VStr ''status'', VStr ''ingested''), (VStr ''chunks'', VInt (int (length cs))),
             (VStr ''embedded'', VBool (bs_embed b \<noteq> None)), (VStr ''source_hash'', VStr (bs_sha256 b t))]"
    using assms unfolding ingest_text_def Let_def
    by (elim bnd_return) (auto simp: require_def lift_def ret_def raise_def split: if_splits sum.splits)
  have fn: "remember_chunk b = governed_remember (ve_repr (bs_vectors b)) (bs_governor b) (vector_ops (bs_vectors b))"
    by (rule ext) (simp add: remember_chunk_def)
  obtain kxs where "list_all2 (\<lambda>d (k, x). document_id (ve_repr (bs_vectors b)) d = Inr k \<and> held_as (bs_vectors b) d x)
      (chunk_records (bs_sha256 b t) src category cs vs) kxs"
    "held (mw_store v) = fold (\<lambda>(k, x) m. m(k \<mapsto> x)) kxs (held (mw_store w))"
    using local_vector.turn_stores [OF loop [unfolded fn]] by blast
  then show ?thesis using cs out chunk_ids by (intro exI [of _ cs] exI [of _ vs] exI [of _ kxs]) auto
qed

lemma dict_keys: "fst ` set (dict_of ks vs) = set (map fst (zip ks vs))"
proof -
  have "fst ` set (fold (\<lambda>(k, v). assoc_put k v) kvs acc) = fst ` set acc \<union> set (map fst kvs)" for kvs :: "(string \<times> pyval) list" and acc
    by (induction kvs arbitrary: acc) (simp_all add: keys_assoc_put case_prod_unfold)
  then show ?thesis by (simp add: dict_of_def)
qed

lemma vectors_of_keys: "vectors_of env embeddings = Inr vectors \<Longrightarrow> fst ` set vectors = fst ` set embeddings"
proof -
  assume "vectors_of env embeddings = Inr vectors"
  then have "map fst vectors = map fst embeddings"
    by (induction embeddings arbitrary: vectors) (auto simp: vectors_of_def res_iffs)
  then show ?thesis by (metis list.set_map)
qed

lemma on_store_return:
  assumes "on_store m w = (Inr a, v)"
  obtains s where "m (mw_store w) = (Inr a, s)" "mw_store v = s"
  using assms by (auto simp: on_store_def split: prod.splits)

lemma rebuild_authorized_store:
  "authorize_embedding_rebuild g ks w = (Inr u, v) \<Longrightarrow> mw_store v = mw_store w"
proof (induction ks arbitrary: w)
  case (Cons k ks)
  obtain w1 where w1: "authorize_action g ''authorization.memory''
       (memory_action g ''memory.write'' k ''rebuild_embedding'' [(''memory_id'', k)]) w = (Inr (), w1)"
    and rest: "authorize_embedding_rebuild g ks w1 = (Inr u, v)"
    using Cons.prems unfolding authorize_embedding_rebuild_def by (auto elim!: bnd_return)
  have "mw_store w1 = mw_store w"
    using w1 authorize_action_cases [of g "''authorization.memory''"
        "memory_action g ''memory.write'' k ''rebuild_embedding'' [(''memory_id'', k)]" w]
    by (auto dest: admitted_store)
  then show ?case using Cons.IH [OF rest] by simp
qed (simp add: authorize_embedding_rebuild_def ret_def)

lemma rebuild_return:
  assumes "vector_db_ok (vs_db (mw_store w))" and "rebuild_embeddings b w = (Inr out, v)"
  shows "\<exists>emb docs vs ids vectors (w1 :: memory_world) (w2 :: memory_world). bs_embed b = Some emb \<and> length vs = length docs
    \<and> emb (map (embedded_text b) docs) = Inr vs \<and> document_ids b docs = Inr ids
    \<and> list_all2 (\<lambda>r d. decode_document (bs_vectors b) (vr_document r) = Inr d)
        (sort_key vr_id (vd_rows (vs_db (mw_store w)))) docs
    \<and> authorize_embedding_rebuild (bs_governor b) ids w1 = (Inr (), w2) \<and> vs_db (mw_store w1) = vs_db (mw_store w)
    \<and> set ids = vr_id ` set (vd_rows (vs_db (mw_store w)))
    \<and> vectors_of (bs_vectors b) (dict_of ids vs) = Inr vectors
    \<and> rebuilt_tables (bs_vectors b) vectors (vs_db (mw_store w)) (vs_db (mw_store v))"
proof -
  obtain emb where emb: "bs_embed b = Some emb"
    using assms(2) by (auto simp: rebuild_embeddings_def raise_def split: option.splits)
  obtain docs w1 vs ids w2 where docs: "on_store (vector_documents (bs_vectors b)) w = (Inr docs, w1)"
    and vs: "emb (map (embedded_text b) docs) = Inr vs" "length vs = length docs"
    and ids: "document_ids b docs = Inr ids"
    and auth: "authorize_embedding_rebuild (bs_governor b) ids w1 = (Inr (), w2)"
    and rep: "on_store (replace_embeddings (bs_vectors b) (dict_of ids vs)) w2 = (Inr (), v)"
    using assms(2) emb unfolding rebuild_embeddings_def option.case
    by (auto simp: require_def lift_def ret_def raise_def split: if_splits sum.splits elim!: bnd_return)
  obtain s1 where s1: "vector_documents (bs_vectors b) (mw_store w) = (Inr docs, s1)" "mw_store w1 = s1"
    using on_store_return [OF docs] by blast
  have same: "vs_db s1 = vs_db (mw_store w)"
    using keeps_run [OF keeps_documents [of "vs_db (mw_store w)"] _ s1(1)] by (simp add: db_is_def)
  obtain s0 where s0: "execute_statement (bs_vectors b) (mw_store w) = (Inr (), s0)"
    and decoded: "mapR (\<lambda>r. decode_document (bs_vectors b) (vr_document r)) (sort_key vr_id (vd_rows (vs_db s0))) = Inr docs"
    using s1(1) unfolding vector_documents_def
    by (elim bnd_return) (auto simp: gets_def lift_def ret_def raise_def split: sum.splits elim!: bnd_return)
  have "vs_db s0 = vs_db (mw_store w)"
    using keeps_run [OF keeps_execute [of "vs_db (mw_store w)"] _ s0] by (simp add: db_is_def)
  then have rows: "list_all2 (\<lambda>r d. decode_document (bs_vectors b) (vr_document r) = Inr d)
      (sort_key vr_id (vd_rows (vs_db (mw_store w)))) docs"
    using decoded by (simp add: mapR_Inr_iff)
  have w2: "vs_db (mw_store w2) = vs_db (mw_store w)"
    using rebuild_authorized_store [OF auth] same s1(2) by simp
  obtain s3 where "replace_embeddings (bs_vectors b) (dict_of ids vs) (mw_store w2) = (Inr (), s3)" "mw_store v = s3"
    using on_store_return [OF rep] by blast
  then obtain vectors where vectors: "vectors_of (bs_vectors b) (dict_of ids vs) = Inr vectors"
    "fst ` set vectors = vr_id ` set (vd_rows (vs_db (mw_store w)))"
    "rebuilt_tables (bs_vectors b) vectors (vs_db (mw_store w)) (vs_db (mw_store v))"
    using replace_return assms(1) w2 by metis
  have "length ids = length docs" using ids by (auto simp: document_ids_def mapR_Inr_iff dest: list_all2_lengthD)
  then have "set ids = fst ` set (dict_of ids vs)" using vs(2) by (simp add: dict_keys)
  then have "set ids = vr_id ` set (vd_rows (vs_db (mw_store w)))"
    using vectors(2) vectors_of_keys [OF vectors(1)] by simp
  moreover have "vs_db (mw_store w1) = vs_db (mw_store w)" using same s1(2) by simp
  ultimately show ?thesis using emb vs ids auth rows vectors(1,3) by blast
qed

text \<open>
  A rebuild that returns has asked for and recorded the permission for every record, and has
  given every record of the store, and no other, the vector the model made of its text, in one step.
\<close>

theorem business_rebuild_complete:
  assumes "vector_db_ok (vs_db (mw_store w))" and "rebuild_embeddings b w = (Inr out, v)"
  shows "\<exists>emb docs vs ids vectors (w1 :: memory_world) (w2 :: memory_world). bs_embed b = Some emb \<and> length vs = length docs
    \<and> emb (map (embedded_text b) docs) = Inr vs \<and> document_ids b docs = Inr ids
    \<and> list_all2 (\<lambda>r d. decode_document (bs_vectors b) (vr_document r) = Inr d)
        (sort_key vr_id (vd_rows (vs_db (mw_store w)))) docs
    \<and> authorize_embedding_rebuild (bs_governor b) ids w1 = (Inr (), w2) \<and> vs_db (mw_store w1) = vs_db (mw_store w)
    \<and> set ids = vr_id ` set (vd_rows (vs_db (mw_store w)))
    \<and> vectors_of (bs_vectors b) (dict_of ids vs) = Inr vectors
    \<and> rebuilt_tables (bs_vectors b) vectors (vs_db (mw_store w)) (vs_db (mw_store v))"
  using assms by (rule rebuild_return)

text \<open>
  A record whose document carries, under the key \<open>id\<close>, something else than the identity it is
  stored under blocks the rebuild for good: it raises and changes no table. The store makes such
  a record of a document whose \<open>id\<close> is empty and which is identified by its \<open>chunk_id\<close>.
\<close>

theorem foreign_id_blocks_rebuild:
  assumes "vector_db_ok (vs_db (mw_store w))" and "r \<in> set (vd_rows (vs_db (mw_store w)))"
    and "decode_document (bs_vectors b) (vr_document r) = Inr d" and "ditem d ''id'' = Inr i"
    and "py_str (ve_repr (bs_vectors b)) i \<notin> vr_id ` set (vd_rows (vs_db (mw_store w)))"
  shows "\<exists>e v. rebuild_embeddings b w = (Inl e, v)"
proof (cases "rebuild_embeddings b w")
  case (Pair res v)
  show ?thesis
  proof (cases res)
    case (Inr out)
    obtain docs ids where ids: "document_ids b docs = Inr ids" "set ids = vr_id ` set (vd_rows (vs_db (mw_store w)))"
      and rows: "list_all2 (\<lambda>r d. decode_document (bs_vectors b) (vr_document r) = Inr d)
        (sort_key vr_id (vd_rows (vs_db (mw_store w)))) docs"
      using rebuild_return [OF assms(1) Pair [unfolded Inr]] by blast
    have "r \<in> set (sort_key vr_id (vd_rows (vs_db (mw_store w))))" using assms(2) by simp
    then obtain k where k: "k < length docs" "decode_document (bs_vectors b) (vr_document r) = Inr (docs ! k)"
      using rows unfolding in_set_conv_nth list_all2_conv_all_nth by metis
    have "list_all2 (\<lambda>d i. bindR (ditem d ''id'') (\<lambda>v. Inr (py_str (ve_repr (bs_vectors b)) v)) = Inr i) docs ids"
      using ids(1) by (simp add: document_ids_def mapR_Inr_iff)
    then have "bindR (ditem (docs ! k) ''id'') (\<lambda>v. Inr (py_str (ve_repr (bs_vectors b)) v)) = Inr (ids ! k)" "ids ! k \<in> set ids"
      using k(1) by (auto simp: list_all2_conv_all_nth)
    then show ?thesis using k(2) assms(3-5) ids(2) by auto
  qed (use Pair in simp)
qed

section \<open>Examples\<close>

definition sample_business :: business where
  "sample_business = \<lparr>bs_governor = open_governor, bs_vectors = sample_vectors,
     bs_embed = Some (\<lambda>ts. Inr (map (\<lambda>t. VList [VInt 1]) ts)), bs_sha256 = (\<lambda>t. ''h''),
     bs_resolve = Inr, bs_read_text = (\<lambda>p. Inr ''x'')\<rparr>"

definition sample_business_world :: "vector_store \<Rightarrow> memory_world" where
  "sample_business_world s = \<lparr>w_clock = 0, w_thread = 0, w_task = None, w_leases = [], w_identity = None, w_session = None,
     w_audit = [], mw_store = s, mw_session = None\<rparr>"

lemmas business_run = vector_run sample_business_def sample_business_world_def open_governor_def governed_remember_def
  governed_def authorize_action_def authorize_embedding_rebuild_def memory_action_def on_store_def mr_remember_def
  vector_ops_def vector_documents_def document_ids_def ditem_def embedded_text_def dget_or_def allowed_def dict_of_def
  rebuild_embeddings_def

theorem business_rebuild_complete_witness:
  "fst ` set [(''a'', [1 :: rat])] = vr_id ` set (vd_rows (vs_db (mw_store (snd (rebuild_embeddings sample_business
     (sample_business_world sample_vector_store))))))"
proof -
  let ?w = "sample_business_world sample_vector_store"
  obtain out v where v: "rebuild_embeddings sample_business ?w = (Inr out, v)"
    by (simp add: business_run)
  have ok: "vector_db_ok (vs_db (mw_store ?w))" by (simp add: sample_business_world_def sample_vectors_ok)
  obtain vectors where "rebuilt_tables (bs_vectors sample_business) vectors (vs_db (mw_store ?w)) (vs_db (mw_store v))"
    using business_rebuild_complete [OF ok v] by blast
  then show ?thesis using v
    by (auto simp: rebuilt_tables_def sample_business_world_def sample_vector_store_def sample_vector_row_def
        list_all2_Cons1 rebuilt_def)
qed

text \<open>The table after a document with an empty \<open>id\<close> and the chunk identity \<open>c\<close> was written.\<close>

definition blank_id_env :: vector_env where
  "blank_id_env = sample_vectors\<lparr>ve_loads := (\<lambda>t. Inr (VDict [(VStr ''id'', VStr []), (VStr ''chunk_id'', VStr ''c'')]))\<rparr>"

definition blank_id_store :: vector_store where
  "blank_id_store = snd (vector_upsert blank_id_env [(VStr ''id'', VStr []), (VStr ''chunk_id'', VStr ''c'')]
     (sample_vector_store\<lparr>vs_db := \<lparr>vd_rows = [], vd_index = [], vd_meta = []\<rparr>\<rparr>))"

theorem foreign_id_blocks_rebuild_witness:
  "\<exists>e v. rebuild_embeddings (sample_business\<lparr>bs_vectors := blank_id_env\<rparr>) (sample_business_world blank_id_store) = (Inl e, v)"
proof -
  let ?b = "sample_business\<lparr>bs_vectors := blank_id_env\<rparr>" and ?w = "sample_business_world blank_id_store"
  obtain r where rows: "vd_rows (vs_db (mw_store ?w)) = [r]" "vr_id r = ''c''"
    by (simp add: blank_id_store_def blank_id_env_def business_run vector_upsert_def upsert_many_def prepare_document_def
        validate_embedding_dimensions_def write_row_def document_id_def embedding_of_def trust_of_def created_of_def
        completed_def set_default_def either_of_def document_content_def text_of_def bind_row_def Let_def map_filter_simps)
  let ?d = "[(VStr ''id'', VStr []), (VStr ''chunk_id'', VStr ''c'')]"
    and ?s = "sample_vector_store\<lparr>vs_db := \<lparr>vd_rows = [], vd_index = [], vd_meta = []\<rparr>\<rparr>"
  have "vector_db_ok (vs_db ?s)" by (simp add: vector_db_ok_def tables_ok_def)
  then have "vector_db_ok (vs_db (snd (run_vector_op blank_id_env (Upsert [?d]) ?s)))"
    by (rule op_keeps_ok [OF prod.collapse [symmetric]])
  then have ok: "vector_db_ok (vs_db (mw_store ?w))"
    by (simp add: sample_business_world_def blank_id_store_def vector_upsert_def)
  show ?thesis
    by (rule foreign_id_blocks_rebuild [OF ok, of r _ "[(VStr ''id'', VStr []), (VStr ''chunk_id'', VStr ''c'')]" "VStr []"])
      (use rows in \<open>simp_all add: blank_id_env_def sample_business_def decode_document_def ditem_def\<close>)
qed

theorem ingest_stores_paired_chunks_witness:
  "\<exists>cs. chunks ''x'' 1200 = Inr cs"
proof -
  obtain out v where "ingest_text (sample_business\<lparr>bs_embed := Some (\<lambda>ts. Inr [])\<rparr>) ''x'' ''s'' ''c'' 1200
     (sample_business_world sample_vector_store) = (Inr out, v)"
    by (simp add: ingest_text_def chunks_def paragraphs_def chunk_vectors_def chunk_records_def business_run strip_def is_space_def
        Let_def)
  from ingest_stores_paired_chunks [OF this] show ?thesis by blast
qed

end
