(* ===== verification/Maya_Documents.thy ===== *)
theory Maya_Documents
  imports Maya_Governed Maya_Boundary Maya_Profiles
begin

text \<open>
  Governed documents (\<open>src/project_maya/documents.py\<close>): the resolution of paths below the documents
  directory, the authorization before every operation, and inspection, text extraction, creation and
  conversion over a map of files. The libraries (pypdf, reportlab, markdown, LibreOffice) and what the
  operating system does are parameters. Theorems: no operation touches a file before it is authorized,
  what each may change, and what a conversion does to a file of the source's name.
\<close>

section \<open>Files and libraries\<close>

text \<open>The calls that draw a page.\<close>

datatype drawing = ShowPage | DrawString int int string

record doc_env =
  de_config :: MayaConfig
  de_resolve :: "path \<Rightarrow> path res"
  de_fault :: "nat \<Rightarrow> pyexc option"
  de_pypdf :: "(string \<Rightarrow> string list res) option"
  de_canvas :: "(int \<times> (drawing list \<Rightarrow> string)) option"
  de_markdown :: "(string \<Rightarrow> string) option"
  de_unescape :: "string \<Rightarrow> string"
  de_soffice :: "(string \<Rightarrow> path \<Rightarrow> path \<Rightarrow> files \<Rightarrow> int res \<times> files) option"
  de_lines :: "string \<Rightarrow> string list"
  de_hash :: "string \<Rightarrow> int"
  de_found :: "string \<Rightarrow> bool"

record doc_world = world +
  dw_files :: files
  dw_step :: nat

text \<open>The caller of an operation: gateway and sink are those of the governor.\<close>

record caller =
  dc_governor :: governor
  dc_classification :: string
  dc_key :: "string option"

record DocumentOperationResult =
  do_operation :: string
  do_status :: string
  do_source_ref :: "string option"
  do_output_ref :: "string option"
  do_file_type :: "string option"
  do_bytes_read :: nat
  do_bytes_written :: nat
  do_pages :: "nat option"
  do_characters :: "nat option"
  do_metadata :: "(string \<times> string) list"

type_synonym 'a doc = "(doc_world, 'a) py"

text \<open>\<open>DocumentCapabilityError\<close> and its subclass for a missing library are subclasses of \<open>RuntimeError\<close>.\<close>

definition document_error :: "string \<Rightarrow> pyexc" where
  "document_error m = Exc PyRuntimeError m"

text \<open>A call of the operating system that may fail, and the size of a file.\<close>

definition file_call :: "doc_env \<Rightarrow> unit doc" where
  "file_call env =
     bnd (gets dw_step) (\<lambda>n.
     bnd (modify (\<lambda>w. w\<lparr>dw_step := Suc n\<rparr>)) (\<lambda>_.
     case de_fault env n of None \<Rightarrow> ret () | Some e \<Rightarrow> raise e))"

definition file_size :: "doc_env \<Rightarrow> path \<Rightarrow> nat doc" where
  "file_size env p =
     bnd (file_call env) (\<lambda>_.
     bnd (gets (\<lambda>w. file_text (dw_files w) p)) (\<lambda>r.
     bnd (lift r) (\<lambda>s. ret (length s))))"

definition write_file :: "doc_env \<Rightarrow> path \<Rightarrow> string \<Rightarrow> unit doc" where
  "write_file env p s =
     bnd (file_call env) (\<lambda>_.
     bnd (gets (\<lambda>w. dw_files w p)) (\<lambda>node.
     bnd (require (node \<noteq> Some FolderNode) (os_error ''is a directory'')) (\<lambda>_.
     modify (\<lambda>w. w\<lparr>dw_files := (dw_files w)(p \<mapsto> FileNode s)\<rparr>))))"

section \<open>Paths\<close>

definition documents_root :: "doc_env \<Rightarrow> path" where
  "documents_root env = join_path (data_dir (deployment (de_config env))) (parse_path ''documents'')"

definition require_documents_profile :: "doc_env \<Rightarrow> unit doc" where
  "require_documents_profile env =
     require (DOCUMENTS \<in> set (enabled_profiles (runtime (de_config env))))
       (document_error ''maya-documents profile is not enabled'')"

definition document_candidate :: "path \<Rightarrow> path \<Rightarrow> string option \<Rightarrow> path" where
  "document_candidate base p subdir =
     (if is_absolute p then p
      else case subdir of
          Some d \<Rightarrow> if length (path_parts p) = 1 then join_path (join_path base (parse_path d)) p else join_path base p
        | None \<Rightarrow> join_path base p)"

definition resolve_document_path :: "doc_env \<Rightarrow> files \<Rightarrow> path \<Rightarrow> bool \<Rightarrow> string option \<Rightarrow> path res" where
  "resolve_document_path env fs p must_exist subdir =
     bindR (de_resolve env (documents_root env)) (\<lambda>base.
     bindR (de_resolve env (document_candidate base p subdir)) (\<lambda>resolved.
     bindR (requireR (resolved = base \<or> strictly_inside base resolved)
       (document_error ''document path is outside maya-data/documents'')) (\<lambda>_.
     bindR (requireR (\<not> must_exist \<or> is_file fs resolved) (document_error ''document source does not exist'')) (\<lambda>_.
     bindR (requireR (list_all (\<lambda>part. part \<notin> {[], ''.'', ''..''}) (path_parts (relative_to resolved base)))
       (document_error ''document path is unsafe'')) (\<lambda>_.
     Inr resolved)))))"

definition document_path_of :: "doc_env \<Rightarrow> path \<Rightarrow> bool \<Rightarrow> string option \<Rightarrow> path doc" where
  "document_path_of env p must_exist subdir =
     bnd (gets (\<lambda>w. resolve_document_path env (dw_files w) p must_exist subdir)) lift"

definition without_dot :: "string \<Rightarrow> string" where
  "without_dot s = (if starts_with s ''.'' then drop 1 s else s)"

definition suffix_of :: "doc_env \<Rightarrow> path \<Rightarrow> string" where
  "suffix_of env p = lower (path_suffix p)"

definition file_type :: "doc_env \<Rightarrow> path \<Rightarrow> string" where
  "file_type env p = (let s = without_dot (suffix_of env p) in if s = [] then ''none'' else s)"

definition require_supported_source :: "doc_env \<Rightarrow> path \<Rightarrow> unit doc" where
  "require_supported_source env p =
     require (file_type env p \<in> {''pdf'', ''txt'', ''md'', ''markdown'', ''doc'', ''docx'', ''odt'', ''rtf''})
       (document_error ''unsupported document type'')"

text \<open>\<open>_redacted_ref\<close>: nothing above the data directory is named.\<close>

definition redacted_ref :: "doc_env \<Rightarrow> path \<Rightarrow> string res" where
  "redacted_ref env p =
     bindR (de_resolve env (data_dir (deployment (de_config env)))) (\<lambda>base.
     bindR (de_resolve env p) (\<lambda>resolved.
     Inr (''maya-data/'' @
       (if resolved = base \<or> strictly_inside base resolved then path_str (relative_to resolved base) else ''external''))))"

definition redacted_option :: "doc_env \<Rightarrow> path option \<Rightarrow> string option res" where
  "redacted_option env p =
     (case p of None \<Rightarrow> Inr None | Some q \<Rightarrow> bindR (redacted_ref env q) (\<lambda>r. Inr (Some r)))"

section \<open>Authorization\<close>

definition or_text :: "string option \<Rightarrow> string \<Rightarrow> string" where
  "or_text s t = (case s of Some x \<Rightarrow> if x = [] then t else x | None \<Rightarrow> t)"

definition document_action ::
  "caller \<Rightarrow> string \<Rightarrow> string option \<Rightarrow> string option \<Rightarrow> string \<Rightarrow> bool \<Rightarrow> ActionRequest" where
  "document_action c operation source_ref output_ref kind mutation =
     \<lparr>req_actor_id = gv_actor (dc_governor c), req_capability = ''documents.'' @ operation,
      req_target = or_text output_ref (or_text source_ref ''maya-data/documents''), req_operation = operation,
      req_classification = dc_classification c, req_idempotency_key = dc_key c,
      req_metadata = [(''source_ref'', or_text source_ref ''none''), (''output_ref'', or_text output_ref ''none''),
        (''file_type'', kind), (''mutation'', if mutation then ''true'' else ''false'')]\<rparr>"

abbreviation authorized :: "caller \<Rightarrow> ActionRequest \<Rightarrow> 'a doc \<Rightarrow> 'a doc" where
  "authorized c action body \<equiv> governed (dc_governor c) ''authorization.documents'' action body"

section \<open>Operations\<close>

definition operation_result :: "string \<Rightarrow> string \<Rightarrow> DocumentOperationResult" where
  "operation_result operation status =
     \<lparr>do_operation = operation, do_status = status, do_source_ref = None, do_output_ref = None, do_file_type = None,
      do_bytes_read = 0, do_bytes_written = 0, do_pages = None, do_characters = None, do_metadata = []\<rparr>"

text \<open>What \<open>inspect_document\<close> does once it is authorized.\<close>

definition inspect_body :: "doc_env \<Rightarrow> path \<Rightarrow> string \<Rightarrow> DocumentOperationResult doc" where
  "inspect_body env source ref =
     bnd (file_size env source) (\<lambda>size.
     ret ((operation_result ''inspect'' ''available'')
       \<lparr>do_source_ref := Some ref, do_file_type := Some (file_type env source), do_bytes_read := size,
        do_metadata := [(''extension'', file_type env source),
          (''name_hash'', show_int (\<bar>de_hash env (path_name source)\<bar> mod 1000000))]\<rparr>))"

definition inspect_document :: "doc_env \<Rightarrow> caller \<Rightarrow> path \<Rightarrow> DocumentOperationResult doc" where
  "inspect_document env c source =
     bnd (require_documents_profile env) (\<lambda>_.
     bnd (document_path_of env source True None) (\<lambda>p.
     bnd (require_supported_source env p) (\<lambda>_.
     bnd (lift (redacted_ref env p)) (\<lambda>ref.
     authorized c (document_action c ''inspect'' (Some ref) None (file_type env p) False)
       (inspect_body env p ref)))))"

definition missing_library :: "string \<Rightarrow> pyexc" where
  "missing_library m = document_error m"

definition extract_body ::
  "doc_env \<Rightarrow> path \<Rightarrow> path option \<Rightarrow> string \<Rightarrow> string option \<Rightarrow> (DocumentOperationResult \<times> string) doc" where
  "extract_body env source output ref output_ref =
     (case de_pypdf env of
        None \<Rightarrow> raise (missing_library ''pypdf is required for PDF text extraction'')
      | Some reader \<Rightarrow>
          bnd (file_call env) (\<lambda>_.
          bnd (gets (\<lambda>w. bindR (file_text (dw_files w) source) reader)) (\<lambda>r.
          bnd (lift r) (\<lambda>pages.
          let t = join_with [CHR 0x0A] pages
          in bnd (case output of
                 None \<Rightarrow> ret 0
               | Some p \<Rightarrow>
                   bnd (file_call env) (\<lambda>_. bnd (write_file env p t) (\<lambda>_. file_size env p))) (\<lambda>written.
             bnd (file_size env source) (\<lambda>size.
             ret ((operation_result ''extract-text'' ''extracted'')
               \<lparr>do_source_ref := Some ref, do_output_ref := output_ref, do_file_type := Some ''pdf'',
                do_bytes_read := size, do_bytes_written := written, do_pages := Some (length pages),
                do_characters := Some (length t)\<rparr>, t)))))))"

definition extract_pdf_text ::
  "doc_env \<Rightarrow> caller \<Rightarrow> path \<Rightarrow> path option \<Rightarrow> (DocumentOperationResult \<times> string) doc" where
  "extract_pdf_text env c source output =
     bnd (require_documents_profile env) (\<lambda>_.
     bnd (document_path_of env source True None) (\<lambda>p.
     bnd (case output of None \<Rightarrow> ret None
          | Some out \<Rightarrow> bnd (document_path_of env out False (Some ''outputs'')) (\<lambda>q. ret (Some q))) (\<lambda>q.
     bnd (require (suffix_of env p = ''.pdf'') (document_error ''extract-text supports PDF sources only'')) (\<lambda>_.
     bnd (require (case q of None \<Rightarrow> True | Some out \<Rightarrow> suffix_of env out = ''.txt'')
       (document_error ''extract-text output must end with .txt'')) (\<lambda>_.
     bnd (lift (redacted_ref env p)) (\<lambda>ref.
     bnd (lift (redacted_option env q)) (\<lambda>output_ref.
     authorized c (document_action c ''extract-text'' (Some ref) output_ref ''pdf'' (q \<noteq> None))
       (extract_body env p q ref output_ref))))))))"

definition render_source_text :: "doc_env \<Rightarrow> string \<Rightarrow> string \<Rightarrow> string res" where
  "render_source_text env t source_format =
     (let normalized = lower source_format
      in if normalized \<in> {''plain'', ''txt'', ''text''} then Inr t
         else if normalized \<in> {''markdown'', ''md''} then
           (case de_markdown env of
              None \<Rightarrow> Inl (missing_library ''Markdown is required for Markdown PDF creation'')
            | Some convert \<Rightarrow> Inr (de_unescape env (convert t)))
         else Inl (document_error ''source_format must be plain or markdown''))"

definition plain_lines :: "doc_env \<Rightarrow> string \<Rightarrow> string list" where
  "plain_lines env t =
     (let nl = [CHR 0x0A];
          cleaned = str_replace ''<br>'' nl (str_replace ''<br />'' nl
            (str_replace ''</p>'' nl (str_replace ''<p>'' [] t)));
          lines = filter (\<lambda>l. l \<noteq> []) (map strip (de_lines env cleaned))
      in if lines = [] then [[]] else lines)"

fun draw_lines :: "int \<Rightarrow> int \<Rightarrow> string list \<Rightarrow> drawing list" where
  "draw_lines height y [] = []"
| "draw_lines height y (l # ls) =
     (if y < 72 then ShowPage # DrawString 72 (height - 72) (take 1000 l) # draw_lines height (height - 72 - 14) ls
      else DrawString 72 y (take 1000 l) # draw_lines height (y - 14) ls)"

definition create_body :: "doc_env \<Rightarrow> string \<Rightarrow> path \<Rightarrow> string \<Rightarrow> string \<Rightarrow> DocumentOperationResult doc" where
  "create_body env t output source_format ref =
     (case de_canvas env of
        None \<Rightarrow> raise (missing_library ''reportlab is required for PDF creation'')
      | Some (height, save) \<Rightarrow>
          bnd (lift (render_source_text env t source_format)) (\<lambda>rendered.
          bnd (file_call env) (\<lambda>_.
          bnd (write_file env output (save (draw_lines height (height - 72) (plain_lines env rendered)))) (\<lambda>_.
          bnd (file_size env output) (\<lambda>size.
          ret ((operation_result ''create-pdf'' ''created'')
            \<lparr>do_output_ref := Some ref, do_file_type := Some ''pdf'', do_bytes_written := size,
             do_characters := Some (length t), do_metadata := [(''source_format'', source_format)]\<rparr>))))))"

definition create_pdf :: "doc_env \<Rightarrow> caller \<Rightarrow> string \<Rightarrow> path \<Rightarrow> string \<Rightarrow> DocumentOperationResult doc" where
  "create_pdf env c t output source_format =
     bnd (require_documents_profile env) (\<lambda>_.
     bnd (require (strip t \<noteq> []) (document_error ''document text is required'')) (\<lambda>_.
     bnd (document_path_of env output False (Some ''outputs'')) (\<lambda>q.
     bnd (require (suffix_of env q = ''.pdf'') (document_error ''create-pdf output must end with .pdf'')) (\<lambda>_.
     bnd (lift (redacted_ref env q)) (\<lambda>ref.
     authorized c (document_action c ''create-pdf'' None (Some ref) ''pdf'' True)
       (create_body env t q source_format ref))))))"

text \<open>The file LibreOffice writes: the stem of the source in the directory of the output.\<close>

definition generated_path :: "path \<Rightarrow> path \<Rightarrow> string \<Rightarrow> path" where
  "generated_path source output fmt = join_path (path_parent output) (parse_path (path_stem source @ ''.'' @ fmt))"

definition replace_file :: "doc_env \<Rightarrow> path \<Rightarrow> path \<Rightarrow> unit doc" where
  "replace_file env a b =
     bnd (file_call env) (\<lambda>_.
     bnd (gets (\<lambda>w. dw_files w b)) (\<lambda>node.
     bnd (require (node \<noteq> Some FolderNode) (os_error ''is a directory'')) (\<lambda>_.
     modify (\<lambda>w. w\<lparr>dw_files := (dw_files w)(b := dw_files w a, a := None)\<rparr>))))"

definition convert_body ::
  "doc_env \<Rightarrow> path \<Rightarrow> path \<Rightarrow> string \<Rightarrow> string \<Rightarrow> string \<Rightarrow> DocumentOperationResult doc" where
  "convert_body env source output fmt ref output_ref =
     (case de_soffice env of
        None \<Rightarrow> raise (missing_library ''LibreOffice soffice is required for document conversion'')
      | Some soffice \<Rightarrow>
          bnd (file_call env) (\<lambda>_.
          bnd (gets (\<lambda>w. soffice fmt (path_parent output) source (dw_files w))) (\<lambda>(completed, fs).
          bnd (modify (\<lambda>w. w\<lparr>dw_files := fs\<rparr>)) (\<lambda>_.
          bnd (lift completed) (\<lambda>code.
          bnd (require (code = 0) (document_error ''LibreOffice conversion failed'')) (\<lambda>_.
          bnd (gets (\<lambda>w. dw_files w (generated_path source output fmt) \<noteq> None)) (\<lambda>exists.
          bnd (if generated_path source output fmt \<noteq> output \<and> exists
               then replace_file env (generated_path source output fmt) output else ret ()) (\<lambda>_.
          bnd (gets (\<lambda>w. is_file (dw_files w) output)) (\<lambda>produced.
          bnd (require produced (document_error ''LibreOffice conversion did not produce output'')) (\<lambda>_.
          bnd (file_size env source) (\<lambda>size.
          bnd (file_size env output) (\<lambda>written.
          ret ((operation_result ''convert'' ''converted'')
            \<lparr>do_source_ref := Some ref, do_output_ref := Some output_ref, do_file_type := Some (file_type env source),
             do_bytes_read := size, do_bytes_written := written,
             do_metadata := [(''backend'', ''libreoffice''), (''format'', fmt)]\<rparr>)))))))))))))"

definition convert_document :: "doc_env \<Rightarrow> caller \<Rightarrow> path \<Rightarrow> path \<Rightarrow> string \<Rightarrow> DocumentOperationResult doc" where
  "convert_document env c source output output_format =
     bnd (require_documents_profile env) (\<lambda>_.
     bnd (document_path_of env source True None) (\<lambda>p.
     bnd (require_supported_source env p) (\<lambda>_.
     let fmt = lower output_format
     in bnd (require (fmt \<in> {''pdf'', ''txt'', ''docx''}) (document_error ''convert output format must be pdf, txt, or docx'')) (\<lambda>_.
        bnd (document_path_of env output False (Some ''outputs'')) (\<lambda>q.
        bnd (require (without_dot (suffix_of env q) = fmt) (document_error ''convert output extension must match format'')) (\<lambda>_.
        bnd (lift (redacted_ref env p)) (\<lambda>ref.
        bnd (lift (redacted_ref env q)) (\<lambda>output_ref.
        authorized c (document_action c ''convert'' (Some ref) (Some output_ref) (file_type env p) True)
          (convert_body env p q fmt ref output_ref)))))))))"

section \<open>The state of the capability\<close>

definition dependency_status :: "doc_env \<Rightarrow> string \<Rightarrow> string" where
  "dependency_status env name = (if de_found env name then ''available'' else ''missing_required'')"

definition folder_status :: "files \<Rightarrow> path \<Rightarrow> string" where
  "folder_status fs p =
     (case fs p of Some FolderNode \<Rightarrow> ''available'' | None \<Rightarrow> ''will_create'' | Some (FileNode s) \<Rightarrow> ''invalid'')"

definition document_capability_checks :: "doc_env \<Rightarrow> files \<Rightarrow> DocumentOperationResult list res" where
  "document_capability_checks env fs =
     (if DOCUMENTS \<notin> set (enabled_profiles (runtime (de_config env))) then Inr []
      else
        let profile = (''profile'', profile_value DOCUMENTS);
            folder = documents_root env;
            dependency = (\<lambda>(operation, status, name).
              (operation_result operation status)\<lparr>do_metadata := [(''dependency'', name), profile]\<rparr>)
        in bindR (mapR (\<lambda>(operation, p).
             bindR (redacted_ref env p) (\<lambda>ref.
             Inr ((operation_result operation (folder_status fs p))\<lparr>do_output_ref := Some ref, do_metadata := [profile]\<rparr>)))
             [(''documents-root'', folder), (''documents-cache'', join_path folder (parse_path ''cache'')),
              (''documents-outputs'', join_path folder (parse_path ''outputs''))]) (\<lambda>folders.
           Inr (folders @ map dependency
             [(''pdf-extraction'', dependency_status env ''pypdf'', ''pypdf''),
              (''pdf-creation'', dependency_status env ''reportlab'', ''reportlab''),
              (''libreoffice-conversion'', if de_soffice env \<noteq> None then ''available'' else ''missing_required'', ''soffice'')])))"

section \<open>Nothing before the authorization\<close>

lemma admitted_files: "action_admitted g event action w v \<Longrightarrow> dw_files v = dw_files w"
  by (auto simp: action_admitted_def split: if_splits)

lemma refused_files: "authorize_action g event action w = (Inl e, v) \<Longrightarrow> dw_files v = dw_files w"
  by (cases "gv_gateway g action")
    (auto simp: authorize_action_def bnd_def lift_def ret_def raise_def require_def sink_write_def
      split: option.splits if_splits)

text \<open>
  An operation either raises with every file as it was, or the gateway allowed the action, the answer is
  recorded where one is asked for, and what follows is its body.
\<close>

definition gated :: "caller \<Rightarrow> (ActionRequest \<Rightarrow> 'a doc \<Rightarrow> bool) \<Rightarrow> 'a doc \<Rightarrow> doc_world \<Rightarrow> bool" where
  "gated c follows m w \<longleftrightarrow>
     (\<exists>e v. m w = (Inl e, v) \<and> dw_files v = dw_files w) \<or>
     (\<exists>action body v. follows action body \<and> action_admitted (dc_governor c) ''authorization.documents'' action w v
        \<and> dw_files v = dw_files w \<and> m w = body v)"

named_theorems gates "how an operation reaches its authorization"

lemma gated_authorized [gates]: "follows action body \<Longrightarrow> gated c follows (authorized c action body) w"
  using authorize_action_cases [of "dc_governor c" "''authorization.documents''" action w]
  by (fastforce simp: gated_def governed_def bnd_def dest: refused_files admitted_files)

lemma gated_require [gates]: "(b \<Longrightarrow> gated c P (f ()) w) \<Longrightarrow> gated c P (bnd (require b e) f) w"
  by (auto simp: gated_def bnd_def require_def ret_def raise_def)

lemma gated_lift [gates]: "(\<And>a. r = Inr a \<Longrightarrow> gated c P (f a) w) \<Longrightarrow> gated c P (bnd (lift r) f) w"
  by (cases r) (auto simp: gated_def bnd_def lift_def ret_def raise_def)

lemma gated_path [gates]:
  "(\<And>q. resolve_document_path env (dw_files w) p b d = Inr q \<Longrightarrow> gated c P (f q) w) \<Longrightarrow>
     gated c P (bnd (document_path_of env p b d) f) w"
  by (cases "resolve_document_path env (dw_files w) p b d")
    (auto simp: gated_def document_path_of_def bnd_def gets_def lift_def ret_def raise_def)

lemma gated_profile [gates]: "gated c P (f ()) w \<Longrightarrow> gated c P (bnd (require_documents_profile env) f) w"
  unfolding require_documents_profile_def by (rule gated_require)

lemma gated_supported [gates]: "gated c P (f ()) w \<Longrightarrow> gated c P (bnd (require_supported_source env p) f) w"
  unfolding require_supported_source_def by (rule gated_require)

text \<open>The path an operation works on: resolved, the documents root or below it.\<close>

definition governed_path :: "doc_env \<Rightarrow> path \<Rightarrow> bool" where
  "governed_path env p \<longleftrightarrow>
     (\<exists>base. de_resolve env (documents_root env) = Inr base \<and> (p = base \<or> strictly_inside base p))"

lemma resolve_governed:
  "resolve_document_path env fs p b d = Inr q \<Longrightarrow> governed_path env q \<and> (b \<longrightarrow> is_file fs q)"
  by (auto simp: resolve_document_path_def governed_path_def res_iffs)

text \<open>What each operation asks for and does then.\<close>

definition inspects :: "doc_env \<Rightarrow> caller \<Rightarrow> ActionRequest \<Rightarrow> DocumentOperationResult doc \<Rightarrow> bool" where
  "inspects env c action body \<longleftrightarrow> (\<exists>p ref. governed_path env p \<and> redacted_ref env p = Inr ref
     \<and> action = document_action c ''inspect'' (Some ref) None (file_type env p) False \<and> body = inspect_body env p ref)"

definition extracts :: "doc_env \<Rightarrow> caller \<Rightarrow> ActionRequest \<Rightarrow> (DocumentOperationResult \<times> string) doc \<Rightarrow> bool" where
  "extracts env c action body \<longleftrightarrow> (\<exists>p q ref out. governed_path env p \<and> redacted_ref env p = Inr ref
     \<and> (case q of None \<Rightarrow> True | Some p' \<Rightarrow> governed_path env p') \<and> redacted_option env q = Inr out
     \<and> action = document_action c ''extract-text'' (Some ref) out ''pdf'' (q \<noteq> None)
     \<and> body = extract_body env p q ref out)"

definition creates :: "doc_env \<Rightarrow> caller \<Rightarrow> string \<Rightarrow> string \<Rightarrow> ActionRequest \<Rightarrow> DocumentOperationResult doc \<Rightarrow> bool" where
  "creates env c t fmt action body \<longleftrightarrow> (\<exists>q ref. governed_path env q \<and> redacted_ref env q = Inr ref
     \<and> action = document_action c ''create-pdf'' None (Some ref) ''pdf'' True \<and> body = create_body env t q fmt ref)"

definition converts :: "doc_env \<Rightarrow> caller \<Rightarrow> string \<Rightarrow> ActionRequest \<Rightarrow> DocumentOperationResult doc \<Rightarrow> bool" where
  "converts env c fmt action body \<longleftrightarrow> (\<exists>p q ref out. governed_path env p \<and> governed_path env q
     \<and> redacted_ref env p = Inr ref \<and> redacted_ref env q = Inr out
     \<and> action = document_action c ''convert'' (Some ref) (Some out) (file_type env p) True
     \<and> body = convert_body env p q (lower fmt) ref out)"

lemma inspect_gated: "gated c (inspects env c) (inspect_document env c source) w"
  unfolding inspect_document_def by (intro gates) (auto simp: inspects_def dest: resolve_governed)

lemma create_gated: "gated c (creates env c t fmt) (create_pdf env c t output fmt) w"
  unfolding create_pdf_def by (intro gates) (auto simp: creates_def dest: resolve_governed)

lemma convert_gated: "gated c (converts env c fmt) (convert_document env c source output fmt) w"
  unfolding convert_document_def Let_def by (intro gates) (auto simp: converts_def dest: resolve_governed)

lemma extractsI:
  "governed_path env p \<Longrightarrow> redacted_ref env p = Inr ref \<Longrightarrow> (case q of None \<Rightarrow> True | Some p' \<Rightarrow> governed_path env p')
     \<Longrightarrow> redacted_option env q = Inr out
     \<Longrightarrow> extracts env c (document_action c ''extract-text'' (Some ref) out ''pdf'' (q \<noteq> None)) (extract_body env p q ref out)"
  unfolding extracts_def by blast

lemma extract_gated: "gated c (extracts env c) (extract_pdf_text env c source output) w"
proof (cases "output")
  case None
  then show ?thesis unfolding extract_pdf_text_def None option.case bnd_ret
    by (intro gates extractsI) (auto dest: resolve_governed)
next
  case (Some out)
  then show ?thesis unfolding extract_pdf_text_def Some option.case bnd_assoc bnd_ret
    by (intro gates extractsI) (auto dest: resolve_governed)
qed


section \<open>What an operation changes\<close>

definition same_but :: "path set \<Rightarrow> files \<Rightarrow> doc_world \<Rightarrow> bool" where
  "same_but ps fs w \<longleftrightarrow> (\<forall>q. q \<notin> ps \<longrightarrow> dw_files w q = fs q)"

lemma same_but_refl: "dw_files w = fs \<Longrightarrow> same_but ps fs w"
  by (simp add: same_but_def)

lemma keeps_file_call [keeps_intro]: "keeps (same_but ps fs) (file_call env)"
proof (rule keepsI)
  fix s :: doc_world
  assume "same_but ps fs s"
  then show "wlp (file_call env) (\<lambda>_. same_but ps fs) (\<lambda>_. same_but ps fs) s"
    by (simp add: file_call_def wp same_but_def split: option.split)
qed

lemma keeps_file_size [keeps_intro]: "keeps (same_but ps fs) (file_size env p)"
  unfolding file_size_def by (intro keeps_intro)

lemma keeps_write_file [keeps_intro]: "p \<in> ps \<Longrightarrow> keeps (same_but ps fs) (write_file env p t)"
  unfolding write_file_def by (intro keeps_intro keepsI) (auto simp: wp same_but_def)

lemma keeps_replace_file [keeps_intro]: "a \<in> ps \<Longrightarrow> b \<in> ps \<Longrightarrow> keeps (same_but ps fs) (replace_file env a b)"
  unfolding replace_file_def by (intro keeps_intro keepsI) (auto simp: wp same_but_def)

lemma keeps_cases [keeps_intro]:
  "keeps I m \<Longrightarrow> (\<And>x. v = Some x \<Longrightarrow> keeps I (f x)) \<Longrightarrow> keeps I (case v of None \<Rightarrow> m | Some x \<Rightarrow> f x)"
  "(\<And>a b. keeps I (g a b)) \<Longrightarrow> keeps I (case ab of (a, b) \<Rightarrow> g a b)"
  "(\<And>x. keeps I (h x)) \<Longrightarrow> keeps I (let x = y in h x)"
  by (simp_all split: option.split prod.split)

lemma inspect_footprint: "inspects env c action body \<Longrightarrow> keeps (same_but {} fs) body"
  by (auto simp: inspects_def inspect_body_def intro!: keeps_intro)

lemma create_footprint:
  "creates env c t fmt action body \<Longrightarrow> \<exists>q. governed_path env q \<and> (\<forall>fs. keeps (same_but {q} fs) body)"
  unfolding creates_def create_body_def by (elim exE conjE) (auto intro!: keeps_intro)

lemma extract_footprint:
  "extracts env c action body \<Longrightarrow>
     \<exists>ps. (\<exists>q. ps \<subseteq> {q} \<and> (ps \<noteq> {} \<longrightarrow> governed_path env q)) \<and> (\<forall>fs. keeps (same_but ps fs) body)"
  unfolding extracts_def
proof (elim exE conjE)
  fix p q ref out
  assume q: "case q of None \<Rightarrow> True | Some p' \<Rightarrow> governed_path env p'" and body: "body = extract_body env p q ref out"
  have "keeps (same_but (set_option q) fs) body" for fs
    unfolding body extract_body_def by (cases q; simp) (intro keeps_intro; simp)+
  moreover have "\<exists>p'. set_option q \<subseteq> {p'} \<and> (set_option q \<noteq> {} \<longrightarrow> governed_path env p')"
    using q by (cases q) auto
  ultimately show ?thesis by blast
qed

text \<open>
  What is documented of LibreOffice: it writes the converted file into the given directory, under the
  stem of the source, and touches no other.
\<close>

definition soffice_local :: "doc_env \<Rightarrow> bool" where
  "soffice_local env \<longleftrightarrow>
     (\<forall>soffice fmt folder source fs. de_soffice env = Some soffice \<longrightarrow>
        (\<forall>q. q \<noteq> join_path folder (parse_path (path_stem source @ ''.'' @ fmt)) \<longrightarrow>
           snd (soffice fmt folder source fs) q = fs q))"

lemma convert_footprint:
  assumes "soffice_local env" and "converts env c fmt action body"
  shows "\<exists>p q. governed_path env p \<and> governed_path env q
    \<and> (\<forall>fs. keeps (same_but {q, generated_path p q (lower fmt)} fs) body)"
proof -
  obtain p q ref out where pq: "governed_path env p" "governed_path env q"
    and body: "body = convert_body env p q (lower fmt) ref out"
    using assms(2) by (auto simp: converts_def)
  have run: "keeps (same_but {q, generated_path p q (lower fmt)} fs)
      (bnd (gets (\<lambda>w. soffice (lower fmt) (path_parent q) p (dw_files w))) (\<lambda>(completed, fs').
       bnd (modify (\<lambda>w. w\<lparr>dw_files := fs'\<rparr>)) (\<lambda>_. k completed)))"
    if "de_soffice env = Some soffice" and "\<And>r. keeps (same_but {q, generated_path p q (lower fmt)} fs) (k r)"
    for soffice fs and k :: "int res \<Rightarrow> DocumentOperationResult doc"
  proof (rule keepsI)
    fix s :: doc_world
    assume same: "same_but {q, generated_path p q (lower fmt)} fs s"
    obtain r fs' where r: "soffice (lower fmt) (path_parent q) p (dw_files s) = (r, fs')"
      by (cases "soffice (lower fmt) (path_parent q) p (dw_files s)")
    have "same_but {q, generated_path p q (lower fmt)} fs (s\<lparr>dw_files := fs'\<rparr>)"
      using assms(1) that(1) same r unfolding soffice_local_def same_but_def generated_path_def
      by (metis (no_types, lifting) insertCI doc_world.select_convs(1) doc_world.surjective doc_world.update_convs(1) snd_conv)
    then show "wlp (bnd (gets (\<lambda>w. soffice (lower fmt) (path_parent q) p (dw_files w))) (\<lambda>(completed, fs').
       bnd (modify (\<lambda>w. w\<lparr>dw_files := fs'\<rparr>)) (\<lambda>_. k completed)))
       (\<lambda>_. same_but {q, generated_path p q (lower fmt)} fs) (\<lambda>_. same_but {q, generated_path p q (lower fmt)} fs) s"
      using keepsD [OF that(2)] by (simp add: wp r)
  qed
  have "keeps (same_but {q, generated_path p q (lower fmt)} fs) body" for fs
    unfolding body convert_body_def by (intro keeps_intro run) auto
  then show ?thesis using pq by blast
qed

lemma gated_footprint:
  assumes "gated c follows m w" and "m w = (r, v)"
    and "\<And>action body. follows action body \<Longrightarrow> \<exists>ps. P ps \<and> (\<forall>fs. keeps (same_but ps fs) body)" and "P {}"
  shows "\<exists>ps. P ps \<and> same_but ps (dw_files w) v"
  using assms(1) unfolding gated_def
proof (elim disjE exE conjE)
  fix e u assume "m w = (Inl e, u)" and "dw_files u = dw_files w"
  then show ?thesis using assms(2,4) same_but_refl by auto
next
  fix action body u assume f: "follows action body" and u: "dw_files u = dw_files w" and run: "m w = body u"
  obtain ps where ps: "P ps" "\<forall>fs. keeps (same_but ps fs) body" using assms(3) [OF f] by blast
  have "same_but ps (dw_files w) v"
    using keeps_run [of "same_but ps (dw_files w)" body u r v] ps(2) same_but_refl [OF u] run assms(2) by simp
  then show ?thesis using ps(1) by blast
qed


section \<open>A conversion over a file of the source's name\<close>

text \<open>
  A conversion whose output is not named after its source does not keep a document that is: when
  LibreOffice writes what it documents and the conversion returns, the file that stood under the name of
  the source with the extension of the output, next to the output, is gone, although the action the
  gateway allowed and recorded names only the source and the output.
\<close>

theorem convert_removes_namesake:
  assumes "convert_body env source output fmt ref output_ref w = (Inr result, v)"
    and "de_soffice env = Some soffice"
    and "snd (soffice fmt (path_parent output) source (dw_files w)) (generated_path source output fmt) = Some (FileNode s)"
    and "generated_path source output fmt \<noteq> output"
  shows "dw_files v (generated_path source output fmt) = None \<and> dw_files v output = Some (FileNode s)"
proof -
  let ?g = "generated_path source output fmt"
  have "wlp (convert_body env source output fmt ref output_ref)
     (\<lambda>_ t. dw_files t ?g = None \<and> dw_files t output = Some (FileNode s)) (\<lambda>_ _. True) w"
    unfolding convert_body_def assms(2) option.case
    using assms(3,4)
    by (auto simp: wp file_call_def file_size_def replace_file_def fun_upd_def split: option.splits sum.splits prod.splits)
  then show ?thesis using assms(1) by (simp add: wlp_def)
qed

text \<open>A documents directory with a report under the name of the source, and a converter for it.\<close>

definition sample_soffice :: "string \<Rightarrow> path \<Rightarrow> path \<Rightarrow> files \<Rightarrow> int res \<times> files" where
  "sample_soffice fmt folder source fs =
     (Inr 0, fs(join_path folder (parse_path (path_stem source @ ''.'' @ fmt)) \<mapsto> FileNode ''new''))"

definition sample_documents :: doc_env where
  "sample_documents = \<lparr>de_config = demo_config, de_resolve = Inr, de_fault = (\<lambda>n. None), de_pypdf = None,
     de_canvas = None, de_markdown = None, de_unescape = (\<lambda>t. t), de_soffice = Some sample_soffice,
     de_lines = (\<lambda>t. [t]), de_hash = (\<lambda>t. 0), de_found = (\<lambda>n. False)\<rparr>"

definition sample_folder :: doc_world where
  "sample_folder = \<lparr>w_clock = 0, w_thread = 0, w_task = None, w_leases = [], w_identity = None, w_session = None,
     w_audit = [], dw_files = [Path ''/'' [''d'', ''a.txt''] \<mapsto> FileNode ''text'', Path ''/'' [''d'', ''a.pdf''] \<mapsto> FileNode ''old''],
     dw_step = 0\<rparr>"

lemma sample_soffice_local: "soffice_local sample_documents"
  by (auto simp: soffice_local_def sample_documents_def sample_soffice_def)


theorem convert_removes_namesake_witness:
  "dw_files (snd (convert_body sample_documents (Path ''/'' [''d'', ''a.txt'']) (Path ''/'' [''d'', ''b.pdf'']) ''pdf''
     ''r'' ''o'' sample_folder)) (Path ''/'' [''d'', ''a.pdf'']) = None"
proof -
  let ?src = "Path ''/'' [''d'', ''a.txt'']" and ?out = "Path ''/'' [''d'', ''b.pdf'']"
  have g: "generated_path ?src ?out ''pdf'' = Path ''/'' [''d'', ''a.pdf'']"
    by (simp add: generated_path_def path_parent_def path_stem_def path_name_def path_suffix_def join_path_def
        is_absolute_def parse_path_def Let_def)
  have s: "sample_soffice ''pdf'' (path_parent ?out) ?src fs = (Inr 0, fs(Path ''/'' [''d'', ''a.pdf''] \<mapsto> FileNode ''new''))" for fs
    using g by (simp add: sample_soffice_def generated_path_def)
  have env: "de_soffice sample_documents = Some sample_soffice" by (simp add: sample_documents_def)
  obtain result v where v: "convert_body sample_documents ?src ?out ''pdf'' ''r'' ''o'' sample_folder = (Inr result, v)"
    by (simp add: convert_body_def env s g file_call_def replace_file_def file_size_def file_text_def is_file_def
        sample_folder_def sample_documents_def bnd_def gets_def modify_def ret_def raise_def lift_def require_def)
  show ?thesis
    using convert_removes_namesake [OF v env, of "''new''"] v by (simp add: g s)
qed

end
