(* ===== verification/Maya_Restored.thy ===== *)
theory Maya_Restored
  imports Maya_Backup
begin

text \<open>
  What backups and restores leave behind: which paths an operation may change whatever fails, what the
  archive of a backup holds, and that a restore gives the files of the backup back.
\<close>

section \<open>Footprints\<close>

lemma node_at_files [simp]: "node_at (w\<lparr>bw_files := xs\<rparr>) = map_of xs"
  by (rule ext) (simp add: node_at_def)

lemma node_at_step [simp]: "node_at (w\<lparr>bw_step := n\<rparr>) = node_at w"
  by (rule ext) (simp add: node_at_def)

lemma map_of_files [simp]: "map_of (bw_files w) = node_at w"
  by (rule ext) (rule node_at_def [symmetric])

lemma map_of_drop [simp]: "map_of (filter (\<lambda>(q, x). q \<noteq> p) xs) = (map_of xs)(p := None)"
  by (induction xs) (auto simp: fun_eq_iff)

text \<open>Since \<open>w0\<close> only the paths of \<open>fs\<close> have changed, and some paths of \<open>ds\<close> are new directories.\<close>

definition only :: "path set \<Rightarrow> path set \<Rightarrow> backup_world \<Rightarrow> backup_world \<Rightarrow> bool" where
  "only fs ds w0 w \<longleftrightarrow> (\<forall>p. p \<in> fs \<or> node_at w p = node_at w0 p
     \<or> (p \<in> ds \<and> node_at w0 p = None \<and> node_at w p = Some FolderNode))"

lemma only_refl [simp]: "only fs ds w w"
  by (simp add: only_def)

lemma only_trans: "only fs ds w0 w \<Longrightarrow> only fs' ds' w w' \<Longrightarrow> only (fs \<union> fs') (ds \<union> ds') w0 w'"
  unfolding only_def by (metis UnCI)

lemma only_mono: "only fs ds w0 w \<Longrightarrow> fs \<subseteq> fs' \<Longrightarrow> ds \<subseteq> ds' \<Longrightarrow> only fs' ds' w0 w"
  unfolding only_def by blast

lemma keeps_bak_call [keeps_intro]: "keeps (only fs ds w0) (bak_call env)"
  by (rule keepsI) (auto simp: bak_call_def wp only_def split: option.split)

lemma keeps_put_node [keeps_intro]: "p \<in> fs \<Longrightarrow> keeps (only fs ds w0) (put_node p x)"
  by (rule keepsI) (auto simp: put_node_def wp only_def)

lemma keeps_drop_node [keeps_intro]: "p \<in> fs \<Longrightarrow> keeps (only fs ds w0) (drop_node p)"
  by (rule keepsI) (auto simp: drop_node_def wp only_def)

lemma keeps_ensure_folder [keeps_intro]: "p \<in> ds \<Longrightarrow> keeps (only fs ds w0) (ensure_folder p)"
  by (rule keepsI) (auto simp: ensure_folder_def put_node_def wp only_def split: option.split fnode.split)

lemma keeps_for_each_mem: "(\<And>x. x \<in> set xs \<Longrightarrow> keeps I (f x)) \<Longrightarrow> keeps I (for_each xs f)"
  by (induction xs) (auto intro!: keeps_intro)

lemma keeps_bak_mkdir [keeps_intro]: "set (prefixes_of p) \<subseteq> ds \<Longrightarrow> keeps (only fs ds w0) (bak_mkdir env p)"
  unfolding bak_mkdir_def by (intro keeps_bnd keeps_bak_call keeps_for_each_mem keeps_ensure_folder) auto

lemma keeps_bak_write [keeps_intro]: "p \<in> fs \<Longrightarrow> keeps (only fs ds w0) (bak_write env p s)"
  unfolding bak_write_def by (intro keeps_intro)

lemma keeps_bak_read [keeps_intro]: "keeps (only fs ds w0) (bak_read env p)"
  unfolding bak_read_def by (intro keeps_intro) (auto intro: keeps_intro split: option.split fnode.split)

lemma keeps_discard [keeps_intro]: "p \<in> fs \<Longrightarrow> keeps (only fs ds w0) (discard env p)"
  unfolding discard_def by (intro keeps_intro) (auto intro: keeps_intro split: option.split fnode.split)

lemma keeps_archived_content [keeps_intro]: "keeps (only fs ds w0) (archived_content env base p)"
  unfolding archived_content_def by (intro keeps_intro)

lemma keeps_archive_files [keeps_intro]: "keeps (only fs ds w0) (archive_files env base ps)"
  by (induction ps) (auto intro!: keeps_intro)

lemma keeps_collect_members [keeps_intro]: "keeps (only fs ds w0) (collect_members env)"
  unfolding collect_members_def by (intro keeps_intro)

lemma keeps_write_archive [keeps_intro]: "p \<in> fs \<Longrightarrow> keeps (only fs ds w0) (write_archive env p)"
  unfolding write_archive_def by (intro keeps_bnd keeps_bak_write keeps_collect_members) (auto intro!: keeps_intro split: prod.split)

lemma keeps_restore_file [keeps_intro]:
  "p \<in> fs \<Longrightarrow> set (prefixes_of (path_parent p)) \<subseteq> ds \<Longrightarrow> keeps (only fs ds w0) (restore_file env ms (p, name))"
  unfolding restore_file_def by (auto intro!: keeps_intro split: option.split)

section \<open>What a backup leaves\<close>

lemma archive_tmp_other [simp]: "archive_tmp p \<noteq> p"
proof
  assume "archive_tmp p = p"
  then have "path_parts p = butlast (path_parts p) @ [path_name p @ ''.tmp'']"
    by (metis archive_tmp_def path.sel(2))
  then show False by (cases "path_parts p = []") (auto simp: path_name_def dest: arg_cong [of _ _ last])
qed

lemma collect_members_state: "collect_members env s = (r, t) \<Longrightarrow> node_at t = node_at s"
  using keeps_run [OF keeps_collect_members only_refl, of env s r t "{}" "{}"] by (simp add: only_def fun_eq_iff)

text \<open>The archive that is written: what was collected, as it lies in the temporary file.\<close>

definition holds_members :: "backup_env \<Rightarrow> backup_world \<Rightarrow> path \<Rightarrow> path \<Rightarrow> members \<times> BackupManifest \<Rightarrow> backup_world \<Rightarrow> bool" where
  "holds_members env w tmp p x v \<longleftrightarrow> node_at v p = Some (FileNode (bk_zip env (fst x)))
     \<and> (\<exists>s t. collect_members env s = (Inr x, t) \<and> only {tmp} {} w s)"

lemma write_archive_outcome:
  assumes "only {tmp} ds w0 s"
  shows "wlp (write_archive env tmp) (\<lambda>x v. only {tmp} ds w0 v \<and> holds_members env s tmp tmp x v)
    (\<lambda>e. only {tmp} ds w0) s"
proof (rule wlpI)
  show "only {tmp} ds w0 t" if "write_archive env tmp s = (Inl e, t)" for e t
    using keeps_run [OF keeps_write_archive assms that] by simp
  fix x t assume run: "write_archive env tmp s = (Inr x, t)"
  have "wlp (write_archive env tmp) (\<lambda>x v. holds_members env s tmp tmp x v) (\<lambda>e v. True) s"
    unfolding write_archive_def wp_bnd
  proof (rule wlp_mono [OF keepsD [OF keeps_bak_write [of tmp "{tmp}" "{}" s]]])
    fix u assume u: "only {tmp} {} s u"
    show "wlp (collect_members env)
        (\<lambda>a. wlp (case a of (ms, manifest) \<Rightarrow> bnd (bak_write env tmp (bk_zip env ms)) (\<lambda>_. ret (ms, manifest)))
          (holds_members env s tmp tmp) (\<lambda>e v. True)) (\<lambda>e v. True) u"
    proof (rule wlpI; clarsimp)
      fix ms manifest v assume "collect_members env u = (Inr (ms, manifest), v)"
      then show "wlp (bnd (bak_write env tmp (bk_zip env ms)) (\<lambda>_. ret (ms, manifest))) (holds_members env s tmp tmp) (\<lambda>e v. True) v"
        using u by (auto simp: bak_write_def bak_call_def put_node_def wp holds_members_def split: option.split)
    qed
  qed simp_all
  then show "only {tmp} ds w0 t \<and> holds_members env s tmp tmp x t"
    using keeps_run [OF keeps_write_archive assms run] run by (simp add: wlp_def)
qed

lemma replace_outcome:
  assumes "only {a} ds w0 s" and "a \<noteq> b"
  shows "wlp (bak_replace env a b)
    (\<lambda>_ v. only {a, b} ds w0 v \<and> node_at v b = node_at s a \<and> node_at v a = None) (\<lambda>e. only {a} ds w0) s"
  using assms by (auto simp: bak_replace_def bak_call_def put_node_def drop_node_def wp only_def split: option.split)

lemma bak_mkdir_only: "wlp (bak_mkdir env p) (\<lambda>_. only fs (set (prefixes_of p)) w) (\<lambda>_. only fs (set (prefixes_of p)) w) w"
  by (rule keepsD [OF keeps_bak_mkdir]) simp_all

lemma publish_outcome:
  assumes "only {} ds w u"
  shows "wlp (publish_archive env archive)
    (\<lambda>x v. only {archive_tmp archive, archive} ds w v \<and> node_at v (archive_tmp archive) = None
       \<and> holds_members env u (archive_tmp archive) archive x v)
    (\<lambda>e. only {archive_tmp archive} ds w) u"
proof -
  let ?t = "archive_tmp archive"
  have u: "only {?t} ds w u" using assms by (rule only_mono) simp_all
  have err: "wlp (if is_exception e
      then bnd (discard env ?t) (\<lambda>_. raise (backup_error ''backup creation failed'')) else raise e)
      Q (\<lambda>e. only {?t} ds w) v" if "only {?t} ds w v" for Q v and e :: pyexc
    using keepsD [OF keeps_discard that, of ?t env] that by (simp add: wp)
  show ?thesis
    unfolding publish_archive_def wp_try_except wp_bnd
  proof (rule wlp_mono [OF write_archive_outcome [OF u]])
    fix x v assume v: "only {?t} ds w v \<and> holds_members env u ?t ?t x v"
    obtain ms manifest where x: "x = (ms, manifest)" by (cases x)
    show "wlp (case x of (ms, manifest) \<Rightarrow> bnd (bak_replace env ?t archive) (\<lambda>_. ret (ms, manifest)))
        (\<lambda>x v. only {?t, archive} ds w v \<and> node_at v ?t = None \<and> holds_members env u (archive_tmp archive) archive x v)
        (\<lambda>e. wlp (if is_exception e
          then bnd (discard env ?t) (\<lambda>_. raise (backup_error ''backup creation failed'')) else raise e)
          (\<lambda>x v. only {?t, archive} ds w v \<and> node_at v ?t = None \<and> holds_members env u (archive_tmp archive) archive x v)
          (\<lambda>e. only {?t} ds w)) v"
      unfolding x prod.case wp_bnd wp_ret
    proof (rule wlp_mono [OF replace_outcome [OF conjunct1 [OF v] archive_tmp_other]])
      show "only {?t, archive} ds w y \<and> node_at y ?t = None \<and> holds_members env u ?t archive (ms, manifest) y"
        if "only {?t, archive} ds w y \<and> node_at y archive = node_at v ?t \<and> node_at y ?t = None" for y
        using that v unfolding x holds_members_def by simp
    qed (rule err)
  qed (rule err)
qed

lemma create_outcome:
  assumes "bk_resolve env (backup_path env destination) = Inr archive"
    and "create_local_backup env destination w = (r, v)"
  shows "case r of
      Inl e \<Rightarrow> only {archive_tmp archive} (set (prefixes_of (path_parent archive))) w v
    | Inr result \<Rightarrow>
        only {archive_tmp archive, archive} (set (prefixes_of (path_parent archive))) w v
        \<and> br_archive_path result = archive \<and> node_at w archive = None \<and> node_at v (archive_tmp archive) = None
        \<and> (\<exists>ms s t u. node_at v archive = Some (FileNode (bk_zip env ms)) \<and> br_files result = length ms
             \<and> only {} (set (prefixes_of (path_parent archive))) w u
             \<and> only {archive_tmp archive} {} u s
             \<and> collect_members env s = (Inr (ms, br_manifest result), t))"
proof -
  let ?t = "archive_tmp archive" and ?ds = "set (prefixes_of (path_parent archive))"
  define Q where "Q = (\<lambda>(result :: BackupResult) v. only {?t, archive} ?ds w v \<and> br_archive_path result = archive
    \<and> node_at w archive = None \<and> node_at v ?t = None
    \<and> (\<exists>ms s t u. node_at v archive = Some (FileNode (bk_zip env ms)) \<and> br_files result = length ms
         \<and> only {} ?ds w u \<and> only {?t} {} u s \<and> collect_members env s = (Inr (ms, br_manifest result), t)))"
  let ?E = "\<lambda>e :: pyexc. only {?t} ?ds w"
  have made: "wlp (bak_mkdir env (path_parent archive))
      (\<lambda>_. wlp (publish_archive env archive) (\<lambda>x. wlp (case x of (ms, manifest) \<Rightarrow>
         ret \<lparr>br_archive_path = archive, br_files = length ms, br_manifest = manifest\<rparr>) Q ?E) ?E) ?E w"
    if free: "node_at w archive = None"
  proof (rule wlp_mono [OF bak_mkdir_only [of _ _ "{}"]])
    fix u assume u: "only {} ?ds w u"
    show "wlp (publish_archive env archive) (\<lambda>x. wlp (case x of (ms, manifest) \<Rightarrow>
         ret \<lparr>br_archive_path = archive, br_files = length ms, br_manifest = manifest\<rparr>) Q ?E) ?E u"
    proof (rule wlp_mono [OF publish_outcome [OF u]])
      fix x v assume v: "only {?t, archive} ?ds w v \<and> node_at v ?t = None \<and> holds_members env u ?t archive x v"
      obtain ms manifest where x: "x = (ms, manifest)" by (cases x)
      show "wlp (case x of (ms, manifest) \<Rightarrow>
         ret \<lparr>br_archive_path = archive, br_files = length ms, br_manifest = manifest\<rparr>) Q ?E v"
        using v u free unfolding x prod.case wp_ret Q_def holds_members_def by auto
    qed
  qed (auto elim: only_mono)
  have "wlp (create_local_backup env destination) Q ?E w"
    unfolding create_local_backup_def wp_bnd wp_lift wp_gets wp_require assms(1) sum.case
    by (auto simp: made split: sum.split)
  then show ?thesis using assms(2) unfolding Q_def by (cases r) (simp_all add: wlp_def)
qed


section \<open>Where a restore writes\<close>

lemma prefixes_length: "q \<in> set (prefixes_of p) \<longleftrightarrow>
    (\<exists>n \<le> length (path_parts p). q = Path (path_root p) (take n (path_parts p)))"
  unfolding prefixes_of_def set_map set_upt image_iff Bex_def atLeastLessThan_iff less_Suc_eq_le by auto

lemma prefixes_inside:
  assumes "inside_or_same base p" and "q \<in> set (prefixes_of p)"
  shows "inside_or_same base q \<or> q \<in> set (prefixes_of base)"
proof -
  obtain n where n: "n \<le> length (path_parts p)" "q = Path (path_root p) (take n (path_parts p))"
    using assms(2) by (auto simp: prefixes_length)
  have same: "path_root base = path_root p" "take (length (path_parts base)) (path_parts p) = path_parts base"
    using assms(1) by (auto simp: inside_or_same_def strictly_inside_def)
  show ?thesis
  proof (cases "n \<le> length (path_parts base)")
    case True
    then have "take n (path_parts base) = take n (path_parts p)" using same(2) by (metis min_absorb1 take_take)
    then show ?thesis using True n same(1) by (auto simp: prefixes_length)
  next
    case False
    then show ?thesis using n same by (auto simp: inside_or_same_def strictly_inside_def min_def)
  qed
qed

lemma parent_prefixes: "set (prefixes_of (path_parent p)) \<subseteq> set (prefixes_of p)"
proof
  fix q assume "q \<in> set (prefixes_of (path_parent p))"
  then obtain n where n: "n \<le> length (path_parts p) - 1" "q = Path (path_root p) (take n (butlast (path_parts p)))"
    by (auto simp: prefixes_length path_parent_def)
  then have "take n (butlast (path_parts p)) = take n (path_parts p)" by (simp add: butlast_conv_take min_def)
  then show "q \<in> set (prefixes_of p)" using n by (auto simp: prefixes_length intro: exI [of _ n])
qed

lemma restore_target_inside:
  "restore_target env target name = Inr p \<Longrightarrow> \<exists>base. bk_resolve env target = Inr base \<and> inside_or_same base p"
  by (auto simp: restore_target_def Let_def res_iffs)

lemma restore_plan_targets:
  assumes "restore_plan env target ms = Inr plan" and "(p, name) \<in> set plan"
  shows "restore_target env target name = Inr p"
  using assms by (auto simp: restore_plan_def res_iffs dest!: mapR_mem)

lemma keeps_archive_file [keeps_intro]: "keeps (only fs ds w0) (archive_file env p)"
  unfolding archive_file_def by (intro keeps_intro)

lemma keeps_restore_folder [keeps_intro]: "keeps (only fs ds w0) (restore_folder env p)"
  unfolding restore_folder_def by (intro keeps_intro)

lemma keeps_open_archive [keeps_intro]: "keeps (only fs ds w0) (open_archive env p)"
  unfolding open_archive_def by (intro keeps_intro) (auto intro: keeps_intro split: option.split)

text \<open>Since \<open>w\<close> only paths in or above the target have changed, and none that was there unless \<open>allow\<close>.\<close>

definition confined :: "path \<Rightarrow> bool \<Rightarrow> backup_world \<Rightarrow> backup_world \<Rightarrow> bool" where
  "confined target allow w v \<longleftrightarrow> (\<forall>p. node_at v p = node_at w p
     \<or> (inside_or_same target p \<or> p \<in> set (prefixes_of target)) \<and> (allow \<or> node_at w p = None))"

lemma confined_same: "node_at v = node_at w \<Longrightarrow> confined target allow w v"
  by (simp add: confined_def)

lemma restore_loop_confined:
  assumes "restore_plan env target ms = Inr plan" and "bk_resolve env target = Inr target"
    and "restore_conflicts u plan allow = 0"
  shows "wlp (for_each plan (restore_file env ms)) (\<lambda>_. confined target allow u) (\<lambda>_. confined target allow u) u"
proof -
  let ?fs = "fst ` set plan" and ?ds = "\<Union>p \<in> fst ` set plan. set (prefixes_of (path_parent p))"
  have inside: "inside_or_same target p" if "p \<in> ?fs" for p
    using that restore_plan_targets [OF assms(1)] restore_target_inside assms(2) by fastforce
  have new: "allow \<or> node_at u p = None" if "p \<in> ?fs" for p
    using that assms(3) by (auto simp: restore_conflicts_def filter_empty_conv)
  have "keeps (only ?fs ?ds u) (for_each plan (restore_file env ms))"
  proof (rule keeps_for_each_mem)
    fix x assume x: "x \<in> set plan"
    obtain p name where p: "x = (p, name)" by (rule prod.exhaust)
    have "p \<in> ?fs" using x unfolding p by (rule image_eqI [rotated]) simp
    moreover from this have "set (prefixes_of (path_parent p)) \<subseteq> ?ds" by (rule UN_upper)
    ultimately show "keeps (only ?fs ?ds u) (restore_file env ms x)" unfolding p by (rule keeps_restore_file)
  qed
  moreover have "confined target allow u v" if "only ?fs ?ds u v" for v
    unfolding confined_def
  proof
    fix p
    have "p \<in> ?fs \<or> node_at v p = node_at u p \<or> p \<in> ?ds \<and> node_at u p = None \<and> node_at v p = Some FolderNode"
      using \<open>only ?fs ?ds u v\<close> unfolding only_def by (rule spec)
    then consider "p \<in> ?fs" | "node_at v p = node_at u p" | "p \<in> ?ds" "node_at u p = None"
      by (elim disjE conjE)
    then show "node_at v p = node_at u p
       \<or> (inside_or_same target p \<or> p \<in> set (prefixes_of target)) \<and> (allow \<or> node_at u p = None)"
    proof cases
      case 3
      then show ?thesis using inside prefixes_inside parent_prefixes by blast
    qed (use inside new in auto)
  qed
  ultimately show ?thesis by (auto intro: wlp_mono [OF keepsD])
qed

lemma wlp_bnd_keeps:
  assumes "keeps J m" and "J u" and "\<And>a v. m u = (Inr a, v) \<Longrightarrow> J v \<Longrightarrow> wlp (f a) Q (\<lambda>_. I) v" and "\<And>v. J v \<Longrightarrow> I v"
  shows "wlp (bnd m f) Q (\<lambda>_. I) u"
  unfolding wp_bnd by (rule wlpI) (use assms keeps_run [OF assms(1, 2)] in auto)

lemma resolved_folder: "restore_folder env destination w = (Inr target, v) \<Longrightarrow> bk_resolve env destination = Inr target"
  by (auto simp: restore_folder_def bnd_def lift_def gets_def require_def ret_def raise_def split: sum.splits if_splits)

text \<open>
  C12. A restore stays where it is told to. Whatever the archive holds and whatever fails, and whenever,
  no path has changed but those in the destination and new directories above it; unless overwriting was
  allowed nothing that was there has changed; and without \<open>apply\<close> nothing has changed at all. The
  resolution of a resolved path is that path.
\<close>

theorem restore_confined:
  assumes idempotent: "\<And>p q. bk_resolve env p = Inr q \<Longrightarrow> bk_resolve env q = Inr q"
    and run: "restore_local_backup env archive destination really allow_overwrite w = (r, v)"
  shows "case bk_resolve env destination of
      Inl e \<Rightarrow> node_at v = node_at w
    | Inr target \<Rightarrow> if really then confined target allow_overwrite w v else node_at v = node_at w"
proof -
  let ?same = "only {} {} w"
  have same: "?same u \<longleftrightarrow> node_at u = node_at w" for u by (simp add: only_def fun_eq_iff)
  define I where "I = (\<lambda>v. case bk_resolve env destination of
      Inl e \<Rightarrow> node_at v = node_at w
    | Inr target \<Rightarrow> if really then confined target allow_overwrite w v else node_at v = node_at w)"
  have I_same: "?same u \<Longrightarrow> I u" for u unfolding I_def same by (auto intro: confined_same split: sum.split)
  have "wlp (restore_local_backup env archive destination really allow_overwrite) (\<lambda>_. I) (\<lambda>_. I) w"
    unfolding restore_local_backup_def
  proof (rule wlp_bnd_keeps [OF keeps_archive_file only_refl _ I_same], rule wlp_bnd_keeps [OF keeps_restore_folder _ _ I_same],
      assumption, rule wlp_bnd_keeps [OF keeps_open_archive _ _ I_same], assumption)
    fix source u1 target u2 ms u
    assume folder: "restore_folder env destination u1 = (Inr target, u2)" and u: "?same u"
    have target: "bk_resolve env destination = Inr target" by (rule resolved_folder [OF folder])
    have loop: "wlp (for_each plan (restore_file env ms)) (\<lambda>_. I) (\<lambda>_. I) u"
      if "restore_plan env target ms = Inr plan" "restore_conflicts u plan allow_overwrite = 0" really for plan
    proof -
      have "confined target allow_overwrite u = confined target allow_overwrite w"
        using u by (simp add: same confined_def fun_eq_iff)
      then have "I = confined target allow_overwrite u" using that(3) by (simp add: I_def target fun_eq_iff)
      then show ?thesis using restore_loop_confined [OF that(1) idempotent [OF target] that(2)] by simp
    qed
    show "wlp (bnd (lift (restore_plan env target ms)) (\<lambda>plan.
        bnd (gets (\<lambda>w. restore_conflicts w plan allow_overwrite)) (\<lambda>conflicts.
        bnd (require (conflicts = 0) (backup_error ''restore destination contains existing files'')) (\<lambda>_.
        if \<not> really then ret (restore_result source target (length plan) True conflicts)
        else bnd (for_each plan (restore_file env ms)) (\<lambda>_.
          ret (restore_result source target (length plan) False 0)))))) (\<lambda>_. I) (\<lambda>_. I) u"
    proof (cases "restore_plan env target ms")
      case (Inl e)
      then show ?thesis using I_same [OF u] by (simp add: wp)
    next
      case (Inr plan)
      note Iu = I_same [OF u]
      consider "restore_conflicts u plan allow_overwrite \<noteq> 0" | "restore_conflicts u plan allow_overwrite = 0" "\<not> really"
        | "restore_conflicts u plan allow_overwrite = 0" really by blast
      then show ?thesis
      proof cases
        case 3
        then show ?thesis
          unfolding Inr wp_bnd wp_lift wp_gets wp_require sum.case wp_ret
          by (simp only: simp_thms if_True if_False wp_bnd wp_ret loop [OF Inr])
      qed (simp_all only: Inr wp_bnd wp_lift wp_gets wp_require sum.case wp_ret simp_thms if_True if_False Iu)
    qed
  qed
  from wlp_result [OF this run] show ?thesis unfolding I_def .
qed

section \<open>Round trip\<close>

text \<open>A normalized absolute path, as \<open>Path.resolve\<close> gives it.\<close>

definition plain_path :: "path \<Rightarrow> bool" where
  "plain_path p \<longleftrightarrow> wf_path p \<and> is_absolute p \<and> ''..'' \<notin> set (path_parts p)"

text \<open>The files of the data directory a backup takes as they are.\<close>

definition backed_up :: "backup_env \<Rightarrow> path \<Rightarrow> bool" where
  "backed_up env p \<longleftrightarrow> strictly_inside (bak_data_dir env) p
     \<and> \<not> inside_or_same (join_path (bak_data_dir env) (parse_path ''backups'')) p
     \<and> \<not> excluded_from_default_backup (relative_to p (bak_data_dir env))
     \<and> \<not> is_memory_database_sidecar (bak_data_dir env) p \<and> p \<noteq> memory_database (bak_data_dir env)"

lemma archived_content_file:
  assumes "archived_content env base p s = (Inr c, t)"
  shows "node_at t = node_at s" and "p \<noteq> memory_database base \<Longrightarrow> node_at s p = Some (FileNode c)"
proof -
  show "node_at t = node_at s"
    using keeps_run [OF keeps_archived_content only_refl assms, of "{}" "{}"] by (simp add: only_def fun_eq_iff)
  show "node_at s p = Some (FileNode c)" if "p \<noteq> memory_database base"
    using assms that by (auto simp: archived_content_def bak_read_def bak_call_def gets_def modify_def ret_def raise_def
      elim!: bnd_return split: option.splits fnode.splits)
qed

lemma archive_files_content:
  "archive_files env base ps s = (Inr ms, t) \<Longrightarrow>
     list_all2 (\<lambda>p m. archive_name base p = Inr (fst m)
       \<and> (p \<noteq> memory_database base \<longrightarrow> node_at s p = Some (FileNode (snd m)))) ps ms"
proof (induction ps arbitrary: s ms t)
  case (Cons p ps)
  show ?case
    using Cons.prems
  proof (simp, elim bnd_return)
    fix c u name u' ms' u''
    assume c: "archived_content env base p s = (Inr c, u)" and n: "lift (archive_name base p) u = (Inr name, u')"
      and rest: "archive_files env base ps u' = (Inr ms', u'')" and r: "ret ((name, c) # ms') u'' = (Inr ms, t)"
    have "node_at u' = node_at s" using archived_content_file(1) [OF c] n by (simp add: lift_def)
    then show "list_all2 (\<lambda>p m. archive_name base p = Inr (fst m)
       \<and> (p \<noteq> memory_database base \<longrightarrow> node_at s p = Some (FileNode (snd m)))) (p # ps) ms"
      using Cons.IH [OF rest] archived_content_file(2) [OF c] n r by (auto simp: lift_def ret_def)
  qed
qed (simp add: ret_def)

lemma collect_members_content:
  assumes "collect_members env s = (Inr (ms, manifest), t)" and "bk_resolve env (bak_data_dir env) = Inr base"
  obtains config ps data mt where "ms = (''maya-config.json'', config) # data @ [(''maya-backup-manifest.json'', mt)]"
    and "iter_backup_files env (bw_files s) = Inr ps"
    and "list_all2 (\<lambda>p m. archive_name base p = Inr (fst m)
       \<and> (p \<noteq> memory_database base \<longrightarrow> node_at s p = Some (FileNode (snd m)))) ps data"
  using assms unfolding collect_members_def
  by (elim bnd_return) (auto simp: lift_def gets_def ret_def dest: archive_files_content)

lemma restore_file_step:
  assumes "restore_file env ms (p, n) u = (Inr (), v)"
  shows "\<exists>c. map_of (rev ms) n = Some c \<and> node_at v p = Some (FileNode c)"
    and "q \<noteq> p \<Longrightarrow> node_at u q = Some x \<Longrightarrow> node_at v q = Some x"
proof -
  show "\<exists>c. map_of (rev ms) n = Some c \<and> node_at v p = Some (FileNode c)"
    using assms unfolding restore_file_def prod.case
    by (elim bnd_return) (auto simp: bak_write_def put_node_def modify_def raise_def elim!: bnd_return split: option.splits)
  have "only {p} (set (prefixes_of (path_parent p))) u v"
    by (rule keeps_run [OF keeps_restore_file only_refl assms]) simp_all
  then show "node_at v q = Some x" if "q \<noteq> p" "node_at u q = Some x"
    using that by (auto simp: only_def dest: spec [of _ q])
qed

text \<open>The last member with a target wins.\<close>

lemma restore_loop_last:
  assumes "for_each plan (restore_file env ms) u = (Inr (), v)"
    and "t \<in> fst ` set plan \<or> node_at u t = Some (FileNode c)"
    and "\<And>n. (t, n) \<in> set plan \<Longrightarrow> map_of (rev ms) n = Some c"
  shows "node_at v t = Some (FileNode c)"
  using assms
proof (induction plan arbitrary: u)
  case (Cons x plan)
  obtain p n where x: "x = (p, n)" by (rule prod.exhaust)
  obtain u' where step: "restore_file env ms (p, n) u = (Inr (), u')" and rest: "for_each plan (restore_file env ms) u' = (Inr (), v)"
    using Cons.prems(1) unfolding x by (auto elim: bnd_return)
  have "t \<in> fst ` set plan \<or> node_at u' t = Some (FileNode c)"
  proof (cases "p = t")
    case True
    then show ?thesis using restore_file_step(1) [OF step] Cons.prems(3) [of n] x by auto
  next
    case False
    then show ?thesis using Cons.prems(2) x restore_file_step(2) [OF step, of t] by auto
  qed
  then show ?case using Cons.IH [OF rest] Cons.prems(3) by simp
qed (simp add: ret_def)

text \<open>Where a data file goes.\<close>

lemma relative_plain:
  assumes "inside_or_same base p" and "plain_path p" and "plain_path target"
  shows "parse_path (path_str (relative_to p base)) = relative_to p base"
    and "plain_path (join_path target (relative_to p base))"
    and "path_parts p = path_parts base @ path_parts (relative_to p base)" and "path_root p = path_root base"
proof -
  show parts: "path_parts p = path_parts base @ path_parts (relative_to p base)" and "path_root p = path_root base"
    using assms(1) by (auto simp: inside_or_same_def strictly_inside_def relative_to_def) (metis append_take_drop_id)
  have sub: "set (path_parts (relative_to p base)) \<subseteq> set (path_parts p)" unfolding parts by simp
  have "path_root (relative_to p base) = []" by (simp add: relative_to_def)
  then have "wf_path (relative_to p base)" using assms(2) sub by (auto simp: plain_path_def wf_path_def)
  then show "parse_path (path_str (relative_to p base)) = relative_to p base" by (rule parse_path_str)
  show "plain_path (join_path target (relative_to p base))"
    using assms(2,3) sub by (auto simp: plain_path_def wf_path_def join_path_def is_absolute_def relative_to_def)
qed

lemma data_target:
  assumes resolved: "\<And>q. plain_path q \<Longrightarrow> bk_resolve env q = Inr q"
    and "plain_path q" and "plain_path target" and "archive_name base q = Inr name"
    and "restore_target env target name = Inr t"
  shows "t = join_path target (relative_to q base)"
proof -
  have q: "inside_or_same base q" and name: "name = ''maya-data/'' @ path_str (relative_to q base)"
    using assms(4) by (auto simp: archive_name_def relative_path_def split: if_splits)
  have "data_name name = path_str (relative_to q base)" unfolding name by (simp add: data_name_def starts_with_def)
  moreover have "name \<noteq> ''maya-config.json''" "name \<noteq> ''maya-backup-manifest.json''" unfolding name by simp_all
  ultimately show ?thesis
    using assms(5) relative_plain(1,2) [OF q assms(2,3)] resolved by (auto simp: restore_target_def Let_def res_iffs)
qed

lemma same_data_target:
  assumes "plain_path p" and "plain_path q" and "inside_or_same base p" and "inside_or_same base q"
    and "join_path target (relative_to p base) = join_path target (relative_to q base)"
  shows "p = q"
proof -
  have "path_parts (relative_to p base) = path_parts (relative_to q base)"
    using assms(5) by (simp add: join_path_def relative_to_def is_absolute_def)
  then show ?thesis
    using relative_plain(3,4) [OF assms(3,1)] relative_plain(3,4) [OF assms(4,2)] assms(1) by (simp add: path.expand)
qed

lemma last_join: "ws \<noteq> [] \<Longrightarrow> last ws \<noteq> [] \<Longrightarrow> join_with sep ws \<noteq> [] \<and> last (join_with sep ws) = last (last ws)"
proof (induction sep ws rule: join_with.induct)
  case (3 sep w v vs)
  then show ?case by (cases "vs = []") (auto simp: last_append)
qed auto

lemma path_str_end:
  assumes "plain_path p" and "strictly_inside base p"
  shows "path_str (relative_to p base) \<noteq> [] \<and> last (path_str (relative_to p base)) \<noteq> CHR ''/''"
proof -
  let ?ws = "path_parts (relative_to p base)"
  have ws: "?ws \<noteq> []" "path_root (relative_to p base) = []"
    using assms(2) by (auto simp: strictly_inside_def relative_to_def)
  have "last ?ws \<in> set (path_parts p)"
    using last_in_set [OF ws(1)] unfolding relative_to_def path.sel by (rule in_set_dropD)
  then have "last ?ws \<noteq> [] \<and> CHR ''/'' \<notin> set (last ?ws)" using assms(1) by (simp add: plain_path_def wf_path_def)
  then show ?thesis using last_join [OF ws(1), of "''/''"] ws by (auto simp: path_str_def dest: last_in_set)
qed

lemma scan_data_member:
  assumes "scan_members ms = Inr names" and "(''maya-data/'' @ s, c) \<in> set ms" and "s \<noteq> []" and "last s \<noteq> CHR ''/''"
  shows "''maya-data/'' @ s \<in> set names"
  using assms
proof (induction ms arbitrary: names)
  case (Cons m ms)
  obtain n d where m: "m = (n, d)" by (cases m)
  show ?case
  proof (cases "n = ''maya-data/'' @ s")
    case True
    then show ?thesis using Cons.prems(1,3,4) by (auto simp: m res_iffs starts_with_def)
  next
    case False
    then have "(''maya-data/'' @ s, c) \<in> set ms" using Cons.prems(2) by (auto simp: m)
    then show ?thesis using Cons.IH Cons.prems(1,3,4) by (auto simp: m res_iffs split: if_splits)
  qed
qed simp

lemma scan_names: "scan_members ms = Inr names \<Longrightarrow> set names \<subseteq> fst ` set ms"
  by (induction ms arbitrary: names) (fastforce simp: res_iffs split: if_splits)+

lemma scan_append:
  "scan_members (ms @ ms') = Inr names \<Longrightarrow>
     \<exists>ns ns'. scan_members ms = Inr ns \<and> scan_members ms' = Inr ns' \<and> names = ns @ ns'"
proof (induction ms arbitrary: names)
  case (Cons m ms)
  then show ?case by (cases m) (fastforce simp: res_iffs split: if_splits)
qed simp

text \<open>A restore that returns has run the loop over its plan.\<close>

lemma restore_returns:
  assumes "restore_local_backup env archive destination True allow w = (Inr r, u)"
  obtains source target z ms plan w1 where "bk_resolve env archive = Inr source" and "bk_resolve env destination = Inr target"
    and "node_at w source = Some (FileNode z)" and "bk_unzip env z = Some ms"
    and "restore_plan env target ms = Inr plan" and "for_each plan (restore_file env ms) w1 = (Inr (), u)"
proof -
  have zip: "\<exists>z. node_at s p = Some (FileNode z) \<and> bk_unzip env z = Some ms"
    if "open_archive env p s = (Inr ms, t)" for p s t ms
    using that by (auto simp: open_archive_def bak_read_def bak_call_def gets_def modify_def ret_def raise_def
      elim!: bnd_return split: option.splits fnode.splits)
  have source: "bk_resolve env archive = Inr source" if "archive_file env archive s = (Inr source, t)" for s source t
    using that by (auto simp: archive_file_def lift_def gets_def ret_def elim!: bnd_return)
  show thesis
    using assms unfolding restore_local_backup_def
  proof (elim bnd_return)
    fix source s1 target s2 ms s3 plan s4 n s5 a s6
    assume 1: "archive_file env archive w = (Inr source, s1)" and 2: "restore_folder env destination s1 = (Inr target, s2)"
      and 3: "open_archive env source s2 = (Inr ms, s3)" and 4: "lift (restore_plan env target ms) s3 = (Inr plan, s4)"
      and 5: "(if \<not> True then ret (restore_result source target (length plan) True n)
         else bnd (for_each plan (restore_file env ms)) (\<lambda>_. ret (restore_result source target (length plan) False 0))) s6
         = (Inr r, u)"
    obtain z where "node_at s2 source = Some (FileNode z)" "bk_unzip env z = Some ms" using zip [OF 3] by blast
    moreover have "node_at s2 = node_at w"
      using keeps_run [OF keeps_archive_file only_refl 1, of "{}" "{}"] keeps_run [OF keeps_restore_folder only_refl 2, of "{}" "{}"]
      by (simp add: only_def fun_eq_iff)
    moreover have "for_each plan (restore_file env ms) s6 = (Inr (), u)" using 5 by (auto simp: ret_def elim!: bnd_return)
    ultimately show thesis using that source [OF 1] resolved_folder [OF 2] 4 by (simp add: lift_def)
  qed
qed

lemma created_archive:
  "create_local_backup env destination w = (Inr result, v) \<Longrightarrow>
     bk_resolve env (backup_path env destination) = Inr (br_archive_path result)"
  unfolding create_local_backup_def
  by (elim bnd_return) (auto simp: lift_def ret_def split: prod.splits)

lemma all2_left: "list_all2 P xs ys \<Longrightarrow> x \<in> set xs \<Longrightarrow> \<exists>y \<in> set ys. P x y"
  by (induction rule: list_all2_induct) auto

lemma all2_right: "list_all2 P xs ys \<Longrightarrow> y \<in> set ys \<Longrightarrow> \<exists>x \<in> set xs. P x y"
  by (induction rule: list_all2_induct) auto

lemma selected:
  assumes "iter_backup_files env fs = Inr ps" and "bk_resolve env (bak_data_dir env) = Inr (bak_data_dir env)"
    and "bk_resolve env (join_path (bak_data_dir env) (parse_path ''backups'')) = Inr (join_path (bak_data_dir env) (parse_path ''backups''))"
    and "bk_resolve env p = Inr p" and "backed_up env p" and "map_of fs p = Some (FileNode c)"
  shows "p \<in> set ps"
proof -
  let ?base = "bak_data_dir env" and ?backups = "join_path (bak_data_dir env) (parse_path ''backups'')"
  obtain xs where xs: "mapR (select_file env ?base ?backups)
      (filter (\<lambda>p. case map_of fs p of Some (FileNode s) \<Rightarrow> True | _ \<Rightarrow> False)
        (sort_key path_parts (filter (strictly_inside ?base) (map fst fs)))) = Inr xs" and ps: "ps = List.map_filter (\<lambda>x. x) xs"
    using assms(1-3) by (auto simp: iter_backup_files_def res_iffs)
  have "p \<in> set (filter (\<lambda>p. case map_of fs p of Some (FileNode s) \<Rightarrow> True | _ \<Rightarrow> False)
        (sort_key path_parts (filter (strictly_inside ?base) (map fst fs))))"
    using assms(5,6) by (auto simp: backed_up_def intro: rev_image_eqI [OF map_of_SomeD [OF assms(6)]])
  then obtain y where "y \<in> set xs" "select_file env ?base ?backups p = Inr y"
    using all2_left [OF xs [unfolded mapR_Inr_iff]] by blast
  moreover have "select_file env ?base ?backups p = Inr (Some p)"
    using assms(4,5) by (simp add: select_file_def backed_up_def relative_path_def inside_or_same_def)
  ultimately show ?thesis unfolding ps by (force simp: List.map_filter_def)
qed

lemma selected_resolved: "iter_backup_files env fs = Inr ps \<Longrightarrow> q \<in> set ps \<Longrightarrow> \<exists>p. bk_resolve env p = Inr q"
  by (auto simp: iter_backup_files_def res_iffs List.map_filter_def select_file_def dest!: mapR_mem split: if_splits)

text \<open>Only the file at \<open>p\<close> goes to the place of \<open>p\<close>.\<close>

lemma data_unique:
  assumes resolved: "\<And>q. plain_path q \<Longrightarrow> bk_resolve env q = Inr q"
    and plain: "\<And>q. q \<in> set ps \<Longrightarrow> plain_path q" "plain_path target" "plain_path p"
    and data: "list_all2 (\<lambda>p m. archive_name base p = Inr (fst m)
       \<and> (p \<noteq> memory_database base \<longrightarrow> node_at w p = Some (FileNode (snd m)))) ps data"
    and p: "archive_name base p = Inr name" "p \<noteq> memory_database base" "node_at w p = Some (FileNode s)"
    and m: "(n, c) \<in> set data" and t: "restore_target env target n = Inr (join_path target (relative_to p base))"
  shows "n = name \<and> c = s"
proof -
  have inside: "inside_or_same base q" if "archive_name base q = Inr n" for q n
    using that by (auto simp: archive_name_def relative_path_def split: if_splits)
  obtain q where q: "q \<in> set ps" "archive_name base q = Inr n" "q \<noteq> memory_database base \<longrightarrow> node_at w q = Some (FileNode c)"
    using all2_right [OF data m] unfolding fst_conv snd_conv by blast
  have "join_path target (relative_to p base) = join_path target (relative_to q base)"
    using data_target [OF resolved plain(1) [OF q(1)] plain(2) q(2) t] by blast
  then have "p = q" using same_data_target [OF plain(3) plain(1) [OF q(1)] inside [OF p(1)] inside [OF q(2)]] by blast
  then show ?thesis using q(2,3) p by simp
qed

text \<open>The plan for the archive of a backup: the configuration, then the data files.\<close>

lemma plan_of_members:
  assumes "restore_plan env target ((''maya-config.json'', config) # data @ [(''maya-backup-manifest.json'', mt)]) = Inr plan"
  obtains ns x plan' where "scan_members data = Inr ns" and "plan = x # plan'"
    and "list_all2 (\<lambda>n x. restore_target env target n = Inr (fst x) \<and> snd x = n) ns plan'"
proof -
  let ?ms = "(''maya-config.json'', config) # data @ [(''maya-backup-manifest.json'', mt)]"
  obtain names where names: "scan_members ?ms = Inr names"
    and targets: "mapR (\<lambda>name. bindR (restore_target env target name) (\<lambda>p. Inr (p, name))) names = Inr plan"
    using assms by (auto simp: restore_plan_def restore_members_def res_iffs)
  have planned: "list_all2 (\<lambda>n x. restore_target env target n = Inr (fst x) \<and> snd x = n) names plan"
    using targets [unfolded mapR_Inr_iff] by (rule list_all2_mono) (auto simp: res_iffs)
  obtain ns where ns: "scan_members data = Inr ns" and all: "names = ''maya-config.json'' # ns"
    using names by (auto simp: res_iffs dest!: scan_append)
  then show thesis using planned that unfolding all by (auto simp: list_all2_Cons1)
qed

lemma data_named:
  assumes "archive_name base p = Inr name" and "plain_path p" and "strictly_inside base p"
    and "scan_members data = Inr ns" and "(name, c) \<in> set data"
  shows "name \<in> set ns"
proof -
  have "name = ''maya-data/'' @ path_str (relative_to p base)"
    using assms(1) by (auto simp: archive_name_def relative_path_def split: if_splits)
  then show ?thesis using path_str_end [OF assms(2,3)] scan_data_member [OF assms(4)] assms(5) by blast
qed


section \<open>A backup and its restore\<close>

text \<open>A coding of members as a string, to stand for the zip format.\<close>

definition code_text :: "string \<Rightarrow> string" where
  "code_text s = concat (map (\<lambda>c. [CHR ''x'', c]) s) @ ''.''"

fun texts_of :: "string \<Rightarrow> string \<Rightarrow> string list" where
  "texts_of acc [] = []"
| "texts_of acc [d] = [acc]"
| "texts_of acc (d # c # s) = (if d = CHR ''x'' then texts_of (acc @ [c]) s else acc # texts_of [] (c # s))"

fun pairs_of :: "string list \<Rightarrow> members" where
  "pairs_of (n # c # ts) = (n, c) # pairs_of ts"
| "pairs_of ts = []"

definition code_members :: "members \<Rightarrow> string" where
  "code_members ms = concat (map (\<lambda>(n, c). code_text n @ code_text c) ms)"

definition members_of :: "string \<Rightarrow> members option" where
  "members_of s = Some (pairs_of (texts_of [] s))"

lemma texts_of_code: "texts_of acc (code_text s @ r) = (acc @ s) # texts_of [] r"
proof (induction s arbitrary: acc)
  case Nil
  then show ?case by (cases r) (simp_all add: code_text_def)
next
  case (Cons c s)
  then show ?case using Cons [of "acc @ [c]"] by (simp add: code_text_def)
qed

lemma members_of_code: "members_of (code_members ms) = Some ms"
proof -
  have "pairs_of (texts_of [] (code_members ms)) = ms"
    by (induction ms) (auto simp: code_members_def texts_of_code append_assoc)
  then show ?thesis by (simp add: members_of_def)
qed

definition sample_backup :: backup_env where
  "sample_backup =
     \<lparr>bk_config = demo_config, bk_resolve = (\<lambda>p. if plain_path p then Inr p else Inl (os_error ''loop'')),
      bk_fault = (\<lambda>_. None), bk_stamp = ''t'', bk_now = ''now'', bk_dump = (\<lambda>v. Inr ''{}''), bk_utf8 = Inr,
      bk_loads = (\<lambda>t. Inr (VDict [])), bk_repr = (\<lambda>v. []), bk_zip = code_members, bk_unzip = members_of,
      bk_snapshot = (\<lambda>fs p. Inr []), bk_partial = []\<rparr>"

definition sample_files :: backup_world where
  "sample_files =
     \<lparr>bw_files = [(Path ''/'' [], FolderNode), (Path ''/'' [''var''], FolderNode), (Path ''/'' [''var'', ''maya''], FolderNode),
        (Path ''/'' [''var'', ''maya'', ''n''], FileNode ''hi'')], bw_step = 0\<rparr>"

abbreviation sample_archive :: path where
  "sample_archive \<equiv> Path ''/'' [''b'']"

abbreviation sample_target :: path where
  "sample_target \<equiv> Path ''/'' [''r'']"

lemma sample_round:
  "case create_local_backup sample_backup (Some sample_archive) sample_files of
     (Inr r, v) \<Rightarrow> br_archive_path r = sample_archive \<and> node_at v sample_target = None \<and>
       (case restore_local_backup sample_backup sample_archive sample_target True False v of
          (Inr r', u) \<Rightarrow> node_at u sample_target = Some FolderNode | _ \<Rightarrow> False)
   | _ \<Rightarrow> False"
  by code_simp

lemma sample_runs:
  obtains r v r' u where "create_local_backup sample_backup (Some sample_archive) sample_files = (Inr r, v)"
    and "br_archive_path r = sample_archive" and "node_at v sample_target = None"
    and "restore_local_backup sample_backup sample_archive sample_target True False v = (Inr r', u)"
    and "node_at u sample_target = Some FolderNode"
  using sample_round by (auto split: prod.splits sum.splits)

lemma sample_resolve:
  "plain_path q \<Longrightarrow> bk_resolve sample_backup q = Inr q" "bk_resolve sample_backup p = Inr q \<Longrightarrow> plain_path q"
  "bk_resolve sample_backup p = Inr q \<Longrightarrow> bk_resolve sample_backup q = Inr q"
  by (auto simp: sample_backup_def split: if_splits)


theorem restore_confined_witness:
  "\<exists>u v. node_at u (Path ''/'' [''var'', ''maya'', ''n'']) = node_at v (Path ''/'' [''var'', ''maya'', ''n''])
     \<and> node_at v sample_target \<noteq> node_at u sample_target"
proof (rule sample_runs)
  fix r v r' u
  assume create: "create_local_backup sample_backup (Some sample_archive) sample_files = (Inr r, v)"
    and run: "restore_local_backup sample_backup sample_archive sample_target True False v = (Inr r', u)"
    and made: "node_at u sample_target = Some FolderNode" and free: "node_at v sample_target = None"
  have target: "bk_resolve sample_backup sample_target = Inr sample_target"
    by (simp add: sample_backup_def plain_path_def wf_path_def is_absolute_def)
  have c: "confined sample_target False v u"
    using restore_confined [OF sample_resolve(3) run] unfolding target by simp
  have "node_at u (Path ''/'' [''var'', ''maya'', ''n'']) = node_at v (Path ''/'' [''var'', ''maya'', ''n''])"
    using c [unfolded confined_def, THEN spec, of "Path ''/'' [''var'', ''maya'', ''n'']"]
    by (simp add: inside_or_same_def strictly_inside_def prefixes_of_def)
  then show ?thesis using made free by (metis option.distinct(1))
qed


end
