(* ===== verification/Maya_Readers.thy ===== *)
theory Maya_Readers
  imports Maya_Requests Maya_Publication
begin

text \<open>
  \<open>src/project_maya/hermes_plugins/session_readers.py\<close>: reading the one published session of a route,
  the scope of a request on it, and its transcript. The tables, the index and the locks are those of
  \<open>Maya_Creation\<close>, the scope of the request that of \<open>Maya_Requests\<close>. Theorems: a read gives the published
  session of the owner or raises with an empty cache, and a transcript is given only inside its scope.
\<close>

section \<open>State\<close>

text \<open>\<open>SessionEntry\<close>.\<close>

record session_entry =
  se_key :: string
  se_session_id :: string
  se_created :: string
  se_updated :: string

text \<open>
  The attributes of the store (its reader, whether its coordinator and database are those of the
  reader, its cache), and of the reader (the selection lock, the selected scope, whether the body was
  entered, the uuids drawn).
\<close>

record reader_world = store +
  rd_reader :: "nat option"
  rd_attached :: bool
  rd_entries :: "(string \<times> session_entry) list"
  rd_loaded :: bool
  rd_selecting :: bool
  rd_active :: "SessionWriteContext option"
  rd_entered :: bool
  rd_draws :: nat

type_synonym 'a rdr = "(reader_world, 'a) py"

text \<open>
  The reader, and what it finds outside: by step, the import of the middleware and its two answers, the
  middleware as the scope of a request sees it, whether the row of a session is one that has neither
  ended nor been archived and has no parent (columns only the runtime writes), and the messages of a
  session; the conversion of time stamps, uuids and path resolution.
\<close>

record session_reader =
  sr_id :: nat
  sr_coordinator :: coordinator
  sr_limits :: "RequestIdentity \<times> string \<times> path \<times> string \<times> int \<times> rat"
  sr_import :: "nat \<Rightarrow> unit res"
  sr_enabled :: "nat \<Rightarrow> bool res"
  sr_middleware :: "nat \<Rightarrow> middleware res"
  sr_native :: "nat \<Rightarrow> string \<Rightarrow> bool"
  sr_messages :: "nat \<Rightarrow> string \<Rightarrow> pyval list res"
  sr_stamp :: "rat \<Rightarrow> string res"
  sr_uuid :: "nat \<Rightarrow> string"
  sr_existing :: "path \<Rightarrow> path res"
  sr_is_file :: "path \<Rightarrow> bool"
  sr_resolve :: "path \<Rightarrow> path"

abbreviation sr_binding :: "session_reader \<Rightarrow> create_binding" where
  "sr_binding rd \<equiv> c_binding (sr_coordinator rd)"

definition READER_CONTRACT :: string where
  "READER_CONTRACT = ''project-maya.published-session-reader.v1''"

definition host_limits :: "create_binding \<Rightarrow> RequestIdentity \<times> string \<times> path \<times> string \<times> int \<times> rat" where
  "host_limits b = (b_owner b, b_instance_id b, b_database b, b_route_slot b, b_binding_version b, b_timeout b)"

text \<open>
  \<open>__init__\<close>; \<open>genuine\<close>: the coordinator is a \<open>CandidateNativeSessionCreate\<close>, \<open>capable\<close>: the store has the
  method of the overlay.
\<close>

definition reader_init :: "session_reader \<Rightarrow> string \<Rightarrow> bool \<Rightarrow> bool \<Rightarrow> session_reader rdr" where
  "reader_init rd acknowledgement genuine capable =
     bnd (gets rd_reader) (\<lambda>installed.
     bnd (require (acknowledgement = ACKNOWLEDGEMENT \<and> genuine \<and> installed = None \<and> capable)
       (boundary ''session_reader_invalid'')) (\<lambda>_.
     bnd (modify (\<lambda>w. w\<lparr>rd_reader := Some (sr_id rd), rd_selecting := False, rd_active := None\<rparr>)) (\<lambda>_.
     ret (rd\<lparr>sr_limits := host_limits (sr_binding rd)\<rparr>))))"

section \<open>Checks\<close>

text \<open>\<open>_require\<close>; \<open>same\<close>: the store given is the reader's.\<close>

definition reader_require :: "env \<Rightarrow> session_reader \<Rightarrow> bool \<Rightarrow> RequestIdentity \<Rightarrow> unit rdr" where
  "reader_require env rd same identity =
     bnd (gets tw_step) (\<lambda>n.
     bnd (tick env) (\<lambda>_.
     bnd (lift (sr_import rd n)) (\<lambda>_.
     bnd (gets (\<lambda>w. rd_reader w = Some (sr_id rd) \<and> rd_attached w)) (\<lambda>attached.
     bnd (require (same \<and> attached) (boundary ''session_reader_invalid'')) (\<lambda>_.
     bnd (lift (sr_enabled rd n)) (\<lambda>enabled.
     require (enabled \<and> identity = b_owner (sr_binding rd) \<and> sr_limits rd = host_limits (sr_binding rd))
       (boundary ''session_reader_invalid'')))))))"

definition read_action :: "RequestIdentity \<Rightarrow> string \<Rightarrow> string \<Rightarrow> ActionRequest" where
  "read_action identity operation target =
     \<lparr>req_actor_id = id_actor identity, req_capability = ''session.read'', req_target = target,
      req_operation = operation, req_classification = id_classification identity, req_idempotency_key = None,
      req_metadata = [(''contract'', READER_CONTRACT)]\<rparr>"

definition read_record :: "create_binding \<Rightarrow> RequestIdentity \<Rightarrow> string \<Rightarrow> string \<Rightarrow> bool \<Rightarrow> AuditRecord" where
  "read_record b identity operation target granted =
     \<lparr>aud_event_type = ''authorization.published_session_read'', aud_decision = (if granted then ''allow'' else ''deny''),
      aud_reason_code = (if granted then ''governance.session_read_allowed'' else ''governance.session_read_denied''),
      aud_actor_id = id_actor identity, aud_capability = ''session.read'', aud_target = hash_ref b target,
      aud_operation = operation, aud_classification = id_classification identity, aud_idempotency_key = None,
      aud_metadata = [(''contract'', READER_CONTRACT), (''qualification'', ''source_candidate_only'')]\<rparr>"

definition reader_authorize :: "env \<Rightarrow> session_reader \<Rightarrow> RequestIdentity \<Rightarrow> string \<Rightarrow> string \<Rightarrow> unit rdr" where
  "reader_authorize env rd identity operation target =
     bnd (exception_as (boundary ''authorization_unavailable'')
            (bnd (tick env) (\<lambda>_.
             bnd (lift (b_gateway (sr_binding rd) (read_action identity operation target))) (\<lambda>r.
             ret (case r of None \<Rightarrow> False | Some x \<Rightarrow> accepts x))))) (\<lambda>granted.
     bnd (exception_as (boundary ''audit_unavailable'')
            (bnd (tick env) (\<lambda>_.
             sink_write (b_sink (sr_binding rd)) (read_record (sr_binding rd) identity operation target granted)))) (\<lambda>_.
     require granted (boundary ''session_read_denied'')))"

section \<open>The published session of the route\<close>

text \<open>The rows the join of \<open>_validated_entry\<close> selects, \<open>native\<close> being the columns of the runtime.\<close>

definition published_rows ::
  "(string \<Rightarrow> bool) \<Rightarrow> string \<Rightarrow> database \<Rightarrow> (session_row \<times> route_row \<times> transition_row) list" where
  "published_rows native slot db =
     [(s, r, t). r \<leftarrow> db_routes db, s \<leftarrow> db_sessions db, t \<leftarrow> db_transitions db,
       s_id s = r_session_id r \<and> t_correlation t = r_correlation r \<and> r_slot r = slot
       \<and> native (s_id s) \<and> s_source s = ''maya-governed-candidate'']"

definition row_matches ::
  "create_binding \<Rightarrow> RequestIdentity \<Rightarrow> string \<times> int \<Rightarrow> session_row \<times> route_row \<times> transition_row \<Rightarrow> bool" where
  "row_matches b identity route x \<longleftrightarrow>
     (case x of (s, r, t) \<Rightarrow>
        r_version r = snd route \<and> t_target t = fst route \<and> t_state t = ''published''
        \<and> t_principal t = id_actor identity \<and> t_binding_version t = b_binding_version b)"

abbreviation route_unavailable :: pyexc where
  "route_unavailable \<equiv> boundary ''session_route_unavailable''"

text \<open>The last part of \<open>_validated_entry\<close>: the route, its row and the entry.\<close>

definition routed_entry :: "env \<Rightarrow> session_reader \<Rightarrow> RequestIdentity \<Rightarrow> routes \<Rightarrow> session_entry rdr" where
  "routed_entry env rd identity routes =
     (let b = sr_binding rd; slot = b_route_slot b
      in case map_of routes slot of
           None \<Rightarrow> raise route_unavailable
         | Some route \<Rightarrow>
             bnd (gets tw_step) (\<lambda>n.
             bnd (query env (published_rows (sr_native rd n) slot)) (\<lambda>rows.
             case rows of
               [] \<Rightarrow> raise route_unavailable
             | x # _ \<Rightarrow>
                 bnd (require (row_matches b identity route x) route_unavailable) (\<lambda>_.
                 bnd (lift (sr_stamp rd (s_started_at (fst x)))) (\<lambda>stamp.
                 ret \<lparr>se_key = slot, se_session_id = fst route, se_created = stamp, se_updated = stamp\<rparr>)))))"

definition validated_entry :: "env \<Rightarrow> session_reader \<Rightarrow> bool \<Rightarrow> RequestIdentity \<Rightarrow> session_entry rdr" where
  "validated_entry env rd same identity =
     bnd (reader_require env rd same identity) (\<lambda>_.
     bnd (reader_authorize env rd identity ''route_state'' (b_route_slot (sr_binding rd))) (\<lambda>_.
     bnd (store_state_check env (sr_coordinator rd)) (\<lambda>(generation, routes, raw).
     bnd (read_index env) (\<lambda>index.
     bnd (require (index = raw) (boundary ''transition_recovery_required'')) (\<lambda>_.
     bnd (query env unfinished) (\<lambda>open_transition.
     bnd (require (\<not> open_transition) (boundary ''transition_recovery_required'')) (\<lambda>_.
     routed_entry env rd identity routes)))))))"

definition clear_cache :: "unit rdr" where
  "clear_cache = modify (\<lambda>w. w\<lparr>rd_entries := [], rd_loaded := False\<rparr>)"

definition cache_entry :: "session_entry \<Rightarrow> unit rdr" where
  "cache_entry e = modify (\<lambda>w. w\<lparr>rd_entries := [(se_key e, e)], rd_loaded := False\<rparr>)"

definition read_entry :: "env \<Rightarrow> session_reader \<Rightarrow> bool \<Rightarrow> RequestIdentity \<Rightarrow> session_entry rdr" where
  "read_entry env rd same identity =
     try_except
       (bnd (reader_require env rd same identity) (\<lambda>_.
        exclusive env (sr_coordinator rd)
          (bnd (validated_entry env rd same identity) (\<lambda>e.
           bnd (cache_entry e) (\<lambda>_.
           ret e)))))
       (\<lambda>e. if is_boundary e then bnd clear_cache (\<lambda>_. raise e)
            else if is_exception e then bnd clear_cache (\<lambda>_. raise (boundary ''session_read_failed''))
            else raise e)"

section \<open>The scope of a request\<close>

text \<open>
  The scope of \<open>Maya_Requests\<close> on the state of the reader: its own lock is new, the middleware is the one
  of the moment, everything else is carried along.
\<close>

definition enter_request :: "session_reader \<Rightarrow> reader_world \<Rightarrow> reader_world rworld_scheme" where
  "enter_request rd w =
     \<lparr>w_clock = w_clock w, w_thread = w_thread w, w_task = w_task w, w_leases = w_leases w, w_identity = w_identity w,
      w_session = w_session w, w_audit = w_audit w, rq_busy = False, rq_draws = rd_draws w,
      rq_middleware = sr_middleware rd (tw_step w), \<dots> = w\<rparr>"

definition from_request :: "reader_world rworld_scheme \<Rightarrow> reader_world" where
  "from_request v =
     (rworld.more v)\<lparr>w_clock := w_clock v, w_thread := w_thread v, w_task := w_task v, w_leases := w_leases v,
       w_identity := w_identity v, w_session := w_session v, w_audit := w_audit v, rd_draws := rq_draws v\<rparr>"

definition to_request :: "reader_world rworld_scheme \<Rightarrow> reader_world \<Rightarrow> reader_world rworld_scheme" where
  "to_request v u =
     \<lparr>w_clock = w_clock u, w_thread = w_thread u, w_task = w_task u, w_leases = w_leases u, w_identity = w_identity u,
      w_session = w_session u, w_audit = w_audit u, rq_busy = rq_busy v, rq_draws = rd_draws u,
      rq_middleware = rq_middleware v, \<dots> = u\<rparr>"

definition as_request :: "session_reader \<Rightarrow> (reader_world rworld_scheme, 'a) py \<Rightarrow> 'a rdr" where
  "as_request rd m w = (case m (enter_request rd w) of (r, v) \<Rightarrow> (r, from_request v))"

definition in_request :: "'a rdr \<Rightarrow> (reader_world rworld_scheme, 'a) py" where
  "in_request body v = (case body (from_request v) of (r, u) \<Rightarrow> (r, to_request v u))"

definition reader_scope :: "session_reader \<Rightarrow> RequestIdentity \<Rightarrow> string \<Rightarrow> session_binding" where
  "reader_scope rd identity session_id =
     (let b = sr_binding rd
      in \<lparr>sb_owner = identity, sb_session_id = session_id, sb_database = b_database b, sb_operations = [''append''],
          sb_timeout = VFloat (Finite (b_timeout b)), sb_sink = b_sink b, sb_digest = b_digest b, sb_uuid = sr_uuid rd,
          sb_resolve = sr_resolve rd\<rparr>)"

text \<open>The inner part of \<open>authenticated_request\<close>: the body in the selected scope.\<close>

definition selected_body :: "session_entry \<Rightarrow> (session_entry \<Rightarrow> 'a rdr) \<Rightarrow> 'a rdr" where
  "selected_body e body =
     bnd (gets w_session) (\<lambda>selected.
     bnd (modify (\<lambda>w. w\<lparr>rd_active := selected\<rparr>)) (\<lambda>_.
     try_finally
       (bnd (cache_entry e) (\<lambda>_.
        bnd (modify (\<lambda>w. w\<lparr>rd_entered := True\<rparr>)) (\<lambda>_.
        body e)))
       (bnd (modify (\<lambda>w. w\<lparr>rd_active := None\<rparr>)) (\<lambda>_. clear_cache))))"

definition scoped_request :: "env \<Rightarrow> session_reader \<Rightarrow> RequestIdentity \<Rightarrow> (session_entry \<Rightarrow> 'a rdr) \<Rightarrow> 'a rdr" where
  "scoped_request env rd identity body =
     exclusive env (sr_coordinator rd)
       (bnd (validated_entry env rd True identity) (\<lambda>e.
        bnd (reader_authorize env rd identity ''history'' (se_session_id e)) (\<lambda>_.
        bnd (as_request rd (request_binding_init (sr_existing rd) (sr_is_file rd) ACKNOWLEDGEMENT
               (reader_scope rd identity (se_session_id e)))) (\<lambda>scope.
        as_request rd (authenticated_request scope identity (in_request (selected_body e body)))))))"

definition authenticated_read :: "env \<Rightarrow> session_reader \<Rightarrow> RequestIdentity \<Rightarrow> (session_entry \<Rightarrow> 'a rdr) \<Rightarrow> 'a rdr" where
  "authenticated_read env rd identity body =
     bnd (reader_require env rd True identity) (\<lambda>_.
     bnd (gets (\<lambda>w. w_session w = None \<and> \<not> rd_selecting w)) (\<lambda>free.
     bnd (require free (boundary ''session_request_busy'')) (\<lambda>_.
     bnd (modify (\<lambda>w. w\<lparr>rd_selecting := True, rd_entered := False\<rparr>)) (\<lambda>_.
     try_finally
       (try_except (scoped_request env rd identity body)
          (\<lambda>e. if is_boundary e then bnd clear_cache (\<lambda>_. raise e)
               else if is_exception e then
                 bnd clear_cache (\<lambda>_.
                 bnd (gets rd_entered) (\<lambda>entered.
                 if entered then raise e else raise (boundary ''session_scope_failed'')))
               else raise e))
       (modify (\<lambda>w. w\<lparr>rd_selecting := False\<rparr>))))))"

section \<open>The transcript\<close>

abbreviation context_invalid :: pyexc where
  "context_invalid \<equiv> boundary ''session_context_invalid''"

text \<open>Scope and lease of the caller against those selected, in the order of the code.\<close>

definition selected_scope :: "SessionWriteContext \<Rightarrow> SessionWriteContext \<Rightarrow> string \<Rightarrow> unit rdr" where
  "selected_scope bound selected session_id =
     bnd (gets (\<lambda>w. lease_root (w_leases w) (sw_lease bound))) (\<lambda>lease.
     bnd (require (lease = sw_lease selected) context_invalid) (\<lambda>_.
     bnd (active (sw_lease bound)) (\<lambda>live.
     bnd (require live context_invalid) (\<lambda>_.
     bnd (gets (\<lambda>w. Some (sw_identity bound) = w_identity w \<and> sw_thread bound = w_thread w \<and> sw_task bound = w_task w)) (\<lambda>caller.
     require (sw_identity bound = sw_identity selected \<and> caller
       \<and> sw_request_id bound = sw_request_id selected \<and> sw_database bound = sw_database selected
       \<and> sw_session_id bound = sw_session_id selected \<and> session_id = sw_session_id selected) context_invalid)))))"

definition live_entry :: "env \<Rightarrow> session_reader \<Rightarrow> bool \<Rightarrow> SessionWriteContext \<Rightarrow> string \<Rightarrow> unit rdr \<Rightarrow> unit rdr" where
  "live_entry env rd same bound session_id check =
     bnd (validated_entry env rd same (sw_identity bound)) (\<lambda>e.
     bnd (require (se_session_id e = session_id) context_invalid) (\<lambda>_.
     bnd check (\<lambda>_.
     bnd (active (sw_lease bound)) (\<lambda>live.
     require live context_invalid))))"

definition load_transcript :: "env \<Rightarrow> session_reader \<Rightarrow> bool \<Rightarrow> string \<Rightarrow> pyval list rdr" where
  "load_transcript env rd same session_id =
     bnd (gets w_session) (\<lambda>b.
     bnd (gets rd_active) (\<lambda>s.
     case (b, s) of
       (Some bound, Some selected) \<Rightarrow>
         bnd (selected_scope bound selected session_id) (\<lambda>_.
         bnd (reader_require env rd same (sw_identity bound)) (\<lambda>_.
         bnd (live_entry env rd True bound session_id
                (reader_authorize env rd (sw_identity bound) ''history'' session_id)) (\<lambda>_.
         bnd (gets tw_step) (\<lambda>n.
         bnd (io env) (\<lambda>_.
         bnd (lift (sr_messages rd n session_id)) (\<lambda>messages.
         bnd (live_entry env rd True bound session_id (ret ())) (\<lambda>_.
         ret messages)))))))
     | _ \<Rightarrow> raise context_invalid))"

section \<open>Runs that return\<close>

text \<open>Time passed, and nothing else but what other threads do to the authorities.\<close>

definition quiet :: "'z tworld_scheme \<Rightarrow> 'z tworld_scheme \<Rightarrow> bool" where
  "quiet w v \<longleftrightarrow> tworld.more v = tworld.more w \<and> w_thread v = w_thread w \<and> w_task v = w_task w
     \<and> w_leases v = w_leases w \<and> w_identity v = w_identity w \<and> w_session v = w_session w
     \<and> w_audit v = w_audit w"

lemma quiet_refl [simp]: "quiet w w"
  by (simp add: quiet_def)

lemma quiet_trans: "quiet u v \<Longrightarrow> quiet v w \<Longrightarrow> quiet u w"
  by (simp add: quiet_def)

lemma ticked_scope [simp]:
  "w_leases (ticked env w) = w_leases w" "w_identity (ticked env w) = w_identity w"
  "w_session (ticked env w) = w_session w"
  by (simp_all add: ticked_def Let_def split: option.splits)

lemma quiet_ticked [simp]: "quiet w (ticked env v) = quiet w v"
  by (simp add: quiet_def)

lemma quiet_cs: "quiet w v \<Longrightarrow> cs v = cs w"
  for w v :: "'z store_scheme"
  by (rule same_more) (simp add: quiet_def)

lemma io_return: "io env w = (Inr u, v) \<Longrightarrow> v = ticked env w"
  by (auto simp: io_def tick_def modify_def gets_def ret_def raise_def elim!: bnd_return split: option.splits)

lemma query_return: "query env f w = (Inr a, v) \<Longrightarrow> a = f (current (cs w)) \<and> v = ticked env w"
  by (auto simp: query_def gets_def elim!: bnd_return dest!: io_return)

lemma require_return: "require c e w = (Inr u, v) \<Longrightarrow> c \<and> v = w"
  by (simp add: require_def ret_def raise_def split: if_splits)

lemma lift_return: "lift r w = (Inr a, v) \<Longrightarrow> r = Inr a \<and> v = w"
  by (simp add: lift_def)

lemma gets_return: "gets f w = (Inr a, v) \<Longrightarrow> a = f w \<and> v = w"
  by (auto simp: gets_def)

lemma tick_return: "tick env w = (Inr a, v) \<Longrightarrow> v = ticked env w"
  by (simp add: tick_def modify_def)

lemma ret_return: "ret a w = (Inr b, v) \<Longrightarrow> b = a \<and> v = w"
  by (simp add: ret_def)

lemma exception_return: "exception_as e m w = (Inr a, v) \<Longrightarrow> m w = (Inr a, v)"
  by (auto simp: exception_as_def try_except_def raise_def split: prod.splits sum.splits if_splits)

lemmas returns = query_return io_return require_return lift_return gets_return tick_return ret_return

lemma state_return:
  assumes "state_in_transaction env co w = (Inr x, v)"
  shows "quiet w v \<and> store_state co (current (cs w)) = Some x"
  using assms unfolding state_in_transaction_def Let_def
  by (auto simp: store_state_def Let_def raise_def elim!: bnd_return dest!: returns split: option.splits)

lemma state_check_return:
  assumes "store_state_check env co w = (Inr x, v)"
  shows "quiet w v \<and> cs_tx (cs w) = None \<and> store_state co (cs_db (cs w)) = Some x"
  using assms unfolding store_state_check_def
  by (auto simp: current_def quiet_def elim!: bnd_return dest!: returns state_return)

lemma index_return:
  assumes "read_index env w = (Inr raw, v)"
  shows "quiet w v \<and> cs_index (cs w) = Some raw"
  using assms unfolding read_index_def
  by (auto simp: raise_def elim!: bnd_return dest!: returns split: option.splits)

lemma paths_return: "validate_paths env co w = (Inr u, v) \<Longrightarrow> v = ticked env w"
  by (auto simp: validate_paths_def elim!: bnd_return dest!: returns)

lemma finally_io_return:
  assumes "try_finally m (io env) w = (Inr a, v)"
  obtains t where "m w = (Inr a, t)" "v = ticked env t"
proof (cases "m w")
  case (Pair r t)
  show thesis
  proof (cases "io env t")
    case run: (Pair r' t')
    then have "r' = Inr () \<and> r = Inr a \<and> t' = v"
      using assms Pair by (auto simp: try_finally_def split: sum.splits)
    then show thesis using that Pair run io_return [of env t "()" v] by auto
  qed
qed

lemma exclusive_return:
  assumes "exclusive env co body w = (Inr a, v)"
  obtains u t where "quiet w u" "body u = (Inr a, t)" "quiet t v"
proof -
  have "bnd (io env) (\<lambda>_. bnd (require (c_lock_qualified co) (boundary ''transition_lock_unqualified'')) (\<lambda>_.
        bnd (validate_paths env co) (\<lambda>_. bnd (io env) (\<lambda>_.
        try_finally (bnd (validate_paths env co) (\<lambda>_. body)) (io env))))) w = (Inr a, v)"
    using assms by (auto simp: exclusive_def try_except_def raise_def split: prod.splits sum.splits if_splits)
  then show thesis
    by (auto elim!: bnd_return finally_io_return dest!: returns paths_return intro!: that)
qed

section \<open>What a read gives\<close>

definition route_record :: "session_reader \<Rightarrow> AuditRecord" where
  "route_record rd = read_record (sr_binding rd) (b_owner (sr_binding rd)) ''route_state'' (b_route_slot (sr_binding rd)) True"

definition history_record :: "session_reader \<Rightarrow> string \<Rightarrow> AuditRecord" where
  "history_record rd sid = read_record (sr_binding rd) (b_owner (sr_binding rd)) ''history'' sid True"

text \<open>The gateway allows a read without constraints or redactions.\<close>

definition read_allowed :: "session_reader \<Rightarrow> string \<Rightarrow> string \<Rightarrow> bool" where
  "read_allowed rd operation target \<longleftrightarrow>
     (\<exists>x. b_gateway (sr_binding rd) (read_action (b_owner (sr_binding rd)) operation target) = Inr (Some x) \<and> accepts x)"

lemma reader_require_return:
  assumes "reader_require env rd same identity w = (Inr u, v)"
  shows "quiet w v \<and> same \<and> identity = b_owner (sr_binding rd) \<and> rd_reader w = Some (sr_id rd) \<and> rd_attached w"
proof -
  have keep: "rd_reader (ticked env w) = rd_reader w" "rd_attached (ticked env w) = rd_attached w"
    using ticked_simps(6) [of env w] by (cases w, cases "ticked env w", simp)+
  show ?thesis
    using assms unfolding reader_require_def
    by (auto simp: keep elim!: bnd_return dest!: returns)
qed

lemma reader_authorize_return:
  assumes "reader_authorize env rd identity operation target w = (Inr u, v)"
  shows "quiet (w\<lparr>w_audit := w_audit w @ [read_record (sr_binding rd) identity operation target True]\<rparr>) v
    \<and> (\<exists>x. b_gateway (sr_binding rd) (read_action identity operation target) = Inr (Some x) \<and> accepts x)"
proof -
  have sink: "sink_write sink r s = (Inr u, t) \<Longrightarrow> t = s\<lparr>w_audit := w_audit s @ [r]\<rparr>" for sink r and s t :: reader_world and u
    by (auto simp: sink_write_def split: option.splits)
  show ?thesis
    using assms unfolding reader_authorize_def
    by (auto simp: quiet_def elim!: bnd_return dest!: returns exception_return sink split: option.splits)
qed

lemma quiet_reader:
  assumes "quiet w v"
  shows "rd_reader v = rd_reader w" "rd_attached v = rd_attached w" "rd_active v = rd_active w"
    "rd_selecting v = rd_selecting w" "rd_entries v = rd_entries w" "rd_loaded v = rd_loaded w"
  using assms by (cases w, cases v, simp add: quiet_def)+

lemma published_row:
  "(s, r, t) \<in> set (published_rows native slot db) \<Longrightarrow>
     s \<in> set (db_sessions db) \<and> r \<in> set (db_routes db) \<and> t \<in> set (db_transitions db)
     \<and> s_id s = r_session_id r \<and> r_correlation r = t_correlation t \<and> r_slot r = slot \<and> native (s_id s)
     \<and> s_source s = ''maya-governed-candidate''"
  by (auto simp: published_rows_def)

text \<open>The row of a route that a transition of the owner has published.\<close>

definition published_by :: "session_reader \<Rightarrow> database \<Rightarrow> string \<Rightarrow> int \<Rightarrow> bool" where
  "published_by rd db sid version \<longleftrightarrow>
     (\<exists>n s r t. s \<in> set (db_sessions db) \<and> r \<in> set (db_routes db) \<and> t \<in> set (db_transitions db)
        \<and> r_slot r = b_route_slot (sr_binding rd) \<and> r_version r = version \<and> s_id s = r_session_id r
        \<and> sr_native rd n (s_id s) \<and> s_source s = ''maya-governed-candidate'' \<and> t_correlation t = r_correlation r
        \<and> t_target t = sid \<and> t_state t = ''published'' \<and> t_principal t = id_actor (b_owner (sr_binding rd))
        \<and> t_binding_version t = b_binding_version (sr_binding rd))"

text \<open>
  What the tables and the index say of the session of an entry: they agree, no transition is open, the
  route names the session, and a transition of the owner that is published has created it.
\<close>

definition published_session :: "session_reader \<Rightarrow> cstate \<Rightarrow> string \<Rightarrow> bool" where
  "published_session rd s sid \<longleftrightarrow>
     cs_tx s = None \<and> \<not> unfinished (cs_db s)
     \<and> (\<exists>generation routes raw version.
          store_state (sr_coordinator rd) (cs_db s) = Some (generation, routes, raw) \<and> cs_index s = Some raw
          \<and> map_of routes (b_route_slot (sr_binding rd)) = Some (sid, version)
          \<and> published_by rd (cs_db s) sid version)"

lemma routed_entry_return:
  assumes "routed_entry env rd (b_owner (sr_binding rd)) routes w = (Inr e, v)"
  shows "quiet w v \<and> se_key e = b_route_slot (sr_binding rd)
    \<and> (\<exists>version. map_of routes (b_route_slot (sr_binding rd)) = Some (se_session_id e, version)
         \<and> published_by rd (current (cs w)) (se_session_id e) version)"
proof -
  let ?b = "sr_binding rd"
  obtain sid version where route: "map_of routes (b_route_slot ?b) = Some (sid, version)"
    using assms by (auto simp: routed_entry_def Let_def raise_def split: option.splits)
  obtain x rows where rows: "published_rows (sr_native rd (tw_step w)) (b_route_slot ?b) (current (cs w)) = x # rows"
    using assms
    by (cases "published_rows (sr_native rd (tw_step w)) (b_route_slot ?b) (current (cs w))")
      (auto simp: routed_entry_def Let_def route raise_def elim!: bnd_return dest!: returns)
  have "row_matches ?b (b_owner ?b) (sid, version) x" and e: "quiet w v \<and> se_key e = b_route_slot ?b \<and> se_session_id e = sid"
    using assms
    by (auto simp: routed_entry_def Let_def route rows elim!: bnd_return dest!: returns)
  moreover obtain s r t where x: "x = (s, r, t)" by (cases x)
  ultimately have "published_by rd (current (cs w)) sid version"
    using published_row [of s r t "sr_native rd (tw_step w)" "b_route_slot ?b" "current (cs w)"] rows
    unfolding published_by_def row_matches_def x by (auto intro!: exI [of _ s] exI [of _ r] exI [of _ t])
  then show ?thesis using e route by auto
qed

lemma validated_entry_return:
  assumes "validated_entry env rd same identity w = (Inr e, v)"
  shows "quiet (w\<lparr>w_audit := w_audit w @ [route_record rd]\<rparr>) v \<and> same \<and> identity = b_owner (sr_binding rd)
    \<and> rd_reader w = Some (sr_id rd) \<and> rd_attached w
    \<and> read_allowed rd ''route_state'' (b_route_slot (sr_binding rd))
    \<and> se_key e = b_route_slot (sr_binding rd) \<and> published_session rd (cs w) (se_session_id e)"
proof -
  let ?slot = "b_route_slot (sr_binding rd)"
  obtain w1 w2 w3 w4 generation routes raw where
    req: "reader_require env rd same identity w = (Inr (), w1)"
    and auth: "reader_authorize env rd identity ''route_state'' ?slot w1 = (Inr (), w2)"
    and state: "store_state_check env (sr_coordinator rd) w2 = (Inr (generation, routes, raw), w3)"
    and index: "read_index env w3 = (Inr raw, w4)" and closed: "\<not> unfinished (current (cs w4))"
    and entry: "routed_entry env rd identity routes (ticked env w4) = (Inr e, v)"
    using assms by (auto simp: validated_entry_def elim!: bnd_return dest!: returns)
  have owner: "quiet w w1" "same" "identity = b_owner (sr_binding rd)" "rd_reader w = Some (sr_id rd)" "rd_attached w"
    using reader_require_return [OF req] by auto
  have grant: "quiet (w1\<lparr>w_audit := w_audit w1 @ [route_record rd]\<rparr>) w2" "read_allowed rd ''route_state'' ?slot"
    using reader_authorize_return [OF auth] by (auto simp: owner(3) route_record_def read_allowed_def)
  have q: "quiet w2 w3" "quiet w3 w4" "quiet w4 v"
    using state_check_return [OF state] index_return [OF index] routed_entry_return [of env rd routes "ticked env w4" e v]
      entry owner(3) by (auto simp: quiet_def)
  have cs: "cs w1 = cs w" "cs w2 = cs w" "cs w3 = cs w" "cs w4 = cs w"
    using quiet_cs [OF owner(1)] quiet_cs [OF grant(1)] quiet_cs [OF q(1)] quiet_cs [OF q(2)] by simp_all
  have tx: "cs_tx (cs w) = None" "store_state (sr_coordinator rd) (cs_db (cs w)) = Some (generation, routes, raw)"
    and ix: "cs_index (cs w) = Some raw"
    using state_check_return [OF state] index_return [OF index] by (simp_all add: cs)
  have "current (cs w) = cs_db (cs w)" using tx(1) by (simp add: current_def)
  then have "published_session rd (cs w) (se_session_id e)" "se_key e = ?slot"
    using routed_entry_return [of env rd routes "ticked env w4" e v] entry owner(3) tx ix closed
    by (auto simp: published_session_def cs)
  moreover have "quiet (w\<lparr>w_audit := w_audit w @ [route_record rd]\<rparr>) v"
    using owner(1) grant(1) q by (auto simp: quiet_def)
  ultimately show ?thesis using owner grant(2) by simp
qed

section \<open>Reading changes no table\<close>

lemma growing_option: "m = None \<longrightarrow> growing n \<Longrightarrow> (\<And>x. m = Some x \<Longrightarrow> growing (f x)) \<Longrightarrow> growing (case m of None \<Rightarrow> n | Some x \<Rightarrow> f x)"
  by (cases m) simp_all

lemma growing_query [growing_intro]: "growing (query env f)"
  unfolding query_def by (intro growing_intro)

lemma growing_validate_paths [growing_intro]: "growing (validate_paths env co)"
  unfolding validate_paths_def by (intro growing_intro)

lemma growing_state [growing_intro]: "growing (store_state_check env co)"
  unfolding store_state_check_def state_in_transaction_def Let_def
  by (intro growing_intro growing_option impI)

lemma growing_read_index [growing_intro]: "growing (read_index env)"
  unfolding read_index_def by (intro growing_intro growing_option impI)

lemma growing_validated_entry [growing_intro]: "growing (validated_entry env rd same identity)"
proof -
  have "growing (routed_entry env rd identity routes)" for routes
    unfolding routed_entry_def Let_def
    by (intro growing_intro growing_option impI) (auto split: list.splits intro!: growing_intro)
  then show ?thesis
    unfolding validated_entry_def reader_require_def reader_authorize_def
    by (auto intro!: growing_intro)
qed

lemma growing_keeps_cs: "growing m \<Longrightarrow> keeps (\<lambda>v. cs v = c) m"
  for m :: "('z store_scheme, 'a) py"
proof (rule keepsI)
  fix w :: "'z store_scheme"
  assume m: "growing m" and w: "cs w = c"
  have "cs v = c" if "grows w v" for v
    using that w same_more [of v w] by (simp add: grows_def)
  then show "wlp m (\<lambda>_ v. cs v = c) (\<lambda>_ v. cs v = c) w" by (intro wlp_mono [OF growingD [OF m]])
qed

lemma keeps_exclusive:
  assumes "keeps (\<lambda>v. cs v = c) body"
  shows "keeps (\<lambda>v. cs v = c) (exclusive env co body)"
  unfolding exclusive_def
  by (intro keeps_try_except keeps_bnd keeps_if keeps_raise keeps_require keeps_try_finally
      growing_keeps_cs [OF growing_io] growing_keeps_cs [OF growing_validate_paths] assms)

lemma keeps_caches:
  "keeps (\<lambda>v. cs v = c) clear_cache" "keeps (\<lambda>v. cs v = c) (cache_entry e)"
  by (simp_all add: keeps_def clear_cache_def cache_entry_def wp)

lemma keeps_read_entry: "keeps (\<lambda>v. cs v = c) (read_entry env rd same identity)"
proof -
  have "growing (reader_require env rd same identity)"
    unfolding reader_require_def by (intro growing_basic growing_bnd)
  then show ?thesis
    unfolding read_entry_def
    by (intro keeps_try_except keeps_bnd keeps_if keeps_raise keeps_ret keeps_exclusive keeps_caches
        growing_keeps_cs [OF growing_validated_entry]) (rule growing_keeps_cs)
qed

lemma read_entry_return:
  assumes "read_entry env rd same identity w = (Inr e, v)"
  shows "published_session rd (cs w) (se_session_id e) \<and> se_key e = b_route_slot (sr_binding rd)
    \<and> same \<and> identity = b_owner (sr_binding rd) \<and> read_allowed rd ''route_state'' (b_route_slot (sr_binding rd))
    \<and> rd_entries v = [(se_key e, e)] \<and> \<not> rd_loaded v \<and> w_audit v = w_audit w @ [route_record rd]"
proof -
  have "bnd (reader_require env rd same identity) (\<lambda>_. exclusive env (sr_coordinator rd)
      (bnd (validated_entry env rd same identity) (\<lambda>e. bnd (cache_entry e) (\<lambda>_. ret e)))) w = (Inr e, v)"
    using assms
    by (auto simp: read_entry_def try_except_def bnd_def raise_def split: prod.splits sum.splits if_splits)
  then obtain w1 u t x where req: "quiet w w1" and u: "quiet w1 u" and t: "quiet t v"
    and entry: "validated_entry env rd same identity u = (Inr e, x)" and cached: "cache_entry e x = (Inr (), t)"
    by (auto elim!: bnd_return exclusive_return dest!: reader_require_return returns)
  have x: "quiet (u\<lparr>w_audit := w_audit u @ [route_record rd]\<rparr>) x"
    using validated_entry_return [OF entry] by simp
  have "cs u = cs w" using quiet_cs [OF req] quiet_cs [OF u] by simp
  moreover have "w_audit v = w_audit w @ [route_record rd]"
    using req u x t cached by (auto simp: quiet_def cache_entry_def modify_def)
  moreover have "rd_entries v = [(se_key e, e)]" "\<not> rd_loaded v"
    using quiet_reader [OF t] cached by (auto simp: cache_entry_def modify_def)
  ultimately show ?thesis using validated_entry_return [OF entry] by simp
qed

text \<open>
  C10. A read gives the session of the route of its reader only when the tables and the index agree on it,
  no transition is open and one of the owner's has published it, after an allowed and recorded decision;
  the cache then holds that entry alone. Every exception is an error of the boundary and leaves the cache
  empty, and no read changes a table or the index.
\<close>

theorem published_read_sound:
  assumes "read_entry env rd same identity w = (r, v)"
  shows "cs v = cs w
    \<and> (case r of
         Inr e \<Rightarrow> published_session rd (cs w) (se_session_id e) \<and> se_key e = b_route_slot (sr_binding rd)
           \<and> same \<and> identity = b_owner (sr_binding rd) \<and> read_allowed rd ''route_state'' (b_route_slot (sr_binding rd))
           \<and> rd_entries v = [(se_key e, e)] \<and> \<not> rd_loaded v \<and> w_audit v = w_audit w @ [route_record rd]
       | Inl x \<Rightarrow> is_exception x \<longrightarrow> is_boundary x \<and> rd_entries v = [] \<and> \<not> rd_loaded v)"
proof (cases r)
  case (Inr e)
  then show ?thesis
    using read_entry_return [of env rd same identity w e v] keeps_run [OF keeps_read_entry _ assms] assms by simp
next
  case (Inl x)
  have "is_exception x \<longrightarrow> is_boundary x \<and> rd_entries v = [] \<and> \<not> rd_loaded v"
    using assms unfolding Inl read_entry_def
    by (auto simp: try_except_def bnd_def clear_cache_def modify_def raise_def split: prod.splits sum.splits if_splits)
  then show ?thesis using keeps_run [OF keeps_read_entry _ assms] Inl by simp
qed

section \<open>A transcript is read in its scope\<close>

lemma active_return:
  "active l w = (Inr b, v) \<Longrightarrow> \<exists>h. lease_is_active (w_clock w) l (w_leases w) = (b, h) \<and> v = w\<lparr>w_leases := h\<rparr>"
  by (auto simp: active_def split: prod.splits)

text \<open>The scope of the caller is that of the reader, and the caller runs in it.\<close>

definition scope_selected :: "SessionWriteContext \<Rightarrow> SessionWriteContext \<Rightarrow> string \<Rightarrow> reader_world \<Rightarrow> bool" where
  "scope_selected bound selected sid w \<longleftrightarrow>
     lease_root (w_leases w) (sw_lease bound) = sw_lease selected
     \<and> fst (lease_is_active (w_clock w) (sw_lease bound) (w_leases w))
     \<and> w_identity w = Some (sw_identity bound) \<and> sw_identity selected = sw_identity bound
     \<and> sw_thread bound = w_thread w \<and> sw_task bound = w_task w
     \<and> sw_request_id bound = sw_request_id selected \<and> sw_database bound = sw_database selected
     \<and> sw_session_id bound = sid \<and> sw_session_id selected = sid"

lemma selected_scope_return:
  assumes "selected_scope bound selected sid w = (Inr u, v)"
  shows "scope_selected bound selected sid w \<and> (\<exists>h. v = w\<lparr>w_leases := h\<rparr>)"
  using assms unfolding selected_scope_def scope_selected_def
  by (auto elim!: bnd_return dest!: returns active_return)

text \<open>As \<open>quiet\<close>, up to the leases, whose expiry is written when they are asked for, and the log.\<close>

definition logged :: "AuditRecord list \<Rightarrow> reader_world \<Rightarrow> reader_world \<Rightarrow> bool" where
  "logged rs w v \<longleftrightarrow> tworld.more v = tworld.more w \<and> w_session v = w_session w \<and> w_identity v = w_identity w
     \<and> w_audit v = w_audit w @ rs"

lemma logged_trans: "logged rs u v \<Longrightarrow> logged ss v w \<Longrightarrow> logged (rs @ ss) u w"
  by (simp add: logged_def)

lemma logged_cs: "logged rs w v \<Longrightarrow> cs v = cs w"
  by (rule same_more) (simp add: logged_def)

lemma live_entry_return:
  assumes "live_entry env rd same bound sid check w = (Inr u, v)"
    and check: "\<And>s u t. check s = (Inr u, t) \<Longrightarrow> quiet (s\<lparr>w_audit := w_audit s @ rs\<rparr>) t \<and> P"
  shows "logged (route_record rd # rs) w v \<and> P \<and> sw_identity bound = b_owner (sr_binding rd)
    \<and> read_allowed rd ''route_state'' (b_route_slot (sr_binding rd)) \<and> published_session rd (cs w) sid
    \<and> (\<exists>h. lease_is_active (w_clock v) (sw_lease bound) h = (True, w_leases v))"
proof -
  obtain e w1 w2 w3 where entry: "validated_entry env rd same (sw_identity bound) w = (Inr e, w1)" and e: "se_session_id e = sid"
    and run: "check w1 = (Inr (), w2)" and lease: "active (sw_lease bound) w2 = (Inr True, v)"
    using assms(1) by (auto simp: live_entry_def elim!: bnd_return dest!: returns)
  obtain h where a: "lease_is_active (w_clock w2) (sw_lease bound) (w_leases w2) = (True, h)" "v = w2\<lparr>w_leases := h\<rparr>"
    using active_return [OF lease] by auto
  have "logged (route_record rd # rs) w v"
    using validated_entry_return [OF entry] check [OF run] a(2) by (auto simp: logged_def quiet_def)
  then show ?thesis
    using validated_entry_return [OF entry] check [OF run] a e by auto
qed

text \<open>
  C8. A transcript is returned only to a caller that runs in the scope the reader has selected, under its
  identity, thread, task and live lease, on the session the route still publishes; three decisions were
  allowed and recorded for it (the route, the history, the route again after the messages were read), the
  lease was live at the last check, and nothing was written.
\<close>

theorem transcript_in_scope:
  assumes "load_transcript env rd same sid w = (Inr messages, v)"
  shows "\<exists>bound selected n h. w_session w = Some bound \<and> rd_active w = Some selected
    \<and> scope_selected bound selected sid w \<and> sw_identity bound = b_owner (sr_binding rd) \<and> same
    \<and> read_allowed rd ''route_state'' (b_route_slot (sr_binding rd)) \<and> read_allowed rd ''history'' sid
    \<and> published_session rd (cs w) sid \<and> cs v = cs w \<and> sr_messages rd n sid = Inr messages
    \<and> w_audit v = w_audit w @ [route_record rd, history_record rd sid, route_record rd]
    \<and> lease_is_active (w_clock v) (sw_lease bound) h = (True, w_leases v)"
proof -
  obtain bound selected w1 w2 w3 n where scope: "w_session w = Some bound" "rd_active w = Some selected"
    and sel: "selected_scope bound selected sid w = (Inr (), w1)"
    and req: "reader_require env rd same (sw_identity bound) w1 = (Inr (), w2)"
    and before_read: "live_entry env rd True bound sid (reader_authorize env rd (sw_identity bound) ''history'' sid) w2 = (Inr (), w3)"
    and messages: "sr_messages rd n sid = Inr messages"
    and after_read: "live_entry env rd True bound sid (ret ()) (ticked env w3) = (Inr (), v)"
    using assms unfolding load_transcript_def
    by (auto simp: raise_def split: option.splits elim!: bnd_return dest!: returns)
  obtain h1 where w1: "scope_selected bound selected sid w" "w1 = w\<lparr>w_leases := h1\<rparr>"
    using selected_scope_return [OF sel] by auto
  have w2: "quiet w1 w2" "same" "sw_identity bound = b_owner (sr_binding rd)"
    using reader_require_return [OF req] by auto
  have first: "logged [route_record rd, history_record rd sid] w2 w3" "read_allowed rd ''history'' sid"
    using live_entry_return [OF before_read, of "[history_record rd sid]" "read_allowed rd ''history'' sid"]
      reader_authorize_return by (fastforce simp: history_record_def read_allowed_def w2(3))+
  have again: "logged [route_record rd] (ticked env w3) v" "read_allowed rd ''route_state'' (b_route_slot (sr_binding rd))"
    "published_session rd (cs (ticked env w3)) sid"
    and lease: "\<exists>h. lease_is_active (w_clock v) (sw_lease bound) h = (True, w_leases v)"
    using live_entry_return [OF after_read, of "[]" True] by (auto dest!: returns simp: quiet_def)
  have "tworld.more w2 = tworld.more w" using w2(1) w1(2) by (simp add: quiet_def)
  then have cs: "cs w3 = cs w" "cs v = cs w"
    using logged_cs [OF first(1)] logged_cs [OF again(1)] same_more [of w2 w] by simp_all
  moreover have "w_audit v = w_audit w @ [route_record rd, history_record rd sid, route_record rd]"
    using w2(1) w1(2) first(1) again(1) by (simp add: quiet_def logged_def)
  ultimately show ?thesis
    using scope w1(1) w2 first(2) again lease messages by auto
qed

section \<open>The body of a scope runs once, in its scope\<close>

text \<open>
  A call with a body: the body has no part in the outcome, or it is what the body does with one value in
  one state that counts, and these are admitted.
\<close>

definition mediates :: "('e \<Rightarrow> 's \<Rightarrow> bool) \<Rightarrow> (('e \<Rightarrow> ('s, 'a) py) \<Rightarrow> 't \<Rightarrow> 'r) \<Rightarrow> 't \<Rightarrow> bool" where
  "mediates A F w \<longleftrightarrow> (\<forall>body body'. F body w = F body' w)
     \<or> (\<exists>e u. A e u \<and> (\<forall>body body'. body e u = body' e u \<longrightarrow> F body w = F body' w))"

lemma mediates_const: "(\<And>body body'. F body w = F body' w) \<Longrightarrow> mediates A F w"
  by (simp add: mediates_def)

lemma mediates_body: "A e u \<Longrightarrow> mediates A (\<lambda>body. body e) u"
  unfolding mediates_def by blast

lemma mediates_after:
  assumes "mediates A F u" and "\<And>body body'. F body u = F body' u \<Longrightarrow> G body w = G body' w"
  shows "mediates A G w"
  using assms unfolding mediates_def by blast

lemma mediates_bnd:
  assumes "\<And>a u. m w = (Inr a, u) \<Longrightarrow> mediates A (\<lambda>body. F body a) u"
  shows "mediates A (\<lambda>body. bnd m (F body)) w"
proof (cases "m w")
  case (Pair r u)
  show ?thesis
  proof (cases r)
    case (Inl e)
    then show ?thesis by (intro mediates_const) (simp add: bnd_def Pair)
  next
    case (Inr a)
    then show ?thesis
      using Pair by (intro mediates_after [OF assms]) (auto simp: bnd_def)
  qed
qed

lemma mediates_try:
  "mediates A F w \<Longrightarrow> mediates A (\<lambda>body. try_except (F body) h) w"
  "mediates A F w \<Longrightarrow> mediates A (\<lambda>body. try_finally (F body) f) w"
  by (erule mediates_after, simp add: try_except_def try_finally_def)+

lemma mediates_exclusive:
  assumes "\<And>u. quiet w u \<Longrightarrow> mediates A F u"
  shows "mediates A (\<lambda>body. exclusive env co (F body)) w"
  unfolding exclusive_def
  by (intro mediates_try mediates_bnd assms) (auto dest!: returns paths_return)

text \<open>What holds where the body of \<open>authenticated_request\<close> starts.\<close>

definition reader_scope_open :: "session_reader \<Rightarrow> RequestIdentity \<Rightarrow> session_entry \<Rightarrow> reader_world \<Rightarrow> bool" where
  "reader_scope_open rd identity e u \<longleftrightarrow>
     published_session rd (cs u) (se_session_id e) \<and> se_key e = b_route_slot (sr_binding rd)
     \<and> identity = b_owner (sr_binding rd) \<and> w_identity u = Some identity
     \<and> read_allowed rd ''route_state'' (se_key e) \<and> read_allowed rd ''history'' (se_session_id e)
     \<and> rd_entries u = [(se_key e, e)] \<and> \<not> rd_loaded u \<and> rd_selecting u
     \<and> (\<exists>ctx. w_session u = Some ctx \<and> rd_active u = Some ctx \<and> sw_session_id ctx = se_session_id e
          \<and> sw_identity ctx = identity \<and> sw_operations ctx = [''append''] \<and> sw_thread ctx = w_thread u
          \<and> sw_task ctx = w_task u \<and> Suc (sw_lease ctx) = length (w_leases u) \<and> le_active (last (w_leases u)))"

lemma binding_init_keeps: "keeps (\<lambda>v. rworld.more v = m) (request_binding_init existing is_file acknowledgement b)"
  unfolding keeps_def request_binding_init_def exception_as_def bind_session_write_def
  by (auto simp: wp Let_def split: sum.splits)

lemma binding_init_return:
  assumes "as_request rd (request_binding_init existing is_file acknowledgement b) w = (Inr s, v)"
  shows "(\<exists>d. s = b\<lparr>sb_database := d\<rparr>) \<and> cs v = cs w \<and> rd_selecting v = rd_selecting w"
proof -
  obtain x where run: "request_binding_init existing is_file acknowledgement b (enter_request rd w) = (Inr s, x)"
    and v: "v = from_request x"
    using assms by (auto simp: as_request_def split: prod.splits)
  have "rworld.more x = w"
    using keeps_run [OF binding_init_keeps _ run] by (simp add: enter_request_def)
  then have "cs v = cs w" "rd_selecting v = rd_selecting w" by (simp_all add: v from_request_def)
  moreover have "\<exists>d. s = b\<lparr>sb_database := d\<rparr>"
    using run by (auto simp: request_binding_init_def elim!: bnd_return dest!: returns)
  ultimately show ?thesis by simp
qed

lemma mediates_selected:
  assumes "\<And>u. u = w\<lparr>rd_active := w_session w, rd_entries := [(se_key e, e)], rd_loaded := False, rd_entered := True\<rparr> \<Longrightarrow> A e u"
  shows "mediates A (selected_body e) w"
  unfolding selected_body_def
  by (intro mediates_bnd mediates_try mediates_body assms) (auto simp: cache_entry_def modify_def dest!: returns)

lemma mediates_request:
  assumes "\<And>ctx v. request_admitted scope identity (enter_request rd w) ctx v \<Longrightarrow>
      mediates A (selected_body e :: _ \<Rightarrow> 'a rdr) (from_request (v\<lparr>w_session := Some ctx\<rparr>))"
  shows "mediates A (\<lambda>body :: session_entry \<Rightarrow> 'a rdr. as_request rd (authenticated_request scope identity (in_request (selected_body e body)))) w"
proof -
  from request_step [of scope identity "enter_request rd w"]
  consider (refused) x v where "\<And>m :: (reader_world rworld_scheme, 'a) py. authenticated_request scope identity m (enter_request rd w) = (Inl x, v)"
    | (entered) ctx v where "request_admitted scope identity (enter_request rd w) ctx v"
        "\<And>m :: (reader_world rworld_scheme, 'a) py. authenticated_request scope identity m (enter_request rd w) =
           try_finally (in_session_scope ctx m) (leave_request (w_identity (enter_request rd w))) v"
    by blast
  then show ?thesis
  proof cases
    case refused
    then show ?thesis by (intro mediates_const) (simp add: as_request_def)
  next
    case entered
    have "mediates A (\<lambda>body :: session_entry \<Rightarrow> 'a rdr. in_request (selected_body e body)) (v\<lparr>w_session := Some ctx\<rparr>)"
      by (rule mediates_after [OF assms [OF entered(1)]]) (simp add: in_request_def)
    then have "mediates A (\<lambda>body :: session_entry \<Rightarrow> 'a rdr. in_session_scope ctx (in_request (selected_body e body))) v"
      unfolding in_session_scope_def with_session_def
      by (intro mediates_bnd mediates_try) (auto simp: modify_def dest!: returns)
    then show ?thesis
      by (rule mediates_after) (simp add: as_request_def entered(2) try_finally_def)
  qed
qed

lemma scope_opens:
  assumes entry: "published_session rd (cs w) (se_session_id e)" "se_key e = b_route_slot (sr_binding rd)"
      "read_allowed rd ''route_state'' (se_key e)" "read_allowed rd ''history'' (se_session_id e)"
    and owner: "identity = b_owner (sr_binding rd)" and selecting: "rd_selecting w"
    and request: "request_admitted ((reader_scope rd identity (se_session_id e))\<lparr>sb_database := d\<rparr>) identity (enter_request rd w) ctx v"
  shows "reader_scope_open rd identity e
    ((from_request (v\<lparr>w_session := Some ctx\<rparr>))\<lparr>rd_active := w_session (from_request (v\<lparr>w_session := Some ctx\<rparr>)),
       rd_entries := [(se_key e, e)], rd_loaded := False, rd_entered := True\<rparr>)"
  using request entry selecting
  by (simp add: request_admitted_def Let_def reader_scope_open_def owner [symmetric] from_request_def enter_request_def
      new_scope_def new_scope_lease_def reader_scope_def)

lemma mediates_entered:
  assumes selecting: "rd_selecting u" and entry: "validated_entry env rd True identity u = (Inr e, v)"
    and history: "reader_authorize env rd identity ''history'' (se_session_id e) v = (Inr y, s)"
    and scope: "as_request rd (request_binding_init (sr_existing rd) (sr_is_file rd) ACKNOWLEDGEMENT
      (reader_scope rd identity (se_session_id e))) s = (Inr x, t)"
  shows "mediates (reader_scope_open rd identity)
      (\<lambda>body :: session_entry \<Rightarrow> 'a rdr. as_request rd (authenticated_request x identity (in_request (selected_body e body)))) t"
proof -
  have valid: "quiet (u\<lparr>w_audit := w_audit u @ [route_record rd]\<rparr>) v" "identity = b_owner (sr_binding rd)"
    "published_session rd (cs u) (se_session_id e)" "se_key e = b_route_slot (sr_binding rd)"
    "read_allowed rd ''route_state'' (se_key e)"
    using validated_entry_return [OF entry] by auto
  have allowed: "quiet (v\<lparr>w_audit := w_audit v @ [history_record rd (se_session_id e)]\<rparr>) s"
    "read_allowed rd ''history'' (se_session_id e)"
    using reader_authorize_return [OF history] by (auto simp: history_record_def read_allowed_def valid(2))
  have "cs s = cs u" "rd_selecting s"
    using quiet_cs [OF valid(1)] quiet_cs [OF allowed(1)] quiet_reader(4) [OF valid(1)] quiet_reader(4) [OF allowed(1)]
      selecting by simp_all
  then have t: "published_session rd (cs t) (se_session_id e)" "rd_selecting t"
    using binding_init_return [OF scope] valid(3) by auto
  obtain d where x: "x = (reader_scope rd identity (se_session_id e))\<lparr>sb_database := d\<rparr>"
    using binding_init_return [OF scope] by auto
  show ?thesis
    by (intro mediates_request mediates_selected)
      (auto simp: x intro!: scope_opens [OF t(1) valid(4,5) allowed(2) valid(2) t(2)])
qed

lemma mediates_scoped:
  assumes "rd_selecting w"
  shows "mediates (reader_scope_open rd identity) (\<lambda>body :: session_entry \<Rightarrow> 'a rdr. scoped_request env rd identity body) w"
  unfolding scoped_request_def
  by (intro mediates_exclusive mediates_bnd, rule mediates_entered) (use assms in \<open>auto dest: quiet_reader(4)\<close>)

lemma mediates_read:
  "mediates (reader_scope_open rd identity) (\<lambda>body :: session_entry \<Rightarrow> 'a rdr. authenticated_read env rd identity body) w"
  unfolding authenticated_read_def
  by (intro mediates_bnd mediates_try mediates_scoped) (auto simp: modify_def)

text \<open>
  C7. The body of an authenticated request of the reader runs at most once, and only in a scope that is
  open: whatever body is given, the outcome is the same, or it is decided by what the body does with one
  entry in one state. There the entry is the session the route publishes, the identity is the owner's, both
  reads were allowed, the cache holds this entry alone, and the session scope is a fresh one of this thread and
  task, with a live lease, for appends to this session.
\<close>

theorem reader_scope_mediated:
  "(\<forall>body body' :: session_entry \<Rightarrow> 'a rdr. authenticated_read env rd identity body w = authenticated_read env rd identity body' w)
   \<or> (\<exists>e u. reader_scope_open rd identity e u
        \<and> (\<forall>body body' :: session_entry \<Rightarrow> 'a rdr. body e u = body' e u \<longrightarrow>
             authenticated_read env rd identity body w = authenticated_read env rd identity body' w))"
  using mediates_read [of rd identity env w] by (simp add: mediates_def)

section \<open>The claims at concrete inputs\<close>

definition demo_owner :: RequestIdentity where
  "demo_owner = \<lparr>id_actor = ''ana'', id_classification = ''internal''\<rparr>"

definition demo_raw :: string where
  "demo_raw = projection_bytes ''m1'' ''/db'' 1 [(''telegram:1'', ''s1'', 1)]"

definition demo_published :: database where
  "demo_published =
     \<lparr>db_sessions = [\<lparr>s_id = ''s1'', s_source = ''maya-governed-candidate'', s_user_id = ''ana'', s_started_at = 5\<rparr>],
      db_owners = [\<lparr>o_session_id = ''s1'', o_instance_id = ''m1'', o_database_id = ''/db'', o_principal = ''ana'',
        o_classification = ''internal'', o_binding_version = 1, o_lifecycle_status = ''active'', o_parent = None\<rparr>],
      db_routes = [\<lparr>r_slot = ''telegram:1'', r_principal = ''ana'', r_session_id = ''s1'', r_version = 1, r_correlation = ''c1''\<rparr>],
      db_transitions = [\<lparr>t_correlation = ''c1'', t_digest = [], t_principal = ''ana'', t_binding_version = 1,
        t_operation = ''create'', t_target = ''s1'', t_expected_version = 0, t_result_version = 1, t_state = ''published'',
        t_generation = 1, t_hash = [], t_decision_ref = []\<rparr>],
      db_projections =
        [\<lparr>p_singleton = 1, p_schema_version = 1, p_instance_id = ''m1'', p_database_id = ''/db'',
          p_generation = 1, p_hash = demo_raw, p_index_path = ''/s/sessions.json''\<rparr>]\<rparr>"

definition demo_reader :: session_reader where
  "demo_reader =
     \<lparr>sr_id = 0, sr_coordinator = demo_coordinator, sr_limits = host_limits demo_binding,
      sr_import = (\<lambda>_. Inr ()), sr_enabled = (\<lambda>_. Inr True),
      sr_middleware = (\<lambda>_. Inr \<lparr>mw_contract = VStr SESSION_WRITE_CONTRACT, mw_enabled = Inr (VBool True), mw_valid = Inr (VBool True)\<rparr>),
      sr_native = (\<lambda>_ _. True), sr_messages = (\<lambda>_ _. Inr [VStr ''hi'']), sr_stamp = (\<lambda>_. Inr ''1970-01-01''),
      sr_uuid = (\<lambda>_. ''r0''), sr_existing = Inr, sr_is_file = (\<lambda>_. True), sr_resolve = id\<rparr>"

definition demo_scope :: SessionWriteContext where
  "demo_scope =
     \<lparr>sw_identity = demo_owner, sw_request_id = ''r'', sw_session_id = ''s1'', sw_database = Path ''/'' [''db''],
      sw_operations = [''append''], sw_thread = 1, sw_task = Some 7, sw_lease = 0\<rparr>"

text \<open>The state of a reader, outside and inside a scope.\<close>

definition demo_read_world :: "SessionWriteContext option \<Rightarrow> reader_world" where
  "demo_read_world scope =
     \<lparr>w_clock = 100, w_thread = 1, w_task = Some 7,
      w_leases = [\<lparr>le_active = True, le_parent = None, le_deadline = None, le_termination = None\<rparr>],
      w_identity = Some demo_owner, w_session = scope, w_audit = [], tw_step = 7, tw_cancelling = False,
      tw_auths = (\<lambda>_. demo_authority), tw_next = 1, tw_locked = False,
      cs = \<lparr>cs_db = demo_published, cs_tx = None, cs_index = Some demo_raw, cs_committed = True, cs_attempted = True\<rparr>,
      rd_reader = Some 0, rd_attached = True, rd_entries = [], rd_loaded = True, rd_selecting = False,
      rd_active = scope, rd_entered = False, rd_draws = 0\<rparr>"

definition demo_entry :: session_entry where
  "demo_entry = \<lparr>se_key = ''telegram:1'', se_session_id = ''s1'', se_created = ''1970-01-01'', se_updated = ''1970-01-01''\<rparr>"

lemma demo_reads:
  "store_state demo_coordinator demo_published = Some (1, [(''telegram:1'', ''s1'', 1)], demo_raw)"
  by (simp add: store_state_def projection_of_def demo_published_def active_routes_def active_route_def projection_bound_def
      demo_coordinator_def demo_binding_def foreign_keys_ok_def orphan_session_def foreign_owner_def session_ids_def
      path_str_def c_index_def state_bytes_def demo_raw_def Let_def)

lemmas steps = bnd_def gets_def modify_def ret_def require_def lift_def try_except_def try_finally_def exception_as_def

lemma demo_io [simp]: "io demo_env w = (Inr (), ticked demo_env w)"
  by (simp add: io_def tick_def steps demo_env_def)

lemma demo_query [simp]: "query demo_env f w = (Inr (f (current (cs w))), ticked demo_env w)"
  by (simp add: query_def steps)

lemma demo_checked:
  assumes "cs w = cs (demo_read_world None)"
  shows "\<exists>v. store_state_check demo_env demo_coordinator w = (Inr (1, [(''telegram:1'', ''s1'', 1)], demo_raw), v) \<and> quiet w v"
proof -
  have "\<exists>x v. store_state_check demo_env demo_coordinator w = (Inr x, v)"
    using assms demo_reads
    by (auto simp: store_state_check_def state_in_transaction_def steps current_def demo_read_world_def store_state_def
        demo_coordinator_def Let_def split: option.splits if_splits)
  then show ?thesis
    using state_check_return [of demo_env demo_coordinator w] demo_reads assms by (auto simp: demo_read_world_def)
qed

definition demo_ready :: "reader_world \<Rightarrow> bool" where
  "demo_ready w \<longleftrightarrow> cs w = cs (demo_read_world None) \<and> rd_reader w = Some 0 \<and> rd_attached w"

lemma demo_ready_ticked [simp]: "demo_ready (ticked demo_env w) = demo_ready w"
  using quiet_reader [of w "ticked demo_env w"] by (simp add: demo_ready_def)

lemma demo_ready_updates [simp]:
  "demo_ready (w\<lparr>w_audit := rs\<rparr>) = demo_ready w" "demo_ready (w\<lparr>w_leases := ls\<rparr>) = demo_ready w"
  "demo_ready (w\<lparr>rd_selecting := b, rd_entered := c\<rparr>) = demo_ready w" "demo_ready (demo_read_world scope)"
  by (simp_all add: demo_ready_def demo_read_world_def)

lemma demo_ready_quiet: "quiet w v \<Longrightarrow> demo_ready w \<Longrightarrow> demo_ready v"
  using quiet_cs [of w v] quiet_reader [of w v] by (simp add: demo_ready_def)

lemma demo_reader_binding [simp]:
  "c_binding demo_coordinator = demo_binding" "sr_coordinator demo_reader = demo_coordinator"
  "b_route_slot demo_binding = ''telegram:1''" "b_owner demo_binding = demo_owner"
  by (simp_all add: demo_reader_def demo_coordinator_def demo_binding_def demo_owner_def)

lemma demo_required:
  "demo_ready w \<Longrightarrow> reader_require demo_env demo_reader True demo_owner w = (Inr (), ticked demo_env w)"
  using quiet_reader [of w "ticked demo_env w"]
  by (simp add: reader_require_def steps tick_def demo_ready_def demo_reader_def demo_coordinator_def demo_owner_def
      demo_binding_def)

lemma demo_authorized:
  "reader_authorize demo_env demo_reader i operation target w =
     (Inr (), (ticked demo_env (ticked demo_env w))\<lparr>w_audit := w_audit w @ [read_record demo_binding i operation target True]\<rparr>)"
  by (simp add: reader_authorize_def steps tick_def sink_write_def demo_coordinator_def demo_reader_def demo_binding_def
      accepts_def allowed_def result_of_def)

lemma demo_validated:
  assumes "demo_ready w"
  shows "\<exists>v. validated_entry demo_env demo_reader True demo_owner w = (Inr demo_entry, v) \<and> demo_ready v"
proof -
  let ?u = "(ticked demo_env (ticked demo_env (ticked demo_env w)))\<lparr>w_audit := w_audit w @ [route_record demo_reader]\<rparr>"
  have u: "demo_ready ?u" using assms by simp
  then obtain v where state: "store_state_check demo_env demo_coordinator ?u = (Inr (1, [(''telegram:1'', ''s1'', 1)], demo_raw), v)"
    and v: "quiet ?u v"
    using demo_checked [of ?u] by (auto simp: demo_ready_def)
  have ready: "demo_ready v" using demo_ready_quiet [OF v u] .
  then have cs: "cs v = cs (demo_read_world None)" by (simp add: demo_ready_def)
  have index: "read_index demo_env v = (Inr demo_raw, ticked demo_env v)"
    by (simp add: read_index_def steps cs) (simp add: demo_read_world_def steps)
  have "routed_entry demo_env demo_reader demo_owner [(''telegram:1'', ''s1'', 1)] x = (Inr demo_entry, ticked demo_env x)"
    if "cs x = cs v" for x
    by (simp add: routed_entry_def Let_def steps that cs demo_read_world_def current_def published_rows_def demo_published_def row_matches_def demo_reader_def
        demo_entry_def demo_coordinator_def demo_binding_def demo_owner_def steps)
  moreover have "\<not> unfinished (current (cs v))"
    by (simp add: cs demo_read_world_def current_def unfinished_def demo_published_def)
  moreover have "validated_entry demo_env demo_reader True demo_owner w =
     bnd (read_index demo_env) (\<lambda>index.
     bnd (require (index = demo_raw) (boundary ''transition_recovery_required'')) (\<lambda>_.
     bnd (query demo_env unfinished) (\<lambda>open_transition.
     bnd (require (\<not> open_transition) (boundary ''transition_recovery_required'')) (\<lambda>_.
     routed_entry demo_env demo_reader demo_owner [(''telegram:1'', ''s1'', 1)])))) v"
    using demo_required [OF assms] state
    by (simp add: validated_entry_def bnd_def demo_authorized route_record_def)
  ultimately show ?thesis using ready by (simp add: index steps)
qed

lemma demo_paths: "validate_paths demo_env demo_coordinator w = (Inr (), ticked demo_env w)"
proof -
  have "CHR ''/'' \<noteq> char_of (92 :: nat)" by code_simp
  then show ?thesis by (simp add: validate_paths_def steps tick_def paths_valid_def safe_path_def demo_coordinator_def demo_files_def
      demo_binding_def path_str_def c_index_def c_lockfile_def Let_def requireR_def)
qed

lemma demo_exclusive:
  assumes "\<And>u. quiet w u \<Longrightarrow> demo_ready u \<Longrightarrow> \<exists>t. body u = (r, t) \<and> demo_ready t \<and> P t"
    and "demo_ready w" and "\<And>e. r \<noteq> Inl e" and "\<And>t. P t \<Longrightarrow> P (ticked demo_env t)"
  shows "\<exists>v. exclusive demo_env demo_coordinator body w = (r, v) \<and> demo_ready v \<and> P v"
proof -
  let ?u = "ticked demo_env (ticked demo_env (ticked demo_env (ticked demo_env w)))"
  obtain t where t: "body ?u = (r, t)" "demo_ready t" "P t"
    using assms(1) [of ?u] assms(2) by auto
  obtain a where r: "r = Inr a" using assms(3) by (cases r) auto
  have "c_lock_qualified demo_coordinator" by (simp add: demo_coordinator_def)
  then have "exclusive demo_env demo_coordinator body w = (r, ticked demo_env t)"
    using t(1) by (simp add: exclusive_def steps demo_paths r)
  then show ?thesis using t assms(4) by auto
qed

theorem published_read_sound_witness:
  "\<exists>v. read_entry demo_env demo_reader True demo_owner (demo_read_world None) = (Inr demo_entry, v)
     \<and> published_session demo_reader (cs (demo_read_world None)) ''s1'' \<and> rd_entries v = [(''telegram:1'', demo_entry)]
     \<and> w_audit v = [route_record demo_reader]"
proof -
  let ?body = "bnd (validated_entry demo_env demo_reader True demo_owner) (\<lambda>e. bnd (cache_entry e) (\<lambda>_. ret e))"
  have "\<exists>t. ?body u = (Inr demo_entry, t) \<and> demo_ready t \<and> True" if u: "demo_ready u" for u
  proof -
    obtain v where "validated_entry demo_env demo_reader True demo_owner u = (Inr demo_entry, v)" "demo_ready v"
      using demo_validated [OF u] by blast
    then show ?thesis by (simp add: bnd_def ret_def cache_entry_def modify_def demo_ready_def)
  qed
  then have "\<exists>v. exclusive demo_env demo_coordinator ?body (ticked demo_env (demo_read_world None)) = (Inr demo_entry, v)
      \<and> demo_ready v \<and> True"
    by (intro demo_exclusive) simp_all
  then obtain v where "exclusive demo_env demo_coordinator ?body (ticked demo_env (demo_read_world None)) = (Inr demo_entry, v)"
    by blast
  then have run: "read_entry demo_env demo_reader True demo_owner (demo_read_world None) = (Inr demo_entry, v)"
    by (simp add: read_entry_def try_except_def bnd_def demo_required)
  show ?thesis
    using published_read_sound [OF run] run by (simp add: demo_entry_def) (simp add: demo_read_world_def)
qed

lemma demo_live_entry:
  assumes "demo_ready w" and "w_leases w = w_leases (demo_read_world None)"
    and "\<And>u. demo_ready u \<Longrightarrow> \<exists>v. check u = (Inr (), v) \<and> demo_ready v \<and> w_leases v = w_leases u"
  shows "\<exists>v. live_entry demo_env demo_reader True demo_scope ''s1'' check w = (Inr (), v) \<and> demo_ready v
    \<and> w_leases v = w_leases (demo_read_world None)"
proof -
  obtain u where u: "validated_entry demo_env demo_reader True demo_owner w = (Inr demo_entry, u)" "demo_ready u"
    using demo_validated [OF assms(1)] by blast
  then have "w_leases u = w_leases w" using validated_entry_return [OF u(1)] by (simp add: quiet_def)
  moreover obtain v where "check u = (Inr (), v)" "demo_ready v" "w_leases v = w_leases u" using assms(3) [OF u(2)] by blast
  ultimately show ?thesis
    using u assms(2)
    by (auto simp: live_entry_def steps active_def demo_scope_def demo_entry_def demo_read_world_def lease_is_active_def
        expire_def expired_def)
qed

theorem transcript_in_scope_witness:
  "\<exists>v. load_transcript demo_env demo_reader True ''s1'' (demo_read_world (Some demo_scope)) = (Inr [VStr ''hi''], v)
     \<and> published_session demo_reader (cs (demo_read_world None)) ''s1''
     \<and> w_audit v = [route_record demo_reader, history_record demo_reader ''s1'', route_record demo_reader]"
proof -
  let ?w = "demo_read_world (Some demo_scope)"
  have i: "sw_identity demo_scope = demo_owner" by (simp add: demo_scope_def)
  have leases: "w_leases ?w = w_leases (demo_read_world None)" and ready: "demo_ready ?w" by (simp_all add: demo_read_world_def demo_ready_def)
  have "\<exists>v. reader_authorize demo_env demo_reader demo_owner ''history'' ''s1'' u = (Inr (), v) \<and> demo_ready v \<and> w_leases v = w_leases u"
    if "demo_ready u" for u
    using that by (simp add: demo_authorized)
  then obtain u where u: "live_entry demo_env demo_reader True demo_scope ''s1''
      (reader_authorize demo_env demo_reader demo_owner ''history'' ''s1'') (ticked demo_env ?w) = (Inr (), u)"
    "demo_ready u" "w_leases u = w_leases (demo_read_world None)"
    using demo_live_entry [of "ticked demo_env ?w" "reader_authorize demo_env demo_reader demo_owner ''history'' ''s1''"] leases ready
    by auto
  then obtain v where v: "live_entry demo_env demo_reader True demo_scope ''s1'' (ret ()) (ticked demo_env u) = (Inr (), v)"
    using demo_live_entry [of "ticked demo_env u" "ret ()"] by (auto simp: ret_def)
  have "selected_scope demo_scope demo_scope ''s1'' ?w = (Inr (), ?w)"
    by (simp add: selected_scope_def steps active_def demo_scope_def demo_read_world_def lease_is_active_def
        expire_def expired_def demo_owner_def lease_root_def)
  moreover have "w_session ?w = Some demo_scope" "rd_active ?w = Some demo_scope" by (simp_all add: demo_read_world_def)
  moreover have "sr_messages demo_reader n s = Inr [VStr ''hi'']" for n s by (simp add: demo_reader_def)
  ultimately have run: "load_transcript demo_env demo_reader True ''s1'' ?w = (Inr [VStr ''hi''], v)"
    by (simp add: load_transcript_def bnd_def gets_def lift_def ret_def i demo_required ready u(1) v)
  have "w_audit ?w = []" "cs ?w = cs (demo_read_world None)" by (simp_all add: demo_read_world_def)
  then show ?thesis
    using transcript_in_scope [OF run] run by auto
qed

lemma demo_identifiers: "is_identifier ''ana''" "is_identifier ''s1''" "is_identifier ''r0''" "is_identifier ''binding-validation''"
  by (simp_all add: full_class_def identifier_char_def is_alnum_def is_lower_def is_upper_def is_digit_def)

lemma demo_scope_ok: "q \<in> {''r0'', ''binding-validation''} \<Longrightarrow> session_binding_ok q ''s1'' [''append''] (VFloat (Finite 120))"
  using demo_identifiers by (auto simp: session_binding_ok_def SESSION_OPERATIONS_def timeout_value_def Let_def)

definition demo_scope_binding :: session_binding where
  "demo_scope_binding = reader_scope demo_reader demo_owner ''s1''"

lemma demo_scope_binding_simps [simp]:
  "sb_owner demo_scope_binding = demo_owner" "sb_session_id demo_scope_binding = ''s1''"
  "sb_operations demo_scope_binding = [''append'']" "sb_timeout demo_scope_binding = VFloat (Finite 120)"
  "sb_sink demo_scope_binding = (\<lambda>_ _. None)" "sb_uuid demo_scope_binding = (\<lambda>_. ''r0'')"
  by (simp_all add: demo_scope_binding_def reader_scope_def Let_def demo_coordinator_def demo_reader_def demo_binding_def)

lemma demo_scope_opened:
  "\<exists>v. as_request demo_reader (request_binding_init (sr_existing demo_reader) (sr_is_file demo_reader) ACKNOWLEDGEMENT
     demo_scope_binding) w = (Inr demo_scope_binding, v)"
proof -
  let ?bind = "bind_session_write (sb_resolve demo_scope_binding) ''binding-validation'' ''s1''
      (sb_database demo_scope_binding) [''append''] (VFloat (Finite 120)) (\<lambda>_. ret ()) :: (reader_world rworld_scheme, unit) py"
  have owner: "id_actor demo_owner = ''ana''" "id_classification demo_owner = ''internal''"
    "\<lparr>id_actor = ''ana'', id_classification = ''internal''\<rparr> = demo_owner" by (simp_all add: demo_owner_def)
  have bind: "\<exists>u. ?bind (x\<lparr>w_identity := Some demo_owner\<rparr>) = (Inr (), u)" for x
    using bind_session_write_runs [of "''binding-validation''" "''s1''" "[''append'']" "VFloat (Finite 120)"
        "x\<lparr>w_identity := Some demo_owner\<rparr>" demo_owner "sb_resolve demo_scope_binding" "sb_database demo_scope_binding" "ret ()"]
      demo_scope_ok
    by (simp add: in_session_scope_def with_session_def steps revoke_def on_leases_def lease_revoke_def termination_reasons_def)
  have "\<exists>u. bind_request_identity ''ana'' ''internal'' ?bind x = (Inr (), u)" for x
  proof -
    obtain u where "?bind (x\<lparr>w_identity := Some demo_owner\<rparr>) = (Inr (), u)" using bind by blast
    then show ?thesis
      using demo_identifiers(1)
      by (simp add: bind_request_identity_def with_identity_def bnd_def require_def ret_def gets_def modify_def
          try_finally_def owner(3) classifications_def)
  qed
  then obtain u where "bind_request_identity ''ana'' ''internal'' ?bind (enter_request demo_reader w) = (Inr (), u)" by blast
  then have "request_binding_init Inr (\<lambda>_. True) ACKNOWLEDGEMENT demo_scope_binding (enter_request demo_reader w)
      = (Inr demo_scope_binding, u)"
    by (simp add: request_binding_init_def bnd_def require_def ret_def lift_def exception_as_def try_except_def owner(1,2))
  then show ?thesis by (simp add: as_request_def demo_reader_def [THEN arg_cong, of sr_existing] demo_reader_def [THEN arg_cong, of sr_is_file])
qed

text \<open>A body that ends as given, and what each layer around it makes of that.\<close>

definition ends :: "('s, 'a) py \<Rightarrow> 'a res \<Rightarrow> bool" where
  "ends m r \<longleftrightarrow> (\<forall>w. \<exists>v. m w = (r, v))"

lemma ends_selected: "ends (selected_body e (\<lambda>_. lift r)) r"
  unfolding ends_def by (cases r) (simp_all add: selected_body_def steps cache_entry_def clear_cache_def)

lemma ends_in_request: "ends m r \<Longrightarrow> ends (in_request m) r"
  unfolding ends_def in_request_def by (metis (mono_tags, lifting) case_prod_conv)

lemma ends_scope:
  assumes "ends m r"
  shows "ends (in_session_scope ctx m) r"
  unfolding ends_def
proof
  fix w
  obtain v where "m (w\<lparr>w_session := Some ctx\<rparr>) = (r, v)" using assms unfolding ends_def by blast
  then show "\<exists>u. in_session_scope ctx m w = (r, u)"
    by (cases r) (simp_all add: in_session_scope_def with_session_def steps revoke_def on_leases_def lease_revoke_def
        termination_reasons_def raise_def)
qed

lemma demo_request_ends:
  assumes "ends m r"
  shows "\<exists>v. as_request demo_reader (authenticated_request demo_scope_binding demo_owner m) w = (r, v)"
proof -
  let ?w = "enter_request demo_reader w" and ?b = demo_scope_binding
  let ?u = "?w\<lparr>rq_busy := True, rq_draws := Suc (rq_draws ?w), w_audit := w_audit ?w @ [request_record ?b demo_owner ''r0'']\<rparr>"
  have owner: "is_identifier (id_actor demo_owner)" "id_classification demo_owner \<in> set classifications"
    using demo_identifiers(1) by (simp_all add: demo_owner_def classifications_def)
  have "middleware_ok (rq_middleware ?w) = Inr ()" "\<not> rq_busy ?w"
    by (simp_all add: enter_request_def demo_reader_def middleware_ok_def)
  then have run: "authenticated_request ?b demo_owner m ?w = try_finally
      (bind_request_identity (id_actor demo_owner) (id_classification demo_owner)
        (bind_session_write (sb_resolve ?b) ''r0'' ''s1'' (sb_database ?b) [''append''] (VFloat (Finite 120)) (\<lambda>_. m)))
      (modify (\<lambda>w. w\<lparr>rq_busy := False\<rparr>)) ?u"
    by (simp add: authenticated_request_entered request_entry_runs bnd_def try_finally_def)
  obtain v where "in_session_scope (new_scope (sb_resolve ?b) ''r0'' ''s1'' (sb_database ?b) [''append''] demo_owner ?u) m
      (?u\<lparr>w_identity := Some demo_owner, w_leases := w_leases ?u @ [new_scope_lease (VFloat (Finite 120)) ?u]\<rparr>) = (r, v)"
    using ends_scope [OF assms] unfolding ends_def by blast
  then have "authenticated_request ?b demo_owner m ?w = (r, v\<lparr>w_identity := w_identity ?u, rq_busy := False\<rparr>)"
    unfolding run scopes_open [OF owner demo_scope_ok [OF insertI1]]
    by (simp add: try_finally_def leave_request_def modify_def)
  then show ?thesis by (simp add: as_request_def)
qed

lemma demo_scoped_ends:
  assumes "demo_ready w" and "\<And>x. r = Inl x \<Longrightarrow> is_boundary x"
  shows "\<exists>v. scoped_request demo_env demo_reader demo_owner (\<lambda>_. lift r) w = (r, v)"
proof -
  let ?w = "ticked demo_env (ticked demo_env (ticked demo_env (ticked demo_env w)))"
  obtain w1 where w1: "validated_entry demo_env demo_reader True demo_owner ?w = (Inr demo_entry, w1)"
    using demo_validated [of ?w] assms(1) by auto
  let ?w2 = "(ticked demo_env (ticked demo_env w1))\<lparr>w_audit := w_audit w1 @ [read_record demo_binding demo_owner ''history'' ''s1'' True]\<rparr>"
  obtain w3 where w3: "as_request demo_reader (request_binding_init (sr_existing demo_reader) (sr_is_file demo_reader)
      ACKNOWLEDGEMENT demo_scope_binding) ?w2 = (Inr demo_scope_binding, w3)"
    using demo_scope_opened by blast
  obtain v where v: "as_request demo_reader (authenticated_request demo_scope_binding demo_owner
      (in_request (selected_body demo_entry (\<lambda>_. lift r)))) w3 = (r, v)"
    using demo_request_ends [OF ends_in_request [OF ends_selected]] by blast
  have entry: "se_session_id demo_entry = ''s1''" "c_lock_qualified demo_coordinator"
    by (simp_all add: demo_entry_def demo_coordinator_def)
  show ?thesis
    using assms(2) v
    by (cases r) (simp_all add: scoped_request_def exclusive_def bnd_def require_def ret_def try_except_def try_finally_def
        demo_paths w1 demo_authorized entry w3 raise_def demo_scope_binding_def [symmetric])
qed

lemma demo_read_ends:
  assumes "\<And>x. r = Inl x \<Longrightarrow> is_boundary x"
  shows "\<exists>v. authenticated_read demo_env demo_reader demo_owner (\<lambda>_. lift r) (demo_read_world None) = (r, v)"
proof -
  let ?w = "ticked demo_env (demo_read_world None)"
  obtain v where v: "scoped_request demo_env demo_reader demo_owner (\<lambda>_. lift r) (?w\<lparr>rd_selecting := True, rd_entered := False\<rparr>) = (r, v)"
    using demo_scoped_ends [of "?w\<lparr>rd_selecting := True, rd_entered := False\<rparr>" r] assms by auto
  have "w_session ?w = None" "\<not> rd_selecting ?w"
    using quiet_reader(4) [of "demo_read_world None" ?w] by (simp_all add: demo_read_world_def)
  then show ?thesis
    using assms v
    by (cases r) (simp_all add: authenticated_read_def bnd_def demo_required gets_def require_def ret_def modify_def
        try_except_def try_finally_def clear_cache_def raise_def)
qed

theorem reader_scope_mediated_witness:
  "\<exists>e u. reader_scope_open demo_reader demo_owner e u
     \<and> (\<forall>body :: session_entry \<Rightarrow> unit rdr. body e u = (Inr (), u) \<longrightarrow>
          authenticated_read demo_env demo_reader demo_owner body (demo_read_world None) =
            authenticated_read demo_env demo_reader demo_owner (\<lambda>_. ret ()) (demo_read_world None))"
proof -
  let ?fine = "\<lambda>_ :: session_entry. lift (Inr ()) :: unit rdr"
  let ?bad = "\<lambda>_ :: session_entry. lift (Inl context_invalid) :: unit rdr"
  have "fst (authenticated_read demo_env demo_reader demo_owner ?fine (demo_read_world None))
      \<noteq> fst (authenticated_read demo_env demo_reader demo_owner ?bad (demo_read_world None))"
  proof -
    obtain v where "authenticated_read demo_env demo_reader demo_owner ?fine (demo_read_world None) = (Inr (), v)"
      using demo_read_ends [of "Inr ()"] by auto
    moreover obtain v' where "authenticated_read demo_env demo_reader demo_owner ?bad (demo_read_world None) = (Inl context_invalid, v')"
      using demo_read_ends [of "Inl context_invalid"] by auto
    ultimately show ?thesis by simp
  qed
  then obtain e u where "reader_scope_open demo_reader demo_owner e u"
    and same: "\<And>body body' :: session_entry \<Rightarrow> unit rdr. body e u = body' e u \<Longrightarrow>
      authenticated_read demo_env demo_reader demo_owner body (demo_read_world None) =
      authenticated_read demo_env demo_reader demo_owner body' (demo_read_world None)"
    using reader_scope_mediated [where ?'a = unit, of demo_env demo_reader demo_owner "demo_read_world None"] by metis
  moreover have "body e u = ret () u" if "body e u = (Inr (), u)" for body :: "session_entry \<Rightarrow> unit rdr"
    using that by (simp add: ret_def)
  ultimately show ?thesis using same [of _ "\<lambda>_. ret ()"] by blast
qed

end
