(* ===== verification/Spec2Isabelle.thy ===== *)
theory Spec2Isabelle
  imports Maya_Policy Maya_Leases Maya_Config Maya_World Maya_Mediation Maya_Publication
    Maya_Tokens Maya_Telegram Maya_Requests Maya_Handoff Maya_Preparation
    Maya_Migrated Maya_Governed Maya_Business Maya_Documents Maya_Restored Maya_Readers
begin

text \<open>
  Project MAYA: a verification library for the governance core of \<open>src/project_maya\<close>.

  \<^bold>\<open>The program.\<close> Maya wraps the Hermes agent. A typed configuration (\<open>config.py\<close>) says which
  model, connectors and policies an installation has; a policy gateway (\<open>governance.py\<close>) decides
  on actions and an audit sink (\<open>audit.py\<close>) records the decisions. A plugin in the agent
  (\<open>hermes_plugins/governance.py\<close>) sends every model call, tool call, result and session write
  through that gateway, under an identity and a leased session scope. Around it stand the create
  authority (\<open>session_transitions.py\<close>), the coordinator that makes a new session durable
  (\<open>session_creation.py\<close>), its acknowledgement by the caller (\<open>caller_preparation.py\<close>), the scope of
  a Local API request and its client (\<open>session_requests.py\<close>, \<open>session_client.py\<close>), the reader of the
  published session (\<open>session_readers.py\<close>), the handoff of a scope to an executor thread (\<open>session_handoff.py\<close>) and the Telegram intake
  (\<open>telegram_intake.py\<close>). OAuth tokens and instance keys go through the broker (\<open>broker.py\<close>) into a
  secret store (\<open>secrets.py\<close>). The agent itself runs behind \<open>runtime.py\<close>; what it remembers goes
  through a governed facade (\<open>memory/retriever.py\<close>, \<open>memory/provider.py\<close>) into a JSON file
  (\<open>memory/local.py\<close>) or a database with vectors (\<open>memory/sqlite_vector.py\<close>), and
  \<open>memory/business.py\<close> fills the latter from documents. \<open>documents.py\<close> inspects, extracts, creates
  and converts documents under the same policy; \<open>config_profiles.py\<close> fills in configuration
  templates; \<open>migration.py\<close> brings the records of an older database over; \<open>backup.py\<close> archives the
  data directory and restores it.

  \<^bold>\<open>Style.\<close> A Python object is a record, an enumeration a datatype, a dict an association list, a
  string a list of characters below 256. A method that changes state or raises is a function from
  a state to a result and a state (\<open>Maya_Prelude\<close>: \<open>bnd\<close>, \<open>raise\<close>, \<open>try_except\<close>, \<open>try_finally\<close>); state
  changes made before an exception stay. Bodies of \<open>with\<close> blocks, tools, transports, consumers
  and executors are arbitrary computations, so a claim about them holds whatever they do.
  Weakest preconditions (\<open>wlp\<close>, the collection \<open>wp\<close>) carry the proofs; \<open>keeps\<close>, \<open>growing\<close> and \<open>rn\<close> are
  the calculi for a kept property, for what may only grow, and for the store alone.

  \<^bold>\<open>Theories.\<close>
  \<^item> \<open>Maya_Prelude\<close>, \<open>Maya_Values\<close>: exceptions, computations, the contract of a gate (locale
    \<open>mediated_call\<close>), Python values, decimal notation.
  \<^item> \<open>Maya_Policy\<close> (\<open>governance.py\<close>, \<open>audit.py\<close>): decisions, rules, first match, policy files; locale
    \<open>plain_gateway\<close>, interpreted on both gateways of the code.
  \<^item> \<open>Maya_Config_Types\<close>, \<open>Maya_Config\<close> (\<open>config.py\<close>), \<open>Maya_Connectors\<close> (\<open>connectors.py\<close>): the
    configuration, its validation, reading and writing; connector admission.
  \<^item> \<open>Maya_Leases\<close>, \<open>Maya_World\<close>, \<open>Maya_Payload\<close>, \<open>Maya_Boundary\<close>, \<open>Maya_Mediation\<close>
    (\<open>hermes_plugins/governance.py\<close>): the lease tree; identity and session scopes; the payload
    scanner with its patterns and the part of URL splitting the route check reads; every callback;
    complete mediation, confinement and the errors that leave.
  \<^item> \<open>Maya_Transitions\<close> (\<open>session_transitions.py\<close>), \<open>Maya_Database\<close>, \<open>Maya_Creation\<close>,
    \<open>Maya_Publication\<close> (\<open>session_creation.py\<close>): the authority with its lock, guards and scope under an
    environment that may revoke, cancel and fail at any step; tables with their keys; the create
    operation; what a create leaves behind after any failure, and the invariant of the store over
    every history of creates and crashes (\<open>store_run\<close>).
  \<^item> \<open>Maya_Preparation\<close> (\<open>caller_preparation.py\<close>): acknowledgement or quarantine of the one waiting
    receipt.
  \<^item> \<open>Maya_Requests\<close> (\<open>session_requests.py\<close>, \<open>session_client.py\<close>), \<open>Maya_Handoff\<close>
    (\<open>session_handoff.py\<close>), \<open>Maya_Telegram\<close> (\<open>telegram_intake.py\<close>): the entry points. Each is an
    interpretation of \<open>mediated_call\<close>.
  \<^item> \<open>Maya_Json\<close>, \<open>Maya_Base64\<close>, \<open>Maya_Time\<close>: the encodings the broker signs and stores, with round
    trips; bytes are 8-bit words.
  \<^item> \<open>Maya_Secrets\<close> (\<open>secrets.py\<close>): references, paths, and the interface of a store as the locale
    \<open>secret_store\<close>, interpreted on the in-memory store and on the unavailable one.
  \<^item> \<open>Maya_Broker_Protocol\<close>, \<open>Maya_Broker\<close>, \<open>Maya_Tokens\<close> (\<open>broker.py\<close>): signed messages, the replay
    cache and the conformance run; OAuth sessions and the life of a token, proved for every store
    that satisfies \<open>secret_store\<close>.

  \<^item> \<open>Maya_Paths\<close>, \<open>Maya_Profiles\<close> (\<open>config_profiles.py\<close>): paths and files; the search for
    placeholders, their replacement and the loading of a profile.
  \<^item> \<open>Maya_Governed\<close> (\<open>runtime.py\<close>): the authorization step that runtime, memory and documents share,
    and the run of the agent.
  \<^item> \<open>Maya_Memory\<close>, \<open>Maya_Recalled\<close> (\<open>memory/retriever.py\<close>, \<open>provider.py\<close>, \<open>local.py\<close>): the facades
    over any retriever, the locale \<open>retriever\<close> of its laws, the store in a JSON file with its
    interpretation and its refinement of a map. \<open>Maya_Vector\<close>, \<open>Maya_Vectors\<close>
    (\<open>sqlite_vector.py\<close>): the tables, the index and the searches, the second interpretation, and the
    invariant over every history. \<open>Maya_Business\<close> (\<open>business.py\<close>): chunks, ingest, search, rebuild.
  \<^item> \<open>Maya_Documents\<close> (\<open>documents.py\<close>): the four operations over files, with the libraries and
    LibreOffice as parameters.
  \<^item> \<open>Maya_Migration\<close>, \<open>Maya_Migrated\<close> (\<open>migration.py\<close>): statements, transactions, backup, report
    and the run of a migration; what it leaves behind whatever fails.
  \<^item> \<open>Maya_Backup\<close>, \<open>Maya_Restored\<close> (\<open>backup.py\<close>): archives, their manifest, inspection and restore;
    which paths change (\<open>only\<close>, \<open>confined\<close>), and the round trip.
  \<^item> \<open>Maya_Readers\<close> (\<open>session_readers.py\<close>): the reader of the published session over the tables of
    \<open>Maya_Creation\<close>, its scope over that of \<open>Maya_Requests\<close>, and the transcript. \<open>quiet\<close> says that only
    time has passed, \<open>mediates\<close> how a call depends on its body.

  \<^bold>\<open>What the claims show.\<close> Safety of the boundary: no tool, model, request, handoff, update or
  session write proceeds unless every check of the code passed and its decision is on record, and a
  refusal does not depend on what was refused. Invariants: scopes end their leases, a revoked lease
  never comes back, the tables and the index of the session store stay coherent, no update is
  handed over twice. Functional behaviour: first match of the policy, admission of connectors,
  acceptance of broker messages, refresh and revocation of tokens. Round trips: configuration,
  base64, time stamps, signed requests. Errors: which exceptions leave, and three behaviours the
  code does not mean to have (the loopback test on host names, the replayed OAuth callback, the
  state missing from the authorization URL).
  For memory, documents and migration: every operation is authorized and recorded before it reads or
  changes anything; a session is read only as published, and a transcript only in its scope; a bulk write, a rebuild, a migration and a backup are all or nothing whatever fails; a restore
  stays in its destination and gives the files back; the
  JSON file refines the map from identities to documents; chunks and results keep their bounds; and
  the cases in which one bad document blocks a store are stated as they are.

  \<^bold>\<open>Bounds and fuel.\<close> \<open>check_value\<close> has the depth Python's recursion limit leaves as an argument: beyond
  it the code raises, and so does the model. \<open>root_fuel\<close> and \<open>active_fuel\<close> follow parent links, which
  point to older leases, so the position of a lease is enough (\<open>root_fuel_enough\<close>,
  \<open>active_fuel_enough\<close>). \<open>read_members\<close> and \<open>read_json_str\<close> take the length of the text, and every step
  consumes a character. \<open>slices\<close>, \<open>str_replace\<close> and \<open>find_placeholders\<close> shorten their text. All other recursion is structural or has a measure.

  \<^bold>\<open>Parameters.\<close> Code that is not in the repository is an argument: SHA-256, Ed25519, the clock,
  random values, the JSON reader beyond flat objects and the texts of floats, path resolution,
  SQLite's failures, the middleware of the runtime, the HTTP connection, the event loop and the
  executor, the telegram library, the embedding model, the ranking of the full-text index, rounding
  of floats, \<open>casefold\<close>, the PDF libraries and LibreOffice. Where a claim needs a documented law of one (a signature
  verifies only what was signed; an error of the operating system is not a boundary error), the law
  is a named hypothesis and a witness shows that it can hold.

  \<^bold>\<open>Not modelled.\<close> The registration of the plugin with its host and the check of the runtime
  contract; the DPAPI calls behind the Windows secret store; the command lines and HTTP serving;
  the candidate composition (\<open>candidate*.py\<close>);
  release and update; the embedding model, the memory plugin of the agent and the providers of
  third-party memory services; skills, model configuration, Metabase and integrations; set-up,
  repair and inspection of the host; build scripts; the parsing of arguments of \<open>migration.py\<close>.
\<close>

end
